(* ===== verification/Prelude.thy ===== *)
theory Prelude
  imports Main "HOL-Library.Char_ord" "HOL-Library.List_Lexorder" "HOL-Library.Sublist"
begin

text \<open>
  Vocabulary shared by every component. A Go \<open>string\<close> is a sequence of bytes, and so is the
  HOL \<open>string\<close> (a list of 8-bit characters), so \<open>len(s)\<close> is \<open>length s\<close>, \<open>s[i:]\<close> is
  \<open>drop i s\<close> and \<open>s[:i]\<close> is \<open>take i s\<close>. The functions of the package \<open>strings\<close> that
  the program calls are given here with the behaviour of the Go standard library, and the
  lemmas every component needs about them are proved here once.
\<close>

named_theorems go_string \<comment> \<open>facts about the string functions, for \<open>simp add: go_string\<close>\<close>
named_theorems byte_simps \<comment> \<open>unfolds the character classes into comparisons of bytes\<close>

section \<open>Bytes\<close>

abbreviation dq :: char where "dq \<equiv> CHR 0x22"   \<comment> \<open>double quote\<close>
abbreviation bsl :: char where "bsl \<equiv> CHR 0x5C"  \<comment> \<open>backslash\<close>
abbreviation bt :: char where "bt \<equiv> CHR 0x60"   \<comment> \<open>backtick\<close>
abbreviation nl :: char where "nl \<equiv> CHR 0x0A"
abbreviation cr :: char where "cr \<equiv> CHR 0x0D"
abbreviation tab :: char where "tab \<equiv> CHR 0x09"

abbreviation byte :: "char \<Rightarrow> nat" where "byte c \<equiv> of_char c"

definition byte_between :: "nat \<Rightarrow> nat \<Rightarrow> char \<Rightarrow> bool" where
  "byte_between lo hi c \<longleftrightarrow> lo \<le> byte c \<and> byte c \<le> hi"

definition is_lower :: "char \<Rightarrow> bool" where "is_lower c \<longleftrightarrow> byte_between 97 122 c"
definition is_upper :: "char \<Rightarrow> bool" where "is_upper c \<longleftrightarrow> byte_between 65 90 c"
definition is_digit :: "char \<Rightarrow> bool" where "is_digit c \<longleftrightarrow> byte_between 48 57 c"

text \<open>The letters and the punctuation that may follow a backslash in a JSON string.\<close>

definition ctl_letter :: "char \<Rightarrow> bool" where
  "ctl_letter c \<longleftrightarrow> c \<in> {CHR ''n'', CHR ''r'', CHR ''t'', CHR ''b'', CHR ''f''}"

definition plain_escape :: "char \<Rightarrow> bool" where
  "plain_escape c \<longleftrightarrow> c \<in> {dq, bsl, CHR ''/'', CHR ''u''}"

definition is_tnr :: "char \<Rightarrow> bool" where
  "is_tnr c \<longleftrightarrow> c = tab \<or> c = nl \<or> c = cr"

lemmas [byte_simps] = byte_between_def is_lower_def is_upper_def is_digit_def

section \<open>Slices and searching\<close>

text \<open>\<open>s[a:b]\<close>. Go panics unless \<open>a \<le> b \<le> len(s)\<close>; the components prove these bounds
  where the code slices.\<close>

definition slice :: "'a list \<Rightarrow> nat \<Rightarrow> nat \<Rightarrow> 'a list" where
  "slice s a b = take (b - a) (drop a s)"

definition slice_ok :: "'a list \<Rightarrow> nat \<Rightarrow> nat \<Rightarrow> bool" where
  "slice_ok s a b \<longleftrightarrow> a \<le> b \<and> b \<le> length s"

text \<open>\<open>strings.HasPrefix\<close> and \<open>strings.HasSuffix\<close>.\<close>

fun has_prefix :: "string \<Rightarrow> string \<Rightarrow> bool" where
  "has_prefix s [] = True"
| "has_prefix [] (p # ps) = False"
| "has_prefix (c # cs) (p # ps) = (c = p \<and> has_prefix cs ps)"

definition has_suffix :: "string \<Rightarrow> string \<Rightarrow> bool" where
  "has_suffix s p = has_prefix (rev s) (rev p)"

text \<open>\<open>strings.Index\<close>: \<open>None\<close> is Go's \<open>-1\<close>.\<close>

fun index_of :: "string \<Rightarrow> string \<Rightarrow> nat option" where
  "index_of [] t = (if t = [] then Some 0 else None)"
| "index_of (c # cs) t =
     (if has_prefix (c # cs) t then Some 0 else map_option Suc (index_of cs t))"

lemma index_of_bound: "index_of s t = Some i \<Longrightarrow> i + length t \<le> length s"
proof (induction s arbitrary: i)
  case Nil
  then show ?case by (simp split: if_splits)
next
  case (Cons c cs)
  have pre: "length p \<le> length s" if "has_prefix s p" for s p
    using that by (induction s p rule: has_prefix.induct) auto
  from Cons show ?case using pre [of "c # cs" t] by (force split: if_splits)
qed

definition contains_str :: "string \<Rightarrow> string \<Rightarrow> bool" where
  "contains_str s t \<longleftrightarrow> index_of s t \<noteq> None"

text \<open>\<open>strings.LastIndex\<close> of a one-byte string, and \<open>strings.IndexAny\<close> with an ASCII cutset.\<close>

definition last_index_byte :: "string \<Rightarrow> char \<Rightarrow> nat option" where
  "last_index_byte s c = (if c \<in> set s
     then Some (length s - 1 - length (takeWhile (\<lambda>x. x \<noteq> c) (rev s))) else None)"

definition index_any :: "string \<Rightarrow> string \<Rightarrow> nat option" where
  "index_any s cutset = (if \<exists>c \<in> set s. c \<in> set cutset
     then Some (length (takeWhile (\<lambda>x. x \<notin> set cutset) s)) else None)"

text \<open>\<open>strings.TrimLeft\<close>, \<open>TrimRight\<close> and \<open>Trim\<close> with an ASCII cutset.\<close>

definition trim_left_set :: "string \<Rightarrow> string \<Rightarrow> string" where
  "trim_left_set s cutset = dropWhile (\<lambda>c. c \<in> set cutset) s"

definition trim_right_set :: "string \<Rightarrow> string \<Rightarrow> string" where
  "trim_right_set s cutset = rev (dropWhile (\<lambda>c. c \<in> set cutset) (rev s))"

definition trim_set :: "string \<Rightarrow> string \<Rightarrow> string" where
  "trim_set s cutset = trim_right_set (trim_left_set s cutset) cutset"

definition trim_prefix :: "string \<Rightarrow> string \<Rightarrow> string" where
  "trim_prefix s p = (if has_prefix s p then drop (length p) s else s)"

text \<open>\<open>strings.ReplaceAll\<close> for a nonempty old string.\<close>

function replace_all :: "string \<Rightarrow> string \<Rightarrow> string \<Rightarrow> string" where
  "replace_all [] old new = []"
| "replace_all (c # cs) old new =
     (if old \<noteq> [] \<and> has_prefix (c # cs) old
      then new @ replace_all (drop (length old) (c # cs)) old new
      else c # replace_all cs old new)"
  by pat_completeness auto
termination
  by (relation "measure (\<lambda>(s, _, _). length s)") auto

text \<open>\<open>strings.Join\<close> and \<open>strings.Split\<close> with a one-byte separator (the result is never
  empty).\<close>

fun join_str :: "string \<Rightarrow> string list \<Rightarrow> string" where
  "join_str sep [] = []"
| "join_str sep [x] = x"
| "join_str sep (x # y # ys) = x @ sep @ join_str sep (y # ys)"

fun split_byte :: "char \<Rightarrow> string \<Rightarrow> string list" where
  "split_byte sep [] = [[]]"
| "split_byte sep (c # cs) =
     (if c = sep then [] # split_byte sep cs
      else (case split_byte sep cs of [] \<Rightarrow> [[c]] | l # ls \<Rightarrow> (c # l) # ls))"

section \<open>White space as \<open>unicode.IsSpace\<close> sees it\<close>

text \<open>
  \<open>strings.TrimSpace\<close> removes Unicode white space. In UTF-8 these are the six ASCII ones and
  the encodings of U+0085, U+00A0, U+1680, U+2000 to U+200A, U+2028, U+2029, U+202F, U+205F
  and U+3000. \<open>space_prefix s\<close> is the number of bytes of the white space character that
  \<open>s\<close> starts with, 0 if it starts with none.
\<close>

definition ascii_space :: "char \<Rightarrow> bool" where
  "ascii_space c \<longleftrightarrow> byte c = 32 \<or> byte_between 9 13 c"

fun space_prefix :: "string \<Rightarrow> nat" where
  "space_prefix [] = 0"
| "space_prefix (a # s) =
     (if ascii_space a then 1
      else if byte a = 0xC2 then
        (case s of b # _ \<Rightarrow> (if byte b = 0x85 \<or> byte b = 0xA0 then 2 else 0) | [] \<Rightarrow> 0)
      else (case s of
              b # c # _ \<Rightarrow>
                (if byte a = 0xE1 \<and> byte b = 0x9A \<and> byte c = 0x80
                  \<or> byte a = 0xE2 \<and> byte b = 0x80 \<and>
                      (byte_between 0x80 0x8A c \<or> byte c = 0xA8 \<or> byte c = 0xA9 \<or> byte c = 0xAF)
                  \<or> byte a = 0xE2 \<and> byte b = 0x81 \<and> byte c = 0x9F
                  \<or> byte a = 0xE3 \<and> byte b = 0x80 \<and> byte c = 0x80
                 then 3 else 0)
            | _ \<Rightarrow> 0))"

text \<open>The same on the reversed string: the white space character the string ends with.\<close>

fun space_suffix_rev :: "string \<Rightarrow> nat" where
  "space_suffix_rev [] = 0"
| "space_suffix_rev (a # s) =
     (if ascii_space a then 1
      else if (case s of b # _ \<Rightarrow> space_prefix [b, a] = 2 | [] \<Rightarrow> False) then 2
      else if (case s of b # c # _ \<Rightarrow> space_prefix [c, b, a] = 3 | _ \<Rightarrow> False) then 3
      else 0)"

lemma space_prefix_le: "space_prefix s \<le> length s"
  by (cases s) (auto split: list.split)

lemma space_suffix_rev_le: "space_suffix_rev s \<le> length s"
  by (cases s) (auto split: list.split)

function trim_left_space :: "string \<Rightarrow> string" where
  "trim_left_space s =
     (if space_prefix s = 0 then s else trim_left_space (drop (space_prefix s) s))"
  by pat_completeness auto
termination
proof (relation "measure length")
  fix s :: string
  assume "space_prefix s \<noteq> 0"
  with space_prefix_le [of s] show "(drop (space_prefix s) s, s) \<in> measure length" by auto
qed simp

function trim_right_space_rev :: "string \<Rightarrow> string" where
  "trim_right_space_rev s =
     (if space_suffix_rev s = 0 then s else trim_right_space_rev (drop (space_suffix_rev s) s))"
  by pat_completeness auto
termination
proof (relation "measure length")
  fix s :: string
  assume "space_suffix_rev s \<noteq> 0"
  with space_suffix_rev_le [of s] show "(drop (space_suffix_rev s) s, s) \<in> measure length"
    by auto
qed simp

declare trim_left_space.simps [simp del] trim_right_space_rev.simps [simp del]

definition trim_space :: "string \<Rightarrow> string" where
  "trim_space s = rev (trim_right_space_rev (rev (trim_left_space s)))"

lemma trim_left_space_no_prefix: "space_prefix (trim_left_space s) = 0"
proof (induction s rule: trim_left_space.induct)
  case (1 s)
  then show ?case by (cases "space_prefix s = 0") (simp_all add: trim_left_space.simps [of s])
qed

lemma trim_right_space_rev_no_suffix: "space_suffix_rev (trim_right_space_rev s) = 0"
proof (induction s rule: trim_right_space_rev.induct)
  case (1 s)
  then show ?case
    by (cases "space_suffix_rev s = 0") (simp_all add: trim_right_space_rev.simps [of s])
qed

lemma trim_left_space_id: "space_prefix s = 0 \<Longrightarrow> trim_left_space s = s"
  by (simp add: trim_left_space.simps [of s])

lemma trim_right_space_rev_id: "space_suffix_rev s = 0 \<Longrightarrow> trim_right_space_rev s = s"
  by (simp add: trim_right_space_rev.simps [of s])

lemma suffix_trim_left_space: "suffix (trim_left_space s) s"
proof (induction s rule: trim_left_space.induct)
  case (1 s)
  show ?case
  proof (cases "space_prefix s = 0")
    case True
    then show ?thesis by (simp add: trim_left_space_id)
  next
    case False
    with "1" have "suffix (trim_left_space (drop (space_prefix s) s)) (drop (space_prefix s) s)"
      by simp
    then show ?thesis using False suffix_drop suffix_order.trans
      by (fastforce simp add: trim_left_space.simps [of s])
  qed
qed

lemma suffix_trim_right_space_rev: "suffix (trim_right_space_rev s) s"
proof (induction s rule: trim_right_space_rev.induct)
  case (1 s)
  show ?case
  proof (cases "space_suffix_rev s = 0")
    case True
    then show ?thesis by (simp add: trim_right_space_rev_id)
  next
    case False
    with "1" have
      "suffix (trim_right_space_rev (drop (space_suffix_rev s) s)) (drop (space_suffix_rev s) s)"
      by simp
    then show ?thesis using False suffix_drop suffix_order.trans
      by (fastforce simp add: trim_right_space_rev.simps [of s])
  qed
qed

lemma space_prefix_more:
  assumes "prefix t s" "0 < space_prefix t"
  shows "space_prefix s = space_prefix t"
proof -
  obtain r where s: "s = t @ r" using assms(1) by (auto simp: prefix_def)
  show ?thesis
  proof (cases t)
    case (Cons a t')
    then show ?thesis using assms(2) s by (cases t'; cases "tl t'") (auto split: if_splits)
  qed (use assms(2) in simp)
qed

lemma trim_space_idem: "trim_space (trim_space s) = trim_space s"
proof -
  let ?t = "trim_space s"
  have "prefix ?t (trim_left_space s)"
    using suffix_trim_right_space_rev [of "rev (trim_left_space s)"]
    by (simp add: trim_space_def suffix_to_prefix)
  then have "space_prefix ?t = 0"
    using space_prefix_more trim_left_space_no_prefix [of s] by fastforce
  moreover have "space_suffix_rev (rev ?t) = 0"
    by (simp add: trim_space_def trim_right_space_rev_no_suffix)
  ultimately show ?thesis
    unfolding trim_space_def [of ?t] by (simp add: trim_left_space_id trim_right_space_rev_id)
qed

lemma trim_space_Nil [simp]: "trim_space [] = []"
  by (simp add: trim_space_def trim_left_space_id trim_right_space_rev_id)

text \<open>The classes on the punctuation the components test for, so that \<open>simp\<close> decides them.\<close>

lemma is_lower_literals [simp]:
  "\<not> is_lower dq" "\<not> is_lower bsl" "\<not> is_lower bt" "\<not> is_lower (CHR '','')"
  "\<not> is_lower (CHR '':'')" "\<not> is_lower (CHR ''{'')" "\<not> is_lower (CHR ''}'')"
  "\<not> is_lower (CHR ''['')" "\<not> is_lower (CHR '']'')" "\<not> is_lower nl"
  "\<not> is_lower cr" "\<not> is_lower tab" "\<not> is_lower (CHR '' '')"
  "\<not> is_lower (CHR ''-'')" "\<not> is_lower (CHR ''+'')" "\<not> is_lower (CHR ''.'')"
  "\<not> is_lower (CHR ''/'')" "\<not> is_lower (CHR ''<'')" "\<not> is_lower (CHR ''0'')"
  "\<not> is_lower (CHR ''_'')" "is_lower (CHR ''b'')" "is_lower (CHR ''e'')"
  "\<not> is_lower (CHR ''E'')" "is_lower (CHR ''f'')" "is_lower (CHR ''n'')"
  "is_lower (CHR ''r'')" "is_lower (CHR ''t'')" "is_lower (CHR ''u'')"
  by (simp_all add: byte_simps)

lemma is_upper_literals [simp]:
  "\<not> is_upper dq" "\<not> is_upper bsl" "\<not> is_upper bt" "\<not> is_upper (CHR '','')"
  "\<not> is_upper (CHR '':'')" "\<not> is_upper (CHR ''{'')" "\<not> is_upper (CHR ''}'')"
  "\<not> is_upper (CHR ''['')" "\<not> is_upper (CHR '']'')" "\<not> is_upper nl"
  "\<not> is_upper cr" "\<not> is_upper tab" "\<not> is_upper (CHR '' '')"
  "\<not> is_upper (CHR ''-'')" "\<not> is_upper (CHR ''+'')" "\<not> is_upper (CHR ''.'')"
  "\<not> is_upper (CHR ''/'')" "\<not> is_upper (CHR ''<'')" "\<not> is_upper (CHR ''0'')"
  "\<not> is_upper (CHR ''_'')" "\<not> is_upper (CHR ''b'')" "\<not> is_upper (CHR ''e'')"
  "is_upper (CHR ''E'')" "\<not> is_upper (CHR ''f'')" "\<not> is_upper (CHR ''n'')"
  "\<not> is_upper (CHR ''r'')" "\<not> is_upper (CHR ''t'')" "\<not> is_upper (CHR ''u'')"
  by (simp_all add: byte_simps)

lemma is_digit_literals [simp]:
  "\<not> is_digit dq" "\<not> is_digit bsl" "\<not> is_digit bt" "\<not> is_digit (CHR '','')"
  "\<not> is_digit (CHR '':'')" "\<not> is_digit (CHR ''{'')" "\<not> is_digit (CHR ''}'')"
  "\<not> is_digit (CHR ''['')" "\<not> is_digit (CHR '']'')" "\<not> is_digit nl"
  "\<not> is_digit cr" "\<not> is_digit tab" "\<not> is_digit (CHR '' '')"
  "\<not> is_digit (CHR ''-'')" "\<not> is_digit (CHR ''+'')" "\<not> is_digit (CHR ''.'')"
  "\<not> is_digit (CHR ''/'')" "\<not> is_digit (CHR ''<'')" "is_digit (CHR ''0'')"
  "\<not> is_digit (CHR ''_'')" "\<not> is_digit (CHR ''b'')" "\<not> is_digit (CHR ''e'')"
  "\<not> is_digit (CHR ''E'')" "\<not> is_digit (CHR ''f'')" "\<not> is_digit (CHR ''n'')"
  "\<not> is_digit (CHR ''r'')" "\<not> is_digit (CHR ''t'')" "\<not> is_digit (CHR ''u'')"
  by (simp_all add: byte_simps)

lemma ctl_letter_literals [simp]:
  "\<not>ctl_letter dq" "\<not>ctl_letter bsl" "\<not>ctl_letter bt"
  "\<not>ctl_letter (CHR '','')" "\<not>ctl_letter (CHR '':'')" "\<not>ctl_letter (CHR ''{'')"
  "\<not>ctl_letter (CHR ''}'')" "\<not>ctl_letter (CHR ''['')" "\<not>ctl_letter (CHR '']'')"
  "\<not>ctl_letter nl" "\<not>ctl_letter cr" "\<not>ctl_letter tab"
  "\<not>ctl_letter (CHR '' '')" "\<not>ctl_letter (CHR ''-'')" "\<not>ctl_letter (CHR ''+'')"
  "\<not>ctl_letter (CHR ''.'')" "\<not>ctl_letter (CHR ''/'')" "\<not>ctl_letter (CHR ''<'')"
  "\<not>ctl_letter (CHR ''0'')" "\<not>ctl_letter (CHR ''_'')" "ctl_letter (CHR ''b'')"
  "\<not>ctl_letter (CHR ''e'')" "\<not>ctl_letter (CHR ''E'')" "ctl_letter (CHR ''f'')"
  "ctl_letter (CHR ''n'')" "ctl_letter (CHR ''r'')" "ctl_letter (CHR ''t'')"
  "\<not>ctl_letter (CHR ''u'')"
  by (simp_all add: ctl_letter_def)

lemma plain_escape_literals [simp]:
  "plain_escape dq" "plain_escape bsl" "\<not>plain_escape bt" "\<not>plain_escape (CHR '','')"
  "\<not>plain_escape (CHR '':'')" "\<not>plain_escape (CHR ''{'')"
  "\<not>plain_escape (CHR ''}'')" "\<not>plain_escape (CHR ''['')"
  "\<not>plain_escape (CHR '']'')" "\<not>plain_escape nl" "\<not>plain_escape cr"
  "\<not>plain_escape tab" "\<not>plain_escape (CHR '' '')" "\<not>plain_escape (CHR ''-'')"
  "\<not>plain_escape (CHR ''+'')" "\<not>plain_escape (CHR ''.'')" "plain_escape (CHR ''/'')"
  "\<not>plain_escape (CHR ''<'')" "\<not>plain_escape (CHR ''0'')"
  "\<not>plain_escape (CHR ''_'')" "\<not>plain_escape (CHR ''b'')"
  "\<not>plain_escape (CHR ''e'')" "\<not>plain_escape (CHR ''E'')"
  "\<not>plain_escape (CHR ''f'')" "\<not>plain_escape (CHR ''n'')"
  "\<not>plain_escape (CHR ''r'')" "\<not>plain_escape (CHR ''t'')" "plain_escape (CHR ''u'')"
  by (simp_all add: plain_escape_def)

lemma is_tnr_literals [simp]:
  "\<not>is_tnr dq" "\<not>is_tnr bsl" "\<not>is_tnr bt" "\<not>is_tnr (CHR '','')"
  "\<not>is_tnr (CHR '':'')" "\<not>is_tnr (CHR ''{'')" "\<not>is_tnr (CHR ''}'')"
  "\<not>is_tnr (CHR ''['')" "\<not>is_tnr (CHR '']'')" "is_tnr nl" "is_tnr cr" "is_tnr tab"
  "\<not>is_tnr (CHR '' '')" "\<not>is_tnr (CHR ''-'')" "\<not>is_tnr (CHR ''+'')"
  "\<not>is_tnr (CHR ''.'')" "\<not>is_tnr (CHR ''/'')" "\<not>is_tnr (CHR ''<'')"
  "\<not>is_tnr (CHR ''0'')" "\<not>is_tnr (CHR ''_'')" "\<not>is_tnr (CHR ''b'')"
  "\<not>is_tnr (CHR ''e'')" "\<not>is_tnr (CHR ''E'')" "\<not>is_tnr (CHR ''f'')"
  "\<not>is_tnr (CHR ''n'')" "\<not>is_tnr (CHR ''r'')" "\<not>is_tnr (CHR ''t'')"
  "\<not>is_tnr (CHR ''u'')"
  by (simp_all add: is_tnr_def)

end
