(* ===== verification/RepairScan.thy ===== *)
theory RepairScan
  imports Prelude
begin

text \<open>
  \<^verbatim>\<open>pkg/toolrepair/jsonrepair/jsonrepair.go\<close>, first part: the character classes and the
  functions that look for the structural end of a value. A pair of a Go string and an index,
  \<open>(s, j)\<close>, from which the code only reads to the right, is the suffix \<open>s[j:]\<close> here; the
  two scanners that walk from right to left keep the index.
\<close>

section \<open>Character classes\<close>

definition isWhitespace :: "char \<Rightarrow> bool" where
  "isWhitespace c \<longleftrightarrow> byte c = 32 \<or> byte c = 9 \<or> byte c = 10 \<or> byte c = 13"

definition isIdentChar :: "char \<Rightarrow> bool" where
  "isIdentChar c \<longleftrightarrow> is_lower c \<or> is_upper c \<or> is_digit c \<or> c = CHR ''_''"

fun containsUnescapedQuote_from :: "char option \<Rightarrow> string \<Rightarrow> bool" where
  "containsUnescapedQuote_from prev [] = False"
| "containsUnescapedQuote_from prev (c # cs) =
     (if c = dq \<and> prev \<noteq> Some bsl then True else containsUnescapedQuote_from (Some c) cs)"

definition containsUnescapedQuote :: "string \<Rightarrow> bool" where
  "containsUnescapedQuote s = containsUnescapedQuote_from None s"

definition next_is :: "char \<Rightarrow> string \<Rightarrow> bool" where
  "next_is c s = (case s of [] \<Rightarrow> False | x # _ \<Rightarrow> x = c)"

definition skip_ws :: "string \<Rightarrow> string" where
  "skip_ws s = dropWhile isWhitespace s"

definition gemmaToken :: string where
  "gemmaToken = [CHR ''<'', CHR ''|'', dq, CHR ''|'', CHR ''>'']"

text \<open>Keys are identifiers of 1 to 40 bytes.\<close>

definition key_ok :: "string \<Rightarrow> bool" where
  "key_ok k \<longleftrightarrow> 0 < length k \<and> length k \<le> 40"

section \<open>What follows a position\<close>

definition isFollowedByKey :: "string \<Rightarrow> bool" where
  "isFollowedByKey t =
    (case skip_ws t of
       [] \<Rightarrow> False
     | c # u \<Rightarrow>
         if c = dq then
           (if \<not> key_ok (takeWhile isIdentChar u) then False
            else (case dropWhile isIdentChar u of
                    d # r \<Rightarrow> d = dq \<and> next_is (CHR '':'') (skip_ws r)
                  | [] \<Rightarrow> False))
         else
           (if \<not> key_ok (takeWhile isIdentChar (c # u)) then False
            else next_is (CHR '':'') (skip_ws (dropWhile isIdentChar (c # u)))))"

definition isFollowedByMalformedKey :: "string \<Rightarrow> bool" where
  "isFollowedByMalformedKey t =
    (let u = skip_ws t in
     if \<not> key_ok (takeWhile isIdentChar u) then False
     else (case dropWhile isIdentChar u of
             a # b # _ \<Rightarrow> a = dq \<and> b = CHR '':''
           | _ \<Rightarrow> False))"

text \<open>Nothing but white space and closing braces: the document ends here.\<close>

definition only_closers :: "string \<Rightarrow> bool" where
  "only_closers t \<longleftrightarrow> dropWhile (\<lambda>c. isWhitespace c \<or> c = CHR ''}'') t = []"

definition structural_quote :: "string \<Rightarrow> bool" where
  "structural_quote after =
    (case skip_ws after of
       [] \<Rightarrow> True
     | c # t \<Rightarrow> if c = CHR ''}'' \<or> c = CHR '']'' then only_closers t
               else if c = CHR '','' then isFollowedByKey t
               else False)"

definition structural_backtick :: "string \<Rightarrow> bool" where
  "structural_backtick after =
    (case skip_ws after of
       [] \<Rightarrow> True
     | c # t \<Rightarrow> if c = CHR ''}'' \<or> c = CHR '']'' then only_closers t
               else if c = CHR '','' then isFollowedByKey t \<or> isFollowedByMalformedKey t
               else False)"

section \<open>The finders\<close>

text \<open>The right-to-left loops: \<open>n\<close> is one more than the index the code is at.\<close>

fun findStructuralBacktick_loop :: "string \<Rightarrow> nat \<Rightarrow> nat option" where
  "findStructuralBacktick_loop s 0 = None"
| "findStructuralBacktick_loop s (Suc k) =
     (if s ! k \<noteq> bt then findStructuralBacktick_loop s k
      else if structural_backtick (drop (Suc k) s) then Some k
      else findStructuralBacktick_loop s k)"

definition findStructuralBacktick :: "string \<Rightarrow> nat option" where
  "findStructuralBacktick s = findStructuralBacktick_loop s (length s)"

fun findKeyAwareClosingQuote_loop :: "string \<Rightarrow> nat \<Rightarrow> nat \<Rightarrow> nat option \<Rightarrow> nat option" where
  "findKeyAwareClosingQuote_loop s start 0 best = best"
| "findKeyAwareClosingQuote_loop s start (Suc k) best =
     (if k < start then best
      else if s ! k \<noteq> dq then findKeyAwareClosingQuote_loop s start k best
      else if 0 < k \<and> s ! (k - 1) = bsl then findKeyAwareClosingQuote_loop s start k best
      else if structural_quote (drop (Suc k) s) then
        findKeyAwareClosingQuote_loop s start k
          (case best of None \<Rightarrow> Some k | Some b \<Rightarrow> if k < b then Some k else best)
      else findKeyAwareClosingQuote_loop s start k best)"

definition findKeyAwareClosingQuote :: "string \<Rightarrow> nat \<Rightarrow> nat option" where
  "findKeyAwareClosingQuote s start = findKeyAwareClosingQuote_loop s start (length s) None"

text \<open>The left-to-right search for the closing token: \<open>from\<close> is the code's \<open>searchFrom\<close>.\<close>

definition structural_token_end :: "string \<Rightarrow> bool" where
  "structural_token_end after =
    (case skip_ws after of
       [] \<Rightarrow> True
     | c # _ \<Rightarrow> c = CHR '','' \<or> c = CHR ''}'' \<or> c = CHR '']'' \<or> c = dq)"

lemma length_gemmaToken: "length gemmaToken = 5"
  by (simp add: gemmaToken_def)


function findStructuralGemmaClose_from :: "string \<Rightarrow> nat \<Rightarrow> nat option" where
  "findStructuralGemmaClose_from s from =
     (case index_of (drop from s) gemmaToken of
        None \<Rightarrow> None
      | Some i \<Rightarrow>
          if structural_token_end (drop (from + i + 5) s) then Some (from + i)
          else findStructuralGemmaClose_from s (from + i + 5))"
  by pat_completeness auto
termination
proof (relation "measure (\<lambda>(s, from). Suc (length s) - from)")
  fix s :: string and "from" i :: nat
  assume "index_of (drop from s) gemmaToken = Some i"
  from index_of_bound [OF this]
  show "((s, from + i + 5), s, from) \<in> measure (\<lambda>(s, from). Suc (length s) - from)"
    by (auto simp: gemmaToken_def)
qed simp

declare findStructuralGemmaClose_from.simps [simp del]

definition findStructuralGemmaClose :: "string \<Rightarrow> nat option" where
  "findStructuralGemmaClose s = findStructuralGemmaClose_from s 0"

section \<open>Facts\<close>

lemma has_prefix_eq_prefix [go_string]: "has_prefix s p \<longleftrightarrow> prefix p s"
  by (induction s p rule: has_prefix.induct) auto

lemma has_prefix_take: "has_prefix s p \<Longrightarrow> take (length p) s = p"
  by (induction s p rule: has_prefix.induct) auto

lemma index_of_take: "index_of s t = Some i \<Longrightarrow> take (length t) (drop i s) = t"
  by (induction s arbitrary: i) (auto dest: has_prefix_take split: if_splits)

lemma index_of_least:
  "index_of s t = Some i \<Longrightarrow> j < i \<Longrightarrow> \<not> has_prefix (drop j s) t"
proof (induction s arbitrary: i j)
  case Nil
  then show ?case by (simp split: if_splits)
next
  case (Cons c cs)
  then show ?case by (cases j) (auto split: if_splits)
qed

lemma index_of_None: "index_of s t = None \<Longrightarrow> \<not> has_prefix (drop j s) t"
proof (induction s arbitrary: j)
  case Nil
  then show ?case by (cases t) (simp_all split: if_splits)
next
  case (Cons c cs)
  then show ?case by (cases j) (auto split: if_splits)
qed

lemma skip_ws_length: "length (skip_ws s) \<le> length s"
  by (simp add: skip_ws_def length_dropWhile_le)

lemma findStructuralBacktick_loop_Some:
  "findStructuralBacktick_loop s n = Some k \<Longrightarrow>
     k < n \<and> s ! k = bt \<and> structural_backtick (drop (Suc k) s)
     \<and> (\<forall>j. k < j \<longrightarrow> j < n \<longrightarrow> s ! j = bt \<longrightarrow> \<not> structural_backtick (drop (Suc j) s))"
proof (induction n)
  case 0
  then show ?case by simp
next
  case (Suc n)
  then show ?case by (auto split: if_splits simp: less_Suc_eq)
qed

text \<open>A position the right-to-left scan of \<open>findKeyAwareClosingQuote\<close> accepts.\<close>

definition closing_quote_at :: "string \<Rightarrow> nat \<Rightarrow> bool" where
  "closing_quote_at s k \<longleftrightarrow>
     s ! k = dq \<and> \<not> (0 < k \<and> s ! (k - 1) = bsl) \<and> structural_quote (drop (Suc k) s)"

lemma findKeyAware_loop_eq:
  assumes "case best of None \<Rightarrow> True | Some b \<Rightarrow> n \<le> b"
  shows "findKeyAwareClosingQuote_loop s start n best =
    (case find (closing_quote_at s) [start..<n] of Some k \<Rightarrow> Some k | None \<Rightarrow> best)"
  using assms
proof (induction n arbitrary: best)
  case 0
  then show ?case by simp
next
  case (Suc k)
  have app: "find P (xs @ ys) = (case find P xs of None \<Rightarrow> find P ys | Some x \<Rightarrow> Some x)"
    for P :: "nat \<Rightarrow> bool" and xs ys by (induction xs) auto
  show ?case
  proof (cases "k < start")
    case True
    then show ?thesis by simp
  next
    case False
    let ?best' = "if closing_quote_at s k then Some k else best"
    have le: "case ?best' of None \<Rightarrow> True | Some b \<Rightarrow> k \<le> b"
      using Suc.prems by (auto split: option.splits)
    have "findKeyAwareClosingQuote_loop s start (Suc k) best
        = findKeyAwareClosingQuote_loop s start k ?best'"
      using False Suc.prems by (auto simp: closing_quote_at_def split: option.split)
    also have "\<dots> = (case find (closing_quote_at s) [start..<k] of Some k \<Rightarrow> Some k | None \<Rightarrow> ?best')"
      by (rule Suc.IH) (rule le)
    also have "\<dots> = (case find (closing_quote_at s) [start..<Suc k] of Some k \<Rightarrow> Some k | None \<Rightarrow> best)"
      using False by (auto simp: app split: option.split)
    finally show ?thesis .
  qed
qed

lemma findKeyAware_eq_find:
  "findKeyAwareClosingQuote s start = find (closing_quote_at s) [start..<length s]"
  by (simp add: findKeyAwareClosingQuote_def findKeyAware_loop_eq split: option.split)

lemma find_upt_Some:
  "find P [a..<b] = Some k \<longleftrightarrow> a \<le> k \<and> k < b \<and> P k \<and> (\<forall>j. a \<le> j \<longrightarrow> j < k \<longrightarrow> \<not> P j)"
proof -
  have *: "find P [a..<b] = Some k \<longleftrightarrow>
      (\<exists>i < length [a..<b]. P ([a..<b] ! i) \<and> k = [a..<b] ! i \<and> (\<forall>j < i. \<not> P ([a..<b] ! j)))"
    by (rule find_Some_iff)
  show ?thesis
  proof
    assume "find P [a..<b] = Some k"
    then obtain i where i: "i < b - a" "P (a + i)" "k = a + i" "\<forall>j < i. \<not> P (a + j)"
      unfolding * by auto
    have "\<not> P j" if "a \<le> j" "j < k" for j
      using i(4) [rule_format, of "j - a"] i(3) that by auto
    with i show "a \<le> k \<and> k < b \<and> P k \<and> (\<forall>j. a \<le> j \<longrightarrow> j < k \<longrightarrow> \<not> P j)" by auto
  next
    assume "a \<le> k \<and> k < b \<and> P k \<and> (\<forall>j. a \<le> j \<longrightarrow> j < k \<longrightarrow> \<not> P j)"
    then show "find P [a..<b] = Some k" unfolding * by (intro exI [of _ "k - a"]) auto
  qed
qed

lemma findStructuralGemmaClose_from_Some:
  "findStructuralGemmaClose_from s from = Some p \<Longrightarrow>
     from \<le> p \<and> p + 5 \<le> length s \<and> take 5 (drop p s) = gemmaToken
     \<and> structural_token_end (drop (p + 5) s)"
proof (induction s "from" rule: findStructuralGemmaClose_from.induct)
  case (1 s "from")
  obtain i where i: "index_of (drop from s) gemmaToken = Some i"
    using "1.prems" by (subst (asm) findStructuralGemmaClose_from.simps) (auto split: option.splits)
  have bound: "from + i + 5 \<le> length s"
    using index_of_bound [OF i] by (simp add: gemmaToken_def)
  have tok: "take 5 (drop (from + i) s) = gemmaToken"
    using index_of_take [OF i] by (simp add: length_gemmaToken add.commute)
  show ?case
  proof (cases "structural_token_end (drop (from + i + 5) s)")
    case True
    with "1.prems" i have "p = from + i"
      by (subst (asm) findStructuralGemmaClose_from.simps) simp
    with True bound tok show ?thesis by simp
  next
    case False
    with "1.prems" i have "findStructuralGemmaClose_from s (from + i + 5) = Some p"
      by (subst (asm) findStructuralGemmaClose_from.simps) simp
    from "1.IH" [OF i False this] show ?thesis by simp
  qed
qed

section \<open>The interface the passes rely on\<close>

text \<open>
  A finder returns the index of a delimiter of \<open>width\<close> bytes inside the string it searches.
  This is what keeps the slices of its callers in bounds and makes their loops advance.
\<close>

locale delimiter_finder =
  fixes finder :: "string \<Rightarrow> nat option"
    and width :: nat
    and closes :: "string \<Rightarrow> nat \<Rightarrow> bool"
  assumes found_bound: "finder s = Some k \<Longrightarrow> k + width \<le> length s"
    and found_closes: "finder s = Some k \<Longrightarrow> closes s k"
begin

lemma inner_slice_ok: "finder s = Some k \<Longrightarrow> slice_ok s 0 k"
  using found_bound [of s k] by (simp add: slice_ok_def)

lemma rest_slice_ok: "finder s = Some k \<Longrightarrow> slice_ok s (k + width) (length s)"
  using found_bound [of s k] by (simp add: slice_ok_def)

lemma rest_shorter: "finder s = Some k \<Longrightarrow> length (drop (k + width) s) \<le> length s - width"
  using found_bound [of s k] by simp

end

interpretation gemma_close: delimiter_finder findStructuralGemmaClose 5
  "\<lambda>s k. take 5 (drop k s) = gemmaToken \<and> structural_token_end (drop (k + 5) s)"
  by unfold_locales (auto simp: findStructuralGemmaClose_def dest!: findStructuralGemmaClose_from_Some)

interpretation backtick_close: delimiter_finder findStructuralBacktick 1
  "\<lambda>s k. s ! k = bt \<and> structural_backtick (drop (Suc k) s)"
  by unfold_locales (auto simp: findStructuralBacktick_def dest!: findStructuralBacktick_loop_Some)

section \<open>The classes on punctuation\<close>

lemma isWhitespace_literals [simp]:
  "\<not> isWhitespace dq" "\<not> isWhitespace bsl" "\<not> isWhitespace bt"
  "\<not> isWhitespace (CHR '','')" "\<not> isWhitespace (CHR '':'')"
  "\<not> isWhitespace (CHR ''{'')" "\<not> isWhitespace (CHR ''}'')"
  "\<not> isWhitespace (CHR ''['')" "\<not> isWhitespace (CHR '']'')" "isWhitespace nl"
  "isWhitespace cr" "isWhitespace tab" "isWhitespace (CHR '' '')"
  "\<not> isWhitespace (CHR ''-'')" "\<not> isWhitespace (CHR ''+'')"
  "\<not> isWhitespace (CHR ''.'')" "\<not> isWhitespace (CHR ''/'')"
  "\<not> isWhitespace (CHR ''<'')" "\<not> isWhitespace (CHR ''0'')"
  "\<not> isWhitespace (CHR ''_'')" "\<not> isWhitespace (CHR ''b'')"
  "\<not> isWhitespace (CHR ''e'')" "\<not> isWhitespace (CHR ''E'')"
  "\<not> isWhitespace (CHR ''f'')" "\<not> isWhitespace (CHR ''n'')"
  "\<not> isWhitespace (CHR ''r'')" "\<not> isWhitespace (CHR ''t'')"
  "\<not> isWhitespace (CHR ''u'')"
  by (simp_all add: isWhitespace_def)

lemma isIdentChar_literals [simp]:
  "\<not> isIdentChar dq" "\<not> isIdentChar bsl" "\<not> isIdentChar bt"
  "\<not> isIdentChar (CHR '','')" "\<not> isIdentChar (CHR '':'')"
  "\<not> isIdentChar (CHR ''{'')" "\<not> isIdentChar (CHR ''}'')"
  "\<not> isIdentChar (CHR ''['')" "\<not> isIdentChar (CHR '']'')" "\<not> isIdentChar nl"
  "\<not> isIdentChar cr" "\<not> isIdentChar tab" "\<not> isIdentChar (CHR '' '')"
  "\<not> isIdentChar (CHR ''-'')" "\<not> isIdentChar (CHR ''+'')"
  "\<not> isIdentChar (CHR ''.'')" "\<not> isIdentChar (CHR ''/'')"
  "\<not> isIdentChar (CHR ''<'')" "isIdentChar (CHR ''0'')" "isIdentChar (CHR ''_'')"
  "isIdentChar (CHR ''b'')" "isIdentChar (CHR ''e'')" "isIdentChar (CHR ''E'')"
  "isIdentChar (CHR ''f'')" "isIdentChar (CHR ''n'')" "isIdentChar (CHR ''r'')"
  "isIdentChar (CHR ''t'')" "isIdentChar (CHR ''u'')"
  by (simp_all add: isIdentChar_def)

end
