(* ===== verification/LazyBuf.thy ===== *)
theory LazyBuf
  imports Prelude
begin

text \<open>
  Three of the repair passes (\<open>removeTrailingCommas\<close>, \<open>quoteBareKeys\<close> and
  \<open>fixMissingKeyCloseQuote\<close> of \<^verbatim>\<open>jsonrepair.go\<close>) write their result lazily: the builder
  \<open>buf\<close> stays empty while the output equals the input read so far (\<open>changed\<close> is false), and
  is loaded with \<open>s[:i]\<close> at the first change. The state of that protocol is a record, and
  what it stands for is the text written so far, \<open>lb_out\<close>.
\<close>

record lazy_buf =
  lb_seen :: string    \<comment> \<open>\<open>s[:i]\<close>\<close>
  lb_changed :: bool
  lb_buf :: string

definition lb_init :: lazy_buf where
  "lb_init = \<lparr>lb_seen = [], lb_changed = False, lb_buf = []\<rparr>"

text \<open>\<open>if changed { buf.WriteByte(c) }; i++\<close>\<close>

definition lb_copy :: "lazy_buf \<Rightarrow> char \<Rightarrow> lazy_buf" where
  "lb_copy b c = b\<lparr>lb_seen := lb_seen b @ [c],
                   lb_buf := (if lb_changed b then lb_buf b @ [c] else lb_buf b)\<rparr>"

text \<open>\<open>if !changed { buf.WriteString(s[:i]); changed = true }\<close>\<close>

definition lb_start :: "lazy_buf \<Rightarrow> lazy_buf" where
  "lb_start b = (if lb_changed b then b else b\<lparr>lb_changed := True, lb_buf := lb_seen b\<rparr>)"

text \<open>Start the builder, write \<open>new\<close> and move past \<open>old\<close>.\<close>

definition lb_replace :: "lazy_buf \<Rightarrow> string \<Rightarrow> string \<Rightarrow> lazy_buf" where
  "lb_replace b old new = (lb_start b)
     \<lparr>lb_seen := lb_seen b @ old, lb_buf := lb_buf (lb_start b) @ new\<rparr>"

definition lb_out :: "lazy_buf \<Rightarrow> string" where
  "lb_out b = (if lb_changed b then lb_buf b else lb_seen b)"

text \<open>\<open>if !changed { return s }; return buf.String()\<close>\<close>

definition lb_result :: "lazy_buf \<Rightarrow> string \<Rightarrow> string" where
  "lb_result b s = (if \<not> lb_changed b then s else lb_buf b)"

text \<open>
  The contract of a writer a pass may rely on: the text written is a function of the
  operations alone, and the input read is tracked exactly.
\<close>

locale writer =
  fixes copy :: "'b \<Rightarrow> char \<Rightarrow> 'b"
    and replace :: "'b \<Rightarrow> string \<Rightarrow> string \<Rightarrow> 'b"
    and out :: "'b \<Rightarrow> string"
    and seen :: "'b \<Rightarrow> string"
  assumes out_copy [simp]: "out (copy b c) = out b @ [c]"
    and out_replace [simp]: "out (replace b old new) = out b @ new"
    and seen_copy [simp]: "seen (copy b c) = seen b @ [c]"
    and seen_replace [simp]: "seen (replace b old new) = seen b @ old"
begin

lemma out_copies [simp]: "out (foldl copy b cs) = out b @ cs"
  by (induction cs arbitrary: b) simp_all

lemma seen_copies [simp]: "seen (foldl copy b cs) = seen b @ cs"
  by (induction cs arbitrary: b) simp_all

end

interpretation lazy: writer lb_copy lb_replace lb_out lb_seen
  by unfold_locales (auto simp: lb_copy_def lb_replace_def lb_start_def lb_out_def)

lemma lb_out_init [simp]: "lb_out lb_init = []" "lb_seen lb_init = []"
  by (simp_all add: lb_out_def lb_init_def)

lemma lb_result_out: "lb_seen b = s \<Longrightarrow> lb_result b s = lb_out b"
  by (simp add: lb_result_def lb_out_def)

end
