(* ===== verification/RepairPasses.thy ===== *)
theory RepairPasses
  imports RepairScan LazyBuf
begin

text \<open>
  \<^verbatim>\<open>pkg/toolrepair/jsonrepair/jsonrepair.go\<close>, second part: the textual passes of \<open>normalize\<close>,
  each a function from the text to the text. A loop over \<open>i\<close> is a recursion on the suffix
  \<open>s[i:]\<close>; where the code looks behind \<open>i\<close>, the reversed prefix is an argument.
\<close>

section \<open>Trailing commas\<close>

fun removeTrailingCommas_loop :: "bool \<Rightarrow> bool \<Rightarrow> lazy_buf \<Rightarrow> string \<Rightarrow> lazy_buf" where
  "removeTrailingCommas_loop inString escaped b [] = b"
| "removeTrailingCommas_loop inString escaped b (c # cs) =
    (if escaped then removeTrailingCommas_loop inString False (lb_copy b c) cs
     else if c = bsl \<and> inString then removeTrailingCommas_loop inString True (lb_copy b c) cs
     else if c = dq then removeTrailingCommas_loop (\<not> inString) False (lb_copy b c) cs
     else if \<not> inString \<and> c = CHR '',''
             \<and> (next_is (CHR ''}'') (skip_ws cs) \<or> next_is (CHR '']'') (skip_ws cs))
     then removeTrailingCommas_loop inString False (lb_replace b [c] []) cs
     else removeTrailingCommas_loop inString False (lb_copy b c) cs)"

definition removeTrailingCommas :: "string \<Rightarrow> string" where
  "removeTrailingCommas s = lb_result (removeTrailingCommas_loop False False lb_init s) s"

section \<open>Backslash before a control character\<close>

fun backslash_control_found :: "string \<Rightarrow> bool" where
  "backslash_control_found [] = False"
| "backslash_control_found [c] = False"
| "backslash_control_found (c # d # ds) =
    (if c = bsl then (if is_tnr d then True else backslash_control_found ds)
     else backslash_control_found (d # ds))"

fun backslash_control_replace :: "string \<Rightarrow> string" where
  "backslash_control_replace [] = []"
| "backslash_control_replace [c] = [c]"
| "backslash_control_replace (c # d # ds) =
    (if c = bsl \<and> d = tab then bsl # CHR ''t'' # backslash_control_replace ds
     else if c = bsl \<and> d = nl then bsl # CHR ''n'' # backslash_control_replace ds
     else if c = bsl \<and> d = cr then bsl # CHR ''r'' # backslash_control_replace ds
     else c # backslash_control_replace (d # ds))"

definition normalizeBackslashControlChars :: "string \<Rightarrow> string" where
  "normalizeBackslashControlChars s =
     (if \<not> backslash_control_found s then s else backslash_control_replace s)"

section \<open>Backticks\<close>

definition backtick_closes :: "string \<Rightarrow> bool" where
  "backtick_closes after =
    (case skip_ws after of
       [] \<Rightarrow> True
     | c # t \<Rightarrow> if c = CHR ''}'' \<or> c = CHR '']'' then True
               else if c = CHR '','' then isFollowedByKey t \<or> next_is bt (skip_ws t)
               else False)"

definition backtick_opens :: "string \<Rightarrow> bool" where
  "backtick_opens rev_before =
    (case skip_ws rev_before of
       [] \<Rightarrow> False
     | c # _ \<Rightarrow> c = CHR '':'' \<or> c = CHR '','' \<or> c = CHR ''{'' \<or> c = CHR ''['')"

fun normalizeBacktickDelimiters_loop :: "string \<Rightarrow> string \<Rightarrow> string" where
  "normalizeBacktickDelimiters_loop rev_before [] = []"
| "normalizeBacktickDelimiters_loop rev_before (c # cs) =
    (if c \<noteq> bt then c # normalizeBacktickDelimiters_loop (c # rev_before) cs
     else if backtick_closes cs \<or> backtick_opens rev_before
     then dq # normalizeBacktickDelimiters_loop (c # rev_before) cs
     else bt # normalizeBacktickDelimiters_loop (c # rev_before) cs)"

definition normalizeBacktickDelimiters :: "string \<Rightarrow> string" where
  "normalizeBacktickDelimiters s =
     (if \<not> contains_str s [bt] then s else normalizeBacktickDelimiters_loop [] s)"

section \<open>Bare keys\<close>

definition bare_key_start :: "char \<Rightarrow> bool" where
  "bare_key_start c \<longleftrightarrow> is_lower c \<or> is_upper c \<or> c = CHR ''_''"

lemma length_dropWhile_less [termination_simp]:
  "length (dropWhile P xs) < Suc (length xs)"
  by (simp add: less_Suc_eq_le length_dropWhile_le)

fun quoteBareKeys_loop :: "bool \<Rightarrow> bool \<Rightarrow> lazy_buf \<Rightarrow> string \<Rightarrow> lazy_buf" where
  "quoteBareKeys_loop inString escaped b [] = b"
| "quoteBareKeys_loop inString escaped b (c # cs) =
    (if escaped then quoteBareKeys_loop inString False (lb_copy b c) cs
     else if c = bsl \<and> inString then quoteBareKeys_loop inString True (lb_copy b c) cs
     else if c = dq then quoteBareKeys_loop (\<not> inString) False (lb_copy b c) cs
     else if inString then quoteBareKeys_loop inString False (lb_copy b c) cs
     else if bare_key_start c \<and> next_is (CHR '':'') (dropWhile isIdentChar cs)
     then quoteBareKeys_loop inString False
            (lb_replace b (c # takeWhile isIdentChar cs)
                          (dq # c # takeWhile isIdentChar cs @ [dq]))
            (dropWhile isIdentChar cs)
     else quoteBareKeys_loop inString False (lb_copy b c) cs)"

definition quoteBareKeys :: "string \<Rightarrow> string" where
  "quoteBareKeys s = lb_result (quoteBareKeys_loop False False lb_init s) s"

section \<open>Keys without a closing quote\<close>

lemma length_dropWhile_dropWhile [termination_simp]:
  "dropWhile P xs = y # ys \<Longrightarrow> length ys < length xs"
  "dropWhile P xs = y # ys \<Longrightarrow> length (dropWhile Q ys) < length xs"
proof -
  assume "dropWhile P xs = y # ys"
  moreover have "length (dropWhile P xs) \<le> length xs" by (rule length_dropWhile_le)
  ultimately show *: "length ys < length xs" by simp
  show "length (dropWhile Q ys) < length xs"
    using * length_dropWhile_le [of Q ys] by simp
qed

fun fixMissingKeyCloseQuote_loop :: "lazy_buf \<Rightarrow> string \<Rightarrow> lazy_buf" where
  "fixMissingKeyCloseQuote_loop b [] = b"
| "fixMissingKeyCloseQuote_loop b (c # cs) =
    (if c \<noteq> CHR ''{'' \<and> c \<noteq> CHR '','' then fixMissingKeyCloseQuote_loop (lb_copy b c) cs
     else
       let b' = foldl lb_copy (lb_copy b c) (takeWhile isWhitespace cs) in
       (case dropWhile isWhitespace cs of
          [] \<Rightarrow> b'
        | q # t \<Rightarrow>
           if q \<noteq> dq then fixMissingKeyCloseQuote_loop b' (dropWhile isWhitespace cs)
           else if \<not> key_ok (takeWhile isIdentChar t) \<or> dropWhile isIdentChar t = []
           then fixMissingKeyCloseQuote_loop (lb_copy b' q) t
           else if next_is dq (dropWhile isIdentChar t)
           then fixMissingKeyCloseQuote_loop (lb_copy b' q) t
           else if next_is (CHR '':'') (dropWhile isIdentChar t)
           then fixMissingKeyCloseQuote_loop
                  (lb_replace b' (q # takeWhile isIdentChar t)
                                 (q # takeWhile isIdentChar t @ [dq]))
                  (dropWhile isIdentChar t)
           else fixMissingKeyCloseQuote_loop (lb_copy b' q) t))"

definition fixMissingKeyCloseQuote :: "string \<Rightarrow> string" where
  "fixMissingKeyCloseQuote s = lb_result (fixMissingKeyCloseQuote_loop lb_init s) s"

section \<open>Nested objects and doubled braces\<close>

definition ws_set :: string where "ws_set = [CHR '' '', tab, nl, cr]"

definition ends_two_braces :: "string \<Rightarrow> bool" where
  "ends_two_braces t = (case rev t of a # b # _ \<Rightarrow> a = CHR ''}'' \<and> b = CHR ''}'' | _ \<Rightarrow> False)"

text \<open>The index of the first \<open>,{\<close> outside strings; \<open>skip\<close> is set after a backslash in a string.\<close>

fun nested_object_at :: "bool \<Rightarrow> bool \<Rightarrow> string \<Rightarrow> nat option" where
  "nested_object_at skip inString [] = None"
| "nested_object_at skip inString (c # cs) =
    (if skip then map_option Suc (nested_object_at False inString cs)
     else if c = bsl \<and> inString then map_option Suc (nested_object_at True inString cs)
     else if c = dq then map_option Suc (nested_object_at False (\<not> inString) cs)
     else if inString then map_option Suc (nested_object_at False inString cs)
     else if c = CHR '','' \<and> next_is (CHR ''{'') cs then Some 0
     else map_option Suc (nested_object_at False inString cs))"

definition flattenNestedObject :: "string \<Rightarrow> string" where
  "flattenNestedObject s =
    (if \<not> contains_str s '',{'' then s
     else let trimmed = trim_right_set s ws_set in
       if \<not> ends_two_braces trimmed then s
       else (case nested_object_at False False s of
               None \<Rightarrow> s
             | Some i \<Rightarrow> take (i + 1) s @ slice s (i + 2) (length trimmed - 1)))"

definition unwrapNestedObject :: "string \<Rightarrow> string" where
  "unwrapNestedObject s =
    (let ws1 = takeWhile isWhitespace s; r1 = skip_ws s in
     if \<not> next_is (CHR '','') r1 then s
     else let ws2 = takeWhile isWhitespace (tl r1); r2 = skip_ws (tl r1);
              j = length ws1 + 1 + length ws2 in
       if \<not> next_is (CHR ''{'') r2 then s
       else let trimmed = trim_right_set s ws_set in
         if \<not> ends_two_braces trimmed then s
         else take j s @ slice s (j + 1) (length trimmed - 1))"

definition trimTrailingBrace :: "string \<Rightarrow> string" where
  "trimTrailingBrace s =
    (let trimmed = trim_right_set s ws_set in
     if \<not> ends_two_braces trimmed then s else take (length trimmed - 1) trimmed)"

section \<open>Gemma quote tokens\<close>

definition fixMissingKeyQuote :: "string \<Rightarrow> string" where
  "fixMissingKeyQuote p =
    (if length p < 3 \<or> last p \<noteq> CHR '':'' then p
     else let r = tl (rev p); key = takeWhile isIdentChar r in
       if key = [] \<or> \<not> next_is dq (dropWhile isIdentChar r) then p
       else take (length p - 1) p @ [dq, CHR '':''])"

definition fixMissingKeyOpenQuote :: "string \<Rightarrow> string" where
  "fixMissingKeyOpenQuote t =
    (if \<not> next_is (CHR '','') t then t
     else let u = skip_ws (tl t) in
       if u = [] \<or> next_is dq u then t
       else if \<not> key_ok (takeWhile isIdentChar u) then t
       else (case dropWhile isIdentChar u of
               a # b # _ \<Rightarrow>
                 if a = dq \<and> b = CHR '':'' then
                   CHR '','' # takeWhile isWhitespace (tl t) @ dq # u
                 else t
             | _ \<Rightarrow> t))"

definition stripSpuriousQuoteBeforeComma :: "string \<Rightarrow> string" where
  "stripSpuriousQuoteBeforeComma t =
    (if length t < 2 \<or> \<not> next_is dq t then t
     else let u = skip_ws (tl t) in
       if \<not> next_is (CHR '','') u then t
       else let k = skip_ws (tl u) in
         if next_is dq k then
           (if key_ok (takeWhile isIdentChar (tl k))
               \<and> (case dropWhile isIdentChar (tl k) of
                     a # b # _ \<Rightarrow> a = dq \<and> b = CHR '':'' | _ \<Rightarrow> False)
            then tl t else t)
         else if \<not> key_ok (takeWhile isIdentChar k) then t
         else let rest = dropWhile isIdentChar k in
           if next_is (CHR '':'') rest then tl t
           else if (case rest of a # b # _ \<Rightarrow> a = dq \<and> b = CHR '':'' | _ \<Rightarrow> False) then tl t
           else if has_prefix rest gemmaToken then tl t
           else t)"

text \<open>The loop that escapes the text between two tokens (written twice in the code).\<close>

fun gemma_escape :: "bool \<Rightarrow> string \<Rightarrow> string" where
  "gemma_escape hasRealNewlines [] = []"
| "gemma_escape hasRealNewlines (c # cs) =
    (if c = dq then bsl # dq # gemma_escape hasRealNewlines cs
     else if c = bsl then
       (case cs of
          [] \<Rightarrow> [bsl]
        | n # r \<Rightarrow>
            (if ctl_letter n then
               (if hasRealNewlines then [bsl, bsl, n] else [bsl, n])
             else if plain_escape n then [bsl, n]
             else [bsl, bsl, n]) @ gemma_escape hasRealNewlines r)
     else if c = nl then bsl # CHR ''n'' # gemma_escape hasRealNewlines cs
     else if c = cr then bsl # CHR ''r'' # gemma_escape hasRealNewlines cs
     else if c = tab then bsl # CHR ''t'' # gemma_escape hasRealNewlines cs
     else c # gemma_escape hasRealNewlines cs)"

text \<open>The fix-ups applied to what follows a closed value.\<close>

definition gemma_tail :: "string \<Rightarrow> string" where
  "gemma_tail t =
    (if t = [] then t else fixMissingKeyOpenQuote (stripSpuriousQuoteBeforeComma t))"

lemma length_fixMissingKeyOpenQuote: "length (fixMissingKeyOpenQuote t) \<le> Suc (length t)"
proof (cases t)
  case Nil
  then show ?thesis by (simp add: fixMissingKeyOpenQuote_def next_is_def)
next
  case (Cons c cs)
  have "length (takeWhile isWhitespace cs) + length (dropWhile isWhitespace cs) = length cs"
    using takeWhile_dropWhile_id [of isWhitespace cs] by (metis length_append)
  with Cons show ?thesis
    by (auto simp: fixMissingKeyOpenQuote_def Let_def skip_ws_def split: list.split)
qed

lemma length_stripSpuriousQuote: "length (stripSpuriousQuoteBeforeComma t) \<le> length t"
  by (auto simp: stripSpuriousQuoteBeforeComma_def Let_def)

lemma length_gemma_tail: "length (gemma_tail t) \<le> Suc (length t)"
  using length_fixMissingKeyOpenQuote [of "stripSpuriousQuoteBeforeComma t"]
    length_stripSpuriousQuote [of t] by (simp add: gemma_tail_def)

text \<open>The outer loop, on \<open>s[i:]\<close>; the code splices the fix-ups into \<open>s\<close> behind \<open>i\<close>.\<close>

function normalizeGemmaQuotes_loop :: "string \<Rightarrow> string" where
  "normalizeGemmaQuotes_loop s =
    (if s = [] then [] else
     case index_of s gemmaToken of
       None \<Rightarrow> s
     | Some openIdx \<Rightarrow>
        let rest = drop (openIdx + 5) s in
        fixMissingKeyQuote (take openIdx s) @
        (case findStructuralGemmaClose rest of
           None \<Rightarrow>
             (case findStructuralBacktick rest of
                Some btIdx \<Rightarrow>
                  dq # gemma_escape (nl \<in> set (take btIdx rest)) (take btIdx rest) @ dq #
                  normalizeGemmaQuotes_loop (gemma_tail (drop (btIdx + 1) rest))
              | None \<Rightarrow> dq # unwrapNestedObject rest)
         | Some closeIdx \<Rightarrow>
             dq # gemma_escape (nl \<in> set (take closeIdx rest)) (take closeIdx rest) @ dq #
             normalizeGemmaQuotes_loop (gemma_tail (drop (closeIdx + 5) rest))))"
  by pat_completeness auto
termination
proof (relation "measure length")
  fix s :: string and openIdx rest btIdx
  assume o: "index_of s gemmaToken = Some openIdx" and r: "rest = drop (openIdx + 5) s"
  have len: "openIdx + 5 \<le> length s"
    using index_of_bound [OF o] by (simp add: length_gemmaToken)
  {
    assume "findStructuralBacktick rest = Some btIdx"
    with len r show "(gemma_tail (drop (btIdx + 1) rest), s) \<in> measure length"
      using length_gemma_tail [of "drop (btIdx + 1) rest"] by simp
  next
    assume "findStructuralGemmaClose rest = Some btIdx"
    with len r show "(gemma_tail (drop (btIdx + 5) rest), s) \<in> measure length"
      using length_gemma_tail [of "drop (btIdx + 5) rest"] by simp
  }
qed simp

declare normalizeGemmaQuotes_loop.simps [simp del]

definition normalizeGemmaQuotes :: "string \<Rightarrow> string" where
  "normalizeGemmaQuotes s =
     (if \<not> contains_str s gemmaToken then s else normalizeGemmaQuotes_loop s)"

section \<open>The pipeline\<close>

definition normalize :: "string \<Rightarrow> string \<times> bool" where
  "normalize s =
    (let s' = normalizeBackslashControlChars (removeTrailingCommas (fixMissingKeyCloseQuote
                (quoteBareKeys (normalizeBacktickDelimiters (flattenNestedObject
                  (normalizeGemmaQuotes s))))))
     in (s', s' \<noteq> s))"

end
