(* ===== verification/Json.thy ===== *)
theory Json
  imports Prelude "HOL-Library.AList"
begin

text \<open>
  What the program uses of Go's package \<open>encoding/json\<close>: the byte scanner behind
  \<open>json.Valid\<close>, \<open>json.Unmarshal\<close> and \<open>json.Decoder\<close>, as a machine that takes one byte at a
  time, with the stack of open arrays and objects the scanner keeps, and the values it
  builds. A byte that is an error to the scanner is \<open>None\<close>. The machine is structurally
  recursive on the input, so it is total and evaluates.
\<close>

section \<open>Values\<close>

datatype json =
    JNull
  | JBool bool
  | JNum string \<comment> \<open>the literal's text; the program never computes with it\<close>
  | JStr string
  | JArr "json list"
  | JObj "(string \<times> json) list" \<comment> \<open>in the order of the text\<close>

section \<open>String literals\<close>

definition json_ws :: "char \<Rightarrow> bool" where
  "json_ws c \<longleftrightarrow> byte c = 32 \<or> byte c = 9 \<or> byte c = 10 \<or> byte c = 13"

definition hex_digit :: "char \<Rightarrow> bool" where
  "hex_digit c \<longleftrightarrow> is_digit c \<or> byte_between 97 102 c \<or> byte_between 65 70 c"

definition hex_val :: "char \<Rightarrow> nat" where
  "hex_val c = (if is_digit c then byte c - 48
                else if byte_between 97 102 c then byte c - 87 else byte c - 55)"

definition hex4 :: "string \<Rightarrow> nat" where
  "hex4 s = foldl (\<lambda>a c. 16 * a + hex_val c) 0 (take 4 s)"

definition utf8 :: "nat \<Rightarrow> string" where
  "utf8 n =
    (if n < 0x80 then [char_of n]
     else if n < 0x800 then [char_of (0xC0 + n div 64), char_of (0x80 + n mod 64)]
     else if n < 0x10000 then
       [char_of (0xE0 + n div 4096), char_of (0x80 + n div 64 mod 64), char_of (0x80 + n mod 64)]
     else
       [char_of (0xF0 + n div 262144), char_of (0x80 + n div 4096 mod 64),
        char_of (0x80 + n div 64 mod 64), char_of (0x80 + n mod 64)])"

definition replacement :: string where
  "replacement = [CHR 0xEF, CHR 0xBF, CHR 0xBD]" \<comment> \<open>U+FFFD\<close>

definition cont_byte :: "char \<Rightarrow> bool" where "cont_byte c \<longleftrightarrow> byte_between 0x80 0xBF c"

text \<open>The length of the UTF-8 sequence a string starts with, 0 when it is not valid there.\<close>

fun utf8_len :: "string \<Rightarrow> nat" where
  "utf8_len [] = 0"
| "utf8_len (a # s) =
    (if byte a < 0x80 then 1
     else if byte_between 0xC2 0xDF a then
       (case s of b # _ \<Rightarrow> if cont_byte b then 2 else 0 | [] \<Rightarrow> 0)
     else if byte_between 0xE0 0xEF a then
       (case s of b # c # _ \<Rightarrow>
          if cont_byte b \<and> cont_byte c \<and> (byte a = 0xE0 \<longrightarrow> 0xA0 \<le> byte b)
             \<and> (byte a = 0xED \<longrightarrow> byte b \<le> 0x9F) then 3 else 0
        | _ \<Rightarrow> 0)
     else if byte_between 0xF0 0xF4 a then
       (case s of b # c # d # _ \<Rightarrow>
          if cont_byte b \<and> cont_byte c \<and> cont_byte d \<and> (byte a = 0xF0 \<longrightarrow> 0x90 \<le> byte b)
             \<and> (byte a = 0xF4 \<longrightarrow> byte b \<le> 0x8F) then 4 else 0
        | _ \<Rightarrow> 0)
     else 0)"

definition simple_escape :: "char \<Rightarrow> char" where
  "simple_escape e =
    (if e = CHR ''b'' then CHR 0x08 else if e = CHR ''f'' then CHR 0x0C
     else if e = CHR ''n'' then nl else if e = CHR ''r'' then cr
     else if e = CHR ''t'' then tab else e)"

definition surrogate :: "nat \<Rightarrow> bool" where "surrogate v \<longleftrightarrow> 0xD800 \<le> v \<and> v < 0xE000"

text \<open>The low half of a surrogate pair, when the string goes on with one.\<close>

definition low_surrogate :: "nat \<Rightarrow> string \<Rightarrow> nat option" where
  "low_surrogate hi s =
    (case s of a # b # r \<Rightarrow>
       if a = bsl \<and> b = CHR ''u'' \<and> 4 \<le> length r \<and> list_all hex_digit (take 4 r)
          \<and> hi < 0xDC00 \<and> 0xDC00 \<le> hex4 r \<and> hex4 r < 0xE000
       then Some (0x10000 + (hi - 0xD800) * 1024 + (hex4 r - 0xDC00)) else None
     | _ \<Rightarrow> None)"

function unquote :: "string \<Rightarrow> string" where
  "unquote [] = []"
| "unquote (c # cs) =
    (if c = bsl then
       (case cs of [] \<Rightarrow> []
        | e # r \<Rightarrow>
            if e = CHR ''u'' then
              (if surrogate (hex4 r) then
                 (case low_surrogate (hex4 r) (drop 4 r) of
                    Some n \<Rightarrow> utf8 n @ unquote (drop 10 r)
                  | None \<Rightarrow> replacement @ unquote (drop 4 r))
               else utf8 (hex4 r) @ unquote (drop 4 r))
            else simple_escape e # unquote r)
     else if byte c < 0x80 then c # unquote cs
     else if utf8_len (c # cs) = 0 then replacement @ unquote cs
     else c # take (utf8_len (c # cs) - 1) cs @ unquote (drop (utf8_len (c # cs) - 1) cs))"
  by pat_completeness auto
termination
  by (relation "measure length") auto

section \<open>The scanner\<close>

datatype jframe =
    FArr "json list"                \<comment> \<open>the elements so far, last first\<close>
  | FKey "(string \<times> json) list"    \<comment> \<open>in an object, reading a key\<close>
  | FVal "(string \<times> json) list" string \<comment> \<open>in an object, reading the key's value\<close>

datatype jst =
    BeginValue | BeginValueOrEmpty | BeginString | BeginStringOrEmpty
  | InStr string | InStrEsc string | InStrU nat string \<comment> \<open>the raw body, last byte first\<close>
  | NumNeg string | Num0 string | Num1 string | NumDot string | NumDot0 string
  | NumE string | NumESign string | NumE0 string
  | InLit string json
  | EndVal json

type_synonym jconf = "jst \<times> jframe list"

definition max_nesting :: nat where "max_nesting = 10000"

definition push_frame :: "jst \<Rightarrow> jframe \<Rightarrow> jframe list \<Rightarrow> jconf option" where
  "push_frame st f fs = (if length fs < max_nesting then Some (st, f # fs) else None)"

definition begin_value :: "jframe list \<Rightarrow> char \<Rightarrow> jconf option" where
  "begin_value fs c =
    (if json_ws c then Some (BeginValue, fs)
     else if c = CHR ''{'' then push_frame BeginStringOrEmpty (FKey []) fs
     else if c = CHR ''['' then push_frame BeginValueOrEmpty (FArr []) fs
     else if c = dq then Some (InStr [], fs)
     else if c = CHR ''-'' then Some (NumNeg [c], fs)
     else if c = CHR ''0'' then Some (Num0 [c], fs)
     else if c = CHR ''t'' then Some (InLit ''rue'' (JBool True), fs)
     else if c = CHR ''f'' then Some (InLit ''alse'' (JBool False), fs)
     else if c = CHR ''n'' then Some (InLit ''ull'' JNull, fs)
     else if is_digit c then Some (Num1 [c], fs)
     else None)"

fun end_value :: "json \<Rightarrow> jframe list \<Rightarrow> char \<Rightarrow> jconf option" where
  "end_value v [] c = (if json_ws c then Some (EndVal v, []) else None)"
| "end_value v (FKey ps # fs) c =
    (if json_ws c then Some (EndVal v, FKey ps # fs)
     else if c = CHR '':'' then
       (case v of JStr k \<Rightarrow> Some (BeginValue, FVal ps k # fs) | _ \<Rightarrow> None)
     else None)"
| "end_value v (FVal ps k # fs) c =
    (if json_ws c then Some (EndVal v, FVal ps k # fs)
     else if c = CHR '','' then Some (BeginString, FKey ((k, v) # ps) # fs)
     else if c = CHR ''}'' then Some (EndVal (JObj (rev ((k, v) # ps))), fs)
     else None)"
| "end_value v (FArr vs # fs) c =
    (if json_ws c then Some (EndVal v, FArr vs # fs)
     else if c = CHR '','' then Some (BeginValue, FArr (v # vs) # fs)
     else if c = CHR '']'' then Some (EndVal (JArr (rev (v # vs))), fs)
     else None)"

fun jstep :: "jconf \<Rightarrow> char \<Rightarrow> jconf option" where
  "jstep (BeginValue, fs) c = begin_value fs c"
| "jstep (BeginValueOrEmpty, fs) c =
    (if json_ws c then Some (BeginValueOrEmpty, fs)
     else if c = CHR '']'' then
       (case fs of FArr [] # gs \<Rightarrow> Some (EndVal (JArr []), gs) | _ \<Rightarrow> None)
     else begin_value fs c)"
| "jstep (BeginString, fs) c =
    (if json_ws c then Some (BeginString, fs)
     else if c = dq then Some (InStr [], fs) else None)"
| "jstep (BeginStringOrEmpty, fs) c =
    (if json_ws c then Some (BeginStringOrEmpty, fs)
     else if c = CHR ''}'' then
       (case fs of FKey [] # gs \<Rightarrow> Some (EndVal (JObj []), gs) | _ \<Rightarrow> None)
     else if c = dq then Some (InStr [], fs) else None)"
| "jstep (InStr raw, fs) c =
    (if c = dq then Some (EndVal (JStr (unquote (rev raw))), fs)
     else if c = bsl then Some (InStrEsc (c # raw), fs)
     else if byte c < 32 then None
     else Some (InStr (c # raw), fs))"
| "jstep (InStrEsc raw, fs) c =
    (if c = CHR ''u'' then Some (InStrU 4 (c # raw), fs)
     else if ctl_letter c \<or> plain_escape c
     then Some (InStr (c # raw), fs) else None)"
| "jstep (InStrU n raw, fs) c =
    (if hex_digit c then Some (if n \<le> 1 then InStr (c # raw) else InStrU (n - 1) (c # raw), fs)
     else None)"
| "jstep (NumNeg raw, fs) c =
    (if c = CHR ''0'' then Some (Num0 (c # raw), fs)
     else if is_digit c then Some (Num1 (c # raw), fs) else None)"
| "jstep (Num1 raw, fs) c =
    (if is_digit c then Some (Num1 (c # raw), fs)
     else if c = CHR ''.'' then Some (NumDot (c # raw), fs)
     else if c = CHR ''e'' \<or> c = CHR ''E'' then Some (NumE (c # raw), fs)
     else end_value (JNum (rev raw)) fs c)"
| "jstep (Num0 raw, fs) c =
    (if c = CHR ''.'' then Some (NumDot (c # raw), fs)
     else if c = CHR ''e'' \<or> c = CHR ''E'' then Some (NumE (c # raw), fs)
     else end_value (JNum (rev raw)) fs c)"
| "jstep (NumDot raw, fs) c = (if is_digit c then Some (NumDot0 (c # raw), fs) else None)"
| "jstep (NumDot0 raw, fs) c =
    (if is_digit c then Some (NumDot0 (c # raw), fs)
     else if c = CHR ''e'' \<or> c = CHR ''E'' then Some (NumE (c # raw), fs)
     else end_value (JNum (rev raw)) fs c)"
| "jstep (NumE raw, fs) c =
    (if c = CHR ''+'' \<or> c = CHR ''-'' then Some (NumESign (c # raw), fs)
     else if is_digit c then Some (NumE0 (c # raw), fs) else None)"
| "jstep (NumESign raw, fs) c = (if is_digit c then Some (NumE0 (c # raw), fs) else None)"
| "jstep (NumE0 raw, fs) c =
    (if is_digit c then Some (NumE0 (c # raw), fs) else end_value (JNum (rev raw)) fs c)"
| "jstep (InLit lit v, fs) c =
    (case lit of [] \<Rightarrow> None
     | x # xs \<Rightarrow> if c = x then Some (if xs = [] then EndVal v else InLit xs v, fs) else None)"
| "jstep (EndVal v, fs) c = end_value v fs c"

fun jrun :: "jconf \<Rightarrow> string \<Rightarrow> jconf option" where
  "jrun cf [] = Some cf"
| "jrun cf (c # cs) = (case jstep cf c of None \<Rightarrow> None | Some cf' \<Rightarrow> jrun cf' cs)"

text \<open>At the end of the input the scanner takes one more space and must then have a value.\<close>

definition json_parse :: "string \<Rightarrow> json option" where
  "json_parse s =
    (case jrun (BeginValue, []) (s @ '' '') of
       Some (EndVal v, []) \<Rightarrow> Some v
     | _ \<Rightarrow> None)"

text \<open>\<open>json.Valid\<close>\<close>

definition json_valid :: "string \<Rightarrow> bool" where
  "json_valid s \<longleftrightarrow> json_parse s \<noteq> None"

lemma jrun_append:
  "jrun cf (xs @ ys) = (case jrun cf xs of None \<Rightarrow> None | Some cf' \<Rightarrow> jrun cf' ys)"
  by (induction xs arbitrary: cf) (auto split: option.split)

lemma jrun_appendI: "jrun cf xs = Some cf' \<Longrightarrow> jrun cf (xs @ ys) = jrun cf' ys"
  by (simp add: jrun_append)

lemma json_valid_Nil [simp]: "\<not> json_valid []"
  by (simp add: json_valid_def json_parse_def begin_value_def json_ws_def)

section \<open>The classes on punctuation\<close>

lemma json_ws_literals [simp]:
  "\<not> json_ws dq" "\<not> json_ws bsl" "\<not> json_ws bt" "\<not> json_ws (CHR '','')"
  "\<not> json_ws (CHR '':'')" "\<not> json_ws (CHR ''{'')" "\<not> json_ws (CHR ''}'')"
  "\<not> json_ws (CHR ''['')" "\<not> json_ws (CHR '']'')" "json_ws nl" "json_ws cr"
  "json_ws tab" "json_ws (CHR '' '')" "\<not> json_ws (CHR ''-'')" "\<not> json_ws (CHR ''+'')"
  "\<not> json_ws (CHR ''.'')" "\<not> json_ws (CHR ''/'')" "\<not> json_ws (CHR ''<'')"
  "\<not> json_ws (CHR ''0'')" "\<not> json_ws (CHR ''_'')" "\<not> json_ws (CHR ''b'')"
  "\<not> json_ws (CHR ''e'')" "\<not> json_ws (CHR ''E'')" "\<not> json_ws (CHR ''f'')"
  "\<not> json_ws (CHR ''n'')" "\<not> json_ws (CHR ''r'')" "\<not> json_ws (CHR ''t'')"
  "\<not> json_ws (CHR ''u'')"
  by (simp_all add: json_ws_def)

lemma hex_digit_literals [simp]:
  "\<not> hex_digit dq" "\<not> hex_digit bsl" "\<not> hex_digit bt"
  "\<not> hex_digit (CHR '','')" "\<not> hex_digit (CHR '':'')" "\<not> hex_digit (CHR ''{'')"
  "\<not> hex_digit (CHR ''}'')" "\<not> hex_digit (CHR ''['')" "\<not> hex_digit (CHR '']'')"
  "\<not> hex_digit nl" "\<not> hex_digit cr" "\<not> hex_digit tab"
  "\<not> hex_digit (CHR '' '')" "\<not> hex_digit (CHR ''-'')" "\<not> hex_digit (CHR ''+'')"
  "\<not> hex_digit (CHR ''.'')" "\<not> hex_digit (CHR ''/'')" "\<not> hex_digit (CHR ''<'')"
  "hex_digit (CHR ''0'')" "\<not> hex_digit (CHR ''_'')" "hex_digit (CHR ''b'')"
  "hex_digit (CHR ''e'')" "hex_digit (CHR ''E'')" "hex_digit (CHR ''f'')"
  "\<not> hex_digit (CHR ''n'')" "\<not> hex_digit (CHR ''r'')" "\<not> hex_digit (CHR ''t'')"
  "\<not> hex_digit (CHR ''u'')"
  by (simp_all add: hex_digit_def byte_between_def)

end
