(* ===== verification/JsonRepair.thy ===== *)
theory JsonRepair
  imports RepairPasses Json
begin

text \<open>
  \<^verbatim>\<open>pkg/toolrepair/jsonrepair/jsonrepair.go\<close>, third part: the key-aware repair of unescaped
  quotes, and the entry points \<open>Repair\<close> and \<open>Unmarshal\<close>.
\<close>

datatype repair_error = ErrIrrecoverable

section \<open>Key-aware quote repair\<close>

text \<open>The loop that escapes a value: \<open>hasUnescapedQuotes\<close> says the model did no escaping.\<close>

fun repair_escape :: "bool \<Rightarrow> string \<Rightarrow> string" where
  "repair_escape hasUnescapedQuotes [] = []"
| "repair_escape hasUnescapedQuotes (c # cs) =
    (if c = bsl \<and> cs \<noteq> [] then
       (case cs of
          [] \<Rightarrow> []
        | n # r \<Rightarrow>
            (if plain_escape n then [bsl, n]
             else if ctl_letter n then
               (if hasUnescapedQuotes then [bsl, bsl, n] else [bsl, n])
             else [bsl, bsl, n]) @ repair_escape hasUnescapedQuotes r)
     else if c = dq then bsl # dq # repair_escape hasUnescapedQuotes cs
     else if c = nl then bsl # CHR ''n'' # repair_escape hasUnescapedQuotes cs
     else if c = cr then bsl # CHR ''r'' # repair_escape hasUnescapedQuotes cs
     else if c = tab then bsl # CHR ''t'' # repair_escape hasUnescapedQuotes cs
     else c # repair_escape hasUnescapedQuotes cs)"

lemma findKeyAware_bounds:
  "findKeyAwareClosingQuote s start = Some k \<Longrightarrow> start \<le> k \<and> k < length s"
  by (simp add: findKeyAware_eq_find find_upt_Some)

function repairQuotes_loop :: "string \<Rightarrow> nat \<Rightarrow> string" where
  "repairQuotes_loop s i =
    (if length s \<le> i then []
     else if s ! i \<noteq> CHR '':'' then s ! i # repairQuotes_loop s (Suc i)
     else
       let ws = takeWhile isWhitespace (drop (Suc i) s); j = Suc i + length ws in
       CHR '':'' # ws @
       (if length s \<le> j then []
        else if s ! j \<noteq> dq then repairQuotes_loop s j
        else (case findKeyAwareClosingQuote s (Suc j) of
                None \<Rightarrow> dq # drop (Suc j) s
              | Some closePos \<Rightarrow>
                  dq # repair_escape (containsUnescapedQuote (slice s (Suc j) closePos))
                         (slice s (Suc j) closePos)
                  @ dq # repairQuotes_loop s (Suc closePos))))"
  by pat_completeness auto
termination
  by (relation "measure (\<lambda>(s, i). length s - i)") (auto dest!: findKeyAware_bounds)

declare repairQuotes_loop.simps [simp del]

definition repairQuotes :: "string \<Rightarrow> string" where
  "repairQuotes s = repairQuotes_loop s 0"

section \<open>Entry points\<close>

definition Repair :: "string \<Rightarrow> string \<times> repair_error option" where
  "Repair s =
    (if s = [] then (s, Some ErrIrrecoverable)
     else if json_valid s then (s, None)
     else
       let (normalized, changed) = normalize s in
       if changed \<and> json_valid normalized then (normalized, None)
       else let repaired = repairQuotes normalized in
         if json_valid repaired then (repaired, None)
         else let repaired = trimTrailingBrace repaired in
           if json_valid repaired then (repaired, None)
           else (s, Some ErrIrrecoverable))"

text \<open>
  \<open>Unmarshal\<close> decodes the repaired text into the value its caller passes; what the target's
  type accepts is the argument \<open>decode\<close>, and its refusal (a type error) is \<open>Inl (Some e)\<close>.
\<close>

definition Unmarshal :: "(json \<Rightarrow> 'e + 'a) \<Rightarrow> string \<Rightarrow> (repair_error + 'e) + 'a" where
  "Unmarshal decode s =
    (case Repair s of
       (_, Some e) \<Rightarrow> Inl (Inl e)
     | (repaired, None) \<Rightarrow>
         (case json_parse repaired of
            None \<Rightarrow> Inl (Inl ErrIrrecoverable)
          | Some v \<Rightarrow> (case decode v of Inl e \<Rightarrow> Inl (Inr e) | Inr a \<Rightarrow> Inr a)))"

end
