(* ===== verification/RepairValid.thy ===== *)
theory RepairValid
  imports JsonRepair
begin

text \<open>
  What the passes of \<^verbatim>\<open>jsonrepair.go\<close> do to a text that is already JSON. Their loops keep
  two flags, \<open>inString\<close> and \<open>escaped\<close>; the first lemmas show that along a run of the JSON
  scanner these flags are exactly what the scanner's own state says. From that, the passes
  that look outside strings only cannot fire on valid JSON.
\<close>

section \<open>The flags of the passes and the state of the scanner\<close>

definition in_string :: "jst \<Rightarrow> bool" where
  "in_string st = (case st of InStr _ \<Rightarrow> True | InStrEsc _ \<Rightarrow> True | InStrU _ _ \<Rightarrow> True | _ \<Rightarrow> False)"

definition in_escape :: "jst \<Rightarrow> bool" where
  "in_escape st = (case st of InStrEsc _ \<Rightarrow> True | _ \<Rightarrow> False)"

definition is_str :: "json \<Rightarrow> bool" where
  "is_str v = (case v of JStr _ \<Rightarrow> True | _ \<Rightarrow> False)"

text \<open>The literals the scanner waits for are \<open>true\<close>, \<open>false\<close> and \<open>null\<close> only.\<close>

definition lit_ok :: "jst \<Rightarrow> bool" where
  "lit_ok st = (case st of InLit lit v \<Rightarrow> list_all is_lower lit \<and> \<not> is_str v | _ \<Rightarrow> True)"

lemmas st_defs = in_string_def in_escape_def lit_ok_def is_str_def

lemma begin_value_cases:
  assumes "begin_value fs c = Some (st, fs')"
  obtains (ws) "json_ws c" "st = BeginValue" "fs' = fs"
  | (obj) "c = CHR ''{''" "st = BeginStringOrEmpty" "fs' = FKey [] # fs"
  | (arr) "c = CHR ''[''" "st = BeginValueOrEmpty" "fs' = FArr [] # fs"
  | (str) "c = dq" "st = InStr []" "fs' = fs"
  | (neg) "c = CHR ''-''" "st = NumNeg [c]" "fs' = fs"
  | (zero) "c = CHR ''0''" "st = Num0 [c]" "fs' = fs"
  | (true) "c = CHR ''t''" "st = InLit ''rue'' (JBool True)" "fs' = fs"
  | (false) "c = CHR ''f''" "st = InLit ''alse'' (JBool False)" "fs' = fs"
  | (null) "c = CHR ''n''" "st = InLit ''ull'' JNull" "fs' = fs"
  | (digit) "is_digit c" "st = Num1 [c]" "fs' = fs"
  using assms unfolding begin_value_def push_frame_def
  by (auto split: if_split_asm)

lemma end_value_cases:
  assumes "end_value v fs c = Some (st, fs')"
  obtains (ws) "json_ws c" "st = EndVal v" "fs' = fs"
  | (colon) k ps gs where "c = CHR '':''" "v = JStr k" "fs = FKey ps # gs"
      "st = BeginValue" "fs' = FVal ps k # gs"
  | (objcomma) k ps gs where "c = CHR '',''" "fs = FVal ps k # gs"
      "st = BeginString" "fs' = FKey ((k, v) # ps) # gs"
  | (objend) k ps gs where "c = CHR ''}''" "fs = FVal ps k # gs"
      "st = EndVal (JObj (rev ((k, v) # ps)))" "fs' = gs"
  | (arrcomma) vs gs where "c = CHR '',''" "fs = FArr vs # gs"
      "st = BeginValue" "fs' = FArr (v # vs) # gs"
  | (arrend) vs gs where "c = CHR '']''" "fs = FArr vs # gs"
      "st = EndVal (JArr (rev (v # vs)))" "fs' = gs"
proof (cases fs)
  case Nil
  with assms show ?thesis by (auto intro: ws split: if_split_asm)
next
  case (Cons f gs)
  show ?thesis
  proof (cases f)
    case (FArr vs)
    with assms Cons show ?thesis by (auto intro: ws arrcomma arrend split: if_split_asm)
  next
    case (FKey ps)
    with assms Cons show ?thesis by (auto intro: ws colon split: if_split_asm json.split_asm)
  next
    case (FVal ps k)
    with assms Cons show ?thesis by (auto intro: ws objcomma objend split: if_split_asm)
  qed
qed

lemmas value_cases = begin_value_cases end_value_cases

lemma lower_literals [simp]: "is_lower CHR ''a''" "is_lower CHR ''l''" "is_lower CHR ''s''"
  by (simp_all add: byte_simps)

text \<open>A number goes on, or the byte after it ends the value.\<close>

lemma num_step_cases:
  assumes "jstep (st, fs) c = Some (st', fs')" "st = Num0 raw \<or> st = Num1 raw"
  obtains (digit) "is_digit c" "st' = Num1 (c # raw)" "fs' = fs"
  | (dot) "c = CHR ''.''" "st' = NumDot (c # raw)" "fs' = fs"
  | (exp) "c = CHR ''e''" "st' = NumE (c # raw)" "fs' = fs"
  | (exp2) "c = CHR ''E''" "st' = NumE (c # raw)" "fs' = fs"
  | (stop) "end_value (JNum (rev raw)) fs c = Some (st', fs')"
  by (use assms in \<open>cases "c = CHR ''.''"; cases "c = CHR ''e''"; cases "c = CHR ''E''";
        cases "is_digit c"\<close>) (auto intro: that)

lemma jstep_lit_ok:
  assumes step: "jstep (st, fs) c = Some (st', fs')" and lit: "lit_ok st"
  shows "lit_ok st'"
proof (cases st)
  case (Num0 raw)
  with step show ?thesis
    by (elim num_step_cases [where raw = raw]) (auto simp: lit_ok_def is_str_def in_string_def elim!: value_cases)
next
  case (Num1 raw)
  with step show ?thesis
    by (elim num_step_cases [where raw = raw]) (auto simp: lit_ok_def is_str_def in_string_def elim!: value_cases)
qed (use step lit in \<open>auto simp: lit_ok_def is_str_def in_string_def
       split: if_split_asm list.split_asm jframe.split_asm elim!: value_cases\<close>)

lemma jstep_in_string:
  assumes step: "jstep (st, fs) c = Some (st', fs')" and lit: "lit_ok st"
  shows "in_string st' = (if in_string st then in_escape st \<or> c \<noteq> dq else c = dq)"
proof (cases st)
  case (Num0 raw)
  with step show ?thesis
    by (elim num_step_cases [where raw = raw]) (auto simp: in_string_def in_escape_def lit_ok_def elim!: value_cases)
next
  case (Num1 raw)
  with step show ?thesis
    by (elim num_step_cases [where raw = raw]) (auto simp: in_string_def in_escape_def lit_ok_def elim!: value_cases)
qed (use step lit in \<open>auto simp: in_string_def in_escape_def lit_ok_def
       split: if_split_asm list.split_asm jframe.split_asm elim!: value_cases\<close>)

lemma jstep_in_escape:
  assumes step: "jstep (st, fs) c = Some (st', fs')" and lit: "lit_ok st"
  shows "in_escape st' = (in_string st \<and> \<not> in_escape st \<and> c = bsl)"
proof (cases st)
  case (Num0 raw)
  with step show ?thesis
    by (elim num_step_cases [where raw = raw]) (auto simp: in_string_def in_escape_def lit_ok_def elim!: value_cases)
next
  case (Num1 raw)
  with step show ?thesis
    by (elim num_step_cases [where raw = raw]) (auto simp: in_string_def in_escape_def lit_ok_def elim!: value_cases)
qed (use step lit in \<open>auto simp: in_string_def in_escape_def lit_ok_def
       split: if_split_asm list.split_asm jframe.split_asm elim!: value_cases\<close>)

lemmas jstep_flags = jstep_in_string jstep_in_escape jstep_lit_ok

section \<open>Trailing commas\<close>

text \<open>What the pass writes, without the lazy builder.\<close>

fun strip_commas :: "bool \<Rightarrow> bool \<Rightarrow> string \<Rightarrow> string" where
  "strip_commas inString escaped [] = []"
| "strip_commas inString escaped (c # cs) =
    (if escaped then c # strip_commas inString False cs
     else if c = bsl \<and> inString then c # strip_commas inString True cs
     else if c = dq then c # strip_commas (\<not> inString) False cs
     else if \<not> inString \<and> c = CHR '',''
             \<and> (next_is (CHR ''}'') (skip_ws cs) \<or> next_is (CHR '']'') (skip_ws cs))
     then strip_commas inString False cs
     else c # strip_commas inString False cs)"

lemma removeTrailingCommas_loop_out:
  "lb_out (removeTrailingCommas_loop inS esc b cs) = lb_out b @ strip_commas inS esc cs"
  by (induction cs arbitrary: inS esc b) auto

lemma removeTrailingCommas_loop_seen:
  "lb_seen (removeTrailingCommas_loop inS esc b cs) = lb_seen b @ cs"
  by (induction cs arbitrary: inS esc b) simp_all

lemma removeTrailingCommas_eq: "removeTrailingCommas s = strip_commas False False s"
  by (simp add: removeTrailingCommas_def lb_result_out removeTrailingCommas_loop_seen
        removeTrailingCommas_loop_out)

lemma skip_ws_Cons: "skip_ws (c # cs) = (if isWhitespace c then skip_ws cs else c # cs)"
  by (simp add: skip_ws_def)

lemma isWhitespace_json_ws: "isWhitespace = json_ws"
  by (simp add: fun_eq_iff isWhitespace_def json_ws_def)

text \<open>After a comma the scanner wants a key or a value: a closer is an error.\<close>

lemma run_after_comma:
  "jrun (st, fs) cs \<noteq> None \<Longrightarrow> st = BeginString \<or> st = BeginValue \<Longrightarrow>
     \<not> next_is (CHR ''}'') (skip_ws cs) \<and> \<not> next_is (CHR '']'') (skip_ws cs)"
proof (induction cs arbitrary: st)
  case Nil
  then show ?case by (simp add: skip_ws_def next_is_def)
next
  case (Cons c cs)
  show ?case
  proof (cases "json_ws c")
    case True
    with Cons.prems have "jrun (st, fs) cs \<noteq> None"
      by (auto simp: begin_value_def)
    with Cons.IH Cons.prems(2) True show ?thesis
      by (simp add: skip_ws_Cons isWhitespace_json_ws)
  next
    case False
    moreover have "c \<noteq> CHR ''}'' \<and> c \<noteq> CHR '']''"
      using Cons.prems by (auto simp: begin_value_def)
    ultimately show ?thesis by (simp add: skip_ws_Cons isWhitespace_json_ws next_is_def)
  qed
qed

lemma comma_step:
  assumes "jstep (st, fs) (CHR '','') = Some (st', fs')" "lit_ok st" "\<not> in_string st"
  shows "st' = BeginString \<or> st' = BeginValue"
proof (cases st)
  case (InLit lit v)
  with assms show ?thesis by (auto simp: lit_ok_def split: list.split_asm if_split_asm)
qed (use assms in \<open>auto simp: in_string_def elim!: value_cases\<close>)

lemma strip_commas_run:
  "jrun (st, fs) cs \<noteq> None \<Longrightarrow> lit_ok st \<Longrightarrow> strip_commas (in_string st) (in_escape st) cs = cs"
proof (induction cs arbitrary: st fs)
  case Nil
  then show ?case by simp
next
  case (Cons c cs)
  obtain st' fs' where step: "jstep (st, fs) c = Some (st', fs')" and run: "jrun (st', fs') cs \<noteq> None"
    using Cons.prems(1) by (auto split: option.splits)
  note flags = jstep_flags [OF step Cons.prems(2)]
  have IH: "strip_commas (in_string st') (in_escape st') cs = cs"
    using Cons.IH run flags(3) by blast
  have esc: "in_escape st \<Longrightarrow> in_string st"
    by (auto simp: in_escape_def in_string_def split: jst.splits)
  have comma: "\<not> (next_is (CHR ''}'') (skip_ws cs) \<or> next_is (CHR '']'') (skip_ws cs))"
    if "\<not> in_string st" "c = CHR '',''"
    using comma_step [of st fs st' fs'] step Cons.prems(2) that run_after_comma [OF run] by auto
  show ?case
    using IH flags(1,2) esc comma by (cases "in_string st"; cases "in_escape st") auto
qed

lemma json_valid_run: "json_valid s \<Longrightarrow> jrun (BeginValue, []) s \<noteq> None"
  by (auto simp: json_valid_def json_parse_def jrun_append split: option.splits)

lemma removeTrailingCommas_valid: "json_valid s \<Longrightarrow> removeTrailingCommas s = s"
  using strip_commas_run [OF json_valid_run, of s]
  by (simp add: removeTrailingCommas_eq lit_ok_def in_string_def in_escape_def)

section \<open>Bare keys\<close>

fun quote_keys :: "bool \<Rightarrow> bool \<Rightarrow> string \<Rightarrow> string" where
  "quote_keys inString escaped [] = []"
| "quote_keys inString escaped (c # cs) =
    (if escaped then c # quote_keys inString False cs
     else if c = bsl \<and> inString then c # quote_keys inString True cs
     else if c = dq then c # quote_keys (\<not> inString) False cs
     else if inString then c # quote_keys inString False cs
     else if bare_key_start c \<and> next_is (CHR '':'') (dropWhile isIdentChar cs)
     then dq # c # takeWhile isIdentChar cs @ dq # quote_keys inString False (dropWhile isIdentChar cs)
     else c # quote_keys inString False cs)"

lemma quoteBareKeys_loop_out:
  "lb_out (quoteBareKeys_loop inS esc b cs) = lb_out b @ quote_keys inS esc cs"
proof (induction inS esc cs arbitrary: b rule: quote_keys.induct)
  case (2 inS esc c cs)
  then show ?case by (auto simp del: next_is_def)
qed simp

lemma quoteBareKeys_loop_seen:
  "lb_seen (quoteBareKeys_loop inS esc b cs) = lb_seen b @ cs"
proof (induction inS esc cs arbitrary: b rule: quote_keys.induct)
  case (2 inS esc c cs)
  then show ?case by auto
qed simp

lemma quoteBareKeys_eq: "quoteBareKeys s = quote_keys False False s"
  by (simp add: quoteBareKeys_def lb_result_out quoteBareKeys_loop_seen quoteBareKeys_loop_out)

text \<open>The scanner inside a number or a literal, or after one: no colon can follow.\<close>

definition non_key :: "jst \<Rightarrow> bool" where
  "non_key st = (case st of InLit lit v \<Rightarrow> list_all is_lower lit \<and> \<not> is_str v | EndVal v \<Rightarrow> \<not> is_str v
     | NumNeg _ \<Rightarrow> True | Num0 _ \<Rightarrow> True | Num1 _ \<Rightarrow> True | NumDot _ \<Rightarrow> True | NumDot0 _ \<Rightarrow> True
     | NumE _ \<Rightarrow> True | NumESign _ \<Rightarrow> True | NumE0 _ \<Rightarrow> True | _ \<Rightarrow> False)"

lemma ident_not_punct:
  "isIdentChar c \<Longrightarrow> \<not> json_ws c \<and> c \<noteq> CHR '','' \<and> c \<noteq> CHR '':'' \<and> c \<noteq> CHR ''}'' \<and> c \<noteq> CHR '']''"
  by (auto simp: isIdentChar_def json_ws_def byte_simps)

lemma end_value_ident: "isIdentChar c \<Longrightarrow> end_value v fs c = None"
  using ident_not_punct [of c] by (cases "(v, fs, c)" rule: end_value.cases) simp_all

lemma bare_start_ident: "bare_key_start c \<Longrightarrow> isIdentChar c \<and> \<not> is_digit c"
  by (auto simp: bare_key_start_def isIdentChar_def byte_simps)

lemma non_key_step:
  assumes "jstep (st, fs) c = Some (st', fs')" "non_key st" "isIdentChar c"
  shows "non_key st'"
  using assms end_value_ident [OF assms(3)]
  by (cases st) (auto simp: non_key_def is_str_def split: if_split_asm list.split_asm)

lemma end_value_colon: "\<not> is_str v \<Longrightarrow> end_value v fs (CHR '':'') = None"
  by (cases "(v, fs, CHR '':'')" rule: end_value.cases) (auto simp: is_str_def split: json.split)

lemma non_key_colon: "non_key st \<Longrightarrow> jstep (st, fs) (CHR '':'') = None"
  using end_value_colon [of "JNum _" fs]
  by (cases st) (auto simp: non_key_def is_str_def end_value_colon split: list.split)

lemma bare_start_step:
  assumes "jstep (st, fs) c = Some (st', fs')" "lit_ok st" "\<not> in_string st" "bare_key_start c"
  shows "non_key st'"
proof -
  have c: "isIdentChar c" "\<not> json_ws c" "\<not> is_digit c"
    using bare_start_ident [OF assms(4)] ident_not_punct by auto
  have start: "non_key st'" if "begin_value fs c = Some (st', fs')"
    using that c by (elim begin_value_cases) (auto simp: non_key_def is_str_def)
  show ?thesis
    using assms(1-3) start c end_value_ident [OF c(1)]
    by (cases st)
       (auto simp: non_key_def lit_ok_def in_string_def is_str_def
         split: if_split_asm list.split_asm jframe.split_asm)
qed

lemma non_key_run:
  "non_key st \<Longrightarrow> next_is (CHR '':'') (dropWhile isIdentChar cs) \<Longrightarrow> jrun (st, fs) cs = None"
proof (induction cs arbitrary: st fs)
  case Nil
  then show ?case by (simp add: next_is_def)
next
  case (Cons c cs)
  show ?case
  proof (cases "isIdentChar c")
    case True
    then show ?thesis
      using Cons non_key_step [of st fs c] by (fastforce split: option.split)
  next
    case False
    with Cons.prems have "c = CHR '':''" by (simp add: next_is_def)
    with Cons.prems(1) show ?thesis by (simp add: non_key_colon)
  qed
qed

lemma quote_keys_run:
  "jrun (st, fs) cs \<noteq> None \<Longrightarrow> lit_ok st \<Longrightarrow> quote_keys (in_string st) (in_escape st) cs = cs"
proof (induction cs arbitrary: st fs)
  case Nil
  then show ?case by simp
next
  case (Cons c cs)
  obtain st' fs' where step: "jstep (st, fs) c = Some (st', fs')" and run: "jrun (st', fs') cs \<noteq> None"
    using Cons.prems(1) by (auto split: option.splits)
  note flags = jstep_flags [OF step Cons.prems(2)]
  have IH: "quote_keys (in_string st') (in_escape st') cs = cs"
    using Cons.IH run flags(3) by blast
  have esc: "in_escape st \<Longrightarrow> in_string st"
    by (auto simp: in_escape_def in_string_def split: jst.splits)
  have key: "\<not> next_is (CHR '':'') (dropWhile isIdentChar cs)"
    if "\<not> in_string st" "bare_key_start c"
    using bare_start_step [OF step Cons.prems(2) that] non_key_run [of st' cs fs'] run by auto
  show ?case
    using IH flags(1,2) esc key by (cases "in_string st"; cases "in_escape st") auto
qed

lemma quoteBareKeys_valid: "json_valid s \<Longrightarrow> quoteBareKeys s = s"
  using quote_keys_run [OF json_valid_run, of s]
  by (simp add: quoteBareKeys_eq lit_ok_def in_string_def in_escape_def)

section \<open>Backslash before a control character\<close>

lemma backslash_step:
  assumes "jstep (st, fs) bsl = Some (st', fs')" "lit_ok st" "\<not> in_escape st"
  shows "\<exists>raw. st' = InStrEsc raw"
proof (cases st)
  case (InLit lit v)
  with assms show ?thesis by (auto simp: lit_ok_def split: list.split_asm if_split_asm)
qed (use assms in \<open>auto simp: in_escape_def elim!: value_cases\<close>)

lemma ctl_letter_not_tnr: "ctl_letter c \<Longrightarrow> \<not> is_tnr c"
  by (auto simp: is_tnr_def)

lemma plain_escape_not_tnr: "plain_escape c \<Longrightarrow> \<not> is_tnr c"
  by (auto simp: is_tnr_def)

lemma backslash_run:
  "jrun (st, fs) cs \<noteq> None \<Longrightarrow> lit_ok st \<Longrightarrow> \<not> in_escape st \<Longrightarrow> \<not> backslash_control_found cs"
proof (induction cs arbitrary: st fs rule: backslash_control_found.induct)
  case (3 c d ds)
  obtain st' fs' where step: "jstep (st, fs) c = Some (st', fs')"
    and run: "jrun (st', fs') (d # ds) \<noteq> None"
    using "3.prems"(1) by (auto split: option.splits)
  note flags = jstep_flags [OF step "3.prems"(2)]
  show ?case
  proof (cases "c = bsl")
    case True
    with backslash_step [of st fs st' fs'] step "3.prems" obtain raw where "st' = InStrEsc raw"
      by blast
    with run obtain st2 where st2: "jrun (st2, fs') ds \<noteq> None" "\<not> is_tnr d"
        "st2 = InStr (d # raw) \<or> st2 = InStrU 4 (d # raw)"
      by (auto dest: ctl_letter_not_tnr plain_escape_not_tnr split: option.splits if_split_asm)
    with "3.IH"(1) [OF True st2(2), of st2 fs'] have "\<not> backslash_control_found ds"
      by (auto simp: lit_ok_def in_escape_def)
    with True st2(2) show ?thesis by simp
  next
    case False
    with "3.IH"(2) [OF False, of st' fs'] run flags show ?thesis by simp
  qed
qed simp_all

lemma normalizeBackslashControlChars_valid:
  "json_valid s \<Longrightarrow> normalizeBackslashControlChars s = s"
  using backslash_run [OF json_valid_run, of s]
  by (simp add: normalizeBackslashControlChars_def lit_ok_def in_escape_def)

section \<open>The contract of a harmless pass\<close>

text \<open>A pass that leaves valid JSON alone may be put anywhere in the pipeline after a check.\<close>

locale json_preserving =
  fixes pass :: "string \<Rightarrow> string"
  assumes pass_valid: "json_valid s \<Longrightarrow> pass s = s"
begin

lemma pass_keeps_validity: "json_valid s \<Longrightarrow> json_valid (pass s)"
  by (simp add: pass_valid)

lemma pass_keeps_value: "json_parse s = Some v \<Longrightarrow> json_parse (pass s) = Some v"
  by (simp add: pass_valid json_valid_def)

lemma pass_then: "json_valid s \<Longrightarrow> f (pass s) = f s"
  by (simp add: pass_valid)

end

interpretation commas: json_preserving removeTrailingCommas
  by unfold_locales (rule removeTrailingCommas_valid)

interpretation bare_keys: json_preserving quoteBareKeys
  by unfold_locales (rule quoteBareKeys_valid)

interpretation backslashes: json_preserving normalizeBackslashControlChars
  by unfold_locales (rule normalizeBackslashControlChars_valid)

end
