(* ===== verification/RepairText.thy ===== *)
theory RepairText
  imports RepairValid
begin

text \<open>
  What the two escaping loops of \<^verbatim>\<open>jsonrepair.go\<close> (one in \<open>normalizeGemmaQuotes\<close>, one in
  \<open>repairQuotes\<close>) promise: what they write is the body of a JSON string literal, and for
  source text the literal decodes to the text itself.
\<close>

section \<open>One escaping loop\<close>

lemma ctl_letter_not_plain: "ctl_letter c \<Longrightarrow> \<not> plain_escape c"
  by (auto simp: ctl_letter_def)

lemma repair_escape_eq_gemma: "repair_escape b x = gemma_escape b x"
proof (induction x rule: length_induct)
  case (1 x)
  show ?case
  proof (cases x)
    case Nil
    then show ?thesis by simp
  next
    case (Cons c cs)
    with "1.IH" have cs: "repair_escape b cs = gemma_escape b cs" by simp
    show ?thesis
    proof (cases "c = bsl \<and> cs \<noteq> []")
      case True
      then obtain n r where r: "cs = n # r" by (cases cs) auto
      with "1.IH" Cons have "repair_escape b r = gemma_escape b r" by simp
      with True r Cons show ?thesis
        using ctl_letter_not_plain [of n] by (cases "ctl_letter n") simp_all
    next
      case False
      then show ?thesis
        using cs Cons by (cases "c = bsl") simp_all
    qed
  qed
qed

section \<open>The output is a string body\<close>

text \<open>
  The texts the loop can handle: printable or tab, newline, carriage return; a backslash has
  a printable byte after it, and four hexadecimal digits after \<open>u\<close>.
\<close>

fun escapable :: "string \<Rightarrow> bool" where
  "escapable [] = True"
| "escapable (c # cs) =
    (if c = bsl then
       (case cs of [] \<Rightarrow> False
        | n # r \<Rightarrow> (if n = CHR ''u'' then 4 \<le> length r \<and> list_all hex_digit (take 4 r)
                   else 32 \<le> byte n) \<and> escapable r)
     else (32 \<le> byte c \<or> is_tnr c) \<and> escapable cs)"

lemma hex_digit_plain:
  "hex_digit c \<Longrightarrow> c \<noteq> dq \<and> c \<noteq> bsl \<and> c \<noteq> nl \<and> c \<noteq> cr \<and> c \<noteq> tab \<and> \<not> is_tnr c"
  by (auto simp: is_tnr_def)

lemma gemma_escape_bsl:
  "gemma_escape b (bsl # n # r) =
    (if ctl_letter n then if b then [bsl, bsl, n] else [bsl, n]
     else if plain_escape n then [bsl, n] else [bsl, bsl, n]) @ gemma_escape b r"
  by simp

lemma gemma_escape_hex: "hex_digit c \<Longrightarrow> gemma_escape b (c # cs) = c # gemma_escape b cs"
  using hex_digit_plain [of c] by simp

lemma escapable_hex: "hex_digit c \<Longrightarrow> escapable (c # cs) \<Longrightarrow> escapable cs"
  using hex_digit_plain [of c] by simp

lemma run_str_plain:
  "32 \<le> byte c \<Longrightarrow> c \<noteq> dq \<Longrightarrow> c \<noteq> bsl \<Longrightarrow> jstep (InStr raw, fs) c = Some (InStr (c # raw), fs)"
  by simp

lemma gemma_escape_run:
  "escapable x \<Longrightarrow>
     jrun (InStr raw, fs) (gemma_escape b x) = Some (InStr (rev (gemma_escape b x) @ raw), fs)"
proof (induction x arbitrary: raw rule: length_induct)
  case (1 x)
  note IH = "1.IH" [rule_format]
  show ?case
  proof (cases x)
    case Nil
    then show ?thesis by simp
  next
    case (Cons c cs)
    show ?thesis
    proof (cases "c = bsl")
      case False
      with "1.prems" Cons have c: "32 \<le> byte c \<or> is_tnr c" and cs: "escapable cs" by simp_all
      have "jrun (InStr raw', fs) (gemma_escape b cs)
          = Some (InStr (rev (gemma_escape b cs) @ raw'), fs)" for raw'
        using IH [of cs] Cons cs by simp
      with False c Cons show ?thesis by (auto simp: is_tnr_def)
    next
      case True
      with "1.prems" Cons obtain n r where cs: "cs = n # r" and r: "escapable r"
        and n: "if n = CHR ''u'' then 4 \<le> length r \<and> list_all hex_digit (take 4 r) else 32 \<le> byte n"
        by (auto split: list.split_asm)
      have rest: "jrun (InStr raw', fs) (gemma_escape b r)
          = Some (InStr (rev (gemma_escape b r) @ raw'), fs)" for raw'
        using IH [of r] Cons cs r by simp
      show ?thesis
      proof (cases "n = CHR ''u''")
        case False
        with n rest cs Cons True show ?thesis by (auto simp: run_str_plain)
      next
        case u: True
        with n obtain h1 h2 h3 h4 r' where r': "r = h1 # h2 # h3 # h4 # r'"
          and h: "hex_digit h1" "hex_digit h2" "hex_digit h3" "hex_digit h4"
          by (auto simp: numeral_eq_Suc Suc_le_length_iff)
        have "escapable r'" using r h unfolding r' by (blast dest: escapable_hex)
        then have "jrun (InStr raw', fs) (gemma_escape b r')
            = Some (InStr (rev (gemma_escape b r') @ raw'), fs)" for raw'
          using IH [of r'] Cons cs r' by simp
        with True u h cs Cons r' show ?thesis
          by (simp add: gemma_escape_hex gemma_escape_bsl del: gemma_escape.simps(2))
      qed
    qed
  qed
qed

section \<open>The string body decodes to the text\<close>

lemma utf8_len_bound: "utf8_len s \<le> length s"
  by (cases s) (auto split: list.split)

lemma utf8_len_split:
  assumes "utf8_len (a # s) = n" "n \<noteq> 0" "0x80 \<le> byte a"
  shows "\<exists>u r. a # s = u @ r \<and> length u = n \<and> list_all (\<lambda>c. 0x80 \<le> byte c) u
           \<and> (\<forall>t. utf8_len (u @ t) = n)"
proof -
  consider (two) b r where "s = b # r" "n = 2" "cont_byte b" "\<forall>t. utf8_len ([a, b] @ t) = 2"
    | (three) b c r where "s = b # c # r" "n = 3" "cont_byte b" "cont_byte c"
        "\<forall>t. utf8_len ([a, b, c] @ t) = 3"
    | (four) b c d r where "s = b # c # d # r" "n = 4" "cont_byte b" "cont_byte c" "cont_byte d"
        "\<forall>t. utf8_len ([a, b, c, d] @ t) = 4"
    using assms by (auto split: if_split_asm list.split_asm)
  then show ?thesis
  proof cases
    case two
    with assms(3) show ?thesis
      by (intro exI [of _ "[a, b]"] exI [of _ r]) (auto simp: cont_byte_def byte_between_def)
  next
    case three
    with assms(3) show ?thesis
      by (intro exI [of _ "[a, b, c]"] exI [of _ r]) (auto simp: cont_byte_def byte_between_def)
  next
    case four
    with assms(3) show ?thesis
      by (intro exI [of _ "[a, b, c, d]"] exI [of _ r]) (auto simp: cont_byte_def byte_between_def)
  qed
qed

text \<open>
  The texts whose every byte survives: valid UTF-8 without control characters other than tab,
  newline and carriage return; a backslash is followed by a printable ASCII byte that is not
  itself an escape the loop keeps (quote, backslash, slash, \<open>u\<close>), and by one of
  \<open>n r t b f\<close> only when the loop runs in its source-code mode, \<open>b\<close>.
\<close>

function verbatim :: "bool \<Rightarrow> string \<Rightarrow> bool" where
  "verbatim b [] = True"
| "verbatim b (c # cs) =
    (if c = bsl then
       (case cs of [] \<Rightarrow> False
        | n # r \<Rightarrow> 32 \<le> byte n \<and> byte n < 0x80 \<and> \<not> plain_escape n \<and> (ctl_letter n \<longrightarrow> b) \<and> verbatim b r)
     else if byte c < 0x80 then (32 \<le> byte c \<or> is_tnr c) \<and> verbatim b cs
     else utf8_len (c # cs) \<noteq> 0 \<and> verbatim b (drop (utf8_len (c # cs) - 1) cs))"
  by pat_completeness auto
termination
  by (relation "measure (\<lambda>(b, s). length s)") auto

declare verbatim.simps(2) [simp del]

lemma gemma_escape_high:
  "list_all (\<lambda>c. 0x80 \<le> byte c) u \<Longrightarrow> gemma_escape b (u @ t) = u @ gemma_escape b t"
proof (induction u)
  case (Cons c u)
  then have "c \<noteq> dq \<and> c \<noteq> bsl \<and> c \<noteq> nl \<and> c \<noteq> cr \<and> c \<noteq> tab" by auto
  with Cons show ?case by simp
qed simp

lemma escapable_high:
  "list_all (\<lambda>c. 0x80 \<le> byte c) u \<Longrightarrow> escapable (u @ t) = escapable t"
proof (induction u)
  case (Cons c u)
  then have "c \<noteq> bsl" by auto
  with Cons show ?case by simp
qed simp

lemma unquote_sequence:
  assumes "u \<noteq> []" "list_all (\<lambda>c. 0x80 \<le> byte c) u" "utf8_len (u @ t) = length u"
  shows "unquote (u @ t) = u @ unquote t"
proof -
  obtain a u' where u: "u = a # u'" using assms(1) by (cases u) auto
  with assms(2) have "a \<noteq> bsl" "\<not> byte a < 0x80" by auto
  with assms(3) u show ?thesis by (simp del: utf8_len.simps)
qed

lemma unquote_ascii: "c \<noteq> bsl \<Longrightarrow> byte c < 0x80 \<Longrightarrow> unquote (c # cs) = c # unquote cs"
  by simp

lemma unquote_simple: "e \<noteq> CHR ''u'' \<Longrightarrow> unquote (bsl # e # cs) = simple_escape e # unquote cs"
  by simp

lemma simple_escapes [simp]: "simple_escape dq = dq" "simple_escape bsl = bsl"
  "simple_escape CHR ''n'' = nl" "simple_escape CHR ''r'' = cr" "simple_escape CHR ''t'' = tab"
  by (simp_all add: simple_escape_def)

lemma verbatim_escape:
  "verbatim b x \<Longrightarrow> escapable x \<and> unquote (gemma_escape b x) = x"
proof (induction b x rule: verbatim.induct)
  case (1 b)
  then show ?case by simp
next
  case (2 b c cs)
  consider (esc) "c = bsl" | (ascii) "c \<noteq> bsl" "byte c < 0x80" | (high) "\<not> byte c < 0x80"
    by blast
  then show ?case
  proof cases
    case esc
    with "2.prems" obtain n r where cs: "cs = n # r" and v: "verbatim b r" "32 \<le> byte n"
      "byte n < 0x80" "\<not> plain_escape n" "ctl_letter n \<longrightarrow> b"
      by (auto simp: verbatim.simps(2) split: list.split_asm)
    have "n \<noteq> bsl" "n \<noteq> CHR ''u''" using v(4) by auto
    with "2.IH"(1) [OF esc cs v(1)] v esc cs show ?thesis
      by (cases b) (simp_all add: gemma_escape_bsl unquote_simple unquote_ascii
               del: gemma_escape.simps(2) unquote.simps(2))
  next
    case ascii
    with "2.prems" have v: "32 \<le> byte c \<or> is_tnr c" "verbatim b cs"
      by (simp_all add: verbatim.simps(2))
    from "2.IH"(2) [OF ascii v(2)] v(1) ascii show ?thesis
      by (auto simp: is_tnr_def unquote_simple unquote_ascii simp del: unquote.simps(2))
  next
    case high
    then have "c \<noteq> bsl" by auto
    let ?n = "utf8_len (c # cs)"
    have "verbatim b (c # cs) \<longleftrightarrow> ?n \<noteq> 0 \<and> verbatim b (drop (?n - 1) cs)"
      by (subst verbatim.simps(2)) (simp only: high \<open>c \<noteq> bsl\<close> if_False)
    with "2.prems" have v: "?n \<noteq> 0" "verbatim b (drop (?n - 1) cs)" by blast+
    have "0x80 \<le> byte c" using high by simp
    from utf8_len_split [OF refl v(1) this] obtain u r where u: "c # cs = u @ r" "length u = ?n"
      "list_all (\<lambda>c. 0x80 \<le> byte c) u" "\<forall>t. utf8_len (u @ t) = ?n" by blast
    have u': "u \<noteq> []" using u(2) v(1) by (metis length_0_conv)
    then have r: "r = drop (?n - 1) cs"
      using u(1) unfolding u(2) [symmetric] by (cases u) (simp_all del: utf8_len.simps)
    have IH: "escapable r \<and> unquote (gemma_escape b r) = r"
      using "2.IH"(3) [OF \<open>c \<noteq> bsl\<close> high v(2)] unfolding r .
    with u(2-4) u' show ?thesis unfolding u(1)
      by (simp add: gemma_escape_high escapable_high unquote_sequence
               del: gemma_escape.simps escapable.simps unquote.simps)
  qed
qed

lemma json_literal:
  assumes "escapable x"
  shows "json_parse (dq # gemma_escape b x @ [dq]) = Some (JStr (unquote (gemma_escape b x)))"
proof -
  have "jrun (BeginValue, []) (dq # gemma_escape b x @ [dq])
      = Some (EndVal (JStr (unquote (gemma_escape b x))), [])"
    by (simp add: begin_value_def jrun_append gemma_escape_run [OF assms])
  from jrun_appendI [OF this, of "'' ''"] show ?thesis by (simp add: json_parse_def)
qed

end
