(* ===== verification/RepairRecover.thy ===== *)
theory RepairRecover
  imports RepairText
begin

text \<open>
  The purpose of \<open>Repair\<close> (\<^verbatim>\<open>jsonrepair.go\<close>): a one-key object whose value was written with
  raw, unescaped double quotes comes back as valid JSON with exactly that value. The section
  follows the pipeline pass by pass on such a document.
\<close>

section \<open>Passes that have nothing to do\<close>

lemma index_of_absent: "t \<noteq> [] \<Longrightarrow> hd t \<notin> set s \<Longrightarrow> index_of s t = None"
proof (induction s)
  case (Cons c cs)
  then show ?case by (cases t) auto
qed simp

lemma normalizeGemmaQuotes_absent: "CHR ''<'' \<notin> set s \<Longrightarrow> normalizeGemmaQuotes s = s"
  by (simp add: normalizeGemmaQuotes_def contains_str_def index_of_absent gemmaToken_def)

lemma normalizeBacktick_absent: "bt \<notin> set s \<Longrightarrow> normalizeBacktickDelimiters s = s"
  by (simp add: normalizeBacktickDelimiters_def contains_str_def index_of_absent)

lemma backslash_absent: "bsl \<notin> set s \<Longrightarrow> \<not> backslash_control_found s"
  by (induction s rule: backslash_control_found.induct) auto

lemma normalizeBackslash_absent: "bsl \<notin> set s \<Longrightarrow> normalizeBackslashControlChars s = s"
  by (simp add: normalizeBackslashControlChars_def backslash_absent)

lemma flatten_one_brace: "flattenNestedObject (s @ [dq, CHR ''}'']) = s @ [dq, CHR ''}'']"
  by (simp add: flattenNestedObject_def trim_right_set_def ws_set_def ends_two_braces_def Let_def)

lemma next_is_in: "next_is c s \<Longrightarrow> c \<in> set s"
  by (cases s) (simp_all add: next_is_def)

lemma quote_keys_no_colon: "CHR '':'' \<notin> set cs \<Longrightarrow> quote_keys i e cs = cs"
proof (induction i e cs rule: quote_keys.induct)
  case (2 i e c cs)
  have "\<not> next_is (CHR '':'') (dropWhile isIdentChar cs)"
    using "2.prems" next_is_in set_dropWhileD by (metis list.set_intros(2))
  with 2 show ?case by auto
qed simp

lemma quote_keys_string:
  "dq \<notin> set xs \<Longrightarrow> bsl \<notin> set xs \<Longrightarrow>
     quote_keys True False (xs @ dq # r) = xs @ dq # quote_keys False False r"
  by (induction xs) auto

text \<open>\<open>fixMissingKeyCloseQuote\<close> without the lazy builder.\<close>

fun close_keys :: "string \<Rightarrow> string" where
  "close_keys [] = []"
| "close_keys (c # cs) =
    (if c \<noteq> CHR ''{'' \<and> c \<noteq> CHR '','' then c # close_keys cs
     else c # takeWhile isWhitespace cs @
       (case dropWhile isWhitespace cs of
          [] \<Rightarrow> []
        | q # t \<Rightarrow>
           if q \<noteq> dq then close_keys (dropWhile isWhitespace cs)
           else if \<not> key_ok (takeWhile isIdentChar t) \<or> dropWhile isIdentChar t = []
           then q # close_keys t
           else if next_is dq (dropWhile isIdentChar t) then q # close_keys t
           else if next_is (CHR '':'') (dropWhile isIdentChar t)
           then q # takeWhile isIdentChar t @ dq # close_keys (dropWhile isIdentChar t)
           else q # close_keys t))"

lemma takeWhile_dropWhile_Cons:
  "dropWhile P cs = q # t \<Longrightarrow> takeWhile P cs @ q # t = cs"
  by (metis takeWhile_dropWhile_id)

lemma fixMissingKeyCloseQuote_loop_out:
  "lb_out (fixMissingKeyCloseQuote_loop b cs) = lb_out b @ close_keys cs
   \<and> lb_seen (fixMissingKeyCloseQuote_loop b cs) = lb_seen b @ cs"
proof (induction cs arbitrary: b rule: length_induct)
  case (1 cs)
  note IH = "1.IH" [rule_format]
  show ?case
  proof (cases cs)
    case Nil
    then show ?thesis by simp
  next
    case (Cons c cs')
    have short: "length (dropWhile P xs) \<le> length xs" for P and xs :: string
      by (rule length_dropWhile_le)
    show ?thesis
    proof (cases "c \<noteq> CHR ''{'' \<and> c \<noteq> CHR '',''")
      case True
      with IH [of cs'] Cons show ?thesis by simp
    next
      case False
      show ?thesis
      proof (cases "dropWhile isWhitespace cs'")
        case Nil
        then have "takeWhile isWhitespace cs' = cs'"
          using takeWhile_dropWhile_id [of isWhitespace cs'] by simp
        moreover have "(c \<noteq> CHR ''{'' \<and> c \<noteq> CHR '','') = False" using False by blast
        ultimately show ?thesis
          unfolding Cons fixMissingKeyCloseQuote_loop.simps close_keys.simps Nil
          by (auto simp: Let_def)
      next
        case q: (Cons q t)
        note eq = takeWhile_dropWhile_Cons [OF q]
        have len: "length (q # t) \<le> length cs'" using short [of isWhitespace cs'] q by simp
        have IHs: "length xs \<le> length (q # t) \<Longrightarrow>
            lb_out (fixMissingKeyCloseQuote_loop b xs) = lb_out b @ close_keys xs
            \<and> lb_seen (fixMissingKeyCloseQuote_loop b xs) = lb_seen b @ xs" for b xs
          using IH [of xs] Cons len by auto
        have IHq: "lb_out (fixMissingKeyCloseQuote_loop b (q # t)) = lb_out b @ close_keys (q # t)
            \<and> lb_seen (fixMissingKeyCloseQuote_loop b (q # t)) = lb_seen b @ q # t" for b
          by (rule IHs) simp
        have IHt: "lb_out (fixMissingKeyCloseQuote_loop b t) = lb_out b @ close_keys t
            \<and> lb_seen (fixMissingKeyCloseQuote_loop b t) = lb_seen b @ t" for b
          by (rule IHs) simp
        have IHd: "lb_out (fixMissingKeyCloseQuote_loop b (dropWhile isIdentChar t))
              = lb_out b @ close_keys (dropWhile isIdentChar t)
            \<and> lb_seen (fixMissingKeyCloseQuote_loop b (dropWhile isIdentChar t))
              = lb_seen b @ dropWhile isIdentChar t" for b
          by (rule IHs) (use short [of isIdentChar t] in simp)
        show ?thesis
          unfolding Cons fixMissingKeyCloseQuote_loop.simps(2) [of b c cs']
            close_keys.simps(2) [of c cs'] q list.case Let_def
          using False eq
          by (auto simp: IHq IHt IHd simp del: close_keys.simps fixMissingKeyCloseQuote_loop.simps)
      qed
    qed
  qed
qed

lemma fixMissingKeyCloseQuote_eq: "fixMissingKeyCloseQuote s = close_keys s"
  by (simp add: fixMissingKeyCloseQuote_def lb_result_out fixMissingKeyCloseQuote_loop_out)

lemma close_keys_skip: "c \<noteq> CHR ''{'' \<Longrightarrow> c \<noteq> CHR '','' \<Longrightarrow> close_keys (c # cs) = c # close_keys cs"
  by simp

lemma close_keys_plain:
  "CHR ''{'' \<notin> set xs \<Longrightarrow> CHR '','' \<notin> set xs \<Longrightarrow> close_keys (xs @ r) = xs @ close_keys r"
proof (induction xs)
  case (Cons c xs)
  then have "c \<noteq> CHR ''{''" "c \<noteq> CHR '',''" by auto
  with Cons show ?case by (simp add: close_keys_skip del: close_keys.simps(2))
qed simp

lemma set_dropWhile_sub: "x \<in> set (dropWhile P xs) \<Longrightarrow> x \<in> set xs"
  by (simp add: set_dropWhileD)

lemma close_keys_no_colon: "CHR '':'' \<notin> set cs \<Longrightarrow> close_keys cs = cs"
proof (induction cs rule: length_induct)
  case (1 cs)
  show ?case
  proof (cases cs)
    case Nil
    then show ?thesis by simp
  next
    case (Cons c cs')
    have IH: "close_keys xs = xs" if "length xs \<le> length cs'" "set xs \<subseteq> set cs'" for xs
      using "1.IH" [rule_format, of xs] that "1.prems" Cons by auto
    show ?thesis
    proof (cases "c \<noteq> CHR ''{'' \<and> c \<noteq> CHR '',''")
      case True
      with IH [of cs'] Cons show ?thesis by simp
    next
      case False
      show ?thesis
      proof (cases "dropWhile isWhitespace cs'")
        case Nil
        then have "takeWhile isWhitespace cs' = cs'"
          using takeWhile_dropWhile_id [of isWhitespace cs'] by simp
        moreover have "(c \<noteq> CHR ''{'' \<and> c \<noteq> CHR '','') = False" using False by blast
        ultimately show ?thesis
          unfolding Cons close_keys.simps(2) [of c cs'] Nil list.case by (simp only: if_False append_Nil2)
      next
        case q: (Cons q t)
        note eq = takeWhile_dropWhile_Cons [OF q]
        have sub: "set (q # t) \<subseteq> set cs'" using set_dropWhile_sub [of _ isWhitespace cs'] q by auto
        have len: "length (q # t) \<le> length cs'"
          using length_dropWhile_le [of isWhitespace cs'] q by simp
        have no: "\<not> next_is (CHR '':'') (dropWhile isIdentChar t)"
          using "1.prems" Cons sub next_is_in set_dropWhile_sub by fastforce
        have IHq: "close_keys (q # t) = q # t" using IH len sub by blast
        have IHt: "close_keys t = t" using IH [of t] len sub by auto
        show ?thesis
          unfolding Cons close_keys.simps(2) [of c cs'] q list.case
          using False eq no IHq IHt by (auto simp del: close_keys.simps)
      qed
    qed
  qed
qed

lemma skip_ws_first:
  "skip_ws (xs @ dq # r) = c # t \<Longrightarrow> (c \<in> set xs \<or> c = dq) \<and> set t \<subseteq> set xs \<union> set (dq # r)"
proof (induction xs)
  case (Cons x xs)
  then show ?case by (auto simp: skip_ws_Cons split: if_split_asm)
qed (auto simp: skip_ws_Cons)

lemma skip_ws_quote_nonempty: "skip_ws (xs @ dq # r) \<noteq> []"
  by (induction xs) (auto simp: skip_ws_Cons)

lemma strip_commas_no_closer:
  "CHR ''}'' \<notin> set xs \<Longrightarrow> CHR '']'' \<notin> set xs \<Longrightarrow>
     strip_commas i e (xs @ [dq, CHR ''}'']) = xs @ [dq, CHR ''}'']"
proof (induction xs arbitrary: i e)
  case Nil
  then show ?case by simp
next
  case (Cons x xs)
  have "\<not> next_is (CHR ''}'') (skip_ws (xs @ [dq, CHR ''}'']))"
    "\<not> next_is (CHR '']'') (skip_ws (xs @ [dq, CHR ''}'']))"
    using skip_ws_first [of xs "[CHR ''}'']"] Cons.prems
    by (auto simp: next_is_def split: list.split)
  with Cons show ?case by simp
qed

section \<open>The document\<close>

definition one_key_doc :: "string \<Rightarrow> string \<Rightarrow> string" where
  "one_key_doc k v = CHR ''{'' # dq # k @ dq # CHR '':'' # dq # v @ [dq, CHR ''}'']"

text \<open>A key the code recognises, and a value whose quotes are the only thing to repair.\<close>

definition ident_key :: "string \<Rightarrow> bool" where
  "ident_key k \<longleftrightarrow> key_ok k \<and> list_all isIdentChar k"

definition quoted_prose :: "string \<Rightarrow> bool" where
  "quoted_prose v \<longleftrightarrow> verbatim False v \<and>
     bsl \<notin> set v \<and> bt \<notin> set v \<and> CHR ''<'' \<notin> set v \<and> CHR '':'' \<notin> set v
     \<and> CHR ''}'' \<notin> set v \<and> CHR '']'' \<notin> set v"

lemma ident_char_facts:
  "isIdentChar c \<Longrightarrow> c \<noteq> dq \<and> c \<noteq> bsl \<and> c \<noteq> bt \<and> c \<noteq> CHR ''<'' \<and> c \<noteq> CHR '':'' \<and> c \<noteq> CHR ''}''
     \<and> c \<noteq> CHR '']'' \<and> c \<noteq> CHR ''{'' \<and> c \<noteq> CHR '','' \<and> 32 \<le> byte c \<and> byte c < 0x80"
  by (auto simp: isIdentChar_def byte_simps)

lemma ident_key_set:
  assumes "ident_key k"
  shows "dq \<notin> set k" "bsl \<notin> set k" "bt \<notin> set k" "CHR ''<'' \<notin> set k" "CHR '':'' \<notin> set k"
    "CHR ''}'' \<notin> set k" "CHR '']'' \<notin> set k" "CHR ''{'' \<notin> set k" "CHR '','' \<notin> set k"
    "\<forall>c \<in> set k. 32 \<le> byte c \<and> byte c < 0x80"
  using assms ident_char_facts by (auto simp: ident_key_def list_all_iff)

lemma normalize_one_key:
  assumes k: "ident_key k" and v: "quoted_prose v"
  shows "normalize (one_key_doc k v) = (one_key_doc k v, False)"
proof -
  note ks = ident_key_set [OF k]
  let ?d = "one_key_doc k v"
  have sets: "CHR ''<'' \<notin> set ?d" "bt \<notin> set ?d" "bsl \<notin> set ?d"
    using ks v by (auto simp: one_key_doc_def quoted_prose_def)
  have tail: "CHR '':'' \<notin> set (v @ [dq, CHR ''}''])" using v by (simp add: quoted_prose_def)
  have flat: "flattenNestedObject ?d = ?d"
    using flatten_one_brace [of "CHR ''{'' # dq # k @ dq # CHR '':'' # dq # v"]
    by (simp add: one_key_doc_def)
  have keys: "quoteBareKeys ?d = ?d"
    using quote_keys_string [OF ks(1,2), of "CHR '':'' # dq # v @ [dq, CHR ''}'']"]
      quote_keys_no_colon [OF tail]
    by (simp add: quoteBareKeys_eq one_key_doc_def bare_key_start_def)
  have "dropWhile isIdentChar (k @ dq # r) = dq # r" "takeWhile isIdentChar (k @ dq # r) = k" for r
    using k by (simp_all add: ident_key_def list_all_iff)
  then have close: "fixMissingKeyCloseQuote ?d = ?d"
    using k close_keys_plain [OF ks(8,9)] close_keys_no_colon [OF tail]
    by (simp add: fixMissingKeyCloseQuote_eq one_key_doc_def ident_key_def next_is_def)
  have commas: "removeTrailingCommas ?d = ?d"
    using strip_commas_no_closer [of "CHR ''{'' # dq # k @ dq # CHR '':'' # dq # v"] ks v
    by (simp add: removeTrailingCommas_eq one_key_doc_def quoted_prose_def)
  show ?thesis
    by (simp add: normalize_def normalizeGemmaQuotes_absent sets flat normalizeBacktick_absent
        keys close commas normalizeBackslash_absent)
qed

section \<open>The document is valid only when nothing is to repair\<close>

text \<open>
  After a raw quote in the value the scanner sits behind a string in an object, or reads a
  key that never gets its colon.
\<close>

fun stuck :: "jconf \<Rightarrow> bool" where
  "stuck (EndVal (JStr _), [FVal _ _]) = True"
| "stuck (BeginString, [FKey _]) = True"
| "stuck (InStr _, [FKey _]) = True"
| "stuck (EndVal (JStr _), [FKey _]) = True"
| "stuck _ = False"

lemma stuck_cases:
  assumes "stuck cf"
  obtains (val) s ps k where "cf = (EndVal (JStr s), [FVal ps k])"
    | (start) ps where "cf = (BeginString, [FKey ps])"
    | (key) raw ps where "cf = (InStr raw, [FKey ps])"
    | (colon) s ps where "cf = (EndVal (JStr s), [FKey ps])"
  using assms by (cases cf rule: stuck.cases) auto

definition stuck_char :: "char \<Rightarrow> bool" where
  "stuck_char c \<longleftrightarrow> c \<noteq> CHR '':'' \<and> c \<noteq> CHR ''}'' \<and> c \<noteq> CHR '']'' \<and> c \<noteq> bsl"

lemma stuck_step: "stuck cf \<Longrightarrow> stuck_char c \<Longrightarrow> jstep cf c = Some cf' \<Longrightarrow> stuck cf'"
  by (erule stuck_cases) (auto simp: stuck_char_def split: if_split_asm)

lemma stuck_run: "stuck cf \<Longrightarrow> list_all stuck_char w \<Longrightarrow> jrun cf w = Some cf' \<Longrightarrow> stuck cf'"
proof (induction w arbitrary: cf)
  case (Cons c w)
  then obtain cf1 where "jstep cf c = Some cf1" "jrun cf1 w = Some cf'" "stuck_char c"
    by (auto split: option.split_asm)
  then show ?case using Cons.IH [of cf1] Cons.prems stuck_step [of cf c cf1] by auto
qed simp

lemma stuck_end: "stuck cf \<Longrightarrow> jrun cf [dq, CHR ''}'', CHR '' ''] \<noteq> Some (EndVal v, [])"
  by (erule stuck_cases) simp_all

lemma run_string_body:
  "jrun (InStr raw, fs) (w @ r) = Some cf \<Longrightarrow> dq \<notin> set w \<Longrightarrow> bsl \<notin> set w \<Longrightarrow>
     (\<forall>c \<in> set w. 32 \<le> byte c) \<and> jrun (InStr (rev w @ raw), fs) r = Some cf"
proof (induction w arbitrary: raw)
  case (Cons c w)
  then have c: "c \<noteq> dq" "c \<noteq> bsl" by auto
  with Cons.prems(1) have "32 \<le> byte c" "jrun (InStr (c # raw), fs) (w @ r) = Some cf"
    by (auto split: if_split_asm)
  with Cons.IH [OF this(2)] Cons.prems(2,3) show ?case by auto
qed simp

lemma run_one_key:
  assumes "ident_key k"
  shows "jrun (BeginValue, []) (one_key_doc k v @ r)
    = jrun (InStr [], [FVal [] k]) (v @ dq # CHR ''}'' # r)"
proof -
  note ks = ident_key_set [OF assms]
  have body: "jrun (InStr raw, fs) (w @ r) = jrun (InStr (rev w @ raw), fs) r"
    if "dq \<notin> set w" "bsl \<notin> set w" "\<forall>c \<in> set w. 32 \<le> byte c \<and> byte c < 0x80" for w raw fs r
    using that
  proof (induction w arbitrary: raw)
    case (Cons c w)
    then have "c \<noteq> dq" "c \<noteq> bsl" "32 \<le> byte c" by auto
    with Cons show ?case by simp
  qed simp
  have un: "unquote w = w"
    if "bsl \<notin> set w" "\<forall>c \<in> set w. 32 \<le> byte c \<and> byte c < 0x80" for w
    using that
  proof (induction w)
    case (Cons c w)
    then have "c \<noteq> bsl" "byte c < 0x80" by auto
    with Cons show ?case by (simp add: unquote_ascii del: unquote.simps(2))
  qed simp
  show ?thesis
    using body [OF ks(1,2,10)] un [OF ks(2,10)]
    by (simp add: one_key_doc_def begin_value_def push_frame_def max_nesting_def)
qed

lemma one_key_valid_clean:
  assumes k: "ident_key k" and v: "quoted_prose v" and valid: "json_valid (one_key_doc k v)"
  shows "dq \<notin> set v \<and> (\<forall>c \<in> set v. 32 \<le> byte c)"
proof -
  obtain j where j: "jrun (InStr [], [FVal [] k]) (v @ [dq, CHR ''}'', CHR '' '']) = Some (EndVal j, [])"
    using valid run_one_key [OF k, of v "'' ''"]
    by (auto simp: json_valid_def json_parse_def split: option.split_asm prod.split_asm jst.split_asm
        list.split_asm)
  have bsl: "bsl \<notin> set v" using v by (simp add: quoted_prose_def)
  have nodq: "dq \<notin> set v"
  proof
    assume "dq \<in> set v"
    then obtain a w where w: "v = a @ dq # w" "dq \<notin> set a" by (meson split_list_first)
    have "jrun (InStr (rev a), [FVal [] k]) (dq # w @ [dq, CHR ''}'', CHR '' '']) = Some (EndVal j, [])"
      using run_string_body [of "[]" _ a "dq # w @ [dq, CHR ''}'', CHR '' '']"] j w bsl by auto
    then obtain s where s: "jrun (EndVal (JStr s), [FVal [] k]) (w @ [dq, CHR ''}'', CHR '' ''])
        = Some (EndVal j, [])" by simp
    have "list_all stuck_char w" using v w by (auto simp: quoted_prose_def stuck_char_def list_all_iff)
    with s stuck_run [of "(EndVal (JStr s), [FVal [] k])" w] stuck_end show False
      by (auto simp: jrun_append simp del: jrun.simps split: option.split_asm)
  qed
  with run_string_body [OF j nodq bsl] show ?thesis by simp
qed

lemma gemma_escape_clean:
  "dq \<notin> set v \<Longrightarrow> bsl \<notin> set v \<Longrightarrow> \<forall>c \<in> set v. 32 \<le> byte c \<Longrightarrow> gemma_escape b v = v"
proof (induction v)
  case (Cons c v)
  then have "c \<noteq> dq" "c \<noteq> bsl" "32 \<le> byte c" by auto
  then have "c \<noteq> dq" "c \<noteq> bsl" "c \<noteq> nl" "c \<noteq> cr" "c \<noteq> tab" by auto
  with Cons show ?case by simp
qed simp

lemma one_key_escaped_parse:
  assumes k: "ident_key k" and v: "verbatim b v"
  shows "json_parse (one_key_doc k (gemma_escape b v)) = Some (JObj [(k, JStr v)])"
proof -
  have "jrun (InStr [], [FVal [] k]) (gemma_escape b v @ [dq, CHR ''}'', CHR '' ''])
      = Some (EndVal (JObj [(k, JStr v)]), [])"
    using verbatim_escape [OF v] by (simp add: jrun_append gemma_escape_run)
  then show ?thesis by (simp add: json_parse_def run_one_key [OF k])
qed

section \<open>The key-aware pass on the document\<close>

lemma isFollowedByKey_colon: "isFollowedByKey t \<Longrightarrow> CHR '':'' \<in> set t"
proof -
  assume a: "isFollowedByKey t"
  have sub: "set (skip_ws x) \<subseteq> set x" for x using set_dropWhileD by (auto simp: skip_ws_def)
  have drop: "set (dropWhile isIdentChar x) \<subseteq> set x" for x using set_dropWhileD by auto
  from a obtain c u where c: "skip_ws t = c # u" by (auto simp: isFollowedByKey_def split: list.split_asm)
  show ?thesis
  proof (cases "c = dq")
    case True
    with a c obtain d r where r: "dropWhile isIdentChar u = d # r" "next_is (CHR '':'') (skip_ws r)"
      by (auto simp: isFollowedByKey_def split: list.split_asm if_split_asm)
    have "CHR '':'' \<in> set r" using next_is_in [OF r(2)] sub by blast
    then have "CHR '':'' \<in> set u" using drop [of u] r(1) by auto
    then show ?thesis using sub [of t] c by auto
  next
    case False
    with a c have "next_is (CHR '':'') (skip_ws (dropWhile isIdentChar (c # u)))"
      by (auto simp: isFollowedByKey_def split: if_split_asm)
    from next_is_in [OF this] sub drop c show ?thesis by (metis subsetD)
  qed
qed

lemma not_structural_before_end:
  assumes "CHR '':'' \<notin> set w" "CHR ''}'' \<notin> set w" "CHR '']'' \<notin> set w"
  shows "\<not> structural_quote (w @ [dq, CHR ''}''])"
proof -
  obtain c t where c: "skip_ws (w @ [dq, CHR ''}'']) = c # t"
    using skip_ws_quote_nonempty by (cases "skip_ws (w @ [dq, CHR ''}''])") auto
  from skip_ws_first [OF c] assms have "c \<noteq> CHR ''}''" "c \<noteq> CHR '']''" "CHR '':'' \<notin> set t"
    by auto
  with c isFollowedByKey_colon show ?thesis by (auto simp: structural_quote_def)
qed

lemma closing_quote_one_key:
  assumes v: "quoted_prose v" and pre: "pre = p @ [dq]"
  shows "findKeyAwareClosingQuote (pre @ v @ [dq, CHR ''}'']) (length pre) = Some (length pre + length v)"
proof -
  let ?s = "pre @ v @ [dq, CHR ''}'']"
  have sets: "CHR '':'' \<notin> set v" "CHR ''}'' \<notin> set v" "CHR '']'' \<notin> set v" "bsl \<notin> set v"
    using v by (auto simp: quoted_prose_def)
  have "\<not> closing_quote_at ?s j" if j: "length pre \<le> j" "j < length pre + length v" for j
  proof -
    have "drop (Suc j) ?s = drop (Suc j - length pre) v @ [dq, CHR ''}'']" using j by simp
    moreover have "\<not> structural_quote (drop (Suc j - length pre) v @ [dq, CHR ''}''])"
      using sets by (intro not_structural_before_end) (auto dest: in_set_dropD)
    ultimately show ?thesis by (simp add: closing_quote_at_def)
  qed
  moreover have "closing_quote_at ?s (length pre + length v)"
  proof -
    let ?k = "length pre + length v"
    have "?s ! (?k - 1) \<noteq> bsl"
    proof (cases v rule: rev_cases)
      case Nil
      then show ?thesis using pre by (simp add: nth_append)
    next
      case (snoc v' x)
      then have "?s ! (?k - 1) = x" by (simp add: nth_append)
      with sets snoc show ?thesis by auto
    qed
    moreover have "?s ! ?k = dq" "drop (Suc ?k) ?s = ''}''" by (simp_all add: nth_append)
    ultimately show ?thesis
      by (simp add: closing_quote_at_def structural_quote_def skip_ws_def only_closers_def)
  qed
  ultimately show ?thesis unfolding findKeyAware_eq_find find_upt_Some by simp
qed

lemma repairQuotes_copy:
  "CHR '':'' \<notin> set (take n (drop i s)) \<Longrightarrow> i + n \<le> length s \<Longrightarrow>
     repairQuotes_loop s i = take n (drop i s) @ repairQuotes_loop s (i + n)"
proof (induction n arbitrary: i)
  case (Suc n)
  then have i: "i < length s" by simp
  then have d: "drop i s = s ! i # drop (Suc i) s" by (simp add: Cons_nth_drop_Suc)
  with Suc have "s ! i \<noteq> CHR '':''" "CHR '':'' \<notin> set (take n (drop (Suc i) s))" by auto
  with Suc.IH [of "Suc i"] Suc.prems(2) i d show ?case
    by (subst repairQuotes_loop.simps) simp
qed simp

lemma repairQuotes_one_key:
  assumes k: "ident_key k" and v: "quoted_prose v"
  shows "repairQuotes (one_key_doc k v) = one_key_doc k (repair_escape (containsUnescapedQuote v) v)"
proof -
  let ?s = "one_key_doc k v"
  define a where "a = CHR ''{'' # dq # k @ [dq]"
  define pre where "pre = a @ [CHR '':'', dq]"
  have s: "?s = pre @ v @ [dq, CHR ''}'']" "?s = a @ CHR '':'' # dq # v @ [dq, CHR ''}'']"
    by (simp_all add: one_key_doc_def pre_def a_def)
  have len: "length pre = length a + 2" by (simp add: pre_def)
  have a_colon: "CHR '':'' \<notin> set a" using ident_key_set(5) [OF k] by (simp add: a_def)
  have head: "repairQuotes ?s = a @ repairQuotes_loop ?s (length a)"
    using repairQuotes_copy [of "length a" 0 ?s] a_colon s(2) by (simp add: repairQuotes_def)
  have close: "findKeyAwareClosingQuote ?s (length a + 2) = Some (length pre + length v)"
    unfolding s(1) len [symmetric] by (rule closing_quote_one_key [OF v, of pre "a @ '':''"]) (simp add: pre_def)
  have val: "slice ?s (length a + 2) (length pre + length v) = v"
    by (simp add: s(1) slice_def len)
  have last: "repairQuotes_loop ?s (Suc (length pre + length v)) = ''}''"
    by (simp add: s(1) repairQuotes_loop.simps nth_append)
  have ws: "takeWhile isWhitespace (drop (Suc (length a)) ?s) = []" "?s ! length a = CHR '':''"
    "?s ! Suc (length a) = dq" "length ?s = length pre + length v + 2"
    by (simp_all add: s(2) nth_append len)
  have "repairQuotes_loop ?s (length a)
      = CHR '':'' # dq # repair_escape (containsUnescapedQuote v) v @ dq # ''}''"
    using close val last ws len by (subst repairQuotes_loop.simps) simp
  then show ?thesis using head by (simp add: one_key_doc_def a_def)
qed

lemma verbatim_weaken: "verbatim b v \<Longrightarrow> \<not> b \<Longrightarrow> verbatim b' v"
proof (induction b v rule: verbatim.induct)
  case (2 b c cs)
  consider (esc) "c = bsl" | (ascii) "c \<noteq> bsl" "byte c < 0x80" | (high) "c \<noteq> bsl" "\<not> byte c < 0x80"
    by auto
  then show ?case
  proof cases
    case esc
    with "2.prems" obtain n r where "cs = n # r" by (auto simp: verbatim.simps(2) split: list.split_asm)
    with esc "2.IH"(1) [OF esc this] "2.prems" show ?thesis
      by (simp add: verbatim.simps(2))
  next
    case ascii
    with "2.IH"(2) "2.prems" show ?thesis by (simp add: verbatim.simps(2))
  next
    case high
    from "2.prems"(1) have "utf8_len (c # cs) \<noteq> 0" "verbatim b (drop (utf8_len (c # cs) - 1) cs)"
      by (subst (asm) verbatim.simps(2), simp only: high if_False simp_thms)+
    with "2.IH"(3) [OF high] "2.prems"(2) show ?thesis
      by (subst verbatim.simps(2)) (simp only: high if_False simp_thms)
  qed
qed simp

lemma Repair_one_key:
  assumes k: "ident_key k" and v: "quoted_prose v"
  shows "\<exists>r. Repair (one_key_doc k v) = (r, None) \<and> json_parse r = Some (JObj [(k, JStr v)])"
proof (cases "json_valid (one_key_doc k v)")
  case True
  have vb: "verbatim False v" and bs: "bsl \<notin> set v" using v by (simp_all add: quoted_prose_def)
  have "gemma_escape False v = v"
    using one_key_valid_clean [OF k v True] bs by (intro gemma_escape_clean) auto
  with one_key_escaped_parse [OF k vb] True show ?thesis
    by (simp add: Repair_def one_key_doc_def)
next
  case False
  have ne: "one_key_doc k v \<noteq> []" by (simp add: one_key_doc_def)
  let ?b = "containsUnescapedQuote v"
  let ?r = "one_key_doc k (gemma_escape ?b v)"
  have "verbatim ?b v" using v verbatim_weaken [of False v] by (simp add: quoted_prose_def)
  note parse = one_key_escaped_parse [OF k this]
  then have "json_valid ?r" by (simp add: json_valid_def)
  then have "Repair (one_key_doc k v) = (?r, None)"
    using False ne by (simp add: Repair_def normalize_one_key [OF k v] repairQuotes_one_key [OF k v]
        repair_escape_eq_gemma)
  with parse show ?thesis by blast
qed

end
