(* ===== verification/RepairSpec.thy ===== *)
theory RepairSpec
  imports RepairRecover
begin

text \<open>
  The contract of package \<^verbatim>\<open>jsonrepair\<close>: what \<open>Repair\<close> and \<open>Unmarshal\<close> promise their
  callers, and the properties of the passes that carry it.
\<close>

section \<open>Repair\<close>

text \<open>
  C1. The purpose of \<open>Repair\<close>: an object with one identifier key whose value is prose with raw,
  unescaped double quotes, newlines, carriage returns and tabs in any number and place comes
  back without an error, as JSON that decodes to exactly that key and exactly that value.
  (The value is valid UTF-8 without backslash, backtick, \<open><\<close>, colon and closing brackets,
  which the pipeline may take for structure.)
\<close>

theorem Repair_recovers_quoted_prose:
  assumes "ident_key k" and "quoted_prose v"
  shows "\<exists>r. Repair (one_key_doc k v) = (r, None) \<and> json_parse r = Some (JObj [(k, JStr v)])"
  using assms by (rule Repair_one_key)

definition sample_prose :: string where
  "sample_prose = ''say '' @ [dq] @ ''hi'' @ [dq, CHR '','', dq, nl, dq]"

lemma sample_prose_ok: "ident_key ''text'' \<and> quoted_prose sample_prose"
  by (simp add: ident_key_def key_ok_def quoted_prose_def sample_prose_def isIdentChar_def
      byte_simps verbatim.simps(2))

theorem Repair_recovers_quoted_prose_witness:
  "\<exists>r. Repair (one_key_doc ''text'' sample_prose) = (r, None)
     \<and> json_parse r = Some (JObj [(''text'', JStr sample_prose)])"
  using Repair_recovers_quoted_prose sample_prose_ok by blast

lemma Repair_cases:
  obtains (same) "json_valid s" "Repair s = (s, None)"
  | (repaired) r where "\<not> json_valid s" "Repair s = (r, None)" "json_valid r"
  | (failed) "\<not> json_valid s" "Repair s = (s, Some ErrIrrecoverable)"
proof (cases "json_valid s")
  case True
  then have "s \<noteq> []" by auto
  with True same show ?thesis by (simp add: Repair_def)
next
  case False
  obtain n c where n: "normalize s = (n, c)" by fastforce
  have "Repair s = (s, Some ErrIrrecoverable) \<or> (\<exists>r. json_valid r \<and> Repair s = (r, None))"
    using False by (simp add: Repair_def Let_def n)
  with False repaired failed show ?thesis by blast
qed

text \<open>
  C8. Every outcome of \<open>Repair\<close>: no error is returned exactly when the returned text is valid
  JSON; valid JSON is returned unchanged; and with an error the input itself is returned.
\<close>

theorem Repair_contract:
  "(snd (Repair s) = None \<longleftrightarrow> json_valid (fst (Repair s)))
   \<and> (fst (Repair s) = s \<or> \<not> json_valid s \<and> snd (Repair s) = None)"
  by (cases s rule: Repair_cases) auto

text \<open>
  Repairing twice is repairing once, error and text alike.\<close>

theorem Repair_idempotent: "Repair (fst (Repair s)) = Repair s"
proof (cases s rule: Repair_cases)
  case (repaired r)
  with Repair_cases [of r] show ?thesis by (metis fst_conv)
qed simp_all

text \<open>
  \<open>Unmarshal\<close> is a function of the repaired text: it fails with \<open>ErrIrrecoverable\<close> exactly
  when \<open>Repair\<close> does (its own parse of a repaired text never fails), and else its result is
  the target's verdict on the parsed value.
\<close>

theorem Unmarshal_spec:
  "Unmarshal decode s =
     (case json_parse (fst (Repair s)) of
        None \<Rightarrow> Inl (Inl ErrIrrecoverable)
      | Some v \<Rightarrow> map_sum Inr id (decode v))"
proof (cases s rule: Repair_cases)
  case (repaired r)
  then show ?thesis
    by (auto simp: Unmarshal_def json_valid_def split: option.split sum.split)
qed (auto simp: Unmarshal_def json_valid_def split: option.split sum.split)

section \<open>The passes\<close>

text \<open>
  C20. \<open>findKeyAwareClosingQuote\<close>, which scans from right to left and keeps the smallest index,
  is the search from left to right for the first quote at or behind \<open>start\<close> that no backslash
  precedes and that what follows it shows to be structural.
\<close>

theorem findKeyAwareClosingQuote_leftmost:
  "findKeyAwareClosingQuote s start =
     find (\<lambda>k. s ! k = dq \<and> \<not> (0 < k \<and> s ! (k - 1) = bsl) \<and> structural_quote (drop (Suc k) s))
          [start..<length s]"
  by (simp only: findKeyAware_eq_find closing_quote_at_def [abs_def])


lemma sample_doc_valid: "json_valid (one_key_doc ''a'' ''b, }'')"
  by (simp add: json_valid_def json_parse_def one_key_doc_def begin_value_def push_frame_def
      max_nesting_def)


text \<open>
  Escaping round trip: for text that is valid UTF-8, has no control characters but tab,
  newline and carriage return, and whose backslashes are not already JSON escapes, the escaped
  text between quotes is one JSON string literal, and it decodes to the text.
\<close>

theorem repair_escape_roundtrip:
  assumes "verbatim b x"
  shows "json_parse (dq # repair_escape b x @ [dq]) = Some (JStr x)"
  using verbatim_escape [OF assms] json_literal by (simp add: repair_escape_eq_gemma)

theorem repair_escape_roundtrip_witness:
  "json_parse (dq # repair_escape True [dq, bsl, CHR ''n'', nl, CHR 0xC3, CHR 0xA9] @ [dq])
     = Some (JStr [dq, bsl, CHR ''n'', nl, CHR 0xC3, CHR 0xA9])"
  by (rule repair_escape_roundtrip)
    (simp add: verbatim.simps(2) cont_byte_def byte_between_def)

text \<open>
  The builder that stays empty until the first change writes what the pass means: the
  three lazily written passes are plain recursive rewritings of the text.
\<close>

theorem lazy_passes_refine:
  "removeTrailingCommas s = strip_commas False False s \<and>
   quoteBareKeys s = quote_keys False False s \<and>
   fixMissingKeyCloseQuote s = close_keys s"
  using removeTrailingCommas_eq quoteBareKeys_eq fixMissingKeyCloseQuote_eq by blast

lemma trim_right_set_split:
  "\<exists>w. s = trim_right_set s cutset @ w \<and> list_all (\<lambda>c. c \<in> set cutset) w"
  using takeWhile_dropWhile_id [of "\<lambda>c. c \<in> set cutset" "rev s"]
  by (intro exI [of _ "rev (takeWhile (\<lambda>c. c \<in> set cutset) (rev s))"])
    (metis trim_right_set_def list_all_iff rev_append rev_rev_ident set_rev set_takeWhileD)

lemma ends_two_braces_split: "ends_two_braces t \<Longrightarrow> \<exists>u. t = u @ ''}}''"
  by (cases t rule: rev_cases; cases "butlast t" rule: rev_cases)
    (auto simp: ends_two_braces_def split: list.split_asm)

lemma trimmed_braces:
  assumes "ends_two_braces (trim_right_set s ws_set)"
  obtains u w where "trim_right_set s ws_set = u @ ''}}''" "s = u @ ''}}'' @ w" "list_all isWhitespace w"
proof -
  have ws: "c \<in> set ws_set \<Longrightarrow> isWhitespace c" for c by (auto simp: ws_set_def)
  obtain u where u: "trim_right_set s ws_set = u @ ''}}''" using ends_two_braces_split [OF assms] by blast
  obtain w where w: "s = trim_right_set s ws_set @ w" "list_all (\<lambda>c. c \<in> set ws_set) w"
    using trim_right_set_split by blast
  have "list_all isWhitespace w" using w(2) ws by (auto simp: list_all_iff)
  moreover have "s = u @ ''}}'' @ w" using w(1) u by simp
  ultimately show ?thesis using u that by blast
qed

lemma nested_object_at_split:
  "nested_object_at skip inS s = Some i \<Longrightarrow> \<exists>a r. s = a @ '',{'' @ r \<and> length a = i"
proof (induction skip inS s arbitrary: i rule: nested_object_at.induct)
  case (2 skip inS c cs)
  show ?case
  proof (cases i)
    case 0
    with "2.prems" have "c = CHR '',''" "next_is (CHR ''{'') cs"
      by (auto split: if_split_asm)
    with 0 show ?thesis by (cases cs) (auto simp: next_is_def)
  next
    case (Suc j)
    with "2.prems" "2.IH" obtain a r where "cs = a @ '',{'' @ r" "length a = j"
      by (auto split: if_split_asm)
    with Suc show ?thesis by (intro exI [of _ "c # a"] exI [of _ r]) simp
  qed
qed simp

lemma braces_after:
  assumes "a @ '',{'' @ r = u @ ''}}'' @ w" and ws: "list_all isWhitespace w"
  shows "\<exists>m. u = a @ '',{'' @ m \<and> r = m @ ''}}'' @ w"
proof -
  have "(a @ '',{'') @ r = u @ (''}}'' @ w)" using assms(1) by simp
  then consider m where "a @ '',{'' = u @ m" "m @ r = ''}}'' @ w"
    | m where "u = (a @ '',{'') @ m" "r = m @ ''}}'' @ w"
    unfolding append_eq_append_conv2 by blast
  then show ?thesis
  proof cases
    case 1
    have "m = []"
    proof (rule ccontr)
      assume "m \<noteq> []"
      then have "last m = CHR ''{''" using 1(1) by (metis last_ConsR last_appendR last.simps list.discI)
      moreover have "last m \<in> set m" using \<open>m \<noteq> []\<close> by simp
      ultimately have "CHR ''{'' \<in> set (''}}'' @ w)" using 1(2) by (metis UnCI set_append)
      with ws show False by (auto simp: list_all_iff)
    qed
    with 1 show ?thesis by simp
  next
    case 2
    then show ?thesis by simp
  qed
qed

text \<open>
  What the brace passes do to the text, all slices in bounds: \<open>flattenNestedObject\<close> drops
  the brace of the first nested object written as \<open>,{\<close> and one of the two closing braces at
  the end (with the white space behind them), or leaves the text alone; \<open>trimTrailingBrace\<close>
  drops one of two closing braces at the end.
\<close>

theorem brace_passes_spec:
  "(flattenNestedObject s = s \<or>
    (\<exists>a m w. s = a @ '',{'' @ m @ ''}}'' @ w \<and> list_all isWhitespace w
       \<and> nested_object_at False False s = Some (length a)
       \<and> slice_ok s (length a + 2) (length (trim_right_set s ws_set) - 1)
       \<and> flattenNestedObject s = a @ '','' @ m @ ''}''))
   \<and> (trimTrailingBrace s = s \<or>
      (\<exists>u w. s = u @ ''}}'' @ w \<and> list_all isWhitespace w \<and> trimTrailingBrace s = u @ ''}''))"
proof
  let ?t = "trim_right_set s ws_set"
  show "flattenNestedObject s = s \<or>
    (\<exists>a m w. s = a @ '',{'' @ m @ ''}}'' @ w \<and> list_all isWhitespace w
       \<and> nested_object_at False False s = Some (length a)
       \<and> slice_ok s (length a + 2) (length ?t - 1)
       \<and> flattenNestedObject s = a @ '','' @ m @ ''}'')"
  proof (cases "\<not> contains_str s '',{'' \<or> \<not> ends_two_braces ?t \<or> nested_object_at False False s = None")
    case True
    then show ?thesis by (auto simp: flattenNestedObject_def Let_def)
  next
    case False
    then obtain i where i: "nested_object_at False False s = Some i" and e: "ends_two_braces ?t"
      and c: "contains_str s '',{''" by auto
    obtain a r where a: "s = a @ '',{'' @ r" "length a = i" using nested_object_at_split [OF i] by blast
    obtain u w where u: "?t = u @ ''}}''" "s = u @ ''}}'' @ w" "list_all isWhitespace w"
      using trimmed_braces [OF e] .
    obtain m where m: "u = a @ '',{'' @ m" "r = m @ ''}}'' @ w"
      using braces_after [of a r u w] a u by auto
    have s: "s = a @ '',{'' @ m @ ''}}'' @ w" and t: "length ?t = length a + length m + 4"
      using a m u by simp_all
    have "flattenNestedObject s = take (i + 1) s @ slice s (i + 2) (length ?t - 1)"
      using i e c by (simp add: flattenNestedObject_def Let_def)
    also have "\<dots> = a @ '','' @ m @ ''}''"
      unfolding t a(2) [symmetric] by (simp add: s slice_def numeral_eq_Suc)
    finally have "flattenNestedObject s = a @ '','' @ m @ ''}''" .
    moreover have "slice_ok s (length a + 2) (length ?t - 1)"
      unfolding t by (simp add: s slice_ok_def)
    ultimately show ?thesis using s u(3) i a(2) by blast
  qed
next
  show "trimTrailingBrace s = s \<or>
      (\<exists>u w. s = u @ ''}}'' @ w \<and> list_all isWhitespace w \<and> trimTrailingBrace s = u @ ''}'')"
  proof (cases "ends_two_braces (trim_right_set s ws_set)")
    case True
    from trimmed_braces [OF this] obtain u w where "trim_right_set s ws_set = u @ ''}}''"
      "s = u @ ''}}'' @ w" "list_all isWhitespace w" .
    with True show ?thesis by (auto simp: trimTrailingBrace_def Let_def)
  qed (simp add: trimTrailingBrace_def)
qed

section \<open>Where the heuristics damage repairable text\<close>

text \<open>What the evaluation of the entry points on a concrete text unfolds.\<close>

lemmas json_eval = json_valid_def json_parse_def begin_value_def push_frame_def max_nesting_def

lemmas pass_eval = normalize_def normalizeGemmaQuotes_def gemmaToken_def flattenNestedObject_def
  trimTrailingBrace_def contains_str_def trim_right_set_def ws_set_def ends_two_braces_def
  slice_def normalizeBacktickDelimiters_def normalizeBackslashControlChars_def quoteBareKeys_eq
  fixMissingKeyCloseQuote_eq removeTrailingCommas_eq skip_ws_def next_is_def bare_key_start_def
  key_ok_def isIdentChar_def byte_simps

lemmas repair_eval = Repair_def repairQuotes_def repairQuotes_loop.simps
  findKeyAwareClosingQuote_def structural_quote_def only_closers_def isFollowedByKey_def

definition colon_in_value :: string where
  "colon_in_value = ''{k:['' @ [dq, CHR ''x'', dq, CHR '','', dq] @ ''b:'' @ [dq] @ '']}''"

text \<open>
  \<open>fixMissingKeyCloseQuote\<close> does not track strings or arrays: with quoted keys this
  document is valid, yet the pass takes the array element \<open>b:\<close> for a key without a closing
  quote and \<open>Repair\<close> gives the document up.
\<close>

lemma close_quote_pass_breaks_values:
  "json_valid (quoteBareKeys colon_in_value)
   \<and> \<not> json_valid (fixMissingKeyCloseQuote (quoteBareKeys colon_in_value))
   \<and> snd (Repair colon_in_value) = Some ErrIrrecoverable"
  by (simp add: repair_eval pass_eval colon_in_value_def json_eval)


definition objects_in_array :: string where
  "objects_in_array = ''{p:{q:[{},{}]}}''"

text \<open>
  \<open>flattenNestedObject\<close> looks for \<open>,{\<close> at any depth: quoting the bare keys of this
  document is all it takes to make it valid, but the pass opens the second object of the array
  and drops a closing brace, and \<open>Repair\<close> gives the document up.
\<close>

lemma flatten_pass_breaks_arrays:
  "json_valid (quoteBareKeys objects_in_array)
   \<and> flattenNestedObject objects_in_array = ''{p:{q:[{},}]}''
   \<and> snd (Repair objects_in_array) = Some ErrIrrecoverable"
  by (simp add: repair_eval pass_eval objects_in_array_def json_eval)

end
