(* ===== verification/ToolExtract.thy ===== *)
theory ToolExtract
  imports JsonRepair
begin

text \<open>
  \<^verbatim>\<open>pkg/toolrepair/extract.go\<close>: the tool calls a model wrote into its text, in four formats.
  A loop of the code that slices \<open>remaining\<close> recurses on the text that remains. Indexes that
  the code returns are offsets into the text that was passed in, \<open>-1\<close> is \<open>None\<close>.
\<close>

section \<open>Values decoded by \<open>encoding/json\<close>\<close>

text \<open>
  Decoding into an interface value: of the members of an object that have the same name the last
  one counts, and a number that overflows a float64 is an error, with \<open>nil\<close> stored for it. A
  number in range is kept as its text. The decimal exponent is read as \<open>strconv\<close> does, which
  stops counting at five digits.
\<close>

definition dec_digits :: "string \<Rightarrow> nat" where
  "dec_digits ds = foldl (\<lambda>n c. 10 * n + (byte c - 48)) 0 ds"

definition exp_digits :: "string \<Rightarrow> nat" where
  "exp_digits ds = foldl (\<lambda>n c. if n < 10000 then 10 * n + (byte c - 48) else n) 0 ds"

definition float64_limit :: nat where "float64_limit = 2 ^ 1024 - 2 ^ 970"

definition num_in_range :: "string \<Rightarrow> bool" where
  "num_in_range lit =
    (let unsigned = (if has_prefix lit ''-'' then tl lit else lit);
         is_e = (\<lambda>c. c = CHR ''e'' \<or> c = CHR ''E'');
         mant = takeWhile (\<lambda>c. \<not> is_e c) unsigned;
         ex = tl (dropWhile (\<lambda>c. \<not> is_e c) unsigned);
         int_part = takeWhile is_digit mant;
         frac_part = tl (dropWhile is_digit mant);
         m = dec_digits (int_part @ frac_part);
         e = exp_digits (dropWhile (\<lambda>c. \<not> is_digit c) ex);
         up = (if has_prefix ex ''-'' then 0 else e);
         down = (if has_prefix ex ''-'' then e else 0) + length frac_part
     in m * 10 ^ up < float64_limit * 10 ^ down)"

definition collect_members :: "(string \<times> 'a) list \<Rightarrow> (string \<times> 'a) list" where
  "collect_members ps = foldl (\<lambda>m p. AList.update (fst p) (snd p) m) [] ps"

primrec decode_any :: "json \<Rightarrow> json" where
  "decode_any JNull = JNull"
| "decode_any (JBool b) = JBool b"
| "decode_any (JNum lit) = (if num_in_range lit then JNum lit else JNull)"
| "decode_any (JStr s) = JStr s"
| "decode_any (JArr vs) = JArr (map decode_any vs)"
| "decode_any (JObj ps) = JObj (collect_members (map (map_prod id decode_any) ps))"

primrec nums_ok :: "json \<Rightarrow> bool" where
  "nums_ok JNull = True"
| "nums_ok (JBool b) = True"
| "nums_ok (JNum lit) = num_in_range lit"
| "nums_ok (JStr s) = True"
| "nums_ok (JArr vs) = list_all id (map nums_ok vs)"
| "nums_ok (JObj ps) = list_all id (map snd (map (map_prod id nums_ok) ps))"

type_synonym go_map = "(string \<times> json) list"

text \<open>\<open>var parsed any; json.Unmarshal(text, &parsed)\<close>\<close>

definition unmarshal_any :: "string \<Rightarrow> json option" where
  "unmarshal_any s =
    (case json_parse s of None \<Rightarrow> None | Some v \<Rightarrow> if nums_ok v then Some (decode_any v) else None)"

text \<open>
  \<open>var args map[string]any\<close> as a target: the error, and the map that is there afterwards
  (\<open>None\<close> is the nil map), which an error does not undo.
\<close>

definition decode_map :: "json \<Rightarrow> bool \<times> go_map option" where
  "decode_map v =
    (case v of
       JNull \<Rightarrow> (True, None)
     | JObj ps \<Rightarrow> (nums_ok v, case decode_any v of JObj qs \<Rightarrow> Some qs | _ \<Rightarrow> None)
     | _ \<Rightarrow> (False, None))"

definition unmarshal_map :: "string \<Rightarrow> go_map option option" where
  "unmarshal_map s =
    (case json_parse s of
       None \<Rightarrow> None
     | Some v \<Rightarrow> if fst (decode_map v) then Some (snd (decode_map v)) else None)"

text \<open>\<open>_ = jsonrepair.Unmarshal(a, &args)\<close>\<close>

definition repair_unmarshal_map :: "string \<Rightarrow> go_map option" where
  "repair_unmarshal_map s =
    (case Unmarshal (\<lambda>v. Inr (snd (decode_map v)) :: unit + go_map option) s of
       Inl _ \<Rightarrow> None | Inr m \<Rightarrow> m)"

text \<open>
  The struct of \<open>parseJSONToolCall\<close>. Names of members are compared under case folding (U+017F
  folds to \<open>s\<close>, no other character outside of ASCII to a letter of the two names); \<open>null\<close>
  leaves a string field as it is.
\<close>

fun fold_name :: "string \<Rightarrow> string" where
  "fold_name [] = []"
| "fold_name [c] = [if is_upper c then char_of (byte c + 32) else c]"
| "fold_name (c # d # cs) =
    (if byte c = 0xC5 \<and> byte d = 0xBF then CHR ''s'' # fold_name cs
     else (if is_upper c then char_of (byte c + 32) else c) # fold_name (d # cs))"

datatype fn_error = TypeMismatch | NumberRange

fun decode_fn_members :: "string \<times> json \<Rightarrow> (string \<times> json) list \<Rightarrow> fn_error + string \<times> json" where
  "decode_fn_members fn [] = Inr fn"
| "decode_fn_members (name, arguments) ((k, v) # ps) =
    (if fold_name k = ''name'' then
       (case v of
          JStr s \<Rightarrow> decode_fn_members (s, arguments) ps
        | JNull \<Rightarrow> decode_fn_members (name, arguments) ps
        | _ \<Rightarrow> Inl TypeMismatch)
     else if fold_name k = ''arguments'' then
       (if nums_ok v then decode_fn_members (name, decode_any v) ps else Inl NumberRange)
     else decode_fn_members (name, arguments) ps)"

definition decode_fn :: "json \<Rightarrow> fn_error + string \<times> json" where
  "decode_fn v =
    (case v of
       JObj ps \<Rightarrow> decode_fn_members ([], JNull) ps
     | JNull \<Rightarrow> Inr ([], JNull)
     | _ \<Rightarrow> Inl TypeMismatch)"

section \<open>Finding the end of a value\<close>

text \<open>
  The loop of \<open>findJSONObjectEnd\<close>; \<open>i\<close> is the index of the next byte. The code ranges over
  runes, of which it tests only ASCII ones, so going byte by byte sees the same.
\<close>

fun objectEnd_loop :: "int \<Rightarrow> bool \<Rightarrow> bool \<Rightarrow> nat \<Rightarrow> string \<Rightarrow> nat option" where
  "objectEnd_loop depth inString escape i [] = None"
| "objectEnd_loop depth inString escape i (c # cs) =
    (if escape then objectEnd_loop depth inString False (Suc i) cs
     else if c = bsl \<and> inString then objectEnd_loop depth inString True (Suc i) cs
     else if c = dq then objectEnd_loop depth (\<not> inString) False (Suc i) cs
     else if inString then objectEnd_loop depth inString False (Suc i) cs
     else if c = CHR ''{'' then objectEnd_loop (depth + 1) inString False (Suc i) cs
     else if c = CHR ''}'' then
       (if depth - 1 = 0 then Some (i + 1)
        else objectEnd_loop (depth - 1) inString False (Suc i) cs)
     else objectEnd_loop depth inString False (Suc i) cs)"

definition findJSONObjectEnd :: "string \<Rightarrow> nat option" where
  "findJSONObjectEnd s =
    (if \<not> has_prefix s ''{'' then
       (case index_of s ''{'' of
          None \<Rightarrow> None
        | Some idx \<Rightarrow> objectEnd_loop 0 False False 0 (drop idx s))
     else objectEnd_loop 0 False False 0 s)"

text \<open>The number of bytes up to and with the next token, all of them when there is none.\<close>

fun token_skip :: "string \<Rightarrow> nat" where
  "token_skip [] = 0"
| "token_skip (c # cs) = (if has_prefix (c # cs) gemmaToken then 5 else Suc (token_skip cs))"

text \<open>The same for the closing quote of a JSON string.\<close>

fun quote_skip :: "string \<Rightarrow> nat" where
  "quote_skip [] = 0"
| "quote_skip (c # cs) =
    (if c = bsl then (case cs of [] \<Rightarrow> 2 | _ # ds \<Rightarrow> 2 + quote_skip ds)
     else if c = dq then 1
     else Suc (quote_skip cs))"

function gemmaBraceEnd_loop :: "bool \<Rightarrow> int \<Rightarrow> nat \<Rightarrow> string \<Rightarrow> nat option" where
  "gemmaBraceEnd_loop useJSONQuotes depth i [] = None"
| "gemmaBraceEnd_loop useJSONQuotes depth i (c # cs) =
    (if has_prefix (c # cs) gemmaToken then
       (let n = 5 + token_skip (drop 5 (c # cs)) in
        gemmaBraceEnd_loop useJSONQuotes depth (i + n) (drop n (c # cs)))
     else if useJSONQuotes \<and> c = dq then
       (let n = Suc (quote_skip cs) in
        gemmaBraceEnd_loop useJSONQuotes depth (i + n) (drop n (c # cs)))
     else if c = CHR ''{'' then gemmaBraceEnd_loop useJSONQuotes (depth + 1) (Suc i) cs
     else if c = CHR ''}'' then
       (if depth - 1 = 0 then Some i
        else gemmaBraceEnd_loop useJSONQuotes (depth - 1) (Suc i) cs)
     else gemmaBraceEnd_loop useJSONQuotes depth (Suc i) cs)"
  by pat_completeness auto
termination
  by (relation "measure (\<lambda>(_, _, _, s). length s)") (auto simp: Let_def)

definition findGemmaBraceEnd :: "string \<Rightarrow> nat option" where
  "findGemmaBraceEnd s =
    (if \<not> has_prefix s ''{'' then None
     else gemmaBraceEnd_loop (\<not> contains_str s gemmaToken) 0 0 s)"

text \<open>What may stand behind a closing token or a closing quote; at the end of the text anything may.\<close>

definition gemma_end_byte :: "char \<Rightarrow> bool" where
  "gemma_end_byte c \<longleftrightarrow> c \<in> {CHR '','', CHR ''}'', CHR '']'', dq}"

definition standard_end_byte :: "char \<Rightarrow> bool" where
  "standard_end_byte c \<longleftrightarrow> c \<in> {CHR '','', CHR ''}'', CHR '' '', nl, cr, tab}"

definition ends_or :: "(char \<Rightarrow> bool) \<Rightarrow> string \<Rightarrow> bool" where
  "ends_or P s = (case s of [] \<Rightarrow> True | c # _ \<Rightarrow> P c)"

function findClosingGemmaQuote_from :: "string \<Rightarrow> nat \<Rightarrow> nat option" where
  "findClosingGemmaQuote_from s searchFrom =
    (case index_of (drop searchFrom s) gemmaToken of
       None \<Rightarrow> None
     | Some idx \<Rightarrow>
         if ends_or gemma_end_byte (drop (searchFrom + idx + 5) s) then Some (searchFrom + idx)
         else findClosingGemmaQuote_from s (searchFrom + idx + 5))"
  by pat_completeness auto
termination
proof (relation "measure (\<lambda>(s, from). Suc (length s) - from)")
  fix s :: string and "from" i :: nat
  assume "index_of (drop from s) gemmaToken = Some i"
  from index_of_bound [OF this]
  show "((s, from + i + 5), s, from) \<in> measure (\<lambda>(s, from). Suc (length s) - from)"
    by (auto simp: gemmaToken_def)
qed simp

declare findClosingGemmaQuote_from.simps [simp del]

definition findClosingGemmaQuote :: "string \<Rightarrow> nat option" where
  "findClosingGemmaQuote s = findClosingGemmaQuote_from s 0"

function gemmaStructEnd_loop :: "char \<Rightarrow> char \<Rightarrow> int \<Rightarrow> nat \<Rightarrow> string \<Rightarrow> nat option" where
  "gemmaStructEnd_loop open close depth i [] = None"
| "gemmaStructEnd_loop open close depth i (c # cs) =
    (if has_prefix (c # cs) gemmaToken
     then gemmaStructEnd_loop open close depth (i + 5) (drop 5 (c # cs))
     else if c = open then gemmaStructEnd_loop open close (depth + 1) (Suc i) cs
     else if c = close then
       (if depth - 1 = 0 then Some (i + 1)
        else gemmaStructEnd_loop open close (depth - 1) (Suc i) cs)
     else gemmaStructEnd_loop open close depth (Suc i) cs)"
  by pat_completeness auto
termination
  by (relation "measure (\<lambda>(_, _, _, _, s). length s)") auto

definition findGemmaStructEnd :: "string \<Rightarrow> nat option" where
  "findGemmaStructEnd s =
    (if has_prefix s ''['' then gemmaStructEnd_loop (CHR ''['') (CHR '']'') 0 0 s
     else if has_prefix s ''{'' then gemmaStructEnd_loop (CHR ''{'') (CHR ''}'') 0 0 s
     else None)"

function findClosingStandardQuote_from :: "string \<Rightarrow> nat \<Rightarrow> nat option" where
  "findClosingStandardQuote_from s searchFrom =
    (case index_of (drop searchFrom s) [dq] of
       None \<Rightarrow> None
     | Some idx \<Rightarrow>
         let pos = searchFrom + idx in
         if 0 < pos \<and> s ! (pos - 1) = bsl then findClosingStandardQuote_from s (pos + 1)
         else if ends_or standard_end_byte (drop (pos + 1) s) then Some pos
         else findClosingStandardQuote_from s (pos + 1))"
  by pat_completeness auto
termination
proof (relation "measure (\<lambda>(s, from). Suc (length s) - from)")
  fix s :: string and "from" i x :: nat
  assume i: "index_of (drop from s) [dq] = Some i" and x: "x = from + i"
  from index_of_bound [OF i] have less: "Suc (length s) - (x + 1) < Suc (length s) - from"
    unfolding x by auto
  then show "((s, x + 1), s, from) \<in> measure (\<lambda>(s, from). Suc (length s) - from)"
    "((s, x + 1), s, from) \<in> measure (\<lambda>(s, from). Suc (length s) - from)" by simp_all
qed simp

declare findClosingStandardQuote_from.simps [simp del]

definition findClosingStandardQuote :: "string \<Rightarrow> nat option" where
  "findClosingStandardQuote s = findClosingStandardQuote_from s 0"

section \<open>The arguments of a Gemma call\<close>

lemma index_of_take_Suc: "index_of s t = Some i \<Longrightarrow> t \<noteq> [] \<Longrightarrow> i < length s"
  using index_of_bound [of s t i] by (cases t) auto

text \<open>The loop of \<open>parseGemmaArgs\<close>, on \<open>remaining\<close>, with the map built so far.\<close>

function parseGemmaArgs_loop :: "go_map \<Rightarrow> string \<Rightarrow> go_map" where
  "parseGemmaArgs_loop args remaining =
    (if remaining = [] then args
     else
       (case index_of remaining '':'' of
          None \<Rightarrow> args
        | Some colonIdx \<Rightarrow>
          let key = trim_set (trim_left_set (take colonIdx remaining) [CHR '','', CHR '' '', tab, nl]) [dq];
              r = drop (colonIdx + 1) remaining
          in
          if has_prefix r gemmaToken then
            let q = drop 5 r in
            (case findClosingGemmaQuote q of
               None \<Rightarrow> AList.update key (JStr (trim_space q)) args
             | Some endQuote \<Rightarrow>
                 let v = take endQuote q; trimVal = trim_space v in
                 if has_prefix trimVal ''['' \<or> has_prefix trimVal ''{'' then
                   (case unmarshal_any (replace_all trimVal gemmaToken [dq]) of
                      Some parsed \<Rightarrow>
                        parseGemmaArgs_loop (AList.update key parsed args) (drop (endQuote + 5) q)
                    | None \<Rightarrow>
                        parseGemmaArgs_loop (AList.update key (JStr v) args) (drop (endQuote + 5) q))
                 else parseGemmaArgs_loop (AList.update key (JStr v) args) (drop (endQuote + 5) q))
          else if has_prefix r [dq] then
            let q = drop 1 r in
            (case findClosingStandardQuote q of
               None \<Rightarrow> AList.update key (JStr (trim_space q)) args
             | Some endQuote \<Rightarrow>
                 parseGemmaArgs_loop (AList.update key (JStr (take endQuote q)) args)
                   (drop (endQuote + 1) q))
          else if has_prefix r ''['' \<or> has_prefix r ''{'' then
            (case findGemmaStructEnd r of
               None \<Rightarrow> AList.update key (JStr (trim_space r)) args
             | Some endIdx \<Rightarrow>
                 (case unmarshal_any (replace_all (take endIdx r) gemmaToken [dq]) of
                    Some parsed \<Rightarrow>
                      parseGemmaArgs_loop (AList.update key parsed args) (drop endIdx r)
                  | None \<Rightarrow>
                      parseGemmaArgs_loop (AList.update key (JStr (take endIdx r)) args) (drop endIdx r)))
          else
            (case index_any r '',}'' of
               None \<Rightarrow> AList.update key (JStr (trim_space r)) args
             | Some endIdx \<Rightarrow>
                 parseGemmaArgs_loop (AList.update key (JStr (trim_space (take endIdx r))) args)
                   (drop endIdx r))))"
  by pat_completeness auto
termination
proof -
  have less: "length (drop (colonIdx + 1) remaining) < length remaining"
    if "index_of remaining '':'' = Some colonIdx" for colonIdx and remaining :: string
    using index_of_take_Suc [OF that] by simp
  show ?thesis
    by (relation "measure (\<lambda>(_, s). length s)")
      (auto dest!: index_of_take_Suc simp: Let_def)
qed

declare parseGemmaArgs_loop.simps [simp del]

definition parseGemmaArgs :: "string \<Rightarrow> go_map" where
  "parseGemmaArgs raw = parseGemmaArgs_loop [] raw"

section \<open>The four formats\<close>

record tool_call =
  tc_ID :: string
  tc_Name :: string
  tc_Arguments :: "go_map option" \<comment> \<open>\<open>None\<close> is the nil map\<close>
  tc_Raw :: string
  tc_Error :: "repair_error option"

text \<open>
  The identifiers come from \<open>newToolCallID\<close>; \<open>newID n\<close> is the one the \<open>n\<close>-th call of it
  returns.
\<close>

definition gemma_args :: "string \<Rightarrow> go_map option" where
  "gemma_args argsRaw =
    (let trimmed = trim_space argsRaw;
         jsonCandidate =
           (if trimmed \<noteq> [] \<and> \<not> has_prefix trimmed ''{'' then ''{'' @ trimmed @ ''}'' else trimmed)
     in (case unmarshal_map jsonCandidate of
           Some args \<Rightarrow> args
         | None \<Rightarrow>
             let inner =
               (if has_prefix trimmed ''{'' then
                  (case last_index_byte (drop 1 trimmed) (CHR ''}'') of
                     Some idx \<Rightarrow> take idx (drop 1 trimmed)
                   | None \<Rightarrow> drop 1 trimmed)
                else trimmed)
             in Some (parseGemmaArgs inner)))"

function parseGemma_loop :: "(nat \<Rightarrow> string) \<Rightarrow> nat \<Rightarrow> string \<Rightarrow> tool_call list" where
  "parseGemma_loop newID n remaining =
    (case index_of remaining ''call:'' of
       None \<Rightarrow> []
     | Some callIdx \<Rightarrow>
         let start = drop callIdx remaining; r = drop (callIdx + 5) remaining in
         (case index_of r ''{'' of
            None \<Rightarrow> []
          | Some braceIdx \<Rightarrow>
              let name = trim_space (take braceIdx r); b = drop braceIdx r;
                  (argsRaw, rest) =
                    (case findGemmaBraceEnd b of
                       None \<Rightarrow> (drop 1 b, [])
                     | Some braceEnd \<Rightarrow> (slice b 1 braceEnd, drop (braceEnd + 1) b))
              in \<lparr>tc_ID = newID n, tc_Name = name, tc_Arguments = gemma_args argsRaw,
                  tc_Raw = take (length start - length rest) start, tc_Error = None\<rparr>
                 # parseGemma_loop newID (Suc n) rest))"
  by pat_completeness auto
termination
proof (relation "measure (\<lambda>(_, _, s). length s)")
  fix newID :: "nat \<Rightarrow> string" and n and remaining :: string
    and callIdx start r braceIdx name b p argsRaw rest
  assume "index_of remaining ''call:'' = Some callIdx" "r = drop (callIdx + 5) remaining"
    and b: "b = drop braceIdx r"
    and p: "p = (case findGemmaBraceEnd b of None \<Rightarrow> (drop 1 b, [])
                 | Some braceEnd \<Rightarrow> (slice b 1 braceEnd, drop (braceEnd + 1) b))"
    and "(argsRaw, rest) = p"
  then have "length rest \<le> length b" by (auto split: option.split_asm)
  moreover have "length b < length remaining"
    using index_of_take_Suc [of remaining "''call:''" callIdx] \<open>index_of remaining _ = _\<close>
      \<open>r = _\<close> b by simp
  ultimately show "((newID, Suc n, rest), newID, n, remaining) \<in> measure (\<lambda>(_, _, s). length s)" by simp
qed simp

declare parseGemma_loop.simps [simp del]

definition parseGemma :: "(nat \<Rightarrow> string) \<Rightarrow> string \<Rightarrow> tool_call list" where
  "parseGemma newID content = parseGemma_loop newID 0 content"

text \<open>The value of one Qwen parameter: JSON when it parses, else the text itself.\<close>

definition qwen_value :: "string \<Rightarrow> json" where
  "qwen_value paramValue =
    (if paramValue = [] then JStr paramValue
     else (case unmarshal_any paramValue of Some parsed \<Rightarrow> parsed | None \<Rightarrow> JStr paramValue))"

function qwen_params :: "go_map \<Rightarrow> string \<Rightarrow> go_map" where
  "qwen_params args remaining =
    (case index_of remaining ''<parameter='' of
       None \<Rightarrow> args
     | Some paramStart \<Rightarrow>
         (case index_of (drop paramStart remaining) ''>'' of
            None \<Rightarrow> args
          | Some paramNameEnd \<Rightarrow>
              let paramName = trim_space (slice remaining (paramStart + 11) (paramStart + paramNameEnd));
                  valueStart = paramStart + paramNameEnd + 1
              in (case index_of (drop valueStart remaining) ''</parameter>'' of
                    None \<Rightarrow> args
                  | Some paramCloseRel \<Rightarrow>
                      let paramClose = valueStart + paramCloseRel;
                          paramValue = trim_space (slice remaining valueStart paramClose)
                      in qwen_params (AList.update paramName (qwen_value paramValue) args)
                           (drop (paramClose + 12) remaining))))"
  by pat_completeness auto
termination
  by (relation "measure (\<lambda>(_, s). length s)") (auto dest!: index_of_take_Suc)

declare qwen_params.simps [simp del]

function parseQwenXML_loop :: "(nat \<Rightarrow> string) \<Rightarrow> nat \<Rightarrow> string \<Rightarrow> tool_call list" where
  "parseQwenXML_loop newID n content =
    (case index_of content ''<function='' of
       None \<Rightarrow> []
     | Some funcStart \<Rightarrow>
         (case index_of (drop funcStart content) ''>'' of
            None \<Rightarrow> []
          | Some funcEnd \<Rightarrow>
              let name = trim_space (slice content (funcStart + 10) (funcStart + funcEnd));
                  bodyStart = funcStart + funcEnd + 1
              in (case index_of (drop bodyStart content) ''</function>'' of
                    None \<Rightarrow> []
                  | Some closeRel \<Rightarrow>
                      let closeFunc = closeRel + bodyStart;
                          funcBody = slice content bodyStart closeFunc
                      in \<lparr>tc_ID = newID n, tc_Name = name, tc_Arguments = Some (qwen_params [] funcBody),
                          tc_Raw = slice content funcStart (closeFunc + 11), tc_Error = None\<rparr>
                         # parseQwenXML_loop newID (Suc n) (drop (closeFunc + 11) content))))"
  by pat_completeness auto
termination
  by (relation "measure (\<lambda>(_, _, s). length s)") (auto dest!: index_of_take_Suc)

declare parseQwenXML_loop.simps [simp del]

definition parseQwenXML :: "(nat \<Rightarrow> string) \<Rightarrow> string \<Rightarrow> tool_call list" where
  "parseQwenXML newID content = parseQwenXML_loop newID 0 content"

text \<open>One candidate of \<open>parseJSONToolCall\<close>: the name and the arguments, or not a tool call.\<close>

definition json_call :: "string \<Rightarrow> (string \<times> go_map option) option" where
  "json_call c =
    (case Unmarshal decode_fn c of
       Inl _ \<Rightarrow> None
     | Inr (name, arguments) \<Rightarrow>
         if name = [] then None
         else Some (name,
           case arguments of
             JObj a \<Rightarrow> Some a
           | JStr a \<Rightarrow> repair_unmarshal_map a
           | _ \<Rightarrow> None))"

text \<open>The start of the next candidate: white space skipped, then the first brace.\<close>

definition next_object :: "string \<Rightarrow> string option" where
  "next_object s =
    (let r = trim_left_set s [CHR '' '', tab, nl, cr] in
     if r = [] then None
     else if has_prefix r ''{'' then Some r
     else (case index_of r ''{'' of None \<Rightarrow> None | Some idx \<Rightarrow> Some (drop idx r)))"

lemma objectEnd_loop_bound:
  "objectEnd_loop depth inS e i s = Some k \<Longrightarrow> i < k \<and> k \<le> i + length s"
proof (induction depth inS e i s rule: objectEnd_loop.induct)
  case (2 depth inS e i c cs)
  then show ?case by (auto split: if_split_asm)
qed simp

lemma findJSONObjectEnd_bound: "findJSONObjectEnd s = Some k \<Longrightarrow> 0 < k \<and> k \<le> length s"
  by (auto simp: findJSONObjectEnd_def dest!: objectEnd_loop_bound split: if_split_asm option.split_asm)

lemma next_object_shorter: "next_object s = Some r \<Longrightarrow> length r \<le> length s \<and> has_prefix r ''{''"
proof -
  assume a: "next_object s = Some r"
  let ?t = "trim_left_set s [CHR '' '', tab, nl, cr]"
  have len: "length ?t \<le> length s" by (simp add: trim_left_set_def length_dropWhile_le)
  show ?thesis
  proof (cases "has_prefix ?t ''{''")
    case True
    with a len show ?thesis by (auto simp: next_object_def Let_def split: if_split_asm)
  next
    case False
    with a obtain i where i: "index_of ?t ''{'' = Some i" "r = drop i ?t"
      by (auto simp: next_object_def Let_def split: if_split_asm option.split_asm)
    have "take 1 r = ''{''" using index_of_take [OF i(1)] i(2) by simp
    then have "has_prefix r ''{''" by (cases r) simp_all
    with i len show ?thesis by simp
  qed
qed

text \<open>\<open>jsonEnd\<close> of the code: the end of the object, or of the text.\<close>

definition json_end :: "string \<Rightarrow> nat" where
  "json_end s = (case findJSONObjectEnd s of None \<Rightarrow> length s | Some k \<Rightarrow> k)"

lemma json_end_pos: "s \<noteq> [] \<Longrightarrow> 0 < json_end s \<and> json_end s \<le> length s"
  using findJSONObjectEnd_bound [of s] by (simp add: json_end_def split: option.split)

function parseJSONToolCall_loop :: "(nat \<Rightarrow> string) \<Rightarrow> nat \<Rightarrow> string \<Rightarrow> tool_call list" where
  "parseJSONToolCall_loop newID n s =
    (case next_object s of
       None \<Rightarrow> []
     | Some remaining \<Rightarrow>
         let jsonEnd = json_end remaining; call = take jsonEnd remaining; rest = drop jsonEnd remaining in
         (case json_call call of
            None \<Rightarrow> parseJSONToolCall_loop newID n rest
          | Some (name, args) \<Rightarrow>
              \<lparr>tc_ID = newID n, tc_Name = trim_prefix name ''.'', tc_Arguments = args,
               tc_Raw = call, tc_Error = None\<rparr>
              # parseJSONToolCall_loop newID (Suc n) rest))"
  by pat_completeness auto
termination
proof -
  have less: "length (drop (json_end r) r) < length s" if "next_object s = Some r" for s r
    using next_object_shorter [OF that] json_end_pos [of r] by (cases r) auto
  show ?thesis
    by (relation "measure (\<lambda>(_, _, s). length s)") (use less in simp_all)
qed

declare parseJSONToolCall_loop.simps [simp del]

definition parseJSONToolCall :: "(nat \<Rightarrow> string) \<Rightarrow> string \<Rightarrow> tool_call list" where
  "parseJSONToolCall newID content = parseJSONToolCall_loop newID 0 content"

text \<open>The texts \<open>parseGPTToolCall\<close> puts together from \<open>.NAME <|message|>{args}\<close>.\<close>

definition gpt_json :: "string \<Rightarrow> string \<Rightarrow> string" where
  "gpt_json name args =
    CHR ''{'' # dq # ''name'' @ [dq, CHR '':'', dq] @ name @ [dq, CHR '','', dq] @ ''arguments''
      @ [dq, CHR '':''] @ args @ ''}''"

function gpt_calls :: "string \<Rightarrow> string list" where
  "gpt_calls remaining =
    (case index_of remaining ''.'' of
       None \<Rightarrow> []
     | Some dotIdx \<Rightarrow>
         let r = drop dotIdx remaining in
         (case index_of r ''<|message|>'' of
            None \<Rightarrow> []
          | Some msgIdx \<Rightarrow>
              let name = trim_prefix (takeWhile (\<lambda>c. c \<noteq> CHR '' '') (take msgIdx r)) ''.'';
                  b = drop (msgIdx + 11) r
              in gpt_json name (take (json_end b) b) # gpt_calls (drop (json_end b) b)))"
  by pat_completeness auto
termination
  by (relation "measure length") (auto dest!: index_of_take_Suc)

declare gpt_calls.simps [simp del]

definition parseGPTToolCall :: "(nat \<Rightarrow> string) \<Rightarrow> string \<Rightarrow> tool_call list" where
  "parseGPTToolCall newID content =
    (case gpt_calls content of
       [] \<Rightarrow> []
     | jsonCalls \<Rightarrow> parseJSONToolCall newID (join_str [nl] jsonCalls))"

definition ExtractToolCalls :: "(nat \<Rightarrow> string) \<Rightarrow> string \<Rightarrow> tool_call list" where
  "ExtractToolCalls newID content =
    (if parseGemma newID content \<noteq> [] then parseGemma newID content
     else if parseQwenXML newID content \<noteq> [] then parseQwenXML newID content
     else if parseGPTToolCall newID content \<noteq> [] then parseGPTToolCall newID content
     else parseJSONToolCall newID content)"

end
