(* ===== verification/ToolExtractSpec.thy ===== *)
theory ToolExtractSpec
  imports ToolExtract RepairSpec
begin

text \<open>
  What the tool call extractor of \<^verbatim>\<open>pkg/toolrepair/extract.go\<close> promises: the brace scanners
  agree with the JSON scanner on JSON, well-formed calls of each format come back as written,
  and every reported call is a piece of the text.
\<close>

section \<open>The brace scanners and JSON\<close>

fun object_depth :: "jframe list \<Rightarrow> int" where
  "object_depth [] = 0"
| "object_depth (FArr vs # fs) = object_depth fs"
| "object_depth (FKey ps # fs) = object_depth fs + 1"
| "object_depth (FVal ps k # fs) = object_depth fs + 1"

lemma object_depth_nonneg: "0 \<le> object_depth fs"
  by (induction fs rule: object_depth.induct) simp_all

text \<open>The outermost open bracket is a brace.\<close>

definition in_object :: "jframe list \<Rightarrow> bool" where
  "in_object fs \<longleftrightarrow> fs \<noteq> [] \<and> (\<forall>vs. last fs \<noteq> FArr vs)"

lemma in_object_depth: "in_object fs \<Longrightarrow> 0 < object_depth fs"
proof (induction fs rule: object_depth.induct)
  case (2 vs fs)
  then show ?case by (auto simp: in_object_def split: if_split_asm)
next
  case (3 ps fs)
  then show ?case using object_depth_nonneg [of fs] by simp
next
  case (4 ps k fs)
  then show ?case using object_depth_nonneg [of fs] by simp
qed (simp add: in_object_def)

text \<open>One step moves the depth as the brace scanners count it, up to the brace that closes everything.\<close>

definition depth_move :: "bool \<Rightarrow> char \<Rightarrow> jframe list \<Rightarrow> jframe list \<Rightarrow> bool" where
  "depth_move str c fs fs' \<longleftrightarrow>
     object_depth fs' =
       (if str then object_depth fs
        else if c = CHR ''{'' then object_depth fs + 1
        else if c = CHR ''}'' then object_depth fs - 1 else object_depth fs)
     \<and> (in_object fs \<longrightarrow> in_object fs' \<or> \<not> str \<and> c = CHR ''}'' \<and> fs' = [] \<and> object_depth fs = 1)"

lemma depth_move_same: "str \<or> c \<noteq> CHR ''{'' \<and> c \<noteq> CHR ''}'' \<Longrightarrow> depth_move str c fs fs"
  by (auto simp: depth_move_def)

lemma begin_value_depth: "begin_value fs c = Some (st', fs') \<Longrightarrow> depth_move False c fs fs'"
  by (erule begin_value_cases)
    (auto simp: depth_move_def in_object_def json_ws_def is_digit_def byte_between_def)

lemma end_value_depth: "end_value v fs c = Some (st', fs') \<Longrightarrow> depth_move False c fs fs'"
  by (erule end_value_cases) (auto simp: depth_move_def in_object_def json_ws_def)

lemma jstep_depth:
  assumes step: "jstep (st, fs) c = Some (st', fs')" and lit: "lit_ok st"
  shows "depth_move (in_string st) c fs fs'"
proof -
  have plain: "depth_move False c fs fs" if "json_ws c \<or> c = dq \<or> is_digit c \<or> c = CHR ''.''
      \<or> c = CHR ''e'' \<or> c = CHR ''E'' \<or> c = CHR ''+'' \<or> c = CHR ''-'' \<or> c = CHR ''0'' \<or> is_lower c" for c fs
    using that by (intro depth_move_same) auto
  have close: "depth_move False (CHR ''}'') (FKey [] # fs') fs'"
    "depth_move False (CHR '']'') (FArr [] # fs') fs'"
    by (auto simp: depth_move_def in_object_def)
  show ?thesis
  proof (cases st)
    case (Num0 raw)
    with step show ?thesis
      by (elim num_step_cases [where raw = raw])
        (auto simp: in_string_def plain intro: end_value_depth)
  next
    case (Num1 raw)
    with step show ?thesis
      by (elim num_step_cases [where raw = raw])
        (auto simp: in_string_def plain intro: end_value_depth)
  next
    case (InLit l v)
    with step lit show ?thesis
      by (auto simp: in_string_def lit_ok_def plain split: list.split_asm if_split_asm)
  qed (use step lit close in \<open>auto simp: in_string_def plain depth_move_same
       intro: end_value_depth begin_value_depth
       split: if_split_asm list.split_asm jframe.split_asm\<close>)
qed

lemma end_value_brace: "end_value v fs (CHR ''}'') = Some (st', fs') \<Longrightarrow> \<exists>w. st' = EndVal w"
  by (erule end_value_cases) auto

lemma jstep_brace_end:
  assumes "jstep (st, fs) (CHR ''}'') = Some (st', [])" "fs \<noteq> []" "\<not> in_string st" "lit_ok st"
  shows "\<exists>w. st' = EndVal w"
  using assms end_value_brace
  by (cases st)
    (auto simp: in_string_def lit_ok_def begin_value_def push_frame_def
      split: if_split_asm list.split_asm jframe.split_asm)

lemma run_after_end: "jrun (EndVal w, []) s = Some cf \<Longrightarrow> list_all json_ws s"
  by (induction s) (auto split: if_split_asm)

lemma objectEnd_loop_run:
  "jrun (st, fs) s = Some (EndVal v, []) \<Longrightarrow> lit_ok st \<Longrightarrow> in_object fs \<Longrightarrow>
     \<exists>k. objectEnd_loop (object_depth fs) (in_string st) (in_escape st) i (s @ r) = Some (i + k)
         \<and> 0 < k \<and> k \<le> length s \<and> s ! (k - 1) = CHR ''}'' \<and> list_all json_ws (drop k s)"
proof (induction s arbitrary: st fs i)
  case Nil
  then show ?case by (simp add: in_object_def)
next
  case (Cons c s)
  then obtain st' fs' where step: "jstep (st, fs) c = Some (st', fs')"
    and run: "jrun (st', fs') s = Some (EndVal v, [])" by (auto split: option.split_asm)
  note flags = jstep_flags [OF step Cons.prems(2)]
  note move = jstep_depth [OF step Cons.prems(2), unfolded depth_move_def]
  show ?case
  proof (cases "in_object fs'")
    case True
    obtain k where k: "objectEnd_loop (object_depth fs') (in_string st') (in_escape st') (Suc i) (s @ r)
        = Some (Suc i + k)" "k \<le> length s" "0 < k" "s ! (k - 1) = CHR ''}''" "list_all json_ws (drop k s)"
      using Cons.IH [OF run flags(3) True, of "Suc i"] by blast
    have no_close: "\<not> (object_depth fs - 1 = 0 \<and> c = CHR ''}'' \<and> \<not> in_string st)"
      using move in_object_depth [OF True] by (auto split: if_split_asm)
    have "objectEnd_loop (object_depth fs) (in_string st) (in_escape st) i ((c # s) @ r) = Some (Suc i + k)"
      using k(1) flags(1,2) move no_close
      by (cases "in_string st") (auto simp: in_escape_def in_string_def split: if_split_asm jst.split_asm)
    with k show ?thesis by (intro exI [of _ "Suc k"]) (cases k; simp)
  next
    case False
    with move Cons.prems(3) have close: "\<not> in_string st" "c = CHR ''}''" "fs' = []" "object_depth fs = 1"
      by auto
    have "fs \<noteq> []" using Cons.prems(3) by (simp add: in_object_def)
    with jstep_brace_end [of st fs st'] step close Cons.prems(2) obtain w where "st' = EndVal w" by blast
    with run close(3) run_after_end have "list_all json_ws s" by blast
    moreover have "\<not> in_escape st" using close(1) by (auto simp: in_string_def in_escape_def split: jst.splits)
    ultimately show ?thesis using close by (intro exI [of _ 1]) simp
  qed
qed

text \<open>A JSON object as the formats carry it: valid, from its opening to its closing brace.\<close>

definition object_text :: "string \<Rightarrow> bool" where
  "object_text t \<longleftrightarrow> json_valid t \<and> has_prefix t ''{'' \<and> last t = CHR ''}''"

lemma objectEnd_loop_prefix:
  "objectEnd_loop d a e i (x @ y) = Some k \<Longrightarrow> k \<le> i + length x \<Longrightarrow>
     objectEnd_loop d a e i (x @ z) = Some k"
proof (induction x arbitrary: d a e i)
  case Nil
  then show ?case using objectEnd_loop_bound [of d a e i y k] by simp
next
  case (Cons c x)
  then show ?case by (auto split: if_split_asm)
qed

lemma object_text_parts:
  assumes "object_text t"
  obtains s v where "t = CHR ''{'' # s" "s \<noteq> []" "last s = CHR ''}''" "json_parse t = Some v"
    "jrun (BeginStringOrEmpty, [FKey []]) (s @ '' '') = Some (EndVal v, [])"
proof -
  obtain s where t: "t = CHR ''{'' # s" using assms by (cases t) (auto simp: object_text_def)
  obtain v where v: "json_parse t = Some v" using assms by (auto simp: object_text_def json_valid_def)
  then have run: "jrun (BeginStringOrEmpty, [FKey []]) (s @ '' '') = Some (EndVal v, [])"
    by (auto simp: json_parse_def t begin_value_def push_frame_def max_nesting_def
        split: option.split_asm prod.split_asm jst.split_asm list.split_asm)
  have "s \<noteq> []" using assms by (auto simp: object_text_def t)
  moreover have "last s = CHR ''}''" using assms \<open>s \<noteq> []\<close> by (simp add: object_text_def t)
  ultimately show ?thesis using that t v run by blast
qed

lemma findJSONObjectEnd_object:
  assumes "object_text t"
  shows "findJSONObjectEnd (t @ r) = Some (length t)"
proof -
  obtain s v where t: "t = CHR ''{'' # s" "s \<noteq> []" "last s = CHR ''}''"
    and run: "jrun (BeginStringOrEmpty, [FKey []]) (s @ '' '') = Some (EndVal v, [])"
    using object_text_parts [OF assms] .
  have flags: "in_string BeginStringOrEmpty = False" "in_escape BeginStringOrEmpty = False"
    "lit_ok BeginStringOrEmpty" "in_object [FKey []]"
    by (simp_all add: st_defs in_object_def)
  obtain k where k: "objectEnd_loop 1 False False (Suc 0) (s @ '' '') = Some (Suc 0 + k)" "0 < k"
    "k \<le> length (s @ '' '')" "(s @ '' '') ! (k - 1) = CHR ''}''" "list_all json_ws (drop k (s @ '' ''))"
    using objectEnd_loop_run [OF run flags(3,4), of "Suc 0" "[]"] by (auto simp: flags)
  have "k \<le> length s"
  proof (rule ccontr)
    assume "\<not> k \<le> length s"
    with k(3) have "k - 1 = length s" by simp
    with k(4) show False by simp
  qed
  moreover have "\<not> k < length s"
  proof
    assume "k < length s"
    then have "last s \<in> set (drop k s)" by (metis drop_eq_Nil last_drop last_in_set not_le)
    with k(5) t(3) \<open>k < length s\<close> show False by (auto simp: list_all_iff)
  qed
  ultimately have "k = length s" by simp
  with objectEnd_loop_prefix [OF k(1), of r] have "objectEnd_loop 1 False False (Suc 0) (s @ r) = Some (length t)"
    using t(1) by simp
  then show ?thesis by (simp add: findJSONObjectEnd_def t(1))
qed

text \<open>
  C13. The brace counter of \<open>findJSONObjectEnd\<close> agrees with the JSON scanner: on a text that
  begins with a valid JSON object it returns the end of exactly that object, whatever follows,
  and whatever braces, quotes and escapes its strings contain.
\<close>

theorem findJSONObjectEnd_exact:
  assumes "object_text t"
  shows "findJSONObjectEnd (t @ rest) = Some (length t)"
  using assms by (rule findJSONObjectEnd_object)

definition sample_object :: string where
  "sample_object = ''{'' @ [dq, CHR ''k'', dq] @ '':{'' @ [dq, CHR ''}'', bsl, dq, CHR ''{'', dq] @ '':1}}''"

lemma sample_object_ok: "object_text sample_object"
  by (simp add: object_text_def sample_object_def json_eval json_ws_def is_digit_def byte_between_def)

theorem findJSONObjectEnd_exact_witness:
  "findJSONObjectEnd (sample_object @ ''} tail'') = Some (length sample_object)"
  using findJSONObjectEnd_exact [OF sample_object_ok] .

lemma json_end_object: "object_text t \<Longrightarrow> json_end (t @ r) = length t"
  by (simp add: json_end_def findJSONObjectEnd_object)

text \<open>The Gemma scanner jumps over a whole string where the JSON one keeps a flag.\<close>

lemma objectEnd_loop_string:
  "objectEnd_loop d True False i s
    = objectEnd_loop d False False (i + quote_skip s) (drop (quote_skip s) s)"
proof (induction s arbitrary: i rule: quote_skip.induct)
  case (2 c cs)
  show ?case
  proof (cases "c = bsl")
    case True
    with 2 show ?thesis by (cases cs) simp_all
  next
    case False
    with 2 show ?thesis by simp
  qed
qed simp

lemma has_prefix_contains: "has_prefix s t \<Longrightarrow> contains_str s t"
  by (cases s; cases t) (auto simp: contains_str_def)

lemma contains_str_drop: "\<not> contains_str s t \<Longrightarrow> \<not> contains_str (drop n s) t"
proof (induction n arbitrary: s)
  case (Suc n)
  then show ?case by (cases s) (auto simp: contains_str_def split: if_split_asm)
qed simp

lemma gemmaBraceEnd_loop_eq:
  "\<not> contains_str s gemmaToken \<Longrightarrow>
     gemmaBraceEnd_loop True d i s = map_option (\<lambda>k. k - 1) (objectEnd_loop d False False i s)"
proof (induction s arbitrary: d i rule: length_induct)
  case (1 s)
  show ?case
  proof (cases s)
    case Nil
    then show ?thesis by simp
  next
    case (Cons c cs)
    have no: "\<not> has_prefix (c # cs) gemmaToken" using "1.prems" Cons has_prefix_contains by blast
    have IH: "gemmaBraceEnd_loop True d i (drop n cs)
        = map_option (\<lambda>k. k - 1) (objectEnd_loop d False False i (drop n cs))" for d i n
      using "1.IH" [rule_format, of "drop n cs"] contains_str_drop [OF "1.prems", of "Suc n"] Cons by simp
    show ?thesis
      using no IH [of _ _ 0] IH [of d "i + Suc (quote_skip cs)" "quote_skip cs"]
      by (auto simp: Cons objectEnd_loop_string simp del: has_prefix.simps)
  qed
qed

text \<open>
  On text without Gemma's quote token the two brace scanners of the extractor, written
  independently, find the same brace: \<open>findGemmaBraceEnd\<close> returns its index and
  \<open>findJSONObjectEnd\<close> the index behind it.
\<close>

theorem brace_scanners_agree:
  assumes "\<not> contains_str s gemmaToken" and "has_prefix s ''{''"
  shows "findGemmaBraceEnd s = map_option (\<lambda>k. k - 1) (findJSONObjectEnd s)"
  using assms by (simp add: findGemmaBraceEnd_def findJSONObjectEnd_def gemmaBraceEnd_loop_eq)

theorem brace_scanners_agree_witness:
  "findGemmaBraceEnd sample_object = map_option (\<lambda>k. k - 1) (findJSONObjectEnd sample_object)"
  by (rule brace_scanners_agree)
    (simp_all add: sample_object_def contains_str_def gemmaToken_def)

section \<open>Every call is a piece of the text\<close>

text \<open>The strings occur in the text one after the other, without overlap.\<close>

fun pieces_of :: "string \<Rightarrow> string list \<Rightarrow> bool" where
  "pieces_of s [] = True"
| "pieces_of s (r # rs) = (\<exists>a t. s = a @ r @ t \<and> pieces_of t rs)"

lemma pieces_of_drop: "pieces_of (drop n s) rs \<Longrightarrow> pieces_of s rs"
proof (induction rs)
  case (Cons r rs)
  then obtain a t where "drop n s = a @ r @ t" "pieces_of t rs" by auto
  then have "s = (take n s @ a) @ r @ t" by (metis append.assoc append_take_drop_id)
  with \<open>pieces_of t rs\<close> show ?case unfolding pieces_of.simps by blast
qed simp

lemma pieces_of_Cons: "s = a @ r @ t \<Longrightarrow> pieces_of t rs \<Longrightarrow> pieces_of s (r # rs)"
  by auto

lemma suffix_next_object: "next_object s = Some r \<Longrightarrow> \<exists>n. r = drop n s"
  by (auto simp: next_object_def trim_left_set_def Let_def dropWhile_eq_drop
      split: if_split_asm option.split_asm)

lemma parseJSONToolCall_pieces: "pieces_of s (map tc_Raw (parseJSONToolCall_loop newID n s))"
proof (induction newID n s rule: parseJSONToolCall_loop.induct)
  case (1 newID n s)
  show ?case
  proof (cases "next_object s")
    case None
    then show ?thesis by (simp add: parseJSONToolCall_loop.simps [of _ _ s])
  next
    case (Some r)
    obtain m where m: "r = drop m s" using suffix_next_object [OF Some] by blast
    let ?rest = "drop (json_end r) r"
    show ?thesis
    proof (cases "json_call (take (json_end r) r)")
      case None
      with "1.IH"(1) [OF Some refl refl refl None] Some m show ?thesis
        using pieces_of_drop [of "json_end r + m" s]
        by (simp add: parseJSONToolCall_loop.simps [of _ _ s] add.commute)
    next
      case (Some p)
      obtain name args where p: "p = (name, args)" by (cases p)
      have IH: "pieces_of ?rest (map tc_Raw (parseJSONToolCall_loop newID (Suc n) ?rest))"
        using "1.IH"(2) [OF \<open>next_object s = Some r\<close> refl refl refl Some p [symmetric]] .
      have split: "s = take m s @ take (json_end r) r @ ?rest" using m by (metis append_take_drop_id)
      have eq: "parseJSONToolCall_loop newID n s
          = \<lparr>tc_ID = newID n, tc_Name = trim_prefix name ''.'', tc_Arguments = args,
              tc_Raw = take (json_end r) r, tc_Error = None\<rparr>
            # parseJSONToolCall_loop newID (Suc n) ?rest"
        using \<open>next_object s = Some r\<close> Some p by (subst parseJSONToolCall_loop.simps) (simp add: Let_def)
      show ?thesis unfolding eq list.map tool_call.simps by (rule pieces_of_Cons [OF split IH])
    qed
  qed
qed

lemma parseGemma_pieces: "pieces_of s (map tc_Raw (parseGemma_loop newID n s))"
proof (induction newID n s rule: parseGemma_loop.induct)
  case (1 newID n s)
  show ?case
  proof (cases "index_of s ''call:''")
    case None
    then show ?thesis by (simp add: parseGemma_loop.simps [of _ _ s])
  next
    case c: (Some callIdx)
    let ?start = "drop callIdx s" and ?r = "drop (callIdx + 5) s"
    show ?thesis
    proof (cases "index_of ?r ''{''")
      case None
      with c show ?thesis by (simp add: parseGemma_loop.simps [of _ _ s])
    next
      case b: (Some braceIdx)
      let ?b = "drop braceIdx ?r"
      define p where "p = (case findGemmaBraceEnd ?b of None \<Rightarrow> (drop 1 ?b, [])
          | Some braceEnd \<Rightarrow> (slice ?b 1 braceEnd, drop (braceEnd + 1) ?b))"
      obtain argsRaw rest where p': "p = (argsRaw, rest)" by (cases p)
      have IH: "pieces_of rest (map tc_Raw (parseGemma_loop newID (Suc n) rest))"
        using "1.IH" [OF c refl refl b refl refl p_def p' [symmetric]] .
      obtain k where k: "rest = drop k ?start"
      proof (cases "findGemmaBraceEnd ?b")
        case None
        then have "rest = drop (length ?start) ?start" using p' p_def by simp
        then show ?thesis using that by blast
      next
        case (Some e)
        then have "rest = drop (e + 1 + braceIdx + 5) ?start" using p' p_def by (simp add: ac_simps)
        then show ?thesis using that by blast
      qed
      have raw: "take (length ?start - length rest) ?start @ rest = ?start"
      proof -
        have "rest = drop (min k (length ?start)) ?start" using k by (metis drop_all min.absorb_iff2 min_def nle_le)
        moreover have "length ?start - length rest = min k (length ?start)" using k by simp
        ultimately show ?thesis by (metis append_take_drop_id)
      qed
      have split: "s = take callIdx s @ take (length ?start - length rest) ?start @ rest"
        unfolding raw by simp
      have eq: "parseGemma_loop newID n s
          = \<lparr>tc_ID = newID n, tc_Name = trim_space (take braceIdx ?r), tc_Arguments = gemma_args argsRaw,
              tc_Raw = take (length ?start - length rest) ?start, tc_Error = None\<rparr>
            # parseGemma_loop newID (Suc n) rest"
        by (subst parseGemma_loop.simps) (simp only: c b option.case Let_def p_def [symmetric] p' prod.case)
      show ?thesis unfolding eq list.map tool_call.simps by (rule pieces_of_Cons [OF split IH])
    qed
  qed
qed

lemma parseQwenXML_pieces: "pieces_of s (map tc_Raw (parseQwenXML_loop newID n s))"
proof (induction newID n s rule: parseQwenXML_loop.induct)
  case (1 newID n s)
  show ?case
  proof (cases "index_of s ''<function=''")
    case None
    then show ?thesis by (simp add: parseQwenXML_loop.simps [of _ _ s])
  next
    case f: (Some a)
    show ?thesis
    proof (cases "index_of (drop a s) ''>''")
      case None
      with f show ?thesis by (simp add: parseQwenXML_loop.simps [of _ _ s])
    next
      case e: (Some b)
      show ?thesis
      proof (cases "index_of (drop (a + b + 1) s) ''</function>''")
        case None
        with f e show ?thesis by (simp add: parseQwenXML_loop.simps [of _ _ s])
      next
        case c: (Some k)
        have IH: "pieces_of (drop (k + (a + b + 1) + 11) s)
            (map tc_Raw (parseQwenXML_loop newID (Suc n) (drop (k + (a + b + 1) + 11) s)))"
          using "1.IH" [OF f e refl refl c refl refl] .
        have split: "s = take a s @ slice s a (k + (a + b + 1) + 11) @ drop (k + (a + b + 1) + 11) s"
          by (simp add: slice_def) (metis add.commute append_take_drop_id drop_drop trans_le_add1 le_add1 le_add_diff_inverse2)
        show ?thesis
          by (subst parseQwenXML_loop.simps)
            (simp only: f e c option.case Let_def list.map tool_call.simps pieces_of_Cons [OF split IH])
      qed
    qed
  qed
qed

text \<open>How the text of a call determines its name and its arguments, in each of the three formats.\<close>

definition json_written :: "tool_call \<Rightarrow> bool" where
  "json_written c \<longleftrightarrow> has_prefix (tc_Raw c) ''{'' \<and> json_end (tc_Raw c) = length (tc_Raw c) \<and>
    (\<exists>name. json_call (tc_Raw c) = Some (name, tc_Arguments c) \<and> tc_Name c = trim_prefix name ''.'')"

definition gemma_written :: "string \<Rightarrow> tool_call \<Rightarrow> bool" where
  "gemma_written content c \<longleftrightarrow> (\<exists>name args. CHR ''{'' \<notin> set name \<and> tc_Name c = trim_space name \<and>
    tc_Arguments c = gemma_args args \<and>
    (tc_Raw c = ''call:'' @ name @ ''{'' @ args @ ''}'' \<or>
     tc_Raw c = ''call:'' @ name @ ''{'' @ args \<and> suffix (tc_Raw c) content))"

definition qwen_written :: "tool_call \<Rightarrow> bool" where
  "qwen_written c \<longleftrightarrow> (\<exists>name body. CHR ''>'' \<notin> set name \<and> index_of (body @ ''</function>'') ''</function>'' = Some (length body) \<and>
    tc_Name c = trim_space name \<and> tc_Arguments c = Some (qwen_params [] body) \<and>
    tc_Raw c = ''<function='' @ name @ ''>'' @ body @ ''</function>'')"

lemma index_of_split:
  assumes "index_of s p = Some k"
  shows "s = take k s @ p @ drop (k + length p) s"
  using index_of_take [OF assms] by (metis append_take_drop_id drop_drop add.commute)

lemma index_of_byte_at: "index_of s [c] = Some k \<Longrightarrow> k < length s \<and> s ! k = c"
  using index_of_bound [of s "[c]" k] index_of_take [of s "[c]" k]
  by (auto simp: take_Suc hd_drop_conv_nth split: if_splits)

lemma index_of_byte_new: "index_of s [c] = Some k \<Longrightarrow> c \<notin> set (take k s)"
proof (induction s arbitrary: k)
  case (Cons x xs)
  then show ?case by (cases k) (auto split: if_splits)
qed simp

lemma index_of_short:
  "index_of s p = Some k \<Longrightarrow> index_of (take (k + length p) s) p = Some k"
proof (induction s arbitrary: k)
  case Nil
  then show ?case by (simp split: if_splits)
next
  case (Cons x xs)
  show ?case
  proof (cases "has_prefix (x # xs) p")
    case True
    then have "k = 0" using Cons.prems by simp
    then show ?thesis using has_prefix_take [OF True] by (cases p) (auto simp: has_prefix_eq_prefix)
  next
    case False
    then obtain j where j: "k = Suc j" "index_of xs p = Some j" using Cons.prems by auto
    have "\<not> has_prefix (x # take (j + length p) xs) p"
      using False by (metis has_prefix_eq_prefix prefix_order.trans take_is_prefix take_Suc_Cons)
    with Cons.IH [OF j(2)] show ?thesis using False by (simp add: j(1))
  qed
qed

lemma json_end_take: "s \<noteq> [] \<Longrightarrow> has_prefix s ''{'' \<Longrightarrow> json_end (take (json_end s) s) = length (take (json_end s) s)"
proof -
  assume s: "s \<noteq> []" "has_prefix s ''{''"
  show ?thesis
  proof (cases "findJSONObjectEnd s")
    case None
    then show ?thesis by (simp add: json_end_def)
  next
    case (Some k)
    then have k: "0 < k" "k \<le> length s" using findJSONObjectEnd_bound by blast+
    have loop: "objectEnd_loop 0 False False 0 (take k s @ drop k s) = Some k"
      using Some s by (simp add: findJSONObjectEnd_def)
    have "objectEnd_loop 0 False False 0 (take k s @ []) = Some k"
      by (rule objectEnd_loop_prefix [OF loop]) (use k in simp)
    moreover have "has_prefix (take k s) ''{''" using s k by (cases s; cases k) auto
    ultimately show ?thesis using Some k by (simp add: json_end_def findJSONObjectEnd_def)
  qed
qed

lemma parseJSONToolCall_written: "c \<in> set (parseJSONToolCall_loop newID n s) \<Longrightarrow> json_written c"
proof (induction newID n s rule: parseJSONToolCall_loop.induct)
  case (1 newID n s)
  show ?case
  proof (cases "next_object s")
    case None
    then show ?thesis using "1.prems" by (simp add: parseJSONToolCall_loop.simps [of _ _ s])
  next
    case (Some r)
    have r: "has_prefix r ''{''" "r \<noteq> []" using next_object_shorter [OF Some] by auto
    let ?call = "take (json_end r) r"
    have "0 < json_end r" using json_end_pos [OF r(2)] by simp
    then have call: "has_prefix ?call ''{''" using r by (cases r; cases "json_end r") auto
    show ?thesis
    proof (cases "json_call ?call")
      case None
      then show ?thesis
        using "1.IH"(1) [OF Some refl refl refl None] "1.prems" Some
        by (simp add: parseJSONToolCall_loop.simps [of _ _ s] Let_def)
    next
      case c: (Some p)
      obtain name args where p: "p = (name, args)" by (cases p)
      from "1.prems" Some c p consider "c \<in> set (parseJSONToolCall_loop newID (Suc n) (drop (json_end r) r))"
        | "c = \<lparr>tc_ID = newID n, tc_Name = trim_prefix name ''.'', tc_Arguments = args, tc_Raw = ?call, tc_Error = None\<rparr>"
        by (subst (asm) parseJSONToolCall_loop.simps) (auto simp: Let_def)
      then show ?thesis
      proof cases
        case 1
        then show ?thesis using "1.IH"(2) [OF Some refl refl refl c p [symmetric]] by blast
      next
        case 2
        then show ?thesis using c p call json_end_take [OF r(2,1)] by (simp add: json_written_def)
      qed
    qed
  qed
qed

lemma gemmaBraceEnd_loop_at:
  "gemmaBraceEnd_loop q d i s = Some e \<Longrightarrow> \<exists>k. e = i + k \<and> k < length s \<and> s ! k = CHR ''}''"
proof (induction q d i s rule: gemmaBraceEnd_loop.induct)
  case (2 q d i c cs)
  have step: "\<exists>k. e = i + k \<and> k < length (c # cs) \<and> (c # cs) ! k = CHR ''}''"
    if "\<exists>k. e = i + n + k \<and> k < length (drop n (c # cs)) \<and> drop n (c # cs) ! k = CHR ''}''" for n
  proof -
    from that obtain k where "e = i + (n + k)" "n + k < length (c # cs)" "(c # cs) ! (n + k) = CHR ''}''"
      by (auto simp: nth_drop add.assoc)
    then show ?thesis by blast
  qed
  note IH = 2(1) [OF _ refl] 2(2) [OF _ _ refl] 2(3-5)
  show ?case
  proof (cases "has_prefix (c # cs) gemmaToken")
    case True
    then show ?thesis using 2(6) IH(1) by (intro step) (auto simp: Let_def)
  next
    case token: False
    show ?thesis
    proof (cases "q \<and> c = dq")
      case True
      then show ?thesis using 2(6) token IH(2) by (intro step [of "Suc (quote_skip cs)"]) (auto simp: Let_def)
    next
      case quoted: False
      show ?thesis
      proof (cases "c = CHR ''}'' \<and> d - 1 = 0")
        case True
        then show ?thesis using 2(6) token quoted by (intro exI [of _ 0]) (auto split: if_splits)
      next
        case False
        have "\<exists>k. e = Suc i + k \<and> k < length cs \<and> cs ! k = CHR ''}''"
        proof (cases "c = CHR ''{''")
          case True
          then show ?thesis using 2(6) token quoted IH(3) by auto
        next
          case open': False
          show ?thesis
          proof (cases "c = CHR ''}''")
            case True
            then show ?thesis using 2(6) token quoted False IH(4) by auto
          next
            case close: False
            then show ?thesis using 2(6) token quoted open' IH(5) by auto
          qed
        qed
        then show ?thesis by (intro step [of 1]) simp
      qed
    qed
  qed
qed simp

lemma findGemmaBraceEnd_split:
  assumes "findGemmaBraceEnd s = Some e"
  shows "s = ''{'' @ slice s 1 e @ ''}'' @ drop (e + 1) s"
proof -
  obtain rest where s: "s = CHR ''{'' # rest"
    using assms by (cases s) (auto simp: findGemmaBraceEnd_def split: if_splits)
  have e: "e < length s" "s ! e = CHR ''}''"
    using assms gemmaBraceEnd_loop_at [of _ 0 0 s e] by (auto simp: findGemmaBraceEnd_def split: if_splits)
  then obtain k where k: "e = Suc k" using s by (cases e) auto
  then have "rest = take k rest @ CHR ''}'' # drop (Suc k) rest"
    using e s id_take_nth_drop [of k rest] by simp
  then show ?thesis using s k by (simp add: slice_def)
qed

lemma take_front: "s = x @ r \<Longrightarrow> take (length s - length r) s = x"
  by simp

lemma gemma_written_suffix: "gemma_written rest c \<Longrightarrow> suffix rest s \<Longrightarrow> gemma_written s c"
  unfolding gemma_written_def by (meson suffix_order.trans)

lemma parseGemma_written: "c \<in> set (parseGemma_loop newID n s) \<Longrightarrow> gemma_written s c"
proof (induction newID n s rule: parseGemma_loop.induct)
  case (1 newID n s)
  show ?case
  proof (cases "index_of s ''call:''")
    case None
    then show ?thesis using "1.prems" by (simp add: parseGemma_loop.simps [of _ _ s])
  next
    case i: (Some callIdx)
    let ?start = "drop callIdx s" and ?r = "drop (callIdx + 5) s"
    show ?thesis
    proof (cases "index_of ?r ''{''")
      case None
      with i show ?thesis using "1.prems" by (simp add: parseGemma_loop.simps [of _ _ s])
    next
      case b: (Some braceIdx)
      let ?b = "drop braceIdx ?r" and ?name = "take braceIdx ?r"
      define p where "p = (case findGemmaBraceEnd ?b of None \<Rightarrow> (drop 1 ?b, [])
          | Some braceEnd \<Rightarrow> (slice ?b 1 braceEnd, drop (braceEnd + 1) ?b))"
      obtain argsRaw rest where p': "p = (argsRaw, rest)" by (cases p)
      have start: "?start = ''call:'' @ ?name @ ?b"
        using index_of_take [OF i] by (metis append_take_drop_id drop_drop add.commute length_Cons list.size(3) numeral_nat)
      have body: "?b = ''{'' @ drop 1 ?b"
        using index_of_take [OF b] by (metis append_take_drop_id One_nat_def length_Cons list.size(3))
      have pieces: "?start = ''call:'' @ ?name @ ''{'' @ argsRaw @ ''}'' @ rest \<or>
          rest = [] \<and> ?start = ''call:'' @ ?name @ ''{'' @ argsRaw"
      proof (cases "findGemmaBraceEnd ?b")
        case None
        then show ?thesis using p_def p' start body by simp
      next
        case (Some e)
        have "?b = ''{'' @ slice ?b 1 e @ ''}'' @ drop (e + 1) ?b" by (rule findGemmaBraceEnd_split [OF Some])
        then show ?thesis using p_def p' Some start by simp
      qed
      have name: "CHR ''{'' \<notin> set ?name" by (rule index_of_byte_new [OF b])
      have raw: "take (length ?start - length rest) ?start = ''call:'' @ ?name @ ''{'' @ argsRaw @ ''}'' \<or>
          take (length ?start - length rest) ?start = ''call:'' @ ?name @ ''{'' @ argsRaw \<and>
          suffix (take (length ?start - length rest) ?start) s"
        using pieces
      proof
        assume "?start = ''call:'' @ ?name @ ''{'' @ argsRaw @ ''}'' @ rest"
        then have eq: "?start = (''call:'' @ ?name @ ''{'' @ argsRaw @ ''}'') @ rest" by simp
        from take_front [OF this] show ?thesis by (rule disjI1)
      next
        assume unclosed: "rest = [] \<and> ?start = ''call:'' @ ?name @ ''{'' @ argsRaw"
        then have "take (length ?start - length rest) ?start = ?start" by (simp only: list.size diff_zero take_all order_refl)
        then show ?thesis using unclosed suffix_drop [of callIdx s] by metis
      qed
      from "1.prems" consider "c \<in> set (parseGemma_loop newID (Suc n) rest)"
        | "c = \<lparr>tc_ID = newID n, tc_Name = trim_space ?name, tc_Arguments = gemma_args argsRaw,
              tc_Raw = take (length ?start - length rest) ?start, tc_Error = None\<rparr>"
        by (subst (asm) parseGemma_loop.simps) (auto simp only: i b option.case Let_def p_def [symmetric] p' prod.case list.set insert_iff)
      then show ?thesis
      proof cases
        case 1
        have "suffix rest s"
          using pieces
        proof
          assume "?start = ''call:'' @ ?name @ ''{'' @ argsRaw @ ''}'' @ rest"
          then have "?start = (''call:'' @ ?name @ ''{'' @ argsRaw @ ''}'') @ rest" by simp
          from suffixI [OF this] show ?thesis by (rule suffix_order.trans [OF _ suffix_drop])
        qed simp
        then show ?thesis
          using "1.IH" [OF i refl refl b refl refl p_def p' [symmetric] 1] gemma_written_suffix by blast
      next
        case 2
        show ?thesis
          unfolding gemma_written_def using name raw
          by (intro exI [where x = ?name] exI [where x = argsRaw]) (simp add: 2)
      qed
    qed
  qed
qed

lemma parseQwenXML_written: "c \<in> set (parseQwenXML_loop newID n s) \<Longrightarrow> qwen_written c"
proof (induction newID n s rule: parseQwenXML_loop.induct)
  case (1 newID n s)
  show ?case
  proof (cases "index_of s ''<function=''")
    case None
    then show ?thesis using "1.prems" by (simp add: parseQwenXML_loop.simps [of _ _ s])
  next
    case f: (Some a)
    show ?thesis
    proof (cases "index_of (drop a s) ''>''")
      case None
      with f show ?thesis using "1.prems" by (simp add: parseQwenXML_loop.simps [of _ _ s])
    next
      case e: (Some b)
      show ?thesis
      proof (cases "index_of (drop (a + b + 1) s) ''</function>''")
        case None
        with f e show ?thesis using "1.prems" by (simp add: parseQwenXML_loop.simps [of _ _ s])
      next
        case k: (Some k)
        let ?s = "drop a s" and ?body = "slice s (a + b + 1) (k + (a + b + 1))"
        let ?name = "slice s (a + 10) (a + b)" and ?raw = "slice s a (k + (a + b + 1) + 11)"
        have open': "take 10 ?s = ''<function=''" using index_of_take [OF f] by (simp add: eval_nat_numeral)
        have b: "10 \<le> b" "b < length ?s" "?s ! b = CHR ''>''" "CHR ''>'' \<notin> set (take b ?s)"
        proof -
          show b': "b < length ?s" "?s ! b = CHR ''>''" using index_of_byte_at [OF e] by simp_all
          show "CHR ''>'' \<notin> set (take b ?s)" by (rule index_of_byte_new [OF e])
          show "10 \<le> b"
          proof (rule ccontr)
            assume "\<not> 10 \<le> b"
            then have "CHR ''>'' \<in> set (take 10 ?s)" using b' by (metis in_set_conv_nth length_take min_less_iff_conj not_le nth_take)
            then show False by (simp add: open')
          qed
        qed
        have name: "take b ?s = ''<function='' @ ?name" "CHR ''>'' \<notin> set ?name"
        proof -
          have "?name = drop 10 (take b ?s)" by (simp add: slice_def drop_take add.commute)
          moreover have "take 10 ?s = take 10 (take b ?s)" using b(1) by (simp add: min_absorb1)
          ultimately have "take b ?s = take 10 ?s @ ?name" by (simp only: append_take_drop_id)
          then show "take b ?s = ''<function='' @ ?name" by (simp add: open')
          then show "CHR ''>'' \<notin> set ?name" using b(4) by simp
        qed
        have body: "take (k + 11) (drop (a + b + 1) s) = ?body @ ''</function>''"
        proof -
          have "take 11 (drop k (drop (a + b + 1) s)) = ''</function>''"
            using index_of_take [OF k] by (simp add: eval_nat_numeral)
          then show ?thesis unfolding take_add by (simp add: slice_def)
        qed
        have raw: "?raw = ''<function='' @ ?name @ ''>'' @ ?body @ ''</function>''"
        proof -
          have tail: "drop (b + 1) ?s = drop (a + b + 1) s" by (simp add: ac_simps)
          have "k + (a + b + 1) + 11 - a = b + 1 + (k + 11)" by linarith
          then have "?raw = take (b + 1 + (k + 11)) ?s" by (simp only: slice_def)
          also have "\<dots> = take (b + 1) ?s @ take (k + 11) (drop (a + b + 1) s)"
            by (simp only: take_add [of "b + 1" "k + 11" ?s] tail)
          also have "take (b + 1) ?s = take b ?s @ ''>''" using b(2,3) by (simp add: take_Suc_conv_app_nth)
          finally show ?thesis using name(1) body by simp
        qed
        have eleven: "length ''</function>'' = 11" by simp
        have "index_of (?body @ ''</function>'') ''</function>'' = Some k"
          by (rule index_of_short [OF k, unfolded eleven body])
        moreover have "length ?body = k" using index_of_bound [OF k] by (simp add: slice_def)
        ultimately have ends: "index_of (?body @ ''</function>'') ''</function>'' = Some (length ?body)" by simp
        from "1.prems" consider "c \<in> set (parseQwenXML_loop newID (Suc n) (drop (k + (a + b + 1) + 11) s))"
          | "c = \<lparr>tc_ID = newID n, tc_Name = trim_space ?name, tc_Arguments = Some (qwen_params [] ?body),
              tc_Raw = ?raw, tc_Error = None\<rparr>"
          by (subst (asm) parseQwenXML_loop.simps) (auto simp only: f e k option.case Let_def list.set insert_iff)
        then show ?thesis
        proof cases
          case 1
          then show ?thesis using "1.IH" [OF f e refl refl k refl refl] by blast
        next
          case 2
          show ?thesis
            unfolding qwen_written_def using name(2) ends raw
            by (intro exI [where x = ?name] exI [where x = ?body]) (simp add: 2)
        qed
      qed
    qed
  qed
qed

text \<open>
  C17. No invented calls: in the Gemma, Qwen and JSON formats the \<open>Raw\<close> texts of the calls that
  are reported are disjoint pieces of the content, in the order of the calls, and the name and the
  arguments of a call are those that its own \<open>Raw\<close> text spells: in the JSON format \<open>Raw\<close> is one whole object
  that decodes to them, in the Gemma format it is \<open>call:NAME{ARGS}\<close> (without the brace only at the end of
  the content), in the Qwen format the element \<open>function\<close> with its parameters. (The calls of the GPT format
  are put together by \<open>parseGPTToolCall\<close>; their \<open>Raw\<close> is not a piece of the content.)
\<close>

theorem reported_calls_are_pieces:
  "(pieces_of content (map tc_Raw (parseGemma newID content)) \<and>
    list_all (gemma_written content) (parseGemma newID content)) \<and>
   (pieces_of content (map tc_Raw (parseQwenXML newID content)) \<and>
    list_all qwen_written (parseQwenXML newID content)) \<and>
   (pieces_of content (map tc_Raw (parseJSONToolCall newID content)) \<and>
    list_all json_written (parseJSONToolCall newID content))"
  by (auto simp: parseGemma_def parseQwenXML_def parseJSONToolCall_def parseGemma_pieces list_all_iff
      parseQwenXML_pieces parseJSONToolCall_pieces intro: parseGemma_written parseQwenXML_written parseJSONToolCall_written)

section \<open>Well-formed calls come back as written\<close>

text \<open>A tool call as JSON text: \<open>t\<close> carries the name \<open>nm\<close> and the arguments \<open>a\<close>.\<close>

definition json_tool_call :: "string \<Rightarrow> string \<times> (string \<times> json) list \<Rightarrow> bool" where
  "json_tool_call t c \<longleftrightarrow> object_text t \<and> fst c \<noteq> [] \<and> nums_ok (JObj (snd c)) \<and>
     json_parse t = Some (JObj [(''name'', JStr (fst c)), (''arguments'', JObj (snd c))])"

definition args_of :: "(string \<times> json) list \<Rightarrow> go_map" where
  "args_of a = collect_members (map (map_prod id decode_any) a)"

lemma Repair_valid: "json_valid s \<Longrightarrow> Repair s = (s, None)"
  by (rule Repair_cases [of s]) auto

lemma fold_names: "fold_name ''name'' = ''name''" "fold_name ''arguments'' = ''arguments''"
  by (simp_all add: byte_simps)

lemma json_call_tool_call:
  assumes "json_tool_call t c"
  shows "json_call t = Some (fst c, Some (args_of (snd c)))"
proof -
  have "json_valid t" using assms by (simp add: json_tool_call_def object_text_def)
  then have "Unmarshal decode_fn t = Inr (fst c, decode_any (JObj (snd c)))"
    using assms unfolding json_tool_call_def
    by (simp add: Unmarshal_def Repair_valid decode_fn_def fold_names del: fold_name.simps nums_ok.simps)
  then show ?thesis using assms by (simp add: json_call_def json_tool_call_def args_of_def)
qed

lemma next_object_self: "has_prefix s ''{'' \<Longrightarrow> next_object s = Some s"
  by (cases s) (auto simp: next_object_def trim_left_set_def)

lemma next_object_nl: "next_object (nl # s) = next_object s"
  by (simp add: next_object_def trim_left_set_def)

lemma parseJSON_nl: "parseJSONToolCall_loop newID n (nl # s) = parseJSONToolCall_loop newID n s"
  by (simp add: parseJSONToolCall_loop.simps [of _ _ "nl # s"] parseJSONToolCall_loop.simps [of _ _ s]
      next_object_nl)

lemma has_prefix_append: "has_prefix s p \<Longrightarrow> has_prefix (s @ r) p"
  by (induction s p rule: has_prefix.induct) auto

lemma parseJSON_Cons:
  assumes "json_tool_call t c"
  shows "parseJSONToolCall_loop newID n (t @ nl # r) =
    \<lparr>tc_ID = newID n, tc_Name = trim_prefix (fst c) ''.'', tc_Arguments = Some (args_of (snd c)),
     tc_Raw = t, tc_Error = None\<rparr> # parseJSONToolCall_loop newID (Suc n) r"
proof -
  have t: "object_text t" using assms by (simp add: json_tool_call_def)
  then have "next_object (t @ nl # r) = Some (t @ nl # r)"
    by (intro next_object_self has_prefix_append) (simp add: object_text_def)
  then show ?thesis
    by (subst parseJSONToolCall_loop.simps)
      (simp add: json_end_object [OF t] json_call_tool_call [OF assms] parseJSON_nl)
qed

lemma parseJSON_loop_calls:
  "list_all2 json_tool_call ts cs \<Longrightarrow>
     parseJSONToolCall_loop newID n (concat (map (\<lambda>t. t @ [nl]) ts)) =
       map (\<lambda>(i, t, c). \<lparr>tc_ID = newID i, tc_Name = trim_prefix (fst c) ''.'',
              tc_Arguments = Some (args_of (snd c)), tc_Raw = t, tc_Error = None\<rparr>)
         (zip [n..<n + length ts] (zip ts cs))"
proof (induction ts cs arbitrary: n rule: list_all2_induct)
  case Nil
  have "next_object [] = None" by (simp add: next_object_def trim_left_set_def)
  then show ?case by (simp add: parseJSONToolCall_loop.simps)
next
  case (Cons t ts c cs)
  then show ?case by (simp add: parseJSON_Cons upt_conv_Cons del: upt_Suc)
qed

text \<open>
  C5. Round trip of the JSON format: from any number of valid call objects, one after the
  other on lines, \<open>parseJSONToolCall\<close> extracts exactly these calls, in order, each with its
  name (less a leading dot), its decoded arguments, its own text and a fresh identifier.
\<close>

theorem parseJSONToolCall_roundtrip:
  assumes "list_all2 json_tool_call ts cs"
  shows "parseJSONToolCall newID (concat (map (\<lambda>t. t @ [nl]) ts)) =
    map (\<lambda>(i, t, c). \<lparr>tc_ID = newID i, tc_Name = trim_prefix (fst c) ''.'',
           tc_Arguments = Some (args_of (snd c)), tc_Raw = t, tc_Error = None\<rparr>)
      (zip [0..<length ts] (zip ts cs))"
  using parseJSON_loop_calls [OF assms, of newID 0] by (simp add: parseJSONToolCall_def)

definition sample_call :: string where
  "sample_call = gpt_json ''ls'' (''{'' @ [dq, CHR ''p'', dq] @ '':'' @ [dq, CHR ''}'', dq] @ ''}'')"

lemma sample_call_ok: "json_tool_call sample_call (''ls'', [(''p'', JStr ''}'')])"
  by (simp add: json_tool_call_def object_text_def sample_call_def gpt_json_def json_eval)

theorem parseJSONToolCall_roundtrip_witness:
  "map tc_Name (parseJSONToolCall (\<lambda>n. replicate n (CHR ''x'')) (concat (map (\<lambda>t. t @ [nl]) [sample_call, sample_call])))
     = [''ls'', ''ls'']"
  using parseJSONToolCall_roundtrip [of "[sample_call, sample_call]"
      "[(''ls'', [(''p'', JStr ''}'')]), (''ls'', [(''p'', JStr ''}'')])]" "\<lambda>n. replicate n (CHR ''x'')"]
  by (simp add: sample_call_ok trim_prefix_def upt_conv_Cons)

text \<open>One call in the Gemma format: a name, and an object whose inside has no white space around it.\<close>

definition gemma_call :: "string \<Rightarrow> string \<Rightarrow> (string \<times> json) list \<Rightarrow> bool" where
  "gemma_call nm t a \<longleftrightarrow> CHR ''{'' \<notin> set nm \<and> trim_space nm = nm \<and> object_text t \<and>
     json_parse t = Some (JObj a) \<and> nums_ok (JObj a) \<and>
     trim_space (slice t 1 (length t - 1)) = slice t 1 (length t - 1)"

lemma object_text_inner:
  assumes "object_text t"
  shows "t = ''{'' @ slice t 1 (length t - 1) @ ''}''" "\<not> has_prefix (slice t 1 (length t - 1)) ''{''"
proof -
  obtain s v where t: "t = CHR ''{'' # s" "s \<noteq> []" "last s = CHR ''}''"
    and run: "jrun (BeginStringOrEmpty, [FKey []]) (s @ '' '') = Some (EndVal v, [])"
    using object_text_parts [OF assms] .
  have s: "slice t 1 (length t - 1) = butlast s" by (simp add: slice_def t(1) butlast_conv_take)
  show "t = ''{'' @ slice t 1 (length t - 1) @ ''}''"
    unfolding s using t append_butlast_last_id [OF t(2)] by simp
  show "\<not> has_prefix (slice t 1 (length t - 1)) ''{''"
  proof
    assume "has_prefix (slice t 1 (length t - 1)) ''{''"
    then obtain s' where "s = CHR ''{'' # s'" unfolding s by (cases s) (auto split: if_split_asm)
    with run show False by simp
  qed
qed

lemma gemma_args_object:
  assumes "gemma_call nm t a"
  shows "gemma_args (slice t 1 (length t - 1)) = Some (args_of a)"
proof -
  have t: "object_text t" "json_parse t = Some (JObj a)" "nums_ok (JObj a)"
    and trim: "trim_space (slice t 1 (length t - 1)) = slice t 1 (length t - 1)"
    using assms by (simp_all add: gemma_call_def)
  let ?inner = "slice t 1 (length t - 1)"
  note inner = object_text_inner [OF t(1)]
  have um: "unmarshal_map t = Some (Some (args_of a))"
    using t(2,3) by (simp add: unmarshal_map_def decode_map_def args_of_def)
  show ?thesis
  proof (cases "?inner = []")
    case True
    then have "t = ''{}''" using inner(1) by simp
    with t(2) have "a = []" by (simp add: json_eval)
    moreover have "unmarshal_map [] = None"
      by (simp add: unmarshal_map_def json_parse_def begin_value_def)
    ultimately show ?thesis unfolding True
      by (simp add: gemma_args_def parseGemmaArgs_def parseGemmaArgs_loop.simps args_of_def
          collect_members_def)
  next
    case False
    then have "gemma_args ?inner = (case unmarshal_map (''{'' @ ?inner @ ''}'') of Some args \<Rightarrow> args
        | None \<Rightarrow> Some (parseGemmaArgs ?inner))"
      using inner(2) trim by (simp add: gemma_args_def split: option.split)
    then show ?thesis unfolding inner(1) [symmetric] um by simp
  qed
qed

lemma index_of_first: "c \<notin> set a \<Longrightarrow> index_of (a @ c # r) [c] = Some (length a)"
  by (induction a) auto

lemma findGemmaBraceEnd_object:
  assumes "object_text t" "\<not> contains_str (t @ r) gemmaToken"
  shows "findGemmaBraceEnd (t @ r) = Some (length t - 1)"
proof -
  have p: "has_prefix (t @ r) ''{''" using assms(1) by (simp add: object_text_def has_prefix_append)
  then have "findGemmaBraceEnd (t @ r) = map_option (\<lambda>k. k - 1) (findJSONObjectEnd (t @ r))"
    using assms(2) by (simp add: findGemmaBraceEnd_def findJSONObjectEnd_def gemmaBraceEnd_loop_eq)
  then show ?thesis by (simp add: findJSONObjectEnd_object [OF assms(1)])
qed

lemma parseGemma_Cons:
  assumes c: "gemma_call nm t a" and no: "\<not> contains_str (''call:'' @ nm @ t @ r) gemmaToken"
  shows "parseGemma_loop newID n (''call:'' @ nm @ t @ r) =
    \<lparr>tc_ID = newID n, tc_Name = nm, tc_Arguments = Some (args_of a),
     tc_Raw = ''call:'' @ nm @ t, tc_Error = None\<rparr> # parseGemma_loop newID (Suc n) r"
proof -
  have t: "object_text t" and nm: "CHR ''{'' \<notin> set nm" "trim_space nm = nm"
    using c by (simp_all add: gemma_call_def)
  obtain t' where t': "t = CHR ''{'' # t'" using t by (cases t) (auto simp: object_text_def)
  let ?s = "''call:'' @ nm @ t @ r"
  have start: "index_of ?s ''call:'' = Some 0" by simp
  have brace: "index_of (drop (0 + 5) ?s) ''{'' = Some (length nm)"
    using index_of_first [OF nm(1), of "t' @ r"] t' by simp
  have b: "drop (length nm) (drop (0 + 5) ?s) = t @ r" by simp
  have "drop (length (''call:'' @ nm)) ?s = t @ r" by simp
  with contains_str_drop [OF no] have "\<not> contains_str (t @ r) gemmaToken" by metis
  from findGemmaBraceEnd_object [OF t this]
  have e: "findGemmaBraceEnd (t @ r) = Some (length t - 1)" .
  have len: "0 < length t" "Suc (length t - 1) = length t"
    "Suc (length t - Suc 0) = length t" using t' by simp_all
  have "slice (t @ r) 1 (length t - 1) = slice t 1 (length t - 1)"
    using len by (simp add: slice_def t')
  note args = gemma_args_object [OF c, folded this]
  show ?thesis
    by (subst parseGemma_loop.simps)
      (simp only: start brace option.case Let_def b e args prod.case nm drop_0 take_append
        append_take_drop_id, simp add: len nm args)
qed

definition gemma_text :: "string \<times> string \<times> (string \<times> json) list \<Rightarrow> string" where
  "gemma_text c = ''call:'' @ fst c @ fst (snd c)"

lemma parseGemma_loop_calls:
  "list_all (\<lambda>(nm, t, a). gemma_call nm t a) cs \<Longrightarrow>
   \<not> contains_str (concat (map gemma_text cs)) gemmaToken \<Longrightarrow>
     parseGemma_loop newID n (concat (map gemma_text cs)) =
       map (\<lambda>(i, nm, t, a). \<lparr>tc_ID = newID i, tc_Name = nm, tc_Arguments = Some (args_of a),
              tc_Raw = ''call:'' @ nm @ t, tc_Error = None\<rparr>) (zip [n..<n + length cs] cs)"
proof (induction cs arbitrary: n)
  case Nil
  show ?case by (simp add: parseGemma_loop.simps)
next
  case (Cons c cs)
  obtain nm t a where c: "c = (nm, t, a)" by (cases c)
  let ?r = "concat (map gemma_text cs)"
  have whole: "concat (map gemma_text (c # cs)) = ''call:'' @ nm @ t @ ?r"
    by (simp add: c gemma_text_def)
  have "drop (length (''call:'' @ nm @ t)) (''call:'' @ nm @ t @ ?r) = ?r" by simp
  then have no: "\<not> contains_str ?r gemmaToken"
    using contains_str_drop [OF Cons.prems(2), of "length (''call:'' @ nm @ t)"] unfolding whole by metis
  have "gemma_call nm t a" and rest: "list_all (\<lambda>(nm, t, a). gemma_call nm t a) cs"
    using Cons.prems(1) by (simp_all add: c)
  note step = parseGemma_Cons [OF this(1) Cons.prems(2) [unfolded whole]]
  show ?case unfolding whole step Cons.IH [OF rest no]
    by (simp add: c upt_conv_Cons del: upt_Suc)
qed

text \<open>
  C10. Round trip of the Gemma format: \<open>call:\<close>, a name and a valid JSON object, any number of
  times in a row, come back as these calls in order with their names, decoded arguments and own
  texts (in text without Gemma's quote token, with names that have no brace).
\<close>

theorem parseGemma_roundtrip:
  assumes "list_all (\<lambda>(nm, t, a). gemma_call nm t a) cs"
    and "\<not> contains_str (concat (map gemma_text cs)) gemmaToken"
  shows "parseGemma newID (concat (map gemma_text cs)) =
    map (\<lambda>(i, nm, t, a). \<lparr>tc_ID = newID i, tc_Name = nm, tc_Arguments = Some (args_of a),
           tc_Raw = ''call:'' @ nm @ t, tc_Error = None\<rparr>) (zip [0..<length cs] cs)"
  using parseGemma_loop_calls [OF assms, of newID 0] by (simp add: parseGemma_def)

definition sample_args :: string where
  "sample_args = ''{'' @ [dq, CHR ''p'', dq] @ '':'' @ [dq, CHR ''}'', dq] @ ''}''"

lemma sample_gemma: "gemma_call ''ls'' sample_args [(''p'', JStr ''}'')]"
  by (simp add: gemma_call_def object_text_def sample_args_def json_eval slice_def trim_space_def
      trim_left_space.simps trim_right_space_rev.simps ascii_space_def byte_between_def)

theorem parseGemma_roundtrip_witness:
  "map tc_Name (parseGemma (\<lambda>n. replicate n (CHR ''x''))
      (concat (map gemma_text (replicate 2 (''ls'', sample_args, [(''p'', JStr ''}'')])))))
    = [''ls'', ''ls'']"
proof -
  let ?cs = "replicate 2 (''ls'', sample_args, [(''p'', JStr ''}'')])"
  have "list_all (\<lambda>(nm, t, a). gemma_call nm t a) ?cs" by (simp add: sample_gemma numeral_2_eq_2)
  moreover have "\<not> contains_str (concat (map gemma_text ?cs)) gemmaToken"
    by (simp add: gemma_text_def sample_args_def contains_str_def gemmaToken_def numeral_2_eq_2)
  ultimately show ?thesis
    by (subst parseGemma_roundtrip) (simp_all add: numeral_2_eq_2 upt_conv_Cons)
qed

text \<open>
  \<open>findJSONObjectEnd\<close> skips to the first brace and then returns an index into the skipped
  text, which its callers apply to the whole: with one blank between \<open><|message|>\<close> and the
  object \<open>parseGPTToolCall\<close> cuts the last brace of the arguments off.
\<close>

lemma findJSONObjectEnd_offset:
  assumes "object_text t"
  shows "findJSONObjectEnd (CHR '' '' # t) = Some (length t)
    \<and> take (json_end (CHR '' '' # t)) (CHR '' '' # t) = CHR '' '' # butlast t"
proof -
  obtain t' where t': "t = CHR ''{'' # t'" using assms by (cases t) (auto simp: object_text_def)
  have idx: "index_of (CHR '' '' # t) ''{'' = Some 1" by (simp add: t')
  have "findJSONObjectEnd t = Some (length t)"
    using findJSONObjectEnd_object [OF assms, of "[]"] by simp
  then have "findJSONObjectEnd (CHR '' '' # t) = Some (length t)"
    using idx by (simp add: findJSONObjectEnd_def t')
  then show ?thesis by (simp add: json_end_def t' butlast_conv_take)
qed

theorem findJSONObjectEnd_offset_witness:
  "take (json_end (CHR '' '' # sample_object)) (CHR '' '' # sample_object)
     = CHR '' '' # butlast sample_object"
  using findJSONObjectEnd_offset [OF sample_object_ok] by blast

end
