(* ===== verification/GoLib.thy ===== *)
theory GoLib
  imports Prelude "HOL-Library.Product_Lexorder" "HOL-Library.Multiset"
begin

text \<open>
  What the control plane uses of the Go standard library beyond \<^verbatim>\<open>Prelude\<close>: letter case and
  quoting of strings, sorting with a comparison function, and a few idioms of the code base.
  Case mapping and printability of characters outside of ASCII come from the Unicode tables of
  Go, which are not part of the repository: they are the fields of a record that the
  definitions take as an argument.
\<close>

section \<open>Letter case and quoting\<close>

record unicode =
  uc_lower :: "string \<Rightarrow> string" \<comment> \<open>\<open>strings.ToLower\<close> on a string that is not ASCII\<close>
  uc_quote :: "string \<Rightarrow> string" \<comment> \<open>\<open>strconv.Quote\<close> on a string that is not ASCII\<close>
  uc_equal_fold :: "string \<Rightarrow> string \<Rightarrow> bool" \<comment> \<open>\<open>strings.EqualFold\<close> unless both are ASCII\<close>

definition is_ascii :: "string \<Rightarrow> bool" where
  "is_ascii s \<longleftrightarrow> list_all (\<lambda>c. byte c < 0x80) s"

definition lower_char :: "char \<Rightarrow> char" where
  "lower_char c = (if is_upper c then char_of (byte c + 32) else c)"

definition upper_char :: "char \<Rightarrow> char" where
  "upper_char c = (if is_lower c then char_of (byte c - 32) else c)"

text \<open>\<open>strings.ToLower\<close>\<close>

definition to_lower :: "unicode \<Rightarrow> string \<Rightarrow> string" where
  "to_lower u s = (if is_ascii s then map lower_char s else uc_lower u s)"

text \<open>
  \<open>strings.ToUpper(s[:1])\<close>: a first byte that is not ASCII is an incomplete character, which
  the case mapping replaces by U+FFFD.
\<close>

definition upper_first :: "char \<Rightarrow> string" where
  "upper_first c = (if byte c < 0x80 then [upper_char c] else [CHR 0xEF, CHR 0xBF, CHR 0xBD])"

text \<open>\<open>strings.EqualFold\<close>\<close>

definition equal_fold :: "unicode \<Rightarrow> string \<Rightarrow> string \<Rightarrow> bool" where
  "equal_fold u s t =
    (if is_ascii s \<and> is_ascii t then map lower_char s = map lower_char t else uc_equal_fold u s t)"

definition hex_char :: "nat \<Rightarrow> char" where
  "hex_char n = (if n < 10 then char_of (48 + n) else char_of (87 + n))"

text \<open>\<open>fmt.Sprintf("%q", s)\<close>\<close>

definition quote_char :: "char \<Rightarrow> string" where
  "quote_char c =
    (if c = dq \<or> c = bsl then [bsl, c]
     else if byte c = 7 then [bsl, CHR ''a''] else if byte c = 8 then [bsl, CHR ''b'']
     else if byte c = 12 then [bsl, CHR ''f''] else if c = nl then [bsl, CHR ''n'']
     else if c = cr then [bsl, CHR ''r''] else if c = tab then [bsl, CHR ''t'']
     else if byte c = 11 then [bsl, CHR ''v'']
     else if byte c < 32 \<or> byte c = 127
     then [bsl, CHR ''x'', hex_char (byte c div 16), hex_char (byte c mod 16)]
     else [c])"

definition quoted :: "unicode \<Rightarrow> string \<Rightarrow> string" where
  "quoted u s = (if is_ascii s then dq # concat (map quote_char s) @ [dq] else uc_quote u s)"

text \<open>\<open>fmt.Sprintf("%d", n)\<close>\<close>

fun nat_decimal :: "nat \<Rightarrow> string" where
  "nat_decimal n = (if n < 10 then [char_of (48 + n)] else nat_decimal (n div 10) @ [char_of (48 + n mod 10)])"

declare nat_decimal.simps [simp del]

definition decimal :: "int \<Rightarrow> string" where
  "decimal i = (if i < 0 then CHR ''-'' # nat_decimal (nat (- i)) else nat_decimal (nat i))"

lemma char_lower_byte: "is_upper c \<Longrightarrow> byte (char_of (byte c + 32 :: nat)) = byte c + 32"
  by (simp add: byte_simps)

lemma lower_char_idem: "lower_char (lower_char c) = lower_char c"
  by (auto simp: lower_char_def byte_simps)

lemma lower_char_ascii: "byte c < 0x80 \<Longrightarrow> byte (lower_char c) < 0x80"
  by (auto simp: lower_char_def byte_simps)

lemma to_lower_ascii_idem: "is_ascii s \<Longrightarrow> to_lower u (to_lower u s) = to_lower u s"
  by (auto simp: to_lower_def is_ascii_def list_all_iff lower_char_idem lower_char_ascii)

text \<open>Evaluates \<open>strings.TrimSpace\<close> on literals.\<close>

lemmas trim_eval = trim_space_def trim_left_space.simps trim_right_space_rev.simps ascii_space_def
  byte_between_def

text \<open>The arithmetic of \<open>int64\<close>.\<close>

definition int64 :: "int \<Rightarrow> int" where
  "int64 n = (n + 2 ^ 63) mod 2 ^ 64 - 2 ^ 63"

section \<open>Sorting with a comparison function\<close>

text \<open>
  \<open>slices.SortFunc\<close>. It is insertion sort up to twelve elements; for longer slices the order
  of elements that compare equal is not specified, and the components prove that their
  comparison functions leave no such freedom.
\<close>

fun insert_func :: "('a \<Rightarrow> 'a \<Rightarrow> int) \<Rightarrow> 'a \<Rightarrow> 'a list \<Rightarrow> 'a list" where
  "insert_func cmp x [] = [x]"
| "insert_func cmp x (y # ys) = (if cmp y x < 0 then y # insert_func cmp x ys else x # y # ys)"

definition sort_func :: "('a \<Rightarrow> 'a \<Rightarrow> int) \<Rightarrow> 'a list \<Rightarrow> 'a list" where
  "sort_func cmp xs = foldr (insert_func cmp) xs []"

text \<open>The contract of a comparison function: it compares keys of a linear order.\<close>

locale comparison =
  fixes cmp :: "'a \<Rightarrow> 'a \<Rightarrow> int" and key :: "'a \<Rightarrow> 'k::linorder"
  assumes cmp_less: "cmp x y < 0 \<longleftrightarrow> key x < key y"
begin

lemma insert_func_eq: "insert_func cmp x xs = insort_key key x xs"
  by (induction xs) (auto simp: cmp_less)

lemma sort_func_eq: "sort_func cmp xs = sort_key key xs"
proof -
  have "insert_func cmp = insort_key key" by (intro ext) (rule insert_func_eq)
  then show ?thesis by (simp add: sort_func_def sort_key_def)
qed

lemma set_sort: "set (sort_func cmp xs) = set xs"
  by (simp add: sort_func_eq)

lemma mset_sort: "mset (sort_func cmp xs) = mset xs"
  by (simp add: sort_func_eq)

lemma sorted_sort: "sorted (map key (sort_func cmp xs))"
  by (simp add: sort_func_eq)

lemma length_sort: "length (sort_func cmp xs) = length xs"
  by (simp add: sort_func_eq)

text \<open>With distinct keys the result does not depend on the order of the input.\<close>

lemma sort_unique:
  assumes "mset xs = mset ys" "inj_on key (set xs)"
  shows "sort_func cmp xs = sort_func cmp ys"
  unfolding sort_func_eq by (rule sort_key_inj_key_eq) (use assms in simp_all)

end

text \<open>The comparison of strings that the code writes out as two tests.\<close>

definition string_cmp :: "string \<Rightarrow> string \<Rightarrow> int" where
  "string_cmp l r = (if l < r then -1 else if l > r then 1 else 0)"

interpretation strings: comparison string_cmp "\<lambda>s. s"
  by unfold_locales (auto simp: string_cmp_def)

section \<open>Words and pieces of a text\<close>

text \<open>\<open>strings.Fields\<close>: the words between white space.\<close>

fun take_word :: "string \<Rightarrow> string \<times> string" where
  "take_word [] = ([], [])"
| "take_word (c # cs) =
    (if 0 < space_prefix (c # cs) then ([], c # cs)
     else (c # fst (take_word cs), snd (take_word cs)))"

lemma take_word_rest: "length (snd (take_word s)) \<le> length s"
  by (induction s) auto

lemma trim_left_space_le: "length (trim_left_space s) \<le> length s"
  using suffix_trim_left_space by (metis suffix_length_le)

function string_fields :: "string \<Rightarrow> string list" where
  "string_fields s =
    (let t = trim_left_space s in
     if t = [] then [] else fst (take_word t) # string_fields (snd (take_word t)))"
  by pat_completeness auto
termination
proof (relation "measure length")
  fix s t :: string
  assume t: "t = trim_left_space s" "t \<noteq> []"
  then obtain c cs where cs: "t = c # cs" by (meson neq_Nil_conv)
  have "space_prefix t = 0" using t trim_left_space_no_prefix by simp
  then have "length (snd (take_word t)) < length t"
    using take_word_rest [of cs] by (simp add: cs less_Suc_eq_le)
  also have "\<dots> \<le> length s" using t trim_left_space_le by simp
  finally show "(snd (take_word t), s) \<in> measure length" by simp
qed simp

declare string_fields.simps [simp del]

text \<open>\<open>strings.Split\<close> with a separator of several bytes.\<close>

function split_on :: "string \<Rightarrow> string \<Rightarrow> string list" where
  "split_on sep s =
    (case index_of s sep of
       None \<Rightarrow> [s]
     | Some i \<Rightarrow> if sep = [] then [s] else take i s # split_on sep (drop (i + length sep) s))"
  by pat_completeness auto
termination
proof (relation "measure (\<lambda>(sep, s). length s)")
  fix sep s :: string and i
  assume "index_of s sep = Some i" "sep \<noteq> []"
  then have "i + length sep \<le> length s" "0 < length sep" using index_of_bound by auto
  then have "length s - (i + length sep) < length s" by linarith
  then show "((sep, drop (i + length sep) s), sep, s) \<in> measure (\<lambda>(sep, s). length s)" by simp
qed simp

declare split_on.simps [simp del]

section \<open>Errors\<close>

text \<open>
  An error is a text, a sentinel that the code compares with (\<open>errors.Is\<close> follows the wrapped
  errors), \<open>fmt.Errorf("action: %w", err)\<close> or \<open>fmt.Errorf("%w: reason", err)\<close>.
\<close>

datatype go_error = Err string | Sentinel string | Wrapped string go_error | Because go_error string

primrec error_text :: "go_error \<Rightarrow> string" where
  "error_text (Err m) = m"
| "error_text (Sentinel m) = m"
| "error_text (Wrapped action e) = action @ '': '' @ error_text e"
| "error_text (Because e reason) = error_text e @ '': '' @ reason"

primrec errors_is :: "go_error \<Rightarrow> string \<Rightarrow> bool" where
  "errors_is (Err m) t = False"
| "errors_is (Sentinel m) t = (m = t)"
| "errors_is (Wrapped action e) t = errors_is e t"
| "errors_is (Because e reason) t = errors_is e t"

section \<open>Idioms of the code base\<close>

text \<open>\<open>firstNonEmpty\<close> (and \<open>firstNonEmptyValue\<close>): the first argument that is not blank, trimmed.\<close>

fun firstNonEmpty :: "string list \<Rightarrow> string" where
  "firstNonEmpty [] = []"
| "firstNonEmpty (v # vs) = (if trim_space v \<noteq> [] then trim_space v else firstNonEmpty vs)"

definition containsString :: "string list \<Rightarrow> string \<Rightarrow> bool" where
  "containsString values want \<longleftrightarrow> want \<in> set values"

end
