(* ===== verification/GoFloat.thy ===== *)
theory GoFloat
  imports GoLib Json
begin

text \<open>
  Go's \<open>float64\<close> and \<open>float32\<close>: the binary numbers of IEEE 754 with rounding to the nearest, ties
  to even. \<open>Fin neg m e\<close> is the number \<open>m * 2 ^ e\<close> with a sign, kept in the one form \<open>round_bits\<close>
  gives it, so that equal finite numbers other than the two zeros are equal terms. Integers are
  the only numbers the definitions compute with, so they evaluate.
\<close>

section \<open>Numbers and rounding\<close>

datatype float64 = NaN | Inf bool | Fin bool nat int

record float_format =
  fmt_digits :: nat  \<comment> \<open>binary digits of a mantissa\<close>
  fmt_min :: int     \<comment> \<open>the least exponent\<close>
  fmt_max :: int     \<comment> \<open>the greatest exponent\<close>

definition fmt64 :: float_format where
  "fmt64 = \<lparr>fmt_digits = 53, fmt_min = -1074, fmt_max = 971\<rparr>"

definition fmt32 :: float_format where
  "fmt32 = \<lparr>fmt_digits = 24, fmt_min = -149, fmt_max = 104\<rparr>"

fun bit_length :: "nat \<Rightarrow> nat" where
  "bit_length n = (if n = 0 then 0 else Suc (bit_length (n div 2)))"

declare bit_length.simps [simp del]

text \<open>The nearest integer to \<open>n / d\<close>, the even one of two.\<close>

definition div_even :: "nat \<Rightarrow> nat \<Rightarrow> nat" where
  "div_even n d =
    (let q = n div d; r = n mod d in
     if 2 * r > d \<or> 2 * r = d \<and> odd q then q + 1 else q)"

text \<open>Rounds \<open>n / d * 2 ^ e\<close>; the mantissa gets all its digits unless the exponent is at its least.\<close>

definition round_bits :: "float_format \<Rightarrow> bool \<Rightarrow> nat \<Rightarrow> nat \<Rightarrow> int \<Rightarrow> float64" where
  "round_bits f neg n d e =
    (if n = 0 then Fin neg 0 (fmt_min f)
     else
       let k = e + int (bit_length n) - int (bit_length d) - int (fmt_digits f);
           scaled = (\<lambda>x. if x \<le> e then (n * 2 ^ nat (e - x), d) else (n, d * 2 ^ nat (x - e)));
           x0 = max (fmt_min f) k;
           x = (case scaled x0 of (a, b) \<Rightarrow> if a div b < 2 ^ fmt_digits f then x0 else x0 + 1);
           m = (case scaled x of (a, b) \<Rightarrow> div_even a b);
           (m, x) = (if m = 2 ^ fmt_digits f then (m div 2, x + 1) else (m, x))
       in if fmt_max f < x then Inf neg else Fin neg m x)"

definition float_of_int :: "int \<Rightarrow> float64" where
  "float_of_int i = round_bits fmt64 (i < 0) (nat \<bar>i\<bar>) 1 0"

abbreviation f0 :: float64 where "f0 \<equiv> Fin False 0 (-1074)"

section \<open>Comparing, adding and truncating\<close>

text \<open>The signed mantissa at the exponent \<open>x\<close>, when \<open>x\<close> is not greater than the exponent.\<close>

definition mantissa_at :: "bool \<Rightarrow> nat \<Rightarrow> int \<Rightarrow> int \<Rightarrow> int" where
  "mantissa_at neg m e x = (if neg then - 1 else 1) * int m * 2 ^ nat (e - x)"

fun float_less :: "float64 \<Rightarrow> float64 \<Rightarrow> bool" where
  "float_less NaN _ = False"
| "float_less _ NaN = False"
| "float_less (Inf n) (Inf n') = (n \<and> \<not> n')"
| "float_less (Inf n) (Fin _ _ _) = n"
| "float_less (Fin _ _ _) (Inf n) = (\<not> n)"
| "float_less (Fin n m e) (Fin n' m' e') =
    (let x = min e e' in mantissa_at n m e x < mantissa_at n' m' e' x)"

fun float_eq :: "float64 \<Rightarrow> float64 \<Rightarrow> bool" where
  "float_eq NaN _ = False"
| "float_eq _ NaN = False"
| "float_eq (Inf n) (Inf n') = (n = n')"
| "float_eq (Inf n) (Fin _ _ _) = False"
| "float_eq (Fin _ _ _) (Inf n) = False"
| "float_eq (Fin n m e) (Fin n' m' e') =
    (let x = min e e' in mantissa_at n m e x = mantissa_at n' m' e' x)"

definition float_le :: "float64 \<Rightarrow> float64 \<Rightarrow> bool" where
  "float_le a b \<longleftrightarrow> float_less a b \<or> float_eq a b"

fun float_add :: "float64 \<Rightarrow> float64 \<Rightarrow> float64" where
  "float_add NaN _ = NaN"
| "float_add _ NaN = NaN"
| "float_add (Inf n) (Inf n') = (if n = n' then Inf n else NaN)"
| "float_add (Inf n) (Fin _ _ _) = Inf n"
| "float_add (Fin _ _ _) (Inf n) = Inf n"
| "float_add (Fin n m e) (Fin n' m' e') =
    (let x = min e e'; s = mantissa_at n m e x + mantissa_at n' m' e' x in
     if s = 0 then Fin (n \<and> n') 0 (fmt_min fmt64)
     else round_bits fmt64 (s < 0) (nat \<bar>s\<bar>) 1 x)"

fun float_neg :: "float64 \<Rightarrow> float64" where
  "float_neg NaN = NaN"
| "float_neg (Inf n) = Inf (\<not> n)"
| "float_neg (Fin n m e) = Fin (\<not> n) m e"

definition float_sub :: "float64 \<Rightarrow> float64 \<Rightarrow> float64" where
  "float_sub a b = float_add a (float_neg b)"

fun float_mul :: "float64 \<Rightarrow> float64 \<Rightarrow> float64" where
  "float_mul NaN _ = NaN"
| "float_mul _ NaN = NaN"
| "float_mul (Inf n) (Inf n') = Inf (n \<noteq> n')"
| "float_mul (Inf n) (Fin n' m' e') = (if m' = 0 then NaN else Inf (n \<noteq> n'))"
| "float_mul (Fin n m e) (Inf n') = (if m = 0 then NaN else Inf (n \<noteq> n'))"
| "float_mul (Fin n m e) (Fin n' m' e') = round_bits fmt64 (n \<noteq> n') (m * m') 1 (e + e')"

fun float_div :: "float64 \<Rightarrow> float64 \<Rightarrow> float64" where
  "float_div NaN _ = NaN"
| "float_div _ NaN = NaN"
| "float_div (Inf n) (Inf n') = NaN"
| "float_div (Inf n) (Fin n' m' e') = Inf (n \<noteq> n')"
| "float_div (Fin n m e) (Inf n') = Fin (n \<noteq> n') 0 (fmt_min fmt64)"
| "float_div (Fin n m e) (Fin n' m' e') =
    (if m' = 0 then (if m = 0 then NaN else Inf (n \<noteq> n'))
     else round_bits fmt64 (n \<noteq> n') m m' (e - e'))"

text \<open>
  \<open>int64(x)\<close> drops the fraction; for a number that does not fit, the language leaves the result to
  the machine, an argument here.
\<close>

definition float_to_int64 :: "(float64 \<Rightarrow> int) \<Rightarrow> float64 \<Rightarrow> int" where
  "float_to_int64 out_of_range x =
    (case x of
       Fin neg m e \<Rightarrow>
         let t = (if 0 \<le> e then m * 2 ^ nat e else m div 2 ^ nat (- e));
             v = (if neg then - int t else int t)
         in if - (2 ^ 63) \<le> v \<and> v < 2 ^ 63 then v else out_of_range x
     | _ \<Rightarrow> out_of_range x)"

section \<open>Numbers in texts\<close>

text \<open>
  \<open>strconv.ParseInt(s, 10, 64)\<close>: the value and whether there is no error; a number out of range
  gives the nearest \<open>int64\<close> with the error.
\<close>

definition parse_int :: "string \<Rightarrow> int \<times> bool" where
  "parse_int s =
    (let neg = has_prefix s ''-''; ds = (if neg \<or> has_prefix s ''+'' then tl s else s);
         n = int (foldl (\<lambda>n c. 10 * n + (byte c - 48)) 0 ds)
     in if ds = [] \<or> \<not> list_all is_digit ds then (0, False)
        else if neg then (if n \<le> 2 ^ 63 then (- n, True) else (- (2 ^ 63), False))
        else (if n < 2 ^ 63 then (n, True) else (2 ^ 63 - 1, False)))"

text \<open>
  \<open>strconv.ParseFloat(s, 64)\<close>. \<open>float_digits\<close> reads the digits and at most one point: the integer
  they make, how many stand behind the point, whether there is one, and the rest of the text.
\<close>

fun float_digits :: "bool \<Rightarrow> bool \<Rightarrow> bool \<Rightarrow> nat \<Rightarrow> nat \<Rightarrow> string \<Rightarrow> nat \<times> nat \<times> bool \<times> string" where
  "float_digits hex dot saw m k [] = (m, k, saw, [])"
| "float_digits hex dot saw m k (c # cs) =
    (if c = CHR ''_'' then float_digits hex dot saw m k cs
     else if c = CHR ''.'' \<and> \<not> dot then float_digits hex True saw m k cs
     else if is_digit c \<or> hex \<and> hex_digit c
     then float_digits hex dot True ((if hex then 16 else 10) * m + hex_val c) (if dot then k + 1 else k) cs
     else (m, k, saw, c # cs))"

text \<open>The exponent's digits; it stops growing at five of them.\<close>

fun exponent_digits :: "nat \<Rightarrow> string \<Rightarrow> nat \<times> string" where
  "exponent_digits e [] = (e, [])"
| "exponent_digits e (c # cs) =
    (if c = CHR ''_'' then exponent_digits e cs
     else if is_digit c then exponent_digits (if e < 10000 then e * 10 + (byte c - 48) else e) cs
     else (e, c # cs))"

definition float_exponent :: "char \<Rightarrow> string \<Rightarrow> (int \<times> string) option" where
  "float_exponent mark s =
    (case s of
       [] \<Rightarrow> None
     | c # t \<Rightarrow>
         if lower_char c \<noteq> mark then None
         else let neg = has_prefix t ''-''; r = (if neg \<or> has_prefix t ''+'' then tl t else t) in
              case r of
                [] \<Rightarrow> None
              | d # _ \<Rightarrow> if is_digit d
                       then (case exponent_digits 0 r of (e, rest) \<Rightarrow> Some (if neg then - int e else int e, rest))
                       else None)"

datatype underscore_state = UStart | UDigit | UUnder | UOther

fun underscores_ok :: "bool \<Rightarrow> underscore_state \<Rightarrow> string \<Rightarrow> bool" where
  "underscores_ok hex st [] = (st \<noteq> UUnder)"
| "underscores_ok hex st (c # cs) =
    (if is_digit c \<or> hex \<and> hex_digit c then underscores_ok hex UDigit cs
     else if c = CHR ''_'' then st = UDigit \<and> underscores_ok hex UUnder cs
     else st \<noteq> UUnder \<and> underscores_ok hex UOther cs)"

definition base_prefix :: "string \<Rightarrow> string \<Rightarrow> bool" where
  "base_prefix letters s =
    (case s of c # d # _ \<Rightarrow> c = CHR ''0'' \<and> lower_char d \<in> set letters | _ \<Rightarrow> False)"

definition underscoreOK :: "string \<Rightarrow> bool" where
  "underscoreOK s =
    (if base_prefix ''box'' s then underscores_ok (base_prefix ''x'' s) UDigit (drop 2 s)
     else underscores_ok False UStart s)"

definition special_float :: "string \<Rightarrow> float64 option" where
  "special_float s =
    (let t = map lower_char s; neg = has_prefix t ''-'';
         r = (if neg \<or> has_prefix t ''+'' then tl t else t)
     in if r = ''inf'' \<or> r = ''infinity'' then Some (Inf neg)
        else if t = ''nan'' then Some NaN else None)"

definition scale_float :: "bool \<Rightarrow> nat \<Rightarrow> nat \<Rightarrow> int \<Rightarrow> float64" where
  "scale_float neg m base e =
    (if 0 \<le> e then round_bits fmt64 neg (m * base ^ nat e) 1 0
     else round_bits fmt64 neg m (base ^ nat (- e)) 0)"

definition finite_or_none :: "float64 \<Rightarrow> float64 option" where
  "finite_or_none x = (case x of Fin _ _ _ \<Rightarrow> Some x | _ \<Rightarrow> None)"

definition parse_float64 :: "string \<Rightarrow> float64 option" where
  "parse_float64 s =
    (case special_float s of
       Some x \<Rightarrow> Some x
     | None \<Rightarrow>
         let neg = has_prefix s ''-''; t = (if neg \<or> has_prefix s ''+'' then tl s else s);
             hex = (base_prefix ''x'' t \<and> 2 < length t) in
         case float_digits hex False False 0 0 (if hex then drop 2 t else t) of
           (m, k, saw, rest) \<Rightarrow>
             if \<not> saw \<or> CHR ''_'' \<in> set s \<and> \<not> underscoreOK t then None
             else if hex then
               (case float_exponent (CHR ''p'') rest of
                  Some (e, []) \<Rightarrow> finite_or_none (scale_float neg m 2 (e - 4 * int k))
                | _ \<Rightarrow> None)
             else if rest = [] then finite_or_none (scale_float neg m 10 (- int k))
             else
               (case float_exponent (CHR ''e'') rest of
                  Some (e, []) \<Rightarrow> finite_or_none (scale_float neg m 10 (e - int k))
                | _ \<Rightarrow> None))"

text \<open>
  The shortest decimal number that is read back as \<open>m * 2 ^ e\<close>, and of two of them the nearer
  one: its digits and the place of the point before them.
\<close>

definition value_ratio :: "nat \<Rightarrow> int \<Rightarrow> nat \<times> nat" where
  "value_ratio m e = (if 0 \<le> e then (m * 2 ^ nat e, 1) else (m, 2 ^ nat (- e)))"

fun leading_zeros :: "nat \<Rightarrow> nat \<Rightarrow> nat \<Rightarrow> nat" where
  "leading_zeros 0 n d = 0"
| "leading_zeros (Suc fuel) n d = (if d \<le> 10 * n then 0 else Suc (leading_zeros fuel (10 * n) d))"

definition decimal_point :: "nat \<Rightarrow> nat \<Rightarrow> int" where
  "decimal_point n d =
    (if d \<le> n then int (length (nat_decimal (n div d))) else - int (leading_zeros 400 n d))"

definition power_ratio :: "nat \<Rightarrow> int \<Rightarrow> nat \<times> nat" where
  "power_ratio c p = (if 0 \<le> p then (c * 10 ^ nat p, 1) else (c, 10 ^ nat (- p)))"

definition reads_back :: "float_format \<Rightarrow> nat \<Rightarrow> int \<Rightarrow> nat \<Rightarrow> int \<Rightarrow> bool" where
  "reads_back f m e c p = (case power_ratio c p of (n, d) \<Rightarrow> round_bits f False n d 0 = Fin False m e)"

definition with_digits :: "float_format \<Rightarrow> nat \<Rightarrow> int \<Rightarrow> nat \<Rightarrow> nat option" where
  "with_digits f m e n =
    (case value_ratio m e of (a, b) \<Rightarrow>
       let p = decimal_point a b;
           (x, y) = (if p \<le> int n then (a * 10 ^ nat (int n - p), b) else (a, b * 10 ^ nat (p - int n)));
           lo = x div y; hi = lo + 1; near = div_even x y;
           ok = (\<lambda>c. reads_back f m e c (p - int n))
       in if ok near then Some near
          else if ok lo then Some lo else if ok hi then Some hi else None)"

fun shortest_from :: "float_format \<Rightarrow> nat \<Rightarrow> int \<Rightarrow> nat list \<Rightarrow> nat" where
  "shortest_from f m e [] = 0"
| "shortest_from f m e (n # ns) =
    (case with_digits f m e n of Some c \<Rightarrow> c * 10 ^ (17 - n) | None \<Rightarrow> shortest_from f m e ns)"

definition shortest :: "float_format \<Rightarrow> nat \<Rightarrow> int \<Rightarrow> string \<times> int" where
  "shortest f m e =
    (let (a, b) = value_ratio m e;
         c = nat_decimal (shortest_from f m e [1..<18]);
         ds = trim_right_set c ''0''
     in (ds, decimal_point a b + int (length c) - 17))"

text \<open>\<open>encoding/json\<close> on a float: \<open>None\<close> for the error of a NaN or an infinity.\<close>

definition zeros :: "int \<Rightarrow> string" where "zeros n = replicate (nat n) (CHR ''0'')"

definition plain_float :: "string \<Rightarrow> int \<Rightarrow> string" where
  "plain_float ds p =
    (if p \<le> 0 then ''0.'' @ zeros (- p) @ ds
     else if int (length ds) \<le> p then ds @ zeros (p - int (length ds))
     else take (nat p) ds @ ''.'' @ drop (nat p) ds)"

definition exponent_float :: "string \<Rightarrow> int \<Rightarrow> string" where
  "exponent_float ds p =
    take 1 ds @ (if length ds = 1 then [] else ''.'' @ drop 1 ds)
      @ (if p - 1 < 0 then ''e-'' else ''e+'') @ nat_decimal (nat \<bar>p - 1\<bar>)"

definition marshal_float :: "float_format \<Rightarrow> float64 \<Rightarrow> string option" where
  "marshal_float f x =
    (case x of
       Fin neg m e \<Rightarrow>
         Some ((if neg then ''-'' else [])
           @ (if m = 0 then ''0''
              else (case shortest f m e of (ds, p) \<Rightarrow>
                if p < -5 \<or> 21 < p then exponent_float ds p else plain_float ds p)))
     | _ \<Rightarrow> None)"

end
