(* ===== verification/JsonEncode.thy ===== *)
theory JsonEncode
  imports GoFloat
begin

text \<open>
  \<open>json.Marshal\<close>: strings, lists of strings, and the values of unknown type (\<open>any\<close>) that events
  carry in their payload.
\<close>

section \<open>Strings\<close>

text \<open>
  \<open>json.Marshal\<close> of a string: quotes, backslashes, control characters and the characters that
  HTML treats specially are escaped, and so are U+2028 and U+2029; bytes that are not UTF-8
  become U+FFFD.
\<close>

definition encode_ascii :: "char \<Rightarrow> string" where
  "encode_ascii c =
    (if c = dq \<or> c = bsl then [bsl, c]
     else if byte c = 8 then [bsl, CHR ''b''] else if byte c = 12 then [bsl, CHR ''f'']
     else if c = nl then [bsl, CHR ''n''] else if c = cr then [bsl, CHR ''r'']
     else if c = tab then [bsl, CHR ''t'']
     else if byte c < 32 \<or> c = CHR ''<'' \<or> c = CHR ''>'' \<or> c = CHR ''&''
     then [bsl, CHR ''u'', CHR ''0'', CHR ''0'', hex_char (byte c div 16), hex_char (byte c mod 16)]
     else [c])"

function encode_chars :: "string \<Rightarrow> string" where
  "encode_chars [] = []"
| "encode_chars (c # cs) =
    (if byte c < 0x80 then encode_ascii c @ encode_chars cs
     else if utf8_len (c # cs) = 0 then bsl # ''ufffd'' @ encode_chars cs
     else (let n = utf8_len (c # cs); ch = take n (c # cs) in
           (if ch = [CHR 0xE2, CHR 0x80, CHR 0xA8] then bsl # ''u2028''
            else if ch = [CHR 0xE2, CHR 0x80, CHR 0xA9] then bsl # ''u2029'' else ch)
           @ encode_chars (drop (n - 1) cs)))"
  by pat_completeness auto
termination
  by (relation "measure length") auto

declare encode_chars.simps(2) [simp del]

definition encode_string :: "string \<Rightarrow> string" where
  "encode_string s = dq # encode_chars s @ [dq]"

definition encode_strings :: "string list option \<Rightarrow> string" where
  "encode_strings vs =
    (case vs of None \<Rightarrow> ''null'' | Some xs \<Rightarrow> ''['' @ join_str '','' (map encode_string xs) @ '']'')"

section \<open>Values of unknown type\<close>

text \<open>
  What a payload holds, as far as the code tells the types apart. A map and a slice may be nil; the
  entries of a map have different keys. A value of another type comes with its text when it has a
  method \<open>String\<close>, and with what \<open>json.Marshal\<close> makes of it (\<open>None\<close> for an error).
\<close>

record TokenUsage =
  tu_Input :: int
  tu_Output :: int
  tu_Reasoning :: int
  tu_Cached :: int
  tu_Total :: int

definition no_usage :: TokenUsage where
  "no_usage = \<lparr>tu_Input = 0, tu_Output = 0, tu_Reasoning = 0, tu_Cached = 0, tu_Total = 0\<rparr>"

datatype gval =
    GNil
  | GBool bool
  | GInt int            \<comment> \<open>\<open>int\<close>, \<open>int32\<close> or \<open>int64\<close>\<close>
  | GFloat float64
  | GFloat32 float64    \<comment> \<open>as the \<open>float64\<close> of the same value\<close>
  | GNumber string      \<comment> \<open>\<open>json.Number\<close>\<close>
  | GStr string
  | GList "gval list option"
  | GMap "(string \<times> gval) list option"
  | GUsage TokenUsage   \<comment> \<open>\<open>contract.TokenUsage\<close>\<close>
  | GOther "string option" "string option"

definition marshal_usage :: "TokenUsage \<Rightarrow> string" where
  "marshal_usage u =
    ''{'' @ join_str '','' (map (\<lambda>(k, n). encode_string k @ '':'' @ decimal n)
      (filter (\<lambda>(k, n). n \<noteq> 0)
        [(''input_tokens'', tu_Input u), (''output_tokens'', tu_Output u),
         (''reasoning_tokens'', tu_Reasoning u), (''cached_tokens'', tu_Cached u),
         (''total_tokens'', tu_Total u)])) @ ''}''"

text \<open>A \<open>float32\<close> in its own format.\<close>

definition as_float32 :: "float64 \<Rightarrow> float64" where
  "as_float32 x = (case x of Fin neg m e \<Rightarrow> round_bits fmt32 neg m 1 e | _ \<Rightarrow> x)"

definition encode_object :: "(string \<times> string) list \<Rightarrow> string" where
  "encode_object es =
    ''{'' @ join_str '','' (map (\<lambda>(k, v). encode_string k @ '':'' @ v)
      (sort_func (\<lambda>l r. string_cmp (fst l) (fst r)) es)) @ ''}''"

fun marshal_any :: "gval \<Rightarrow> string option"
  and marshal_list :: "gval list \<Rightarrow> string list option"
  and marshal_entries :: "(string \<times> gval) list \<Rightarrow> (string \<times> string) list option" where
  "marshal_any GNil = Some ''null''"
| "marshal_any (GBool b) = Some (if b then ''true'' else ''false'')"
| "marshal_any (GInt i) = Some (decimal i)"
| "marshal_any (GFloat x) = marshal_float fmt64 x"
| "marshal_any (GFloat32 x) = marshal_float fmt32 (as_float32 x)"
| "marshal_any (GNumber s) =
    (if s = [] then Some ''0'' else if json_parse s = Some (JNum s) then Some s else None)"
| "marshal_any (GStr s) = Some (encode_string s)"
| "marshal_any (GList None) = Some ''null''"
| "marshal_any (GList (Some vs)) =
    map_option (\<lambda>ss. ''['' @ join_str '','' ss @ '']'') (marshal_list vs)"
| "marshal_any (GMap None) = Some ''null''"
| "marshal_any (GMap (Some es)) = map_option encode_object (marshal_entries es)"
| "marshal_any (GUsage u) = Some (marshal_usage u)"
| "marshal_any (GOther s j) = j"
| "marshal_list [] = Some []"
| "marshal_list (v # vs) =
    (case (marshal_any v, marshal_list vs) of
       (Some s, Some ss) \<Rightarrow> Some (s # ss) | _ \<Rightarrow> None)"
| "marshal_entries [] = Some []"
| "marshal_entries ((k, v) # es) =
    (case (marshal_any v, marshal_entries es) of
       (Some s, Some ss) \<Rightarrow> Some ((k, s) # ss) | _ \<Rightarrow> None)"

end
