(* ===== verification/Contract.thy ===== *)
theory Contract
  imports JsonEncode Complex_Main
begin

text \<open>
  The data of the control plane's model registry (\<^verbatim>\<open>pkg/contract/controlplane.go\<close>,
  \<^verbatim>\<open>model_registry.go\<close>, \<^verbatim>\<open>model_selection.go\<close> and \<^verbatim>\<open>ModelOptions\<close> of
  \<^verbatim>\<open>pkg/controlplane/types.go\<close>). A struct is a record with the fields of the code, a pointer
  that may be nil is an option, and a string type with named constants is a string. A finite
  float64 is the rational number it denotes.
\<close>

section \<open>Runtimes and models\<close>

record AuthProbe =
  auth_Status :: string
  auth_Type :: string
  auth_Label :: string
  auth_Method :: string
  auth_Message :: string

record RuntimeModelOption =
  opt_Value :: string
  opt_Label :: string
  opt_IsDefault :: bool

abbreviation TaskTextGeneration :: string where "TaskTextGeneration \<equiv> ''text_generation''"
abbreviation TaskEmbeddings :: string where "TaskEmbeddings \<equiv> ''embeddings''"
abbreviation ModalityText :: string where "ModalityText \<equiv> ''text''"
abbreviation ModalityEmbedding :: string where "ModalityEmbedding \<equiv> ''embedding''"

record RuntimeModelCapabilities =
  Tasks :: "string list"
  InputModalities :: "string list"
  OutputModalities :: "string list"
  SupportsToolCalling :: bool
  ReasoningEffortLevels :: "RuntimeModelOption list"
  ContextWindowOptions :: "RuntimeModelOption list"
  VariantOptions :: "RuntimeModelOption list"
  AgentOptions :: "RuntimeModelOption list"
  PromptInjectedEfforts :: "string list"
  SupportsFastMode :: bool
  SupportsThinkingToggle :: bool
  SupportsThinkingLevel :: bool
  SupportsThinkingBudget :: bool
  SupportedThinkingLevels :: "string list"
  SupportedThinkingBudgets :: "int list"

definition no_capabilities :: RuntimeModelCapabilities where
  "no_capabilities =
    \<lparr>Tasks = [], InputModalities = [], OutputModalities = [], SupportsToolCalling = False,
     ReasoningEffortLevels = [], ContextWindowOptions = [], VariantOptions = [],
     AgentOptions = [], PromptInjectedEfforts = [], SupportsFastMode = False,
     SupportsThinkingToggle = False, SupportsThinkingLevel = False,
     SupportsThinkingBudget = False, SupportedThinkingLevels = [], SupportedThinkingBudgets = []\<rparr>"

text \<open>What a \<open>map[string]any\<close> of options holds, as far as the code tells the types apart.\<close>

datatype any_value = AnyString string | AnyInt int | AnyInt64 int | AnyFloat64 rat | AnyOther

record RuntimeModel =
  ID :: string
  Label :: string
  mdl_Provider :: string
  Default :: bool
  Custom :: bool
  Capabilities :: RuntimeModelCapabilities
  DefaultOptions :: "(string \<times> any_value) list"

record RuntimeProbe =
  prb_Installed :: bool
  prb_Status :: string
  prb_Version :: string
  prb_BinaryPath :: string
  prb_Auth :: AuthProbe
  prb_Models :: "RuntimeModel list"
  prb_ModelSource :: string
  prb_Message :: string
  prb_ProbedAtMS :: int

record RuntimeCapabilities =
  cap_StartSession :: bool
  cap_ResumeSession :: bool
  cap_SendInput :: bool
  cap_Interrupt :: bool
  cap_Respond :: bool
  cap_StopSession :: bool
  cap_ListSessions :: bool
  cap_StreamEvents :: bool
  cap_ApprovalRequests :: bool
  cap_UserInputRequests :: bool
  cap_ImmediateProviderSession :: bool
  cap_ResumeByProviderID :: bool
  cap_AdoptExternalSessions :: bool
  cap_TextGeneration :: bool
  cap_Embeddings :: bool

record RuntimeDescriptor =
  dsc_SchemaVersion :: string
  Runtime :: string
  dsc_Ownership :: string
  dsc_Transport :: string
  dsc_Capabilities :: RuntimeCapabilities
  Probe :: "RuntimeProbe option"

section \<open>The registry\<close>

record ModelAlias =
  Alias :: string
  als_Model :: string

record RuntimeProviderRegistry =
  prv_Provider :: string
  prv_DisplayName :: string
  prv_DefaultModel :: string
  prv_SupportsTextGeneration :: bool
  prv_SupportsEmbeddings :: bool
  prv_Models :: "RuntimeModel list"

record RuntimeBackendRegistry =
  Backend :: string
  DisplayName :: string
  Installed :: bool
  SupportsSession :: bool
  SupportsTextGeneration :: bool
  SupportsEmbeddings :: bool
  ModelSource :: string
  DefaultModel :: string
  DefaultProvider :: string
  Aliases :: "ModelAlias list"
  Providers :: "RuntimeProviderRegistry list"
  Models :: "RuntimeModel list"
  Issues :: "string list"

record ModelRegistry =
  SchemaVersion :: string
  Backends :: "RuntimeBackendRegistry list"

definition ControlPlaneSchemaVersion :: string where
  "ControlPlaneSchemaVersion = ''agentic-control.control-plane.v1''"

section \<open>Options and selections\<close>

record ModelOptions =
  ReasoningEffort :: string
  ThinkingLevel :: string
  ThinkingBudget :: "int option"
  MaxOutputTokens :: int
  Temperature :: "rat option"
  TopP :: "rat option"
  BaseURL :: string
  APIKeyEnv :: string
  APIKey :: string
  OAuthTokenURL :: string
  OAuthClientID :: string
  OAuthClientSecret :: string
  ResponseSchema :: "(string \<times> gval) list option"
  Logprobs :: bool
  TopLogprobs :: int

definition no_options :: ModelOptions where
  "no_options =
    \<lparr>ReasoningEffort = [], ThinkingLevel = [], ThinkingBudget = None, MaxOutputTokens = 0,
     Temperature = None, TopP = None, BaseURL = [], APIKeyEnv = [], APIKey = [],
     OAuthTokenURL = [], OAuthClientID = [], OAuthClientSecret = [], ResponseSchema = None,
     Logprobs = False, TopLogprobs = 0\<rparr>"

record CodexModelOptions =
  cdx_ReasoningEffort :: string
  cdx_FastMode :: "bool option"

record ClaudeModelOptions =
  cld_Effort :: string
  cld_Thinking :: "bool option"
  cld_FastMode :: "bool option"
  cld_ContextWindow :: string

record GeminiModelOptions =
  gem_ThinkingLevel :: string
  gem_ThinkingBudget :: "int option"

record OpenCodeModelOptions =
  opc_Variant :: string
  opc_Agent :: string

record OpenAICompatModelOptions =
  oac_BaseURL :: string
  oac_APIKey :: string

text \<open>\<open>PiModelOptions\<close> is the empty struct.\<close>

record ModelSelection =
  sel_Provider :: string
  sel_Model :: string
  sel_Codex :: "CodexModelOptions option"
  sel_Claude :: "ClaudeModelOptions option"
  sel_Gemini :: "GeminiModelOptions option"
  sel_OpenCode :: "OpenCodeModelOptions option"
  sel_Pi :: "unit option"
  sel_OpenAICompat :: "OpenAICompatModelOptions option"

end
