(* ===== verification/RuntimeTarget.thy ===== *)
theory RuntimeTarget
  imports Contract
begin

text \<open>
  \<^verbatim>\<open>pkg/controlplane/runtime_targets.go\<close>: names of backends and providers, what a model name
  says about them, and the checks of a session target that need no registry.
\<close>

section \<open>Targets and issues\<close>

datatype ValidationSeverity = SeverityWarning | SeverityError

record RuntimeValidationIssue =
  Severity :: ValidationSeverity
  Code :: string
  Message :: string

record RuntimeTarget =
  tgt_Backend :: string
  tgt_Provider :: string
  tgt_Model :: string
  tgt_Options :: ModelOptions

record RuntimeTargetValidationResult =
  Target :: RuntimeTarget
  res_Runtime :: "RuntimeDescriptor option"
  res_Model :: "RuntimeModel option"
  res_Issues :: "RuntimeValidationIssue list"

definition issue :: "ValidationSeverity \<Rightarrow> string \<Rightarrow> string \<Rightarrow> RuntimeValidationIssue" where
  "issue severity code message = \<lparr>Severity = severity, Code = code, Message = message\<rparr>"

definition HasErrors :: "RuntimeTargetValidationResult \<Rightarrow> bool" where
  "HasErrors result \<longleftrightarrow> list_ex (\<lambda>i. Severity i = SeverityError) (res_Issues result)"

definition HasIssueCode :: "RuntimeTargetValidationResult \<Rightarrow> string \<Rightarrow> bool" where
  "HasIssueCode result code \<longleftrightarrow> list_ex (\<lambda>i. Code i = code) (res_Issues result)"

section \<open>Names\<close>

definition NormalizeRuntimeBackend :: "unicode \<Rightarrow> string \<Rightarrow> string" where
  "NormalizeRuntimeBackend u v =
    (let n = to_lower u (trim_space v) in
     if n \<in> {''claudeagent'', ''claude-agent'', ''claude_code'', ''claudecode''} then ''claude''
     else if n = ''open-code'' then ''opencode''
     else n)"

definition NormalizeRuntimeProvider :: "unicode \<Rightarrow> string \<Rightarrow> string" where
  "NormalizeRuntimeProvider u v = NormalizeRuntimeBackend u v"

definition InferRuntimeBackend :: "unicode \<Rightarrow> string \<Rightarrow> string" where
  "InferRuntimeBackend u model =
    (let m = to_lower u (trim_space model) in
     if m = [] then []
     else if has_prefix m ''claude-'' then ''claude''
     else if has_prefix m ''gemini-'' \<or> has_prefix m ''auto-gemini-'' then ''gemini''
     else if has_prefix m ''gpt-'' \<or> has_prefix m ''o1'' \<or> has_prefix m ''o3'' \<or> has_prefix m ''o4''
     then ''codex''
     else if contains_str m ''/'' then ''opencode''
     else [])"

definition InferRuntimeProvider :: "unicode \<Rightarrow> string \<Rightarrow> string" where
  "InferRuntimeProvider u model = InferRuntimeBackend u model"

definition InferModelProvider :: "unicode \<Rightarrow> string \<Rightarrow> string" where
  "InferModelProvider u model =
    (let m = to_lower u (trim_space model) in
     if m = [] then []
     else if contains_str m ''/'' then trim_space (takeWhile (\<lambda>c. c \<noteq> CHR ''/'') m)
     else if has_prefix m ''claude-'' then ''anthropic''
     else if has_prefix m ''gemini-'' \<or> has_prefix m ''auto-gemini-'' then ''google''
     else if has_prefix m ''gpt-'' \<or> has_prefix m ''o1'' \<or> has_prefix m ''o3'' \<or> has_prefix m ''o4''
     then ''openai''
     else [])"

section \<open>Backends of the registered runtimes\<close>

definition session_capable :: "RuntimeDescriptor \<Rightarrow> bool" where
  "session_capable d \<longleftrightarrow> cap_StartSession (dsc_Capabilities d) \<and> cap_StreamEvents (dsc_Capabilities d)"

definition SupportedSessionBackends :: "RuntimeDescriptor list \<Rightarrow> string list" where
  "SupportedSessionBackends descriptors =
     sort_func string_cmp (map Runtime (filter session_capable descriptors))"

text \<open>The loop of \<open>ValidateSessionBackend\<close>; an error is its message.\<close>

fun validate_backend_loop ::
  "unicode \<Rightarrow> RuntimeDescriptor list \<Rightarrow> RuntimeDescriptor list \<Rightarrow> string \<Rightarrow> string + RuntimeDescriptor" where
  "validate_backend_loop u all [] backend =
     Inl (''unsupported backend '' @ quoted u backend @ ''; supported backends are ''
          @ join_str '', '' (SupportedSessionBackends all))"
| "validate_backend_loop u all (r # rs) backend =
    (if Runtime r \<noteq> backend then validate_backend_loop u all rs backend
     else if \<not> cap_StartSession (dsc_Capabilities r) \<or> \<not> cap_StreamEvents (dsc_Capabilities r) then
       Inl (''backend '' @ quoted u backend
            @ '' is registered by agentic-control but does not support session start and event streaming'')
     else (case Probe r of
             Some p \<Rightarrow>
               if \<not> prb_Installed p then
                 Inl (''backend '' @ quoted u backend
                      @ '' is registered by agentic-control but unavailable locally: ''
                      @ firstNonEmpty [prb_Message p, backend @ '' runtime binary was not found''])
               else Inr r
           | None \<Rightarrow> Inr r))"

definition ValidateSessionBackend ::
  "unicode \<Rightarrow> RuntimeDescriptor list \<Rightarrow> string \<Rightarrow> string + RuntimeDescriptor" where
  "ValidateSessionBackend u descriptors backend =
     validate_backend_loop u descriptors descriptors
       (if trim_space backend = [] then ''opencode'' else backend)"

definition ResolveRuntimeTarget :: "unicode \<Rightarrow> RuntimeTarget \<Rightarrow> RuntimeTarget" where
  "ResolveRuntimeTarget u target = target
     \<lparr>tgt_Backend := (if trim_space (tgt_Backend target) = [] then ''opencode'' else tgt_Backend target),
      tgt_Provider := to_lower u (trim_space (tgt_Provider target))\<rparr>"

section \<open>Options against the capabilities of a model\<close>

definition runtimeModelOptionExists :: "RuntimeModelOption list \<Rightarrow> string \<Rightarrow> bool" where
  "runtimeModelOptionExists options v \<longleftrightarrow> list_ex (\<lambda>opt. opt_Value opt = v) options"

definition effort_issues :: "unicode \<Rightarrow> RuntimeTarget \<Rightarrow> RuntimeModelCapabilities \<Rightarrow> RuntimeValidationIssue list" where
  "effort_issues u target caps =
    (let effort = trim_space (ReasoningEffort (tgt_Options target)) in
     if effort \<noteq> [] \<and> ReasoningEffortLevels caps \<noteq> []
        \<and> \<not> runtimeModelOptionExists (ReasoningEffortLevels caps) effort
     then [issue SeverityError ''unsupported_reasoning_effort''
             (''reasoning effort '' @ quoted u effort @ '' is not supported by model ''
              @ quoted u (tgt_Model target) @ '' on backend '' @ quoted u (tgt_Backend target))]
     else [])"

definition level_issues :: "unicode \<Rightarrow> RuntimeTarget \<Rightarrow> RuntimeModelCapabilities \<Rightarrow> RuntimeValidationIssue list" where
  "level_issues u target caps =
    (let level = trim_space (ThinkingLevel (tgt_Options target)) in
     if level = [] then []
     else if \<not> SupportsThinkingLevel caps then
       [issue SeverityError ''unsupported_thinking_level''
          (''thinking level is not supported by model '' @ quoted u (tgt_Model target)
           @ '' on backend '' @ quoted u (tgt_Backend target))]
     else if SupportedThinkingLevels caps \<noteq> [] \<and> \<not> containsString (SupportedThinkingLevels caps) level then
       [issue SeverityError ''invalid_thinking_level''
          (''thinking level '' @ quoted u level @ '' is not supported by model ''
           @ quoted u (tgt_Model target) @ '' on backend '' @ quoted u (tgt_Backend target))]
     else [])"

definition budget_issues :: "unicode \<Rightarrow> RuntimeTarget \<Rightarrow> RuntimeModelCapabilities \<Rightarrow> RuntimeValidationIssue list" where
  "budget_issues u target caps =
    (case ThinkingBudget (tgt_Options target) of
       None \<Rightarrow> []
     | Some budget \<Rightarrow>
         if \<not> SupportsThinkingBudget caps then
           [issue SeverityError ''unsupported_thinking_budget''
              (''thinking budget is not supported by model '' @ quoted u (tgt_Model target)
               @ '' on backend '' @ quoted u (tgt_Backend target))]
         else if SupportedThinkingBudgets caps \<noteq> [] \<and> budget \<notin> set (SupportedThinkingBudgets caps) then
           [issue SeverityError ''invalid_thinking_budget''
              (''thinking budget '' @ decimal budget @ '' is not supported by model ''
               @ quoted u (tgt_Model target) @ '' on backend '' @ quoted u (tgt_Backend target))]
         else [])"

definition validateRuntimeModelOptions :: "unicode \<Rightarrow> RuntimeTarget \<Rightarrow> RuntimeModel \<Rightarrow> RuntimeValidationIssue list" where
  "validateRuntimeModelOptions u target model =
     effort_issues u target (Capabilities model) @ level_issues u target (Capabilities model)
     @ budget_issues u target (Capabilities model)"

end
