(* ===== verification/ModelCatalog.thy ===== *)
theory ModelCatalog
  imports Contract
begin

text \<open>
  \<^verbatim>\<open>pkg/providers/modelcatalog\<close>: the models the program knows without probing a runtime.
\<close>

definition appendUnique :: "string list \<Rightarrow> string \<Rightarrow> string list" where
  "appendUnique values v = (if v \<in> set values then values else values @ [v])"

definition textGenerationCapabilities :: "RuntimeModelCapabilities \<Rightarrow> RuntimeModelCapabilities" where
  "textGenerationCapabilities caps = caps
     \<lparr>Tasks := appendUnique (Tasks caps) TaskTextGeneration,
      InputModalities := appendUnique (InputModalities caps) ModalityText,
      OutputModalities := appendUnique (OutputModalities caps) ModalityText\<rparr>"

definition catalog_model ::
  "string \<Rightarrow> string \<Rightarrow> string \<Rightarrow> bool \<Rightarrow> RuntimeModelCapabilities \<Rightarrow> RuntimeModel" where
  "catalog_model i label provider isDefault capabilities =
     \<lparr>ID = i, Label = label, mdl_Provider = provider, Default = isDefault, Custom = False,
      Capabilities = capabilities, DefaultOptions = []\<rparr>"

definition option_of :: "string \<Rightarrow> string \<Rightarrow> bool \<Rightarrow> RuntimeModelOption" where
  "option_of v label isDefault = \<lparr>opt_Value = v, opt_Label = label,
       opt_IsDefault = isDefault\<rparr>"

definition codex_caps :: RuntimeModelCapabilities where
  "codex_caps =
    textGenerationCapabilities (no_capabilities\<lparr>ReasoningEffortLevels := [option_of ''xhigh'' ''Extra High'' False, option_of ''high'' ''High'' True, option_of ''medium'' ''Medium'' False, option_of ''low'' ''Low'' False], SupportsFastMode := True\<rparr>)"

definition catalog_Codex :: "RuntimeModel list" where
  "catalog_Codex =
    [catalog_model ''gpt-5.4'' ''GPT-5.4'' ''codex'' True codex_caps,
     catalog_model ''gpt-5.4-mini'' ''GPT-5.4 Mini'' ''codex'' False codex_caps,
     catalog_model ''gpt-5.3-codex'' ''GPT-5.3 Codex'' ''codex'' False codex_caps,
     catalog_model ''gpt-5.3-codex-spark'' ''GPT-5.3 Codex Spark'' ''codex'' False codex_caps,
     catalog_model ''gpt-5.2-codex'' ''GPT-5.2 Codex'' ''codex'' False codex_caps,
     catalog_model ''gpt-5.2'' ''GPT-5.2'' ''codex'' False codex_caps]"

definition catalog_Claude :: "RuntimeModel list" where
  "catalog_Claude =
    [catalog_model ''claude-opus-4-7'' ''Claude Opus 4.7'' ''claude'' False (textGenerationCapabilities (no_capabilities\<lparr>
       ReasoningEffortLevels := [option_of ''low'' ''Low'' False,
        option_of ''medium'' ''Medium'' False,
        option_of ''high'' ''High'' False,
        option_of ''xhigh'' ''Extra High'' True,
        option_of ''max'' ''Max'' False,
        option_of ''ultrathink'' ''Ultrathink'' False],
       ContextWindowOptions := [option_of ''200k'' ''200k'' True,
        option_of ''1m'' ''1M'' False],
       PromptInjectedEfforts := [''ultrathink'']\<rparr>)),
     catalog_model ''claude-opus-4-6'' ''Claude Opus 4.6'' ''claude'' False (textGenerationCapabilities (no_capabilities\<lparr>
       ReasoningEffortLevels := [option_of ''low'' ''Low'' False,
        option_of ''medium'' ''Medium'' False,
        option_of ''high'' ''High'' True,
        option_of ''max'' ''Max'' False,
        option_of ''ultrathink'' ''Ultrathink'' False],
       ContextWindowOptions := [option_of ''200k'' ''200k'' True,
        option_of ''1m'' ''1M'' False],
       PromptInjectedEfforts := [''ultrathink''], SupportsFastMode := True\<rparr>)),
     catalog_model ''claude-opus-4-5'' ''Claude Opus 4.5'' ''claude'' False (textGenerationCapabilities (no_capabilities\<lparr>
       ReasoningEffortLevels := [option_of ''low'' ''Low'' False,
        option_of ''medium'' ''Medium'' False,
        option_of ''high'' ''High'' True,
        option_of ''max'' ''Max'' False], SupportsFastMode := True\<rparr>)),
     catalog_model ''claude-sonnet-4-6'' ''Claude Sonnet 4.6'' ''claude'' True (textGenerationCapabilities (no_capabilities\<lparr>
       ReasoningEffortLevels := [option_of ''low'' ''Low'' False,
        option_of ''medium'' ''Medium'' False,
        option_of ''high'' ''High'' True,
        option_of ''ultrathink'' ''Ultrathink'' False],
       ContextWindowOptions := [option_of ''200k'' ''200k'' True,
        option_of ''1m'' ''1M'' False],
       PromptInjectedEfforts := [''ultrathink'']\<rparr>)),
     catalog_model ''claude-haiku-4-5'' ''Claude Haiku 4.5'' ''claude'' False (textGenerationCapabilities (no_capabilities\<lparr>SupportsThinkingToggle := True\<rparr>))]"

definition gemini_levelCaps :: RuntimeModelCapabilities where
  "gemini_levelCaps =
    textGenerationCapabilities (no_capabilities\<lparr>SupportsThinkingLevel := True,
       SupportedThinkingLevels := [''HIGH'', ''LOW''], ReasoningEffortLevels := [option_of ''HIGH'' ''High'' True, option_of ''LOW'' ''Low'' False]\<rparr>)"

definition gemini_budgetCaps :: RuntimeModelCapabilities where
  "gemini_budgetCaps =
    textGenerationCapabilities (no_capabilities\<lparr>SupportsThinkingBudget := True,
       SupportedThinkingBudgets := [-1, 0, 512], ReasoningEffortLevels := [option_of ''-1'' ''Dynamic'' True, option_of ''0'' ''None'' False, option_of ''512'' ''512 Tokens'' False]\<rparr>)"

definition catalog_Gemini :: "RuntimeModel list" where
  "catalog_Gemini =
    [catalog_model ''auto-gemini-3'' ''Auto Gemini 3'' ''gemini'' True gemini_levelCaps,
     catalog_model ''gemini-3.1-pro-preview'' ''Gemini 3.1 Pro Preview'' ''gemini'' False gemini_levelCaps,
     catalog_model ''gemini-3-flash-preview'' ''Gemini 3 Flash Preview'' ''gemini'' False gemini_levelCaps,
     catalog_model ''gemini-3.1-flash-lite-preview'' ''Gemini 3.1 Flash Lite Preview'' ''gemini'' False gemini_levelCaps,
     catalog_model ''gemini-2.5-pro'' ''Gemini 2.5 Pro'' ''gemini'' False gemini_budgetCaps,
     catalog_model ''gemini-2.5-flash'' ''Gemini 2.5 Flash'' ''gemini'' False gemini_budgetCaps,
     catalog_model ''gemini-2.5-flash-lite'' ''Gemini 2.5 Flash Lite'' ''gemini'' False gemini_budgetCaps]"

definition pi_caps :: RuntimeModelCapabilities where
  "pi_caps =
    textGenerationCapabilities (no_capabilities\<lparr>SupportsThinkingLevel := True,
       SupportedThinkingLevels := [''low'', ''medium'', ''high'', ''xhigh''],
       ReasoningEffortLevels := [option_of ''low'' ''Low'' False,
       option_of ''medium'' ''Medium'' True, option_of ''high'' ''High'' False,
       option_of ''xhigh'' ''Extra High'' False]\<rparr>)"

definition catalog_Pi :: "RuntimeModel list" where
  "catalog_Pi =
    [catalog_model ''pi-default'' ''Pi Default'' ''pi'' True pi_caps]"

lemmas catalogs = catalog_Codex_def catalog_Claude_def catalog_Gemini_def catalog_Pi_def catalog_model_def

end
