(* ===== verification/ModelRegistry.thy ===== *)
theory ModelRegistry
  imports RuntimeTarget ModelCatalog "HOL-Library.AList"
begin

text \<open>
  \<^verbatim>\<open>pkg/controlplane/model_registry.go\<close>: the registry of backends and models, built from the
  descriptors of the registered runtimes, and the validation of a session target against it.
  A Go map the code iterates over is an association list; \<open>None\<close> as the result of an operation
  is a panic.
\<close>

section \<open>Tables\<close>

definition defaultModelByBackend :: "(string \<times> string) list" where
  "defaultModelByBackend =
    [(''codex'', ''gpt-5.4''), (''claude'', ''claude-sonnet-4-6''), (''gemini'', ''auto-gemini-3''),
     (''opencode'', ''opencode/gemini-3-flash'')]"

definition modelAliasesByBackend :: "string \<Rightarrow> (string \<times> string) list" where
  "modelAliasesByBackend runtime =
    (if runtime = ''opencode'' then
       [(''gemini-3-flash'', ''opencode/gemini-3-flash''),
        (''gemini-3.1-pro'', ''opencode/gemini-3.1-pro''),
        (''google/gemini-3-flash-preview'', ''google/gemini-3-flash-preview'')]
     else if runtime = ''gemini'' then
       [(''gemini-3-flash'', ''gemini-3-flash-preview''),
        (''gemini-3.1-pro'', ''gemini-3.1-pro-preview''),
        (''gemini-3.1-flash-lite'', ''gemini-3.1-flash-lite-preview'')]
     else [])"

definition builtInModels :: "string \<Rightarrow> RuntimeModel list" where
  "builtInModels runtime =
    (if runtime = ''codex'' then catalog_Codex
     else if runtime = ''claude'' then catalog_Claude
     else if runtime = ''gemini'' then catalog_Gemini
     else if runtime = ''pi'' then catalog_Pi
     else [])"

section \<open>Capabilities\<close>

definition modelSupportsTask :: "RuntimeModel \<Rightarrow> string \<Rightarrow> bool" where
  "modelSupportsTask model task \<longleftrightarrow> task \<in> set (Tasks (Capabilities model))"

definition anyModelSupportsTask :: "RuntimeModel list \<Rightarrow> string \<Rightarrow> bool" where
  "anyModelSupportsTask models task \<longleftrightarrow> list_ex (\<lambda>m. modelSupportsTask m task) models"

definition appendTask :: "string list \<Rightarrow> string \<Rightarrow> string list" where
  "appendTask values v = (if v \<in> set values then values else values @ [v])"

definition appendModality :: "string list \<Rightarrow> string \<Rightarrow> string list" where
  "appendModality values v = (if v \<in> set values then values else values @ [v])"

definition runtimeModelCapabilitiesEmpty :: "RuntimeModelCapabilities \<Rightarrow> bool" where
  "runtimeModelCapabilitiesEmpty c \<longleftrightarrow>
     Tasks c = [] \<and> InputModalities c = [] \<and> OutputModalities c = [] \<and> \<not> SupportsToolCalling c
     \<and> ReasoningEffortLevels c = [] \<and> ContextWindowOptions c = [] \<and> VariantOptions c = []
     \<and> AgentOptions c = [] \<and> PromptInjectedEfforts c = [] \<and> \<not> SupportsFastMode c
     \<and> \<not> SupportsThinkingToggle c \<and> \<not> SupportsThinkingLevel c \<and> \<not> SupportsThinkingBudget c
     \<and> SupportedThinkingLevels c = [] \<and> SupportedThinkingBudgets c = []"

definition addTextGenerationCapability ::
  "RuntimeModelCapabilities \<Rightarrow> bool \<Rightarrow> RuntimeModelCapabilities" where
  "addTextGenerationCapability caps supportsToolCalling = caps
     \<lparr>Tasks := appendTask (Tasks caps) TaskTextGeneration,
      InputModalities := appendModality (InputModalities caps) ModalityText,
      OutputModalities := appendModality (OutputModalities caps) ModalityText,
      SupportsToolCalling := (if supportsToolCalling then True else SupportsToolCalling caps)\<rparr>"

definition addEmbeddingCapability :: "RuntimeModelCapabilities \<Rightarrow> RuntimeModelCapabilities" where
  "addEmbeddingCapability caps = caps
     \<lparr>Tasks := appendTask (Tasks caps) TaskEmbeddings,
      InputModalities := appendModality (InputModalities caps) ModalityText,
      OutputModalities := appendModality (OutputModalities caps) ModalityEmbedding\<rparr>"

definition isKnownTextGenerationRuntime :: "string \<Rightarrow> bool" where
  "isKnownTextGenerationRuntime runtime \<longleftrightarrow>
     runtime \<in> {''codex'', ''claude'', ''gemini'', ''opencode'', ''pi''}"

definition inferredOpenAICompatibleCapabilities :: "unicode \<Rightarrow> string \<Rightarrow> RuntimeModelCapabilities" where
  "inferredOpenAICompatibleCapabilities u modelID =
    (let normalized = to_lower u (trim_space modelID) in
     if contains_str normalized ''embed'' \<or> contains_str normalized ''embedding''
     then addEmbeddingCapability no_capabilities
     else addTextGenerationCapability no_capabilities True)"

definition withDefaultCapabilities :: "unicode \<Rightarrow> RuntimeDescriptor \<Rightarrow> RuntimeModel \<Rightarrow> RuntimeModel" where
  "withDefaultCapabilities u descriptor model =
    (if Runtime descriptor = ''openai-compatible''
        \<and> \<not> modelSupportsTask model TaskTextGeneration \<and> \<not> modelSupportsTask model TaskEmbeddings
     then model\<lparr>Capabilities := inferredOpenAICompatibleCapabilities u (ID model)\<rparr>
     else
       let model1 =
             (if (cap_TextGeneration (dsc_Capabilities descriptor)
                    \<or> isKnownTextGenerationRuntime (Runtime descriptor))
                 \<and> Tasks (Capabilities model) = []
              then model\<lparr>Capabilities := addTextGenerationCapability (Capabilities model) False\<rparr>
              else model)
       in (if cap_Embeddings (dsc_Capabilities descriptor) \<and> Tasks (Capabilities model1) = []
           then model1\<lparr>Capabilities := addEmbeddingCapability (Capabilities model1)\<rparr>
           else model1))"

section \<open>Merging and grouping models\<close>

definition model_cmp :: "RuntimeModel \<Rightarrow> RuntimeModel \<Rightarrow> int" where
  "model_cmp l r =
    (if Default l \<noteq> Default r then (if Default l then -1 else 1)
     else if mdl_Provider l \<noteq> mdl_Provider r then (if mdl_Provider l < mdl_Provider r then -1 else 1)
     else if ID l < ID r then -1 else if ID l > ID r then 1 else 0)"

definition provider_model_cmp :: "RuntimeModel \<Rightarrow> RuntimeModel \<Rightarrow> int" where
  "provider_model_cmp l r =
    (if Default l \<noteq> Default r then (if Default l then -1 else 1)
     else if ID l < ID r then -1 else if ID l > ID r then 1 else 0)"

definition provider_cmp :: "RuntimeProviderRegistry \<Rightarrow> RuntimeProviderRegistry \<Rightarrow> int" where
  "provider_cmp l r =
    (if prv_Provider l < prv_Provider r then -1 else if prv_Provider l > prv_Provider r then 1 else 0)"

definition alias_cmp :: "ModelAlias \<Rightarrow> ModelAlias \<Rightarrow> int" where
  "alias_cmp l r = (if Alias l < Alias r then -1 else if Alias l > Alias r then 1 else 0)"

definition backend_cmp :: "RuntimeBackendRegistry \<Rightarrow> RuntimeBackendRegistry \<Rightarrow> int" where
  "backend_cmp l r = (if Backend l < Backend r then -1 else if Backend l > Backend r then 1 else 0)"

text \<open>A model both lists have: the probed one, completed from the built-in one.\<close>

definition complete_model :: "RuntimeModel \<Rightarrow> RuntimeModel \<Rightarrow> RuntimeModel" where
  "complete_model current model = current
     \<lparr>Label := (if Label current = [] then Label model else Label current),
      mdl_Provider := (if mdl_Provider current = [] then mdl_Provider model else mdl_Provider current),
      Default := (if \<not> Default current \<and> Default model then True else Default current),
      Capabilities := (if runtimeModelCapabilitiesEmpty (Capabilities current)
                       then Capabilities model else Capabilities current)\<rparr>"

definition merge_secondary :: "RuntimeModel list \<Rightarrow> (string \<times> RuntimeModel) list" where
  "merge_secondary secondary = foldl (\<lambda>m model. AList.update (ID model) model m) [] secondary"

definition merge_primary ::
  "(string \<times> RuntimeModel) list \<Rightarrow> RuntimeModel \<Rightarrow> (string \<times> RuntimeModel) list" where
  "merge_primary merged model =
    (case map_of merged (ID model) of
       None \<Rightarrow> AList.update (ID model) model merged
     | Some current \<Rightarrow> AList.update (ID model) (complete_model current model) merged)"

definition merged_models :: "RuntimeModel list \<Rightarrow> RuntimeModel list \<Rightarrow> (string \<times> RuntimeModel) list" where
  "merged_models primary secondary = foldl merge_primary (merge_secondary secondary) primary"

definition mergeRuntimeModels ::
  "string \<Rightarrow> RuntimeModel list \<Rightarrow> RuntimeModel list \<Rightarrow> RuntimeModel list" where
  "mergeRuntimeModels runtime primary secondary =
     sort_func model_cmp (map snd (merged_models primary secondary))"

definition probeModels :: "RuntimeDescriptor \<Rightarrow> RuntimeModel list" where
  "probeModels descriptor = (case Probe descriptor of None \<Rightarrow> [] | Some p \<Rightarrow> prb_Models p)"

text \<open>Display names.\<close>

definition backendDisplayName :: "string \<Rightarrow> string option" where
  "backendDisplayName runtime =
    (if runtime = ''codex'' then Some ''Codex''
     else if runtime = ''claude'' then Some ''Claude''
     else if runtime = ''gemini'' then Some ''Gemini''
     else if runtime = ''opencode'' then Some ''OpenCode''
     else if runtime = ''pi'' then Some ''Pi''
     else (case runtime of
             [] \<Rightarrow> None \<comment> \<open>\<open>runtime[:1]\<close> panics\<close>
           | c # cs \<Rightarrow> Some (upper_first c @ cs)))"

definition providerDisplayName :: "string \<Rightarrow> string" where
  "providerDisplayName provider =
    (if provider = ''openai'' then ''OpenAI''
     else if provider = ''anthropic'' then ''Anthropic''
     else if provider = ''google'' then ''Google''
     else if provider = ''opencode'' then ''OpenCode''
     else if provider = ''codex'' then ''Codex''
     else if provider = ''claude'' then ''Claude''
     else if provider = ''gemini'' then ''Gemini''
     else (case provider of [] \<Rightarrow> [] | c # cs \<Rightarrow> upper_first c @ cs))"

definition provider_of :: "unicode \<Rightarrow> RuntimeModel \<Rightarrow> string" where
  "provider_of u model =
    (let p = NormalizeRuntimeProvider u (mdl_Provider model) in
     if p = [] then InferModelProvider u (ID model) else p)"

text \<open>\<open>byProvider\<close>: the models of each provider in the order they came.\<close>

definition by_provider :: "unicode \<Rightarrow> RuntimeModel list \<Rightarrow> (string \<times> RuntimeModel list) list" where
  "by_provider u models =
     foldl (\<lambda>m model. AList.update (provider_of u model)
              ((case map_of m (provider_of u model) of None \<Rightarrow> [] | Some ms \<Rightarrow> ms) @ [model]) m) [] models"

definition provider_registry :: "string \<times> RuntimeModel list \<Rightarrow> RuntimeProviderRegistry" where
  "provider_registry e =
    (let models = sort_func provider_model_cmp (snd e) in
     \<lparr>prv_Provider = fst e, prv_DisplayName = providerDisplayName (fst e), prv_DefaultModel = [],
      prv_SupportsTextGeneration = anyModelSupportsTask models TaskTextGeneration,
      prv_SupportsEmbeddings = anyModelSupportsTask models TaskEmbeddings,
      prv_Models = models\<rparr>)"

definition groupModelsByProvider :: "unicode \<Rightarrow> RuntimeModel list \<Rightarrow> RuntimeProviderRegistry list" where
  "groupModelsByProvider u models =
     sort_func provider_cmp (map provider_registry (by_provider u models))"

section \<open>Defaults and aliases\<close>

definition first_with :: "(RuntimeModel \<Rightarrow> bool) \<Rightarrow> RuntimeModel list \<Rightarrow> string option" where
  "first_with P models = map_option ID (find P models)"

definition backendDefaultModel :: "string \<Rightarrow> RuntimeModel list \<Rightarrow> string" where
  "backendDefaultModel runtime models =
    (case first_with Default models of
       Some i \<Rightarrow> i
     | None \<Rightarrow>
         (case (case map_of defaultModelByBackend runtime of
                  None \<Rightarrow> None
                | Some configured \<Rightarrow> first_with (\<lambda>m. ID m = configured) models) of
            Some i \<Rightarrow> i
          | None \<Rightarrow>
              (case first_with (\<lambda>m. \<not> Custom m) models of
                 Some i \<Rightarrow> i
               | None \<Rightarrow> (case models of [] \<Rightarrow> [] | m # _ \<Rightarrow> ID m))))"

definition providerDefaultModel :: "RuntimeProviderRegistry \<Rightarrow> string" where
  "providerDefaultModel provider =
    (case first_with Default (prv_Models provider) of
       Some i \<Rightarrow> i
     | None \<Rightarrow> (case prv_Models provider of [] \<Rightarrow> [] | m # _ \<Rightarrow> ID m))"

definition defaultProviderFromModel :: "unicode \<Rightarrow> RuntimeModel list \<Rightarrow> string \<Rightarrow> string" where
  "defaultProviderFromModel u models modelID =
    (case find (\<lambda>m. ID m = modelID) models of
       None \<Rightarrow> []
     | Some m \<Rightarrow> NormalizeRuntimeProvider u (mdl_Provider m))"

definition backendAliases :: "string \<Rightarrow> RuntimeModel list \<Rightarrow> ModelAlias list" where
  "backendAliases runtime models =
     sort_func alias_cmp
       (map (\<lambda>e. \<lparr>Alias = fst e, als_Model = snd e\<rparr>)
          (filter (\<lambda>e. list_ex (\<lambda>m. ID m = snd e) models) (modelAliasesByBackend runtime)))"

definition backendIssues :: "RuntimeDescriptor \<Rightarrow> string list" where
  "backendIssues descriptor =
    (case Probe descriptor of
       None \<Rightarrow> []
     | Some p \<Rightarrow> if prb_Message p \<noteq> [] then [prb_Message p] else [])"

definition modelSource :: "RuntimeDescriptor \<Rightarrow> string" where
  "modelSource descriptor =
    (case Probe descriptor of
       Some p \<Rightarrow> if prb_ModelSource p \<noteq> [] then prb_ModelSource p
                 else if builtInModels (Runtime descriptor) \<noteq> [] then ''built_in'' else []
     | None \<Rightarrow> if builtInModels (Runtime descriptor) \<noteq> [] then ''built_in'' else [])"

section \<open>Building the registry\<close>

definition backend_models :: "unicode \<Rightarrow> RuntimeDescriptor \<Rightarrow> RuntimeModel list" where
  "backend_models u descriptor =
     map (withDefaultCapabilities u descriptor)
       (mergeRuntimeModels (Runtime descriptor) (builtInModels (Runtime descriptor))
          (probeModels descriptor))"

definition buildBackendRegistry :: "unicode \<Rightarrow> RuntimeDescriptor \<Rightarrow> RuntimeBackendRegistry option" where
  "buildBackendRegistry u descriptor =
    (let models = backend_models u descriptor;
         providers = groupModelsByProvider u models;
         defaultModel = backendDefaultModel (Runtime descriptor) models
     in (case backendDisplayName (Runtime descriptor) of
           None \<Rightarrow> None
         | Some name \<Rightarrow>
             Some
               \<lparr>Backend = Runtime descriptor,
                DisplayName = name,
                Installed = (case Probe descriptor of None \<Rightarrow> True | Some p \<Rightarrow> prb_Installed p),
                SupportsSession = session_capable descriptor,
                SupportsTextGeneration = (cap_TextGeneration (dsc_Capabilities descriptor)
                                          \<or> anyModelSupportsTask models TaskTextGeneration),
                SupportsEmbeddings = (cap_Embeddings (dsc_Capabilities descriptor)
                                      \<or> anyModelSupportsTask models TaskEmbeddings),
                ModelSource = modelSource descriptor,
                DefaultModel = defaultModel,
                DefaultProvider = defaultProviderFromModel u models defaultModel,
                Aliases = backendAliases (Runtime descriptor) models,
                Providers = map (\<lambda>p. p\<lparr>prv_DefaultModel := providerDefaultModel p\<rparr>) providers,
                Models = models,
                Issues = backendIssues descriptor\<rparr>))"

fun build_backends :: "unicode \<Rightarrow> RuntimeDescriptor list \<Rightarrow> RuntimeBackendRegistry list option" where
  "build_backends u [] = Some []"
| "build_backends u (d # ds) =
    (case buildBackendRegistry u d of
       None \<Rightarrow> None
     | Some b \<Rightarrow> (case build_backends u ds of None \<Rightarrow> None | Some bs \<Rightarrow> Some (b # bs)))"

definition BuildModelRegistry :: "unicode \<Rightarrow> RuntimeDescriptor list \<Rightarrow> ModelRegistry option" where
  "BuildModelRegistry u descriptors =
    (case build_backends u descriptors of
       None \<Rightarrow> None
     | Some backends \<Rightarrow>
         Some \<lparr>SchemaVersion = ControlPlaneSchemaVersion, Backends = sort_func backend_cmp backends\<rparr>)"

section \<open>Looking things up\<close>

definition registryBackend :: "ModelRegistry \<Rightarrow> string \<Rightarrow> RuntimeBackendRegistry option" where
  "registryBackend registry backend = find (\<lambda>b. Backend b = backend) (Backends registry)"

definition registryModel :: "RuntimeBackendRegistry \<Rightarrow> string \<Rightarrow> RuntimeModel option" where
  "registryModel backend modelID = find (\<lambda>m. ID m = modelID) (Models backend)"

definition resolveRegistryModelAlias :: "RuntimeBackendRegistry \<Rightarrow> string \<Rightarrow> string" where
  "resolveRegistryModelAlias backend modelID =
    (case find (\<lambda>a. Alias a = modelID) (Aliases backend) of None \<Rightarrow> modelID | Some a \<Rightarrow> als_Model a)"

section \<open>Validating a session target\<close>

text \<open>\<open>int(v)\<close> of a float64 truncates toward zero (outside of the range of int Go leaves it open).\<close>

definition truncate :: "rat \<Rightarrow> int" where
  "truncate v = (if 0 \<le> v then \<lfloor>v\<rfloor> else \<lceil>v\<rceil>)"

definition default_string :: "(string \<times> any_value) list \<Rightarrow> string \<Rightarrow> string \<Rightarrow> string" where
  "default_string defaults key current =
    (if current = [] then (case map_of defaults key of Some (AnyString v) \<Rightarrow> v | _ \<Rightarrow> current)
     else current)"

definition mergeOptionsWithMap :: "ModelOptions \<Rightarrow> (string \<times> any_value) list \<Rightarrow> ModelOptions" where
  "mergeOptionsWithMap opts defaults = opts
     \<lparr>ReasoningEffort := default_string defaults ''reasoning_effort'' (ReasoningEffort opts),
      ThinkingLevel := default_string defaults ''thinking_level'' (ThinkingLevel opts),
      ThinkingBudget :=
        (case ThinkingBudget opts of
           Some b \<Rightarrow> Some b
         | None \<Rightarrow>
             (case map_of defaults ''thinking_budget'' of
                Some (AnyInt64 v) \<Rightarrow> Some v
              | Some (AnyFloat64 v) \<Rightarrow> Some (truncate v)
              | Some (AnyInt v) \<Rightarrow> Some v
              | _ \<Rightarrow> None)),
      BaseURL := default_string defaults ''base_url'' (BaseURL opts),
      APIKey := default_string defaults ''api_key'' (APIKey opts),
      APIKeyEnv := default_string defaults ''api_key_env'' (APIKeyEnv opts),
      OAuthTokenURL := default_string defaults ''oauth_token_url'' (OAuthTokenURL opts),
      OAuthClientID := default_string defaults ''oauth_client_id'' (OAuthClientID opts),
      OAuthClientSecret := default_string defaults ''oauth_client_secret'' (OAuthClientSecret opts)\<rparr>"

text \<open>The issues about the backend itself.\<close>

definition backend_state_issues ::
  "unicode \<Rightarrow> RuntimeBackendRegistry \<Rightarrow> string \<Rightarrow> RuntimeValidationIssue list" where
  "backend_state_issues u backend name =
     (if \<not> SupportsSession backend then
        [issue SeverityError ''backend_missing_session_capabilities''
           (''backend '' @ quoted u name @ '' does not support session start and event streaming'')]
      else [])
     @ (if \<not> Installed backend then
          [issue SeverityError ''backend_unavailable''
             (case Issues backend of
                [] \<Rightarrow> ''backend '' @ quoted u name @ '' is registered but unavailable locally''
              | i # _ \<Rightarrow> i)]
        else [])"

text \<open>From the point where the model is known: \<open>t\<close> is \<open>result.Target\<close>, \<open>issues\<close> its issues so far.\<close>

definition validate_model ::
  "unicode \<Rightarrow> RuntimeBackendRegistry \<Rightarrow> RuntimeTarget \<Rightarrow> RuntimeValidationIssue list
     \<Rightarrow> RuntimeTargetValidationResult" where
  "validate_model u backend t issues =
    (let modelID = resolveRegistryModelAlias backend (tgt_Model t) in
     case registryModel backend modelID of
       None \<Rightarrow>
         let customAllowed = list_ex Custom (Models backend) in
         \<lparr>Target = t, res_Runtime = None, res_Model = None,
          res_Issues = issues @
            [if customAllowed then
               issue SeverityWarning ''model_unlisted''
                 (''model '' @ quoted u (tgt_Model t) @ '' is not present in the registry for backend ''
                  @ quoted u (tgt_Backend t))
             else
               issue SeverityError ''model_unlisted''
                 (''model '' @ quoted u (tgt_Model t) @ '' is not supported by backend ''
                  @ quoted u (tgt_Backend t) @ '' according to the current registry'')]\<rparr>
     | Some model \<Rightarrow>
         let t1 = t\<lparr>tgt_Model := ID model,
                    tgt_Provider := firstNonEmpty [tgt_Provider t,
                      NormalizeRuntimeProvider u (mdl_Provider model), DefaultProvider backend]\<rparr>;
             t2 = (if DefaultOptions model \<noteq> []
                   then t1\<lparr>tgt_Options := mergeOptionsWithMap (tgt_Options t1) (DefaultOptions model)\<rparr>
                   else t1);
             mismatch =
               (if tgt_Provider t2 \<noteq> [] \<and> mdl_Provider model \<noteq> []
                   \<and> tgt_Provider t2 \<noteq> NormalizeRuntimeProvider u (mdl_Provider model)
                then [issue SeverityError ''provider_model_mismatch''
                        (''model '' @ quoted u (tgt_Model t2) @ '' belongs to provider ''
                         @ quoted u (mdl_Provider model) @ '' on backend ''
                         @ quoted u (tgt_Backend t2) @ '', not '' @ quoted u (tgt_Provider t2))]
                else [])
         in \<lparr>Target = t2, res_Runtime = None, res_Model = Some model,
             res_Issues = issues @ mismatch @ validateRuntimeModelOptions u t2 model\<rparr>)"

definition ValidateSessionTargetWithRegistry ::
  "unicode \<Rightarrow> ModelRegistry \<Rightarrow> RuntimeTarget \<Rightarrow> RuntimeTargetValidationResult" where
  "ValidateSessionTargetWithRegistry u registry target =
    (let t = ResolveRuntimeTarget u target in
     case registryBackend registry (tgt_Backend t) of
       None \<Rightarrow>
         \<lparr>Target = t, res_Runtime = None, res_Model = None,
          res_Issues = [issue SeverityError ''unsupported_backend''
            (''backend '' @ quoted u (tgt_Backend t) @ '' is not registered by agentic-control'')]\<rparr>
     | Some backend \<Rightarrow>
         let issues = backend_state_issues u backend (tgt_Backend t) in
         if trim_space (tgt_Model t) = [] then
           let t' = t\<lparr>tgt_Model := DefaultModel backend,
                      tgt_Provider := firstNonEmpty [tgt_Provider t, DefaultProvider backend]\<rparr> in
           if trim_space (tgt_Model t') = [] then
             \<lparr>Target = t', res_Runtime = None, res_Model = None,
              res_Issues = issues @ [issue SeverityWarning ''model_unspecified''
                (''no explicit model was provided for backend '' @ quoted u (tgt_Backend t')
                 @ ''; the runtime default will apply'')]\<rparr>
           else validate_model u backend t' issues
         else validate_model u backend t issues)"

definition ValidateSessionTarget ::
  "unicode \<Rightarrow> RuntimeDescriptor list \<Rightarrow> RuntimeTarget \<Rightarrow> RuntimeTargetValidationResult option" where
  "ValidateSessionTarget u descriptors target =
     map_option (\<lambda>r. ValidateSessionTargetWithRegistry u r target) (BuildModelRegistry u descriptors)"

end
