(* ===== verification/ModelSelect.thy ===== *)
theory ModelSelect
  imports ModelRegistry
begin

text \<open>
  \<^verbatim>\<open>pkg/controlplane/model_selection.go\<close> and \<^verbatim>\<open>model_options.go\<close>: a selection of a model with
  the options of its provider, brought in line with the registry, and the merging of option
  sets. \<open>NormalizeModelSelection\<close> writes through the pointers of the selection it is given; the
  model returns the selection as it is afterwards.
\<close>

section \<open>Choosing among the options of a model\<close>

text \<open>
  The loop that \<open>resolveEffort\<close>, \<open>resolveContextWindow\<close> and \<open>resolveLabeledOption\<close> share:
  \<open>defaultValue\<close> is the last default seen before the wanted value turns up.
\<close>

fun resolve_loop :: "string \<Rightarrow> string \<Rightarrow> RuntimeModelOption list \<Rightarrow> string" where
  "resolve_loop defaultValue want [] = defaultValue"
| "resolve_loop defaultValue want (opt # opts) =
    (if want \<noteq> [] \<and> opt_Value opt = want then want
     else resolve_loop (if opt_IsDefault opt then opt_Value opt else defaultValue) want opts)"

definition resolveEffort :: "RuntimeModelCapabilities \<Rightarrow> string \<Rightarrow> string" where
  "resolveEffort caps raw = resolve_loop [] (trim_space raw) (ReasoningEffortLevels caps)"

definition resolveContextWindow :: "RuntimeModelCapabilities \<Rightarrow> string \<Rightarrow> string" where
  "resolveContextWindow caps raw = resolve_loop [] (trim_space raw) (ContextWindowOptions caps)"

definition resolveLabeledOption :: "RuntimeModelOption list \<Rightarrow> string \<Rightarrow> string" where
  "resolveLabeledOption options raw = resolve_loop [] raw options"

definition trimToNull :: "string \<Rightarrow> string" where
  "trimToNull v = trim_space v"

section \<open>Normalizing a selection\<close>

definition normalizeProviderKind :: "unicode \<Rightarrow> string \<Rightarrow> string" where
  "normalizeProviderKind u v =
    (let n = NormalizeRuntimeBackend u v in
     if n \<in> {''codex'', ''claude'', ''gemini'', ''opencode'', ''pi''} then n else v)"

text \<open>The options of other providers are dropped.\<close>

definition clear_other_providers :: "ModelSelection \<Rightarrow> ModelSelection" where
  "clear_other_providers s =
    (if sel_Provider s = ''codex'' then
       s\<lparr>sel_Claude := None, sel_Gemini := None, sel_OpenCode := None, sel_Pi := None\<rparr>
     else if sel_Provider s = ''claude'' then
       s\<lparr>sel_Codex := None, sel_Gemini := None, sel_OpenCode := None, sel_Pi := None\<rparr>
     else if sel_Provider s = ''gemini'' then
       s\<lparr>sel_Codex := None, sel_Claude := None, sel_OpenCode := None, sel_Pi := None\<rparr>
     else if sel_Provider s = ''opencode'' then
       s\<lparr>sel_Codex := None, sel_Claude := None, sel_Gemini := None, sel_Pi := None,
         sel_OpenAICompat := None\<rparr>
     else if sel_Provider s = ''pi'' then
       s\<lparr>sel_Codex := None, sel_Claude := None, sel_Gemini := None, sel_OpenCode := None,
         sel_OpenAICompat := None\<rparr>
     else if sel_Provider s = ''openai-compatible'' then
       s\<lparr>sel_Codex := None, sel_Claude := None, sel_Gemini := None, sel_OpenCode := None,
         sel_Pi := None\<rparr>
     else s)"

definition normalizeProviderSpecificOptions :: "ModelSelection \<Rightarrow> RuntimeModel \<Rightarrow> ModelSelection" where
  "normalizeProviderSpecificOptions s model =
    (let caps = Capabilities model in
     if sel_Provider s = ''codex'' then
       s\<lparr>sel_Codex := map_option (\<lambda>c. c
           \<lparr>cdx_ReasoningEffort := resolveEffort caps (cdx_ReasoningEffort c),
            cdx_FastMode := (if \<not> SupportsFastMode caps then None else cdx_FastMode c)\<rparr>) (sel_Codex s)\<rparr>
     else if sel_Provider s = ''claude'' then
       s\<lparr>sel_Claude := map_option (\<lambda>c. c
           \<lparr>cld_Effort := resolveEffort caps (cld_Effort c),
            cld_Thinking := (if \<not> SupportsThinkingToggle caps then None else cld_Thinking c),
            cld_FastMode := (if \<not> SupportsFastMode caps then None else cld_FastMode c),
            cld_ContextWindow := resolveContextWindow caps (cld_ContextWindow c)\<rparr>) (sel_Claude s)\<rparr>
     else if sel_Provider s = ''gemini'' then
       s\<lparr>sel_Gemini := map_option (\<lambda>g. g
           \<lparr>gem_ThinkingLevel := (if \<not> SupportsThinkingLevel caps then [] else gem_ThinkingLevel g),
            gem_ThinkingBudget := (if \<not> SupportsThinkingBudget caps then None else gem_ThinkingBudget g)\<rparr>)
           (sel_Gemini s)\<rparr>
     else if sel_Provider s = ''opencode'' then
       s\<lparr>sel_OpenCode := map_option (\<lambda>c. c
           \<lparr>opc_Variant := resolveLabeledOption (VariantOptions caps) (trimToNull (opc_Variant c)),
            opc_Agent := resolveLabeledOption (AgentOptions caps) (trimToNull (opc_Agent c))\<rparr>)
           (sel_OpenCode s)\<rparr>
     else s)"

definition NormalizeModelSelection :: "unicode \<Rightarrow> ModelRegistry \<Rightarrow> ModelSelection \<Rightarrow> ModelSelection" where
  "NormalizeModelSelection u registry selection =
    (let s1 = selection\<lparr>sel_Provider := normalizeProviderKind u (sel_Provider selection)\<rparr>;
         backend = registryBackend registry (sel_Provider s1);
         s2 = (if sel_Model s1 = [] then
                 (case backend of Some b \<Rightarrow> s1\<lparr>sel_Model := DefaultModel b\<rparr> | None \<Rightarrow> s1)
               else s1);
         s3 = (case backend of
                 Some b \<Rightarrow> s2\<lparr>sel_Model := resolveRegistryModelAlias b (sel_Model s2)\<rparr> | None \<Rightarrow> s2);
         s4 = clear_other_providers s3
     in (case backend of
           None \<Rightarrow> s4
         | Some b \<Rightarrow>
             (case registryModel b (sel_Model s4) of
                None \<Rightarrow> s4
              | Some model \<Rightarrow> normalizeProviderSpecificOptions s4 model)))"

definition RuntimeTargetFromSelection :: "ModelSelection \<Rightarrow> RuntimeTarget" where
  "RuntimeTargetFromSelection s =
    (let t = \<lparr>tgt_Backend = sel_Provider s, tgt_Provider = [], tgt_Model = sel_Model s,
              tgt_Options = no_options\<rparr> in
     if sel_Provider s = ''codex'' then
       (case sel_Codex s of
          None \<Rightarrow> t
        | Some c \<Rightarrow> t\<lparr>tgt_Options := no_options\<lparr>ReasoningEffort := trim_space (cdx_ReasoningEffort c)\<rparr>\<rparr>)
     else if sel_Provider s = ''claude'' then
       (case sel_Claude s of
          None \<Rightarrow> t
        | Some c \<Rightarrow> t\<lparr>tgt_Options := no_options\<lparr>ReasoningEffort := trim_space (cld_Effort c)\<rparr>\<rparr>)
     else if sel_Provider s = ''gemini'' then
       (case sel_Gemini s of
          None \<Rightarrow> t
        | Some g \<Rightarrow> t\<lparr>tgt_Options := no_options
             \<lparr>ThinkingLevel := trim_space (gem_ThinkingLevel g), ThinkingBudget := gem_ThinkingBudget g\<rparr>\<rparr>)
     else if sel_Provider s = ''openai-compatible'' then
       (case sel_OpenAICompat s of
          None \<Rightarrow> t
        | Some a \<Rightarrow> t\<lparr>tgt_Options := no_options
             \<lparr>BaseURL := trim_space (oac_BaseURL a), APIKey := trim_space (oac_APIKey a)\<rparr>\<rparr>)
     else t)"

section \<open>Option sets\<close>

definition HasModelOptions :: "ModelOptions \<Rightarrow> bool" where
  "HasModelOptions opts \<longleftrightarrow>
     trim_space (ReasoningEffort opts) \<noteq> [] \<or> trim_space (ThinkingLevel opts) \<noteq> []
     \<or> ThinkingBudget opts \<noteq> None \<or> 0 < MaxOutputTokens opts \<or> Temperature opts \<noteq> None \<or> TopP opts \<noteq> None
     \<or> trim_space (BaseURL opts) \<noteq> [] \<or> trim_space (APIKeyEnv opts) \<noteq> [] \<or> trim_space (APIKey opts) \<noteq> []
     \<or> trim_space (OAuthTokenURL opts) \<noteq> [] \<or> trim_space (OAuthClientID opts) \<noteq> []
     \<or> trim_space (OAuthClientSecret opts) \<noteq> [] \<or> ResponseSchema opts \<noteq> None
     \<or> Logprobs opts \<or> 0 < TopLogprobs opts"

definition over_string :: "string \<Rightarrow> string \<Rightarrow> string" where
  "over_string v out = (if trim_space v \<noteq> [] then trim_space v else out)"

definition over_option :: "'a option \<Rightarrow> 'a option \<Rightarrow> 'a option" where
  "over_option v out = (if v \<noteq> None then v else out)"

definition over_pos :: "int \<Rightarrow> int \<Rightarrow> int" where
  "over_pos v out = (if 0 < v then v else out)"

text \<open>One round of the loop: what \<open>v\<close> says goes over what \<open>out\<close> has.\<close>

definition merge_over :: "ModelOptions \<Rightarrow> ModelOptions \<Rightarrow> ModelOptions" where
  "merge_over v out =
    \<lparr>ReasoningEffort = over_string (ReasoningEffort v) (ReasoningEffort out),
     ThinkingLevel = over_string (ThinkingLevel v) (ThinkingLevel out),
     ThinkingBudget = over_option (ThinkingBudget v) (ThinkingBudget out),
     MaxOutputTokens = over_pos (MaxOutputTokens v) (MaxOutputTokens out),
     Temperature = over_option (Temperature v) (Temperature out),
     TopP = over_option (TopP v) (TopP out),
     BaseURL = over_string (BaseURL v) (BaseURL out),
     APIKeyEnv = over_string (APIKeyEnv v) (APIKeyEnv out),
     APIKey = over_string (APIKey v) (APIKey out),
     OAuthTokenURL = over_string (OAuthTokenURL v) (OAuthTokenURL out),
     OAuthClientID = over_string (OAuthClientID v) (OAuthClientID out),
     OAuthClientSecret = over_string (OAuthClientSecret v) (OAuthClientSecret out),
     ResponseSchema = over_option (ResponseSchema v) (ResponseSchema out),
     Logprobs = (if Logprobs v then True else Logprobs out),
     TopLogprobs = over_pos (TopLogprobs v) (TopLogprobs out)\<rparr>"

text \<open>The loop runs over the arguments from the last to the first.\<close>

definition MergeModelOptions :: "ModelOptions list \<Rightarrow> ModelOptions" where
  "MergeModelOptions vs = foldl (\<lambda>out v. merge_over v out) no_options (rev vs)"

end
