(* ===== verification/ModelSpec.thy ===== *)
theory ModelSpec
  imports ModelSelect
begin

text \<open>
  What the model registry, the validation of targets and the normalization of selections
  promise (\<^verbatim>\<open>pkg/controlplane\<close>).
\<close>

section \<open>The comparison functions\<close>

interpretation models: comparison model_cmp "\<lambda>m. (\<not> Default m, mdl_Provider m, ID m)"
  by unfold_locales (auto simp: model_cmp_def)

interpretation provider_models: comparison provider_model_cmp "\<lambda>m. (\<not> Default m, ID m)"
  by unfold_locales (auto simp: provider_model_cmp_def)

interpretation providers: comparison provider_cmp prv_Provider
  by unfold_locales (auto simp: provider_cmp_def)

interpretation aliases: comparison alias_cmp Alias
  by unfold_locales (auto simp: alias_cmp_def)

interpretation backends: comparison backend_cmp Backend
  by unfold_locales (auto simp: backend_cmp_def)

section \<open>Merging models\<close>

text \<open>The invariant of the map \<open>merged\<close>: one entry for each key, which is the model's own ID.\<close>

definition merged_ok :: "(string \<times> RuntimeModel) list \<Rightarrow> bool" where
  "merged_ok m \<longleftrightarrow> distinct (map fst m) \<and> (\<forall>e \<in> set m. ID (snd e) = fst e)"

lemma set_update_sub: "set (AList.update k v m) \<subseteq> insert (k, v) (set m)"
  by (induction m) auto

lemma merged_ok_update: "merged_ok m \<Longrightarrow> ID v = k \<Longrightarrow> merged_ok (AList.update k v m)"
  using set_update_sub [of k v m] by (fastforce simp: merged_ok_def distinct_update)

lemma merged_ok_secondary: "merged_ok (merge_secondary secondary)"
proof -
  have "merged_ok (foldl (\<lambda>m model. AList.update (ID model) model m) acc secondary)" if "merged_ok acc" for acc
    using that by (induction secondary arbitrary: acc) (auto intro: merged_ok_update)
  moreover have "merged_ok []" by (simp add: merged_ok_def)
  ultimately show ?thesis by (simp add: merge_secondary_def)
qed

lemma merge_primary_keys: "fst ` set (merge_primary m x) = insert (ID x) (fst ` set m)"
  by (simp add: merge_primary_def dom_update split: option.split)

lemma merged_ok_primary: "merged_ok m \<Longrightarrow> merged_ok (merge_primary m x)"
  unfolding merge_primary_def
proof (split option.split, intro conjI allI impI)
  fix current
  assume ok: "merged_ok m" and c: "map_of m (ID x) = Some current"
  then have "ID current = ID x" by (auto simp: merged_ok_def dest!: map_of_SomeD)
  then show "merged_ok (AList.update (ID x) (complete_model current x) m)"
    by (intro merged_ok_update [OF ok]) (simp add: complete_model_def)
qed (simp add: merged_ok_update)

lemma merged_ok_models: "merged_ok (merged_models primary secondary)"
proof -
  have "merged_ok (foldl merge_primary acc primary)" if "merged_ok acc" for acc
    using that by (induction primary arbitrary: acc) (auto intro: merged_ok_primary)
  then show ?thesis by (simp add: merged_models_def merged_ok_secondary)
qed

lemma merged_keys: "fst ` set (merged_models primary secondary) = ID ` set primary \<union> ID ` set secondary"
proof -
  have "fst ` set (foldl (\<lambda>m model. AList.update (ID model) model m) acc secondary)
      = fst ` set acc \<union> ID ` set secondary" for acc
    by (induction secondary arbitrary: acc) (auto simp: dom_update)
  moreover have "fst ` set (foldl merge_primary acc primary) = fst ` set acc \<union> ID ` set primary" for acc
    by (induction primary arbitrary: acc) (auto simp: merge_primary_keys)
  ultimately show ?thesis by (simp add: merged_models_def merge_secondary_def Un_commute)
qed

lemma merged_ids: "map ID (map snd (merged_models p s)) = map fst (merged_models p s)"
  using merged_ok_models [of p s] by (simp add: merged_ok_def)

text \<open>
  Which models the registry has for a backend: every ID of the built-in and of the probed models
  exactly once, default models first, then by provider and ID.
\<close>

theorem mergeRuntimeModels_spec:
  "distinct (map ID (mergeRuntimeModels rt primary secondary))
   \<and> ID ` set (mergeRuntimeModels rt primary secondary) = ID ` set primary \<union> ID ` set secondary
   \<and> sorted (map (\<lambda>m. (\<not> Default m, mdl_Provider m, ID m)) (mergeRuntimeModels rt primary secondary))"
proof (intro conjI)
  let ?m = "merged_models primary secondary"
  have "mset (map ID (mergeRuntimeModels rt primary secondary)) = mset (map fst ?m)"
    by (simp only: mergeRuntimeModels_def mset_map models.mset_sort flip: merged_ids)
  then show "distinct (map ID (mergeRuntimeModels rt primary secondary))"
    using merged_ok_models [of primary secondary] by (metis merged_ok_def mset_eq_imp_distinct_iff)
  have "ID ` set (mergeRuntimeModels rt primary secondary) = set (map ID (map snd ?m))"
    by (simp add: mergeRuntimeModels_def models.set_sort image_image)
  then show "ID ` set (mergeRuntimeModels rt primary secondary) = ID ` set primary \<union> ID ` set secondary"
    unfolding merged_ids using merged_keys by simp
  show "sorted (map (\<lambda>m. (\<not> Default m, mdl_Provider m, ID m)) (mergeRuntimeModels rt primary secondary))"
    unfolding mergeRuntimeModels_def by (rule models.sorted_sort)
qed

text \<open>
  The code collects the models by ranging over a Go map, whose order is random: the result does
  not depend on it, whatever order the models come out in.
\<close>

theorem mergeRuntimeModels_deterministic:
  assumes "mset ms = mset (map snd (merged_models primary secondary))"
  shows "sort_func model_cmp ms = mergeRuntimeModels rt primary secondary"
proof -
  have "distinct (map ID (map snd (merged_models primary secondary)))"
    unfolding merged_ids using merged_ok_models by (simp add: merged_ok_def)
  then have "distinct (map ID ms)" using assms by (metis mset_eq_imp_distinct_iff mset_map)
  then have "inj_on (\<lambda>m. (\<not> Default m, mdl_Provider m, ID m)) (set ms)"
    by (auto simp: inj_on_def distinct_map)
  with assms show ?thesis unfolding mergeRuntimeModels_def by (rule models.sort_unique)
qed

theorem mergeRuntimeModels_deterministic_witness:
  "sort_func model_cmp (rev (map snd (merged_models catalog_Codex catalog_Pi)))
     = mergeRuntimeModels ''x'' catalog_Codex catalog_Pi"
  by (rule mergeRuntimeModels_deterministic) simp


section \<open>The registry\<close>

lemma build_backends_None: "build_backends u ds = None \<longleftrightarrow> (\<exists>d \<in> set ds. buildBackendRegistry u d = None)"
  by (induction ds) (auto split: option.split)

lemma build_backends_Some:
  "build_backends u ds = Some bs \<Longrightarrow> list_all2 (\<lambda>d b. buildBackendRegistry u d = Some b) ds bs"
  by (induction ds arbitrary: bs) (auto split: option.split_asm)

lemma buildBackendRegistry_None: "buildBackendRegistry u d = None \<longleftrightarrow> Runtime d = []"
  by (auto simp: buildBackendRegistry_def backendDisplayName_def Let_def split: option.split list.split)

text \<open>
  \<open>BuildModelRegistry\<close> returns a registry for every list of descriptors except when one of them
  has an empty runtime name: \<open>backendDisplayName\<close> then slices out of bounds and panics.
\<close>

lemma BuildModelRegistry_panics:
  "BuildModelRegistry u ds = None \<longleftrightarrow> (\<exists>d \<in> set ds. Runtime d = [])"
proof -
  have "BuildModelRegistry u ds = None \<longleftrightarrow> build_backends u ds = None"
    by (simp add: BuildModelRegistry_def split: option.split)
  then show ?thesis by (simp add: build_backends_None buildBackendRegistry_None)
qed

lemma registry_backend_built:
  assumes "BuildModelRegistry u ds = Some r" "b \<in> set (Backends r)"
  obtains d where "d \<in> set ds" "buildBackendRegistry u d = Some b"
proof -
  obtain bs where bs: "build_backends u ds = Some bs" "Backends r = sort_func backend_cmp bs"
    using assms(1) by (auto simp: BuildModelRegistry_def split: option.split_asm)
  then have "b \<in> set bs" using assms(2) by (simp add: backends.set_sort)
  then obtain i where i: "i < length bs" "bs ! i = b" by (auto simp: in_set_conv_nth)
  with build_backends_Some [OF bs(1)] have "i < length ds" "buildBackendRegistry u (ds ! i) = Some b"
    by (auto simp: list_all2_conv_all_nth)
  then show ?thesis by (meson nth_mem that)
qed

lemma find_member: "find P xs = Some x \<Longrightarrow> x \<in> set xs \<and> P x"
  by (induction xs) (auto split: if_split_asm)

lemma find_exists: "x \<in> set xs \<Longrightarrow> P x \<Longrightarrow> \<exists>y. find P xs = Some y"
  by (induction xs) auto

lemma first_with_member: "first_with P ms = Some i \<Longrightarrow> i \<in> ID ` set ms"
  by (auto simp: first_with_def dest: find_member)

lemma backendDefaultModel_member:
  "ms \<noteq> [] \<Longrightarrow> backendDefaultModel rt ms \<in> ID ` set ms"
proof -
  assume "ms \<noteq> []"
  then have hd: "(case ms of [] \<Rightarrow> [] | m # _ \<Rightarrow> ID m) \<in> ID ` set ms" by (cases ms) auto
  show ?thesis unfolding backendDefaultModel_def
    by (auto split: option.split intro: hd dest: first_with_member)
qed

definition backend_consistent :: "unicode \<Rightarrow> RuntimeBackendRegistry \<Rightarrow> bool" where
  "backend_consistent u b \<longleftrightarrow>
     (Models b \<noteq> [] \<longrightarrow> DefaultModel b \<in> ID ` set (Models b))
     \<and> DefaultProvider b = defaultProviderFromModel u (Models b) (DefaultModel b)
     \<and> (\<forall>a \<in> set (Aliases b). als_Model a \<in> ID ` set (Models b))"

lemma buildBackendRegistry_consistent:
  assumes "buildBackendRegistry u d = Some b"
  shows "backend_consistent u b"
proof -
  let ?ms = "backend_models u d"
  have b: "Models b = ?ms" "DefaultModel b = backendDefaultModel (Runtime d) ?ms"
    "DefaultProvider b = defaultProviderFromModel u ?ms (DefaultModel b)"
    "Aliases b = backendAliases (Runtime d) ?ms"
    using assms by (auto simp: buildBackendRegistry_def Let_def split: option.split_asm)
  have "als_Model a \<in> ID ` set ?ms" if "a \<in> set (backendAliases (Runtime d) ?ms)" for a
    using that by (auto simp: backendAliases_def aliases.set_sort list_ex_iff)
  with b backendDefaultModel_member [of ?ms "Runtime d"] show ?thesis
    by (auto simp: backend_consistent_def)
qed

lemma registry_backend_consistent:
  assumes "BuildModelRegistry u ds = Some r" "b \<in> set (Backends r)"
  shows "backend_consistent u b"
  using registry_backend_built [OF assms] buildBackendRegistry_consistent by blast

text \<open>
  C18. Every backend of a built registry is consistent: its default model is one of its models (if it
  has any), its default provider is that model's, and each of its aliases stands for one of its
  models.
\<close>

theorem BuildModelRegistry_consistent:
  assumes "BuildModelRegistry u ds = Some r" and "b \<in> set (Backends r)"
  shows "backend_consistent u b"
  using assms by (rule registry_backend_consistent)


definition plain_unicode :: unicode where
  "plain_unicode = \<lparr>uc_lower = (\<lambda>s. s), uc_quote = (\<lambda>s. dq # s @ [dq]),
     uc_equal_fold = (=)\<rparr>"

definition sample_descriptor :: "string \<Rightarrow> RuntimeDescriptor" where
  "sample_descriptor rt =
    \<lparr>dsc_SchemaVersion = ControlPlaneSchemaVersion, Runtime = rt, dsc_Ownership = [],
     dsc_Transport = [],
     dsc_Capabilities = \<lparr>cap_StartSession = True, cap_ResumeSession = True, cap_SendInput = True,
       cap_Interrupt = True, cap_Respond = True, cap_StopSession = True, cap_ListSessions = True,
       cap_StreamEvents = True, cap_ApprovalRequests = False, cap_UserInputRequests = False,
       cap_ImmediateProviderSession = False, cap_ResumeByProviderID = False,
       cap_AdoptExternalSessions = False, cap_TextGeneration = True, cap_Embeddings = False\<rparr>,
     Probe = None\<rparr>"

lemma trim_pi: "trim_space ''pi'' = ''pi''" "trim_space ''pi-default'' = ''pi-default''"
  by (simp_all add: trim_eval)

abbreviation pi_model :: RuntimeModel where
  "pi_model \<equiv> catalog_model ''pi-default'' ''Pi Default'' ''pi'' True pi_caps"

lemma sample_pi_models: "backend_models plain_unicode (sample_descriptor ''pi'') = [pi_model]"
  by (simp add: backend_models_def mergeRuntimeModels_def merged_models_def merge_secondary_def
      merge_primary_def probeModels_def sample_descriptor_def builtInModels_def catalog_Pi_def
      sort_func_def withDefaultCapabilities_def modelSupportsTask_def catalog_model_def pi_caps_def
      textGenerationCapabilities_def appendUnique_def no_capabilities_def
      isKnownTextGenerationRuntime_def)

definition sample_backend :: RuntimeBackendRegistry where
  "sample_backend = the (buildBackendRegistry plain_unicode (sample_descriptor ''pi''))"

lemma sample_backend_built: "buildBackendRegistry plain_unicode (sample_descriptor ''pi'') = Some sample_backend"
  using buildBackendRegistry_None [of plain_unicode "sample_descriptor ''pi''"]
  by (auto simp: sample_backend_def sample_descriptor_def)

lemma sample_backend_simps [simp]:
  "Backend sample_backend = ''pi''" "SupportsSession sample_backend" "Installed sample_backend"
  "Models sample_backend = [pi_model]" "DefaultModel sample_backend = ''pi-default''"
  "Aliases sample_backend = []" "DefaultProvider sample_backend = ''pi''"
proof -
  have pi: "Runtime (sample_descriptor ''pi'') = ''pi''" "Probe (sample_descriptor ''pi'') = None"
    "session_capable (sample_descriptor ''pi'')"
    by (simp_all add: sample_descriptor_def session_capable_def)
  show "Backend sample_backend = ''pi''" "SupportsSession sample_backend" "Installed sample_backend"
    "Models sample_backend = [pi_model]" "DefaultModel sample_backend = ''pi-default''"
    "Aliases sample_backend = []" "DefaultProvider sample_backend = ''pi''"
    by (simp_all add: sample_backend_def buildBackendRegistry_def sample_pi_models pi Let_def
        backendDisplayName_def backendDefaultModel_def first_with_def catalog_model_def
        backendAliases_def modelAliasesByBackend_def sort_func_def defaultProviderFromModel_def
        NormalizeRuntimeProvider_def NormalizeRuntimeBackend_def trim_pi to_lower_def is_ascii_def
        lower_char_def byte_simps)
qed

definition sample_registry :: ModelRegistry where
  "sample_registry = \<lparr>SchemaVersion = ControlPlaneSchemaVersion, Backends = [sample_backend]\<rparr>"

lemma sample_registry_built:
  "BuildModelRegistry plain_unicode [sample_descriptor ''pi''] = Some sample_registry"
  by (simp add: BuildModelRegistry_def sample_backend_built sample_registry_def sort_func_def)

theorem BuildModelRegistry_consistent_witness: "backend_consistent plain_unicode sample_backend"
  by (rule BuildModelRegistry_consistent [OF sample_registry_built]) (simp add: sample_registry_def)

section \<open>Validation of a target\<close>

lemma HasErrors_simps:
  "\<not> HasErrors res \<longleftrightarrow> (\<forall>i \<in> set (res_Issues res). Severity i \<noteq> SeverityError)"
  by (simp add: HasErrors_def list_ex_iff)

lemma validate_model_issues: "set issues \<subseteq> set (res_Issues (validate_model u b t issues))"
  by (auto simp: validate_model_def Let_def split: option.split)

lemma validate_model_Target:
  "tgt_Backend (Target (validate_model u b t issues)) = tgt_Backend t"
  by (auto simp: validate_model_def Let_def split: option.split)

lemma validate_model_found:
  "res_Model (validate_model u b t issues) = Some m \<Longrightarrow>
     registryModel b (resolveRegistryModelAlias b (tgt_Model t)) = Some m
     \<and> tgt_Model (Target (validate_model u b t issues)) = ID m"
  by (auto simp: validate_model_def Let_def split: option.split_asm option.split)

lemma backend_state_ok:
  "(\<forall>i \<in> set (backend_state_issues u b n). Severity i \<noteq> SeverityError)
     \<longleftrightarrow> SupportsSession b \<and> Installed b"
  by (cases "SupportsSession b"; cases "Installed b") (simp_all add: backend_state_issues_def issue_def)

lemma validate_model_provider:
  assumes "res_Model (validate_model u b t issues) = Some m" "\<not> HasErrors (validate_model u b t issues)"
  shows "tgt_Provider (Target (validate_model u b t issues)) = [] \<or> mdl_Provider m = [] \<or>
    tgt_Provider (Target (validate_model u b t issues)) = NormalizeRuntimeProvider u (mdl_Provider m)"
  using assms
  by (simp add: validate_model_def Let_def HasErrors_def issue_def firstNonEmpty.simps split: option.split_asm if_split_asm)

lemma validate_model_unlisted:
  assumes "res_Model (validate_model u b t issues) = None" "\<not> HasErrors (validate_model u b t issues)"
  shows "tgt_Model (Target (validate_model u b t issues)) = tgt_Model t \<and> list_ex Custom (Models b) \<and>
    HasIssueCode (validate_model u b t issues) ''model_unlisted'' \<and>
    registryModel b (resolveRegistryModelAlias b (tgt_Model t)) = None"
  using assms
  by (auto simp: validate_model_def Let_def HasErrors_simps HasIssueCode_def issue_def split: option.split_asm if_splits)


definition sample_target :: "string \<Rightarrow> RuntimeTarget" where
  "sample_target model =
    \<lparr>tgt_Backend = ''pi'', tgt_Provider = [], tgt_Model = model, tgt_Options = no_options\<rparr>"

lemma sample_default_options: "mdl_Provider pi_model = ''pi''" "DefaultOptions pi_model = []" "ID pi_model = ''pi-default''"
  by (simp_all add: catalog_model_def)

lemma sample_validated:
  "ValidateSessionTargetWithRegistry plain_unicode sample_registry (sample_target [])
     = \<lparr>Target = (sample_target ''pi-default'')\<lparr>tgt_Provider := ''pi''\<rparr>, res_Runtime = None,
        res_Model = Some pi_model, res_Issues = []\<rparr>"
  by (simp add: ValidateSessionTargetWithRegistry_def ResolveRuntimeTarget_def sample_target_def
      registryBackend_def sample_registry_def trim_pi to_lower_def is_ascii_def validate_model_def
      resolveRegistryModelAlias_def registryModel_def sample_default_options
      NormalizeRuntimeProvider_def NormalizeRuntimeBackend_def lower_char_def byte_simps
      backend_state_issues_def validateRuntimeModelOptions_def effort_issues_def level_issues_def
      budget_issues_def no_options_def Let_def)


text \<open>
  A blank model never fails for lack of a model: if the backend has a default model, the result
  reports one of the backend's models, whatever aliases there are.
\<close>

theorem ValidateSessionTarget_default:
  assumes built: "BuildModelRegistry u ds = Some r"
    and backend: "registryBackend r (tgt_Backend target) = Some b" "trim_space (tgt_Backend target) \<noteq> []"
    and blank: "trim_space (tgt_Model target) = []" "trim_space (DefaultModel b) \<noteq> []"
    and models: "Models b \<noteq> []"
  shows "\<exists>m \<in> set (Models b). res_Model (ValidateSessionTargetWithRegistry u r target) = Some m"
proof -
  have b: "b \<in> set (Backends r)" using backend(1) unfolding registryBackend_def by (auto dest: find_member)
  from registry_backend_consistent [OF built b] models
  have default: "DefaultModel b \<in> ID ` set (Models b)"
    and al: "\<forall>a \<in> set (Aliases b). als_Model a \<in> ID ` set (Models b)"
    by (auto simp: backend_consistent_def)
  have "resolveRegistryModelAlias b (DefaultModel b) \<in> ID ` set (Models b)"
    using default al by (auto simp: resolveRegistryModelAlias_def split: option.split dest!: find_member)
  then obtain m0 where "m0 \<in> set (Models b)" "ID m0 = resolveRegistryModelAlias b (DefaultModel b)" by auto
  then obtain m where m: "registryModel b (resolveRegistryModelAlias b (DefaultModel b)) = Some m"
    unfolding registryModel_def using find_exists [of m0 "Models b" "\<lambda>m. ID m = _"] by auto
  then have "m \<in> set (Models b)" unfolding registryModel_def by (auto dest: find_member)
  moreover have "res_Model (ValidateSessionTargetWithRegistry u r target) = Some m"
    using backend blank m
    by (simp add: ValidateSessionTargetWithRegistry_def ResolveRuntimeTarget_def validate_model_def Let_def)
  ultimately show ?thesis by blast
qed

theorem ValidateSessionTarget_default_witness:
  "\<exists>m \<in> set (Models sample_backend).
     res_Model (ValidateSessionTargetWithRegistry plain_unicode sample_registry (sample_target [])) = Some m"
  by (rule ValidateSessionTarget_default [OF sample_registry_built])
    (simp_all add: registryBackend_def sample_registry_def sample_target_def trim_pi)

section \<open>Backends that can hold a session\<close>

text \<open>
  \<open>ValidateSessionBackend\<close> accepts a name exactly when the first runtime with that name (blank
  stands for \<open>opencode\<close>) can start sessions and stream events and is not known to be missing;
  it returns that runtime.
\<close>

theorem ValidateSessionBackend_spec:
  "ValidateSessionBackend u ds backend = Inr d \<longleftrightarrow>
     find (\<lambda>d. Runtime d = (if trim_space backend = [] then ''opencode'' else backend)) ds = Some d
     \<and> session_capable d \<and> (case Probe d of None \<Rightarrow> True | Some p \<Rightarrow> prb_Installed p)"
proof -
  have "validate_backend_loop u all ds n = Inr d \<longleftrightarrow>
      find (\<lambda>d. Runtime d = n) ds = Some d \<and> session_capable d
      \<and> (case Probe d of None \<Rightarrow> True | Some p \<Rightarrow> prb_Installed p)" for all n
    by (induction ds) (auto simp: session_capable_def split: option.split)
  then show ?thesis by (simp only: ValidateSessionBackend_def)
qed

section \<open>Selections\<close>

definition last_default :: "RuntimeModelOption list \<Rightarrow> string \<Rightarrow> string" where
  "last_default opts d = (case filter opt_IsDefault opts of [] \<Rightarrow> d | ds \<Rightarrow> opt_Value (last ds))"

lemma resolve_loop_eq:
  "resolve_loop d want opts =
     (if want \<noteq> [] \<and> want \<in> opt_Value ` set opts then want else last_default opts d)"
proof (induction opts arbitrary: d)
  case Nil
  show ?case by (simp add: last_default_def)
next
  case (Cons opt opts)
  have "last_default (opt # opts) d = last_default opts (if opt_IsDefault opt then opt_Value opt else d)"
    by (simp add: last_default_def split: list.split)
  with Cons show ?case by (cases "want = []") simp_all
qed

lemma last_default_member: "last_default opts [] = [] \<or> last_default opts [] \<in> opt_Value ` set opts"
proof (cases "filter opt_IsDefault opts")
  case Nil
  then show ?thesis by (simp add: last_default_def)
next
  case (Cons o1 os)
  then have "last (o1 # os) \<in> set opts" by (metis filter_is_subset last_in_set list.discI subsetD)
  with Cons show ?thesis by (simp add: last_default_def)
qed

lemma resolveEffort_member:
  "resolveEffort caps raw = [] \<or> resolveEffort caps raw \<in> opt_Value ` set (ReasoningEffortLevels caps)"
  using last_default_member by (simp add: resolveEffort_def resolve_loop_eq)

text \<open>
  The choice among the options of a model: the wanted value if the model offers it, else the
  model's (last) default; the result is always something the model offers, or empty.
\<close>

theorem resolveEffort_spec:
  "resolveEffort caps raw =
     (if trim_space raw \<noteq> [] \<and> trim_space raw \<in> opt_Value ` set (ReasoningEffortLevels caps)
      then trim_space raw
      else (case filter opt_IsDefault (ReasoningEffortLevels caps) of
              [] \<Rightarrow> [] | ds \<Rightarrow> opt_Value (last ds)))
   \<and> (resolveEffort caps raw = [] \<or> resolveEffort caps raw \<in> opt_Value ` set (ReasoningEffortLevels caps))"
  using resolveEffort_member [of caps raw]
  by (simp add: resolveEffort_def resolve_loop_eq last_default_def)


fun first_some :: "'a option list \<Rightarrow> 'a option" where
  "first_some [] = None"
| "first_some (None # vs) = first_some vs"
| "first_some (Some v # vs) = Some v"

fun first_pos :: "int list \<Rightarrow> int" where
  "first_pos [] = 0"
| "first_pos (v # vs) = (if 0 < v then v else first_pos vs)"

text \<open>
  Merging option sets: every option of the result is the first argument's that sets it (strings
  trimmed, blank ones ignored), so earlier arguments win over later ones.
\<close>

theorem MergeModelOptions_first_wins:
  "MergeModelOptions vs =
    \<lparr>ReasoningEffort = firstNonEmpty (map ReasoningEffort vs),
     ThinkingLevel = firstNonEmpty (map ThinkingLevel vs),
     ThinkingBudget = first_some (map ThinkingBudget vs),
     MaxOutputTokens = first_pos (map MaxOutputTokens vs),
     Temperature = first_some (map Temperature vs),
     TopP = first_some (map TopP vs),
     BaseURL = firstNonEmpty (map BaseURL vs),
     APIKeyEnv = firstNonEmpty (map APIKeyEnv vs),
     APIKey = firstNonEmpty (map APIKey vs),
     OAuthTokenURL = firstNonEmpty (map OAuthTokenURL vs),
     OAuthClientID = firstNonEmpty (map OAuthClientID vs),
     OAuthClientSecret = firstNonEmpty (map OAuthClientSecret vs),
     ResponseSchema = first_some (map ResponseSchema vs),
     Logprobs = list_ex Logprobs vs,
     TopLogprobs = first_pos (map TopLogprobs vs)\<rparr>"
proof -
  have opt: "over_option v (first_some ws) = first_some (v # ws)" for v :: "'b option" and ws
    by (cases v) (simp_all add: over_option_def)
  show ?thesis
    by (induction vs)
      (simp_all add: MergeModelOptions_def no_options_def merge_over_def over_string_def over_pos_def
        opt [symmetric] split: if_split)
qed

lemma normalize_options_other:
  "sel_Pi (normalizeProviderSpecificOptions s m) = sel_Pi s"
  "sel_OpenAICompat (normalizeProviderSpecificOptions s m) = sel_OpenAICompat s"
  "sel_Provider (normalizeProviderSpecificOptions s m) = sel_Provider s"
  "sel_Model (normalizeProviderSpecificOptions s m) = sel_Model s"
  "sel_Codex s = None \<Longrightarrow> sel_Codex (normalizeProviderSpecificOptions s m) = None"
  "sel_Claude s = None \<Longrightarrow> sel_Claude (normalizeProviderSpecificOptions s m) = None"
  "sel_Gemini s = None \<Longrightarrow> sel_Gemini (normalizeProviderSpecificOptions s m) = None"
  "sel_OpenCode s = None \<Longrightarrow> sel_OpenCode (normalizeProviderSpecificOptions s m) = None"
  by (simp_all add: normalizeProviderSpecificOptions_def Let_def)

lemma NormalizeModelSelection_cases:
  obtains s where "sel_Provider s = normalizeProviderKind u (sel_Provider selection)"
      "sel_OpenAICompat s = sel_OpenAICompat selection"
      "NormalizeModelSelection u r selection = clear_other_providers s"
      "\<And>b. registryBackend r (sel_Provider s) = Some b \<Longrightarrow>
        registryModel b (sel_Model (clear_other_providers s)) = None"
  | s m b where "sel_Provider s = normalizeProviderKind u (sel_Provider selection)"
      "sel_OpenAICompat s = sel_OpenAICompat selection"
      "registryBackend r (sel_Provider s) = Some b"
      "registryModel b (sel_Model (clear_other_providers s)) = Some m"
      "NormalizeModelSelection u r selection = normalizeProviderSpecificOptions (clear_other_providers s) m"
proof -
  let ?s1 = "selection\<lparr>sel_Provider := normalizeProviderKind u (sel_Provider selection)\<rparr>"
  let ?b = "registryBackend r (sel_Provider ?s1)"
  let ?s2 = "if sel_Model ?s1 = [] then
               (case ?b of Some b \<Rightarrow> ?s1\<lparr>sel_Model := DefaultModel b\<rparr> | None \<Rightarrow> ?s1) else ?s1"
  define s where "s = (case ?b of Some b \<Rightarrow> ?s2\<lparr>sel_Model := resolveRegistryModelAlias b (sel_Model ?s2)\<rparr>
                       | None \<Rightarrow> ?s2)"
  have s: "sel_Provider s = normalizeProviderKind u (sel_Provider selection)"
    "sel_OpenAICompat s = sel_OpenAICompat selection"
    by (simp_all add: s_def split: option.split)
  have eq: "NormalizeModelSelection u r selection =
      (case ?b of None \<Rightarrow> clear_other_providers s
       | Some b \<Rightarrow> (case registryModel b (sel_Model (clear_other_providers s)) of
            None \<Rightarrow> clear_other_providers s
          | Some m \<Rightarrow> normalizeProviderSpecificOptions (clear_other_providers s) m))"
    unfolding NormalizeModelSelection_def Let_def s_def ..
  show ?thesis
  proof (cases ?b)
    case None
    with eq s show ?thesis by (intro that(1) [of s]) simp_all
  next
    case b: (Some b)
    show ?thesis
    proof (cases "registryModel b (sel_Model (clear_other_providers s))")
      case None
      with b eq s show ?thesis by (intro that(1) [of s]) simp_all
    next
      case (Some m)
      with b eq s show ?thesis by (intro that(2) [of s b m]) simp_all
    qed
  qed
qed

definition other_options_dropped :: "ModelSelection \<Rightarrow> bool" where
  "other_options_dropped s =
    (if sel_Provider s = ''codex'' then
       sel_Claude s = None \<and> sel_Gemini s = None \<and> sel_OpenCode s = None \<and> sel_Pi s = None
     else if sel_Provider s = ''claude'' then
       sel_Codex s = None \<and> sel_Gemini s = None \<and> sel_OpenCode s = None \<and> sel_Pi s = None
     else if sel_Provider s = ''gemini'' then
       sel_Codex s = None \<and> sel_Claude s = None \<and> sel_OpenCode s = None \<and> sel_Pi s = None
     else if sel_Provider s = ''opencode'' then
       sel_Codex s = None \<and> sel_Claude s = None \<and> sel_Gemini s = None \<and> sel_Pi s = None
     else if sel_Provider s = ''pi'' then
       sel_Codex s = None \<and> sel_Claude s = None \<and> sel_Gemini s = None \<and> sel_OpenCode s = None
     else if sel_Provider s = ''openai-compatible'' then
       sel_Codex s = None \<and> sel_Claude s = None \<and> sel_Gemini s = None \<and> sel_OpenCode s = None
       \<and> sel_Pi s = None
     else True)"

lemma clear_other_providers_simps:
  "sel_Provider (clear_other_providers t) = sel_Provider t"
  "other_options_dropped (clear_other_providers t)"
  "sel_OpenAICompat (clear_other_providers t) =
     (if sel_Provider t \<in> {''opencode'', ''pi''} then None else sel_OpenAICompat t)"
  by (simp_all add: clear_other_providers_def other_options_dropped_def)

lemma other_options_dropped_specific:
  "other_options_dropped s \<Longrightarrow> other_options_dropped (normalizeProviderSpecificOptions s m)"
  by (simp add: other_options_dropped_def normalize_options_other split: if_split_asm)

text \<open>
  What a normalized selection keeps: the options of the selected provider only, with one
  exception. For Codex, Claude and Gemini the options of an OpenAI-compatible endpoint (a URL
  and a key) stay in the selection, while for OpenCode and Pi they are dropped.
\<close>

theorem NormalizeModelSelection_keeps:
  "sel_Provider (NormalizeModelSelection u r selection) = normalizeProviderKind u (sel_Provider selection)
   \<and> other_options_dropped (NormalizeModelSelection u r selection)
   \<and> sel_OpenAICompat (NormalizeModelSelection u r selection) =
       (if sel_Provider (NormalizeModelSelection u r selection) \<in> {''opencode'', ''pi''} then None
        else sel_OpenAICompat selection)"
  by (cases rule: NormalizeModelSelection_cases [of u selection r])
    (simp_all add: normalize_options_other clear_other_providers_simps other_options_dropped_specific)

lemma effort_issues_resolved:
  assumes "\<forall>opt \<in> set (ReasoningEffortLevels caps). trim_space (opt_Value opt) = opt_Value opt"
    and "ReasoningEffort (tgt_Options t) = trim_space (resolveEffort caps raw)"
  shows "effort_issues u t caps = []"
proof -
  have idem: "trim_space (trim_space (resolveEffort caps raw)) = resolveEffort caps raw"
    using resolveEffort_member [of caps raw] assms(1) by auto
  show ?thesis
    using resolveEffort_member [of caps raw] assms(2)
    by (auto simp: effort_issues_def idem runtimeModelOptionExists_def list_ex_iff Let_def)
qed

lemma effort_target:
  assumes "sel_Provider n = ''codex'' \<or> sel_Provider n = ''claude''"
  shows "ThinkingLevel (tgt_Options (RuntimeTargetFromSelection n)) = []"
    "ThinkingBudget (tgt_Options (RuntimeTargetFromSelection n)) = None"
    "ReasoningEffort (tgt_Options (RuntimeTargetFromSelection n)) =
       (if sel_Provider n = ''codex''
        then (case sel_Codex n of None \<Rightarrow> [] | Some c \<Rightarrow> trim_space (cdx_ReasoningEffort c))
        else (case sel_Claude n of None \<Rightarrow> [] | Some c \<Rightarrow> trim_space (cld_Effort c)))"
  using assms by (auto simp: RuntimeTargetFromSelection_def no_options_def Let_def split: option.split)

text \<open>
  C19. Normalizing and validating fit together: the target made from a normalized Codex or Claude
  selection whose model is in the registry passes the check of its options, whatever effort the
  selection asked for (the registry's effort values carry no white space around them).
\<close>

theorem normalized_selection_options_valid:
  assumes prov: "normalizeProviderKind u (sel_Provider selection) \<in> {''codex'', ''claude''}"
    and backend: "registryBackend r (normalizeProviderKind u (sel_Provider selection)) = Some b"
    and model: "registryModel b (sel_Model (NormalizeModelSelection u r selection)) = Some m"
    and trimmed: "\<forall>opt \<in> set (ReasoningEffortLevels (Capabilities m)). trim_space (opt_Value opt) = opt_Value opt"
  shows "validateRuntimeModelOptions u
           (RuntimeTargetFromSelection (NormalizeModelSelection u r selection)) m = []"
proof (cases rule: NormalizeModelSelection_cases [of u selection r])
  case (1 s)
  with backend model show ?thesis by simp
next
  case (2 s m' b')
  let ?c = "clear_other_providers s"
  let ?n = "normalizeProviderSpecificOptions ?c m'"
  have m': "m' = m" using 2 backend model by (simp add: normalize_options_other)
  have p: "sel_Provider ?c = ''codex'' \<or> sel_Provider ?c = ''claude''"
    using prov 2(1) by (simp add: clear_other_providers_simps)
  let ?t = "RuntimeTargetFromSelection ?n"
  have pn: "sel_Provider ?n = ''codex'' \<or> sel_Provider ?n = ''claude''"
    using p by (simp add: normalize_options_other)
  have other: "level_issues u ?t caps = []" "budget_issues u ?t caps = []" for caps
    by (simp_all add: level_issues_def budget_issues_def effort_target [OF pn])
  have "ReasoningEffort (tgt_Options ?t) = []
      \<or> (\<exists>raw. ReasoningEffort (tgt_Options ?t) = trim_space (resolveEffort (Capabilities m) raw))"
    unfolding effort_target [OF pn]
    using p by (auto simp: m' normalizeProviderSpecificOptions_def Let_def split: option.split)
  then have "effort_issues u ?t (Capabilities m) = []"
    using effort_issues_resolved [OF trimmed] by (auto simp: effort_issues_def)
  with other 2 show ?thesis by (simp add: validateRuntimeModelOptions_def)
qed

lemma clear_other_providers_model: "sel_Model (clear_other_providers t) = sel_Model t"
  by (simp add: clear_other_providers_def)

lemma NormalizeModelSelection_model:
  "registryBackend r (normalizeProviderKind u (sel_Provider selection)) = Some b \<Longrightarrow>
     sel_Model (NormalizeModelSelection u r selection) =
       resolveRegistryModelAlias b (if sel_Model selection = [] then DefaultModel b else sel_Model selection)"
  by (simp add: NormalizeModelSelection_def Let_def clear_other_providers_model normalize_options_other
      split: option.split)

definition codex_backend :: RuntimeBackendRegistry where
  "codex_backend = sample_backend\<lparr>Backend := ''codex'', Models := catalog_Codex\<rparr>"

definition codex_registry :: ModelRegistry where
  "codex_registry = \<lparr>SchemaVersion = ControlPlaneSchemaVersion, Backends = [codex_backend]\<rparr>"

definition codex_selection :: ModelSelection where
  "codex_selection =
    \<lparr>sel_Provider = ''codex'', sel_Model = ''gpt-5.4'',
     sel_Codex = Some \<lparr>cdx_ReasoningEffort = ''turbo'', cdx_FastMode = None\<rparr>, sel_Claude = None,
     sel_Gemini = None, sel_OpenCode = None, sel_Pi = None, sel_OpenAICompat = None\<rparr>"

lemma codex_kind: "normalizeProviderKind u ''codex'' = ''codex''"
  by (simp add: normalizeProviderKind_def NormalizeRuntimeBackend_def trim_eval to_lower_def
      is_ascii_def lower_char_def byte_simps)

lemma effort_values_trimmed:
  "trim_space ''xhigh'' = ''xhigh''" "trim_space ''high'' = ''high''" "trim_space ''medium'' = ''medium''"
  "trim_space ''low'' = ''low''"
  by (simp_all add: trim_eval)

theorem normalized_selection_options_valid_witness:
  "validateRuntimeModelOptions plain_unicode
     (RuntimeTargetFromSelection (NormalizeModelSelection plain_unicode codex_registry codex_selection))
     (hd catalog_Codex) = []"
proof (rule normalized_selection_options_valid)
  have c: "normalizeProviderKind plain_unicode (sel_Provider codex_selection) = ''codex''"
    by (simp add: codex_selection_def codex_kind)
  then show "normalizeProviderKind plain_unicode (sel_Provider codex_selection) \<in> {''codex'', ''claude''}" by simp
  show b: "registryBackend codex_registry (normalizeProviderKind plain_unicode (sel_Provider codex_selection))
      = Some codex_backend"
    unfolding c by (simp add: registryBackend_def codex_registry_def codex_backend_def)
  show "registryModel codex_backend (sel_Model (NormalizeModelSelection plain_unicode codex_registry codex_selection))
      = Some (hd catalog_Codex)"
    unfolding NormalizeModelSelection_model [OF b]
    by (simp add: codex_selection_def codex_backend_def resolveRegistryModelAlias_def
        registryModel_def catalog_Codex_def catalog_model_def)
  show "\<forall>opt \<in> set (ReasoningEffortLevels (Capabilities (hd catalog_Codex))). trim_space (opt_Value opt) = opt_Value opt"
    by (simp add: catalog_Codex_def catalog_model_def codex_caps_def textGenerationCapabilities_def
        no_capabilities_def option_of_def effort_values_trimmed)
qed

end
