(* ===== verification/JsonExtract.thy ===== *)
theory JsonExtract
  imports Json GoLib
begin

text \<open>
  \<^verbatim>\<open>pkg/controlplane/json_extract.go\<close>: finds a JSON object in the text a model wrote. The
  parser that judges a candidate is an argument, as it is in the code: it gives an error or the
  rendered text and the normalised JSON.
\<close>

section \<open>Candidates\<close>

text \<open>
  \<open>json.Decoder\<close> on a text that begins with an object: it reads the bytes up to the brace that
  closes the object and does not look further. The result is the length of the value.
\<close>

definition value_ended :: "jconf \<Rightarrow> bool" where
  "value_ended cf = (case cf of (EndVal v, []) \<Rightarrow> True | _ \<Rightarrow> False)"

fun value_end :: "jconf \<Rightarrow> nat \<Rightarrow> string \<Rightarrow> nat option" where
  "value_end cf i [] = None"
| "value_end cf i (c # cs) =
    (case jstep cf c of
       None \<Rightarrow> None
     | Some cf' \<Rightarrow> if value_ended cf' then Some (Suc i) else value_end cf' (Suc i) cs)"

definition decode_raw :: "string \<Rightarrow> string option" where
  "decode_raw s = map_option (\<lambda>n. take n s) (value_end (BeginValue, []) 0 s)"

definition json_object_like :: "string \<Rightarrow> bool" where
  "json_object_like s \<longleftrightarrow> has_prefix s ''{'' \<and> has_suffix s ''}''"

definition add_candidate :: "string list \<Rightarrow> string \<Rightarrow> string list" where
  "add_candidate out c = (if containsString out c then out else out @ [c])"

text \<open>The argument is the text from the current position on: the loop over \<open>output[start:]\<close>.\<close>

fun balanced_loop :: "string list \<Rightarrow> string \<Rightarrow> string list" where
  "balanced_loop out [] = out"
| "balanced_loop out (c # cs) =
    balanced_loop
      (if c = CHR ''{'' then
         (case decode_raw (c # cs) of
            None \<Rightarrow> out
          | Some raw \<Rightarrow>
              if json_object_like (trim_space raw) then add_candidate out (trim_space raw) else out)
       else out) cs"

definition balancedJSONObjectCandidates :: "string \<Rightarrow> string list" where
  "balancedJSONObjectCandidates output = balanced_loop [] output"

definition outer_candidate :: "string \<Rightarrow> string option" where
  "outer_candidate output =
    (case (index_of output ''{'', last_index_byte output (CHR ''}'')) of
       (Some i, Some j) \<Rightarrow> if i < j then Some (trim_space (slice output i (j + 1))) else None
     | _ \<Rightarrow> None)"

definition JSONObjectCandidates :: "string \<Rightarrow> string list" where
  "JSONObjectCandidates output =
    (let trimmed = trim_space output;
         out = (if json_object_like trimmed then [trimmed] else []);
         out = foldl add_candidate out (balancedJSONObjectCandidates output)
     in (case outer_candidate output of None \<Rightarrow> out | Some c \<Rightarrow> add_candidate out c))"

section \<open>The search\<close>

type_synonym 'e json_parser = "string \<Rightarrow> 'e + string \<times> string"

text \<open>A search ends with a result or goes on with \<open>fallback\<close> and \<open>lastErr\<close>.\<close>

datatype 'e search = Found string string | Searching string "'e option"

definition keep_fallback :: "string \<Rightarrow> string \<Rightarrow> string" where
  "keep_fallback fallback s = (if fallback = [] then s else fallback)"

text \<open>Among the lines, a result without normalised JSON only becomes the fallback.\<close>

fun line_candidates :: "'e json_parser \<Rightarrow> string list \<Rightarrow> string \<Rightarrow> 'e option \<Rightarrow> 'e search" where
  "line_candidates parser [] fallback lastErr = Searching fallback lastErr"
| "line_candidates parser (c # cs) fallback lastErr =
    (case parser c of
       Inl e \<Rightarrow> line_candidates parser cs fallback (Some e)
     | Inr (rendered, normalised) \<Rightarrow>
         if normalised \<noteq> [] then Found rendered normalised
         else line_candidates parser cs rendered lastErr)"

fun line_loop :: "'e json_parser \<Rightarrow> string list \<Rightarrow> string \<Rightarrow> 'e option \<Rightarrow> 'e search" where
  "line_loop parser [] fallback lastErr = Searching fallback lastErr"
| "line_loop parser (l # ls) fallback lastErr =
    (let line = trim_space l in
     if line = [] then line_loop parser ls fallback lastErr
     else (case line_candidates parser (JSONObjectCandidates line) (keep_fallback fallback line) lastErr of
             Found r n \<Rightarrow> Found r n
           | Searching fb e \<Rightarrow> line_loop parser ls fb e))"

fun any_candidates :: "'e json_parser \<Rightarrow> string list \<Rightarrow> string \<Rightarrow> 'e option \<Rightarrow> 'e search" where
  "any_candidates parser [] fallback lastErr = Searching fallback lastErr"
| "any_candidates parser (c # cs) fallback lastErr =
    (case parser c of
       Inl e \<Rightarrow> any_candidates parser cs fallback (Some e)
     | Inr (rendered, normalised) \<Rightarrow> Found rendered normalised)"

text \<open>The lines from the last one back to the first: \<open>todo\<close> holds those before, last first.\<close>

fun suffix_loop :: "'e json_parser \<Rightarrow> string list \<Rightarrow> string list \<Rightarrow> string \<Rightarrow> 'e option \<Rightarrow> 'e search" where
  "suffix_loop parser [] rest fallback lastErr = Searching fallback lastErr"
| "suffix_loop parser (l # todo) rest fallback lastErr =
    (let sfx = trim_space (join_str [nl] (l # rest)) in
     if sfx = [] then suffix_loop parser todo (l # rest) fallback lastErr
     else (case any_candidates parser (JSONObjectCandidates sfx) (keep_fallback fallback sfx) lastErr of
             Found r n \<Rightarrow> Found r n
           | Searching fb e \<Rightarrow> suffix_loop parser todo (l # rest) fb e))"

definition search_output :: "'e json_parser \<Rightarrow> string \<Rightarrow> 'e search" where
  "search_output parser output =
    (let ls = split_byte nl output in
     case line_loop parser ls [] None of
       Found r n \<Rightarrow> Found r n
     | Searching fb e \<Rightarrow>
         (case suffix_loop parser (rev ls) [] fb e of
            Found r n \<Rightarrow> Found r n
          | Searching fb e \<Rightarrow> any_candidates parser (JSONObjectCandidates output) fb e))"

definition ExtractStructuredJSON ::
  "'e json_parser \<Rightarrow> string \<Rightarrow> string \<times> string \<times> 'e option" where
  "ExtractStructuredJSON parser output =
    (case search_output parser output of
       Found r n \<Rightarrow> (r, n, None)
     | Searching fb e \<Rightarrow> (trim_space (firstNonEmpty [fb, output]), [], e))"

end
