(* ===== verification/JsonExtractSpec.thy ===== *)
theory JsonExtractSpec
  imports JsonExtract ToolExtractSpec
begin

text \<open>
  The properties of the search for a JSON object in the text of a model: what it finds stands in
  the text, and it finds an object whenever the parser accepts one that stands there.
\<close>

section \<open>Pieces of the output\<close>

lemma sublist_take_drop: "sublist (take n (drop k s)) s"
  by (meson sublist_drop sublist_order.order.trans sublist_take)

lemma sublist_trim_space: "sublist (trim_space s) s"
proof -
  have "prefix (trim_space s) (trim_left_space s)"
    using suffix_trim_right_space_rev [of "rev (trim_left_space s)"]
    by (simp add: trim_space_def suffix_to_prefix)
  then show ?thesis
    by (meson prefix_imp_sublist suffix_imp_sublist suffix_trim_left_space sublist_order.order.trans)
qed

lemma trim_object: "json_object_like s \<Longrightarrow> trim_space s = s"
proof -
  assume s: "json_object_like s"
  then obtain t where t: "s = CHR ''{'' # t"
    by (cases s) (auto simp: json_object_like_def)
  from s obtain u where u: "rev s = CHR ''}'' # u"
    by (cases "rev s") (auto simp: json_object_like_def has_suffix_def)
  have "trim_left_space s = s" unfolding t by (rule trim_left_space_id) (simp add: ascii_space_def byte_between_def split: list.split)
  moreover have "trim_right_space_rev (rev s) = rev s" unfolding u by (rule trim_right_space_rev_id) (simp add: ascii_space_def byte_between_def split: list.split)
  ultimately show ?thesis by (simp add: trim_space_def)
qed

lemma split_byte_not_Nil [simp]: "split_byte c s \<noteq> []"
  by (induction s) (auto split: list.split)

lemma join_Cons: "ls \<noteq> [] \<Longrightarrow> join_str sep (l # ls) = l @ sep @ join_str sep ls"
  by (cases ls) auto

lemma join_split: "join_str [c] (split_byte c s) = s"
proof (induction s)
  case (Cons a s)
  then show ?case by (cases "split_byte c s"; cases "tl (split_byte c s)") auto
qed simp

lemma sublist_join: "l \<in> set ls \<Longrightarrow> sublist l (join_str sep ls)"
proof (induction ls)
  case (Cons x xs)
  show ?case
  proof (cases "xs = []")
    case False
    then show ?thesis using Cons by (auto simp: join_Cons sublist_append)
  qed (use Cons in simp)
qed simp

lemma sublist_join_suffix: "ls \<noteq> [] \<Longrightarrow> sublist (join_str sep ls) (join_str sep (xs @ ls))"
  by (induction xs) (auto simp: join_Cons sublist_append)

section \<open>Reading one object\<close>

lemma value_end_run:
  "value_end cf i s = Some n \<Longrightarrow>
   i < n \<and> n \<le> i + length s \<and> (\<exists>v. jrun cf (take (n - i) s) = Some (EndVal v, []))"
proof (induction cf i s rule: value_end.induct)
  case (2 cf i c cs)
  then obtain cf' where step: "jstep cf c = Some cf'" by (cases "jstep cf c") auto
  show ?case
  proof (cases "value_ended cf'")
    case True
    then show ?thesis using 2(2) step
      by (auto simp: value_ended_def split: prod.splits jst.splits list.splits)
  next
    case False
    with 2(2) step have *: "value_end cf' (Suc i) cs = Some n" by simp
    from 2(1) [OF step False *] obtain v
      where v: "Suc i < n" "n \<le> Suc i + length cs" "jrun cf' (take (n - Suc i) cs) = Some (EndVal v, [])"
      by blast
    then have "n - i = Suc (n - Suc i)" by simp
    then have "take (n - i) (c # cs) = c # take (n - Suc i) cs" by simp
    with v step show ?thesis by auto
  qed
qed simp

lemma decode_raw_prefix: "decode_raw s = Some raw \<Longrightarrow> prefix raw s"
  by (auto simp: decode_raw_def take_is_prefix)

lemma value_end_exact:
  "jrun cf (s @ [c]) = Some (EndVal v, []) \<Longrightarrow> \<not> json_ws c \<Longrightarrow>
   value_end cf i (s @ c # post) = Some (i + length s + 1)"
proof (induction s arbitrary: cf i)
  case Nil
  then show ?case by (auto simp: value_ended_def split: option.splits)
next
  case (Cons a s)
  then obtain cf' where step: "jstep cf a = Some cf'" and run: "jrun cf' (s @ [c]) = Some (EndVal v, [])"
    by (auto split: option.splits)
  have "\<not> value_ended cf'"
  proof
    assume "value_ended cf'"
    then obtain w where "cf' = (EndVal w, [])"
      by (auto simp: value_ended_def split: prod.splits jst.splits list.splits)
    with run run_after_end have "list_all json_ws (s @ [c])" by blast
    with \<open>\<not> json_ws c\<close> show False by simp
  qed
  with step Cons.IH [OF run \<open>\<not> json_ws c\<close>, of "Suc i"] show ?case by simp
qed

lemma jrun_lit_ok: "jrun (st, fs) s = Some (st', fs') \<Longrightarrow> lit_ok st \<Longrightarrow> lit_ok st'"
proof (induction s arbitrary: st fs)
  case (Cons c s)
  then obtain st1 fs1 where step: "jstep (st, fs) c = Some (st1, fs1)"
    and run: "jrun (st1, fs1) s = Some (st', fs')" by (auto split: option.splits)
  from Cons.IH [OF run jstep_lit_ok [OF step Cons.prems(2)]] show ?case .
qed simp

lemma step_brace_value:
  assumes "jstep (st0, fs0) (CHR ''}'') = Some (st, fs)" "\<not> in_string st0" "lit_ok st0"
  shows "\<exists>w. st = EndVal w"
  using assms end_value_brace
  by (cases st0)
    (auto simp: in_string_def lit_ok_def begin_value_def push_frame_def
      split: if_split_asm list.split_asm jframe.split_asm)

lemma decode_raw_object:
  assumes "json_valid obj" "json_object_like obj"
  shows "decode_raw (obj @ post) = Some obj"
proof -
  from assms(2) obtain s where s: "obj = s @ ''}''"
    by (cases obj rule: rev_cases) (auto simp: json_object_like_def has_suffix_def)
  from assms(1) obtain v where "jrun (BeginValue, []) (obj @ '' '') = Some (EndVal v, [])"
    by (auto simp: json_valid_def json_parse_def split: option.splits jst.splits list.splits prod.splits)
  then obtain cf where run: "jrun (BeginValue, []) obj = Some cf"
    and last: "jstep cf (CHR '' '') = Some (EndVal v, [])"
    by (auto simp: jrun_append split: option.splits)
  obtain st fs where cf: "cf = (st, fs)" by (cases cf)
  from run obtain st0 fs0 where run0: "jrun (BeginValue, []) s = Some (st0, fs0)"
    and step: "jstep (st0, fs0) (CHR ''}'') = Some (st, fs)"
    by (auto simp: s cf jrun_append split: option.splits)
  have lit: "lit_ok st0" using jrun_lit_ok [OF run0] by (simp add: lit_ok_def)
  have "\<not> in_string st"
    using last jstep_in_string [of st fs "CHR '' ''" "EndVal v" "[]"] jstep_lit_ok [OF step lit]
    by (auto simp: cf in_string_def)
  then have "\<not> in_string st0" using jstep_in_string [OF step lit] by (auto split: if_splits)
  then obtain w where "st = EndVal w" using step_brace_value step lit by blast
  with last have "cf = (EndVal w, [])"
    by (cases "(w, fs, CHR '' '')" rule: end_value.cases) (auto simp: cf)
  with run have "value_end (BeginValue, []) 0 (s @ CHR ''}'' # post) = Some (0 + length s + 1)"
    by (intro value_end_exact [where v = w]) (auto simp: s)
  then show ?thesis by (simp add: decode_raw_def s)
qed

section \<open>The candidates\<close>

lemma set_balanced_loop:
  "set (balanced_loop out s) = set out \<union>
     {trim_space raw |raw p t. s = p @ CHR ''{'' # t \<and> decode_raw (CHR ''{'' # t) = Some raw
        \<and> json_object_like (trim_space raw)}"
proof (induction s arbitrary: out)
  case (Cons c s)
  let ?new = "if c = CHR ''{'' then
         (case decode_raw (c # s) of None \<Rightarrow> {}
          | Some raw \<Rightarrow> if json_object_like (trim_space raw) then {trim_space raw} else {}) else {}"
  have "set (balanced_loop out (c # s)) = (set out \<union> ?new) \<union>
     {trim_space raw |raw p t. s = p @ CHR ''{'' # t \<and> decode_raw (CHR ''{'' # t) = Some raw
        \<and> json_object_like (trim_space raw)}"
    by (simp add: Cons add_candidate_def containsString_def insert_absorb split: option.split)
  also have "\<dots> = set out \<union>
     {trim_space raw |raw p t. c # s = p @ CHR ''{'' # t \<and> decode_raw (CHR ''{'' # t) = Some raw
        \<and> json_object_like (trim_space raw)}"
    by (auto simp: Cons_eq_append_conv split: option.splits if_splits)
  finally show ?case .
qed auto

lemma set_add_candidates: "set (foldl add_candidate out cs) = set out \<union> set cs"
  by (induction cs arbitrary: out) (auto simp: add_candidate_def containsString_def)

lemma set_candidates:
  "set (JSONObjectCandidates s) =
     (if json_object_like (trim_space s) then {trim_space s} else {})
     \<union> set (balanced_loop [] s) \<union> (case outer_candidate s of None \<Rightarrow> {} | Some c \<Rightarrow> {c})"
  by (auto simp add: JSONObjectCandidates_def Let_def set_add_candidates balancedJSONObjectCandidates_def
      add_candidate_def containsString_def split: option.split)

lemma candidate_complete:
  assumes "sublist c s" "json_valid c" "json_object_like c"
  shows "c \<in> set (JSONObjectCandidates s)"
proof -
  from assms(1) obtain p q where s: "s = p @ c @ q" by (auto simp: sublist_def)
  from assms(3) obtain t where t: "c = CHR ''{'' # t" by (cases c) (auto simp: json_object_like_def)
  have "decode_raw (CHR ''{'' # t @ q) = Some c"
    using decode_raw_object [OF assms(2,3), of q] by (simp add: t)
  then have "\<exists>raw p' t'. c = trim_space raw \<and> s = p' @ CHR ''{'' # t'
      \<and> decode_raw (CHR ''{'' # t') = Some raw \<and> json_object_like (trim_space raw)"
    using assms(3) trim_object [OF assms(3)]
    by (intro exI [of _ c] exI [of _ p] exI [of _ "t @ q"]) (simp add: s t)
  then have "c \<in> set (balanced_loop [] s)" by (simp add: set_balanced_loop)
  then show ?thesis by (simp add: set_candidates)
qed

lemma index_of_byte: "index_of s [c] = Some i \<Longrightarrow> i < length s \<and> s ! i = c"
proof (induction s arbitrary: i)
  case (Cons a s)
  then show ?case by (cases i) (auto split: if_splits)
qed simp

lemma last_index_byte_nth: "last_index_byte s c = Some j \<Longrightarrow> j < length s \<and> s ! j = c"
proof -
  assume j: "last_index_byte s c = Some j"
  then have c: "c \<in> set (rev s)" by (auto simp: last_index_byte_def split: if_splits)
  then obtain xs ys where r: "rev s = xs @ c # ys" and "c \<notin> set xs" using split_list_first by metis
  have "takeWhile (\<lambda>x. x \<noteq> c) (xs @ c # ys) = xs" using \<open>c \<notin> set xs\<close> by (induction xs) auto
  with r have "takeWhile (\<lambda>x. x \<noteq> c) (rev s) = xs" by simp
  moreover have "s = rev ys @ c # rev xs" using \<open>rev s = xs @ c # ys\<close> by (simp add: rev_swap)
  ultimately have "j = length (rev ys)" using j c by (auto simp: last_index_byte_def)
  with \<open>s = rev ys @ c # rev xs\<close> show ?thesis by (simp add: nth_append)
qed

lemma object_like_slice:
  assumes "s ! i = CHR ''{''" "s ! j = CHR ''}''" "i < j" "j < length s"
  shows "json_object_like (slice s i (j + 1))"
proof -
  have *: "slice s i (j + 1) = CHR ''{'' # take (j - i) (drop (Suc i) s)"
    using assms by (simp add: slice_def Cons_nth_drop_Suc [symmetric] Suc_diff_le)
  have "slice s i (j + 1) \<noteq> []" "last (slice s i (j + 1)) = CHR ''}''"
    using assms by (simp_all add: slice_def last_conv_nth)
  then obtain u where "rev (slice s i (j + 1)) = CHR ''}'' # u"
    by (metis append_butlast_last_id rev.simps(2) rev_rev_ident rev_swap rev_append append_Cons append_Nil)
  then have "has_suffix (slice s i (j + 1)) ''}''" by (simp add: has_suffix_def)
  moreover have "has_prefix (slice s i (j + 1)) ''{''" unfolding * by simp
  ultimately show ?thesis by (simp add: json_object_like_def)
qed

lemma candidate_sound:
  assumes "c \<in> set (JSONObjectCandidates s)"
  shows "sublist c s \<and> json_object_like c"
proof -
  from assms consider (whole) "c = trim_space s" "json_object_like c"
    | (balanced) raw p t where "c = trim_space raw" "s = p @ CHR ''{'' # t"
        "decode_raw (CHR ''{'' # t) = Some raw" "json_object_like c"
    | (outer) "outer_candidate s = Some c"
    unfolding set_candidates set_balanced_loop by (auto split: if_splits option.splits)
  then show ?thesis
  proof cases
    case whole
    then show ?thesis using sublist_trim_space by auto
  next
    case balanced
    from decode_raw_prefix [OF balanced(3)] have "sublist raw s"
      unfolding balanced(2) by (meson prefix_imp_sublist sublist_appendI sublist_append_leftI sublist_order.order.trans)
    with balanced sublist_trim_space [of raw] sublist_order.order.trans show ?thesis by blast
  next
    case outer
    then obtain i j where ij: "index_of s ''{'' = Some i" "last_index_byte s (CHR ''}'') = Some j" "i < j"
      and c: "c = trim_space (slice s i (j + 1))"
      by (auto simp: outer_candidate_def split: option.splits if_splits)
    have "json_object_like (slice s i (j + 1))"
      using object_like_slice index_of_byte [OF ij(1)] last_index_byte_nth [OF ij(2)] ij(3) by blast
    with c have "c = slice s i (j + 1)" "json_object_like c" by (simp_all add: trim_object)
    then show ?thesis by (simp add: slice_def sublist_take_drop)
  qed
qed

section \<open>The search\<close>

lemma line_candidates_found: "line_candidates parser cs fb e = Found r n \<Longrightarrow> \<exists>c \<in> set cs. parser c = Inr (r, n)"
  by (induction cs arbitrary: fb e) (auto split: sum.splits prod.splits if_splits)

lemma any_candidates_cases:
  "case any_candidates parser cs fb e of
     Found r n \<Rightarrow> \<exists>c \<in> set cs. parser c = Inr (r, n)
   | Searching fb' e' \<Rightarrow> {c \<in> set cs. \<not> isl (parser c)} = {}"
proof (induction cs arbitrary: fb e)
  case (Cons c cs)
  show ?case
  proof (cases "parser c")
    case (Inl err)
    with Cons.IH [of fb "Some err"] show ?thesis by (auto split: search.splits)
  next
    case (Inr res)
    then show ?thesis by (cases res) auto
  qed
qed simp

lemma split_lines_sublist: "l \<in> set (split_byte c s) \<Longrightarrow> sublist l s"
  using sublist_join [of l "split_byte c s" "[c]"] by (simp add: join_split)

lemma found_in_line:
  "line_loop parser ls fb e = Found r n \<Longrightarrow>
   \<exists>l \<in> set ls. \<exists>c \<in> set (JSONObjectCandidates (trim_space l)). parser c = Inr (r, n)"
  by (induction ls arbitrary: fb e) (auto simp: Let_def split: if_splits search.splits dest!: line_candidates_found)

lemma found_in_suffix:
  "suffix_loop parser todo rest fb e = Found r n \<Longrightarrow>
   \<exists>xs. suffix xs (rev todo @ rest) \<and> xs \<noteq> [] \<and>
     (\<exists>c \<in> set (JSONObjectCandidates (trim_space (join_str [nl] xs))). parser c = Inr (r, n))"
proof (induction todo arbitrary: rest fb e)
  case (Cons l todo)
  let ?sfx = "trim_space (join_str [nl] (l # rest))"
  consider (later) fb' e' where "suffix_loop parser todo (l # rest) fb' e' = Found r n"
    | (here) fb' e' where "any_candidates parser (JSONObjectCandidates ?sfx) fb' e' = Found r n"
    using Cons.prems by (auto simp: Let_def split: if_splits search.splits)
  then show ?case
  proof cases
    case later
    from Cons.IH [OF this] show ?thesis by simp
  next
    case here
    then show ?thesis
      using any_candidates_cases [where parser = parser and cs = "JSONObjectCandidates ?sfx" and fb = fb' and e = e']
      by (intro exI [of _ "l # rest"]) (auto simp: suffix_def)
  qed
qed simp

lemma found_candidate:
  assumes "search_output parser output = Found r n"
  shows "\<exists>c. parser c = Inr (r, n) \<and> sublist c output \<and> json_object_like c"
proof -
  let ?ls = "split_byte nl output"
  have piece: ?thesis if "c \<in> set (JSONObjectCandidates t)" "parser c = Inr (r, n)" "sublist t output" for c t
    using that candidate_sound sublist_order.order.trans by blast
  consider (line) fb e where "line_loop parser ?ls fb e = Found r n"
    | (sfx) fb e where "suffix_loop parser (rev ?ls) [] fb e = Found r n"
    | (all) fb e where "any_candidates parser (JSONObjectCandidates output) fb e = Found r n"
    using assms by (auto simp: search_output_def Let_def split: search.splits)
  then show ?thesis
  proof cases
    case line
    from found_in_line [OF this] obtain l c where "l \<in> set ?ls"
      "c \<in> set (JSONObjectCandidates (trim_space l))" "parser c = Inr (r, n)" by blast
    with piece split_lines_sublist sublist_trim_space sublist_order.order.trans show ?thesis by metis
  next
    case sfx
    from found_in_suffix [OF this] obtain xs c where xs: "suffix xs ?ls" "xs \<noteq> []"
      and c: "c \<in> set (JSONObjectCandidates (trim_space (join_str [nl] xs)))" "parser c = Inr (r, n)" by auto
    have "sublist (join_str [nl] xs) output"
      using xs sublist_join_suffix [of xs "[nl]"] join_split [of nl "output"] by (auto simp: suffix_def)
    with piece [OF c] sublist_trim_space sublist_order.order.trans show ?thesis by blast
  next
    case all
    with any_candidates_cases [where parser = parser and cs = "JSONObjectCandidates output" and fb = fb and e = e] piece show ?thesis by auto
  qed
qed

text \<open>
  C11. the result of ExtractStructuredJSON is what the parser made of some text that
  stands in the output between an opening and a closing brace, and then there is no error; only
  when the parser accepts none of the valid JSON objects that occur anywhere in the output is
  there no normalised JSON.
\<close>

theorem ExtractStructuredJSON_spec:
  "case ExtractStructuredJSON parser output of (rendered, normalised, err) \<Rightarrow>
     (\<exists>c. parser c = Inr (rendered, normalised) \<and> sublist c output \<and> json_object_like c \<and> err = None)
     \<or> normalised = [] \<and> {c. sublist c output \<and> json_object_like c \<and> json_valid c \<and> \<not> isl (parser c)} = {}"
proof (cases "search_output parser output")
  case (Found r n)
  then show ?thesis using found_candidate [OF Found] by (simp add: ExtractStructuredJSON_def)
next
  case (Searching fb e)
  then obtain fb' e' where "any_candidates parser (JSONObjectCandidates output) fb' e' = Searching fb e"
    by (auto simp: search_output_def Let_def split: search.splits)
  with any_candidates_cases [where parser = parser and cs = "JSONObjectCandidates output" and fb = fb' and e = e']
  have "{c \<in> set (JSONObjectCandidates output). \<not> isl (parser c)} = {}" by simp
  then have "{c. sublist c output \<and> json_object_like c \<and> json_valid c \<and> \<not> isl (parser c)} = {}"
    using candidate_complete by blast
  then show ?thesis by (simp add: ExtractStructuredJSON_def Searching)
qed

end
