(* ===== verification/Requests.thy ===== *)
theory Requests
  imports Contract JsonEncode
begin

text \<open>
  The requests of the control plane (\<^verbatim>\<open>pkg/controlplane/types.go\<close>): how a start or resume
  request keeps its response schema in one place, and how a response to a runtime request is
  brought into canonical form and checked. A method with a pointer receiver is a function from
  the old value to the new one; the metadata map is only carried along.
\<close>

section \<open>Starting and resuming\<close>

record StartSessionRequest =
  ssr_SessionID :: string
  ssr_CWD :: string
  ssr_Model :: string
  ssr_ModelOptions :: ModelOptions
  ssr_Prompt :: string
  ssr_Metadata :: "(string \<times> gval) list"
  ssr_ResponseSchema :: "(string \<times> gval) list option"

record ResumeSessionRequest =
  rsr_SessionID :: string
  rsr_ProviderSessionID :: string
  rsr_CWD :: string
  rsr_Model :: string
  rsr_ModelOptions :: ModelOptions
  rsr_Metadata :: "(string \<times> gval) list"
  rsr_ResponseSchema :: "(string \<times> gval) list option"

definition StartSessionRequest_Normalize :: "StartSessionRequest \<Rightarrow> StartSessionRequest" where
  "StartSessionRequest_Normalize request =
    (case ssr_ResponseSchema request of
       Some sch \<Rightarrow>
         request\<lparr>ssr_ModelOptions := (ssr_ModelOptions request)\<lparr>ResponseSchema := Some sch\<rparr>\<rparr>
     | None \<Rightarrow>
         (case ResponseSchema (ssr_ModelOptions request) of
            Some sch \<Rightarrow> request\<lparr>ssr_ResponseSchema := Some sch\<rparr>
          | None \<Rightarrow> request))"

definition ResumeSessionRequest_Normalize :: "ResumeSessionRequest \<Rightarrow> ResumeSessionRequest" where
  "ResumeSessionRequest_Normalize request =
    (case rsr_ResponseSchema request of
       Some sch \<Rightarrow>
         request\<lparr>rsr_ModelOptions := (rsr_ModelOptions request)\<lparr>ResponseSchema := Some sch\<rparr>\<rparr>
     | None \<Rightarrow>
         (case ResponseSchema (rsr_ModelOptions request) of
            Some sch \<Rightarrow> request\<lparr>rsr_ResponseSchema := Some sch\<rparr>
          | None \<Rightarrow> request))"

section \<open>Responding\<close>

record RequestAnswer =
  ans_QuestionID :: string
  ans_OptionID :: string
  ans_Text :: string

record RespondRequest =
  rsp_SessionID :: string
  rsp_RequestID :: string
  rsp_Action :: string
  rsp_Text :: string
  rsp_OptionID :: string
  rsp_Answers :: "RequestAnswer list"
  rsp_Metadata :: "(string \<times> gval) list"

abbreviation RespondActionAllow :: string where "RespondActionAllow \<equiv> ''allow''"
abbreviation RespondActionDeny :: string where "RespondActionDeny \<equiv> ''deny''"
abbreviation RespondActionSubmit :: string where "RespondActionSubmit \<equiv> ''submit''"
abbreviation RespondActionCancel :: string where "RespondActionCancel \<equiv> ''cancel''"
abbreviation RespondActionChoose :: string where "RespondActionChoose \<equiv> ''choose''"

definition canonicalRespondAction :: "unicode \<Rightarrow> string \<Rightarrow> string" where
  "canonicalRespondAction u action =
    (let a = to_lower u (trim_space action) in
     if a = [] then []
     else if a \<in> set [''allow'', ''approve'', ''accept'', ''approve_once'', ''allow_once'']
     then RespondActionAllow
     else if a \<in> set [''deny'', ''reject'', ''decline'', ''block''] then RespondActionDeny
     else if a \<in> set [''submit'', ''answer'', ''respond''] then RespondActionSubmit
     else if a \<in> set [''cancel'', ''dismiss''] then RespondActionCancel
     else if a \<in> set [''choose'', ''select''] then RespondActionChoose
     else action)"

definition RespondRequest_Normalize :: "unicode \<Rightarrow> RespondRequest \<Rightarrow> RespondRequest" where
  "RespondRequest_Normalize u request =
    (let action = canonicalRespondAction u (rsp_Action request) in
     request\<lparr>rsp_Action :=
       (if action = [] then
          (if rsp_OptionID request \<noteq> [] then RespondActionChoose
           else if rsp_Text request \<noteq> [] \<or> rsp_Answers request \<noteq> [] then RespondActionSubmit
           else action)
        else action)\<rparr>)"

text \<open>\<open>Validate\<close>: the message of the error, or \<open>None\<close>.\<close>

definition RespondRequest_Validate :: "RespondRequest \<Rightarrow> string option" where
  "RespondRequest_Validate request =
    (if rsp_SessionID request = [] then Some ''session_id is required''
     else if rsp_RequestID request = [] then Some ''request_id is required''
     else if rsp_Action request = []
     then Some ''action is required unless option_id, text, or answers imply one''
     else if rsp_Action request = RespondActionChoose then
       (if rsp_OptionID request = [] then Some ''option_id is required when action is choose'' else None)
     else if rsp_Action request = RespondActionSubmit then
       (if rsp_Text request = [] \<and> rsp_Answers request = []
        then Some ''text or answers are required when action is submit'' else None)
     else None)"

section \<open>Properties\<close>

text \<open>The canonical actions are in lower case and carry no white space.\<close>

lemma trim_actions:
  "trim_space RespondActionAllow = RespondActionAllow" "trim_space RespondActionDeny = RespondActionDeny"
  "trim_space RespondActionSubmit = RespondActionSubmit"
  "trim_space RespondActionCancel = RespondActionCancel"
  "trim_space RespondActionChoose = RespondActionChoose"
  by (simp_all add: trim_eval)

lemma lower_actions:
  "to_lower u RespondActionAllow = RespondActionAllow" "to_lower u RespondActionDeny = RespondActionDeny"
  "to_lower u RespondActionSubmit = RespondActionSubmit"
  "to_lower u RespondActionCancel = RespondActionCancel"
  "to_lower u RespondActionChoose = RespondActionChoose"
  by (simp_all add: to_lower_def is_ascii_def lower_char_def byte_simps)

lemma canonical_actions:
  "canonicalRespondAction u RespondActionAllow = RespondActionAllow"
  "canonicalRespondAction u RespondActionDeny = RespondActionDeny"
  "canonicalRespondAction u RespondActionSubmit = RespondActionSubmit"
  "canonicalRespondAction u RespondActionCancel = RespondActionCancel"
  "canonicalRespondAction u RespondActionChoose = RespondActionChoose"
  by (simp_all add: canonicalRespondAction_def trim_actions lower_actions)

lemma canonical_fixed:
  "a \<in> set [RespondActionAllow, RespondActionDeny, RespondActionSubmit, RespondActionCancel,
     RespondActionChoose] \<Longrightarrow> canonicalRespondAction u a = a"
  by (simp only: set_simps insert_iff empty_iff) (elim disjE; simp only: canonical_actions)

lemma six_branches:
  "(if p0 then z else if p1 then a1 else if p2 then a2 else if p3 then a3 else if p4 then a4
    else if p5 then a5 else x) \<in> {z, x} \<union> set [a1, a2, a3, a4, a5]"
  by simp

lemma canonical_cases:
  "canonicalRespondAction u a \<in> {[], a} \<union> set [RespondActionAllow, RespondActionDeny,
     RespondActionSubmit, RespondActionCancel, RespondActionChoose]"
  unfolding canonicalRespondAction_def Let_def by (rule six_branches)

lemma canonical_idem:
  "canonicalRespondAction u (canonicalRespondAction u a) = canonicalRespondAction u a"
proof -
  consider "canonicalRespondAction u a = []" | "canonicalRespondAction u a = a"
    | "canonicalRespondAction u a \<in> set [RespondActionAllow, RespondActionDeny,
        RespondActionSubmit, RespondActionCancel, RespondActionChoose]"
    using canonical_cases [of u a] by blast
  then show ?thesis
  proof cases
    case 1
    then show ?thesis by (simp add: canonicalRespondAction_def [of u "[]"] to_lower_def is_ascii_def)
  next
    case 3
    then show ?thesis by (rule canonical_fixed)
  qed simp
qed

text \<open>
  Normalizing a response twice is normalizing it once, and a normalized response
  passes the validation exactly when it names a session and a request and carries what its
  canonical action needs: an option to choose, a text or answers to submit, and one of these when
  it names no action at all. An action that is not known passes unchanged.
\<close>

theorem RespondRequest_spec:
  "RespondRequest_Normalize u (RespondRequest_Normalize u r) = RespondRequest_Normalize u r
   \<and> (RespondRequest_Validate (RespondRequest_Normalize u r) = None \<longleftrightarrow>
        rsp_SessionID r \<noteq> [] \<and> rsp_RequestID r \<noteq> []
        \<and> (let a = canonicalRespondAction u (rsp_Action r);
               content = (\<not> (rsp_Text r = [] \<and> rsp_Answers r = []))
           in if a = [] then \<not> (rsp_Text r = [] \<and> rsp_Answers r = [] \<and> rsp_OptionID r = [])
              else if a = RespondActionChoose then rsp_OptionID r \<noteq> []
              else if a = RespondActionSubmit then content
              else True))"
proof
  let ?a = "canonicalRespondAction u (rsp_Action r)"
  have "canonicalRespondAction u RespondActionChoose = RespondActionChoose"
    "canonicalRespondAction u RespondActionSubmit = RespondActionSubmit" by (simp_all add: canonical_fixed)
  then show "RespondRequest_Normalize u (RespondRequest_Normalize u r) = RespondRequest_Normalize u r"
    using canonical_idem [of u "rsp_Action r"] unfolding RespondRequest_Normalize_def Let_def
    by (cases "?a = []") simp_all
next
  show "RespondRequest_Validate (RespondRequest_Normalize u r) = None \<longleftrightarrow>
        rsp_SessionID r \<noteq> [] \<and> rsp_RequestID r \<noteq> []
        \<and> (let a = canonicalRespondAction u (rsp_Action r);
               content = (\<not> (rsp_Text r = [] \<and> rsp_Answers r = []))
           in if a = [] then \<not> (rsp_Text r = [] \<and> rsp_Answers r = [] \<and> rsp_OptionID r = [])
              else if a = RespondActionChoose then rsp_OptionID r \<noteq> []
              else if a = RespondActionSubmit then content
              else True)"
    unfolding RespondRequest_Normalize_def RespondRequest_Validate_def Let_def by auto
qed

text \<open>A start or resume request keeps one schema in both places, the request's own one first.\<close>

lemma start_normalize:
  "let r' = StartSessionRequest_Normalize r in
     ssr_ResponseSchema r' = ResponseSchema (ssr_ModelOptions r')
     \<and> StartSessionRequest_Normalize r' = r'"
  by (auto simp: StartSessionRequest_Normalize_def Let_def split: option.splits)

lemma resume_normalize:
  "let r' = ResumeSessionRequest_Normalize r in
     rsr_ResponseSchema r' = ResponseSchema (rsr_ModelOptions r')
     \<and> ResumeSessionRequest_Normalize r' = r'"
  by (auto simp: ResumeSessionRequest_Normalize_def Let_def split: option.splits)

end
