(* ===== verification/Process.thy ===== *)
theory Process
  imports Main "HOL-Library.Multiset"
begin

text \<open>
  Programs that share a state with others. A process is a sequence of atomic actions on the
  state with its own control between them: \<open>Atom\<close> performs one action and goes on with a process
  that may depend on what it saw, \<open>Done\<close> has a result. Several processes of the engine work on one
  database, and what lies between two of its statements can be anything the others do; run on its
  own, a process is a function of the state (\<open>run\<close>). A fallible call has a sum as its result,
  \<open>Inl\<close> the error, and \<open>must\<close> is Go's early return.
\<close>

named_theorems run_simps \<comment> \<open>runs the building blocks of processes\<close>
named_theorems keeps_intros \<comment> \<open>introduction rules for \<open>keeps\<close>, from the building blocks up\<close>

datatype ('s, 'a) proc = Done 'a | Atom "'s \<Rightarrow> ('s, 'a) proc \<times> 's"

primrec seq :: "('s, 'a) proc \<Rightarrow> ('a \<Rightarrow> ('s, 'b) proc) \<Rightarrow> ('s, 'b) proc" where
  "seq (Done a) f = f a"
| "seq (Atom g) f = Atom (map_prod (\<lambda>p. seq p f) id \<circ> g)"

definition act :: "('s \<Rightarrow> 'a \<times> 's) \<Rightarrow> ('s, 'a) proc" where
  "act f = Atom (\<lambda>s. case f s of (a, s') \<Rightarrow> (Done a, s'))"

definition must :: "('s, 'e + 'a) proc \<Rightarrow> ('a \<Rightarrow> ('s, 'e + 'b) proc) \<Rightarrow> ('s, 'e + 'b) proc" where
  "must p f = seq p (\<lambda>r. case r of Inl e \<Rightarrow> Done (Inl e) | Inr a \<Rightarrow> f a)"

text \<open>A call whose result is not used: \<open>_ = f()\<close>.\<close>

definition also_do :: "('s, 'a) proc \<Rightarrow> ('s, 'b) proc \<Rightarrow> ('s, 'b) proc" where
  "also_do p q = seq p (\<lambda>_. q)"

lemma seq_assoc: "seq (seq p f) h = seq p (\<lambda>a. seq (f a) h)"
proof (induction p)
  case (Atom g)
  have "seq (seq (fst (g s)) f) h = seq (fst (g s)) (\<lambda>a. seq (f a) h)" for s
    by (rule Atom [of "g s"]) (auto intro: rev_image_eqI simp: fsts.simps)
  then show ?case by (simp add: fun_eq_iff prod_eq_iff)
qed simp

section \<open>Running a process on its own\<close>

primrec run :: "('s, 'a) proc \<Rightarrow> 's \<Rightarrow> 'a \<times> 's" where
  "run (Done a) = (\<lambda>s. (a, s))"
| "run (Atom g) = (\<lambda>s. case (map_prod run id \<circ> g) s of (r, s') \<Rightarrow> r s')"

lemma run_Atom: "run (Atom g) s = (case g s of (p, s') \<Rightarrow> run p s')"
  by (simp add: map_prod_def split: prod.split)

declare run.simps(2) [simp del]

lemma run_Done [run_simps]: "run (Done a) s = (a, s)"
  by simp

lemma run_act [run_simps]: "run (act f) s = f s"
  by (simp add: act_def run_Atom split: prod.split)

lemma run_seq [run_simps]: "run (seq p f) s = (case run p s of (a, s') \<Rightarrow> run (f a) s')"
proof (induction p arbitrary: s)
  case (Atom g)
  obtain p s' where g: "g s = (p, s')" by fastforce
  have "run (seq p f) s' = (case run p s' of (a, s'') \<Rightarrow> run (f a) s'')"
    by (rule Atom) (auto simp: g intro: rev_image_eqI [of s])
  then show ?case by (simp add: run_Atom g)
qed simp

lemma run_must [run_simps]:
  "run (must p f) s = (case run p s of (Inl e, s') \<Rightarrow> (Inl e, s') | (Inr a, s') \<Rightarrow> run (f a) s')"
  by (auto simp: must_def run_simps split: prod.split sum.split)

lemma run_also_do [run_simps]: "run (also_do p q) s = run q (snd (run p s))"
  by (simp add: also_do_def run_simps split: prod.split)

section \<open>Invariants\<close>

text \<open>
  Every action a process can take keeps \<open>I\<close>, whatever other processes that keep \<open>I\<close> do between
  its actions.
\<close>

inductive keeps :: "('s \<Rightarrow> bool) \<Rightarrow> ('s, 'a) proc \<Rightarrow> bool" for I where
  keeps_Done [keeps_intros]: "keeps I (Done a)"
| keeps_Atom: "(\<And>s. I s \<Longrightarrow> I (snd (g s)) \<and> keeps I (fst (g s))) \<Longrightarrow> keeps I (Atom g)"

inductive_cases keeps_AtomE: "keeps I (Atom g)"

lemma keeps_step: "keeps I (Atom g) \<Longrightarrow> I s \<Longrightarrow> g s = (p, s') \<Longrightarrow> I s' \<and> keeps I p"
  by (erule keeps_AtomE) (metis fst_conv snd_conv)

lemma keeps_act [keeps_intros]:
  assumes "\<And>s. I s \<Longrightarrow> I (snd (f s))"
  shows "keeps I (act f)"
  unfolding act_def
proof (rule keeps_Atom)
  show "I (snd (case f s of (a, s') \<Rightarrow> (Done a, s')))
    \<and> keeps I (fst (case f s of (a, s') \<Rightarrow> (Done a, s')))" if "I s" for s
    using assms [OF that] by (cases "f s") (auto intro: keeps_Done)
qed

lemma keeps_seq [keeps_intros]:
  assumes "keeps I p" "\<And>a. keeps I (f a)"
  shows "keeps I (seq p f)"
  using assms(1)
proof induction
  case (keeps_Done a)
  then show ?case using assms(2) by simp
next
  case (keeps_Atom g)
  then show ?case by (auto intro!: keeps.keeps_Atom)
qed

lemma keeps_must [keeps_intros]: "keeps I p \<Longrightarrow> (\<And>a. keeps I (f a)) \<Longrightarrow> keeps I (must p f)"
  unfolding must_def by (rule keeps_seq) (auto intro: keeps_Done split: sum.split)

lemma keeps_also_do [keeps_intros]: "keeps I p \<Longrightarrow> keeps I q \<Longrightarrow> keeps I (also_do p q)"
  unfolding also_do_def by (rule keeps_seq)

lemma keeps_if [keeps_intros]: "(b \<Longrightarrow> keeps I p) \<Longrightarrow> (\<not> b \<Longrightarrow> keeps I q) \<Longrightarrow> keeps I (if b then p else q)"
  by simp

lemma keeps_option [keeps_intros]:
  "(x = None \<Longrightarrow> keeps I p) \<Longrightarrow> (\<And>y. x = Some y \<Longrightarrow> keeps I (f y)) \<Longrightarrow>
   keeps I (case x of None \<Rightarrow> p | Some y \<Rightarrow> f y)"
  by (simp split: option.split)

lemma keeps_sum [keeps_intros]:
  "(\<And>e. x = Inl e \<Longrightarrow> keeps I (p e)) \<Longrightarrow> (\<And>y. x = Inr y \<Longrightarrow> keeps I (f y)) \<Longrightarrow>
   keeps I (case x of Inl e \<Rightarrow> p e | Inr y \<Rightarrow> f y)"
  by (simp split: sum.split)

lemma keeps_prod [keeps_intros]:
  "(\<And>a b. x = (a, b) \<Longrightarrow> keeps I (f a b)) \<Longrightarrow> keeps I (case x of (a, b) \<Rightarrow> f a b)"
  by (simp split: prod.split)

lemma keeps_run: "keeps I p \<Longrightarrow> I s \<Longrightarrow> I (snd (run p s))"
proof (induction arbitrary: s rule: keeps.induct)
  case (keeps_Atom g)
  obtain p s' where g: "g s = (p, s')" by fastforce
  with keeps_Atom show ?case by (fastforce simp: run_Atom)
qed simp

section \<open>Interleavings\<close>

text \<open>
  Processes that run side by side: any of them takes its next action. New processes come from
  \<open>start\<close>, which tells what may be started in a state.
\<close>

inductive interleave :: "('s \<Rightarrow> ('s, 'a) proc \<Rightarrow> bool) \<Rightarrow>
    ('s, 'a) proc list \<times> 's \<Rightarrow> ('s, 'a) proc list \<times> 's \<Rightarrow> bool" for start where
  act: "interleave start (ps @ Atom g # qs, s) (ps @ p # qs, s')" if "g s = (p, s')"
| start: "interleave start (ps, s) (p # ps, s)" if "start s p"

text \<open>A process may run to its end undisturbed.\<close>

lemma interleave_run:
  "(interleave start)\<^sup>*\<^sup>* (p # ps, s) (Done (fst (run p s)) # ps, snd (run p s))"
proof (induction p arbitrary: s)
  case (Atom g)
  obtain p s' where g: "g s = (p, s')" by fastforce
  have "interleave start (Atom g # ps, s) (p # ps, s')"
    using interleave.act [of g s p s' start "[]" ps] g by simp
  also have "(interleave start)\<^sup>*\<^sup>* (p # ps, s') (Done (fst (run p s')) # ps, snd (run p s'))"
    by (rule Atom) (auto simp: g intro: rev_image_eqI [of s])
  finally show ?case by (simp add: run_Atom g)
qed simp

definition reachable where
  "reachable start s0 c \<longleftrightarrow> (interleave start)\<^sup>*\<^sup>* ([], s0) c"

lemma reachable_run: "start s0 p \<Longrightarrow> reachable start s0 ([Done (fst (run p s0))], snd (run p s0))"
  unfolding reachable_def
  by (rule converse_rtranclp_into_rtranclp [OF interleave.start interleave_run])

lemma reachable_keeps:
  assumes "reachable start s0 (ps, s)" "I s0" "\<And>t p. I t \<Longrightarrow> start t p \<Longrightarrow> keeps I p"
  shows "I s" "list_all (keeps I) ps"
proof -
  have "I (snd c) \<and> list_all (keeps I) (fst c)" if "(interleave start)\<^sup>*\<^sup>* ([], s0) c" for c
    using that
  proof induction
    case (step c d)
    from step(2,3) show ?case
      by cases (auto dest: keeps_step intro: assms(3))
  qed (simp add: assms(2))
  from this [of "(ps, s)"] assms(1) show "I s" "list_all (keeps I) ps" by (simp_all add: reachable_def)
qed

text \<open>The first actions of a process, and what is left of it.\<close>

fun first_actions :: "nat \<Rightarrow> ('s, 'a) proc \<Rightarrow> 's \<Rightarrow> ('s, 'a) proc \<times> 's" where
  "first_actions (Suc n) (Atom g) s = (case g s of (p, s') \<Rightarrow> first_actions n p s')"
| "first_actions n p s = (p, s)"

lemma first_actions_interleave:
  "(interleave start)\<^sup>*\<^sup>* (p # ps, s) (fst (first_actions n p s) # ps, snd (first_actions n p s))"
proof (induction n p s rule: first_actions.induct)
  case (1 n g s)
  obtain p s' where g: "g s = (p, s')" by fastforce
  have "interleave start (Atom g # ps, s) (p # ps, s')"
    using interleave.act [of g s p s' start "[]" ps] g by simp
  moreover have "(interleave start)\<^sup>*\<^sup>* (p # ps, s')
      (fst (first_actions n p s') # ps, snd (first_actions n p s'))"
    using 1 [OF g [symmetric]] .
  ultimately show ?case by (simp add: g converse_rtranclp_into_rtranclp)
qed simp_all

text \<open>...\<close>


section \<open>Effects in some order\<close>

text \<open>
  What the finished processes report to have done, \<open>hs\<close> in some order, explains the state: \<open>J hs s\<close>.
  An action of a process has to lead from a state that the effects so far explain to one that is
  explained by these and the effect the process reports if the action was its last. Processes that
  are \<open>inert\<close> change nothing \<open>J\<close> speaks of and report nothing.
\<close>

named_theorems inert_intros \<comment> \<open>introduction rules for \<open>inert\<close>, from the building blocks up\<close>

primrec finished :: "('a \<Rightarrow> 'h list) \<Rightarrow> ('s, 'a) proc \<Rightarrow> 'h list" where
  "finished eff (Done a) = eff a"
| "finished eff (Atom g) = []"

inductive linearizes :: "('h list \<Rightarrow> 's \<Rightarrow> bool) \<Rightarrow> ('a \<Rightarrow> 'h list) \<Rightarrow> 'h list \<Rightarrow> ('s, 'a) proc \<Rightarrow> bool"
  for J eff where
  linearizes_Done: "linearizes J eff hs (Done a)"
| linearizes_Atom: "(\<And>later s. J (hs @ later) s \<Longrightarrow>
     J (hs @ later @ finished eff (fst (g s))) (snd (g s)) \<and>
     linearizes J eff (hs @ later @ finished eff (fst (g s))) (fst (g s))) \<Longrightarrow>
   linearizes J eff hs (Atom g)"

inductive_cases linearizes_AtomE: "linearizes J eff hs (Atom g)"

text \<open>What is right for the rest \<open>p\<close> of a process when an action has led to \<open>s\<close>.\<close>

definition settled :: "('h list \<Rightarrow> 's \<Rightarrow> bool) \<Rightarrow> ('a \<Rightarrow> 'h list) \<Rightarrow> 'h list \<Rightarrow> ('s, 'a) proc \<Rightarrow> 's \<Rightarrow> bool" where
  "settled J eff hs p s \<longleftrightarrow> J (hs @ finished eff p) s \<and> linearizes J eff (hs @ finished eff p) p"

lemma linearizes_step:
  assumes "linearizes J eff hs (Atom g)" "J (hs @ later) s" "g s = (p, s')"
  shows "settled J eff (hs @ later) p s'"
  using assms(1) by (rule linearizes_AtomE; use assms(2,3) in \<open>force simp: settled_def\<close>)

lemma linearizes_later: "linearizes J eff hs p \<Longrightarrow> linearizes J eff (hs @ later) p"
  by (cases p) (auto intro!: linearizes.intros simp: prod_eq_iff settled_def
      dest: linearizes_step [where later = "later @ more" for more])

lemma reachable_linearizes:
  assumes "reachable start s0 (ps, s)" "J [] s0"
    "\<And>t p. start t p \<Longrightarrow> linearizes J eff [] p \<and> finished eff p = []"
  obtains hs where "J hs s" "mset hs = mset (concat (map (finished eff) ps))"
proof -
  have "\<exists>hs. J hs (snd c) \<and> mset hs = mset (concat (map (finished eff) (fst c))) \<and>
      list_all (linearizes J eff hs) (fst c)" if "(interleave start)\<^sup>*\<^sup>* ([], s0) c" for c
    using that
  proof induction
    case base
    show ?case using assms(2) by (intro exI [of _ "[]"]) simp
  next
    case (step c d)
    then obtain hs where hs: "J hs (snd c)" "mset hs = mset (concat (map (finished eff) (fst c)))"
      "list_all (linearizes J eff hs) (fst c)" by blast
    from step(2) show ?case
    proof cases
      case (act g t p t' ps qs)
      then have lin: "linearizes J eff hs (Atom g)" and J: "J (hs @ []) t" using hs by auto
      from linearizes_step [OF lin J act(3)] act hs show ?thesis
        by (intro exI [of _ "hs @ finished eff p"])
          (auto simp: list_all_iff settled_def intro: linearizes_later)
    next
      case (start t p ps)
      then show ?thesis using hs assms(3) [OF start(3)] linearizes_later [of J eff "[]" p hs]
        by (intro exI [of _ hs]) auto
    qed
  qed
  from this [of "(ps, s)"] assms(1) that show ?thesis by (auto simp: reachable_def)
qed

lemma linearizes_act:
  assumes "\<And>later s. J (hs @ later) s \<Longrightarrow> settled J eff (hs @ later) (k (fst (f s))) (snd (f s))"
  shows "linearizes J eff hs (seq (act f) k)"
  unfolding act_def seq.simps
  by (rule linearizes_Atom) (use assms in \<open>auto simp: settled_def case_prod_beta\<close>)

lemma settled_quiet:
  "J hs s \<Longrightarrow> linearizes J eff hs p \<Longrightarrow> finished eff p = [] \<Longrightarrow> settled J eff hs p s"
  by (simp add: settled_def)

lemma settled_Done: "J (hs @ eff a) s \<Longrightarrow> settled J eff hs (Done a) s"
  by (simp add: settled_def linearizes_Done)

inductive inert :: "('h list \<Rightarrow> 's \<Rightarrow> bool) \<Rightarrow> ('s, 'a) proc \<Rightarrow> bool" for J where
  inert_Done [inert_intros]: "inert J (Done a)"
| inert_Atom: "(\<And>s. inert J (fst (g s)) \<and> (\<forall>hs. J hs s \<longrightarrow> J hs (snd (g s)))) \<Longrightarrow> inert J (Atom g)"

lemma inert_act [inert_intros]:
  assumes "\<And>hs s. J hs s \<Longrightarrow> J hs (snd (f s))"
  shows "inert J (act f)"
  unfolding act_def
proof (rule inert_Atom)
  show "inert J (fst (case f s of (a, s') \<Rightarrow> (Done a, s'))) \<and>
    (\<forall>hs. J hs s \<longrightarrow> J hs (snd (case f s of (a, s') \<Rightarrow> (Done a, s'))))" for s
    using assms [of _ s] by (cases "f s") (auto intro: inert_Done)
qed

lemma inert_seq [inert_intros]: "inert J p \<Longrightarrow> (\<And>a. inert J (f a)) \<Longrightarrow> inert J (seq p f)"
  by (induction rule: inert.induct) (auto intro!: inert_Atom)

lemma inert_must [inert_intros]: "inert J p \<Longrightarrow> (\<And>a. inert J (f a)) \<Longrightarrow> inert J (must p f)"
  unfolding must_def by (rule inert_seq) (auto intro: inert_Done split: sum.split)

lemma inert_also_do [inert_intros]: "inert J p \<Longrightarrow> inert J q \<Longrightarrow> inert J (also_do p q)"
  unfolding also_do_def by (rule inert_seq)

lemma inert_if [inert_intros]: "(b \<Longrightarrow> inert J p) \<Longrightarrow> (\<not> b \<Longrightarrow> inert J q) \<Longrightarrow> inert J (if b then p else q)"
  by simp

lemma inert_option [inert_intros]:
  "(x = None \<Longrightarrow> inert J p) \<Longrightarrow> (\<And>y. x = Some y \<Longrightarrow> inert J (f y)) \<Longrightarrow>
   inert J (case x of None \<Rightarrow> p | Some y \<Rightarrow> f y)"
  by (simp split: option.split)

lemma inert_sum [inert_intros]:
  "(\<And>e. x = Inl e \<Longrightarrow> inert J (p e)) \<Longrightarrow> (\<And>y. x = Inr y \<Longrightarrow> inert J (f y)) \<Longrightarrow>
   inert J (case x of Inl e \<Rightarrow> p e | Inr y \<Rightarrow> f y)"
  by (simp split: sum.split)

lemma linearizes_inert:
  assumes "inert J p" "eff a = []"
  shows "linearizes J eff hs (also_do p (Done a)) \<and> finished eff (also_do p (Done a)) = []"
  using assms(1) unfolding also_do_def
proof (induction arbitrary: hs)
  case (inert_Atom g)
  then show ?case by (auto intro!: linearizes_Atom)
qed (simp add: linearizes_Done assms(2))

end
