(* ===== verification/Orchestration.thy ===== *)
theory Orchestration
  imports Process Requests
begin

text \<open>
  The orchestration kernel (\<^verbatim>\<open>internal/orchestration/worker_lifecycle.go\<close>,
  \<^verbatim>\<open>worker_kernel.go\<close>, \<^verbatim>\<open>session_control.go\<close> and the statuses of
  \<^verbatim>\<open>ledger_types.go\<close>). Hooks are processes over the state of the engine that supplies them; a
  hook that may be nil is an option.
\<close>

section \<open>Statuses\<close>

datatype RunStatus = RunQueued | RunRunning | RunCompleted | RunFailed | RunCancelled

definition IsTerminalRunStatus :: "RunStatus \<Rightarrow> bool" where
  "IsTerminalRunStatus status \<longleftrightarrow> status = RunCompleted \<or> status = RunFailed \<or> status = RunCancelled"

datatype WorkerStatus =
  WorkerQueued | WorkerRunning | WorkerCompleted | WorkerFailed | WorkerCancelled

datatype WorkerControlAction =
  WorkerControlCancel | WorkerControlInterrupt | WorkerControlRetry | WorkerControlResume

datatype WorkerControlStatus = WorkerControlPending | WorkerControlCompleted | WorkerControlFailed

record WorkerStatusSummary =
  HasFailed :: bool
  HasCancelled :: bool
  HasRunningOrQueued :: bool

definition summarize_worker :: "WorkerStatus \<Rightarrow> WorkerStatusSummary \<Rightarrow> WorkerStatusSummary" where
  "summarize_worker st summary =
    (case st of
       WorkerFailed \<Rightarrow> summary\<lparr>HasFailed := True\<rparr>
     | WorkerCancelled \<Rightarrow> summary\<lparr>HasCancelled := True\<rparr>
     | WorkerQueued \<Rightarrow> summary\<lparr>HasRunningOrQueued := True\<rparr>
     | WorkerRunning \<Rightarrow> summary\<lparr>HasRunningOrQueued := True\<rparr>
     | WorkerCompleted \<Rightarrow> summary)"

definition SummarizeWorkerStatuses :: "'t list \<Rightarrow> ('t \<Rightarrow> WorkerStatus) \<Rightarrow> WorkerStatusSummary" where
  "SummarizeWorkerStatuses workers status =
    foldl (\<lambda>summary worker. summarize_worker (status worker) summary)
      \<lparr>HasFailed = False, HasCancelled = False, HasRunningOrQueued = False\<rparr> workers"

lemma summarize_fold:
  "foldl (\<lambda>summary worker. summarize_worker (status worker) summary) z ws =
    \<lparr>HasFailed = HasFailed z \<or> WorkerFailed \<in> status ` set ws,
     HasCancelled = HasCancelled z \<or> WorkerCancelled \<in> status ` set ws,
     HasRunningOrQueued = HasRunningOrQueued z \<or>
       (\<exists>w \<in> set ws. status w = WorkerQueued \<or> status w = WorkerRunning)\<rparr>"
  by (induction ws arbitrary: z)
    (auto simp: summarize_worker_def eq_commute [of _ "status _"] split: WorkerStatus.split)

lemma SummarizeWorkerStatuses_sets:
  "HasFailed (SummarizeWorkerStatuses ws status) \<longleftrightarrow> (\<exists>w \<in> set ws. status w = WorkerFailed)"
  "HasCancelled (SummarizeWorkerStatuses ws status) \<longleftrightarrow> (\<exists>w \<in> set ws. status w = WorkerCancelled)"
  "HasRunningOrQueued (SummarizeWorkerStatuses ws status) \<longleftrightarrow>
     (\<exists>w \<in> set ws. status w = WorkerQueued \<or> status w = WorkerRunning)"
  by (auto simp: SummarizeWorkerStatuses_def summarize_fold eq_commute [of _ "status _"])

section \<open>The execution of a worker\<close>

type_synonym ('s, 'a) call = "('s, go_error + 'a) proc"

record ('s, 'run, 'wk, 'ident) WorkerExecutionHooks =
  Load :: "string \<Rightarrow> ('s, 'wk \<times> 'run) call"
  IsTerminal :: "('wk \<Rightarrow> bool) option"
  MarkRunning :: "(string \<Rightarrow> ('s, unit) call) option"
  OnStarted :: "('run \<Rightarrow> 'wk \<Rightarrow> ('s, unit) proc) option"
  Execute :: "'run \<Rightarrow> 'wk \<Rightarrow> ('s, string \<times> string \<times> 'ident \<times> go_error option) proc"
  HasIdentity :: "('ident \<Rightarrow> bool) option"
  PersistIdentity :: "(string \<Rightarrow> 'ident \<Rightarrow> ('s, unit) call) option"
  IsCancelledError :: "(go_error option \<Rightarrow> bool) option"
  MarkCancelled :: "(string \<Rightarrow> string \<Rightarrow> string \<Rightarrow> ('s, unit) call) option"
  OnCancelled :: "('run \<Rightarrow> 'wk \<Rightarrow> string \<Rightarrow> string \<Rightarrow> ('s, unit) proc) option"
  MarkFailed :: "(string \<Rightarrow> string \<Rightarrow> string \<Rightarrow> string \<Rightarrow> ('s, unit) call) option"
  OnFailed :: "('run \<Rightarrow> 'wk \<Rightarrow> string \<Rightarrow> string \<Rightarrow> string \<Rightarrow> ('s, unit) proc) option"
  Reload :: "(string \<Rightarrow> ('s, 'wk) call) option"
  IsCancelled :: "('wk \<Rightarrow> bool) option"
  MarkCompleted :: "(string \<Rightarrow> string \<Rightarrow> string \<Rightarrow> ('s, unit) call) option"
  OnCompleted :: "('run \<Rightarrow> 'wk \<Rightarrow> string \<Rightarrow> string \<Rightarrow> ('s, unit) proc) option"
  Reconcile :: "('run \<Rightarrow> ('s, unit) call) option"

text \<open>A hook that is nil is not called; \<open>asks\<close> is \<open>hook != nil && hook(x)\<close>.\<close>

definition hook_call :: "'h option \<Rightarrow> ('h \<Rightarrow> ('s, unit) call) \<Rightarrow> ('s, unit) call" where
  "hook_call h f = (case h of None \<Rightarrow> Done (Inr ()) | Some g \<Rightarrow> f g)"

definition hook_notify :: "'h option \<Rightarrow> ('h \<Rightarrow> ('s, unit) proc) \<Rightarrow> ('s, unit) proc" where
  "hook_notify h f = (case h of None \<Rightarrow> Done () | Some g \<Rightarrow> f g)"

definition asks :: "('x \<Rightarrow> bool) option \<Rightarrow> 'x \<Rightarrow> bool" where
  "asks h x = (case h of None \<Rightarrow> False | Some g \<Rightarrow> g x)"

definition finish_cancelled ::
  "('s, 'run, 'wk, 'ident) WorkerExecutionHooks \<Rightarrow> 'run \<Rightarrow> 'wk \<Rightarrow> string \<Rightarrow> string \<Rightarrow> ('s, unit) call" where
  "finish_cancelled hooks r w result resultJSON =
    also_do (hook_notify (OnCancelled hooks) (\<lambda>h. h r w result resultJSON))
    (also_do (hook_call (Reconcile hooks) (\<lambda>h. h r))
    (Done (Inr ())))"

definition finish_failed ::
  "('s, 'run, 'wk, 'ident) WorkerExecutionHooks \<Rightarrow> string \<Rightarrow> 'run \<Rightarrow> 'wk \<Rightarrow> string \<Rightarrow> string \<Rightarrow>
   go_error \<Rightarrow> ('s, unit) call" where
  "finish_failed hooks workerID r w result resultJSON runErr =
    also_do (hook_call (MarkFailed hooks) (\<lambda>h. h workerID result resultJSON (error_text runErr)))
    (also_do (hook_notify (OnFailed hooks) (\<lambda>h. h r w result resultJSON (error_text runErr)))
    (also_do (hook_call (Reconcile hooks) (\<lambda>h. h r))
    (Done (Inl runErr))))"

definition finish_completed ::
  "('s, 'run, 'wk, 'ident) WorkerExecutionHooks \<Rightarrow> string \<Rightarrow> 'run \<Rightarrow> 'wk \<Rightarrow> string \<Rightarrow> string \<Rightarrow> ('s, unit) call" where
  "finish_completed hooks workerID r w result resultJSON =
    must (hook_call (MarkCompleted hooks) (\<lambda>h. h workerID result resultJSON)) (\<lambda>_.
    also_do (hook_notify (OnCompleted hooks) (\<lambda>h. h r w result resultJSON))
    (hook_call (Reconcile hooks) (\<lambda>h. h r)))"

text \<open>What happens after the session of the worker has ended.\<close>

definition after_execute ::
  "('s, 'run, 'wk, 'ident) WorkerExecutionHooks \<Rightarrow> string \<Rightarrow> 'run \<Rightarrow> 'wk \<Rightarrow> string \<Rightarrow> string \<Rightarrow>
   go_error option \<Rightarrow> ('s, unit) call" where
  "after_execute hooks workerID r w result resultJSON runErr =
    (if asks (IsCancelledError hooks) runErr then
       also_do (hook_call (MarkCancelled hooks) (\<lambda>h. h workerID result resultJSON))
       (finish_cancelled hooks r w result resultJSON)
     else (case runErr of
       Some e \<Rightarrow> finish_failed hooks workerID r w result resultJSON e
     | None \<Rightarrow>
         (case (Reload hooks, IsCancelled hooks) of
            (Some reload, Some cancelled) \<Rightarrow>
              seq (reload workerID) (\<lambda>current.
                case current of
                  Inr c \<Rightarrow> if cancelled c then finish_cancelled hooks r w result resultJSON
                           else finish_completed hooks workerID r w result resultJSON
                | Inl _ \<Rightarrow> finish_completed hooks workerID r w result resultJSON)
          | _ \<Rightarrow> finish_completed hooks workerID r w result resultJSON)))"

definition execute_loaded ::
  "('s, 'run, 'wk, 'ident) WorkerExecutionHooks \<Rightarrow> string \<Rightarrow> 'run \<Rightarrow> 'wk \<Rightarrow> ('s, unit) call" where
  "execute_loaded hooks workerID r w =
    must (hook_call (MarkRunning hooks) (\<lambda>h. h workerID)) (\<lambda>_.
    also_do (hook_notify (OnStarted hooks) (\<lambda>h. h r w))
    (seq (Execute hooks r w) (\<lambda>(result, resultJSON, ident, runErr).
    also_do (if asks (HasIdentity hooks) ident
             then hook_call (PersistIdentity hooks) (\<lambda>h. h workerID ident) else Done (Inr ()))
    (after_execute hooks workerID r w result resultJSON runErr))))"

definition ExecuteWorker ::
  "string \<Rightarrow> ('s, 'run, 'wk, 'ident) WorkerExecutionHooks \<Rightarrow> ('s, unit) call" where
  "ExecuteWorker workerID hooks =
    must (Load hooks workerID) (\<lambda>(w, r).
    if asks (IsTerminal hooks) w then Done (Inr ()) else execute_loaded hooks workerID r w)"

section \<open>Queueing and launching workers\<close>

record ('s, 't) QueueAndLaunchHooks =
  Persist :: "('t \<Rightarrow> ('s, unit) call) option"
  OnPersistError :: "('t \<Rightarrow> go_error \<Rightarrow> ('s, bool) call) option"
  AfterPersist :: "('t \<Rightarrow> ('s, unit) call) option"
  Launch :: "('t \<Rightarrow> ('s, unit) call) option"
  OnLaunchError :: "('t \<Rightarrow> go_error \<Rightarrow> ('s, unit) call) option"

text \<open>\<open>persist_item\<close>: whether the rest of the loop body is skipped.\<close>

definition persist_item :: "('s, 't) QueueAndLaunchHooks \<Rightarrow> 't \<Rightarrow> ('s, bool) call" where
  "persist_item hooks item =
    seq (hook_call (Persist hooks) (\<lambda>h. h item)) (\<lambda>r.
      case r of
        Inr _ \<Rightarrow> Done (Inr False)
      | Inl err \<Rightarrow>
          (case OnPersistError hooks of
             None \<Rightarrow> Done (Inl err)
           | Some h \<Rightarrow> h item err))"

definition launch_item :: "('s, 't) QueueAndLaunchHooks \<Rightarrow> 't \<Rightarrow> ('s, unit) call" where
  "launch_item hooks item =
    seq (hook_call (Launch hooks) (\<lambda>h. h item)) (\<lambda>r.
      case r of
        Inr _ \<Rightarrow> Done (Inr ())
      | Inl err \<Rightarrow>
          (case OnLaunchError hooks of
             None \<Rightarrow> Done (Inl err)
           | Some h \<Rightarrow> h item err))"

primrec QueueAndLaunch :: "'t list \<Rightarrow> ('s, 't) QueueAndLaunchHooks \<Rightarrow> ('s, unit) call" where
  "QueueAndLaunch [] hooks = Done (Inr ())"
| "QueueAndLaunch (item # items) hooks =
    must (persist_item hooks item) (\<lambda>skip.
    if skip then QueueAndLaunch items hooks
    else
      must (hook_call (AfterPersist hooks) (\<lambda>h. h item)) (\<lambda>_.
      must (launch_item hooks item) (\<lambda>_.
      QueueAndLaunch items hooks)))"

section \<open>Controls and responses for a running session\<close>

record ('s, 'ev) SessionController =
  StopSession :: "string \<Rightarrow> 's \<Rightarrow> (go_error option \<times> 'ev option) \<times> 's"
  Interrupt :: "string \<Rightarrow> 's \<Rightarrow> (go_error option \<times> 'ev option) \<times> 's"
  Respond :: "RespondRequest \<Rightarrow> 's \<Rightarrow> (go_error option \<times> 'ev option) \<times> 's"

datatype PendingSessionControlAction =
  PendingSessionControlCancel | PendingSessionControlInterrupt | PendingSessionControlOther string

record PendingSessionControl =
  psc_ID :: int
  psc_Action :: PendingSessionControlAction

record SessionControlResult =
  Cancelled :: bool
  Errors :: "go_error list"

record QueuedRuntimeResponse =
  qrr_ID :: int
  qrr_RequestID :: string
  qrr_Action :: string
  qrr_Text :: string
  qrr_OptionID :: string
  qrr_Answers :: "RequestAnswer list"
  qrr_Metadata :: "(string \<times> gval) list"

type_synonym ('s, 'x, 'ev) complete_hook = "('x \<Rightarrow> 'ev option \<Rightarrow> go_error option \<Rightarrow> ('s, unit) call) option"

primrec control_loop ::
  "('s, 'ev) SessionController \<Rightarrow> string \<Rightarrow> PendingSessionControl list \<Rightarrow>
   ('s, PendingSessionControl, 'ev) complete_hook \<Rightarrow> SessionControlResult \<Rightarrow>
   ('s, SessionControlResult \<times> go_error option) proc" where
  "control_loop controller sessionID [] onComplete result = Done (result, None)"
| "control_loop controller sessionID (control # controls) onComplete result =
    (case psc_Action control of
       PendingSessionControlCancel \<Rightarrow>
         seq (act (StopSession controller sessionID)) (\<lambda>(err, event).
         also_do (hook_call onComplete (\<lambda>h. h control event err))
         (case err of
            Some e \<Rightarrow> Done (result\<lparr>Errors := Errors result @ [e]\<rparr>,
                            Some (Wrapped ''stop runtime session'' e))
          | None \<Rightarrow> Done (result\<lparr>Cancelled := True\<rparr>, None)))
     | PendingSessionControlInterrupt \<Rightarrow>
         seq (act (Interrupt controller sessionID)) (\<lambda>(err, event).
         also_do (hook_call onComplete (\<lambda>h. h control event err))
         (control_loop controller sessionID controls onComplete
           (case err of Some e \<Rightarrow> result\<lparr>Errors := Errors result @ [e]\<rparr> | None \<Rightarrow> result)))
     | PendingSessionControlOther _ \<Rightarrow>
         control_loop controller sessionID controls onComplete result)"

definition HandlePendingSessionControls ::
  "('s, 'ev) SessionController \<Rightarrow> string \<Rightarrow> PendingSessionControl list \<Rightarrow>
   ('s, PendingSessionControl, 'ev) complete_hook \<Rightarrow>
   ('s, SessionControlResult \<times> go_error option) proc" where
  "HandlePendingSessionControls controller sessionID controls onComplete =
    control_loop controller sessionID controls onComplete \<lparr>Cancelled = False, Errors = []\<rparr>"

primrec FlushQueuedRuntimeResponses ::
  "('s, 'ev) SessionController \<Rightarrow> string \<Rightarrow> QueuedRuntimeResponse list \<Rightarrow>
   ('s, QueuedRuntimeResponse, 'ev) complete_hook \<Rightarrow> ('s, unit) call" where
  "FlushQueuedRuntimeResponses controller sessionID [] onComplete = Done (Inr ())"
| "FlushQueuedRuntimeResponses controller sessionID (response # responses) onComplete =
    seq (act (Respond controller
      \<lparr>rsp_SessionID = sessionID, rsp_RequestID = qrr_RequestID response,
       rsp_Action = qrr_Action response, rsp_Text = qrr_Text response,
       rsp_OptionID = qrr_OptionID response, rsp_Answers = qrr_Answers response,
       rsp_Metadata = qrr_Metadata response\<rparr>)) (\<lambda>(err, event).
    also_do (hook_call onComplete (\<lambda>h. h response event err))
    (case err of
       Some e \<Rightarrow> Done (Inl (Wrapped ''respond to runtime request'' e))
     | None \<Rightarrow> FlushQueuedRuntimeResponses controller sessionID responses onComplete))"

end
