(* ===== verification/CourtTypes.thy ===== *)
theory CourtTypes
  imports Orchestration RuntimeTarget ModelSelect
begin

text \<open>
  The data of the court (\<^verbatim>\<open>internal/court/types.go\<close>, \<^verbatim>\<open>workflow.go\<close>, \<^verbatim>\<open>delegation.go\<close>,
  \<^verbatim>\<open>catalog.go\<close> and the records of \<^verbatim>\<open>internal/orchestration/ledger_types.go\<close>). A time is the
  text the database keeps for it, empty for the zero time. Workflow modes and delegation scopes
  stay strings, since the code parses them.
\<close>

section \<open>Roles and presets\<close>

datatype RoleKind = RoleClerk | RoleJuror | RoleJudge | RoleOther string

abbreviation WorkflowParallelConsensus :: string where
  "WorkflowParallelConsensus \<equiv> ''parallel_consensus''"
abbreviation WorkflowRouted :: string where "WorkflowRouted \<equiv> ''routed''"
abbreviation WorkflowRoleScoped :: string where "WorkflowRoleScoped \<equiv> ''role_scoped''"
abbreviation WorkflowBoundedCorrection :: string where
  "WorkflowBoundedCorrection \<equiv> ''bounded_correction''"
abbreviation WorkflowReviewOnly :: string where "WorkflowReviewOnly \<equiv> ''review_only''"

abbreviation DelegationScopePreset :: string where "DelegationScopePreset \<equiv> ''preset''"
abbreviation DelegationScopeWorkspace :: string where "DelegationScopeWorkspace \<equiv> ''workspace''"
abbreviation DelegationScopeGlobal :: string where "DelegationScopeGlobal \<equiv> ''global''"

datatype Phase =
    PhaseIdle | PhaseBlocked | PhaseClerk | PhaseJurors | PhaseInlineJudge | PhaseCorrections
  | PhaseVerdict | PhaseComplete

record RuntimeBackendConfig =
  cfg_Provider :: string
  cfg_Model :: string
  cfg_ModelOptions :: ModelOptions

record Role =
  rol_ID :: string
  rol_Kind :: RoleKind
  rol_Title :: string
  rol_Brief :: string
  rol_Backend :: string
  rol_Provider :: string
  rol_Model :: string
  rol_ModelOptions :: ModelOptions
  rol_Agent :: string
  rol_Backends :: "(string \<times> RuntimeBackendConfig) list"

record Preset =
  pre_ID :: string
  pre_Title :: string
  pre_Description :: string
  pre_Workflow :: string
  pre_Roles :: "Role list"

section \<open>Runs and workers\<close>

record Run =
  run_ID :: string
  run_CourtID :: string
  run_Task :: string
  run_Preset :: string
  run_Workflow :: string
  run_DelegationScope :: string
  run_Backend :: string
  run_Model :: string
  run_ModelOptions :: ModelOptions
  run_DefaultProvider :: string
  run_DefaultModel :: string
  run_DefaultModelOptions :: ModelOptions
  run_Workspace :: string
  run_Status :: RunStatus
  run_Phase :: Phase
  run_Verdict :: string
  run_CreatedAt :: string
  run_UpdatedAt :: string
  run_CompletedAt :: string

record RuntimeIdentity =
  idn_SessionID :: string
  idn_ProviderSessionID :: string
  idn_TranscriptPath :: string
  idn_PID :: int

record Worker =
  wrk_ID :: string
  wrk_RunID :: string
  wrk_LaunchID :: string
  wrk_Attempt :: int
  wrk_RoleID :: string
  wrk_RoleKind :: RoleKind
  wrk_RoleTitle :: string
  wrk_Backend :: string
  wrk_Provider :: string
  wrk_Model :: string
  wrk_ModelOptions :: ModelOptions
  wrk_Agent :: string
  wrk_Status :: WorkerStatus
  wrk_RuntimeSessionID :: string
  wrk_RuntimeProviderSessionID :: string
  wrk_RuntimeTranscriptPath :: string
  wrk_RuntimePID :: int
  wrk_Result :: string
  wrk_ResultJSON :: string
  wrk_Error :: string
  wrk_CreatedAt :: string
  wrk_UpdatedAt :: string
  wrk_CompletedAt :: string

record WorkerControlRequest =
  wcr_ID :: int
  wcr_RunID :: string
  wcr_WorkerID :: string
  wcr_Action :: WorkerControlAction
  wcr_Status :: WorkerControlStatus
  wcr_Error :: string
  wcr_CreatedAt :: string
  wcr_UpdatedAt :: string

record Event =
  evt_RunID :: string
  evt_WorkerID :: string
  evt_Type :: string
  evt_Message :: string
  evt_Payload :: string
  evt_CreatedAt :: string

section \<open>Plans and dockets\<close>

record PlanElement =
  pel_ID :: string
  pel_Title :: string
  pel_Detail :: string
  pel_Keywords :: "string list"

record PlanArtifact =
  pln_Headline :: string
  pln_Summary :: string
  pln_OperatorPrompt :: string
  pln_CreatedAt :: string
  pln_Elements :: "PlanElement list"

datatype DocketSource = DocketClerkHeuristic | DocketClerkDelegated | DocketDeterministicLocal

datatype DocketTargetKind = DocketTargetJuror | DocketTargetJury | DocketTargetJudge | DocketTargetCourt

record DocketAssignment =
  dka_ID :: string
  dka_Title :: string
  dka_Instructions :: string
  dka_TargetKind :: DocketTargetKind
  dka_TargetIDs :: "string list"
  dka_PlanElementIDs :: "string list"
  dka_ExpectedDeliverable :: string
  dka_Rationale :: string

record DocketArtifact =
  dkt_WorkflowMode :: string
  dkt_DelegationScope :: string
  dkt_Source :: DocketSource
  dkt_Summary :: string
  dkt_ClerkNotes :: string
  dkt_JuryIDs :: "string list"
  dkt_JudgeIDs :: "string list"
  dkt_Assignments :: "DocketAssignment list"

text \<open>
  The content of an artifact is kept as the value that the engine encodes into JSON; the engine
  reads back only dockets.
\<close>

datatype artifact_content = ContentText string | ContentPlan PlanArtifact | ContentDocket DocketArtifact

record Artifact =
  art_RunID :: string
  art_WorkerID :: string
  art_Kind :: string
  art_Format :: string
  art_Content :: artifact_content
  art_CreatedAt :: string

section \<open>Results and delegation\<close>

record WorkerResult =
  res_SchemaVersion :: int
  res_Summary :: string
  res_Findings :: "string list option" \<comment> \<open>\<open>None\<close> is a nil slice\<close>
  res_Risks :: "string list option"
  res_NextActions :: "string list option"
  res_Verdict :: string
  res_Confidence :: string

record Jury =
  jry_ID :: string
  jry_Title :: string
  jry_Description :: string
  jry_JurorIDs :: "string list"
  jry_ClerkID :: string
  jry_JudgeID :: string

record ClerkDelegationRoute =
  rte_TargetID :: string
  rte_TargetIDs :: "string list"
  rte_Instructions :: string
  rte_ExpectedDeliverable :: string
  rte_Rationale :: string

record ClerkDelegationDecision =
  dec_SchemaVersion :: int
  dec_Scope :: string
  dec_JuryIDs :: "string list"
  dec_JurorIDs :: "string list"
  dec_JudgeIDs :: "string list"
  dec_Assignments :: "ClerkDelegationRoute list"
  dec_Rationale :: string

end
