(* ===== verification/CourtWorkflow.thy ===== *)
theory CourtWorkflow
  imports CourtTypes
begin

text \<open>
  \<^verbatim>\<open>internal/court/workflow.go\<close>: the workflow mode and delegation scope of a run, the plan made
  from the task text, the local docket, and the phase of a run as a function of what its
  participants do. The functions of \<^verbatim>\<open>engine.go\<close> that pick roles and judge a list of workers
  are here too.
\<close>

section \<open>Modes and scopes\<close>

definition workflow_modes :: "string list" where
  "workflow_modes =
    [WorkflowParallelConsensus, WorkflowRouted, WorkflowRoleScoped, WorkflowBoundedCorrection,
     WorkflowReviewOnly]"

definition ResolveWorkflowMode :: "string \<Rightarrow> string \<Rightarrow> string" where
  "ResolveWorkflowMode v fallback =
    (if v \<in> set workflow_modes then v
     else if fallback \<noteq> [] then fallback
     else WorkflowParallelConsensus)"

definition ParseWorkflowMode :: "string \<Rightarrow> string option" where
  "ParseWorkflowMode v =
    (if trim_space v \<in> set workflow_modes then Some (trim_space v) else None)"

definition ParseDelegationScope :: "string \<Rightarrow> string option" where
  "ParseDelegationScope v =
    (let t = trim_space v in
     if t = [] \<or> t = DelegationScopePreset then Some DelegationScopePreset
     else if t = DelegationScopeWorkspace then Some DelegationScopeWorkspace
     else if t = DelegationScopeGlobal then Some DelegationScopeGlobal
     else None)"

definition ResolveDelegationScope :: "string \<Rightarrow> string \<Rightarrow> string" where
  "ResolveDelegationScope v fallback =
    (case ParseDelegationScope v of
       Some scope \<Rightarrow> scope
     | None \<Rightarrow> if fallback \<noteq> [] then fallback else DelegationScopePreset)"

section \<open>Text\<close>

definition collapseWhitespace :: "string \<Rightarrow> string" where
  "collapseWhitespace v = join_str '' '' (string_fields v)"

definition truncate_text :: "string \<Rightarrow> nat \<Rightarrow> string" where
  "truncate_text v limit = (if length v \<le> limit then v else trim_space (take limit v))"

text \<open>\<open>itoa\<close> fills its buffer from the right; it writes nothing for a negative number.\<close>

fun itoa_loop :: "nat \<Rightarrow> string \<Rightarrow> string" where
  "itoa_loop v buf = (if v = 0 then buf else itoa_loop (v div 10) (char_of (48 + v mod 10) # buf))"

declare itoa_loop.simps [simp del]

definition itoa :: "int \<Rightarrow> string" where
  "itoa v = (if v = 0 then ''0'' else if v < 0 then [] else itoa_loop (nat v) [])"
section \<open>The plan\<close>

definition banned_keywords :: "string list" where
  "banned_keywords =
    [''about'', ''after'', ''agent'', ''along'', ''build'', ''check'', ''court'', ''judge'',
     ''juror'', ''should'', ''their'', ''there'', ''these'', ''those'', ''under'', ''with'',
     ''work'', ''would'']"

text \<open>\<open>strings.FieldsFunc\<close>: the pieces made of lower case letters and digits only.\<close>

definition keyword_char :: "char \<Rightarrow> bool" where
  "keyword_char c \<longleftrightarrow> is_lower c \<or> is_digit c"

fun keyword_fields :: "string \<Rightarrow> string \<Rightarrow> string list" where
  "keyword_fields cur [] = (if cur = [] then [] else [cur])"
| "keyword_fields cur (c # cs) =
    (if keyword_char c then keyword_fields (cur @ [c]) cs
     else if cur = [] then keyword_fields [] cs
     else cur # keyword_fields [] cs)"

fun keyword_loop :: "string list \<Rightarrow> string list \<Rightarrow> string list" where
  "keyword_loop out [] = out"
| "keyword_loop out (raw # raws) =
    (if length raw < 4 then keyword_loop out raws
     else if raw \<in> set banned_keywords then keyword_loop out raws
     else (let out' = (if containsString out raw then out else out @ [raw]) in
           if length out' = 6 then out' else keyword_loop out' raws))"

definition workflowKeywords :: "unicode \<Rightarrow> string \<Rightarrow> string list" where
  "workflowKeywords u s = keyword_loop [] (keyword_fields [] (to_lower u s))"

definition bullet_body :: "string \<Rightarrow> string option" where
  "bullet_body line =
    (let item = trim_space line in
     if has_prefix item ''- '' \<or> has_prefix item ''* '' then Some (trim_space (drop 2 item)) else None)"

definition plan_bodies :: "string \<Rightarrow> string list" where
  "plan_bodies trimmed =
    (let bodies = List.map_filter bullet_body (split_byte nl trimmed);
         bodies = (if bodies = []
                   then filter (\<lambda>t. t \<noteq> []) (map collapseWhitespace (split_on [nl, nl] trimmed))
                   else bodies)
     in if bodies = [] then [trimmed] else bodies)"

definition plan_title :: "string \<Rightarrow> string" where
  "plan_title body =
    (let title = (case index_of body '':'' of Some i \<Rightarrow> take i body | None \<Rightarrow> body);
         title = truncate_text (collapseWhitespace title) 72
     in if title = [] then ''task'' else title)"

definition plan_element :: "unicode \<Rightarrow> nat \<Rightarrow> string \<Rightarrow> PlanElement" where
  "plan_element u i body =
    \<lparr>pel_ID = ''plan-'' @ itoa (int i + 1), pel_Title = plan_title body,
     pel_Detail = collapseWhitespace body, pel_Keywords = workflowKeywords u body\<rparr>"

definition BuildPlan :: "unicode \<Rightarrow> string \<Rightarrow> string \<Rightarrow> PlanArtifact" where
  "BuildPlan u now task =
    (let trimmed = trim_space task;
         bodies = plan_bodies trimmed;
         elements = map (\<lambda>(i, body). plan_element u i body) (enumerate 0 bodies)
     in \<lparr>pln_Headline = pel_Title (hd elements), pln_Summary = truncate_text (pel_Detail (hd elements)) 180,
         pln_OperatorPrompt = trimmed, pln_CreatedAt = now, pln_Elements = elements\<rparr>)"

definition allPlanIDs :: "PlanArtifact \<Rightarrow> string list" where
  "allPlanIDs plan = map pel_ID (pln_Elements plan)"

section \<open>Roles and workers\<close>

definition clerkRoles :: "Preset \<Rightarrow> Role list" where
  "clerkRoles preset = filter (\<lambda>role. rol_Kind role = RoleClerk) (pre_Roles preset)"

definition jurorRoles :: "Preset \<Rightarrow> Role list" where
  "jurorRoles preset = filter (\<lambda>role. rol_Kind role = RoleJuror) (pre_Roles preset)"

definition judgeRole :: "Preset \<Rightarrow> Role option" where
  "judgeRole preset = List.find (\<lambda>role. rol_Kind role = RoleJudge) (pre_Roles preset)"

definition presetJudgeRoles :: "Preset \<Rightarrow> Role list" where
  "presetJudgeRoles preset = (case judgeRole preset of Some judge \<Rightarrow> [judge] | None \<Rightarrow> [])"

definition initialRolesFor :: "Preset \<Rightarrow> string \<Rightarrow> Role list" where
  "initialRolesFor preset workflow =
    (if clerkRoles preset \<noteq> [] then clerkRoles preset
     else if jurorRoles preset \<noteq> [] then jurorRoles preset
     else if workflow = WorkflowReviewOnly then []
     else presetJudgeRoles preset)"

definition initialPhase :: "Preset \<Rightarrow> string \<Rightarrow> Phase" where
  "initialPhase preset workflow =
    (if clerkRoles preset \<noteq> [] then PhaseClerk
     else if jurorRoles preset \<noteq> [] then PhaseJurors
     else if workflow = WorkflowReviewOnly then PhaseComplete
     else PhaseVerdict)"

definition clerkCompleted :: "Worker list \<Rightarrow> bool" where
  "clerkCompleted workers \<longleftrightarrow>
    list_ex (\<lambda>w. wrk_RoleKind w = RoleClerk \<and> wrk_Status w = WorkerCompleted) workers"

definition clerkReadyForJurors :: "Worker list \<Rightarrow> Preset \<Rightarrow> bool" where
  "clerkReadyForJurors workers preset =
    (if clerkRoles preset = [] \<or> jurorRoles preset = [] then False
     else if list_ex (\<lambda>w. wrk_RoleKind w = RoleClerk \<and> wrk_Status w \<noteq> WorkerCompleted) workers
     then False
     else clerkCompleted workers)"

definition jurorsStarted :: "Worker list \<Rightarrow> bool" where
  "jurorsStarted workers \<longleftrightarrow> list_ex (\<lambda>w. wrk_RoleKind w = RoleJuror) workers"

fun judge_loop :: "bool \<Rightarrow> Worker list \<Rightarrow> bool" where
  "judge_loop seenJudge [] = seenJudge"
| "judge_loop seenJudge (w # ws) =
    (if wrk_RoleKind w \<noteq> RoleJudge then judge_loop seenJudge ws
     else if wrk_Status w \<noteq> WorkerCompleted then False
     else judge_loop True ws)"

definition judgeCompleted :: "Worker list \<Rightarrow> bool" where
  "judgeCompleted workers = judge_loop False workers"

definition workerExists :: "Worker list \<Rightarrow> string \<Rightarrow> bool" where
  "workerExists workers roleID \<longleftrightarrow> list_ex (\<lambda>w. wrk_RoleID w = roleID) workers"

section \<open>The docket\<close>

abbreviation structured_findings :: string where
  "structured_findings \<equiv>
    ''Structured findings, risks, next actions, and a direct recommendation.''"

text \<open>
  The index into the plan's elements is \<open>i % len(plan.Elements)\<close>, which panics when there are
  none; plans made by \<open>BuildPlan\<close> have elements.
\<close>

definition docket_assignment :: "PlanArtifact \<Rightarrow> string \<Rightarrow> nat \<Rightarrow> Role \<Rightarrow> DocketAssignment" where
  "docket_assignment plan workflow i role =
    (let element = pln_Elements plan ! (i mod length (pln_Elements plan));
         (planIDs, instructions, rationale) =
           (if workflow = WorkflowRouted
            then ([pel_ID element], pel_Detail element,
                  ''deterministic local routing until clerk routing is online'')
            else if workflow = WorkflowRoleScoped
            then (allPlanIDs plan,
                  ''Review the full task through this role scope:'' @ [nl, nl] @ rol_Brief role
                  @ [nl, nl] @ ''Task:'' @ [nl] @ pln_OperatorPrompt plan,
                  ''role-scoped workflow keeps the full task visible while specializing each juror by role brief'')
            else (allPlanIDs plan, pln_OperatorPrompt plan,
                  ''parallel consensus broadcasts the same prompt to each juror''))
     in \<lparr>dka_ID = rol_ID role, dka_Title = rol_Title role, dka_Instructions = instructions,
         dka_TargetKind = DocketTargetJuror, dka_TargetIDs = [rol_ID role],
         dka_PlanElementIDs = planIDs, dka_ExpectedDeliverable = structured_findings,
         dka_Rationale = rationale\<rparr>)"

definition BuildDocket :: "PlanArtifact \<Rightarrow> Preset \<Rightarrow> string \<Rightarrow> DocketArtifact" where
  "BuildDocket plan preset workflow =
    \<lparr>dkt_WorkflowMode = workflow, dkt_DelegationScope = DelegationScopePreset,
     dkt_Source = DocketDeterministicLocal, dkt_Summary = pln_Summary plan, dkt_ClerkNotes = [],
     dkt_JuryIDs = [], dkt_JudgeIDs = [],
     dkt_Assignments =
       map (\<lambda>(i, role). docket_assignment plan workflow i role)
         (filter (\<lambda>(i, role). rol_Kind role \<noteq> RoleJudge \<and> rol_Kind role \<noteq> RoleClerk)
           (enumerate 0 (jurorRoles preset)))\<rparr>"

section \<open>The phase\<close>

record PhaseInput =
  RequireClerk :: bool
  InlineReviewEnabled :: bool
  VerdictEnabled :: bool
  VerdictDisabled :: bool
  DocketReady :: bool
  InlineReviewReady :: bool
  VerdictReady :: bool
  CorrectionTargetCount :: int
  CorrectionAppliedCount :: int

record ParticipantState =
  prt_Role :: RoleKind
  Present :: bool
  Required :: bool
  PromptReady :: bool
  AttentionRequested :: bool
  BlockedOnUser :: bool
  CommandRunning :: bool
  Unhealthy :: bool

record PhaseResult =
  phr_Phase :: Phase
  Blocked :: bool
  BlockedRequiredCount :: int
  JurorTotalCount :: int
  JurorReadyCount :: int
  JurorRunningCount :: int
  ClerkPresent :: bool
  JudgePresent :: bool
  CanInlineReview :: bool
  CanFinalizeVerdict :: bool

definition reviewEligible :: "ParticipantState \<Rightarrow> bool" where
  "reviewEligible p \<longleftrightarrow>
    Present p \<and> \<not> Unhealthy p \<and> \<not> BlockedOnUser p \<and> \<not> AttentionRequested p \<and> PromptReady p"

definition participant_running :: "ParticipantState \<Rightarrow> bool" where
  "participant_running p \<longleftrightarrow>
    CommandRunning p \<or> (Present p \<and> \<not> reviewEligible p \<and> \<not> BlockedOnUser p)"

definition count_participant :: "ParticipantState \<Rightarrow> PhaseResult \<Rightarrow> PhaseResult" where
  "count_participant p result =
    (if \<not> Present p then result
     else (let result =
             (case prt_Role p of
                RoleJuror \<Rightarrow>
                  result\<lparr>JurorTotalCount := JurorTotalCount result + 1,
                    JurorReadyCount := JurorReadyCount result + of_bool (reviewEligible p),
                    JurorRunningCount := JurorRunningCount result + of_bool (participant_running p)\<rparr>
              | RoleClerk \<Rightarrow> result\<lparr>ClerkPresent := True\<rparr>
              | RoleJudge \<Rightarrow> result\<lparr>JudgePresent := True\<rparr>
              | RoleOther _ \<Rightarrow> result)
           in if Required p \<and> (BlockedOnUser p \<or> AttentionRequested p)
              then result\<lparr>BlockedRequiredCount := BlockedRequiredCount result + 1\<rparr> else result))"

definition phase_of :: "PhaseInput \<Rightarrow> PhaseResult \<Rightarrow> Phase" where
  "phase_of input result =
    (if Blocked result then PhaseBlocked
     else if VerdictReady input then PhaseComplete
     else if RequireClerk input \<and> \<not> DocketReady input then PhaseClerk
     else if InlineReviewEnabled input \<and> InlineReviewReady input
             \<and> CorrectionAppliedCount input < CorrectionTargetCount input then PhaseCorrections
     else if JurorRunningCount result > 0 then
       (if InlineReviewEnabled input \<and> InlineReviewReady input then PhaseCorrections else PhaseJurors)
     else if InlineReviewEnabled input \<and> \<not> InlineReviewReady input \<and> CanInlineReview result
     then PhaseInlineJudge
     else if VerdictEnabled input \<and> \<not> VerdictReady input \<and> CanFinalizeVerdict result then PhaseVerdict
     else if (\<not> VerdictEnabled input \<and> CanInlineReview result)
             \<or> (VerdictEnabled input \<and> CanFinalizeVerdict result \<and> VerdictReady input)
     then PhaseComplete
     else if JurorTotalCount result > 0 then PhaseJurors
     else PhaseIdle)"

definition no_phase_result :: PhaseResult where
  "no_phase_result =
    \<lparr>phr_Phase = PhaseIdle, Blocked = False, BlockedRequiredCount = 0, JurorTotalCount = 0,
     JurorReadyCount = 0, JurorRunningCount = 0, ClerkPresent = False, JudgePresent = False,
     CanInlineReview = False, CanFinalizeVerdict = False\<rparr>"

definition EvaluatePhase :: "PhaseInput \<Rightarrow> ParticipantState list \<Rightarrow> PhaseResult" where
  "EvaluatePhase input participants =
    (let input = (if \<not> VerdictEnabled input \<and> \<not> VerdictDisabled input
                  then input\<lparr>VerdictEnabled := True\<rparr> else input);
         result = foldl (\<lambda>result p. count_participant p result) no_phase_result participants;
         result = result\<lparr>Blocked := BlockedRequiredCount result > 0\<rparr>;
         result = result\<lparr>CanInlineReview := JurorTotalCount result > 0
           \<and> JurorReadyCount result = JurorTotalCount result \<and> \<not> Blocked result\<rparr>;
         result = result\<lparr>CanFinalizeVerdict := VerdictEnabled input \<and> CanInlineReview result
           \<and> (\<not> InlineReviewEnabled input \<or> InlineReviewReady input)
           \<and> CorrectionAppliedCount input \<ge> CorrectionTargetCount input\<rparr>
     in result\<lparr>phr_Phase := phase_of input result\<rparr>)"

definition worker_participant :: "Worker \<Rightarrow> ParticipantState" where
  "worker_participant worker =
    \<lparr>prt_Role = wrk_RoleKind worker, Present = True, Required = True,
     PromptReady = (wrk_Status worker = WorkerCompleted), AttentionRequested = False,
     BlockedOnUser = False,
     CommandRunning = (wrk_Status worker = WorkerQueued \<or> wrk_Status worker = WorkerRunning),
     Unhealthy = (wrk_Status worker = WorkerFailed)\<rparr>"

definition ParticipantStatesFromWorkers :: "Worker list \<Rightarrow> ParticipantState list" where
  "ParticipantStatesFromWorkers workers = map worker_participant workers"

definition phaseInputForRun :: "Run \<Rightarrow> Preset \<Rightarrow> Worker list \<Rightarrow> PhaseInput" where
  "phaseInputForRun r preset workers =
    \<lparr>RequireClerk = (clerkRoles preset \<noteq> []),
     InlineReviewEnabled = (run_Workflow r = WorkflowBoundedCorrection),
     VerdictEnabled = (run_Workflow r \<noteq> WorkflowReviewOnly),
     VerdictDisabled = (run_Workflow r = WorkflowReviewOnly),
     DocketReady = (clerkRoles preset = [] \<or> clerkCompleted workers),
     InlineReviewReady = False, VerdictReady = False,
     CorrectionTargetCount = 0, CorrectionAppliedCount = 0\<rparr>"

definition retryPhaseForWorker :: "Worker \<Rightarrow> Phase" where
  "retryPhaseForWorker worker =
    (case wrk_RoleKind worker of
       RoleClerk \<Rightarrow> PhaseClerk
     | RoleJuror \<Rightarrow> PhaseJurors
     | RoleJudge \<Rightarrow> PhaseVerdict
     | RoleOther _ \<Rightarrow> PhaseBlocked)"

end
