(* ===== verification/JsonDecode.thy ===== *)
theory JsonDecode
  imports JsonEncode
begin

text \<open>
  What the program uses of \<open>encoding/json\<close> to decode into structs and values of unknown type. A
  decoder gets the old value of a field and the JSON value of a member; \<open>None\<close> is a type error,
  after which the code does not use the struct.
\<close>

section \<open>Decoding into structs\<close>

type_synonym 'a decoder = "'a \<Rightarrow> json \<Rightarrow> 'a option"

fun decode_string :: "string decoder" where
  "decode_string old JNull = Some old"
| "decode_string old (JStr s) = Some s"
| "decode_string old _ = None"

definition int_literal :: "string \<Rightarrow> int option" where
  "int_literal lit =
    (let ds = (if has_prefix lit ''-'' then tl lit else lit);
         n = int (foldl (\<lambda>n c. 10 * n + (byte c - 48)) 0 ds);
         v = (if has_prefix lit ''-'' then - n else n)
     in if list_all is_digit ds \<and> ds \<noteq> [] \<and> - (2 ^ 63) \<le> v \<and> v < 2 ^ 63 then Some v else None)"

fun decode_int :: "int decoder" where
  "decode_int old JNull = Some old"
| "decode_int old (JNum lit) = int_literal lit"
| "decode_int old _ = None"

fun decode_all :: "(json \<Rightarrow> 'a option) \<Rightarrow> json list \<Rightarrow> 'a list option" where
  "decode_all d [] = Some []"
| "decode_all d (v # vs) =
    (case (d v, decode_all d vs) of (Some x, Some xs) \<Rightarrow> Some (x # xs) | _ \<Rightarrow> None)"

text \<open>A slice: \<open>null\<close> makes it nil, an array replaces it; \<open>null\<close> elements are zero values.\<close>

fun decode_slice :: "(json \<Rightarrow> 'a option) \<Rightarrow> 'a list option decoder" where
  "decode_slice d old JNull = Some None"
| "decode_slice d old (JArr vs) = map_option Some (decode_all d vs)"
| "decode_slice d old _ = None"

definition decode_strings :: "string list option decoder" where
  "decode_strings = decode_slice (decode_string [])"

text \<open>A member goes to the field of that name, or of that name in another letter case.\<close>

definition member_field :: "unicode \<Rightarrow> (string \<times> 'a decoder) list \<Rightarrow> string \<Rightarrow> 'a decoder option" where
  "member_field u fds key =
    (case map_of fds key of
       Some d \<Rightarrow> Some d
     | None \<Rightarrow> map_option snd (List.find (\<lambda>f. equal_fold u (fst f) key) fds))"

fun decode_members :: "unicode \<Rightarrow> (string \<times> 'a decoder) list \<Rightarrow> 'a \<Rightarrow> (string \<times> json) list \<Rightarrow> 'a option" where
  "decode_members u fds old [] = Some old"
| "decode_members u fds old ((key, v) # ms) =
    (case member_field u fds key of
       None \<Rightarrow> decode_members u fds old ms
     | Some d \<Rightarrow>
         (case d old v of
            None \<Rightarrow> None
          | Some new \<Rightarrow> decode_members u fds new ms))"

fun decode_struct :: "unicode \<Rightarrow> (string \<times> 'a decoder) list \<Rightarrow> 'a decoder" where
  "decode_struct u fds old JNull = Some old"
| "decode_struct u fds old (JObj ms) = decode_members u fds old ms"
| "decode_struct u fds old _ = None"

definition on_field :: "('a \<Rightarrow> 'b) \<Rightarrow> ('b \<Rightarrow> 'a \<Rightarrow> 'a) \<Rightarrow> 'b decoder \<Rightarrow> 'a decoder" where
  "on_field getf setf d old v = map_option (\<lambda>x. setf x old) (d (getf old) v)"

section \<open>Decoding into values of unknown type\<close>

text \<open>A number becomes a \<open>float64\<close>, or an error when it is out of range; of equal names the last counts.\<close>

fun json_any :: "json \<Rightarrow> gval option"
  and json_list :: "json list \<Rightarrow> gval list option"
  and json_members :: "(string \<times> gval) list \<Rightarrow> (string \<times> json) list \<Rightarrow> (string \<times> gval) list option" where
  "json_any JNull = Some GNil"
| "json_any (JBool b) = Some (GBool b)"
| "json_any (JNum lit) = map_option GFloat (parse_float64 lit)"
| "json_any (JStr s) = Some (GStr s)"
| "json_any (JArr vs) = map_option (GList \<circ> Some) (json_list vs)"
| "json_any (JObj ms) = map_option (GMap \<circ> Some) (json_members [] ms)"
| "json_list [] = Some []"
| "json_list (v # vs) =
    (case (json_any v, json_list vs) of (Some x, Some xs) \<Rightarrow> Some (x # xs) | _ \<Rightarrow> None)"
| "json_members es [] = Some es"
| "json_members es ((k, v) # ms) =
    (case json_any v of None \<Rightarrow> None | Some x \<Rightarrow> json_members (AList.update k x es) ms)"

text \<open>A \<open>map[string]any\<close>: \<open>null\<close> makes it nil, the members of an object are added to it.\<close>

fun decode_any_map :: "(string \<times> gval) list option decoder" where
  "decode_any_map old JNull = Some None"
| "decode_any_map old (JObj ms) = map_option Some (json_members (case_option [] id old) ms)"
| "decode_any_map old _ = None"

end
