(* ===== verification/CourtResult.thy ===== *)
theory CourtResult
  imports CourtWorkflow JsonExtract JsonDecode
begin

text \<open>
  What a worker of the court answers: \<^verbatim>\<open>internal/court/worker_result.go\<close> and the decision of a
  clerk in \<^verbatim>\<open>delegation.go\<close>.
\<close>

section \<open>The result of a worker\<close>

definition no_result :: WorkerResult where
  "no_result =
    \<lparr>res_SchemaVersion = 0, res_Summary = [], res_Findings = None, res_Risks = None,
     res_NextActions = None, res_Verdict = [], res_Confidence = []\<rparr>"

definition result_fields :: "(string \<times> WorkerResult decoder) list" where
  "result_fields =
    [(''schema_version'', on_field res_SchemaVersion (\<lambda>x r. r\<lparr>res_SchemaVersion := x\<rparr>) decode_int),
     (''summary'', on_field res_Summary (\<lambda>x r. r\<lparr>res_Summary := x\<rparr>) decode_string),
     (''findings'', on_field res_Findings (\<lambda>x r. r\<lparr>res_Findings := x\<rparr>) decode_strings),
     (''risks'', on_field res_Risks (\<lambda>x r. r\<lparr>res_Risks := x\<rparr>) decode_strings),
     (''next_actions'', on_field res_NextActions (\<lambda>x r. r\<lparr>res_NextActions := x\<rparr>) decode_strings),
     (''verdict'', on_field res_Verdict (\<lambda>x r. r\<lparr>res_Verdict := x\<rparr>) decode_string),
     (''confidence'', on_field res_Confidence (\<lambda>x r. r\<lparr>res_Confidence := x\<rparr>) decode_string)]"

definition unmarshal_result :: "unicode \<Rightarrow> string \<Rightarrow> WorkerResult option" where
  "unmarshal_result u raw = Option.bind (json_parse raw) (decode_struct u result_fields no_result)"

definition WorkerResultRequiredFields :: "string list" where
  "WorkerResultRequiredFields =
    [''schema_version'', ''summary'', ''findings'', ''risks'', ''next_actions'', ''verdict'',
     ''confidence'']"

definition WorkerResultConfidenceValues :: "string list" where
  "WorkerResultConfidenceValues = [''low'', ''medium'', ''high'']"

definition ValidWorkerResultConfidence :: "string \<Rightarrow> bool" where
  "ValidWorkerResultConfidence v \<longleftrightarrow> v \<in> set WorkerResultConfidenceValues"

definition meaningfulWorkerResultText :: "string \<Rightarrow> bool" where
  "meaningfulWorkerResultText v =
    (let t = trim_space v in
     if t = [] \<or> t = ''...'' then False
     else \<not> has_prefix t ''<'' \<or> \<not> has_suffix t ''>'')"

definition validStringList :: "string list option \<Rightarrow> bool" where
  "validStringList vs = (case vs of None \<Rightarrow> False | Some xs \<Rightarrow> list_all meaningfulWorkerResultText xs)"

definition marshal_result :: "WorkerResult \<Rightarrow> string" where
  "marshal_result r =
    ''{'' @ encode_string ''schema_version'' @ '':'' @ decimal (res_SchemaVersion r)
    @ '','' @ encode_string ''summary'' @ '':'' @ encode_string (res_Summary r)
    @ '','' @ encode_string ''findings'' @ '':'' @ encode_strings (res_Findings r)
    @ '','' @ encode_string ''risks'' @ '':'' @ encode_strings (res_Risks r)
    @ '','' @ encode_string ''next_actions'' @ '':'' @ encode_strings (res_NextActions r)
    @ '','' @ encode_string ''verdict'' @ '':'' @ encode_string (res_Verdict r)
    @ '','' @ encode_string ''confidence'' @ '':'' @ encode_string (res_Confidence r) @ ''}''"

definition result_list :: "string \<Rightarrow> string list \<Rightarrow> string" where
  "result_list heading items =
    (if items = [] then []
     else heading @ [nl] @ concat (map (\<lambda>item. ''- '' @ item @ [nl]) items) @ [nl])"

definition render_result :: "WorkerResult \<Rightarrow> string" where
  "render_result r =
    trim_space
      ((if res_Summary r \<noteq> [] then res_Summary r @ [nl, nl] else [])
       @ result_list ''Findings:'' (case_option [] id (res_Findings r))
       @ result_list ''Risks:'' (case_option [] id (res_Risks r))
       @ result_list ''Next actions:'' (case_option [] id (res_NextActions r))
       @ (if res_Verdict r \<noteq> [] then ''Verdict:'' @ [nl] @ res_Verdict r @ [nl] else []))"

text \<open>
  \<open>parseWorkerResult\<close>. The raw members are a map, so a repeated name counts once; \<open>null\<close> leaves
  the map empty. The text of the errors of \<open>encoding/json\<close> is not modelled.
\<close>

definition raw_members :: "string \<Rightarrow> string list option" where
  "raw_members raw =
    (case json_parse raw of
       Some JNull \<Rightarrow> Some []
     | Some (JObj ms) \<Rightarrow> Some (remdups (map fst ms))
     | _ \<Rightarrow> None)"

definition parseWorkerResult :: "unicode \<Rightarrow> go_error json_parser" where
  "parseWorkerResult u raw =
    (case raw_members raw of
       None \<Rightarrow> Inl (Err ''invalid json'')
     | Some keys \<Rightarrow>
         (case List.find (\<lambda>key. key \<notin> set keys) WorkerResultRequiredFields of
            Some key \<Rightarrow> Inl (Err (''missing field: '' @ key))
          | None \<Rightarrow>
              if length keys \<noteq> length WorkerResultRequiredFields then Inl (Err ''extra fds'')
              else (case unmarshal_result u raw of
                 None \<Rightarrow> Inl (Err ''parse error'')
               | Some r \<Rightarrow>
                   if res_SchemaVersion r \<noteq> 1 \<or> \<not> meaningfulWorkerResultText (res_Summary r)
                      \<or> \<not> meaningfulWorkerResultText (res_Verdict r)
                   then Inl (Err ''invalid schema or summary/verdict'')
                   else if \<not> validStringList (res_Findings r) \<or> \<not> validStringList (res_Risks r)
                           \<or> \<not> validStringList (res_NextActions r)
                   then Inl (Err ''invalid string list'')
                   else if \<not> ValidWorkerResultConfidence (res_Confidence r)
                   then Inl (Err ''invalid confidence'')
                   else Inr (render_result r, marshal_result r))))"

definition readResultFromOutput :: "unicode \<Rightarrow> string \<Rightarrow> string \<times> string \<times> go_error option" where
  "readResultFromOutput u text' = ExtractStructuredJSON (parseWorkerResult u) text'"

definition renderedWorkerResult :: "unicode \<Rightarrow> Worker \<Rightarrow> string" where
  "renderedWorkerResult u worker =
    (if trim_space (wrk_ResultJSON worker) \<noteq> [] then
       (case parseWorkerResult u (wrk_ResultJSON worker) of
          Inr (rendered, _) \<Rightarrow> rendered
        | Inl _ \<Rightarrow> trim_space (wrk_Result worker))
     else trim_space (wrk_Result worker))"

section \<open>The verdict\<close>

definition verdict_section :: "unicode \<Rightarrow> Worker \<Rightarrow> string" where
  "verdict_section u worker =
    ''## '' @ wrk_RoleTitle worker @ [nl, nl] @ renderedWorkerResult u worker @ [nl, nl]"

definition finalVerdict :: "unicode \<Rightarrow> Worker list \<Rightarrow> string" where
  "finalVerdict u workers =
    (let judges = filter (\<lambda>w. wrk_RoleKind w = RoleJudge \<and> renderedWorkerResult u w \<noteq> []) workers;
         heading = ''# Court Verdict'' @ [nl, nl]
     in if length judges = 1 then renderedWorkerResult u (hd judges)
        else if length judges > 1
        then trim_space (heading @ concat (map (verdict_section u) judges))
        else heading @ concat (map (verdict_section u)
               (filter (\<lambda>w. renderedWorkerResult u w \<noteq> []) workers)))"

section \<open>The decision of a clerk\<close>

definition no_route :: ClerkDelegationRoute where
  "no_route =
    \<lparr>rte_TargetID = [], rte_TargetIDs = [], rte_Instructions = [], rte_ExpectedDeliverable = [],
     rte_Rationale = []\<rparr>"

text \<open>A nil slice and an empty one are not told apart here.\<close>

definition decode_list :: "(json \<Rightarrow> 'a option) \<Rightarrow> 'a list decoder" where
  "decode_list d old v = map_option (case_option [] id) (decode_slice d (Some old) v)"

definition route_fields :: "(string \<times> ClerkDelegationRoute decoder) list" where
  "route_fields =
    [(''target_id'', on_field rte_TargetID (\<lambda>x r. r\<lparr>rte_TargetID := x\<rparr>) decode_string),
     (''target_ids'', on_field rte_TargetIDs (\<lambda>x r. r\<lparr>rte_TargetIDs := x\<rparr>) (decode_list (decode_string []))),
     (''instructions'', on_field rte_Instructions (\<lambda>x r. r\<lparr>rte_Instructions := x\<rparr>) decode_string),
     (''expected_deliverable'',
        on_field rte_ExpectedDeliverable (\<lambda>x r. r\<lparr>rte_ExpectedDeliverable := x\<rparr>) decode_string),
     (''rationale'', on_field rte_Rationale (\<lambda>x r. r\<lparr>rte_Rationale := x\<rparr>) decode_string)]"

definition no_decision :: ClerkDelegationDecision where
  "no_decision =
    \<lparr>dec_SchemaVersion = 0, dec_Scope = [], dec_JuryIDs = [], dec_JurorIDs = [], dec_JudgeIDs = [],
     dec_Assignments = [], dec_Rationale = []\<rparr>"

definition decision_fields :: "unicode \<Rightarrow> (string \<times> ClerkDelegationDecision decoder) list" where
  "decision_fields u =
    [(''schema_version'', on_field dec_SchemaVersion (\<lambda>x r. r\<lparr>dec_SchemaVersion := x\<rparr>) decode_int),
     (''scope'', on_field dec_Scope (\<lambda>x r. r\<lparr>dec_Scope := x\<rparr>) decode_string),
     (''jury_ids'', on_field dec_JuryIDs (\<lambda>x r. r\<lparr>dec_JuryIDs := x\<rparr>) (decode_list (decode_string []))),
     (''juror_ids'', on_field dec_JurorIDs (\<lambda>x r. r\<lparr>dec_JurorIDs := x\<rparr>) (decode_list (decode_string []))),
     (''judge_ids'', on_field dec_JudgeIDs (\<lambda>x r. r\<lparr>dec_JudgeIDs := x\<rparr>) (decode_list (decode_string []))),
     (''assignments'', on_field dec_Assignments (\<lambda>x r. r\<lparr>dec_Assignments := x\<rparr>)
        (decode_list (decode_struct u route_fields no_route))),
     (''rationale'', on_field dec_Rationale (\<lambda>x r. r\<lparr>dec_Rationale := x\<rparr>) decode_string)]"

definition unmarshal_decision :: "unicode \<Rightarrow> string \<Rightarrow> ClerkDelegationDecision option" where
  "unmarshal_decision u raw =
    Option.bind (json_parse raw) (decode_struct u (decision_fields u) no_decision)"

abbreviation delegationDecisionPrefix :: string where
  "delegationDecisionPrefix \<equiv> ''court_delegation:''"

text \<open>The candidates in one value: the first that decodes decides.\<close>

fun decision_in :: "unicode \<Rightarrow> string list \<Rightarrow> go_error + ClerkDelegationDecision" where
  "decision_in u [] = Inl (Err (''delegation decision after '' @ quoted u delegationDecisionPrefix
     @ '' is not valid JSON''))"
| "decision_in u (c # cs) =
    (case unmarshal_decision u c of
       None \<Rightarrow> decision_in u cs
     | Some d \<Rightarrow>
         if dec_SchemaVersion d \<noteq> 1 then Inl (Err ''delegation decision schema_version must be 1'')
         else Inr d)"

fun decision_loop :: "unicode \<Rightarrow> string list \<Rightarrow> go_error + ClerkDelegationDecision option" where
  "decision_loop u [] = Inr None"
| "decision_loop u (v # vs) =
    (case index_of v delegationDecisionPrefix of
       None \<Rightarrow> decision_loop u vs
     | Some i \<Rightarrow>
         map_sum id Some
           (decision_in u (JSONObjectCandidates
             (trim_space (drop (i + length delegationDecisionPrefix) v)))))"

definition clerkDelegationDecision :: "unicode \<Rightarrow> string \<Rightarrow> go_error + ClerkDelegationDecision option" where
  "clerkDelegationDecision u resultJSON =
    (case unmarshal_result u resultJSON of
       None \<Rightarrow> Inl (Wrapped ''parse worker delegation result'' (Err ''json''))
     | Some r \<Rightarrow>
         decision_loop u (case_option [] id (res_Findings r) @ case_option [] id (res_NextActions r)
                          @ case_option [] id (res_Risks r)))"

end
