(* ===== verification/CourtDelegation.thy ===== *)
theory CourtDelegation
  imports CourtResult
begin

text \<open>
  \<^verbatim>\<open>internal/court/delegation.go\<close>: the docket that a clerk's decision selects from the catalog
  of roles and juries. The maps of the catalog are association lists; what is read from the file
  system to fill them is not modelled.
\<close>

record delegationCatalog =
  cat_roles :: "(string \<times> Role) list"
  cat_juries :: "(string \<times> Jury) list"

definition delegationScopeEnabled :: "string \<Rightarrow> bool" where
  "delegationScopeEnabled scope \<longleftrightarrow>
    scope = DelegationScopeWorkspace \<or> scope = DelegationScopeGlobal"

text \<open>\<open>%s\<close> of a role kind.\<close>

definition kind_text :: "RoleKind \<Rightarrow> string" where
  "kind_text k =
    (case k of RoleClerk \<Rightarrow> ''clerk'' | RoleJuror \<Rightarrow> ''juror'' | RoleJudge \<Rightarrow> ''judge'' | RoleOther s \<Rightarrow> s)"

text \<open>
  \<open>addUniqueID\<close>. The map of the IDs seen and the slice of the IDs kept always hold the same
  strings, so the slice alone is the state; \<open>cleanStringList\<close> is the same loop on a new slice.
\<close>

definition addUniqueID :: "string list \<Rightarrow> string \<Rightarrow> string list" where
  "addUniqueID out i =
    (let t = trim_space i in if t = [] \<or> t \<in> set out then out else out @ [t])"

definition cleanStringList :: "string list \<Rightarrow> string list" where
  "cleanStringList values = foldl addUniqueID [] values"

definition routeTargetIDs :: "ClerkDelegationRoute \<Rightarrow> string list" where
  "routeTargetIDs route =
    (let ids = cleanStringList (rte_TargetIDs route);
         ids = (if trim_space (rte_TargetID route) \<noteq> [] then trim_space (rte_TargetID route) # ids else ids)
     in cleanStringList ids)"

definition routeForRole :: "ClerkDelegationRoute list \<Rightarrow> string \<Rightarrow> ClerkDelegationRoute option" where
  "routeForRole routes roleID = List.find (\<lambda>route. roleID \<in> set (routeTargetIDs route)) routes"

text \<open>The juries of the decision: jurors, and a jury's judge when the decision names none.\<close>

fun jury_loop ::
  "unicode \<Rightarrow> delegationCatalog \<Rightarrow> bool \<Rightarrow> string list \<Rightarrow> string list \<Rightarrow> string list \<Rightarrow>
   go_error + string list \<times> string list" where
  "jury_loop u catalog own_judges [] jurorIDs judgeIDs = Inr (jurorIDs, judgeIDs)"
| "jury_loop u catalog own_judges (i # juryIDs) jurorIDs judgeIDs =
    (case map_of (cat_juries catalog) i of
       None \<Rightarrow> Inl (Err (''delegation references unknown jury '' @ quoted u i))
     | Some jury \<Rightarrow>
         jury_loop u catalog own_judges juryIDs (foldl addUniqueID jurorIDs (jry_JurorIDs jury))
           (if trim_space (jry_JudgeID jury) \<noteq> [] \<and> \<not> own_judges
            then addUniqueID judgeIDs (jry_JudgeID jury) else judgeIDs))"

definition route_jurors :: "delegationCatalog \<Rightarrow> ClerkDelegationRoute list \<Rightarrow> string list \<Rightarrow> string list" where
  "route_jurors catalog routes jurorIDs =
    foldl (\<lambda>out i. case map_of (cat_roles catalog) i of
                      Some role \<Rightarrow> if rol_Kind role = RoleJuror then addUniqueID out i else out
                    | None \<Rightarrow> out)
      jurorIDs (concat (map routeTargetIDs routes))"

fun select_jurors :: "unicode \<Rightarrow> delegationCatalog \<Rightarrow> string list \<Rightarrow> go_error + Role list" where
  "select_jurors u catalog [] = Inr []"
| "select_jurors u catalog (i # ids) =
    (case map_of (cat_roles catalog) i of
       None \<Rightarrow> Inl (Err (''delegation references unknown juror '' @ quoted u i))
     | Some role \<Rightarrow>
         if rol_Kind role \<noteq> RoleJuror
         then Inl (Err (''delegation target '' @ quoted u i @ '' is '' @ kind_text (rol_Kind role)
                        @ '', not juror''))
         else map_sum id ((#) role) (select_jurors u catalog ids))"

definition select_judges :: "Preset \<Rightarrow> ClerkDelegationDecision \<Rightarrow> string list \<Rightarrow> string list" where
  "select_judges preset decision judgeIDs =
    (let judgeIDs = foldl addUniqueID judgeIDs (cleanStringList (dec_JudgeIDs decision))
     in if judgeIDs = []
        then (case judgeRole preset of Some judge \<Rightarrow> addUniqueID judgeIDs (rol_ID judge) | None \<Rightarrow> judgeIDs)
        else judgeIDs)"

fun check_judges :: "unicode \<Rightarrow> delegationCatalog \<Rightarrow> string list \<Rightarrow> go_error option" where
  "check_judges u catalog [] = None"
| "check_judges u catalog (i # ids) =
    (case map_of (cat_roles catalog) i of
       Some role \<Rightarrow>
         if rol_Kind role \<noteq> RoleJudge
         then Some (Err (''delegation judge '' @ quoted u i @ '' is '' @ kind_text (rol_Kind role)
                         @ '', not judge''))
         else check_judges u catalog ids
     | None \<Rightarrow> check_judges u catalog ids)"

definition delegated_assignment ::
  "PlanArtifact \<Rightarrow> ClerkDelegationDecision \<Rightarrow> Role \<Rightarrow> DocketAssignment" where
  "delegated_assignment plan decision role =
    (let route = routeForRole (dec_Assignments decision) (rol_ID role);
         instructions = pln_OperatorPrompt plan;
         expected = structured_findings;
         rationale = firstNonEmpty [dec_Rationale decision, ''selected by clerk delegation''];
         (instructions, expected, rationale) =
           (case route of
              None \<Rightarrow> (instructions, expected, rationale)
            | Some r \<Rightarrow>
                (firstNonEmpty [rte_Instructions r, instructions],
                 firstNonEmpty [rte_ExpectedDeliverable r, expected],
                 firstNonEmpty [rte_Rationale r, rationale]))
     in \<lparr>dka_ID = rol_ID role, dka_Title = rol_Title role, dka_Instructions = instructions,
         dka_TargetKind = DocketTargetJuror, dka_TargetIDs = [rol_ID role],
         dka_PlanElementIDs = allPlanIDs plan, dka_ExpectedDeliverable = expected,
         dka_Rationale = rationale\<rparr>)"

definition buildDelegatedDocket ::
  "unicode \<Rightarrow> PlanArtifact \<Rightarrow> Run \<Rightarrow> Preset \<Rightarrow> delegationCatalog \<Rightarrow> ClerkDelegationDecision \<Rightarrow>
   go_error + DocketArtifact \<times> Role list" where
  "buildDelegatedDocket u plan r preset catalog decision =
    (case jury_loop u catalog (dec_JudgeIDs decision \<noteq> []) (cleanStringList (dec_JuryIDs decision)) [] [] of
       Inl e \<Rightarrow> Inl e
     | Inr (jurorIDs, judgeIDs) \<Rightarrow>
         (let jurorIDs = foldl addUniqueID jurorIDs (cleanStringList (dec_JurorIDs decision));
              jurorIDs = route_jurors catalog (dec_Assignments decision) jurorIDs
          in if jurorIDs = [] then Inl (Err ''delegation selected no jurors'')
             else (case select_jurors u catalog jurorIDs of
                Inl e \<Rightarrow> Inl e
              | Inr jurors \<Rightarrow>
                  (let judgeIDs = select_judges preset decision judgeIDs in
                   case check_judges u catalog judgeIDs of
                     Some e \<Rightarrow> Inl e
                   | None \<Rightarrow>
                       Inr (\<lparr>dkt_WorkflowMode = run_Workflow r,
                             dkt_DelegationScope = run_DelegationScope r,
                             dkt_Source = DocketClerkDelegated,
                             dkt_Summary = firstNonEmpty [dec_Rationale decision, pln_Summary plan],
                             dkt_ClerkNotes = [],
                             dkt_JuryIDs = cleanStringList (dec_JuryIDs decision),
                             dkt_JudgeIDs = judgeIDs,
                             dkt_Assignments = map (delegated_assignment plan decision) jurors\<rparr>,
                            jurors)))))"

end
