(* ===== verification/CourtWorkflowSpec.thy ===== *)
theory CourtWorkflowSpec
  imports CourtDelegation
begin

text \<open>
  What holds of plans, dockets, delegation and phases: the pure part of the court.
\<close>

section \<open>Plans\<close>

lemma itoa_loop_step:
  "0 < n \<Longrightarrow> itoa_loop n buf = itoa_loop (n div 10) (char_of (48 + n mod 10) # buf)"
  by (simp add: itoa_loop.simps [of n])

lemma itoa_loop_append: "itoa_loop n buf = itoa_loop n [] @ buf"
proof (induction n arbitrary: buf rule: less_induct)
  case (less n)
  show ?case
  proof (cases "n = 0")
    case False
    then have *: "n div 10 < n" "0 < n" by simp_all
    have step: "itoa_loop n b = itoa_loop (n div 10) [] @ char_of (48 + n mod 10) # b" for b
      unfolding itoa_loop_step [OF *(2)] by (rule less.IH [OF *(1)])
    show ?thesis unfolding step [of buf] step [of "[]"] by simp
  qed (simp add: itoa_loop.simps)
qed

text \<open>Reading the digits gives the number back, so different numbers have different texts.\<close>

definition read_digits :: "string \<Rightarrow> nat" where
  "read_digits ds = foldl (\<lambda>a c. 10 * a + (byte c - 48)) 0 ds"

lemma read_digits_snoc: "read_digits (ds @ [c]) = 10 * read_digits ds + (byte c - 48)"
  by (simp add: read_digits_def)

lemma digit_byte: "m < 10 \<Longrightarrow> byte (char_of (48 + m) :: char) - 48 = (m :: nat)"
  by simp

lemma itoa_loop_value: "read_digits (itoa_loop n []) = n"
proof (induction n rule: less_induct)
  case (less n)
  show ?case
  proof (cases "n = 0")
    case False
    then have *: "n div 10 < n" "0 < n" by simp_all
    have "itoa_loop n [] = itoa_loop (n div 10) [] @ [char_of (48 + n mod 10)]"
      unfolding itoa_loop_step [OF *(2)] by (rule itoa_loop_append)
    then have "read_digits (itoa_loop n []) = 10 * (n div 10) + n mod 10"
      using less.IH [OF *(1)] digit_byte [of "n mod 10"] by (simp only: read_digits_snoc)
    then show ?thesis by simp
  qed (simp add: itoa_loop.simps read_digits_def)
qed

lemma itoa_inj: "itoa (int m + 1) = itoa (int n + 1) \<longleftrightarrow> m = n"
proof
  assume "itoa (int m + 1) = itoa (int n + 1)"
  then have "itoa_loop (Suc m) [] = itoa_loop (Suc n) []"
    by (simp add: itoa_def nat_add_distrib)
  then show "m = n" using itoa_loop_value by (metis nat.inject)
qed simp

definition good_keywords :: "string list \<Rightarrow> bool" where
  "good_keywords ks \<longleftrightarrow> distinct ks \<and> (\<forall>k \<in> set ks. 4 \<le> length k \<and> k \<notin> set banned_keywords)"

lemma keyword_loop_good:
  "good_keywords out \<Longrightarrow> length out < 6 \<Longrightarrow>
   good_keywords (keyword_loop out raws) \<and> length (keyword_loop out raws) \<le> 6"
proof (induction raws arbitrary: out)
  case (Cons raw raws)
  let ?out = "if containsString out raw then out else out @ [raw]"
  show ?case
  proof (cases "length raw < 4 \<or> raw \<in> set banned_keywords")
    case True
    then have "keyword_loop out (raw # raws) = keyword_loop out raws" by auto
    with Cons show ?thesis by simp
  next
    case False
    then have eq: "keyword_loop out (raw # raws) = (if length ?out = 6 then ?out else keyword_loop ?out raws)"
      by (simp add: Let_def)
    have good: "good_keywords ?out" "length ?out \<le> 6"
      using Cons.prems False by (auto simp: good_keywords_def containsString_def)
    show ?thesis unfolding eq using good Cons.IH [of ?out] by (cases "length ?out = 6") simp_all
  qed
qed simp

lemma workflowKeywords_good: "good_keywords (workflowKeywords u s)" "length (workflowKeywords u s) \<le> 6"
  using keyword_loop_good [of "[]"] by (simp_all add: workflowKeywords_def good_keywords_def)

lemma trim_space_length: "length (trim_space s) \<le> length s"
  by (metis length_rev suffix_length_le suffix_trim_left_space suffix_trim_right_space_rev
      trim_space_def order_trans)

lemma truncate_text_length: "length (truncate_text v n) \<le> n"
  using trim_space_length [of "take n v"] by (auto simp: truncate_text_def)

lemma plan_title_bounds: "plan_title body \<noteq> []" "length (plan_title body) \<le> 72"
  using truncate_text_length by (auto simp: plan_title_def Let_def)

lemma plan_bodies_not_Nil: "plan_bodies trimmed \<noteq> []"
  by (simp add: plan_bodies_def Let_def)

lemma plan_elements:
  "pln_Elements (BuildPlan u t task) =
     map (\<lambda>(i, body). plan_element u i body) (enumerate 0 (plan_bodies (trim_space task)))"
  by (simp add: BuildPlan_def Let_def)

lemma plan_ids:
  "map pel_ID (pln_Elements (BuildPlan u t task)) =
     map (\<lambda>i. ''plan-'' @ itoa (int i + 1)) [0..<length (plan_bodies (trim_space task))]"
  by (rule nth_equalityI) (simp_all add: plan_elements nth_enumerate_eq plan_element_def)

lemma distinct_plan_ids: "distinct (map pel_ID (pln_Elements (BuildPlan u t task)))"
  unfolding plan_ids by (simp add: distinct_map inj_on_def itoa_inj)

lemma BuildPlan_elements: "pln_Elements (BuildPlan u t task) \<noteq> []"
  unfolding plan_elements using plan_bodies_not_Nil by (metis Nil_is_map_conv length_0_conv length_enumerate)

text \<open>
  every plan made from a task has elements; their IDs are plan-1, plan-2 and so on and
  distinct, their titles are not empty and have at most 72 bytes, and each has at most six
  distinct keywords of at least four letters that are no banned words. The headline is the first
  title.
\<close>

theorem BuildPlan_spec:
  "let plan = BuildPlan u t task; els = pln_Elements plan in
     els \<noteq> [] \<and> pln_Headline plan = pel_Title (hd els)
     \<and> map pel_ID els = map (\<lambda>i. ''plan-'' @ itoa (int i + 1)) [0..<length els]
     \<and> distinct (map pel_ID els)
     \<and> list_all (\<lambda>el. pel_Title el \<noteq> [] \<and> length (pel_Title el) \<le> 72
          \<and> good_keywords (pel_Keywords el) \<and> length (pel_Keywords el) \<le> 6) els"
proof -
  let ?els = "pln_Elements (BuildPlan u t task)"
  have "?els \<noteq> []" by (rule BuildPlan_elements)
  moreover have "pln_Headline (BuildPlan u t task) = pel_Title (hd ?els)"
    by (simp add: BuildPlan_def Let_def)
  moreover have "length ?els = length (plan_bodies (trim_space task))" by (simp add: plan_elements)
  moreover have "list_all (\<lambda>el. pel_Title el \<noteq> [] \<and> length (pel_Title el) \<le> 72
      \<and> good_keywords (pel_Keywords el) \<and> length (pel_Keywords el) \<le> 6) ?els"
    unfolding plan_elements list_all_iff
    by (auto simp: plan_element_def plan_title_bounds workflowKeywords_good)
  ultimately show ?thesis using plan_ids [of u t task] distinct_plan_ids [of u t task]
    by (simp add: Let_def)
qed

section \<open>Dockets\<close>

lemma jurors_enumerated:
  "filter (\<lambda>(i, role). rol_Kind role \<noteq> RoleJudge \<and> rol_Kind role \<noteq> RoleClerk)
     (enumerate 0 (jurorRoles preset)) = enumerate 0 (jurorRoles preset)"
  by (rule filter_True) (auto simp: jurorRoles_def enumerate_eq_zip dest!: set_zip_rightD)

lemma docket_assignments:
  "dkt_Assignments (BuildDocket plan preset workflow) =
     map (\<lambda>(i, role). docket_assignment plan workflow i role) (enumerate 0 (jurorRoles preset))"
  unfolding BuildDocket_def by (simp add: jurors_enumerated)

lemma routed_ids:
  assumes "pln_Elements plan \<noteq> []"
  shows "(\<Union>i<n. {pel_ID (pln_Elements plan ! (i mod length (pln_Elements plan)))}) =
         pel_ID ` set (take n (pln_Elements plan))"
proof -
  let ?els = "pln_Elements plan"
  have pos: "0 < length ?els" using assms by simp
  have "(\<lambda>i. i mod length ?els) ` {..<n} = {..<min n (length ?els)}" (is "?l = ?r")
  proof
    show "?l \<subseteq> ?r" using pos by (auto simp: min_def intro: le_less_trans [OF mod_less_eq_dividend])
    show "?r \<subseteq> ?l"
    proof
      fix j assume "j \<in> ?r"
      then show "j \<in> ?l" by (intro image_eqI [of _ _ j]) auto
    qed
  qed
  then have img: "(\<lambda>i. i mod length ?els) ` {..<n} = {..<min n (length ?els)}" .
  have take: "take n ?els = map (\<lambda>i. ?els ! i) [0..<min n (length ?els)]"
    by (rule nth_equalityI) auto
  have "(\<lambda>i. pel_ID (?els ! (i mod length ?els))) ` {..<n} =
      (\<lambda>i. pel_ID (?els ! i)) ` ((\<lambda>i. i mod length ?els) ` {..<n})" by (simp only: image_image)
  also have "\<dots> = pel_ID ` set (take n ?els)" unfolding img take by auto
  finally show ?thesis by auto
qed

text \<open>
  the docket made from a plan gives every juror of the preset exactly one
  assignment, in the order of the roles, addressed to that juror. In routed mode the juror at
  position i gets the plan element at position i modulo the number of elements, so the jurors
  together cover exactly the first elements, one each: with fewer jurors than elements the
  remaining elements are reviewed by nobody. In the other modes every juror gets all of them.
\<close>

theorem BuildDocket_spec:
  "let plan = BuildPlan u t task; as = dkt_Assignments (BuildDocket plan preset workflow) in
     map dka_ID as = map rol_ID (jurorRoles preset)
     \<and> map dka_TargetIDs as = map (\<lambda>role. [rol_ID role]) (jurorRoles preset)
     \<and> (if workflow = WorkflowRouted
        then list_all (\<lambda>a. length (dka_PlanElementIDs a) = 1) as
          \<and> (\<Union>a \<in> set as. set (dka_PlanElementIDs a)) =
              pel_ID ` set (take (length (jurorRoles preset)) (pln_Elements plan))
        else list_all (\<lambda>a. dka_PlanElementIDs a = map pel_ID (pln_Elements plan)) as)"
proof -
  let ?plan = "BuildPlan u t task"
  let ?as = "dkt_Assignments (BuildDocket ?plan preset workflow)"
  let ?js = "jurorRoles preset"
  have as: "?as = map (\<lambda>(i, role). docket_assignment ?plan workflow i role) (enumerate 0 ?js)"
    by (rule docket_assignments)
  have routed: "dka_PlanElementIDs (docket_assignment ?plan WorkflowRouted i role) =
      [pel_ID (pln_Elements ?plan ! (i mod length (pln_Elements ?plan)))]" for i role
    by (simp add: docket_assignment_def Let_def)
  have ids: "dka_ID (docket_assignment ?plan workflow i role) = rol_ID role"
    "dka_TargetIDs (docket_assignment ?plan workflow i role) = [rol_ID role]" for i role
    by (simp_all add: docket_assignment_def Let_def split: prod.split)
  have "map dka_ID ?as = map rol_ID (map snd (enumerate 0 ?js))"
    unfolding as by (simp add: ids case_prod_beta del: map_snd_enumerate)
  moreover have "map dka_TargetIDs ?as = map (\<lambda>role. [rol_ID role]) (map snd (enumerate 0 ?js))"
    unfolding as by (simp add: ids case_prod_beta del: map_snd_enumerate)
  moreover have "list_all (\<lambda>a. dka_PlanElementIDs a = map pel_ID (pln_Elements ?plan)) ?as" if "workflow \<noteq> WorkflowRouted"
    unfolding as list_all_iff using that by (auto simp: docket_assignment_def Let_def allPlanIDs_def split: prod.split)
  moreover have "(\<Union>a \<in> set ?as. set (dka_PlanElementIDs a)) = pel_ID ` set (take (length ?js) (pln_Elements ?plan))"
    if "workflow = WorkflowRouted"
  proof -
    have "(\<Union>a \<in> set ?as. set (dka_PlanElementIDs a)) =
        (\<Union>i<length ?js. {pel_ID (pln_Elements ?plan ! (i mod length (pln_Elements ?plan)))})"
      (is "_ = ?r")
    proof -
      have "set ?as = (\<lambda>i. docket_assignment ?plan workflow i (?js ! i)) ` {..<length ?js}"
        unfolding as by (auto simp: in_set_enumerate_eq image_iff)
      then show ?thesis by (simp add: that routed)
    qed
    then show ?thesis using routed_ids [of ?plan "length ?js"] BuildPlan_elements by metis
  qed
  moreover have "list_all (\<lambda>a. length (dka_PlanElementIDs a) = 1) ?as" if "workflow = WorkflowRouted"
    unfolding as by (auto simp: list_all_iff that routed)
  ultimately show ?thesis unfolding Let_def by (cases "workflow = WorkflowRouted") simp_all
qed

section \<open>Delegation\<close>

lemma distinct_addUniqueID: "distinct out \<Longrightarrow> distinct (addUniqueID out i)"
  by (auto simp: addUniqueID_def Let_def)

lemma distinct_foldl_add: "distinct out \<Longrightarrow> distinct (foldl addUniqueID out is)"
  by (induction "is" arbitrary: out) (simp_all add: distinct_addUniqueID)

lemma distinct_cleanStringList: "distinct (cleanStringList vs)"
  by (simp add: cleanStringList_def distinct_foldl_add)

lemma jury_loop_distinct:
  "jury_loop u catalog own ids jurors judges = Inr (js, gs) \<Longrightarrow> distinct jurors \<Longrightarrow> distinct judges \<Longrightarrow>
   distinct js \<and> distinct gs"
  by (induction ids arbitrary: jurors judges)
     (auto simp: distinct_foldl_add distinct_addUniqueID split: option.splits if_splits)

lemma route_jurors_distinct: "distinct out \<Longrightarrow> distinct (route_jurors catalog routes out)"
proof -
  have "distinct out \<Longrightarrow> distinct (foldl (\<lambda>out i. case map_of (cat_roles catalog) i of
      Some role \<Rightarrow> if rol_Kind role = RoleJuror then addUniqueID out i else out | None \<Rightarrow> out) out is)" for "is"
    by (induction "is" arbitrary: out) (simp_all add: distinct_addUniqueID split: option.split)
  then show "distinct out \<Longrightarrow> distinct (route_jurors catalog routes out)" by (simp add: route_jurors_def)
qed

lemma select_judges_distinct: "distinct out \<Longrightarrow> distinct (select_judges preset decision out)"
  by (auto simp: select_judges_def Let_def distinct_foldl_add distinct_addUniqueID split: option.split)

lemma select_jurors_spec:
  "select_jurors u catalog ids = Inr roles \<Longrightarrow>
   map (map_of (cat_roles catalog)) ids = map Some roles \<and> list_all (\<lambda>role. rol_Kind role = RoleJuror) roles"
  by (induction ids arbitrary: roles) (auto split: option.splits if_splits sum.splits simp: map_sum_def)

lemma check_judges_spec:
  "check_judges u catalog ids = None \<Longrightarrow>
   {i \<in> set ids. map_of (cat_roles catalog) i \<noteq> None
      \<and> rol_Kind (the (map_of (cat_roles catalog) i)) \<noteq> RoleJudge} = {}"
  by (induction ids) (auto split: option.splits if_splits)

text \<open>
  C15. a docket that a clerk's decision selects has at least one juror; its jurors are
  entries of the catalog under distinct names and all of the juror kind, each has exactly one
  assignment, in the same order; the judges are distinct and none of them is known to the catalog
  as anything but a judge. A decision that would break this is refused.
\<close>

theorem buildDelegatedDocket_spec:
  "case buildDelegatedDocket u plan r preset catalog decision of
     Inl err \<Rightarrow> True
   | Inr (docket, jurors) \<Rightarrow>
       jurors \<noteq> [] \<and> list_all (\<lambda>role. rol_Kind role = RoleJuror) jurors
       \<and> (\<exists>ids. distinct ids \<and> map (map_of (cat_roles catalog)) ids = map Some jurors)
       \<and> map dka_ID (dkt_Assignments docket) = map rol_ID jurors
       \<and> distinct (dkt_JudgeIDs docket)
       \<and> {i \<in> set (dkt_JudgeIDs docket). map_of (cat_roles catalog) i \<noteq> None
            \<and> rol_Kind (the (map_of (cat_roles catalog) i)) \<noteq> RoleJudge} = {}"
proof (cases "buildDelegatedDocket u plan r preset catalog decision")
  case (Inr res)
  obtain docket jurors where res: "res = (docket, jurors)" by fastforce
  from Inr obtain js gs where loop: "jury_loop u catalog (dec_JudgeIDs decision \<noteq> [])
      (cleanStringList (dec_JuryIDs decision)) [] [] = Inr (js, gs)"
    by (auto simp: buildDelegatedDocket_def split: sum.splits)
  define ids where "ids = route_jurors catalog (dec_Assignments decision)
      (foldl addUniqueID js (cleanStringList (dec_JurorIDs decision)))"
  define judges where "judges = select_judges preset decision gs"
  from Inr loop have parts: "ids \<noteq> []" "select_jurors u catalog ids = Inr jurors"
    "check_judges u catalog judges = None" "dkt_JudgeIDs docket = judges"
    "dkt_Assignments docket = map (delegated_assignment plan decision) jurors"
    by (auto simp: buildDelegatedDocket_def res Let_def ids_def judges_def split: sum.splits if_splits option.splits)
  have "distinct js" "distinct gs" using jury_loop_distinct [OF loop] by simp_all
  then have "distinct ids" "distinct judges"
    by (simp_all add: ids_def judges_def route_jurors_distinct distinct_foldl_add select_judges_distinct)
  moreover have "map dka_ID (dkt_Assignments docket) = map rol_ID jurors"
    unfolding parts(5) by (simp add: delegated_assignment_def Let_def split: option.split prod.split)
  moreover have "jurors \<noteq> []" using parts(1) select_jurors_spec [OF parts(2)] by auto
  ultimately show ?thesis
    unfolding Inr res using select_jurors_spec [OF parts(2)] check_judges_spec [OF parts(3)] parts(4) by auto
qed simp

section \<open>Phases\<close>

abbreviation juror :: "Worker \<Rightarrow> bool" where "juror w \<equiv> wrk_RoleKind w = RoleJuror"
abbreviation completed :: "Worker \<Rightarrow> bool" where "completed w \<equiv> wrk_Status w = WorkerCompleted"

lemma worker_eligible: "reviewEligible (worker_participant w) \<longleftrightarrow> completed w"
  by (auto simp: reviewEligible_def worker_participant_def)

lemma worker_running: "participant_running (worker_participant w) \<longleftrightarrow> \<not> completed w"
  unfolding participant_running_def worker_eligible by (auto simp: worker_participant_def)

lemma count_worker:
  "count_participant (worker_participant w) result =
     (case wrk_RoleKind w of
        RoleJuror \<Rightarrow> result\<lparr>JurorTotalCount := JurorTotalCount result + 1,
           JurorReadyCount := JurorReadyCount result + of_bool (completed w),
           JurorRunningCount := JurorRunningCount result + of_bool (\<not> completed w)\<rparr>
      | RoleClerk \<Rightarrow> result\<lparr>ClerkPresent := True\<rparr>
      | RoleJudge \<Rightarrow> result\<lparr>JudgePresent := True\<rparr>
      | RoleOther _ \<Rightarrow> result)"
  unfolding count_participant_def worker_eligible worker_running
  by (simp add: worker_participant_def Let_def)

lemma count_workers:
  "let res = foldl (\<lambda>result p. count_participant p result) z (map worker_participant ws) in
     JurorTotalCount res = JurorTotalCount z + int (length (filter juror ws))
     \<and> JurorReadyCount res = JurorReadyCount z + int (length (filter (\<lambda>w. juror w \<and> completed w) ws))
     \<and> JurorRunningCount res = JurorRunningCount z + int (length (filter (\<lambda>w. juror w \<and> \<not> completed w) ws))
     \<and> BlockedRequiredCount res = BlockedRequiredCount z"
proof (induction ws arbitrary: z)
  case (Cons w ws)
  show ?case
    using Cons.IH [of "count_participant (worker_participant w) z"]
    by (cases "wrk_RoleKind w") (simp_all add: Let_def count_worker)
qed simp

lemma ready_jurors:
  "length (filter (\<lambda>w. juror w \<and> completed w) ws) = length (filter juror ws) \<longleftrightarrow>
   filter (\<lambda>w. juror w \<and> \<not> completed w) ws = []"
proof -
  have "length (filter juror ws) = length (filter (\<lambda>w. juror w \<and> completed w) ws)
      + length (filter (\<lambda>w. juror w \<and> \<not> completed w) ws)"
    by (induction ws) auto
  then show ?thesis by simp
qed


end
