(* ===== verification/CourtStore.thy ===== *)
theory CourtStore
  imports CourtDelegation
begin

text \<open>
  The database of the court (\<^verbatim>\<open>internal/court/store.go\<close> and the stores of
  \<^verbatim>\<open>internal/orchestration\<close>): the tables as lists of rows in the order of insertion, and one
  atomic action per SQL statement. The driver may fail any statement: the field \<open>faults\<close> says
  what the next statements meet, an error text of the driver or nothing; when it is used up no
  statement fails. The clock is the current time as the database stores it.
\<close>

section \<open>The state\<close>

record court =
  runs :: "Run list"
  workers :: "Worker list"
  attempts :: "Worker list" \<comment> \<open>archived attempts, the latest of a worker and attempt number only\<close>
  controls :: "WorkerControlRequest list"
  last_control :: int \<comment> \<open>the largest ID given out so far\<close>
  events :: "Event list"
  artifacts :: "Artifact list"
  launched :: "string list" \<comment> \<open>the workers a process was started for, in order\<close>
  clock :: string
  fresh :: nat \<comment> \<open>how many random identifiers were drawn\<close>
  faults :: "string option list"

text \<open>A statement: the driver's error, wrapped by the store, or the statement's own outcome.\<close>

definition statement :: "string \<Rightarrow> (court \<Rightarrow> (go_error + 'a) \<times> court) \<Rightarrow> (court, 'a) call" where
  "statement action f = act (\<lambda>s.
    case faults s of
      [] \<Rightarrow> f s
    | None # fs \<Rightarrow> f (s\<lparr>faults := fs\<rparr>)
    | Some m # fs \<Rightarrow> (Inl (Wrapped action (Err m)), s\<lparr>faults := fs\<rparr>))"

definition query :: "string \<Rightarrow> (court \<Rightarrow> go_error + 'a) \<Rightarrow> (court, 'a) call" where
  "query action f = statement action (\<lambda>s. (f s, s))"

definition exec :: "string \<Rightarrow> (court \<Rightarrow> court) \<Rightarrow> (court, unit) call" where
  "exec action f = statement action (\<lambda>s. (Inr (), f s))"

text \<open>\<open>UPDATE ... WHERE\<close> on a table.\<close>

definition update_rows :: "('r \<Rightarrow> bool) \<Rightarrow> ('r \<Rightarrow> 'r) \<Rightarrow> 'r list \<Rightarrow> 'r list" where
  "update_rows p f rows = map (\<lambda>r. if p r then f r else r) rows"

section \<open>Runs\<close>

definition CreateRun :: "Run \<Rightarrow> (court, unit) call" where
  "CreateRun r = statement ''execute sql'' (\<lambda>s.
    if list_ex (\<lambda>x. run_ID x = run_ID r) (runs s)
    then (Inl (Wrapped ''execute sql'' (Err ''UNIQUE constraint failed: runs.id'')), s)
    else (Inr (), s\<lparr>runs := runs s @ [r]\<rparr>))"

text \<open>\<open>scanRun\<close> resolves the stored delegation scope.\<close>

definition scanRun :: "Run \<Rightarrow> Run" where
  "scanRun r = r\<lparr>run_DelegationScope := ResolveDelegationScope (run_DelegationScope r) DelegationScopePreset\<rparr>"

definition GetRun :: "string \<Rightarrow> (court, Run) call" where
  "GetRun i = query ''scan run'' (\<lambda>s.
    case List.find (\<lambda>r. run_ID r = i) (runs s) of
      Some r \<Rightarrow> Inr (scanRun r)
    | None \<Rightarrow> Inl (Err ''run not found''))"

definition UpdateRunStatus :: "string \<Rightarrow> RunStatus \<Rightarrow> string \<Rightarrow> (court, unit) call" where
  "UpdateRunStatus i status verdict = exec ''update run status'' (\<lambda>s.
    s\<lparr>runs := update_rows (\<lambda>r. run_ID r = i)
        (\<lambda>r. r\<lparr>run_Status := status, run_Verdict := verdict, run_UpdatedAt := clock s,
               run_CompletedAt := (if IsTerminalRunStatus status then clock s else [])\<rparr>) (runs s)\<rparr>)"

definition ReactivateRun :: "string \<Rightarrow> Phase \<Rightarrow> (court, unit) call" where
  "ReactivateRun i phase = exec ''reactivate run'' (\<lambda>s.
    s\<lparr>runs := update_rows (\<lambda>r. run_ID r = i)
        (\<lambda>r. r\<lparr>run_Status := RunRunning, run_Phase := phase, run_Verdict := [],
               run_UpdatedAt := clock s, run_CompletedAt := []\<rparr>) (runs s)\<rparr>)"

definition UpdateRunPhase :: "string \<Rightarrow> Phase \<Rightarrow> (court, unit) call" where
  "UpdateRunPhase i phase = exec ''update run stage'' (\<lambda>s.
    s\<lparr>runs := update_rows (\<lambda>r. run_ID r = i)
        (\<lambda>r. r\<lparr>run_Phase := phase, run_UpdatedAt := clock s\<rparr>) (runs s)\<rparr>)"

section \<open>Workers\<close>

definition first_attempt :: "Worker \<Rightarrow> Worker" where
  "first_attempt w = (if wrk_Attempt w = 0 then w\<lparr>wrk_Attempt := 1\<rparr> else w)"

definition worker_conflict :: "court \<Rightarrow> Worker \<Rightarrow> string option" where
  "worker_conflict s w =
    (if list_ex (\<lambda>x. wrk_ID x = wrk_ID w) (workers s)
     then Some ''UNIQUE constraint failed: workers.id''
     else if list_ex (\<lambda>x. wrk_RunID x = wrk_RunID w \<and> wrk_RoleID x = wrk_RoleID w) (workers s)
     then Some ''UNIQUE constraint failed: workers.run_id, workers.role_id''
     else if \<not> list_ex (\<lambda>r. run_ID r = wrk_RunID w) (runs s)
     then Some ''FOREIGN KEY constraint failed''
     else None)"

definition CreateWorker :: "Worker \<Rightarrow> (court, unit) call" where
  "CreateWorker w = statement ''create worker'' (\<lambda>s.
    case worker_conflict s w of
      Some m \<Rightarrow> (Inl (Wrapped ''create worker'' (Err m)), s)
    | None \<Rightarrow> (Inr (), s\<lparr>workers := workers s @ [first_attempt w]\<rparr>))"

definition GetWorker :: "string \<Rightarrow> (court, Worker) call" where
  "GetWorker i = query ''scan worker'' (\<lambda>s.
    case List.find (\<lambda>w. wrk_ID w = i) (workers s) of
      Some w \<Rightarrow> Inr (first_attempt w)
    | None \<Rightarrow> Inl (Err ''worker not found''))"

text \<open>Rows created at the same time come in the order of insertion.\<close>

definition ListWorkers :: "string \<Rightarrow> (court, Worker list) call" where
  "ListWorkers runID = query ''query workers'' (\<lambda>s.
    Inr (map first_attempt (sort_key wrk_CreatedAt (filter (\<lambda>w. wrk_RunID w = runID) (workers s)))))"

definition update_worker :: "string \<Rightarrow> string \<Rightarrow> (Worker \<Rightarrow> bool) \<Rightarrow> (court \<Rightarrow> Worker \<Rightarrow> Worker) \<Rightarrow> (court, unit) call" where
  "update_worker action i p f = exec action (\<lambda>s.
    s\<lparr>workers := update_rows (\<lambda>w. wrk_ID w = i \<and> p w) (f s) (workers s)\<rparr>)"

definition UpdateWorkerRunning :: "string \<Rightarrow> (court, unit) call" where
  "UpdateWorkerRunning i = update_worker ''update worker running status'' i (\<lambda>w. True)
    (\<lambda>s w. w\<lparr>wrk_Status := WorkerRunning, wrk_UpdatedAt := clock s\<rparr>)"

definition UpdateWorkerRuntimeIdentity :: "string \<Rightarrow> RuntimeIdentity \<Rightarrow> (court, unit) call" where
  "UpdateWorkerRuntimeIdentity i ident = update_worker ''update worker runtime identity'' i (\<lambda>w. True)
    (\<lambda>s w. w\<lparr>wrk_RuntimeSessionID := idn_SessionID ident,
             wrk_RuntimeProviderSessionID := idn_ProviderSessionID ident,
             wrk_RuntimeTranscriptPath := idn_TranscriptPath ident,
             wrk_RuntimePID := idn_PID ident, wrk_UpdatedAt := clock s\<rparr>)"

definition ResetWorkerForRetry :: "string \<Rightarrow> string \<Rightarrow> (court, unit) call" where
  "ResetWorkerForRetry i launchID = update_worker ''reset worker for retry'' i (\<lambda>w. True)
    (\<lambda>s w. w\<lparr>wrk_LaunchID := launchID, wrk_Attempt := wrk_Attempt w + 1, wrk_Status := WorkerQueued,
             wrk_RuntimeSessionID := [], wrk_RuntimeProviderSessionID := [],
             wrk_RuntimeTranscriptPath := [], wrk_RuntimePID := 0, wrk_Result := [],
             wrk_ResultJSON := [], wrk_Error := [], wrk_UpdatedAt := clock s,
             wrk_CompletedAt := []\<rparr>)"

text \<open>A cancelled worker stays cancelled.\<close>

definition CompleteWorker :: "string \<Rightarrow> WorkerStatus \<Rightarrow> string \<Rightarrow> string \<Rightarrow> string \<Rightarrow> (court, unit) call" where
  "CompleteWorker i status result resultJSON errText = update_worker ''complete worker'' i
    (\<lambda>w. wrk_Status w \<noteq> WorkerCancelled \<or> status = WorkerCancelled)
    (\<lambda>s w. w\<lparr>wrk_Status := status, wrk_Result := result, wrk_ResultJSON := resultJSON,
             wrk_Error := errText, wrk_UpdatedAt := clock s, wrk_CompletedAt := clock s\<rparr>)"

definition ArchiveWorkerAttempt :: "Worker \<Rightarrow> (court, unit) call" where
  "ArchiveWorkerAttempt w0 = exec ''archive worker attempt'' (\<lambda>s.
    let w = first_attempt w0;
        same = (\<lambda>x. wrk_ID x = wrk_ID w \<and> wrk_Attempt x = wrk_Attempt w)
    in if list_ex same (attempts s)
       then s\<lparr>attempts := update_rows same (\<lambda>x. w\<lparr>wrk_RunID := wrk_RunID x\<rparr>) (attempts s)\<rparr>
       else s\<lparr>attempts := attempts s @ [w]\<rparr>)"

section \<open>Controls, events and artifacts\<close>

definition AddWorkerControl ::
  "string \<Rightarrow> string \<Rightarrow> WorkerControlAction \<Rightarrow> (court, WorkerControlRequest) call" where
  "AddWorkerControl runID workerID action = statement ''insert worker control'' (\<lambda>s.
    let c = \<lparr>wcr_ID = last_control s + 1, wcr_RunID = runID, wcr_WorkerID = workerID,
             wcr_Action = action, wcr_Status = WorkerControlPending, wcr_Error = [],
             wcr_CreatedAt = clock s, wcr_UpdatedAt = clock s\<rparr>
    in if list_ex (\<lambda>w. wrk_ID w = workerID) (workers s)
       then (Inr c, s\<lparr>controls := controls s @ [c], last_control := last_control s + 1\<rparr>)
       else (Inl (Wrapped ''insert worker control'' (Err ''FOREIGN KEY constraint failed'')), s))"

definition set_control :: "court \<Rightarrow> WorkerControlStatus \<Rightarrow> string \<Rightarrow> WorkerControlRequest \<Rightarrow> WorkerControlRequest" where
  "set_control s status errText c =
    c\<lparr>wcr_Status := status, wcr_Error := errText, wcr_UpdatedAt := clock s\<rparr>"

definition CompleteWorkerControl :: "int \<Rightarrow> WorkerControlStatus \<Rightarrow> string \<Rightarrow> (court, unit) call" where
  "CompleteWorkerControl i status errText = exec ''update worker control'' (\<lambda>s.
    s\<lparr>controls := update_rows (\<lambda>c. wcr_ID c = i) (set_control s status errText) (controls s)\<rparr>)"

definition CompletePendingWorkerControls ::
  "string \<Rightarrow> WorkerControlStatus \<Rightarrow> string \<Rightarrow> (court, unit) call" where
  "CompletePendingWorkerControls workerID status errText = exec ''update pending worker controls'' (\<lambda>s.
    s\<lparr>controls := update_rows (\<lambda>c. wcr_WorkerID c = workerID \<and> wcr_Status c = WorkerControlPending)
        (set_control s status errText) (controls s)\<rparr>)"

definition ListPendingWorkerControls :: "string \<Rightarrow> (court, WorkerControlRequest list) call" where
  "ListPendingWorkerControls workerID = query ''query pending worker controls'' (\<lambda>s.
    Inr (sort_key wcr_ID
      (filter (\<lambda>c. wcr_WorkerID c = workerID \<and> wcr_Status c = WorkerControlPending) (controls s))))"

definition AddEvent :: "Event \<Rightarrow> (court, unit) call" where
  "AddEvent e = exec ''insert event'' (\<lambda>s. s\<lparr>events := events s @ [e]\<rparr>)"

definition AddArtifact :: "Artifact \<Rightarrow> (court, unit) call" where
  "AddArtifact a = exec ''insert artifact'' (\<lambda>s. s\<lparr>artifacts := artifacts s @ [a]\<rparr>)"

definition ListArtifacts :: "string \<Rightarrow> (court, Artifact list) call" where
  "ListArtifacts runID = query ''query artifacts'' (\<lambda>s.
    Inr (filter (\<lambda>a. art_RunID a = runID) (artifacts s)))"

section \<open>Statements on their own and under an invariant\<close>

lemma keeps_statement [keeps_intros]:
  assumes "\<And>s fs. I s \<Longrightarrow> I (s\<lparr>faults := fs\<rparr>)" "\<And>s. I s \<Longrightarrow> I (snd (f s))"
  shows "keeps I (statement action f)"
  unfolding statement_def
  by (rule keeps_act) (auto intro!: assms split: list.split option.split)

lemma keeps_query [keeps_intros]:
  "(\<And>s fs. I s \<Longrightarrow> I (s\<lparr>faults := fs\<rparr>)) \<Longrightarrow> keeps I (query action f)"
  unfolding query_def by (rule keeps_statement) simp_all

lemma keeps_exec [keeps_intros]:
  "(\<And>s fs. I s \<Longrightarrow> I (s\<lparr>faults := fs\<rparr>)) \<Longrightarrow> (\<And>s. I s \<Longrightarrow> I (f s)) \<Longrightarrow> keeps I (exec action f)"
  unfolding exec_def by (rule keeps_statement) simp_all

lemma run_statement [run_simps]: "faults s = [] \<Longrightarrow> run (statement action f) s = f s"
  by (simp add: statement_def run_simps)

lemma run_query [run_simps]: "faults s = [] \<Longrightarrow> run (query action f) s = (f s, s)"
  by (simp add: query_def run_simps)

lemma run_exec [run_simps]: "faults s = [] \<Longrightarrow> run (exec action f) s = (Inr (), f s)"
  by (simp add: exec_def run_simps)

end
