(* ===== verification/CourtEngine.thy ===== *)
theory CourtEngine
  imports CourtStore
begin

text \<open>
  \<^verbatim>\<open>internal/court/engine.go\<close>: starting a run, running a worker and reconciling a run with its
  workers. What the engine gets from outside is a record: the random identifiers, the runtimes
  that the control plane describes, what the catalog files say, and the session in which a
  backend does the work of a worker.
\<close>

section \<open>The environment\<close>

record ConfigDefaults =
  def_Preset :: string
  def_Workflow :: string
  def_DelegationScope :: string
  def_Backend :: string
  def_Provider :: string
  def_Model :: string
  def_ModelOptions :: ModelOptions
  def_Backends :: "(string \<times> RuntimeBackendConfig) list"

type_synonym worker_outcome = "string \<times> string \<times> RuntimeIdentity \<times> go_error option"

record engine =
  eng_unicode :: unicode
  eng_random :: "nat \<Rightarrow> string"
  eng_runtimes :: "RuntimeDescriptor list"
  eng_abs :: "string \<Rightarrow> go_error + string" \<comment> \<open>\<open>filepath.Abs\<close>\<close>
  eng_config :: "string \<Rightarrow> go_error + ConfigDefaults" \<comment> \<open>the configuration files for a workspace\<close>
  eng_preset :: "string \<Rightarrow> string \<Rightarrow> go_error + Preset" \<comment> \<open>\<open>resolvePresetForWorkspace\<close>\<close>
  eng_catalog :: "Run \<Rightarrow> go_error + delegationCatalog" \<comment> \<open>\<open>delegationCatalogForRun\<close>\<close>
  eng_roots :: "Run \<Rightarrow> go_error option" \<comment> \<open>the error of \<open>delegationRoots\<close>\<close>
  eng_role :: "Run \<Rightarrow> string \<Rightarrow> go_error + Role option" \<comment> \<open>\<open>LoadRoleFromRoots\<close>\<close>
  eng_session :: "Run \<Rightarrow> Worker \<Rightarrow> (court, worker_outcome) proc" \<comment> \<open>\<open>runAgenticControlWorker\<close>\<close>
  eng_adopt :: "Run \<Rightarrow> Worker \<Rightarrow> (court, string \<times> string) call" \<comment> \<open>\<open>AdoptOrResumeSession\<close>: the session's IDs\<close>
  eng_stop :: "string \<Rightarrow> (court, unit) call" \<comment> \<open>\<open>StopSession\<close> of the control plane\<close>
  eng_interrupt :: "string \<Rightarrow> (court, unit) call" \<comment> \<open>\<open>Interrupt\<close> of the control plane\<close>

definition now :: "(court, string) proc" where
  "now = act (\<lambda>s. (clock s, s))"

definition randomID :: "engine \<Rightarrow> (court, string) proc" where
  "randomID e = act (\<lambda>s. (eng_random e (fresh s), s\<lparr>fresh := Suc (fresh s)\<rparr>))"

section \<open>Events and artifacts\<close>

definition emit :: "string \<Rightarrow> string \<Rightarrow> string \<Rightarrow> string \<Rightarrow> (court, unit) proc" where
  "emit runID workerID typ message =
    seq now (\<lambda>t. also_do
      (AddEvent \<lparr>evt_RunID = runID, evt_WorkerID = workerID, evt_Type = typ,
                 evt_Message = message, evt_Payload = [], evt_CreatedAt = t\<rparr>)
      (Done ()))"

definition addArtifact :: "string \<Rightarrow> string \<Rightarrow> string \<Rightarrow> string \<Rightarrow> artifact_content \<Rightarrow> (court, unit) proc" where
  "addArtifact runID workerID kind format content =
    seq now (\<lambda>t. also_do
      (AddArtifact \<lparr>art_RunID = runID, art_WorkerID = workerID, art_Kind = kind,
                    art_Format = format, art_Content = content, art_CreatedAt = t\<rparr>)
      (Done ()))"

text \<open>The latest docket: the last artifact that is one.\<close>

definition latestDocket :: "string \<Rightarrow> (court, DocketArtifact option) proc" where
  "latestDocket runID =
    seq (ListArtifacts runID) (\<lambda>r.
      Done (case r of
        Inl _ \<Rightarrow> None
      | Inr as \<Rightarrow>
          List.find (\<lambda>_. True) (List.map_filter
            (\<lambda>a. if art_Kind a \<noteq> ''docket'' \<or> art_Format a \<noteq> ''json'' then None
                 else (case art_Content a of ContentDocket d \<Rightarrow> Some d | _ \<Rightarrow> None)) (rev as))))"

section \<open>Making workers\<close>

definition no_config :: RuntimeBackendConfig where
  "no_config = \<lparr>cfg_Provider = [], cfg_Model = [], cfg_ModelOptions = no_options\<rparr>"

text \<open>The list stands for the Go map in the order of its iteration.\<close>

definition backendConfigFor ::
  "unicode \<Rightarrow> (string \<times> RuntimeBackendConfig) list \<Rightarrow> string \<Rightarrow> RuntimeBackendConfig" where
  "backendConfigFor u configs backend =
    (let b = trim_space backend in
     if b = [] \<or> configs = [] then no_config
     else (case map_of configs b of
       Some c \<Rightarrow> c
     | None \<Rightarrow>
         (case List.find (\<lambda>(candidate, c). equal_fold u candidate b) configs of
            Some (_, c) \<Rightarrow> c
          | None \<Rightarrow> no_config)))"

definition newWorker :: "engine \<Rightarrow> string \<Rightarrow> string \<Rightarrow> Run \<Rightarrow> Role \<Rightarrow> string \<Rightarrow> Worker" where
  "newWorker e i launch r role t =
    (let u = eng_unicode e;
         backend = firstNonEmpty [run_Backend r, rol_Backend role];
         scoped = backendConfigFor u (rol_Backends role) backend;
         own = (rol_Backend role = [] \<or> rol_Backend role = backend);
         roleModel = (if own then rol_Model role else []);
         roleProvider = (if own then rol_Provider role else []);
         roleModelOptions = (if own then rol_ModelOptions role else no_options);
         model = firstNonEmpty [cfg_Model scoped, roleModel, run_DefaultModel r];
         modelOptions = MergeModelOptions
           [cfg_ModelOptions scoped, roleModelOptions, run_DefaultModelOptions r];
         provider = firstNonEmpty [cfg_Provider scoped, roleProvider, run_DefaultProvider r,
                                   InferModelProvider u model];
         (model, provider) =
           (if trim_space (run_Model r) \<noteq> []
            then (trim_space (run_Model r),
                  firstNonEmpty [InferModelProvider u (trim_space (run_Model r)), cfg_Provider scoped,
                                 roleProvider])
            else (model, provider));
         modelOptions = (if HasModelOptions (run_ModelOptions r)
                         then MergeModelOptions [run_ModelOptions r, modelOptions] else modelOptions)
     in \<lparr>wrk_ID = ''wrk-'' @ i, wrk_RunID = run_ID r, wrk_LaunchID = ''launch-'' @ launch,
         wrk_Attempt = 1, wrk_RoleID = rol_ID role, wrk_RoleKind = rol_Kind role,
         wrk_RoleTitle = rol_Title role, wrk_Backend = backend, wrk_Provider = provider,
         wrk_Model = model, wrk_ModelOptions = modelOptions, wrk_Agent = rol_Agent role,
         wrk_Status = WorkerQueued, wrk_RuntimeSessionID = [], wrk_RuntimeProviderSessionID = [],
         wrk_RuntimeTranscriptPath = [], wrk_RuntimePID = 0, wrk_Result = [], wrk_ResultJSON = [],
         wrk_Error = [], wrk_CreatedAt = t, wrk_UpdatedAt = t, wrk_CompletedAt = []\<rparr>)"

primrec new_workers :: "engine \<Rightarrow> Run \<Rightarrow> string \<Rightarrow> Role list \<Rightarrow> (court, Worker list) proc" where
  "new_workers e r t [] = Done []"
| "new_workers e r t (role # roles) =
    seq (randomID e) (\<lambda>i.
    seq (randomID e) (\<lambda>launch.
    seq (new_workers e r t roles) (\<lambda>ws.
    Done (newWorker e i launch r role t # ws))))"

text \<open>
  \<open>spawnWorker\<close> starts \<open>court worker <id>\<close> as a process of its own; starting it may fail as a
  statement may.
\<close>

definition spawnWorker :: "string \<Rightarrow> (court, unit) call" where
  "spawnWorker workerID = exec ''start command'' (\<lambda>s. s\<lparr>launched := launched s @ [workerID]\<rparr>)"

definition spawn_hooks :: "Run \<Rightarrow> (court, Worker) QueueAndLaunchHooks" where
  "spawn_hooks r =
    \<lparr>Persist = Some CreateWorker,
     OnPersistError = Some (\<lambda>w err.
       if contains_str (error_text err) ''UNIQUE'' then Done (Inr True) else Done (Inl err)),
     AfterPersist = Some (\<lambda>w. also_do
       (emit (run_ID r) (wrk_ID w) ''worker.queued'' (''queued '' @ wrk_RoleTitle w)) (Done (Inr ()))),
     Launch = Some (\<lambda>w.
       seq (spawnWorker (wrk_ID w)) (\<lambda>res.
         Done (case res of
           Inl err \<Rightarrow> Inl (Wrapped (''worker '' @ wrk_ID w @ '' launch failed'') err)
         | Inr _ \<Rightarrow> Inr ()))),
     OnLaunchError = Some (\<lambda>w err.
       also_do (CompleteWorker (wrk_ID w) WorkerFailed [] [] (error_text err))
       (also_do (emit (run_ID r) (wrk_ID w) ''worker.failed'' (''worker spawn failed: '' @ error_text err))
       (also_do (UpdateRunStatus (run_ID r) RunFailed [])
       (also_do (UpdateRunPhase (run_ID r) PhaseBlocked)
       (also_do (emit (run_ID r) [] ''run.failed'' (''worker spawn failed: '' @ error_text err))
       (Done (Inl err)))))))\<rparr>"

definition spawnRoles :: "engine \<Rightarrow> Run \<Rightarrow> Role list \<Rightarrow> (court, unit) call" where
  "spawnRoles e r roles =
    seq now (\<lambda>t.
    seq (new_workers e r t roles) (\<lambda>ws.
    QueueAndLaunch ws (spawn_hooks r)))"

section \<open>The docket of a clerk\<close>

definition validateBackend :: "engine \<Rightarrow> string \<Rightarrow> go_error + unit" where
  "validateBackend e backend =
    (case ValidateSessionBackend (eng_unicode e) (eng_runtimes e) backend of
       Inl m \<Rightarrow> Inl (Err m)
     | Inr _ \<Rightarrow> Inr ())"

fun invalid_juror :: "engine \<Rightarrow> Run \<Rightarrow> Role list \<Rightarrow> (Role \<times> go_error) option" where
  "invalid_juror e r [] = None"
| "invalid_juror e r (role # roles) =
    (case validateBackend e (firstNonEmpty [run_Backend r, rol_Backend role]) of
       Inl err \<Rightarrow> Some (role, err)
     | Inr _ \<Rightarrow> invalid_juror e r roles)"

text \<open>The decision to delegate: the docket and its jurors, or the reason for the fallback.\<close>

definition delegation_outcome ::
  "engine \<Rightarrow> Run \<Rightarrow> Preset \<Rightarrow> PlanArtifact \<Rightarrow> Worker \<Rightarrow> string \<Rightarrow> string + DocketArtifact \<times> Role list" where
  "delegation_outcome e r preset plan w clerkNotes =
    (case eng_catalog e r of
       Inl err \<Rightarrow> Inl (''delegation catalog failed: '' @ error_text err)
     | Inr catalog \<Rightarrow>
         (case clerkDelegationDecision (eng_unicode e) (wrk_ResultJSON w) of
            Inl err \<Rightarrow> Inl (''delegation decision invalid: '' @ error_text err)
          | Inr None \<Rightarrow> Inl ''clerk did not return a delegation decision; using preset jury''
          | Inr (Some decision) \<Rightarrow>
              (case buildDelegatedDocket (eng_unicode e) plan r preset catalog decision of
                 Inl err \<Rightarrow> Inl (''delegation decision rejected: '' @ error_text err)
               | Inr (docket, jurors) \<Rightarrow>
                   (case invalid_juror e r jurors of
                      Some (role, err) \<Rightarrow>
                        Inl (''delegated juror '' @ quoted (eng_unicode e) (rol_ID role)
                             @ '' backend rejected: '' @ error_text err)
                    | None \<Rightarrow> Inr (docket\<lparr>dkt_ClerkNotes := clerkNotes\<rparr>, jurors)))))"

definition tryDelegatedDocket ::
  "engine \<Rightarrow> Run \<Rightarrow> Preset \<Rightarrow> PlanArtifact \<Rightarrow> Worker \<Rightarrow> string \<Rightarrow>
   (court, (DocketArtifact \<times> Role list) option) proc" where
  "tryDelegatedDocket e r preset plan w clerkNotes =
    (if \<not> delegationScopeEnabled (run_DelegationScope r) then Done None
     else (case delegation_outcome e r preset plan w clerkNotes of
       Inl reason \<Rightarrow>
         also_do (emit (run_ID r) (wrk_ID w) ''docket.delegation_fallback'' reason) (Done None)
     | Inr (docket, jurors) \<Rightarrow> Done (if jurors = [] then None else Some (docket, jurors))))"

definition promoteClerkDocket ::
  "engine \<Rightarrow> Run \<Rightarrow> Preset \<Rightarrow> Worker list \<Rightarrow> (court, Role list) proc" where
  "promoteClerkDocket e r preset ws =
    seq now (\<lambda>t.
    let plan = BuildPlan (eng_unicode e) t (run_Task r);
        docket = (BuildDocket plan preset (run_Workflow r))
          \<lparr>dkt_DelegationScope := run_DelegationScope r, dkt_Source := DocketClerkHeuristic\<rparr>
    in seq (case List.find (\<lambda>w. wrk_RoleKind w = RoleClerk \<and> wrk_Status w = WorkerCompleted) ws of
          None \<Rightarrow> Done (docket, jurorRoles preset)
        | Some w \<Rightarrow>
            (let notes = renderedWorkerResult (eng_unicode e) w in
             seq (tryDelegatedDocket e r preset plan w notes) (\<lambda>res.
               case res of
                 None \<Rightarrow> Done (docket\<lparr>dkt_ClerkNotes := notes\<rparr>, jurorRoles preset)
               | Some (delegated, selected) \<Rightarrow>
                   also_do (emit (run_ID r) (wrk_ID w) ''docket.delegated''
                     (''clerk selected '' @ decimal (int (length (dkt_Assignments delegated)))
                      @ '' juror(s) and '' @ decimal (int (length (dkt_JudgeIDs delegated))) @ '' judge(s)''))
                   (Done (delegated, selected)))))
      (\<lambda>(docket, jurors).
       also_do (addArtifact (run_ID r) [] ''docket'' ''json'' (ContentDocket docket))
       (also_do (emit (run_ID r) [] ''docket.ready'' ''clerk docket ready'')
       (Done jurors))))"

definition delegatedJudgeRole :: "engine \<Rightarrow> Run \<Rightarrow> Preset \<Rightarrow> string \<Rightarrow> go_error + Role" where
  "delegatedJudgeRole e r preset judgeID =
    (case eng_role e r judgeID of
       Inl err \<Rightarrow> Inl err
     | Inr (Some role) \<Rightarrow> Inr (role\<lparr>rol_Kind := RoleJudge\<rparr>)
     | Inr None \<Rightarrow>
         (case judgeRole preset of
            Some judge \<Rightarrow>
              if rol_ID judge = judgeID then Inr (judge\<lparr>rol_Kind := RoleJudge\<rparr>)
              else Inl (Err (''delegated judge '' @ quoted (eng_unicode e) judgeID @ '' not found''))
          | None \<Rightarrow> Inl (Err (''delegated judge '' @ quoted (eng_unicode e) judgeID @ '' not found''))))"

fun delegated_judges :: "engine \<Rightarrow> Run \<Rightarrow> Preset \<Rightarrow> string list \<Rightarrow> go_error + Role list" where
  "delegated_judges e r preset [] = Inr []"
| "delegated_judges e r preset (i # ids) =
    (case delegatedJudgeRole e r preset i of
       Inl err \<Rightarrow> Inl err
     | Inr role \<Rightarrow> map_sum id ((#) role) (delegated_judges e r preset ids))"

definition judgeRolesForRun :: "engine \<Rightarrow> Run \<Rightarrow> Preset \<Rightarrow> (court, Role list) call" where
  "judgeRolesForRun e r preset =
    (if \<not> delegationScopeEnabled (run_DelegationScope r) then Done (Inr (presetJudgeRoles preset))
     else seq (latestDocket (run_ID r)) (\<lambda>docket.
       Done (case docket of
         None \<Rightarrow> Inr (presetJudgeRoles preset)
       | Some d \<Rightarrow>
           if dkt_JudgeIDs d = [] then Inr (presetJudgeRoles preset)
           else (case eng_roots e r of
             Some err \<Rightarrow> Inl err
           | None \<Rightarrow> delegated_judges e r preset (cleanStringList (dkt_JudgeIDs d))))))"

section \<open>Reconciling a run with its workers\<close>

definition completeRun :: "engine \<Rightarrow> string \<Rightarrow> Worker list \<Rightarrow> (court, unit) call" where
  "completeRun e runID ws =
    (let verdict = finalVerdict (eng_unicode e) ws in
     also_do (addArtifact runID [] ''verdict'' ''markdown'' (ContentText verdict))
     (must (UpdateRunStatus runID RunCompleted verdict) (\<lambda>_.
     also_do (UpdateRunPhase runID PhaseComplete)
     (also_do (emit runID [] ''run.completed'' ''run completed'')
     (Done (Inr ()))))))"

text \<open>A run with a failed or cancelled worker ends.\<close>

definition close_run :: "string \<Rightarrow> RunStatus \<Rightarrow> string \<Rightarrow> string \<Rightarrow> (court, unit) call" where
  "close_run runID status typ message =
    also_do (UpdateRunStatus runID status [])
    (also_do (UpdateRunPhase runID PhaseBlocked)
    (also_do (emit runID [] typ message)
    (Done (Inr ()))))"

text \<open>All workers are done: the next roles, or the end.\<close>

definition advance_run :: "engine \<Rightarrow> Run \<Rightarrow> Preset \<Rightarrow> Worker list \<Rightarrow> (court, unit) call" where
  "advance_run e r preset ws =
    (if clerkReadyForJurors ws preset \<and> \<not> jurorsStarted ws then
       seq (promoteClerkDocket e r preset ws) (\<lambda>jurors.
       also_do (UpdateRunPhase (run_ID r) PhaseJurors)
       (spawnRoles e r jurors))
     else if run_Workflow r = WorkflowReviewOnly then completeRun e (run_ID r) ws
     else must (judgeRolesForRun e r preset) (\<lambda>judges.
       if judges = [] then completeRun e (run_ID r) ws
       else (let missing = filter (\<lambda>judge. \<not> workerExists ws (rol_ID judge)) judges in
             if missing = [] then Done (Inr ())
             else also_do (UpdateRunPhase (run_ID r) PhaseVerdict) (spawnRoles e r missing))))"

definition reconcile_workers :: "engine \<Rightarrow> Run \<Rightarrow> Worker list \<Rightarrow> (court, unit) call" where
  "reconcile_workers e r ws =
    (let summary = SummarizeWorkerStatuses ws wrk_Status in
     if HasFailed summary then close_run (run_ID r) RunFailed ''run.failed'' ''one or more workers failed''
     else if HasCancelled summary
     then close_run (run_ID r) RunCancelled ''run.cancelled'' ''one or more workers were cancelled''
     else must (Done (eng_preset e (run_Preset r) (run_Workspace r))) (\<lambda>preset.
       if judgeCompleted ws then completeRun e (run_ID r) ws
       else if HasRunningOrQueued summary then
         also_do (UpdateRunPhase (run_ID r)
           (phr_Phase (EvaluatePhase (phaseInputForRun r preset ws) (ParticipantStatesFromWorkers ws))))
         (Done (Inr ()))
       else advance_run e r preset ws))"

definition ReconcileRun :: "engine \<Rightarrow> string \<Rightarrow> (court, unit) call" where
  "ReconcileRun e runID =
    must (GetRun runID) (\<lambda>r.
    if IsTerminalRunStatus (run_Status r) then Done (Inr ())
    else must (ListWorkers runID) (\<lambda>ws.
      if ws = [] then Done (Inr ()) else reconcile_workers e r ws))"

section \<open>Running a worker\<close>

abbreviation errWorkerCancelled :: string where "errWorkerCancelled \<equiv> ''worker cancelled''"

definition runBackendWorker :: "engine \<Rightarrow> Run \<Rightarrow> Worker \<Rightarrow> (court, worker_outcome) proc" where
  "runBackendWorker e r w =
    (case validateBackend e (wrk_Backend w) of
       Inl err \<Rightarrow> Done ([], [], \<lparr>idn_SessionID = [], idn_ProviderSessionID = [],
                                idn_TranscriptPath = [], idn_PID = 0\<rparr>, Some err)
     | Inr _ \<Rightarrow> eng_session e r w)"

definition terminal_worker :: "Worker \<Rightarrow> bool" where
  "terminal_worker w \<longleftrightarrow>
    wrk_Status w = WorkerCompleted \<or> wrk_Status w = WorkerFailed \<or> wrk_Status w = WorkerCancelled"

definition worker_hooks :: "engine \<Rightarrow> (court, Run, Worker, RuntimeIdentity) WorkerExecutionHooks" where
  "worker_hooks e =
    \<lparr>Load = (\<lambda>i. must (GetWorker i) (\<lambda>w. must (GetRun (wrk_RunID w)) (\<lambda>r. Done (Inr (w, r))))),
     IsTerminal = Some terminal_worker,
     MarkRunning = Some UpdateWorkerRunning,
     OnStarted = Some (\<lambda>r w. emit (run_ID r) (wrk_ID w) ''worker.started'' (wrk_RoleTitle w @ '' started'')),
     Execute = runBackendWorker e,
     HasIdentity = Some (\<lambda>i. idn_SessionID i \<noteq> [] \<or> idn_ProviderSessionID i \<noteq> []
                            \<or> idn_TranscriptPath i \<noteq> [] \<or> idn_PID i \<noteq> 0),
     PersistIdentity = Some UpdateWorkerRuntimeIdentity,
     IsCancelledError = Some (\<lambda>err. case err of None \<Rightarrow> False | Some x \<Rightarrow> errors_is x errWorkerCancelled),
     MarkCancelled = Some (\<lambda>i result resultJSON.
       CompleteWorker i WorkerCancelled result resultJSON ''worker cancelled''),
     OnCancelled = Some (\<lambda>r w result resultJSON.
       emit (run_ID r) (wrk_ID w) ''worker.cancelled'' (wrk_RoleTitle w @ '' cancelled'')),
     MarkFailed = Some (\<lambda>i result resultJSON errText. CompleteWorker i WorkerFailed result resultJSON errText),
     OnFailed = Some (\<lambda>r w result resultJSON errText.
       emit (run_ID r) (wrk_ID w) ''worker.failed'' (wrk_RoleTitle w @ '' failed: '' @ errText)),
     Reload = Some GetWorker,
     IsCancelled = Some (\<lambda>w. wrk_Status w = WorkerCancelled),
     MarkCompleted = Some (\<lambda>i result resultJSON. CompleteWorker i WorkerCompleted result resultJSON []),
     OnCompleted = Some (\<lambda>r w result resultJSON.
       also_do (if resultJSON \<noteq> []
                then addArtifact (run_ID r) (wrk_ID w) ''worker_result'' ''json'' (ContentText resultJSON)
                else Done ())
       (emit (run_ID r) (wrk_ID w) ''worker.completed'' (wrk_RoleTitle w @ '' completed''))),
     Reconcile = Some (\<lambda>r. ReconcileRun e (run_ID r))\<rparr>"

definition RunWorker :: "engine \<Rightarrow> string \<Rightarrow> (court, unit) call" where
  "RunWorker e workerID = ExecuteWorker workerID (worker_hooks e)"

end
