(* ===== verification/CourtLifecycle.thy ===== *)
theory CourtLifecycle
  imports CourtEngine
begin

text \<open>
  Starting a run (\<open>StartRun\<close> of \<^verbatim>\<open>internal/court/engine.go\<close>) and what an operator does to a
  worker: cancel, interrupt, resume and retry (\<^verbatim>\<open>internal/court/lifecycle.go\<close>).
\<close>

section \<open>Starting a run\<close>

record StartRunRequest =
  req_Task :: string
  req_Preset :: string
  req_CourtID :: string
  req_Workflow :: string
  req_DelegationScope :: string
  req_Backend :: string
  req_Workspace :: string
  req_Model :: string
  req_ModelOptions :: ModelOptions
  req_Selection :: "ModelSelection option"

text \<open>A panic of the model registry ends the call.\<close>

abbreviation go_panic :: go_error where "go_panic \<equiv> Sentinel ''panic''"

definition BackendDefaults :: "engine \<Rightarrow> ConfigDefaults \<Rightarrow> string \<Rightarrow> RuntimeBackendConfig" where
  "BackendDefaults e d backend =
    (let scoped = backendConfigFor (eng_unicode e) (def_Backends d) backend;
         model = firstNonEmpty [cfg_Model scoped, def_Model d]
     in \<lparr>cfg_Provider = firstNonEmpty [cfg_Provider scoped, def_Provider d,
           InferModelProvider (eng_unicode e) model],
         cfg_Model = model,
         cfg_ModelOptions = MergeModelOptions [cfg_ModelOptions scoped, def_ModelOptions d]\<rparr>)"

definition apply_selection :: "engine \<Rightarrow> StartRunRequest \<Rightarrow> go_error + StartRunRequest" where
  "apply_selection e req =
    (case req_Selection req of
       None \<Rightarrow> Inr req
     | Some selection \<Rightarrow>
         (case BuildModelRegistry (eng_unicode e) (eng_runtimes e) of
            None \<Rightarrow> Inl go_panic
          | Some registry \<Rightarrow>
              (let target = RuntimeTargetFromSelection
                     (NormalizeModelSelection (eng_unicode e) registry selection)
               in Inr (req\<lparr>req_Backend := tgt_Backend target, req_Model := tgt_Model target,
                         req_ModelOptions := tgt_Options target\<rparr>))))"

definition target_error :: "engine \<Rightarrow> StartRunRequest \<Rightarrow> RuntimeBackendConfig \<Rightarrow> go_error option" where
  "target_error e req defaultRuntime =
    (case ValidateSessionTarget (eng_unicode e) (eng_runtimes e)
       \<lparr>tgt_Backend = req_Backend req, tgt_Provider = [],
        tgt_Model = firstNonEmpty [req_Model req, cfg_Model defaultRuntime],
        tgt_Options = MergeModelOptions [req_ModelOptions req, cfg_ModelOptions defaultRuntime]\<rparr> of
       None \<Rightarrow> Some go_panic
     | Some validation \<Rightarrow>
         if HasErrors validation
         then Some (Err (''run target is invalid: '' @ Message (hd (res_Issues validation))))
         else if (trim_space (req_Model req) \<noteq> [] \<or>
                  (case req_Selection req of Some sel \<Rightarrow> trim_space (sel_Model sel) \<noteq> [] | None \<Rightarrow> False))
                 \<and> HasIssueCode validation ''model_unlisted''
         then Some (Err (''run target is invalid: '' @ Message (hd (res_Issues validation))))
         else None)"

fun preset_backends_error :: "engine \<Rightarrow> string \<Rightarrow> Role list \<Rightarrow> go_error option" where
  "preset_backends_error e backend [] = None"
| "preset_backends_error e backend (role # roles) =
    (case validateBackend e (firstNonEmpty [backend, rol_Backend role]) of
       Inl err \<Rightarrow> Some (Wrapped (''role '' @ quoted (eng_unicode e) (rol_ID role)) err)
     | Inr _ \<Rightarrow> preset_backends_error e backend roles)"

definition parsed_override :: "engine \<Rightarrow> string \<Rightarrow> (string \<Rightarrow> string option) \<Rightarrow> string \<Rightarrow> go_error + unit" where
  "parsed_override e what parse v =
    (if v \<noteq> [] \<and> parse v = None
     then Inl (Err (''unsupported '' @ what @ '' '' @ quoted (eng_unicode e) v)) else Inr ())"

definition option_error :: "go_error option \<Rightarrow> go_error + unit" where
  "option_error err = (case err of Some x \<Rightarrow> Inl x | None \<Rightarrow> Inr ())"

text \<open>Everything before the run is stored: the run, with no ID and no times yet, and its preset.\<close>

definition plan_run :: "engine \<Rightarrow> StartRunRequest \<Rightarrow> go_error + Run \<times> Preset" where
  "plan_run e req0 =
    (if trim_space (req_Task req0) = [] then Inl (Err ''task is required'')
     else (case eng_abs e (if req_Workspace req0 = [] then ''.'' else req_Workspace req0) of
       Inl err \<Rightarrow> Inl (Wrapped ''resolve workspace'' err)
     | Inr workspace \<Rightarrow> (case eng_config e workspace of
       Inl err \<Rightarrow> Inl err
     | Inr defaults \<Rightarrow> (case apply_selection e req0 of
       Inl err \<Rightarrow> Inl err
     | Inr req1 \<Rightarrow>
         (let req2 = (if req_Backend req1 = []
                      then req1\<lparr>req_Backend := firstNonEmpty [def_Backend defaults, ''opencode'']\<rparr> else req1)
          in case validateBackend e (req_Backend req2) of
       Inl err \<Rightarrow> Inl err
     | Inr _ \<Rightarrow>
         (let req = (if trim_space (req_Preset req2) = []
                     then req2\<lparr>req_Preset := def_Preset defaults\<rparr> else req2);
              defaultRuntime = (if trim_space (req_Model req) = []
                                then BackendDefaults e defaults (req_Backend req) else no_config)
          in case option_error (target_error e req defaultRuntime) of
       Inl err \<Rightarrow> Inl err
     | Inr _ \<Rightarrow> (case eng_preset e (req_Preset req) workspace of
       Inl err \<Rightarrow> Inl err
     | Inr preset \<Rightarrow> (case option_error (preset_backends_error e (req_Backend req) (pre_Roles preset)) of
       Inl err \<Rightarrow> Inl err
     | Inr _ \<Rightarrow>
         (let wf = firstNonEmpty [req_Workflow req, def_Workflow defaults]
          in case parsed_override e ''workflow'' ParseWorkflowMode wf of
       Inl err \<Rightarrow> Inl err
     | Inr _ \<Rightarrow>
         (let workflow = ResolveWorkflowMode wf (pre_Workflow preset);
              sc = firstNonEmpty [req_DelegationScope req, def_DelegationScope defaults]
          in case parsed_override e ''delegation scope'' ParseDelegationScope sc of
       Inl err \<Rightarrow> Inl err
     | Inr _ \<Rightarrow>
         Inr (\<lparr>run_ID = [], run_CourtID = req_CourtID req, run_Task = req_Task req,
               run_Preset = pre_ID preset, run_Workflow = workflow,
               run_DelegationScope = ResolveDelegationScope sc DelegationScopePreset,
               run_Backend = req_Backend req, run_Model = req_Model req,
               run_ModelOptions = req_ModelOptions req,
               run_DefaultProvider = cfg_Provider defaultRuntime,
               run_DefaultModel = cfg_Model defaultRuntime,
               run_DefaultModelOptions = cfg_ModelOptions defaultRuntime,
               run_Workspace = workspace, run_Status = RunRunning,
               run_Phase = initialPhase preset workflow, run_Verdict = [],
               run_CreatedAt = [], run_UpdatedAt = [], run_CompletedAt = []\<rparr>, preset)))))))))))"

text \<open>
  The ID of the worker that failed to launch, read off the message of the error: a worker's
  launch error already ended the run.
\<close>

definition failedWorkerIDFromRunStartError :: "go_error \<Rightarrow> string" where
  "failedWorkerIDFromRunStartError err =
    (let message = error_text err in
     if \<not> has_prefix message ''worker '' then []
     else (let rest = trim_prefix message ''worker '' in
           case index_of rest '' launch failed:'' of
             Some i \<Rightarrow> if 0 < i then trim_space (take i rest) else []
           | None \<Rightarrow> []))"

definition failRunStart :: "string \<Rightarrow> string \<Rightarrow> go_error \<Rightarrow> (court, 'a) call" where
  "failRunStart runID workerID cause =
    (let message = error_text cause in
     also_do (if workerID \<noteq> [] then
                also_do (CompleteWorker workerID WorkerFailed [] [] message)
                (emit runID workerID ''worker.failed'' (''worker spawn failed: '' @ message))
              else Done ())
     (also_do (UpdateRunStatus runID RunFailed [])
     (also_do (UpdateRunPhase runID PhaseBlocked)
     (also_do (emit runID [] ''run.failed'' (''run startup failed: '' @ message))
     (Done (Inl cause))))))"

definition start_result :: "Run \<Rightarrow> go_error + unit \<Rightarrow> (court, Run) call" where
  "start_result r res =
    (case res of
       Inr _ \<Rightarrow> Done (Inr r)
     | Inl err \<Rightarrow>
         if failedWorkerIDFromRunStartError err \<noteq> [] then Done (Inl err)
         else failRunStart (run_ID r) [] err)"

text \<open>From storing the run to launching its first workers.\<close>

definition start_planned :: "engine \<Rightarrow> Run \<Rightarrow> Preset \<Rightarrow> (court, Run) call" where
  "start_planned e r0 preset =
    seq now (\<lambda>t.
    seq (randomID e) (\<lambda>i.
    let r = r0\<lparr>run_ID := ''run-'' @ i, run_CreatedAt := t, run_UpdatedAt := t\<rparr> in
    must (CreateRun r) (\<lambda>_.
    seq now (\<lambda>t'.
    let plan = BuildPlan (eng_unicode e) t' (run_Task r);
        docket = (BuildDocket plan preset (run_Workflow r))\<lparr>dkt_DelegationScope := run_DelegationScope r\<rparr>
    in
    also_do (addArtifact (run_ID r) [] ''plan'' ''json'' (ContentPlan plan))
    (also_do (addArtifact (run_ID r) [] ''docket'' ''json'' (ContentDocket docket))
    (also_do (emit (run_ID r) [] ''run.started''
       (''started '' @ pre_ID preset @ '' run with '' @ run_Backend r))
    (seq (spawnRoles e r (initialRolesFor preset (run_Workflow r))) (start_result r))))))))"

definition StartRun :: "engine \<Rightarrow> StartRunRequest \<Rightarrow> (court, Run) call" where
  "StartRun e req = must (Done (plan_run e req)) (\<lambda>(r0, preset). start_planned e r0 preset)"

section \<open>Controlling a worker\<close>

record WorkerControlResult =
  wcx_Worker :: Worker
  wcx_Action :: WorkerControlAction
  wcx_Status :: WorkerControlStatus
  wcx_RuntimeSessionID :: string
  wcx_RuntimeProviderSessionID :: string
  wcx_Message :: string
  wcx_Error :: string

definition control_result ::
  "Worker \<Rightarrow> WorkerControlAction \<Rightarrow> WorkerControlStatus \<Rightarrow> string \<Rightarrow> WorkerControlResult" where
  "control_result w action status message =
    \<lparr>wcx_Worker = w, wcx_Action = action, wcx_Status = status,
     wcx_RuntimeSessionID = wrk_RuntimeSessionID w,
     wcx_RuntimeProviderSessionID = wrk_RuntimeProviderSessionID w,
     wcx_Message = message, wcx_Error = []\<rparr>"

definition status_text :: "WorkerStatus \<Rightarrow> string" where
  "status_text st =
    (case st of WorkerQueued \<Rightarrow> ''queued'' | WorkerRunning \<Rightarrow> ''running''
       | WorkerCompleted \<Rightarrow> ''completed'' | WorkerFailed \<Rightarrow> ''failed'' | WorkerCancelled \<Rightarrow> ''cancelled'')"

definition workerAndRun :: "string \<Rightarrow> (court, Worker \<times> Run) call" where
  "workerAndRun i =
    must (GetWorker i) (\<lambda>w. must (GetRun (wrk_RunID w)) (\<lambda>r. Done (Inr (w, r))))"

text \<open>\<open>updated, _ := e.store.GetWorker(...)\<close>: the zero worker when the read fails.\<close>

definition zero_worker :: Worker where
  "zero_worker =
    \<lparr>wrk_ID = [], wrk_RunID = [], wrk_LaunchID = [], wrk_Attempt = 0, wrk_RoleID = [],
     wrk_RoleKind = RoleOther [], wrk_RoleTitle = [], wrk_Backend = [], wrk_Provider = [],
     wrk_Model = [], wrk_ModelOptions = no_options, wrk_Agent = [], wrk_Status = WorkerQueued,
     wrk_RuntimeSessionID = [], wrk_RuntimeProviderSessionID = [], wrk_RuntimeTranscriptPath = [],
     wrk_RuntimePID = 0, wrk_Result = [], wrk_ResultJSON = [], wrk_Error = [], wrk_CreatedAt = [],
     wrk_UpdatedAt = [], wrk_CompletedAt = []\<rparr>"

definition updated_worker :: "string \<Rightarrow> (court, Worker) proc" where
  "updated_worker i = seq (GetWorker i) (\<lambda>res. Done (case res of Inr w \<Rightarrow> w | Inl _ \<Rightarrow> zero_worker))"

definition ensureControlPlaneSession :: "engine \<Rightarrow> Run \<Rightarrow> Worker \<Rightarrow> (court, string \<times> string) call" where
  "ensureControlPlaneSession e r w =
    seq (eng_adopt e r w) (\<lambda>res.
      case res of
        Inl err \<Rightarrow> Done (Inl (Wrapped (''agentic-control resume '' @ wrk_Backend w
                           @ '' session for worker '' @ wrk_ID w) err))
      | Inr (sessionID, providerID) \<Rightarrow>
          also_do (UpdateWorkerRuntimeIdentity (wrk_ID w)
            \<lparr>idn_SessionID = sessionID, idn_ProviderSessionID = providerID,
             idn_TranscriptPath = [], idn_PID = 0\<rparr>)
          (Done (Inr (sessionID, providerID))))"

definition stopWorkerRuntime :: "engine \<Rightarrow> Run \<Rightarrow> Worker \<Rightarrow> (court, string) call" where
  "stopWorkerRuntime e r w =
    must (ensureControlPlaneSession e r w) (\<lambda>(sessionID, _).
    seq (eng_stop e sessionID) (\<lambda>res.
      Done (case res of Inl err \<Rightarrow> Inl (Wrapped ''stop runtime session'' err) | Inr _ \<Rightarrow> Inr sessionID)))"

definition interruptWorkerRuntime :: "engine \<Rightarrow> Run \<Rightarrow> Worker \<Rightarrow> (court, string \<times> string) call" where
  "interruptWorkerRuntime e r w =
    must (ensureControlPlaneSession e r w) (\<lambda>(sessionID, providerID).
    seq (eng_interrupt e sessionID) (\<lambda>res.
      Done (case res of Inl err \<Rightarrow> Inl (Wrapped ''interrupt runtime session'' err)
                      | Inr _ \<Rightarrow> Inr (sessionID, providerID))))"

text \<open>What stopping the session of a worker gave: status, message and error.\<close>

definition cancel_session ::
  "engine \<Rightarrow> Run \<Rightarrow> Worker \<Rightarrow> (court, WorkerControlStatus \<times> string \<times> go_error option) proc" where
  "cancel_session e r w =
    (if wrk_RuntimeSessionID w \<noteq> [] \<or> wrk_RuntimeProviderSessionID w \<noteq> [] then
       seq (stopWorkerRuntime e r w) (\<lambda>res.
         Done (case res of
           Inr _ \<Rightarrow> (WorkerControlCompleted, ''worker runtime stopped'', None)
         | Inl err \<Rightarrow>
             if wrk_Status w = WorkerRunning
             then (WorkerControlPending,
                   ''worker cancellation persisted; running worker will stop itself on its next control poll'',
                   Some err)
             else (WorkerControlFailed, error_text err, Some err)))
     else Done (WorkerControlCompleted, ''worker cancellation requested'', None))"

definition cancel_worker :: "engine \<Rightarrow> Run \<Rightarrow> Worker \<Rightarrow> (court, WorkerControlResult \<times> go_error option) call" where
  "cancel_worker e r w =
    must (AddWorkerControl (run_ID r) (wrk_ID w) WorkerControlCancel) (\<lambda>control.
    seq (cancel_session e r w) (\<lambda>(status, message, stopErr).
    also_do (if status \<noteq> WorkerControlPending
             then CompleteWorkerControl (wcr_ID control) status (case stopErr of Some x \<Rightarrow> error_text x | None \<Rightarrow> [])
             else Done (Inr ()))
    (also_do (CompleteWorker (wrk_ID w) WorkerCancelled (wrk_Result w) (wrk_ResultJSON w) ''worker cancelled'')
    (also_do (emit (run_ID r) (wrk_ID w) ''worker.cancelled'' message)
    (also_do (UpdateRunStatus (run_ID r) RunCancelled [])
    (also_do (UpdateRunPhase (run_ID r) PhaseBlocked)
    (also_do (emit (run_ID r) [] ''run.cancelled'' ''run cancelled by worker control'')
    (seq (updated_worker (wrk_ID w)) (\<lambda>updated.
       let result = control_result updated WorkerControlCancel status message in
       Done (Inr (case stopErr of
         Some x \<Rightarrow> if status = WorkerControlFailed
                    then (result\<lparr>wcx_Error := error_text x\<rparr>, Some x) else (result, None)
       | None \<Rightarrow> (result, None))))))))))))"

text \<open>The result next to the error, since \<open>CancelWorker\<close> may return both.\<close>

definition CancelWorker :: "engine \<Rightarrow> string \<Rightarrow> (court, WorkerControlResult \<times> go_error option) call" where
  "CancelWorker e i =
    must (workerAndRun i) (\<lambda>(w, r).
    if terminal_worker w then
      Done (Inr (control_result w WorkerControlCancel WorkerControlCompleted
        (''worker is already '' @ status_text (wrk_Status w)), None))
    else cancel_worker e r w)"

definition InterruptWorker :: "engine \<Rightarrow> string \<Rightarrow> (court, WorkerControlResult) call" where
  "InterruptWorker e i =
    must (workerAndRun i) (\<lambda>(w, r).
    if wrk_Status w \<noteq> WorkerRunning then
      Done (Inl (Err (''worker '' @ wrk_ID w @ '' is '' @ status_text (wrk_Status w)
        @ ''; only running workers can be interrupted'')))
    else
      must (AddWorkerControl (run_ID r) (wrk_ID w) WorkerControlInterrupt) (\<lambda>control.
      seq (if wrk_RuntimeSessionID w = [] \<and> wrk_RuntimeProviderSessionID w = []
           then Done (WorkerControlPending,
             ''worker interruption persisted; running worker will handle it after session identity is available'',
             False)
           else seq (interruptWorkerRuntime e r w) (\<lambda>res.
             Done (case res of
               Inr _ \<Rightarrow> (WorkerControlCompleted, ''worker interruption requested'', False)
             | Inl _ \<Rightarrow> (WorkerControlPending,
                 ''worker interruption persisted; running worker will handle it on its next control poll'',
                 True))))
        (\<lambda>(status, message, failed).
      also_do (if failed then Done ()
               else also_do (CompleteWorkerControl (wcr_ID control) WorkerControlCompleted [])
                    (emit (run_ID r) (wrk_ID w) ''worker.interrupted'' message))
      (seq (updated_worker (wrk_ID w)) (\<lambda>updated.
       Done (Inr (control_result updated WorkerControlInterrupt status message)))))))"

definition ResumeWorker :: "engine \<Rightarrow> string \<Rightarrow> (court, WorkerControlResult) call" where
  "ResumeWorker e i =
    must (workerAndRun i) (\<lambda>(w, r).
    must (AddWorkerControl (run_ID r) (wrk_ID w) WorkerControlResume) (\<lambda>control.
    seq (ensureControlPlaneSession e r w) (\<lambda>res.
      case res of
        Inl err \<Rightarrow>
          also_do (CompleteWorkerControl (wcr_ID control) WorkerControlFailed (error_text err))
          (Done (Inl err))
      | Inr (sessionID, providerID) \<Rightarrow>
          also_do (CompleteWorkerControl (wcr_ID control) WorkerControlCompleted [])
          (also_do (emit (run_ID r) (wrk_ID w) ''worker.resumed'' ''worker runtime session adopted'')
          (seq (updated_worker (wrk_ID w)) (\<lambda>updated.
           Done (Inr ((control_result updated WorkerControlResume WorkerControlCompleted
              ''worker runtime session adopted'')
              \<lparr>wcx_RuntimeSessionID := sessionID, wcx_RuntimeProviderSessionID := providerID\<rparr>))))))))"

text \<open>A step of a retry that marks the control as failed when it fails.\<close>

definition retry_step :: "WorkerControlRequest \<Rightarrow> (court, unit) call \<Rightarrow> (court, 'a) call \<Rightarrow> (court, 'a) call" where
  "retry_step control p q =
    seq p (\<lambda>res.
      case res of
        Inl err \<Rightarrow>
          also_do (CompleteWorkerControl (wcr_ID control) WorkerControlFailed (error_text err))
          (Done (Inl err))
      | Inr _ \<Rightarrow> q)"

definition retry_worker :: "engine \<Rightarrow> Run \<Rightarrow> Worker \<Rightarrow> (court, WorkerControlResult) call" where
  "retry_worker e r w =
    also_do (CompletePendingWorkerControls (wrk_ID w) WorkerControlFailed ''superseded by retry'')
    (must (AddWorkerControl (run_ID r) (wrk_ID w) WorkerControlRetry) (\<lambda>control.
    retry_step control (ArchiveWorkerAttempt w)
    (seq (randomID e) (\<lambda>i.
    retry_step control (ResetWorkerForRetry (wrk_ID w) (''launch-'' @ i))
    (retry_step control (ReactivateRun (run_ID r) (retryPhaseForWorker w))
    (also_do (CompleteWorkerControl (wcr_ID control) WorkerControlCompleted [])
    (also_do (emit (run_ID r) (wrk_ID w) ''worker.retried'' ''worker retry queued'')
    (also_do (emit (run_ID r) (wrk_ID w) ''worker.queued'' (''queued '' @ wrk_RoleTitle w))
    (seq (spawnWorker (wrk_ID w)) (\<lambda>res.
       case res of
         Inl err \<Rightarrow>
           also_do (CompleteWorker (wrk_ID w) WorkerFailed [] [] (error_text err))
           (also_do (UpdateRunStatus (run_ID r) RunFailed [])
           (also_do (UpdateRunPhase (run_ID r) PhaseBlocked)
           (also_do (CompleteWorkerControl (wcr_ID control) WorkerControlFailed (error_text err))
           (Done (Inl err)))))
       | Inr _ \<Rightarrow>
           seq (updated_worker (wrk_ID w)) (\<lambda>updated.
           Done (Inr (control_result updated WorkerControlRetry WorkerControlCompleted
             ''worker retry queued''))))))))))))) "

definition RetryWorker :: "engine \<Rightarrow> string \<Rightarrow> (court, WorkerControlResult) call" where
  "RetryWorker e i =
    must (workerAndRun i) (\<lambda>(w, r).
    if wrk_Status w \<noteq> WorkerFailed \<and> wrk_Status w \<noteq> WorkerCancelled then
      Done (Inl (Err (''worker '' @ wrk_ID w @ '' is '' @ status_text (wrk_Status w)
        @ ''; only failed or cancelled workers can be retried'')))
    else retry_worker e r w)"

end
