(* ===== verification/CourtSafety.thy ===== *)
theory CourtSafety
  imports CourtLifecycle
begin

text \<open>
  What \<open>ReconcileRun\<close> may do to a run and to the workers, under any faults of the database.
  \<open>status_in i S W\<close> is kept by every process that gives run \<open>i\<close> only statuses in \<open>S\<close>.
\<close>

section \<open>One run's status\<close>

definition status_of :: "court \<Rightarrow> string \<Rightarrow> RunStatus option" where
  "status_of s runID = map_option run_Status (List.find (\<lambda>r. run_ID r = runID) (runs s))"

definition workers_of :: "court \<Rightarrow> string \<Rightarrow> Worker list" where
  "workers_of s runID = filter (\<lambda>w. wrk_RunID w = runID) (workers s)"

lemma find_update_rows:
  assumes "\<And>r. key (f r) = key r"
  shows "List.find (\<lambda>r. key r = i) (update_rows p f rows) =
     map_option (\<lambda>r. if p r then f r else r) (List.find (\<lambda>r. key r = i) rows)"
  using assms by (induction rows) (auto simp: update_rows_def)

lemma find_key: "List.find (\<lambda>r. key r = i) rows = Some r \<Longrightarrow> key r = i"
  by (auto simp: find_Some_iff)

lemma status_of_set:
  assumes "\<And>r. run_ID (f r) = run_ID r" "\<And>r. run_Status (f r) = st"
  shows "status_of (s\<lparr>runs := update_rows (\<lambda>r. run_ID r = j) f (runs s)\<rparr>) i =
     (if i = j then map_option (\<lambda>_. st) (status_of s i) else status_of s i)"
  using find_key [of run_ID i "runs s"] assms
  by (cases "List.find (\<lambda>r. run_ID r = i) (runs s)")
    (auto simp: status_of_def find_update_rows [where key = run_ID, OF assms(1)])

lemma status_of_keep:
  assumes "\<And>r. run_ID (f r) = run_ID r" "\<And>r. run_Status (f r) = run_Status r"
  shows "status_of (s\<lparr>runs := update_rows p f (runs s)\<rparr>) i = status_of s i"
  using assms by (cases "List.find (\<lambda>r. run_ID r = i) (runs s)")
    (auto simp: status_of_def find_update_rows [where key = run_ID, OF assms(1)])

definition status_in :: "string \<Rightarrow> RunStatus option set \<Rightarrow> (Worker list \<Rightarrow> bool) \<Rightarrow> court \<Rightarrow> bool" where
  "status_in runID S W s \<longleftrightarrow> status_of s runID \<in> S \<and> W (workers s)"

lemma status_in_update:
  "status_in i S W (s\<lparr>faults := fs\<rparr>) = status_in i S W s"
  "status_in i S W (s\<lparr>events := es\<rparr>) = status_in i S W s"
  "status_in i S W (s\<lparr>artifacts := as\<rparr>) = status_in i S W s"
  "status_in i S W (s\<lparr>controls := cs\<rparr>) = status_in i S W s"
  "status_in i S W (s\<lparr>launched := ls\<rparr>) = status_in i S W s"
  "status_in i S W (s\<lparr>fresh := n\<rparr>) = status_in i S W s"
  "status_in i S (\<lambda>_. True) (s\<lparr>workers := ws\<rparr>) = status_in i S (\<lambda>_. True) s"
  by (simp_all add: status_in_def status_of_def)

lemma keeps_emit [keeps_intros]:
  "(\<And>s fs. I s \<Longrightarrow> I (s\<lparr>faults := fs\<rparr>)) \<Longrightarrow> (\<And>s es. I s \<Longrightarrow> I (s\<lparr>events := es\<rparr>)) \<Longrightarrow>
   keeps I (emit runID workerID typ message)"
  unfolding emit_def now_def AddEvent_def by (intro keeps_intros) simp_all

lemma keeps_addArtifact [keeps_intros]:
  "(\<And>s fs. I s \<Longrightarrow> I (s\<lparr>faults := fs\<rparr>)) \<Longrightarrow> (\<And>s as. I s \<Longrightarrow> I (s\<lparr>artifacts := as\<rparr>)) \<Longrightarrow>
   keeps I (addArtifact runID workerID kind format content)"
  unfolding addArtifact_def now_def AddArtifact_def by (intro keeps_intros) simp_all

lemma status_keeps_phase: "keeps (status_in i S W) (UpdateRunPhase j phase)"
  unfolding UpdateRunPhase_def
  by (intro keeps_intros) (simp_all add: status_in_update, simp add: status_in_def status_of_keep)

lemma map_const_in: "x \<in> S \<Longrightarrow> Some st \<in> S \<Longrightarrow> map_option (\<lambda>_. st) x \<in> S"
  by (cases x) auto

lemma status_keeps_status:
  "(i = j \<Longrightarrow> Some st \<in> S) \<Longrightarrow> keeps (status_in i S W) (UpdateRunStatus j st v)"
  unfolding UpdateRunStatus_def
  by (intro keeps_intros) (simp_all add: status_in_update,
      auto simp: status_in_def status_of_set intro: map_const_in)

lemmas status_keeps = status_keeps_phase status_keeps_status

lemma keeps_close_run:
  "(i = j \<Longrightarrow> Some st \<in> S) \<Longrightarrow> keeps (status_in i S W) (close_run j st typ message)"
  unfolding close_run_def by (intro keeps_intros status_keeps) (simp_all add: status_in_update)

lemma keeps_completeRun:
  "(i = j \<Longrightarrow> Some RunCompleted \<in> S) \<Longrightarrow> keeps (status_in i S W) (completeRun e j ws)"
  unfolding completeRun_def Let_def by (intro keeps_intros status_keeps) (simp_all add: status_in_update)


abbreviation any_workers :: "Worker list \<Rightarrow> bool" where "any_workers \<equiv> \<lambda>_. True"

lemma keeps_update_worker:
  "keeps (status_in i S any_workers) (update_worker action j p f)"
  unfolding update_worker_def by (intro keeps_intros) (simp_all add: status_in_update)

lemma keeps_CreateWorker: "keeps (status_in i S any_workers) (CreateWorker w)"
  unfolding CreateWorker_def
  by (intro keeps_intros) (auto simp: status_in_update split: option.split)

lemma keeps_new_workers: "keeps (status_in i S W) (new_workers e r t roles)"
  by (induction roles) (auto intro!: keeps_intros simp: randomID_def status_in_update)

lemma keeps_hook_call [keeps_intros]:
  "(\<And>g. h = Some g \<Longrightarrow> keeps I (f g)) \<Longrightarrow> keeps I (hook_call h f)"
  unfolding hook_call_def by (rule keeps_option) (auto intro: keeps_Done)

lemma keeps_persist_item:
  assumes "\<And>h. Persist hooks = Some h \<Longrightarrow> keeps I (h x)"
    "\<And>h err. OnPersistError hooks = Some h \<Longrightarrow> keeps I (h x err)"
  shows "keeps I (persist_item hooks x)"
  unfolding persist_item_def using assms by (intro keeps_intros) simp_all

lemma keeps_launch_item:
  assumes "\<And>h. Launch hooks = Some h \<Longrightarrow> keeps I (h x)"
    "\<And>h err. OnLaunchError hooks = Some h \<Longrightarrow> keeps I (h x err)"
  shows "keeps I (launch_item hooks x)"
  unfolding launch_item_def using assms by (intro keeps_intros) simp_all

lemma keeps_QueueAndLaunch:
  assumes "\<And>x. x \<in> set xs \<Longrightarrow> keeps I (persist_item hooks x)"
    "\<And>x h. x \<in> set xs \<Longrightarrow> AfterPersist hooks = Some h \<Longrightarrow> keeps I (h x)"
    "\<And>x. x \<in> set xs \<Longrightarrow> keeps I (launch_item hooks x)"
  shows "keeps I (QueueAndLaunch xs hooks)"
  using assms by (induction xs) (auto intro!: keeps_intros)

lemma keeps_spawnRoles:
  assumes "i = run_ID r \<Longrightarrow> Some RunFailed \<in> S"
  shows "keeps (status_in i S any_workers) (spawnRoles e r roles)"
  unfolding spawnRoles_def now_def
proof (intro keeps_intros)
  show "keeps (status_in i S any_workers) (QueueAndLaunch ws (spawn_hooks r))" for ws
  proof (rule keeps_QueueAndLaunch)
    show "keeps (status_in i S any_workers) (persist_item (spawn_hooks r) x)" for x
      by (rule keeps_persist_item) (auto simp: spawn_hooks_def intro!: keeps_intros keeps_CreateWorker)
    show "AfterPersist (spawn_hooks r) = Some h \<Longrightarrow> keeps (status_in i S any_workers) (h x)" for x h
      by (auto simp: spawn_hooks_def status_in_update intro!: keeps_intros)
    show "keeps (status_in i S any_workers) (launch_item (spawn_hooks r) x)" for x
      using assms by (intro keeps_launch_item) (auto simp: spawn_hooks_def spawnWorker_def CompleteWorker_def
          status_in_update intro!: keeps_intros keeps_update_worker status_keeps)
  qed
qed (simp_all add: keeps_new_workers)

lemma keeps_promoteClerkDocket: "keeps (status_in i S W) (promoteClerkDocket e r preset ws)"
  unfolding promoteClerkDocket_def now_def tryDelegatedDocket_def Let_def
  by (intro keeps_intros) (simp_all add: status_in_update)

lemma keeps_judgeRolesForRun: "keeps (status_in i S W) (judgeRolesForRun e r preset)"
  unfolding judgeRolesForRun_def latestDocket_def ListArtifacts_def
  by (intro keeps_intros) (simp_all add: status_in_update)

lemma keeps_advance_run:
  assumes "i = run_ID r \<Longrightarrow> Some RunFailed \<in> S" "i = run_ID r \<Longrightarrow> Some RunCompleted \<in> S"
  shows "keeps (status_in i S any_workers) (advance_run e r preset ws)"
  unfolding advance_run_def Let_def
  by (intro keeps_intros keeps_promoteClerkDocket keeps_judgeRolesForRun keeps_spawnRoles
      keeps_completeRun status_keeps assms) simp_all

text \<open>A query only uses up a fault.\<close>

lemma run_query_any:
  obtains fs where "snd (run (query action f) s) = s\<lparr>faults := fs\<rparr>"
    "fst (run (query action f) s) = f (s\<lparr>faults := fs\<rparr>) \<or> isl (fst (run (query action f) s))"
proof -
  consider "faults s = []" | m fs where "faults s = m # fs" by (cases "faults s") auto
  then show ?thesis
  proof cases
    case 1
    then show ?thesis by (intro that [of "[]"]; cases s) (simp_all add: run_query)
  next
    case 2
    then show ?thesis
      by (intro that [of fs]) (auto simp: query_def statement_def run_act split: option.split)
  qed
qed

section \<open>Rows only get added while a run is reconciled\<close>

definition grows :: "string \<Rightarrow> Worker list \<Rightarrow> Worker list \<Rightarrow> bool" where
  "grows R ws ws' \<longleftrightarrow> take (length ws) ws' = ws \<and> list_all (\<lambda>w. wrk_RunID w = R) (drop (length ws) ws')"

lemma grows_refl [simp]: "grows R ws ws"
  by (simp add: grows_def)

lemma grows_append: "grows R ws ws' \<longleftrightarrow> (\<exists>new. ws' = ws @ new \<and> list_all (\<lambda>w. wrk_RunID w = R) new)"
proof
  assume "grows R ws ws'"
  then show "\<exists>new. ws' = ws @ new \<and> list_all (\<lambda>w. wrk_RunID w = R) new"
    unfolding grows_def by (metis append_take_drop_id)
qed (auto simp: grows_def)

lemma grows_trans: "grows R ws ws' \<Longrightarrow> grows R ws' ws'' \<Longrightarrow> grows R ws ws''"
  by (auto simp: grows_append)

lemma statement_cases:
  obtains (fault) err fs where "run (statement action f) s = (Inl err, s\<lparr>faults := fs\<rparr>)"
  | (ran) fs where "run (statement action f) s = f (s\<lparr>faults := fs\<rparr>)"
proof (cases "faults s")
  case Nil
  then have "run (statement action f) s = f (s\<lparr>faults := []\<rparr>)" by (cases s) (simp add: run_statement)
  then show ?thesis by (rule ran)
next
  case (Cons m fs)
  then show ?thesis by (cases m) (auto simp: statement_def run_act intro: fault ran)
qed

text \<open>What leaves the table of workers alone.\<close>

lemma workers_emit: "workers (snd (run (emit runID workerID typ message) s)) = workers s"
  using keeps_run [OF keeps_emit [of "\<lambda>t. workers t = workers s"]] by simp

lemma CreateWorker_cases:
  obtains (refused) err where "fst (run (CreateWorker w) s) = Inl err"
      "workers (snd (run (CreateWorker w) s)) = workers s"
  | (created) "fst (run (CreateWorker w) s) = Inr ()"
      "workers (snd (run (CreateWorker w) s)) = workers s @ [first_attempt w]"
      "wrk_ID w \<notin> wrk_ID ` set (workers s)"
proof -
  let ?f = "\<lambda>s. case worker_conflict s w of
      Some m \<Rightarrow> (Inl (Wrapped ''create worker'' (Err m)), s)
    | None \<Rightarrow> (Inr (), s\<lparr>workers := workers s @ [first_attempt w]\<rparr>)"
  show ?thesis
  proof (rule statement_cases [of "''create worker''" ?f s])
    show ?thesis if "run (statement ''create worker'' ?f) s = (Inl err, s\<lparr>faults := fs\<rparr>)" for err fs
      using that by (intro refused) (simp_all add: CreateWorker_def)
    show ?thesis if "run (statement ''create worker'' ?f) s = ?f (s\<lparr>faults := fs\<rparr>)" for fs
    proof (cases "worker_conflict (s\<lparr>faults := fs\<rparr>) w")
      case None
      then have "wrk_ID w \<notin> wrk_ID ` set (workers s)"
        by (auto simp: worker_conflict_def list_ex_iff split: if_splits)
      with None that show ?thesis by (intro created) (simp_all add: CreateWorker_def)
    next
      case Some
      with that show ?thesis by (intro refused) (simp_all add: CreateWorker_def)
    qed
  qed
qed

lemma run_ID_first_attempt [simp]:
  "wrk_ID (first_attempt w) = wrk_ID w" "wrk_RunID (first_attempt w) = wrk_RunID w"
  "wrk_Status (first_attempt w) = wrk_Status w" "wrk_RoleKind (first_attempt w) = wrk_RoleKind w"
  "wrk_RoleID (first_attempt w) = wrk_RoleID w"
  by (simp_all add: first_attempt_def)

definition last_row :: "string \<Rightarrow> Worker list \<Rightarrow> court \<Rightarrow> bool" where
  "last_row R ws s \<longleftrightarrow> (\<exists>v. workers s = ws @ [v] \<and> wrk_RunID v = R)"

lemma last_row_update:
  "last_row R ws (s\<lparr>faults := fs\<rparr>) = last_row R ws s"
  "last_row R ws (s\<lparr>events := es\<rparr>) = last_row R ws s"
  "last_row R ws (s\<lparr>runs := rs\<rparr>) = last_row R ws s"
  "last_row R ws (s\<lparr>launched := ls\<rparr>) = last_row R ws s"
  by (simp_all add: last_row_def)

lemma update_other_rows: "\<forall>r \<in> set rows. \<not> p r \<Longrightarrow> update_rows p f rows = rows"
  by (auto simp: update_rows_def intro: map_idI)

lemma last_row_launch:
  assumes "wrk_ID w \<notin> wrk_ID ` set ws"
  shows "keeps (last_row R ws) (launch_item (spawn_hooks r) w)"
proof -
  have "keeps (last_row R ws) (CompleteWorker (wrk_ID w) st x y z)" for st x y z
    unfolding CompleteWorker_def update_worker_def
  proof (intro keeps_intros)
    fix s
    assume "last_row R ws s"
    then obtain v where v: "workers s = ws @ [v]" "wrk_RunID v = R" by (auto simp: last_row_def)
    have "update_rows (\<lambda>w'. wrk_ID w' = wrk_ID w \<and> (wrk_Status w' \<noteq> WorkerCancelled \<or> st = WorkerCancelled)) g ws
        = ws" for g
      using assms by (intro update_other_rows) (metis imageI)
    with v show "last_row R ws (s\<lparr>workers := update_rows
        (\<lambda>w'. wrk_ID w' = wrk_ID w \<and> (wrk_Status w' \<noteq> WorkerCancelled \<or> st = WorkerCancelled))
        (\<lambda>w. w\<lparr>wrk_Status := st, wrk_Result := x, wrk_ResultJSON := y, wrk_Error := z,
               wrk_UpdatedAt := clock s, wrk_CompletedAt := clock s\<rparr>) (workers s)\<rparr>)"
      by (simp add: last_row_def update_rows_def)
  qed (simp add: last_row_update)
  then show ?thesis
    by (intro keeps_launch_item)
      (auto simp: spawn_hooks_def spawnWorker_def UpdateRunStatus_def UpdateRunPhase_def last_row_update
        intro!: keeps_intros)
qed

lemma persist_spawned:
  "(case run (persist_item (spawn_hooks r) w) s of (res, s1) \<Rightarrow>
      workers s1 = workers s \<and> res \<noteq> Inr False \<or>
      workers s1 = workers s @ [first_attempt w] \<and> wrk_ID w \<notin> wrk_ID ` set (workers s) \<and>
        res = Inr False)"
proof (cases rule: CreateWorker_cases [of w s])
  case (refused err)
  obtain s1 where "run (CreateWorker w) s = (Inl err, s1)" "workers s1 = workers s"
    using refused by (metis prod.collapse)
  then show ?thesis
    by (simp add: persist_item_def hook_call_def spawn_hooks_def run_seq run_Done)
next
  case created
  then show ?thesis
    by (cases "run (CreateWorker w) s")
      (simp add: persist_item_def hook_call_def spawn_hooks_def run_seq run_Done)
qed

lemma grows_QueueAndLaunch:
  "list_all (\<lambda>w. wrk_RunID w = R) xs \<Longrightarrow>
   grows R (workers s) (workers (snd (run (QueueAndLaunch xs (spawn_hooks r)) s)))"
proof (induction xs arbitrary: s)
  case Nil
  then show ?case by (simp add: run_simps)
next
  case (Cons w xs)
  obtain res s1 where persist: "run (persist_item (spawn_hooks r) w) s = (res, s1)" by fastforce
  have "workers s1 = workers s \<and> res \<noteq> Inr False \<or>
    workers s1 = workers s @ [first_attempt w] \<and> wrk_ID w \<notin> wrk_ID ` set (workers s) \<and> res = Inr False"
    using persist_spawned [where w = w and s = s and r = r] unfolding persist by simp
  then show ?case
  proof
    assume "workers s1 = workers s \<and> res \<noteq> Inr False"
    then show ?thesis using Cons.IH [of s1] Cons.prems
      by (cases res) (auto simp: persist run_must)
  next
    assume created: "workers s1 = workers s @ [first_attempt w] \<and>
      wrk_ID w \<notin> wrk_ID ` set (workers s) \<and> res = Inr False"
    let ?emit = "hook_call (AfterPersist (spawn_hooks r)) (\<lambda>h. h w)"
    obtain s2 where emit: "run ?emit s1 = (Inr (), s2)" "workers s2 = workers s1"
      by (simp add: hook_call_def spawn_hooks_def run_also_do run_Done workers_emit)
    obtain res2 s3 where launch: "run (launch_item (spawn_hooks r) w) s2 = (res2, s3)" by fastforce
    from emit(2) created Cons.prems have "last_row R (workers s) s2" by (simp add: last_row_def)
    with created have "last_row R (workers s) s3"
      using keeps_run [OF last_row_launch, of w "workers s" R s2 r] launch by simp
    then have s3: "grows R (workers s) (workers s3)" by (auto simp: last_row_def grows_append)
    show ?thesis
    proof (cases res2)
      case (Inl err)
      then show ?thesis using s3 created by (simp add: persist emit(1) launch run_must)
    next
      case (Inr u)
      then show ?thesis using grows_trans [OF s3 Cons.IH [of s3]] created Cons.prems
        by (simp add: persist emit(1) launch run_must)
    qed
  qed
qed

lemma same_workers:
  assumes "\<And>W. keeps (status_in i UNIV W) p"
  shows "workers (snd (run p s)) = workers s"
  using keeps_run [OF assms, of "\<lambda>ws. ws = workers s" s] by (simp add: status_in_def)

lemma newWorker_RunID [simp]: "wrk_RunID (newWorker e i launch r role t) = run_ID r"
  by (simp add: newWorker_def Let_def split: prod.split)

lemma newWorkers_RunID: "list_all (\<lambda>w. wrk_RunID w = run_ID r) (fst (run (new_workers e r t roles) s))"
proof (induction roles arbitrary: s)
  case (Cons role roles)
  from Cons [of "s\<lparr>fresh := Suc (Suc (fresh s))\<rparr>"] show ?case
    by (simp add: randomID_def run_simps case_prod_beta)
qed (simp add: run_simps)

lemma run_new_workers:
  "workers (snd (run (new_workers e r t roles) s)) = workers s"
  "list_all (\<lambda>w. wrk_RunID w = run_ID r) (fst (run (new_workers e r t roles) s))"
proof -
  show "workers (snd (run (new_workers e r t roles) s)) = workers s"
    by (rule same_workers [where i = "[]"]) (rule keeps_new_workers)
qed (rule newWorkers_RunID)

lemma grows_spawnRoles: "grows (run_ID r) (workers s) (workers (snd (run (spawnRoles e r roles) s)))"
proof -
  obtain ws s1 where new: "run (new_workers e r (clock s) roles) s = (ws, s1)" by fastforce
  have "workers s1 = workers s" "list_all (\<lambda>w. wrk_RunID w = run_ID r) ws"
    using run_new_workers [where e = e and r = r and t = "clock s" and roles = roles and s = s]
    by (simp_all add: new)
  then show ?thesis
    using grows_QueueAndLaunch [of "run_ID r" ws s1 r]
    by (simp add: spawnRoles_def now_def new run_simps)
qed

lemma grows_advance_run: "grows (run_ID r) (workers s) (workers (snd (run (advance_run e r preset ws) s)))"
proof -
  obtain jurors s1 where promote: "run (promoteClerkDocket e r preset ws) s = (jurors, s1)" by fastforce
  obtain judges s2 where judges: "run (judgeRolesForRun e r preset) s = (judges, s2)" by fastforce
  have "workers (snd (run (promoteClerkDocket e r preset ws) s)) = workers s"
    "workers (snd (run (judgeRolesForRun e r preset) s)) = workers s"
    by (rule same_workers, rule keeps_promoteClerkDocket keeps_judgeRolesForRun)+
  then have same: "workers s1 = workers s" "workers s2 = workers s" by (simp_all add: promote judges)
  have phase: "workers (snd (run (UpdateRunPhase j ph) t)) = workers t" for j ph t
    by (rule same_workers [OF status_keeps_phase])
  have complete: "workers (snd (run (completeRun e (run_ID r) ws) t)) = workers t" for t
    by (rule same_workers [OF keeps_completeRun]) simp
  show ?thesis
    using grows_spawnRoles [of r "snd (run (UpdateRunPhase (run_ID r) PhaseJurors) s1)" e jurors]
    by (cases judges)
      (auto simp: advance_run_def Let_def promote judges run_seq run_must run_also_do run_Done complete
        same phase intro: grows_spawnRoles [of r "snd (run (UpdateRunPhase (run_ID r) PhaseVerdict) s2)" e, unfolded phase same])
qed

text \<open>What the workers of a run let its status become.\<close>

definition decided :: "Worker list \<Rightarrow> RunStatus option set" where
  "decided ws =
    (let st = wrk_Status ` set ws in
     if WorkerFailed \<in> st then {Some RunFailed}
     else if WorkerCancelled \<in> st then {Some RunCancelled}
     else if judgeCompleted ws then {Some RunCompleted}
     else if st = {WorkerCompleted} then {Some RunFailed, Some RunCompleted}
     else {})"

lemma all_completed:
  assumes "ws \<noteq> []" "\<not> HasFailed (SummarizeWorkerStatuses ws wrk_Status)"
    "\<not> HasCancelled (SummarizeWorkerStatuses ws wrk_Status)"
    "\<not> HasRunningOrQueued (SummarizeWorkerStatuses ws wrk_Status)"
  shows "wrk_Status ` set ws = {WorkerCompleted}"
proof -
  have "wrk_Status w = WorkerCompleted" if "w \<in> set ws" for w
    using assms(2-4) that by (cases "wrk_Status w") (auto simp: SummarizeWorkerStatuses_sets)
  then show ?thesis using assms(1) by (cases ws) auto
qed

lemma HasFailed_image:
  "HasFailed (SummarizeWorkerStatuses ws wrk_Status) \<longleftrightarrow> WorkerFailed \<in> wrk_Status ` set ws"
  "HasCancelled (SummarizeWorkerStatuses ws wrk_Status) \<longleftrightarrow> WorkerCancelled \<in> wrk_Status ` set ws"
  by (auto simp: SummarizeWorkerStatuses_sets image_iff eq_commute [of _ "wrk_Status _"])

lemma decided_cases:
  "HasFailed (SummarizeWorkerStatuses ws wrk_Status) \<Longrightarrow> decided ws = {Some RunFailed}"
  "\<not> HasFailed (SummarizeWorkerStatuses ws wrk_Status) \<Longrightarrow>
   HasCancelled (SummarizeWorkerStatuses ws wrk_Status) \<Longrightarrow> decided ws = {Some RunCancelled}"
  "\<not> HasFailed (SummarizeWorkerStatuses ws wrk_Status) \<Longrightarrow>
   \<not> HasCancelled (SummarizeWorkerStatuses ws wrk_Status) \<Longrightarrow> judgeCompleted ws \<Longrightarrow>
   decided ws = {Some RunCompleted}"
  "ws \<noteq> [] \<Longrightarrow> \<not> HasFailed (SummarizeWorkerStatuses ws wrk_Status) \<Longrightarrow>
   \<not> HasCancelled (SummarizeWorkerStatuses ws wrk_Status) \<Longrightarrow> \<not> judgeCompleted ws \<Longrightarrow>
   \<not> HasRunningOrQueued (SummarizeWorkerStatuses ws wrk_Status) \<Longrightarrow>
   decided ws = {Some RunFailed, Some RunCompleted}"
proof -
  assume *: "ws \<noteq> []" "\<not> HasFailed (SummarizeWorkerStatuses ws wrk_Status)"
    "\<not> HasCancelled (SummarizeWorkerStatuses ws wrk_Status)"
    "\<not> judgeCompleted ws" "\<not> HasRunningOrQueued (SummarizeWorkerStatuses ws wrk_Status)"
  then have "wrk_Status ` set ws = {WorkerCompleted}" by (intro all_completed)
  with * show "decided ws = {Some RunFailed, Some RunCompleted}" by (simp add: decided_def)
qed (simp_all add: decided_def HasFailed_image Let_def)

lemma keeps_reconcile_workers:
  assumes "ws \<noteq> []" "i = run_ID r \<Longrightarrow> decided ws \<subseteq> S"
  shows "keeps (status_in i S any_workers) (reconcile_workers e r ws)"
  unfolding reconcile_workers_def Let_def
  by (intro keeps_intros status_keeps keeps_close_run keeps_completeRun keeps_advance_run)
    (use assms decided_cases [of ws] in \<open>auto simp: status_in_update\<close>)

lemma grows_reconcile_workers:
  assumes "ws \<noteq> []"
  shows "case run (reconcile_workers e r ws) s of (res, s') \<Rightarrow>
    grows (run_ID r) (workers s) (workers s') \<and>
    (workers s' = workers s \<or> wrk_Status ` set ws = {WorkerCompleted})"
proof (cases "wrk_Status ` set ws = {WorkerCompleted} \<and> \<not> judgeCompleted ws")
  case True
  then have "wrk_Status w = WorkerCompleted" if "w \<in> set ws" for w using that by blast
  then have "\<not> HasFailed (SummarizeWorkerStatuses ws wrk_Status)"
    "\<not> HasCancelled (SummarizeWorkerStatuses ws wrk_Status)"
    "\<not> HasRunningOrQueued (SummarizeWorkerStatuses ws wrk_Status)"
    by (auto simp: SummarizeWorkerStatuses_sets)
  with True show ?thesis
    by (cases "eng_preset e (run_Preset r) (run_Workspace r)")
      (simp_all add: reconcile_workers_def run_must run_Done grows_advance_run case_prod_beta)
next
  case False
  have "keeps (status_in (run_ID r) UNIV W) (reconcile_workers e r ws)" for W
    unfolding reconcile_workers_def Let_def using False all_completed [OF assms]
    by (intro keeps_intros status_keeps keeps_close_run keeps_completeRun) (auto simp: status_in_update)
  from same_workers [OF this, of s] show ?thesis by (simp add: case_prod_beta)
qed

section \<open>What reconciling a run can do\<close>

lemma judge_loop_iff:
  "judge_loop b ws \<longleftrightarrow>
    (b \<or> RoleJudge \<in> wrk_RoleKind ` set ws) \<and>
    (\<forall>w \<in> set ws. wrk_RoleKind w = RoleJudge \<longrightarrow> wrk_Status w = WorkerCompleted)"
  by (induction b ws rule: judge_loop.induct) auto

lemma decided_cong:
  assumes "(\<lambda>w. (wrk_RoleKind w, wrk_Status w)) ` set ws = (\<lambda>w. (wrk_RoleKind w, wrk_Status w)) ` set ws'"
  shows "decided ws = decided ws'"
proof -
  have "wrk_Status ` set ws = wrk_Status ` set ws'"
    using arg_cong [OF assms, of "image snd"] by (simp add: image_image)
  moreover have "judgeCompleted vs \<longleftrightarrow>
      (\<exists>p \<in> (\<lambda>w. (wrk_RoleKind w, wrk_Status w)) ` set vs. fst p = RoleJudge) \<and>
      (\<forall>p \<in> (\<lambda>w. (wrk_RoleKind w, wrk_Status w)) ` set vs. fst p = RoleJudge \<longrightarrow> snd p = WorkerCompleted)" for vs
    by (auto simp: judgeCompleted_def judge_loop_iff image_iff eq_commute [of RoleJudge])
  ultimately show ?thesis by (simp only: decided_def assms)
qed

lemma listed_workers:
  "wrk_Status ` set (map first_attempt (sort_key f ws)) = wrk_Status ` set ws"
  "decided (map first_attempt (sort_key f ws)) = decided ws"
  by (auto simp: image_image intro!: decided_cong)

lemma status_of_update [simp]:
  "status_of (s\<lparr>faults := fs\<rparr>) = status_of s"
  "workers_of (s\<lparr>faults := fs\<rparr>) = workers_of s"
  by (simp_all add: status_of_def workers_of_def fun_eq_iff)

lemma GetRun_cases:
  obtains (error) err fs where "run (GetRun i) s = (Inl err, s\<lparr>faults := fs\<rparr>)"
  | (found) r fs where "run (GetRun i) s = (Inr r, s\<lparr>faults := fs\<rparr>)" "run_ID r = i"
      "status_of s i = Some (run_Status r)"
proof -
  let ?f = "\<lambda>s. case List.find (\<lambda>r. run_ID r = i) (runs s) of
      Some r \<Rightarrow> Inr (scanRun r) | None \<Rightarrow> Inl (Err ''run not found'')"
  obtain fs where fs: "snd (run (GetRun i) s) = s\<lparr>faults := fs\<rparr>"
    "fst (run (GetRun i) s) = ?f (s\<lparr>faults := fs\<rparr>) \<or> isl (fst (run (GetRun i) s))"
    unfolding GetRun_def by (rule run_query_any)
  show ?thesis
  proof (cases "fst (run (GetRun i) s)")
    case (Inl err)
    then show ?thesis using fs(1) by (intro error) (simp add: prod_eq_iff)
  next
    case (Inr r)
    then obtain r0 where r0: "List.find (\<lambda>r. run_ID r = i) (runs s) = Some r0" "r = scanRun r0"
      using fs(2) by (auto split: option.splits)
    have "run_ID r0 = i" using r0(1) by (auto simp: find_Some_iff)
    with r0 show ?thesis
      using Inr fs(1) by (intro found [of r fs]) (simp_all add: prod_eq_iff status_of_def scanRun_def)
  qed
qed

lemma ListWorkers_cases:
  obtains (error) err fs where "run (ListWorkers i) s = (Inl err, s\<lparr>faults := fs\<rparr>)"
  | (found) fs where "run (ListWorkers i) s =
      (Inr (map first_attempt (sort_key wrk_CreatedAt (workers_of s i))), s\<lparr>faults := fs\<rparr>)"
proof -
  let ?f = "\<lambda>s. Inr (map first_attempt (sort_key wrk_CreatedAt (workers_of s i)))"
  have query: "ListWorkers i = query ''query workers'' ?f" by (simp add: ListWorkers_def workers_of_def)
  obtain fs where fs: "snd (run (ListWorkers i) s) = s\<lparr>faults := fs\<rparr>"
    "fst (run (ListWorkers i) s) = ?f (s\<lparr>faults := fs\<rparr>) \<or> isl (fst (run (ListWorkers i) s))"
    unfolding query by (rule run_query_any)
  show ?thesis
  proof (cases "fst (run (ListWorkers i) s)")
    case (Inl err)
    then show ?thesis using fs(1) by (intro error) (simp add: prod_eq_iff)
  next
    case (Inr r)
    then show ?thesis using fs by (intro found) (simp add: prod_eq_iff)
  qed
qed

text \<open>A run that can still change.\<close>

definition live :: "court \<Rightarrow> string \<Rightarrow> bool" where
  "live s i \<longleftrightarrow> status_of s i = Some RunQueued \<or> status_of s i = Some RunRunning"

lemma live_iff: "status_of s i = Some st \<Longrightarrow> live s i \<longleftrightarrow> \<not> IsTerminalRunStatus st"
  by (cases st) (simp_all add: live_def IsTerminalRunStatus_def)

text \<open>
  C7. Whatever the driver of the database fails, reconciling a run only appends workers of that
  run, changes the status of no other run, and changes the status of the run itself only while it
  is live and only to a status that its workers call for: failed when a worker failed, else
  cancelled when one was cancelled, else completed when the judges are done or, with all workers
  done, completed or (when the next worker cannot be started) failed. It starts workers only when
  all workers of the live run are completed.
\<close>

theorem ReconcileRun_safety:
  "case run (ReconcileRun e i) s of (res, s') \<Rightarrow>
     grows i (workers s) (workers s') \<and>
     status_of s' = (status_of s)(i := status_of s' i) \<and>
     (status_of s' i = status_of s i \<or>
      live s i \<and> status_of s' i \<in> decided (workers_of s i)) \<and>
     (workers s' = workers s \<or>
      live s i \<and> wrk_Status ` set (workers_of s i) = {WorkerCompleted})"
    (is "?spec (run (ReconcileRun e i) s)")
proof -
  have same: "?spec (res, s\<lparr>faults := fs\<rparr>)" for res fs by (simp add: fun_eq_iff)
  show ?thesis
  proof (cases rule: GetRun_cases [of i s])
    case (error err fs)
    then show ?thesis using same by (simp add: ReconcileRun_def run_must)
  next
    case (found r fs)
    show ?thesis
    proof (cases "IsTerminalRunStatus (run_Status r)")
      case True
      then show ?thesis using same by (simp add: ReconcileRun_def run_must found(1) run_Done)
    next
      case False
      with found have live: "live s i" by (simp add: live_iff)
      show ?thesis
      proof (cases rule: ListWorkers_cases [of i "s\<lparr>faults := fs\<rparr>"])
        case (error err fs')
        with False show ?thesis using same by (simp add: ReconcileRun_def run_must found(1))
      next
        case listed: (found fs')
        define ws where "ws = map first_attempt (sort_key wrk_CreatedAt (workers_of s i))"
        show ?thesis
        proof (cases "ws = []")
          case True
          with False listed show ?thesis using same
            by (simp add: ReconcileRun_def run_must found(1) run_Done ws_def [symmetric])
        next
          case nonempty: False
          let ?s = "s\<lparr>faults := fs'\<rparr>"
          note ws = listed_workers [of wrk_CreatedAt "workers_of s i", folded ws_def]
          have rest: "run (ReconcileRun e i) s = run (reconcile_workers e r ws) ?s"
            using False listed nonempty
            by (simp add: ReconcileRun_def run_must found(1) ws_def [symmetric])
          have status: "status_of (snd (run (reconcile_workers e r ws) ?s)) j \<in> S"
            if "j = run_ID r \<Longrightarrow> decided ws \<subseteq> S" "status_of s j \<in> S" for j S
            using keeps_run [OF keeps_reconcile_workers [OF nonempty that(1)], where s = ?s and e1 = e] that(2)
            by (simp add: status_in_def)
          have "status_of (snd (run (reconcile_workers e r ws) ?s)) j = status_of s j" if "j \<noteq> i" for j
            using status [of j "{status_of s j}"] that found(2) by simp
          moreover have "status_of (snd (run (reconcile_workers e r ws) ?s)) i \<in>
              insert (status_of s i) (decided ws)"
            by (rule status) auto
          ultimately show ?thesis
            using grows_reconcile_workers [OF nonempty, of r ?s e] live found(2)
            by (auto simp: rest ws fun_eq_iff case_prod_beta)
        qed
      qed
    qed
  qed
qed

end
