(* ===== verification/CourtSample.thy ===== *)
theory CourtSample
  imports CourtLifecycle
begin

text \<open>
  A small court for concrete runs: one runtime, a preset with a clerk, two jurors and a judge, and
  an empty database. The witnesses of the theories about the court start from it.
\<close>

definition demo_unicode :: unicode where
  "demo_unicode = \<lparr>uc_lower = id, uc_quote = (\<lambda>s. CHR 0x22 # s @ [CHR 0x22]), uc_equal_fold = (=)\<rparr>"

definition demo_runtime :: RuntimeDescriptor where
  "demo_runtime =
    \<lparr>dsc_SchemaVersion = ControlPlaneSchemaVersion, Runtime = ''pi'', dsc_Ownership = [],
     dsc_Transport = [],
     dsc_Capabilities = \<lparr>cap_StartSession = True, cap_ResumeSession = True, cap_SendInput = True,
       cap_Interrupt = True, cap_Respond = True, cap_StopSession = True, cap_ListSessions = True,
       cap_StreamEvents = True, cap_ApprovalRequests = False, cap_UserInputRequests = False,
       cap_ImmediateProviderSession = False, cap_ResumeByProviderID = False,
       cap_AdoptExternalSessions = False, cap_TextGeneration = True, cap_Embeddings = False\<rparr>,
     Probe = None\<rparr>"

definition demo_role :: "string \<Rightarrow> RoleKind \<Rightarrow> Role" where
  "demo_role i kind =
    \<lparr>rol_ID = i, rol_Kind = kind, rol_Title = i, rol_Brief = [], rol_Backend = ''pi'',
     rol_Provider = [], rol_Model = [], rol_ModelOptions = no_options, rol_Agent = [],
     rol_Backends = []\<rparr>"

definition demo_preset :: Preset where
  "demo_preset =
    \<lparr>pre_ID = ''demo'', pre_Title = ''Demo'', pre_Description = [], pre_Workflow = WorkflowParallelConsensus,
     pre_Roles = [demo_role ''clerk'' RoleClerk, demo_role ''first'' RoleJuror,
       demo_role ''second'' RoleJuror, demo_role ''judge'' RoleJudge]\<rparr>"

definition demo_run :: Run where
  "demo_run =
    \<lparr>run_ID = [], run_CourtID = [], run_Task = ''review'', run_Preset = ''demo'',
     run_Workflow = WorkflowParallelConsensus, run_DelegationScope = DelegationScopePreset,
     run_Backend = ''pi'', run_Model = [], run_ModelOptions = no_options, run_DefaultProvider = [],
     run_DefaultModel = [], run_DefaultModelOptions = no_options, run_Workspace = ''/w'',
     run_Status = RunRunning, run_Phase = PhaseClerk, run_Verdict = [], run_CreatedAt = [],
     run_UpdatedAt = [], run_CompletedAt = []\<rparr>"

definition demo_defaults :: ConfigDefaults where
  "demo_defaults =
    \<lparr>def_Preset = ''demo'', def_Workflow = [], def_DelegationScope = [], def_Backend = ''pi'',
     def_Provider = [], def_Model = [], def_ModelOptions = no_options, def_Backends = []\<rparr>"

text \<open>Every session answers at once; every control of a session works.\<close>

definition demo_engine :: "Preset \<Rightarrow> engine" where
  "demo_engine preset =
    \<lparr>eng_unicode = demo_unicode, eng_random = (\<lambda>n. replicate n CHR ''x''),
     eng_runtimes = [demo_runtime], eng_abs = Inr,
     eng_config = (\<lambda>_. Inr demo_defaults), eng_preset = (\<lambda>_ _. Inr preset),
     eng_catalog = (\<lambda>_. Inl (Err ''no catalog'')), eng_roots = (\<lambda>_. None),
     eng_role = (\<lambda>_ _. Inr None),
     eng_session = (\<lambda>_ _. Done (''done'', [], \<lparr>idn_SessionID = ''s'', idn_ProviderSessionID = [],
        idn_TranscriptPath = [], idn_PID = 0\<rparr>, None)),
     eng_adopt = (\<lambda>_ _. Done (Inr (''s'', ''p''))), eng_stop = (\<lambda>_. Done (Inr ())),
     eng_interrupt = (\<lambda>_. Done (Inr ()))\<rparr>"

definition demo_request :: StartRunRequest where
  "demo_request =
    \<lparr>req_Task = ''review'', req_Preset = [], req_CourtID = [], req_Workflow = [],
     req_DelegationScope = [], req_Backend = ''pi'', req_Workspace = ''/w'', req_Model = [],
     req_ModelOptions = no_options, req_Selection = None\<rparr>"

definition demo_court :: court where
  "demo_court =
    \<lparr>runs = [], workers = [], attempts = [], controls = [], last_control = 0, events = [],
     artifacts = [], launched = [], clock = ''2025-01-01'', fresh = 0, faults = []\<rparr>"

lemma demo_validate: "validateBackend (demo_engine preset) ''pi'' = Inr ()"
  by (simp add: validateBackend_def demo_engine_def demo_runtime_def ValidateSessionBackend_def trim_eval)

end
