(* ===== verification/CourtProgress.thy ===== *)
theory CourtProgress
  imports CourtSafety CourtSample
begin

text \<open>
  A run that is started comes to its end: when no statement fails, when the random identifiers are
  new and when every session of the backend succeeds, working off the launched workers one after
  the other completes the run. \<open>under_way\<close> is the invariant between two workers.
\<close>

section \<open>Starting workers when no statement fails\<close>

lemma run_emit [run_simps]:
  "faults s = [] \<Longrightarrow> run (emit runID workerID typ message) s =
    ((), s\<lparr>events := events s @
      [\<lparr>evt_RunID = runID, evt_WorkerID = workerID, evt_Type = typ, evt_Message = message,
        evt_Payload = [], evt_CreatedAt = clock s\<rparr>]\<rparr>)"
  by (simp add: emit_def now_def AddEvent_def run_simps)

lemma run_addArtifact [run_simps]:
  "faults s = [] \<Longrightarrow> run (addArtifact runID workerID kind format content) s =
    ((), s\<lparr>artifacts := artifacts s @
      [\<lparr>art_RunID = runID, art_WorkerID = workerID, art_Kind = kind, art_Format = format,
        art_Content = content, art_CreatedAt = clock s\<rparr>]\<rparr>)"
  by (simp add: addArtifact_def now_def AddArtifact_def run_simps)

primrec made :: "engine \<Rightarrow> Run \<Rightarrow> string \<Rightarrow> nat \<Rightarrow> Role list \<Rightarrow> Worker list" where
  "made e r t n [] = []"
| "made e r t n (role # roles) =
    newWorker e (eng_random e n) (eng_random e (Suc n)) r role t # made e r t (Suc (Suc n)) roles"

lemma run_new_workers_made:
  "run (new_workers e r t roles) s =
    (made e r t (fresh s) roles, s\<lparr>fresh := fresh s + 2 * length roles\<rparr>)"
  by (induction roles arbitrary: s) (simp_all add: run_simps randomID_def)

lemma newWorker_select [simp]:
  "wrk_ID (newWorker e i l r role t) = ''wrk-'' @ i"
  "wrk_RoleID (newWorker e i l r role t) = rol_ID role"
  "wrk_RoleKind (newWorker e i l r role t) = rol_Kind role"
  "wrk_Status (newWorker e i l r role t) = WorkerQueued"
  "first_attempt (newWorker e i l r role t) = newWorker e i l r role t"
  by (simp_all add: newWorker_def first_attempt_def Let_def split: prod.split)

lemma made_select:
  "map wrk_RoleID (made e r t n roles) = map rol_ID roles"
  "map wrk_RoleKind (made e r t n roles) = map rol_Kind roles"
  by (induction roles arbitrary: n) auto

lemma made_mem:
  "w \<in> set (made e r t n roles) \<Longrightarrow>
   wrk_RunID w = run_ID r \<and> wrk_Status w = WorkerQueued \<and> first_attempt w = w"
  by (induction roles arbitrary: n) auto

lemma newWorker_Backend:
  "trim_space (run_Backend r) \<noteq> [] \<Longrightarrow> wrk_Backend (newWorker e i l r role t) = trim_space (run_Backend r)"
  by (simp add: newWorker_def Let_def split: prod.split)

lemma made_Backend:
  "trim_space (run_Backend r) \<noteq> [] \<Longrightarrow> w \<in> set (made e r t n roles) \<Longrightarrow>
   wrk_Backend w = trim_space (run_Backend r)"
  by (induction roles arbitrary: n) (auto simp: newWorker_Backend)

lemma made_ids: "w \<in> set (made e r t n roles) \<Longrightarrow>
  \<exists>m. wrk_ID w = ''wrk-'' @ eng_random e m \<and> n \<le> m \<and> m < n + 2 * length roles"
proof (induction roles arbitrary: n)
  case (Cons role roles)
  from Cons.prems consider "w = newWorker e (eng_random e n) (eng_random e (Suc n)) r role t"
    | "w \<in> set (made e r t (Suc (Suc n)) roles)" by auto
  then show ?case
  proof cases
    case 1
    then show ?thesis by (intro exI [of _ n]) simp
  next
    case 2
    from Cons.IH [OF this] obtain m where
      "wrk_ID w = ''wrk-'' @ eng_random e m" "Suc (Suc n) \<le> m" "m < Suc (Suc n) + 2 * length roles"
      by blast
    then show ?thesis by (intro exI [of _ m]) simp
  qed
qed simp

lemma distinct_made: "inj (eng_random e) \<Longrightarrow> distinct (map wrk_ID (made e r t n roles))"
proof (induction roles arbitrary: n)
  case (Cons role roles)
  then show ?case by (auto dest!: made_ids simp: inj_eq)
qed simp

definition ids_fresh :: "engine \<Rightarrow> court \<Rightarrow> bool" where
  "ids_fresh e s \<longleftrightarrow> inj (eng_random e) \<and>
    (\<forall>w \<in> set (workers s). \<forall>n \<ge> fresh s. wrk_ID w \<noteq> ''wrk-'' @ eng_random e n)"

lemma run_QueueAndLaunch:
  assumes "faults s = []" "distinct (map wrk_ID xs)" "distinct (map wrk_RoleID xs)"
    "wrk_ID ` set xs \<inter> wrk_ID ` set (workers s) = {}"
    "set xs \<subseteq> {w. wrk_RunID w = R \<and> first_attempt w = w}"
    "\<forall>w \<in> set (workers s). wrk_RunID w = R \<longrightarrow> wrk_RoleID w \<notin> wrk_RoleID ` set xs"
    "\<exists>r' \<in> set (runs s). run_ID r' = R"
  shows "\<exists>es. run (QueueAndLaunch xs (spawn_hooks r)) s =
    (Inr (), s\<lparr>workers := workers s @ xs, events := es, launched := launched s @ map wrk_ID xs\<rparr>)"
  using assms
proof (induction xs arbitrary: s)
  case Nil
  then show ?case by (intro exI [of _ "events s"]) (simp add: run_simps)
next
  case (Cons w xs)
  obtain s1 where s1: "s1 = s\<lparr>workers := workers s @ [w],
      events := events s @ [\<lparr>evt_RunID = run_ID r, evt_WorkerID = wrk_ID w, evt_Type = ''worker.queued'',
        evt_Message = ''queued '' @ wrk_RoleTitle w, evt_Payload = [], evt_CreatedAt = clock s\<rparr>],
      launched := launched s @ [wrk_ID w]\<rparr>"
    by simp
  have "\<forall>x \<in> set (workers s). wrk_ID x \<noteq> wrk_ID w"
    using Cons.prems(4) by (metis disjoint_iff imageI list.set_intros(1))
  then have "worker_conflict s w = None"
    using Cons.prems by (auto simp: worker_conflict_def list_ex_iff)
  then have "run (QueueAndLaunch (w # xs) (spawn_hooks r)) s = run (QueueAndLaunch xs (spawn_hooks r)) s1"
    using Cons.prems(1,5)
    by (simp add: s1 persist_item_def launch_item_def hook_call_def spawn_hooks_def CreateWorker_def
        spawnWorker_def run_simps)
  moreover have "\<exists>es. run (QueueAndLaunch xs (spawn_hooks r)) s1 =
    (Inr (), s1\<lparr>workers := workers s1 @ xs, events := es, launched := launched s1 @ map wrk_ID xs\<rparr>)"
    using Cons.prems by (intro Cons.IH) (auto simp: s1)
  ultimately show ?case by (auto simp: s1)
qed

lemma run_spawnRoles:
  assumes "faults s = []" "ids_fresh e s" "distinct (map rol_ID roles)"
    "\<forall>w \<in> set (workers s). wrk_RunID w = run_ID r \<longrightarrow> wrk_RoleID w \<notin> rol_ID ` set roles"
    "\<exists>r' \<in> set (runs s). run_ID r' = run_ID r"
  obtains ws es where "run (spawnRoles e r roles) s =
    (Inr (), s\<lparr>fresh := fresh s + 2 * length roles, workers := workers s @ ws, events := es,
       launched := launched s @ map wrk_ID ws\<rparr>)" "ws = made e r (clock s) (fresh s) roles"
proof -
  let ?s = "s\<lparr>fresh := fresh s + 2 * length roles\<rparr>" and ?ws = "made e r (clock s) (fresh s) roles"
  have "\<exists>es. run (QueueAndLaunch ?ws (spawn_hooks r)) ?s = (Inr (), ?s\<lparr>workers := workers ?s @ ?ws,
      events := es, launched := launched ?s @ map wrk_ID ?ws\<rparr>)"
  proof (rule run_QueueAndLaunch [where R = "run_ID r"])
    show "wrk_ID ` set ?ws \<inter> wrk_ID ` set (workers ?s) = {}"
      using assms(2) by (fastforce simp: ids_fresh_def dest: made_ids)
    show "\<forall>w \<in> set (workers ?s). wrk_RunID w = run_ID r \<longrightarrow> wrk_RoleID w \<notin> wrk_RoleID ` set ?ws"
      using assms(4) arg_cong [OF made_select(1), of set] by (simp flip: set_map)
  qed (use assms in
      \<open>auto simp: made_select ids_fresh_def made_mem intro: distinct_made\<close>)
  then show ?thesis
    by (auto simp: spawnRoles_def now_def run_simps run_new_workers_made intro: that)
qed

lemma ids_fresh_made:
  "ids_fresh e s \<Longrightarrow> ids_fresh e (s\<lparr>fresh := fresh s + 2 * length roles,
     workers := workers s @ made e r t (fresh s) roles, events := es, launched := ls\<rparr>)"
  by (auto simp: ids_fresh_def inj_eq dest!: made_ids)

section \<open>A worker whose session succeeds\<close>

definition sessions_succeed :: "engine \<Rightarrow> string \<Rightarrow> bool" where
  "sessions_succeed e backend \<longleftrightarrow>
    (\<forall>r w s. wrk_Backend w = backend \<longrightarrow>
      (\<exists>result resultJSON ident. run (runBackendWorker e r w) s = ((result, resultJSON, ident, None), s)))"

text \<open>Changes to the row of a worker that leave its keys alone.\<close>

definition row_step :: "(Worker \<Rightarrow> Worker) \<Rightarrow> bool" where
  "row_step g \<longleftrightarrow> (\<forall>w. wrk_ID (g w) = wrk_ID w \<and> wrk_RunID (g w) = wrk_RunID w \<and>
     wrk_RoleID (g w) = wrk_RoleID w \<and> wrk_RoleKind (g w) = wrk_RoleKind w \<and>
     wrk_Backend (g w) = wrk_Backend w)"

lemma row_step_comp: "row_step f \<Longrightarrow> row_step g \<Longrightarrow> row_step (\<lambda>w. f (g w))"
  by (simp add: row_step_def)

lemma row_step_upd [simp]:
  "row_step (\<lambda>w. w\<lparr>wrk_Status := st, wrk_UpdatedAt := t\<rparr>)"
  "row_step (\<lambda>w. w\<lparr>wrk_Status := st, wrk_Result := a, wrk_ResultJSON := b, wrk_Error := c,
     wrk_UpdatedAt := t, wrk_CompletedAt := u\<rparr>)"
  "row_step (\<lambda>w. w\<lparr>wrk_RuntimeSessionID := a, wrk_RuntimeProviderSessionID := b,
     wrk_RuntimeTranscriptPath := c, wrk_RuntimePID := p, wrk_UpdatedAt := t\<rparr>)"
  "row_step (\<lambda>w. w)"
  by (simp_all add: row_step_def)

lemma update_rows_comp:
  "row_step g \<Longrightarrow>
   update_rows (\<lambda>w. wrk_ID w = i \<and> p w) f (update_rows (\<lambda>w. wrk_ID w = i) g rows) =
   update_rows (\<lambda>w. wrk_ID w = i) (\<lambda>w. if p (g w) then f (g w) else g w) rows"
  by (auto simp: update_rows_def row_step_def)

lemma update_rows_id: "update_rows p (\<lambda>w. w) rows = rows"
  by (simp add: update_rows_def)

lemma find_update_worker:
  "row_step g \<Longrightarrow> List.find (\<lambda>w. wrk_ID w = i) (update_rows (\<lambda>w. wrk_ID w = i) g rows) =
   map_option g (List.find (\<lambda>w. wrk_ID w = i) rows)"
  by (induction rows) (auto simp: update_rows_def row_step_def)

definition completed_row :: "(Worker \<Rightarrow> Worker) \<Rightarrow> bool" where
  "completed_row g \<longleftrightarrow> row_step g \<and> (\<forall>w. wrk_Status (g w) = WorkerCompleted)"

lemma run_persist_identity:
  assumes "faults s = []"
  shows "\<exists>h. row_step h \<and> (\<forall>x. wrk_Status (h x) = wrk_Status x) \<and>
    run (if asks (HasIdentity (worker_hooks e)) ident
         then hook_call (PersistIdentity (worker_hooks e)) (\<lambda>h. h i ident) else Done (Inr ())) s =
    (Inr (), s\<lparr>workers := update_rows (\<lambda>w. wrk_ID w = i) h (workers s)\<rparr>)"
proof (cases "asks (HasIdentity (worker_hooks e)) ident")
  case True
  then show ?thesis using assms
    by (intro exI [of _ "\<lambda>x. x\<lparr>wrk_RuntimeSessionID := idn_SessionID ident,
           wrk_RuntimeProviderSessionID := idn_ProviderSessionID ident,
           wrk_RuntimeTranscriptPath := idn_TranscriptPath ident,
           wrk_RuntimePID := idn_PID ident, wrk_UpdatedAt := clock s\<rparr>"])
      (simp add: worker_hooks_def hook_call_def UpdateWorkerRuntimeIdentity_def update_worker_def run_exec)
next
  case False
  then show ?thesis
    by (intro exI [of _ "\<lambda>x. x"]) (simp add: run_Done update_rows_id)
qed

text \<open>
  From the loaded worker on: nothing of what is done depends on the status the worker had or has in
  the table.
\<close>

lemma run_execute_loaded:
  assumes s: "faults s = []" and w: "List.find (\<lambda>w. wrk_ID w = i) (workers s) = Some w"
    and sessions: "sessions_succeed e (wrk_Backend w')"
  obtains g s' where "completed_row g"
    "run (execute_loaded (worker_hooks e) i r w') s = run (ReconcileRun e (run_ID r)) s'"
    "workers s' = update_rows (\<lambda>w. wrk_ID w = i) g (workers s)"
    "runs s' = runs s" "launched s' = launched s" "fresh s' = fresh s" "faults s' = []"
proof -
  let ?running = "\<lambda>x. x\<lparr>wrk_Status := WorkerRunning, wrk_UpdatedAt := clock s\<rparr>"
  let ?marked = "s\<lparr>workers := update_rows (\<lambda>w. wrk_ID w = i) ?running (workers s)\<rparr>"
  have mark: "run (hook_call (MarkRunning (worker_hooks e)) (\<lambda>h. h i)) s = (Inr (), ?marked)"
    using s by (simp add: worker_hooks_def hook_call_def UpdateWorkerRunning_def update_worker_def run_exec)
  obtain es1 where es1: "run (hook_notify (OnStarted (worker_hooks e)) (\<lambda>h. h r w')) ?marked =
      ((), ?marked\<lparr>events := es1\<rparr>)"
    using s by (simp add: worker_hooks_def hook_notify_def run_emit)
  define s2 where "s2 = ?marked\<lparr>events := es1\<rparr>"
  obtain result resultJSON ident where sess:
    "run (runBackendWorker e r w') s2 = ((result, resultJSON, ident, None), s2)"
    using sessions unfolding sessions_succeed_def by blast
  obtain h where h: "row_step h" "\<And>x. wrk_Status (h x) = wrk_Status x"
    and ident: "run (if asks (HasIdentity (worker_hooks e)) ident
         then hook_call (PersistIdentity (worker_hooks e)) (\<lambda>h. h i ident) else Done (Inr ())) s2 =
      (Inr (), s2\<lparr>workers := update_rows (\<lambda>w. wrk_ID w = i) h (workers s2)\<rparr>)"
    using run_persist_identity [of s2 e ident i] s by (auto simp: s2_def)
  let ?hr = "\<lambda>x. h (?running x)"
  define s3 where "s3 = s\<lparr>workers := update_rows (\<lambda>w. wrk_ID w = i) ?hr (workers s), events := es1\<rparr>"
  have s3: "s2\<lparr>workers := update_rows (\<lambda>w. wrk_ID w = i) h (workers s2)\<rparr> = s3"
    using update_rows_comp [of ?running i "\<lambda>_. True" h "workers s"] by (simp add: s2_def s3_def)
  have "Execute (worker_hooks e) r w' = runBackendWorker e r w'" by (simp add: worker_hooks_def)
  then have rest: "run (execute_loaded (worker_hooks e) i r w') s =
      run (after_execute (worker_hooks e) i r w' result resultJSON None) s3"
    by (simp add: execute_loaded_def run_must run_also_do run_seq mark es1 sess ident s3 flip: s2_def)
  have "run (GetWorker i) s3 = (Inr (first_attempt (?hr w)), s3)"
    using s w h(1) row_step_comp [OF h(1), of ?running]
    by (simp add: GetWorker_def run_query s3_def find_update_worker)
  moreover have "wrk_Status (first_attempt (?hr w)) \<noteq> WorkerCancelled" by (simp add: h(2))
  ultimately have "run (after_execute (worker_hooks e) i r w' result resultJSON None) s3 =
      run (finish_completed (worker_hooks e) i r w' result resultJSON) s3"
    by (simp add: after_execute_def worker_hooks_def asks_def run_seq)
  note reload = rest [unfolded this]
  define g where "g = (\<lambda>x. (?hr x)\<lparr>wrk_Status := WorkerCompleted, wrk_Result := result,
    wrk_ResultJSON := resultJSON, wrk_Error := [], wrk_UpdatedAt := clock s, wrk_CompletedAt := clock s\<rparr>)"
  have g: "completed_row g"
    using row_step_comp [OF h(1), of ?running] by (simp add: completed_row_def g_def row_step_def)
  have final: "update_rows (\<lambda>w. wrk_ID w = i \<and> (wrk_Status w = WorkerCancelled \<longrightarrow> False))
      (\<lambda>w. w\<lparr>wrk_Status := WorkerCompleted, wrk_Result := result, wrk_ResultJSON := resultJSON,
         wrk_Error := [], wrk_UpdatedAt := clock s, wrk_CompletedAt := clock s\<rparr>)
      (update_rows (\<lambda>w. wrk_ID w = i) ?hr (workers s)) = update_rows (\<lambda>w. wrk_ID w = i) g (workers s)"
    using row_step_comp [OF h(1), of ?running] by (simp add: update_rows_comp g_def h(2))
  show ?thesis
    by (rule that [OF g, of "snd (run (also_do
          (hook_call (MarkCompleted (worker_hooks e)) (\<lambda>h. h i result resultJSON))
          (hook_notify (OnCompleted (worker_hooks e)) (\<lambda>h. h r w' result resultJSON))) s3)"];
        use s final in \<open>cases "resultJSON = []"\<close>)
      (simp_all only: reload,
        simp_all add: finish_completed_def worker_hooks_def hook_call_def hook_notify_def
          CompleteWorker_def update_worker_def run_simps s3_def)
qed

lemma run_RunWorker:
  assumes s: "faults s = []" and w: "List.find (\<lambda>w. wrk_ID w = i) (workers s) = Some w"
    and r: "List.find (\<lambda>r. run_ID r = wrk_RunID w) (runs s) = Some r"
    and queued: "wrk_Status w = WorkerQueued" and sessions: "sessions_succeed e (wrk_Backend w)"
  obtains g s' where "completed_row g" "run (RunWorker e i) s = run (ReconcileRun e (wrk_RunID w)) s'"
    "workers s' = update_rows (\<lambda>w. wrk_ID w = i) g (workers s)"
    "runs s' = runs s" "launched s' = launched s" "fresh s' = fresh s" "faults s' = []"
proof -
  have "run (Load (worker_hooks e) i) s = (Inr (first_attempt w, scanRun r), s)"
    using s w r by (simp add: worker_hooks_def GetWorker_def GetRun_def run_simps)
  moreover have "asks (IsTerminal (worker_hooks e)) (first_attempt w) = False"
    using queued by (simp add: worker_hooks_def asks_def terminal_worker_def)
  ultimately have "run (RunWorker e i) s =
      run (execute_loaded (worker_hooks e) i (scanRun r) (first_attempt w)) s"
    by (simp add: RunWorker_def ExecuteWorker_def run_must)
  moreover have "sessions_succeed e (wrk_Backend (first_attempt w))"
    using sessions by (simp add: first_attempt_def)
  moreover have "run_ID (scanRun r) = wrk_RunID w"
    using find_key [of run_ID, OF r] by (simp add: scanRun_def)
  ultimately show ?thesis
    using run_execute_loaded [OF s w, of e "first_attempt w" "scanRun r"] that by metis
qed

section \<open>Working a run off\<close>

text \<open>
  The workers that were launched take turns, in the order they were launched, until the run is
  completed or none is left; the bound is the number of turns.
\<close>

fun work_off :: "nat \<Rightarrow> engine \<Rightarrow> string \<Rightarrow> nat \<Rightarrow> court \<Rightarrow> court" where
  "work_off 0 e i k s = s"
| "work_off (Suc n) e i k s =
    (if status_of s i = Some RunCompleted \<or> length (launched s) \<le> k then s
     else work_off n e i (Suc k) (snd (run (RunWorker e (launched s ! k)) s)))"

definition role_key :: "Role \<Rightarrow> string \<times> RoleKind" where
  "role_key role = (rol_ID role, rol_Kind role)"

definition worker_key :: "Worker \<Rightarrow> string \<times> RoleKind" where
  "worker_key w = (wrk_RoleID w, wrk_RoleKind w)"

text \<open>The workers of a run: its roles, the first \<open>k\<close> done and the rest waiting.\<close>

definition worked :: "Preset \<Rightarrow> nat \<Rightarrow> Worker list \<Rightarrow> bool" where
  "worked preset k ws \<longleftrightarrow>
    ws \<noteq> [] \<and> k \<le> length ws \<and>
    map wrk_Status ws = replicate k WorkerCompleted @ replicate (length ws - k) WorkerQueued \<and>
    distinct (map worker_key ws) \<and> worker_key ` set ws \<subseteq> role_key ` set (pre_Roles preset)"

definition running :: "Run \<Rightarrow> court \<Rightarrow> bool" where
  "running r s \<longleftrightarrow> (\<exists>r1. List.find (\<lambda>x. run_ID x = run_ID r) (runs s) = Some r1 \<and>
     run_Status r1 = RunRunning \<and> run_Preset r1 = run_Preset r \<and> run_Workflow r1 = run_Workflow r \<and>
     run_Workspace r1 = run_Workspace r \<and> run_DelegationScope r1 = run_DelegationScope r \<and>
     run_Backend r1 = run_Backend r)"

definition under_way :: "engine \<Rightarrow> Run \<Rightarrow> Preset \<Rightarrow> string list \<Rightarrow> nat \<Rightarrow> court \<Rightarrow> bool" where
  "under_way e r preset old k s \<longleftrightarrow>
    faults s = [] \<and> ids_fresh e s \<and> distinct (map wrk_ID (workers s)) \<and> running r s \<and>
    launched s = old @ map wrk_ID (workers_of s (run_ID r)) \<and> worked preset k (workers_of s (run_ID r)) \<and>
    wrk_Backend ` set (workers_of s (run_ID r)) \<subseteq> {trim_space (run_Backend r)} \<and>
    trim_space (run_Backend r) \<noteq> []"

lemma workers_of_update:
  assumes "row_step g"
  shows "filter (\<lambda>w. wrk_RunID w = R) (update_rows p g rows) =
    update_rows p g (filter (\<lambda>w. wrk_RunID w = R) rows)"
  using assms by (induction rows) (auto simp: update_rows_def row_step_def)

lemma update_nth:
  assumes "distinct (map wrk_ID ws)" "k < length ws"
  shows "update_rows (\<lambda>w. wrk_ID w = wrk_ID (ws ! k)) g ws = ws[k := g (ws ! k)]"
  using assms by (intro nth_equalityI)
    (auto simp: update_rows_def nth_list_update distinct_conv_nth)

lemma worked_step:
  assumes "worked preset k ws" "k < length ws" "completed_row g"
  shows "worked preset (Suc k) (ws[k := g (ws ! k)])"
proof -
  have "worker_key (g w) = worker_key w" for w
    using assms(3) by (simp add: completed_row_def row_step_def worker_key_def)
  then have keys: "map worker_key (ws[k := g (ws ! k)]) = map worker_key ws"
    using assms(2) by (simp add: map_update list_update_same_conv)
  have set_keys: "worker_key ` set (ws[k := g (ws ! k)]) = worker_key ` set ws"
    using arg_cong [OF keys, of set] by simp
  have "map wrk_Status (ws[k := g (ws ! k)]) = (map wrk_Status ws)[k := WorkerCompleted]"
    using assms(3) by (simp add: map_update completed_row_def)
  also have "\<dots> = replicate (Suc k) WorkerCompleted @ replicate (length ws - Suc k) WorkerQueued"
  proof -
    have "replicate (length ws - k) WorkerQueued = WorkerQueued # replicate (length ws - Suc k) WorkerQueued"
      using assms(2) by (simp add: Suc_diff_Suc flip: replicate_Suc)
    then show ?thesis
      using assms(1) by (simp add: worked_def list_update_append replicate_app_Cons_same)
  qed
  finally show ?thesis
    using assms(1,2) keys set_keys unfolding worked_def by (simp only: length_list_update) simp
qed

lemma worked_summary:
  assumes "worked preset k ws"
  shows "\<not> HasFailed (SummarizeWorkerStatuses ws wrk_Status)"
    "\<not> HasCancelled (SummarizeWorkerStatuses ws wrk_Status)"
    "HasRunningOrQueued (SummarizeWorkerStatuses ws wrk_Status) \<longleftrightarrow> k < length ws"
proof -
  have st: "wrk_Status ` set ws = (if 0 < k then {WorkerCompleted} else {}) \<union>
      (if k < length ws then {WorkerQueued} else {})"
    using arg_cong [of _ _ set, OF conjunct1 [OF conjunct2 [OF conjunct2 [OF assms [unfolded worked_def]]]]]
    by (simp split: if_splits)
  then show "\<not> HasFailed (SummarizeWorkerStatuses ws wrk_Status)"
    "\<not> HasCancelled (SummarizeWorkerStatuses ws wrk_Status)"
    by (simp_all add: HasFailed_image)
  have "HasRunningOrQueued (SummarizeWorkerStatuses ws wrk_Status) \<longleftrightarrow>
      WorkerQueued \<in> wrk_Status ` set ws \<or> WorkerRunning \<in> wrk_Status ` set ws"
    by (auto simp: SummarizeWorkerStatuses_sets image_iff eq_commute [of _ "wrk_Status _"])
  then show "HasRunningOrQueued (SummarizeWorkerStatuses ws wrk_Status) \<longleftrightarrow> k < length ws"
    by (simp add: st)
qed

text \<open>What reconciling looks at in the workers does not depend on their order.\<close>

lemma listed_set: "set (map first_attempt (sort_key f ws)) = first_attempt ` set ws"
  by simp

lemma summary_cong:
  assumes "wrk_Status ` set ws = wrk_Status ` set ws'"
  shows "SummarizeWorkerStatuses ws wrk_Status = SummarizeWorkerStatuses ws' wrk_Status"
proof -
  have *: "(\<exists>w \<in> set vs. wrk_Status w = st) \<longleftrightarrow> st \<in> wrk_Status ` set vs" for vs st by auto
  show ?thesis
    by (intro WorkerStatusSummary.equality;
        (simp only: SummarizeWorkerStatuses_sets bex_disj_distrib * assms | simp))
qed

lemma running_phase:
  "running r s \<Longrightarrow> faults s = [] \<Longrightarrow> \<exists>rs. run (UpdateRunPhase j ph) s = (Inr (), s\<lparr>runs := rs\<rparr>) \<and>
     running r (s\<lparr>runs := rs\<rparr>)"
  unfolding UpdateRunPhase_def
  by (auto simp: run_exec running_def find_update_rows [where key = run_ID])

lemma run_completeRun:
  assumes "faults s = []"
  shows "status_of (snd (run (completeRun e i ws) s)) i = map_option (\<lambda>_. RunCompleted) (status_of s i)"
proof (cases "List.find (\<lambda>r. run_ID r = i) (runs s)")
  case None
  with assms show ?thesis
    by (simp add: completeRun_def Let_def run_simps UpdateRunStatus_def UpdateRunPhase_def status_of_def
        find_update_rows [where key = run_ID])
next
  case (Some r)
  moreover from this have "run_ID r = i" by (rule find_key)
  ultimately show ?thesis using assms
    by (simp add: completeRun_def Let_def run_simps UpdateRunStatus_def UpdateRunPhase_def status_of_def
        find_update_rows [where key = run_ID])
qed

lemma made_keys: "map worker_key (made e r t n roles) = map role_key roles"
  by (induction roles arbitrary: n) (simp_all add: worker_key_def role_key_def)

lemma worked_append:
  assumes "worked preset (length ws) ws" "map worker_key new = map role_key roles"
    "list_all (\<lambda>w. wrk_Status w = WorkerQueued) new" "distinct (map rol_ID roles)"
    "set roles \<subseteq> set (pre_Roles preset)" "wrk_RoleID ` set ws \<inter> rol_ID ` set roles = {}"
  shows "worked preset (length ws) (ws @ new)"
proof -
  have "map wrk_Status new = replicate (length new) WorkerQueued"
    using assms(3) by (induction new) auto
  moreover have keys: "worker_key ` set new = role_key ` set roles"
    using arg_cong [OF assms(2), of set] by simp
  moreover have "distinct (map worker_key new)"
    using assms(2,4) by (auto simp: distinct_map inj_on_def role_key_def)
  moreover have "worker_key ` set ws \<inter> worker_key ` set new = {}"
    using assms(6) unfolding keys by (auto simp: worker_key_def role_key_def disjoint_iff)
  moreover have "worker_key ` set new \<subseteq> role_key ` set (pre_Roles preset)"
    using assms(5) unfolding keys by (rule image_mono)
  ultimately show ?thesis
    using assms(1) by (simp add: worked_def image_Un)
qed

lemma under_way_spawn:
  assumes "under_way e r preset old k s" "k = length (workers_of s (run_ID r))" "run_ID r1 = run_ID r" "run_Backend r1 = run_Backend r"
    "roles \<noteq> []" "set roles \<subseteq> set (pre_Roles preset)" "distinct (map rol_ID roles)"
    "wrk_RoleID ` set (workers_of s (run_ID r)) \<inter> rol_ID ` set roles = {}"
  shows "under_way e r preset old k (snd (run (spawnRoles e r1 roles) s)) \<and>
    k < length (workers_of (snd (run (spawnRoles e r1 roles) s)) (run_ID r))"
proof -
  note way = assms(1) [unfolded under_way_def]
  let ?new = "made e r1 (clock s) (fresh s) roles"
  have backend: "wrk_Backend ` set ?new \<subseteq> {trim_space (run_Backend r)}"
    using made_Backend [of r1] way assms(4) by auto
  have mem: "wrk_RunID w = run_ID r1 \<and> wrk_Status w = WorkerQueued \<and> first_attempt w = w"
    if "w \<in> set ?new" for w using that by (rule made_mem)
  have "\<exists>r' \<in> set (runs s). run_ID r' = run_ID r1"
    using way assms(3) by (auto simp: running_def find_Some_iff)
  moreover have "\<forall>w \<in> set (workers s). wrk_RunID w = run_ID r1 \<longrightarrow> wrk_RoleID w \<notin> rol_ID ` set roles"
    using assms(3,8) by (auto simp: workers_of_def)
  ultimately obtain es where spawned: "run (spawnRoles e r1 roles) s =
    (Inr (), s\<lparr>fresh := fresh s + 2 * length roles, workers := workers s @ ?new, events := es,
       launched := launched s @ map wrk_ID ?new\<rparr>)"
    using run_spawnRoles [of s e roles r1] way assms(7) by metis
  have new: "workers_of (s\<lparr>fresh := f, workers := workers s @ ?new, events := es, launched := ls\<rparr>) (run_ID r) =
      workers_of s (run_ID r) @ ?new" for f ls
    using mem assms(3) by (auto simp: workers_of_def)
  have "worked preset k (workers_of s (run_ID r) @ ?new)"
    unfolding assms(2) using way assms(2,6-8) mem
    by (intro worked_append [OF _ made_keys]) (auto simp: list_all_iff)
  moreover have "distinct (map wrk_ID (workers s @ ?new))"
    using way by (fastforce simp: ids_fresh_def dest: made_ids intro: distinct_made)
  moreover have "length ?new = length roles" using arg_cong [OF made_keys, of length] by simp
  ultimately show ?thesis
    using way assms(2,5) backend
    by (auto simp: spawned under_way_def new running_def ids_fresh_made)
qed

lemma run_promoteClerkDocket:
  assumes "faults s = []" "\<not> delegationScopeEnabled (run_DelegationScope r)"
  shows "\<exists>es as. run (promoteClerkDocket e r preset ws) s =
    (jurorRoles preset, s\<lparr>artifacts := as, events := es\<rparr>)"
  using assms
  by (cases "List.find (\<lambda>w. wrk_RoleKind w = RoleClerk \<and> wrk_Status w = WorkerCompleted) ws")
    (auto simp: promoteClerkDocket_def Let_def now_def tryDelegatedDocket_def run_simps)

lemma under_way_artifacts:
  "under_way e r preset old k s \<Longrightarrow> under_way e r preset old k (s\<lparr>artifacts := as, events := es\<rparr>)"
  by (simp add: under_way_def ids_fresh_def running_def workers_of_def)

lemma under_way_phase:
  assumes "under_way e r preset old k s"
  obtains s' where "run (UpdateRunPhase j ph) s = (Inr (), s')" "under_way e r preset old k s'"
    "workers s' = workers s"
proof -
  obtain rs where rs: "run (UpdateRunPhase j ph) s = (Inr (), s\<lparr>runs := rs\<rparr>)" "running r (s\<lparr>runs := rs\<rparr>)"
    using running_phase [of r s j ph] assms by (auto simp: under_way_def)
  then show ?thesis
    using assms by (intro that [of "s\<lparr>runs := rs\<rparr>"]) (simp_all add: under_way_def ids_fresh_def workers_of_def)
qed

lemma running_status: "running r s \<Longrightarrow> status_of s (run_ID r) = Some RunRunning"
  by (auto simp: running_def status_of_def)

lemma under_way_complete:
  "under_way e r preset old k s \<Longrightarrow>
   status_of (snd (run (completeRun e' (run_ID r) ws) s)) (run_ID r) = Some RunCompleted"
  using run_completeRun [of s e' "run_ID r" ws] running_status [of r s] by (simp add: under_way_def)

text \<open>A worker with the ID of a role is a worker of that kind.\<close>

lemma worked_kind:
  assumes "worked preset k ws" "distinct (map rol_ID (pre_Roles preset))" "w \<in> set ws"
    "role \<in> set (pre_Roles preset)" "wrk_RoleID w = rol_ID role"
  shows "wrk_RoleKind w = rol_Kind role"
proof -
  obtain role' where "role' \<in> set (pre_Roles preset)" "worker_key w = role_key role'"
    using assms(1,3) by (auto simp: worked_def)
  then show ?thesis
    using assms(2,4,5) by (auto simp: worker_key_def role_key_def distinct_map inj_on_def)
qed

definition going_on :: "engine \<Rightarrow> Run \<Rightarrow> Preset \<Rightarrow> string list \<Rightarrow> nat \<Rightarrow> court \<Rightarrow> bool" where
  "going_on e r preset old k s \<longleftrightarrow> status_of s (run_ID r) = Some RunCompleted \<or>
    under_way e r preset old k s \<and> k < length (workers_of s (run_ID r))"

lemma distinct_filter_IDs: "distinct (map rol_ID roles) \<Longrightarrow> distinct (map rol_ID (filter p roles))"
  by (rule distinct_map_filter)

lemma advance_run_goes_on:
  assumes way: "under_way e r preset old k s" and k: "k = length (workers_of s (run_ID r))"
    and r1: "run_ID r1 = run_ID r" "run_Backend r1 = run_Backend r" "\<not> delegationScopeEnabled (run_DelegationScope r1)"
    and roles: "distinct (map rol_ID (pre_Roles preset))"
    and ws: "set ws = first_attempt ` set (workers_of s (run_ID r))" "\<not> judgeCompleted ws"
  shows "going_on e r preset old k (snd (run (advance_run e r1 preset ws) s))"
proof -
  have worked: "worked preset k (workers_of s (run_ID r))" using way by (simp add: under_way_def)
  have status: "wrk_Status w = WorkerCompleted" if "w \<in> set ws" for w
    using worked_summary [OF worked] that ws(1) k by (cases "wrk_Status w") (auto simp: SummarizeWorkerStatuses_sets)
  have kind: "wrk_RoleKind w = rol_Kind role"
    if "w \<in> set ws" "role \<in> set (pre_Roles preset)" "wrk_RoleID w = rol_ID role" for w role
    using worked_kind [OF worked roles _ that(2)] that(1,3) ws(1) by auto
  have old_IDs: "wrk_RoleID ` set (workers_of s (run_ID r)) = wrk_RoleID ` set ws"
    by (auto simp: ws(1) image_image)
  have spawn: "going_on e r preset old k (snd (run (spawnRoles e r1 rs) s1))"
    if "under_way e r preset old k s1" "workers s1 = workers s" "rs \<noteq> []"
      "set rs \<subseteq> set (pre_Roles preset)" "distinct (map rol_ID rs)" "wrk_RoleID ` set ws \<inter> rol_ID ` set rs = {}"
    for rs s1
    using under_way_spawn [of e r preset old k s1 r1 rs] that r1(1,2) k old_IDs
    by (simp add: going_on_def workers_of_def)
  show ?thesis
  proof (cases "clerkReadyForJurors ws preset \<and> \<not> jurorsStarted ws")
    case True
    obtain as es where promote: "run (promoteClerkDocket e r1 preset ws) s =
        (jurorRoles preset, s\<lparr>artifacts := as, events := es\<rparr>)"
      using run_promoteClerkDocket [of s r1 e preset ws] way r1(3) by (auto simp: under_way_def)
    from under_way_artifacts [OF way] obtain s2 where
      s2: "run (UpdateRunPhase (run_ID r1) PhaseJurors) (s\<lparr>artifacts := as, events := es\<rparr>) = (Inr (), s2)"
        "under_way e r preset old k s2" "workers s2 = workers (s\<lparr>artifacts := as, events := es\<rparr>)"
      by (rule under_way_phase)
    have "jurorRoles preset \<noteq> []" using True by (auto simp: clerkReadyForJurors_def split: if_splits)
    moreover have "wrk_RoleID ` set ws \<inter> rol_ID ` set (jurorRoles preset) = {}"
    proof (rule ccontr)
      assume "wrk_RoleID ` set ws \<inter> rol_ID ` set (jurorRoles preset) \<noteq> {}"
      then obtain w role where w: "w \<in> set ws" and "role \<in> set (jurorRoles preset)"
          "wrk_RoleID w = rol_ID role" by blast
      then have "wrk_RoleKind w = RoleJuror" using kind by (auto simp: jurorRoles_def)
      with w True show False by (auto simp: jurorsStarted_def list_ex_iff)
    qed
    ultimately have "going_on e r preset old k (snd (run (spawnRoles e r1 (jurorRoles preset)) s2))"
      using roles by (intro spawn s2) (auto simp: jurorRoles_def s2(3) intro: distinct_map_filter)
    with True show ?thesis by (simp add: advance_run_def run_seq run_also_do promote s2(1))
  next
    case False
    have judges: "run (judgeRolesForRun e r1 preset) s = (Inr (presetJudgeRoles preset), s)"
      using r1(3) by (simp add: judgeRolesForRun_def run_Done)
    have complete: "going_on e r preset old k (snd (run (completeRun e (run_ID r1) ws) s))"
      using under_way_complete [OF way, of e ws] by (simp add: going_on_def r1(1))
    show ?thesis
    proof (cases "run_Workflow r1 = WorkflowReviewOnly \<or> judgeRole preset = None")
      case True
      with False complete show ?thesis
        by (auto simp: advance_run_def run_must judges presetJudgeRoles_def)
    next
      case workflow: False
      then obtain judge where judge: "judgeRole preset = Some judge" by auto
      then have kind_judge: "judge \<in> set (pre_Roles preset)" "rol_Kind judge = RoleJudge"
        by (auto simp: judgeRole_def find_Some_iff)
      have missing: "wrk_RoleID ` set ws \<inter> {rol_ID judge} = {}"
      proof (rule ccontr)
        assume "wrk_RoleID ` set ws \<inter> {rol_ID judge} \<noteq> {}"
        then obtain w where "w \<in> set ws" "wrk_RoleID w = rol_ID judge" by auto
        then have "RoleJudge \<in> wrk_RoleKind ` set ws" using kind kind_judge by (metis imageI)
        with ws(2) status show False by (auto simp: judgeCompleted_def judge_loop_iff)
      qed
      then have unknown: "\<not> workerExists ws (rol_ID judge)"
        unfolding workerExists_def list_ex_iff by (metis disjoint_insert(2) imageI)
      obtain s2 where s2: "run (UpdateRunPhase (run_ID r1) PhaseVerdict) s = (Inr (), s2)"
          "under_way e r preset old k s2" "workers s2 = workers s"
        using way by (rule under_way_phase)
      have "going_on e r preset old k (snd (run (spawnRoles e r1 [judge]) s2))"
        using missing kind_judge by (intro spawn s2) auto
      with False workflow show ?thesis
        by (auto simp: advance_run_def run_must run_also_do judges presetJudgeRoles_def judge unknown s2(1)
            run_Done)
    qed
  qed
qed

definition preset_scope :: "engine \<Rightarrow> Run \<Rightarrow> Preset \<Rightarrow> bool" where
  "preset_scope e r preset \<longleftrightarrow>
    run_DelegationScope r = DelegationScopePreset \<and>
    eng_preset e (run_Preset r) (run_Workspace r) = Inr preset \<and> distinct (map rol_ID (pre_Roles preset))"

lemma preset_scope_not_enabled:
  "\<not> delegationScopeEnabled (ResolveDelegationScope DelegationScopePreset DelegationScopePreset)"
  by (code_simp)

lemma reconcile_goes_on:
  assumes way: "under_way e r preset old k s" and scope: "preset_scope e r preset"
  shows "going_on e r preset old k (snd (run (ReconcileRun e (run_ID r)) s))"
proof -
  note parts = way [unfolded under_way_def]
  obtain r0 where r0: "List.find (\<lambda>x. run_ID x = run_ID r) (runs s) = Some r0" "run_Status r0 = RunRunning"
    "run_Preset r0 = run_Preset r" "run_Workspace r0 = run_Workspace r"
    "run_DelegationScope r0 = DelegationScopePreset" "run_Backend r0 = run_Backend r"
    using parts scope by (auto simp: running_def preset_scope_def)
  define r1 where "r1 = scanRun r0"
  have r1: "run_ID r1 = run_ID r" "run_Status r1 = RunRunning" "run_Preset r1 = run_Preset r"
    "run_Workspace r1 = run_Workspace r" "run_Backend r1 = run_Backend r" "\<not> delegationScopeEnabled (run_DelegationScope r1)"
    using r0 find_key [of run_ID, OF r0(1)] preset_scope_not_enabled by (simp_all add: r1_def scanRun_def)
  define ws where "ws = map first_attempt (sort_key wrk_CreatedAt (workers_of s (run_ID r)))"
  have "set ws = first_attempt ` set (workers_of s (run_ID r))" by (simp add: ws_def)
  moreover have "workers_of s (run_ID r) \<noteq> []" using parts by (simp add: worked_def)
  ultimately have ws: "set ws = first_attempt ` set (workers_of s (run_ID r))" "ws \<noteq> []"
    by (metis image_is_empty set_empty)+
  have summary: "SummarizeWorkerStatuses ws wrk_Status =
      SummarizeWorkerStatuses (workers_of s (run_ID r)) wrk_Status"
    unfolding ws_def by (intro summary_cong listed_workers(1))
  have "run (GetRun (run_ID r)) s = (Inr r1, s)" "run (ListWorkers (run_ID r)) s = (Inr ws, s)"
    using parts r0 by (simp_all add: GetRun_def ListWorkers_def run_query r1_def ws_def workers_of_def)
  then have "run (ReconcileRun e (run_ID r)) s = run (reconcile_workers e r1 ws) s"
    using r1 ws(2) by (simp add: ReconcileRun_def run_must IsTerminalRunStatus_def)
  moreover have "going_on e r preset old k (snd (run (reconcile_workers e r1 ws) s))"
  proof -
    have flags: "\<not> HasFailed (SummarizeWorkerStatuses ws wrk_Status)"
      "\<not> HasCancelled (SummarizeWorkerStatuses ws wrk_Status)"
      "HasRunningOrQueued (SummarizeWorkerStatuses ws wrk_Status) \<longleftrightarrow> k < length (workers_of s (run_ID r))"
      unfolding summary using worked_summary [of preset k "workers_of s (run_ID r)"] parts by simp_all
    have preset: "eng_preset e (run_Preset r1) (run_Workspace r1) = Inr preset"
      "distinct (map rol_ID (pre_Roles preset))"
      using scope r1 by (simp_all add: preset_scope_def)
    consider "judgeCompleted ws" | "\<not> judgeCompleted ws" "k < length (workers_of s (run_ID r))"
      | "\<not> judgeCompleted ws" "k = length (workers_of s (run_ID r))"
      using parts le_eq_less_or_eq unfolding worked_def by blast
    then show ?thesis
    proof cases
      case 1
      then show ?thesis
        using under_way_complete [OF way, of e ws] flags preset(1)
        by (simp add: reconcile_workers_def Let_def run_must run_Done r1(1) going_on_def)
    next
      case 2
      obtain s2 where "run (UpdateRunPhase (run_ID r)
          (phr_Phase (EvaluatePhase (phaseInputForRun r1 preset ws) (ParticipantStatesFromWorkers ws)))) s =
          (Inr (), s2)" "under_way e r preset old k s2" "workers s2 = workers s"
        using way by (rule under_way_phase)
      with 2 show ?thesis
        using flags preset(1)
        by (simp add: reconcile_workers_def Let_def run_must run_also_do run_Done r1(1) going_on_def
            workers_of_def)
    next
      case 3
      with advance_run_goes_on [OF way 3(2) r1(1,5,6) preset(2) ws(1)] show ?thesis
        using flags preset(1) by (simp add: reconcile_workers_def Let_def run_must run_Done)
    qed
  qed
  ultimately show ?thesis by simp
qed

lemma ids_fresh_iff:
  "ids_fresh e s \<longleftrightarrow> inj (eng_random e) \<and>
    (\<forall>i \<in> wrk_ID ` set (workers s). \<forall>n \<ge> fresh s. i \<noteq> ''wrk-'' @ eng_random e n)"
  by (auto simp: ids_fresh_def)

lemma worker_goes_on:
  assumes way: "under_way e r preset old k s" and k: "k < length (workers_of s (run_ID r))"
    and scope: "preset_scope e r preset" and sessions: "sessions_succeed e (trim_space (run_Backend r))"
  shows "going_on e r preset old (Suc k) (snd (run (RunWorker e (launched s ! (length old + k))) s))"
proof -
  note parts = way [unfolded under_way_def]
  define w where "w = workers_of s (run_ID r) ! k"
  have mem: "w \<in> set (workers s)" "wrk_RunID w = run_ID r"
    using nth_mem [OF k] by (auto simp: w_def workers_of_def)
  have launched: "launched s ! (length old + k) = wrk_ID w"
    using parts k by (simp add: nth_append w_def)
  have find: "List.find (\<lambda>x. wrk_ID x = wrk_ID w) (workers s) = Some w"
    using parts mem(1) by (auto simp: find_Some_iff distinct_conv_nth in_set_conv_nth)
  have backend: "wrk_Backend w = trim_space (run_Backend r)"
    using parts nth_mem [OF k] by (auto simp: w_def)
  have "map wrk_Status (workers_of s (run_ID r)) ! k = WorkerQueued"
    using parts k by (simp add: worked_def nth_append del: nth_map)
  then have queued: "wrk_Status w = WorkerQueued" using k by (simp add: w_def)
  obtain r0 where r0: "List.find (\<lambda>x. run_ID x = wrk_RunID w) (runs s) = Some r0"
    using parts mem(2) by (auto simp: running_def)
  obtain g s1 where s1: "completed_row g" "run (RunWorker e (wrk_ID w)) s = run (ReconcileRun e (run_ID r)) s1"
    "workers s1 = update_rows (\<lambda>x. wrk_ID x = wrk_ID w) g (workers s)"
    "runs s1 = runs s" "launched s1 = launched s" "fresh s1 = fresh s" "faults s1 = []"
    using run_RunWorker [of s "wrk_ID w" w r0 e] parts find r0 queued sessions mem(2) by (auto simp: backend)
  have row: "row_step g" using s1(1) by (simp add: completed_row_def)
  have distinct: "distinct (map wrk_ID (workers_of s (run_ID r)))"
    using parts by (simp add: workers_of_def distinct_map_filter)
  have of1: "workers_of s1 (run_ID r) = (workers_of s (run_ID r))[k := g w]"
    using update_nth [OF distinct k, of g] row by (simp add: workers_of_def s1(3) workers_of_update w_def)
  have ids: "map wrk_ID (update_rows p g rows) = map wrk_ID rows" for p rows
    using row by (auto simp: update_rows_def row_step_def)
  have backends: "map wrk_Backend (update_rows p g rows) = map wrk_Backend rows" for p rows
    using row by (auto simp: update_rows_def row_step_def)
  have "worked preset (Suc k) (workers_of s1 (run_ID r))"
    using worked_step [OF _ k s1(1)] parts by (simp add: of1 w_def)
  moreover have "map wrk_ID (workers_of s1 (run_ID r)) = map wrk_ID (workers_of s (run_ID r))"
    using row by (simp add: workers_of_def s1(3) workers_of_update ids)
  moreover have "wrk_ID ` set (workers s1) = wrk_ID ` set (workers s)"
    using arg_cong [OF ids, of set] by (simp add: s1(3))
  moreover from this have "ids_fresh e s1"
    using parts by (simp add: ids_fresh_iff s1(6))
  moreover have "map wrk_Backend (workers_of s1 (run_ID r)) = map wrk_Backend (workers_of s (run_ID r))"
    using row by (simp add: workers_of_def s1(3) workers_of_update backends)
  then have "wrk_Backend ` set (workers_of s1 (run_ID r)) = wrk_Backend ` set (workers_of s (run_ID r))"
    by (metis set_map)
  ultimately have "under_way e r preset old (Suc k) s1"
    using parts by (simp add: under_way_def s1 ids running_def)
  then show ?thesis using reconcile_goes_on scope by (simp add: launched s1(2))
qed

lemma under_way_bound: "under_way e r preset old k s \<Longrightarrow> length (workers_of s (run_ID r)) \<le> length (pre_Roles preset)"
proof -
  assume "under_way e r preset old k s"
  then have "distinct (map worker_key (workers_of s (run_ID r)))"
    "worker_key ` set (workers_of s (run_ID r)) \<subseteq> role_key ` set (pre_Roles preset)"
    by (simp_all add: under_way_def worked_def)
  then have "length (workers_of s (run_ID r)) \<le> card (role_key ` set (pre_Roles preset))"
    using card_mono [of "role_key ` set (pre_Roles preset)" "worker_key ` set (workers_of s (run_ID r))"]
      distinct_card [of "map worker_key (workers_of s (run_ID r))"] by simp
  also have "\<dots> \<le> length (pre_Roles preset)"
    by (meson card_image_le card_length finite_set le_trans)
  finally show ?thesis .
qed

lemma work_off_completes:
  assumes "going_on e r preset old k s" "preset_scope e r preset" "sessions_succeed e (trim_space (run_Backend r))"
    "length (pre_Roles preset) \<le> n + k"
  shows "status_of (work_off n e (run_ID r) (length old + k) s) (run_ID r) = Some RunCompleted"
  using assms
proof (induction n arbitrary: k s)
  case 0
  then show ?case using under_way_bound [of e r preset old k s] by (auto simp: going_on_def)
next
  case (Suc n)
  show ?case
  proof (cases "status_of s (run_ID r) = Some RunCompleted")
    case False
    with Suc.prems(1) have way: "under_way e r preset old k s" "k < length (workers_of s (run_ID r))"
      by (simp_all add: going_on_def)
    then have "launched s = old @ map wrk_ID (workers_of s (run_ID r))" by (simp add: under_way_def)
    with way(2) have more: "\<not> length (launched s) \<le> length old + k" by simp
    show ?thesis
      using Suc.IH [OF worker_goes_on [OF way Suc.prems(2,3)] Suc.prems(2,3)] Suc.prems(4) False more
      by simp
  qed simp
qed

lemma find_in_set: "Some x = List.find p xs \<Longrightarrow> x \<in> set xs"
  by (metis find_Some_iff nth_mem)

lemma initial_roles:
  "set (initialRolesFor preset mode) \<subseteq> set (pre_Roles preset)"
  "distinct (map rol_ID (pre_Roles preset)) \<Longrightarrow> distinct (map rol_ID (initialRolesFor preset mode))"
  by (auto simp: initialRolesFor_def clerkRoles_def jurorRoles_def presetJudgeRoles_def judgeRole_def
      distinct_map_filter dest: find_in_set split: option.splits)

lemma find_snoc: "\<not> list_ex p xs \<Longrightarrow> List.find p (xs @ [x]) = (if p x then Some x else None)"
  by (induction xs) auto

text \<open>The first workers of a new run.\<close>

lemma first_workers:
  assumes "faults s = []" "ids_fresh e s" "distinct (map wrk_ID (workers s))"
    "List.find (\<lambda>x. run_ID x = run_ID r) (runs s) = Some r" "run_Status r = RunRunning"
    "trim_space (run_Backend r) \<noteq> []" "\<forall>w \<in> set (workers s). wrk_RunID w \<noteq> run_ID r"
    "roles \<noteq> []" "set roles \<subseteq> set (pre_Roles preset)" "distinct (map rol_ID roles)"
  shows "\<exists>s'. run (spawnRoles e r roles) s = (Inr (), s') \<and> going_on e r preset (launched s) 0 s'"
proof -
  have "\<exists>r' \<in> set (runs s). run_ID r' = run_ID r" using assms(4) by (metis find_in_set)
  then obtain ws es where spawned: "run (spawnRoles e r roles) s =
    (Inr (), s\<lparr>fresh := fresh s + 2 * length roles, workers := workers s @ ws, events := es,
       launched := launched s @ map wrk_ID ws\<rparr>)" and ws: "ws = made e r (clock s) (fresh s) roles"
    using run_spawnRoles [OF assms(1,2,10), of r] assms(7) by metis
  let ?s = "s\<lparr>fresh := fresh s + 2 * length roles, workers := workers s @ ws, events := es,
       launched := launched s @ map wrk_ID ws\<rparr>"
  have mem: "wrk_RunID w = run_ID r \<and> wrk_Status w = WorkerQueued \<and> first_attempt w = w"
    if "w \<in> set ws" for w using that unfolding ws by (rule made_mem)
  have mine: "workers_of ?s (run_ID r) = ws" using assms(7) mem by (auto simp: workers_of_def)
  have keys: "map worker_key ws = map role_key roles" by (simp add: ws made_keys)
  have len: "length ws = length roles" using arg_cong [OF keys, of length] by simp
  have "map wrk_Status ws = replicate (length ws) WorkerQueued"
    using mem by (simp add: map_replicate_const [symmetric] del: map_replicate_const)
  moreover have "distinct (map worker_key ws)"
    unfolding keys using assms(10) by (auto simp: distinct_map inj_on_def role_key_def)
  moreover have "worker_key ` set ws \<subseteq> role_key ` set (pre_Roles preset)"
    using arg_cong [OF keys, of set] assms(9) by (simp add: image_mono)
  ultimately have "worked preset 0 ws" using assms(8) len by (auto simp: worked_def)
  moreover have "distinct (map wrk_ID (workers s @ ws))"
    using assms(2,3) by (fastforce simp: ws ids_fresh_def dest: made_ids intro: distinct_made)
  moreover have "ids_fresh e ?s" unfolding ws by (rule ids_fresh_made [OF assms(2)])
  moreover have "wrk_Backend ` set ws \<subseteq> {trim_space (run_Backend r)}"
    using made_Backend [of r] assms(6) by (auto simp: ws)
  ultimately have "going_on e r preset (launched s) 0 ?s"
    using assms(1,4-6,8) mine len by (auto simp: going_on_def under_way_def running_def)
  then show ?thesis using spawned by blast
qed



end
