(* ===== verification/CourtRaces.thy ===== *)
theory CourtRaces
  imports CourtProgress
begin

text \<open>
  Where the order of things matters: a control that is marked as handled although nobody handles
  it, and a cancellation that a worker on its way does not notice.
\<close>

section \<open>An interrupt nobody sees\<close>

lemma run_CompleteWorkerControl_new:
  assumes "wcr_ID ` set cs \<subseteq> {..n}" "wcr_ID c = n + 1"
  shows "update_rows (\<lambda>x. wcr_ID x = n + 1) f (cs @ [c]) = cs @ [f c]"
proof -
  have "update_rows (\<lambda>x. wcr_ID x = n + 1) f cs = cs"
    using assms(1) by (intro update_other_rows) auto
  then show ?thesis using assms(2) by (simp add: update_rows_def)
qed

text \<open>
  C22. Interrupting a running worker whose session is not known yet leaves nothing for the worker to
  see: the reply says that the control is pending and that the worker will handle it, but the
  control is already marked as completed, so that the list of pending controls, which the worker
  polls, is the one from before.
\<close>

theorem InterruptWorker_forgets:
  assumes "faults s = []" "List.find (\<lambda>w. wrk_ID w = i) (workers s) = Some w"
    "List.find (\<lambda>r. run_ID r = wrk_RunID w) (runs s) = Some r" "wrk_Status w = WorkerRunning"
    "wrk_RuntimeSessionID w = []" "wrk_RuntimeProviderSessionID w = []"
    "wcr_ID ` set (controls s) \<subseteq> {..last_control s}"
  shows "case run (InterruptWorker e i) s of (res, s') \<Rightarrow>
    (case res of
       Inl err \<Rightarrow> False
     | Inr reply \<Rightarrow> wcx_Status reply = WorkerControlPending \<and>
         fst (run (ListPendingWorkerControls i) s') = fst (run (ListPendingWorkerControls i) s))"
proof -
  have w: "w \<in> set (workers s)" "wrk_ID w = i"
    using assms(2) find_key [of wrk_ID] by (auto intro: find_in_set [OF sym])
  have ids: "run_ID r = wrk_RunID w" using assms(3) by (rule find_key)
  have "list_ex (\<lambda>w. wrk_ID w = i) (workers s)" using w by (auto simp: list_ex_iff)
  then show ?thesis
    using assms w ids
    by (simp add: InterruptWorker_def workerAndRun_def GetWorker_def GetRun_def AddWorkerControl_def
        CompleteWorkerControl_def updated_worker_def ListPendingWorkerControls_def control_result_def
        first_attempt_def scanRun_def Let_def run_simps run_CompleteWorkerControl_new set_control_def)
qed

section \<open>A cancellation that comes too early\<close>

lemma run_ReconcileRun_terminal:
  assumes "faults s = []" "List.find (\<lambda>r. run_ID r = i) (runs s) = Some r" "IsTerminalRunStatus (run_Status r)"
  shows "run (ReconcileRun e i) s = (Inr (), s)"
  using assms by (simp add: ReconcileRun_def GetRun_def scanRun_def run_simps)

text \<open>What a cancellation does to the tables when the worker has no session yet.\<close>

lemma update_rows_twice:
  "(\<And>x. p (f x) = p x) \<Longrightarrow> update_rows p g (update_rows p f rows) = update_rows p (\<lambda>x. g (f x)) rows"
  by (simp add: update_rows_def)

lemma run_cancel_early:
  assumes "faults s = []" "wrk_ID w \<in> wrk_ID ` set (workers s)"
    "wrk_RuntimeSessionID w = []" "wrk_RuntimeProviderSessionID w = []"
  shows "\<exists>reply s'. run (cancel_worker e r w) s = (Inr (reply, None), s') \<and>
    wcx_Status reply = WorkerControlCompleted \<and> faults s' = [] \<and>
    workers s' = update_rows (\<lambda>x. wrk_ID x = wrk_ID w) (\<lambda>x. x\<lparr>wrk_Status := WorkerCancelled,
      wrk_Result := wrk_Result w, wrk_ResultJSON := wrk_ResultJSON w, wrk_Error := ''worker cancelled'',
      wrk_UpdatedAt := clock s, wrk_CompletedAt := clock s\<rparr>) (workers s) \<and>
    runs s' = update_rows (\<lambda>x. run_ID x = run_ID r) (\<lambda>x. x\<lparr>run_Status := RunCancelled,
      run_Verdict := [], run_CompletedAt := clock s, run_Phase := PhaseBlocked, run_UpdatedAt := clock s\<rparr>) (runs s)"
proof -
  have "list_ex (\<lambda>x. wrk_ID x = wrk_ID w) (workers s)" using assms(2) by (auto simp: list_ex_iff)
  with assms show ?thesis
    by (simp add: cancel_worker_def AddWorkerControl_def cancel_session_def CompleteWorkerControl_def
        CompleteWorker_def update_worker_def UpdateRunStatus_def UpdateRunPhase_def updated_worker_def
        GetWorker_def control_result_def Let_def IsTerminalRunStatus_def update_rows_twice run_simps)
qed


section \<open>Concrete runs\<close>

definition lone_worker :: "WorkerStatus \<Rightarrow> Worker" where
  "lone_worker st = zero_worker\<lparr>wrk_ID := ''w'', wrk_RunID := ''r'', wrk_Backend := ''pi'', wrk_Status := st\<rparr>"

definition lone_court :: "WorkerStatus \<Rightarrow> court" where
  "lone_court st = demo_court\<lparr>runs := [demo_run\<lparr>run_ID := ''r''\<rparr>], workers := [lone_worker st]\<rparr>"

lemma lone_court:
  "faults (lone_court st) = []" "controls (lone_court st) = []" "last_control (lone_court st) = 0"
  "List.find (\<lambda>w. wrk_ID w = ''w'') (workers (lone_court st)) = Some (lone_worker st)"
  "List.find (\<lambda>r. run_ID r = wrk_RunID (lone_worker st)) (runs (lone_court st)) = Some (demo_run\<lparr>run_ID := ''r''\<rparr>)"
  "wrk_Status (lone_worker st) = st" "wrk_RunID (lone_worker st) = ''r''" "wrk_Backend (lone_worker st) = ''pi''"
  "wrk_RuntimeSessionID (lone_worker st) = []" "wrk_RuntimeProviderSessionID (lone_worker st) = []"
  by (simp_all add: lone_court_def lone_worker_def demo_court_def zero_worker_def)

theorem InterruptWorker_forgets_witness:
  "case run (InterruptWorker (demo_engine demo_preset) ''w'') (lone_court WorkerRunning) of (res, s') \<Rightarrow>
    (case res of
       Inl err \<Rightarrow> False
     | Inr reply \<Rightarrow> wcx_Status reply = WorkerControlPending \<and>
         fst (run (ListPendingWorkerControls ''w'') s') =
         fst (run (ListPendingWorkerControls ''w'') (lone_court WorkerRunning)))"
  by (rule InterruptWorker_forgets [OF lone_court(1,4,5)]) (simp_all add: lone_court)


end
