(* ===== verification/CourtConsistency.thy ===== *)
theory CourtConsistency
  imports CourtSafety CourtSample "HOL-Library.Sublist"
begin

text \<open>
  Invariants of the court under interference: the operations of the engine are processes whose
  statements interleave, and every statement on its own keeps the tables consistent and the
  history intact.
\<close>

section \<open>What the tables keep to\<close>

definition run_ok :: "Run \<Rightarrow> bool" where
  "run_ok r \<longleftrightarrow> (run_CompletedAt r = [] \<longleftrightarrow> \<not> IsTerminalRunStatus (run_Status r)) \<and>
     (run_Verdict r = [] \<or> run_Status r = RunCompleted)"

definition consistent :: "court \<Rightarrow> bool" where
  "consistent s \<longleftrightarrow>
     clock s \<noteq> [] \<and> distinct (map run_ID (runs s)) \<and> list_all run_ok (runs s) \<and>
     distinct (map wrk_ID (workers s)) \<and>
     distinct (map (\<lambda>w. (wrk_RunID w, wrk_RoleID w)) (workers s)) \<and>
     wrk_RunID ` set (workers s) \<subseteq> run_ID ` set (runs s) \<and>
     distinct (map (\<lambda>a. (wrk_ID a, wrk_Attempt a)) (attempts s)) \<and>
     distinct (map wcr_ID (controls s)) \<and> wcr_ID ` set (controls s) \<subseteq> {..last_control s} \<and>
     wcr_WorkerID ` set (controls s) \<subseteq> wrk_ID ` set (workers s)"

text \<open>Who a run or a worker is, and what was asked of a control.\<close>

definition run_terms :: "Run \<Rightarrow> string \<times> string \<times> string \<times> string \<times> string \<times> string \<times> string" where
  "run_terms r = (run_ID r, run_Task r, run_Preset r, run_Workflow r, run_DelegationScope r,
     run_Backend r, run_Workspace r)"

definition worker_terms :: "Worker \<Rightarrow> string \<times> string \<times> string \<times> RoleKind \<times> string \<times> string" where
  "worker_terms w = (wrk_ID w, wrk_RunID w, wrk_RoleID w, wrk_RoleKind w, wrk_Backend w, wrk_Model w)"

definition control_terms :: "WorkerControlRequest \<Rightarrow> int \<times> string \<times> string \<times> WorkerControlAction" where
  "control_terms c = (wcr_ID c, wcr_RunID c, wcr_WorkerID c, wcr_Action c)"

definition history :: "court \<Rightarrow> court \<Rightarrow> bool" where
  "history s0 s \<longleftrightarrow>
     prefix (events s0) (events s) \<and> prefix (artifacts s0) (artifacts s) \<and>
     prefix (map run_terms (runs s0)) (map run_terms (runs s)) \<and>
     prefix (map worker_terms (workers s0)) (map worker_terms (workers s)) \<and>
     prefix (map control_terms (controls s0)) (map control_terms (controls s))"

definition sound :: "court \<Rightarrow> court \<Rightarrow> bool" where
  "sound s0 s \<longleftrightarrow> consistent s \<and> history s0 s"

lemmas sound_defs = sound_def consistent_def history_def

lemma map_update_rows: "(\<And>r. h (f r) = h r) \<Longrightarrow> map h (update_rows p f rows) = map h rows"
  by (simp add: update_rows_def)

lemma sound_update:
  "sound s0 s \<Longrightarrow> sound s0 (s\<lparr>faults := fs\<rparr>)"
  "sound s0 s \<Longrightarrow> sound s0 (s\<lparr>fresh := n\<rparr>)"
  "sound s0 s \<Longrightarrow> sound s0 (s\<lparr>launched := ls\<rparr>)"
  "sound s0 s \<Longrightarrow> sound s0 (s\<lparr>events := events s @ es\<rparr>)"
  "sound s0 s \<Longrightarrow> sound s0 (s\<lparr>artifacts := artifacts s @ as\<rparr>)"
  by (simp_all add: sound_defs)

lemma set_by_map: "map h xs = map h ys \<Longrightarrow> h ` set xs = h ` set ys"
  by (metis set_map)

lemma sound_runs:
  assumes "sound s0 s" "\<And>r. run_terms (f r) = run_terms r" "\<And>r. run_ok r \<Longrightarrow> run_ok (f r)"
  shows "sound s0 (s\<lparr>runs := update_rows p f (runs s)\<rparr>)"
proof -
  have "run_ID (f r) = run_ID r" for r using assms(2) [of r] by (simp add: run_terms_def)
  then have ids: "map run_ID (update_rows p f (runs s)) = map run_ID (runs s)"
    by (rule map_update_rows)
  moreover have "list_all run_ok (update_rows p f (runs s))"
    using assms(1,3) by (auto simp: sound_defs list_all_iff update_rows_def)
  moreover have "map run_terms (update_rows p f (runs s)) = map run_terms (runs s)"
    using assms(2) by (rule map_update_rows)
  ultimately show ?thesis
    using assms(1) set_by_map [OF ids] by (simp add: sound_defs)
qed

lemma sound_workers:
  assumes "sound s0 s" "\<And>w. worker_terms (f w) = worker_terms w"
  shows "sound s0 (s\<lparr>workers := update_rows p f (workers s)\<rparr>)"
proof -
  have keep: "wrk_ID (f w) = wrk_ID w" "wrk_RunID (f w) = wrk_RunID w" "wrk_RoleID (f w) = wrk_RoleID w" for w
    using assms(2) [of w] by (simp_all add: worker_terms_def)
  have ids: "map wrk_ID (update_rows p f (workers s)) = map wrk_ID (workers s)"
    and run_ids: "map wrk_RunID (update_rows p f (workers s)) = map wrk_RunID (workers s)"
    and roles: "map (\<lambda>w. (wrk_RunID w, wrk_RoleID w)) (update_rows p f (workers s)) =
      map (\<lambda>w. (wrk_RunID w, wrk_RoleID w)) (workers s)"
    and terms: "map worker_terms (update_rows p f (workers s)) = map worker_terms (workers s)"
    by (rule map_update_rows; simp add: keep assms(2))+
  show ?thesis
    using assms(1) set_by_map [OF ids] set_by_map [OF run_ids] by (simp add: sound_defs ids roles terms)
qed

lemma sound_controls:
  assumes "sound s0 s" "\<And>c. control_terms (f c) = control_terms c"
  shows "sound s0 (s\<lparr>controls := update_rows p f (controls s)\<rparr>)"
proof -
  have keep: "wcr_ID (f c) = wcr_ID c" "wcr_WorkerID (f c) = wcr_WorkerID c" for c
    using assms(2) [of c] by (simp_all add: control_terms_def)
  have ids: "map wcr_ID (update_rows p f (controls s)) = map wcr_ID (controls s)"
    and of_worker: "map wcr_WorkerID (update_rows p f (controls s)) = map wcr_WorkerID (controls s)"
    and terms: "map control_terms (update_rows p f (controls s)) = map control_terms (controls s)"
    by (rule map_update_rows; simp add: keep assms(2))+
  show ?thesis
    using assms(1) set_by_map [OF ids] set_by_map [OF of_worker] by (simp add: sound_defs ids terms)
qed

section \<open>Every statement keeps to it\<close>

lemma sound_CreateRun [keeps_intros]:
  assumes "run_ok r"
  shows "keeps (sound s0) (CreateRun r)"
  unfolding CreateRun_def
  by (intro keeps_intros)
    (use assms in \<open>auto simp: sound_defs list_ex_iff split: if_splits\<close>)

lemma sound_CreateWorker [keeps_intros]: "keeps (sound s0) (CreateWorker w)"
  unfolding CreateWorker_def
proof (intro keeps_intros)
  fix s
  assume s: "sound s0 s"
  show "sound s0 (snd (case worker_conflict s w of
      Some m \<Rightarrow> (Inl (Wrapped ''create worker'' (Err m)), s)
    | None \<Rightarrow> (Inr (), s\<lparr>workers := workers s @ [first_attempt w]\<rparr>)))"
  proof (cases "worker_conflict s w")
    case None
    then have "\<forall>x \<in> set (workers s). wrk_ID x \<noteq> wrk_ID w"
      "\<forall>x \<in> set (workers s). wrk_RunID x = wrk_RunID w \<longrightarrow> wrk_RoleID x \<noteq> wrk_RoleID w"
      "wrk_RunID w \<in> run_ID ` set (runs s)"
      by (auto simp: worker_conflict_def list_ex_iff intro: rev_image_eqI split: if_splits)
    then show ?thesis using s by (auto simp: None sound_defs)
  qed (use s in simp)
qed (rule sound_update)

lemma sound_AddWorkerControl [keeps_intros]: "keeps (sound s0) (AddWorkerControl runID workerID action)"
  unfolding AddWorkerControl_def Let_def
  by (intro keeps_intros)
    (auto simp: sound_defs list_ex_iff split: if_splits intro: order_trans)

lemma sound_UpdateRunStatus [keeps_intros]:
  "v = [] \<or> st = RunCompleted \<Longrightarrow> keeps (sound s0) (UpdateRunStatus i st v)"
  unfolding UpdateRunStatus_def
  by (intro keeps_intros sound_update sound_runs)
    (auto simp: run_terms_def run_ok_def sound_defs)

lemma sound_UpdateRunPhase [keeps_intros]: "keeps (sound s0) (UpdateRunPhase i phase)"
  unfolding UpdateRunPhase_def
  by (intro keeps_intros sound_update sound_runs) (auto simp: run_terms_def run_ok_def)

lemma sound_ReactivateRun [keeps_intros]: "keeps (sound s0) (ReactivateRun i phase)"
  unfolding ReactivateRun_def
  by (intro keeps_intros sound_update sound_runs)
    (auto simp: run_terms_def run_ok_def IsTerminalRunStatus_def)

lemma sound_update_worker [keeps_intros]:
  "(\<And>s w. worker_terms (f s w) = worker_terms w) \<Longrightarrow> keeps (sound s0) (update_worker action i p f)"
  unfolding update_worker_def by (intro keeps_intros sound_update sound_workers)

lemma sound_worker_statements [keeps_intros]:
  "keeps (sound s0) (UpdateWorkerRunning i)"
  "keeps (sound s0) (UpdateWorkerRuntimeIdentity i ident)"
  "keeps (sound s0) (ResetWorkerForRetry i launch)"
  "keeps (sound s0) (CompleteWorker i status result resultJSON errText)"
  unfolding UpdateWorkerRunning_def UpdateWorkerRuntimeIdentity_def ResetWorkerForRetry_def
    CompleteWorker_def
  by (intro keeps_intros; simp add: worker_terms_def)+

lemma sound_control_statements [keeps_intros]:
  "keeps (sound s0) (CompleteWorkerControl c status errText)"
  "keeps (sound s0) (CompletePendingWorkerControls i status errText)"
  unfolding CompleteWorkerControl_def CompletePendingWorkerControls_def
  by (intro keeps_intros sound_update sound_controls; simp add: control_terms_def set_control_def)+

lemma sound_ArchiveWorkerAttempt [keeps_intros]: "keeps (sound s0) (ArchiveWorkerAttempt w)"
  unfolding ArchiveWorkerAttempt_def Let_def
proof (intro keeps_intros)
  fix s
  assume s: "sound s0 s"
  let ?w = "first_attempt w" and ?key = "\<lambda>a. (wrk_ID a, wrk_Attempt a)"
  let ?same = "\<lambda>x. wrk_ID x = wrk_ID ?w \<and> wrk_Attempt x = wrk_Attempt ?w"
  have "map ?key (update_rows ?same (\<lambda>x. ?w\<lparr>wrk_RunID := wrk_RunID x\<rparr>) (attempts s)) = map ?key (attempts s)"
    by (auto simp: update_rows_def)
  then have "distinct (map ?key (update_rows ?same (\<lambda>x. ?w\<lparr>wrk_RunID := wrk_RunID x\<rparr>) (attempts s)))"
    using s by (simp add: sound_defs)
  moreover have "distinct (map ?key (attempts s @ [?w]))" if "\<not> list_ex ?same (attempts s)"
    using s that by (auto simp: sound_defs list_ex_iff)
  ultimately show "sound s0 (if list_ex ?same (attempts s)
       then s\<lparr>attempts := update_rows ?same (\<lambda>x. ?w\<lparr>wrk_RunID := wrk_RunID x\<rparr>) (attempts s)\<rparr>
       else s\<lparr>attempts := attempts s @ [?w]\<rparr>)"
    using s by (auto simp: sound_defs)
qed (rule sound_update)

lemma sound_emit [keeps_intros]: "keeps (sound s0) (emit runID workerID typ message)"
  unfolding emit_def now_def AddEvent_def by (intro keeps_intros sound_update) simp_all

lemma sound_addArtifact [keeps_intros]: "keeps (sound s0) (addArtifact runID workerID kind format content)"
  unfolding addArtifact_def now_def AddArtifact_def by (intro keeps_intros sound_update) simp_all

lemma sound_reads [keeps_intros]:
  "keeps (sound s0) (GetRun i)" "keeps (sound s0) (GetWorker i)" "keeps (sound s0) (ListWorkers i)"
  "keeps (sound s0) (ListArtifacts i)" "keeps (sound s0) now" "keeps (sound s0) (randomID e)"
  "keeps (sound s0) (spawnWorker i)"
  unfolding GetRun_def GetWorker_def ListWorkers_def ListArtifacts_def now_def randomID_def spawnWorker_def
  by (intro keeps_intros; simp add: sound_update)+

section \<open>Every operation keeps to it\<close>

lemma sound_new_workers [keeps_intros]: "keeps (sound s0) (new_workers e r t roles)"
  by (induction roles) (auto intro!: keeps_intros)

lemma sound_spawnRoles [keeps_intros]: "keeps (sound s0) (spawnRoles e r roles)"
  unfolding spawnRoles_def
proof (intro keeps_intros keeps_QueueAndLaunch keeps_persist_item keeps_launch_item)
qed (auto simp: spawn_hooks_def intro!: keeps_intros)

lemma sound_completeRun [keeps_intros]: "keeps (sound s0) (completeRun e i ws)"
  unfolding completeRun_def Let_def by (intro keeps_intros) simp_all

lemma sound_close_run [keeps_intros]: "keeps (sound s0) (close_run i st typ message)"
  unfolding close_run_def by (intro keeps_intros) simp_all

lemma sound_promote [keeps_intros]: "keeps (sound s0) (promoteClerkDocket e r preset ws)"
  unfolding promoteClerkDocket_def tryDelegatedDocket_def Let_def by (intro keeps_intros)

lemma sound_judges [keeps_intros]: "keeps (sound s0) (judgeRolesForRun e r preset)"
  unfolding judgeRolesForRun_def latestDocket_def by (intro keeps_intros)

lemma sound_ReconcileRun [keeps_intros]: "keeps (sound s0) (ReconcileRun e i)"
  unfolding ReconcileRun_def reconcile_workers_def advance_run_def Let_def by (intro keeps_intros)

text \<open>What the outside does to a worker's session must keep to it as well.\<close>

definition sound_environment :: "engine \<Rightarrow> court \<Rightarrow> bool" where
  "sound_environment e s0 \<longleftrightarrow>
     (\<forall>r w. keeps (sound s0) (eng_session e r w)) \<and> (\<forall>r w. keeps (sound s0) (eng_adopt e r w)) \<and>
     (\<forall>i. keeps (sound s0) (eng_stop e i)) \<and> (\<forall>i. keeps (sound s0) (eng_interrupt e i))"

lemma sound_ExecuteWorker:
  assumes "keeps I (Load hooks i)" "\<And>r w. keeps I (Execute hooks r w)"
    "\<And>h j. MarkRunning hooks = Some h \<Longrightarrow> keeps I (h j)"
    "\<And>h r w. OnStarted hooks = Some h \<Longrightarrow> keeps I (h r w)"
    "\<And>h j x. PersistIdentity hooks = Some h \<Longrightarrow> keeps I (h j x)"
    "\<And>h j x y. MarkCancelled hooks = Some h \<Longrightarrow> keeps I (h j x y)"
    "\<And>h r w x y. OnCancelled hooks = Some h \<Longrightarrow> keeps I (h r w x y)"
    "\<And>h j x y z. MarkFailed hooks = Some h \<Longrightarrow> keeps I (h j x y z)"
    "\<And>h r w x y z. OnFailed hooks = Some h \<Longrightarrow> keeps I (h r w x y z)"
    "\<And>h j. Reload hooks = Some h \<Longrightarrow> keeps I (h j)"
    "\<And>h j x y. MarkCompleted hooks = Some h \<Longrightarrow> keeps I (h j x y)"
    "\<And>h r w x y. OnCompleted hooks = Some h \<Longrightarrow> keeps I (h r w x y)"
    "\<And>h r. Reconcile hooks = Some h \<Longrightarrow> keeps I (h r)"
  shows "keeps I (ExecuteWorker i hooks)"
proof -
  have finish: "keeps I (finish_cancelled hooks r w x y)" "keeps I (finish_failed hooks j r w x y err)"
    "keeps I (finish_completed hooks j r w x y)" for j r w x y err
    unfolding finish_cancelled_def finish_failed_def finish_completed_def hook_notify_def
    by (intro keeps_intros; erule assms)+
  have after: "keeps I (after_execute hooks j r w x y err)" for j r w x y err
    unfolding after_execute_def
    by (intro keeps_intros finish) (use assms(6,10) in auto)
  show ?thesis
    unfolding ExecuteWorker_def execute_loaded_def hook_notify_def
    by (intro keeps_intros assms(1,2) after) (use assms(3-5) in auto)
qed

lemma sound_RunWorker [keeps_intros]:
  assumes "sound_environment e s0"
  shows "keeps (sound s0) (RunWorker e i)"
  unfolding RunWorker_def
proof (rule sound_ExecuteWorker)
  show "keeps (sound s0) (Execute (worker_hooks e) r w)" for r w
    using assms by (auto simp: worker_hooks_def runBackendWorker_def sound_environment_def
        intro: keeps_Done split: sum.split)
qed (auto simp: worker_hooks_def intro!: keeps_intros)

lemma case_sum_InrE:
  assumes "(case x of Inl err \<Rightarrow> Inl (g err) | Inr y \<Rightarrow> f y) = Inr z"
  obtains y where "x = Inr y" "f y = Inr z"
  using assms by (cases x) auto

lemma if_InlE:
  assumes "(if b then Inl err else x) = Inr z"
  obtains "\<not> b" "x = Inr z"
  using assms by (cases b) auto

lemma plan_run_ok:
  assumes "plan_run e req = Inr (r, preset)"
  shows "run_Status r = RunRunning" "run_Verdict r = []" "run_CompletedAt r = []"
  using assms unfolding plan_run_def Let_def by (elim case_sum_InrE if_InlE; force)+

lemma sound_StartRun [keeps_intros]: "keeps (sound s0) (StartRun e req)"
proof (cases "plan_run e req")
  case (Inl err)
  then show ?thesis by (simp add: StartRun_def must_def keeps_Done)
next
  case (Inr planned)
  obtain r preset where planned: "planned = (r, preset)" by (cases planned)
  have "run_ok (r\<lparr>run_ID := i, run_CreatedAt := t, run_UpdatedAt := t\<rparr>)" for i t
    using plan_run_ok [of e req r preset] Inr planned
    by (simp add: run_ok_def IsTerminalRunStatus_def)
  then have "keeps (sound s0) (start_planned e r preset)"
    unfolding start_planned_def start_result_def failRunStart_def Let_def by (intro keeps_intros) simp_all
  then show ?thesis by (simp add: StartRun_def must_def Inr planned)
qed

lemma sound_ensure [keeps_intros]:
  "sound_environment e s0 \<Longrightarrow> keeps (sound s0) (ensureControlPlaneSession e r w)"
  unfolding ensureControlPlaneSession_def
  by (intro keeps_intros) (simp add: sound_environment_def)

lemma sound_runtimes [keeps_intros]:
  "sound_environment e s0 \<Longrightarrow> keeps (sound s0) (stopWorkerRuntime e r w)"
  "sound_environment e s0 \<Longrightarrow> keeps (sound s0) (interruptWorkerRuntime e r w)"
  unfolding stopWorkerRuntime_def interruptWorkerRuntime_def
  by (intro keeps_intros; simp add: sound_environment_def)+

lemma sound_workerAndRun [keeps_intros]:
  "keeps (sound s0) (workerAndRun i)" "keeps (sound s0) (updated_worker i)"
  unfolding workerAndRun_def updated_worker_def by (intro keeps_intros)+

lemma sound_controls_of_worker [keeps_intros]:
  assumes "sound_environment e s0"
  shows "keeps (sound s0) (CancelWorker e i)" "keeps (sound s0) (InterruptWorker e i)"
    "keeps (sound s0) (ResumeWorker e i)" "keeps (sound s0) (RetryWorker e i)"
  unfolding CancelWorker_def cancel_worker_def cancel_session_def InterruptWorker_def ResumeWorker_def
    RetryWorker_def retry_worker_def retry_step_def Let_def
  by (intro keeps_intros assms; simp)+

section \<open>Any number of operations side by side\<close>

text \<open>The operations of the engine, run for their effect.\<close>

definition background :: "(court, 'a) proc \<Rightarrow> (court, unit) proc" where
  "background p = also_do p (Done ())"

inductive court_process :: "engine \<Rightarrow> (court, unit) proc \<Rightarrow> bool" for e where
  "court_process e (background (StartRun e req))"
| "court_process e (background (RunWorker e i))"
| "court_process e (background (ReconcileRun e i))"
| "court_process e (background (CancelWorker e i))"
| "court_process e (background (InterruptWorker e i))"
| "court_process e (background (ResumeWorker e i))"
| "court_process e (background (RetryWorker e i))"

lemma sound_court_process:
  assumes "court_process e p" "sound_environment e s0"
  shows "keeps (sound s0) p"
  using assms(1) by cases (auto simp: background_def intro!: keeps_intros assms(2))

text \<open>
  C4. However starting runs, running workers, reconciling, cancelling, interrupting, resuming and
  retrying interleave at the statements of the database, and whatever the driver fails: the tables
  stay consistent (a run has at most one worker per role, workers belong to runs and controls to
  workers, archived attempts and controls are unique, a run has an end exactly when its status is
  terminal and a verdict only when it is completed), events and artifacts are only appended, and no
  operation rewrites the terms of a run, who a worker is, or what a control asks.
\<close>

theorem court_stays_sound:
  assumes "consistent s0" "sound_environment e s0" "reachable (\<lambda>s. court_process e) s0 (ps, s)"
  shows "consistent s \<and> history s0 s"
proof -
  have "sound s0 s0" using assms(1) by (simp add: sound_def history_def)
  from reachable_keeps(1) [where I = "sound s0", OF assms(3) this] sound_court_process assms(2)
  show ?thesis by (auto simp: sound_def)
qed

theorem court_stays_sound_witness:
  "case run (background (StartRun (demo_engine demo_preset) demo_request)) demo_court of (_, s) \<Rightarrow>
     consistent s \<and> history demo_court s"
proof -
  have "consistent demo_court" by (simp add: consistent_def demo_court_def)
  moreover have "sound_environment (demo_engine demo_preset) demo_court"
    by (auto simp: sound_environment_def demo_engine_def intro: keeps_Done)
  moreover have "reachable (\<lambda>s. court_process (demo_engine demo_preset)) demo_court
      ([Done (fst (run (background (StartRun (demo_engine demo_preset) demo_request)) demo_court))],
       snd (run (background (StartRun (demo_engine demo_preset) demo_request)) demo_court))"
    by (intro reachable_run court_process.intros)
  ultimately show ?thesis
    using court_stays_sound by (simp add: case_prod_beta)
qed

end
