(* ===== verification/Workspace.thy ===== *)
theory Workspace
  imports Orchestration Json
begin

text \<open>
  The workspace store of the control plane (\<^verbatim>\<open>internal/controlplane/workspacestore.go\<close> with
  the types of \<^verbatim>\<open>pkg/contract/workspace.go\<close>): memory, documents, tasks with comments, wakeups
  and leases in one SQLite database. A table is the list of its rows in the order of insertion, and
  one SQL statement is one atomic action; what an operation does between its statements is open
  to other operations. The JSON columns (tags, metadata, blockers) hold the values themselves:
  the strings and numbers in them come from JSON and survive the way back.
\<close>

section \<open>The rows\<close>

type_synonym metadata = "string \<rightharpoonup> json"

record MemoryEntry =
  mem_WorkspaceID :: string
  mem_Key :: string
  mem_Value :: string
  mem_CreatedAtMS :: int
  mem_UpdatedAtMS :: int
  mem_ExpiresAtMS :: int

record Document =
  doc_ID :: string
  doc_WorkspaceID :: string
  doc_Name :: string
  doc_Content :: string
  doc_Revision :: int
  doc_Tags :: "string list"
  doc_Metadata :: metadata
  doc_Archived :: bool
  doc_CreatedAtMS :: int
  doc_UpdatedAtMS :: int

type_synonym TaskStatus = string

abbreviation TaskStatusOpen :: TaskStatus where "TaskStatusOpen \<equiv> ''open''"
abbreviation TaskStatusBlocked :: TaskStatus where "TaskStatusBlocked \<equiv> ''blocked''"
abbreviation TaskStatusCompleted :: TaskStatus where "TaskStatusCompleted \<equiv> ''completed''"

record Task =
  tsk_ID :: string
  tsk_WorkspaceID :: string
  tsk_Title :: string
  tsk_Body :: string
  tsk_Status :: TaskStatus
  tsk_Tags :: "string list"
  tsk_Metadata :: metadata
  tsk_LockedBy :: string
  tsk_BlockerIDs :: "string list"
  tsk_CreatedAtMS :: int
  tsk_UpdatedAtMS :: int
  tsk_CompletedAtMS :: int

record TaskComment =
  cmt_ID :: string
  cmt_TaskID :: string
  cmt_Author :: string
  cmt_Body :: string
  cmt_CreatedAtMS :: int

record Wakeup =
  wak_ID :: string
  wak_WorkspaceID :: string
  wak_OwnerID :: string
  wak_Body :: string
  wak_Metadata :: metadata
  wak_CreatedAtMS :: int
  wak_DueAtMS :: int
  wak_FiredAtMS :: int
  wak_CancelledAtMS :: int
  wak_PausedAtMS :: int
  wak_PausedRemainingMS :: int

record Lease =
  lea_WorkspaceID :: string
  lea_LockKey :: string
  lea_OwnerID :: string
  lea_AcquiredAtMS :: int
  lea_ExpiresAtMS :: int

section \<open>The database\<close>

text \<open>
  A statement runs on some connection of the pool: it may fail, and it enforces foreign keys only
  if the pragma was executed on that connection, which the store does on one of them. When the
  list is used up, statements run on that one and do not fail.
\<close>

record conn =
  con_error :: "string option"
  con_foreign_keys :: bool

record workspace =
  memory :: "MemoryEntry list"
  documents :: "Document list"
  tasks :: "Task list"
  comments :: "TaskComment list"
  wakeups :: "Wakeup list"
  leases :: "Lease list"
  millis :: int \<comment> \<open>\<open>time.Now().UnixMilli()\<close>\<close>
  conns :: "conn list"

definition ws_statement :: "(bool \<Rightarrow> workspace \<Rightarrow> (go_error + 'a) \<times> workspace) \<Rightarrow> (workspace, 'a) call" where
  "ws_statement f = act (\<lambda>s.
    case conns s of
      [] \<Rightarrow> f True s
    | c # cs \<Rightarrow>
        (case con_error c of
           Some m \<Rightarrow> (Inl (Err m), s\<lparr>conns := cs\<rparr>)
         | None \<Rightarrow> f (con_foreign_keys c) (s\<lparr>conns := cs\<rparr>)))"

definition ws_query :: "(workspace \<Rightarrow> go_error + 'a) \<Rightarrow> (workspace, 'a) call" where
  "ws_query f = ws_statement (\<lambda>_ s. (f s, s))"

definition ws_exec :: "(workspace \<Rightarrow> workspace) \<Rightarrow> (workspace, unit) call" where
  "ws_exec f = ws_statement (\<lambda>_ s. (Inr (), f s))"

text \<open>A statement with \<open>RowsAffected\<close>: the error of the code when it touches no row.\<close>

definition ws_require :: "go_error \<Rightarrow> (workspace \<Rightarrow> bool) \<Rightarrow> (workspace \<Rightarrow> workspace) \<Rightarrow> (workspace, unit) call" where
  "ws_require err p f = ws_statement (\<lambda>_ s. if p s then (Inr (), f s) else (Inl err, s))"

definition unix_milli :: "(workspace, int) proc" where
  "unix_milli = act (\<lambda>s. (millis s, s))"

abbreviation err_no_rows :: go_error where "err_no_rows \<equiv> Sentinel ''sql: no rows in result set''"

definition unique_failed :: "string \<Rightarrow> go_error" where
  "unique_failed columns = Err (''UNIQUE constraint failed: '' @ columns)"

definition row_or_error :: "'r option \<Rightarrow> go_error + 'r" where
  "row_or_error r = (case r of Some x \<Rightarrow> Inr x | None \<Rightarrow> Inl err_no_rows)"

text \<open>\<open>UPDATE ... WHERE\<close>, \<open>DELETE ... WHERE\<close> and \<open>ORDER BY ... DESC\<close>.\<close>

definition update_where :: "('r \<Rightarrow> bool) \<Rightarrow> ('r \<Rightarrow> 'r) \<Rightarrow> 'r list \<Rightarrow> 'r list" where
  "update_where p f rows = map (\<lambda>r. if p r then f r else r) rows"

definition delete_where :: "('r \<Rightarrow> bool) \<Rightarrow> 'r list \<Rightarrow> 'r list" where
  "delete_where p rows = filter (\<lambda>r. \<not> p r) rows"

definition newest_first :: "('r \<Rightarrow> int) \<Rightarrow> 'r list \<Rightarrow> 'r list" where
  "newest_first time rows = sort_key (\<lambda>r. - time r) rows"

section \<open>Memory\<close>

definition SetMemory :: "MemoryEntry \<Rightarrow> (workspace, unit) call" where
  "SetMemory entry0 =
    seq unix_milli (\<lambda>now.
    let entry = entry0\<lparr>mem_CreatedAtMS := (if mem_CreatedAtMS entry0 = 0 then now else mem_CreatedAtMS entry0),
                       mem_UpdatedAtMS := now\<rparr>;
        same = (\<lambda>m. mem_WorkspaceID m = mem_WorkspaceID entry \<and> mem_Key m = mem_Key entry)
    in ws_exec (\<lambda>s.
      if list_ex same (memory s) then
        s\<lparr>memory := update_where same
            (\<lambda>m. m\<lparr>mem_Value := mem_Value entry, mem_UpdatedAtMS := mem_UpdatedAtMS entry,
                   mem_ExpiresAtMS := mem_ExpiresAtMS entry\<rparr>) (memory s)\<rparr>
      else s\<lparr>memory := memory s @ [entry]\<rparr>))"

definition GetMemory :: "string \<Rightarrow> string \<Rightarrow> (workspace, MemoryEntry) call" where
  "GetMemory workspaceID key = ws_query (\<lambda>s.
    row_or_error (List.find (\<lambda>m. mem_WorkspaceID m = workspaceID \<and> mem_Key m = key) (memory s)))"

definition DeleteMemory :: "string \<Rightarrow> string \<Rightarrow> (workspace, unit) call" where
  "DeleteMemory workspaceID key = ws_exec (\<lambda>s.
    s\<lparr>memory := delete_where (\<lambda>m. mem_WorkspaceID m = workspaceID \<and> mem_Key m = key) (memory s)\<rparr>)"

text \<open>The query has no \<open>ORDER BY\<close>: the order of the result is open.\<close>

definition ListMemory :: "string \<Rightarrow> (workspace, MemoryEntry multiset) call" where
  "ListMemory workspaceID = ws_query (\<lambda>s.
    Inr (mset (filter (\<lambda>m. mem_WorkspaceID m = workspaceID) (memory s))))"

section \<open>Documents\<close>

abbreviation revision_mismatch :: go_error where "revision_mismatch \<equiv> Err ''revision mismatch''"

text \<open>
  \<open>INSERT ... ON CONFLICT(id) DO UPDATE ... WHERE documents.revision = excluded.revision - 1\<close>,
  with the error of the code when no row is affected. The conflict looks at the ID alone.
\<close>

definition name_taken :: "workspace \<Rightarrow> string \<Rightarrow> string \<Rightarrow> string \<Rightarrow> bool" where
  "name_taken s i workspaceID name =
    list_ex (\<lambda>x. doc_ID x \<noteq> i \<and> doc_WorkspaceID x = workspaceID \<and> doc_Name x = name) (documents s)"

definition overwrite :: "Document \<Rightarrow> Document \<Rightarrow> Document" where
  "overwrite d x = x\<lparr>doc_Name := doc_Name d, doc_Content := doc_Content d, doc_Revision := doc_Revision d,
     doc_Tags := doc_Tags d, doc_Metadata := doc_Metadata d, doc_Archived := doc_Archived d,
     doc_UpdatedAtMS := doc_UpdatedAtMS d\<rparr>"

definition upsert_document :: "Document \<Rightarrow> (workspace, unit) call" where
  "upsert_document d = ws_statement (\<lambda>_ s.
    case List.find (\<lambda>x. doc_ID x = doc_ID d) (documents s) of
      None \<Rightarrow>
        if name_taken s (doc_ID d) (doc_WorkspaceID d) (doc_Name d)
        then (Inl (unique_failed ''documents.workspace_id, documents.name''), s)
        else (Inr (), s\<lparr>documents := documents s @ [d]\<rparr>)
    | Some x \<Rightarrow>
        if doc_Revision x \<noteq> doc_Revision d - 1 then (Inl revision_mismatch, s)
        else if name_taken s (doc_ID d) (doc_WorkspaceID x) (doc_Name d)
        then (Inl (unique_failed ''documents.workspace_id, documents.name''), s)
        else (Inr (), s\<lparr>documents := update_where (\<lambda>x. doc_ID x = doc_ID d) (overwrite d) (documents s)\<rparr>))"

definition current_revision :: "Document \<Rightarrow> (workspace, int) call" where
  "current_revision d = ws_query (\<lambda>s.
    case List.find (\<lambda>x. doc_ID x = doc_ID d \<and> doc_WorkspaceID x = doc_WorkspaceID d) (documents s) of
      Some x \<Rightarrow> Inr (doc_Revision x)
    | None \<Rightarrow> Inl err_no_rows)"

definition stamp_document :: "int \<Rightarrow> Document \<Rightarrow> Document" where
  "stamp_document now doc =
    doc\<lparr>doc_CreatedAtMS := (if doc_CreatedAtMS doc = 0 then now else doc_CreatedAtMS doc),
        doc_UpdatedAtMS := now,
        doc_Revision := (if doc_Revision doc = 0 then 1 else doc_Revision doc)\<rparr>"

definition WriteDocument :: "Document \<Rightarrow> (workspace, Document) call" where
  "WriteDocument doc0 =
    seq unix_milli (\<lambda>now.
    let doc = stamp_document now doc0;
        store = must (upsert_document doc) (\<lambda>_. Done (Inr doc))
    in if 1 < doc_Revision doc then
         seq (current_revision doc) (\<lambda>res.
           case res of
             Inr currentRev \<Rightarrow> if currentRev \<noteq> doc_Revision doc - 1 then Done (Inl revision_mismatch) else store
           | Inl _ \<Rightarrow> store)
       else store)"

definition GetDocument :: "string \<Rightarrow> string \<Rightarrow> (workspace, Document) call" where
  "GetDocument workspaceID i = ws_query (\<lambda>s.
    row_or_error (List.find (\<lambda>x. doc_WorkspaceID x = workspaceID \<and> doc_ID x = i) (documents s)))"

text \<open>The list leaves the contents out.\<close>

definition ListDocuments :: "string \<Rightarrow> (workspace, Document list) call" where
  "ListDocuments workspaceID = ws_query (\<lambda>s.
    Inr (map (\<lambda>x. x\<lparr>doc_Content := []\<rparr>) (newest_first doc_UpdatedAtMS
      (filter (\<lambda>x. doc_WorkspaceID x = workspaceID \<and> \<not> doc_Archived x) (documents s)))))"

text \<open>Reading a document, changing it and writing it with the next revision.\<close>

definition edit_document :: "string \<Rightarrow> string \<Rightarrow> (Document \<Rightarrow> Document) \<Rightarrow> (workspace, unit) call" where
  "edit_document workspaceID i f =
    must (GetDocument workspaceID i) (\<lambda>doc.
    must (WriteDocument ((f doc)\<lparr>doc_Revision := int64 (doc_Revision doc + 1)\<rparr>)) (\<lambda>_. Done (Inr ())))"

definition AddDocumentMetadata :: "string \<Rightarrow> string \<Rightarrow> metadata \<Rightarrow> (workspace, unit) call" where
  "AddDocumentMetadata workspaceID i metadata =
    edit_document workspaceID i (\<lambda>d. d\<lparr>doc_Metadata := doc_Metadata d ++ metadata\<rparr>)"

definition AppendDocument :: "string \<Rightarrow> string \<Rightarrow> string \<Rightarrow> (workspace, unit) call" where
  "AppendDocument workspaceID i content =
    edit_document workspaceID i (\<lambda>d. d\<lparr>doc_Content := doc_Content d @ content\<rparr>)"

definition RenameDocument :: "string \<Rightarrow> string \<Rightarrow> string \<Rightarrow> (workspace, unit) call" where
  "RenameDocument workspaceID i name = edit_document workspaceID i (\<lambda>d. d\<lparr>doc_Name := name\<rparr>)"

definition ArchiveDocument :: "string \<Rightarrow> string \<Rightarrow> bool \<Rightarrow> (workspace, unit) call" where
  "ArchiveDocument workspaceID i archived = edit_document workspaceID i (\<lambda>d. d\<lparr>doc_Archived := archived\<rparr>)"

definition ClearDocument :: "string \<Rightarrow> string \<Rightarrow> (workspace, unit) call" where
  "ClearDocument workspaceID i = edit_document workspaceID i (\<lambda>d. d\<lparr>doc_Content := []\<rparr>)"

definition DeleteDocument :: "string \<Rightarrow> string \<Rightarrow> (workspace, unit) call" where
  "DeleteDocument workspaceID i = ws_exec (\<lambda>s.
    s\<lparr>documents := delete_where (\<lambda>x. doc_WorkspaceID x = workspaceID \<and> doc_ID x = i) (documents s)\<rparr>)"

section \<open>Tasks\<close>

definition CreateTask :: "Task \<Rightarrow> (workspace, Task) call" where
  "CreateTask task0 =
    seq unix_milli (\<lambda>now.
    let task = task0\<lparr>tsk_CreatedAtMS := (if tsk_CreatedAtMS task0 = 0 then now else tsk_CreatedAtMS task0),
                     tsk_UpdatedAtMS := now,
                     tsk_Status := (if tsk_Status task0 = [] then TaskStatusOpen else tsk_Status task0)\<rparr>
    in ws_statement (\<lambda>_ s.
      if list_ex (\<lambda>x. tsk_ID x = tsk_ID task) (tasks s) then (Inl (unique_failed ''tasks.id''), s)
      else (Inr task, s\<lparr>tasks := tasks s @ [task]\<rparr>)))"

definition GetTask :: "string \<Rightarrow> string \<Rightarrow> (workspace, Task) call" where
  "GetTask workspaceID i = ws_query (\<lambda>s.
    row_or_error (List.find (\<lambda>x. tsk_WorkspaceID x = workspaceID \<and> tsk_ID x = i) (tasks s)))"

definition set_task :: "Task \<Rightarrow> Task \<Rightarrow> Task" where
  "set_task t x = x\<lparr>tsk_Title := tsk_Title t, tsk_Body := tsk_Body t, tsk_Status := tsk_Status t,
     tsk_Tags := tsk_Tags t, tsk_Metadata := tsk_Metadata t, tsk_LockedBy := tsk_LockedBy t,
     tsk_BlockerIDs := tsk_BlockerIDs t, tsk_UpdatedAtMS := tsk_UpdatedAtMS t,
     tsk_CompletedAtMS := tsk_CompletedAtMS t\<rparr>"

definition UpdateTask :: "Task \<Rightarrow> (workspace, Task) call" where
  "UpdateTask task0 =
    seq unix_milli (\<lambda>now.
    let task = task0\<lparr>tsk_UpdatedAtMS := now,
                     tsk_CompletedAtMS :=
                       (if tsk_Status task0 = TaskStatusCompleted \<and> tsk_CompletedAtMS task0 = 0
                        then now else tsk_CompletedAtMS task0)\<rparr>;
        same = (\<lambda>x. tsk_ID x = tsk_ID task \<and> tsk_WorkspaceID x = tsk_WorkspaceID task)
    in must (ws_require err_no_rows (\<lambda>s. list_ex same (tasks s))
         (\<lambda>s. s\<lparr>tasks := update_where same (set_task task) (tasks s)\<rparr>))
       (\<lambda>_. Done (Inr task)))"

definition ListTasks :: "string \<Rightarrow> (workspace, Task list) call" where
  "ListTasks workspaceID = ws_query (\<lambda>s.
    Inr (newest_first tsk_UpdatedAtMS (filter (\<lambda>x. tsk_WorkspaceID x = workspaceID) (tasks s))))"

text \<open>Reading a task, changing it and writing it back; \<open>None\<close> leaves it as it is.\<close>

definition edit_task :: "string \<Rightarrow> string \<Rightarrow> (Task \<Rightarrow> Task option) \<Rightarrow> (workspace, unit) call" where
  "edit_task workspaceID i f =
    must (GetTask workspaceID i) (\<lambda>task.
    case f task of
      None \<Rightarrow> Done (Inr ())
    | Some task' \<Rightarrow> must (UpdateTask task') (\<lambda>_. Done (Inr ())))"

definition AddTaskMetadata :: "string \<Rightarrow> string \<Rightarrow> metadata \<Rightarrow> (workspace, unit) call" where
  "AddTaskMetadata workspaceID i metadata =
    edit_task workspaceID i (\<lambda>t. Some (t\<lparr>tsk_Metadata := tsk_Metadata t ++ metadata\<rparr>))"

definition AddTaskTag :: "string \<Rightarrow> string \<Rightarrow> string \<Rightarrow> (workspace, unit) call" where
  "AddTaskTag workspaceID i tag = edit_task workspaceID i (\<lambda>t.
    if tag \<in> set (tsk_Tags t) then None else Some (t\<lparr>tsk_Tags := tsk_Tags t @ [tag]\<rparr>))"

definition RemoveTaskTag :: "string \<Rightarrow> string \<Rightarrow> string \<Rightarrow> (workspace, unit) call" where
  "RemoveTaskTag workspaceID i tag = edit_task workspaceID i (\<lambda>t.
    Some (t\<lparr>tsk_Tags := filter (\<lambda>x. x \<noteq> tag) (tsk_Tags t)\<rparr>))"

definition reopen :: "string list \<Rightarrow> TaskStatus \<Rightarrow> TaskStatus" where
  "reopen blockers status =
    (if blockers = [] \<and> status = TaskStatusBlocked then TaskStatusOpen else status)"

definition SetTaskBlockers :: "string \<Rightarrow> string \<Rightarrow> string list \<Rightarrow> (workspace, unit) call" where
  "SetTaskBlockers workspaceID i blockerIDs = edit_task workspaceID i (\<lambda>t.
    Some (t\<lparr>tsk_BlockerIDs := blockerIDs,
            tsk_Status := (if blockerIDs \<noteq> [] then TaskStatusBlocked
                           else reopen blockerIDs (tsk_Status t))\<rparr>))"

definition AddTaskBlocker :: "string \<Rightarrow> string \<Rightarrow> string \<Rightarrow> (workspace, unit) call" where
  "AddTaskBlocker workspaceID i blockerID = edit_task workspaceID i (\<lambda>t.
    if blockerID \<in> set (tsk_BlockerIDs t) then None
    else Some (t\<lparr>tsk_BlockerIDs := tsk_BlockerIDs t @ [blockerID], tsk_Status := TaskStatusBlocked\<rparr>))"

definition RemoveTaskBlocker :: "string \<Rightarrow> string \<Rightarrow> string \<Rightarrow> (workspace, unit) call" where
  "RemoveTaskBlocker workspaceID i blockerID = edit_task workspaceID i (\<lambda>t.
    let newBlockers = filter (\<lambda>b. b \<noteq> blockerID) (tsk_BlockerIDs t)
    in Some (t\<lparr>tsk_BlockerIDs := newBlockers, tsk_Status := reopen newBlockers (tsk_Status t)\<rparr>))"

definition LockTask :: "string \<Rightarrow> string \<Rightarrow> string \<Rightarrow> (workspace, unit) call" where
  "LockTask workspaceID i actorID =
    (if trim_space actorID = [] then Done (Inl (Err ''actor_id is required''))
     else seq unix_milli (\<lambda>now.
       let free = (\<lambda>x. tsk_WorkspaceID x = workspaceID \<and> tsk_ID x = i \<and>
                       (tsk_LockedBy x = [] \<or> tsk_LockedBy x = actorID))
       in ws_require (Err ''task is already locked by someone else'') (\<lambda>s. list_ex free (tasks s))
         (\<lambda>s. s\<lparr>tasks := update_where free
            (\<lambda>x. x\<lparr>tsk_LockedBy := actorID, tsk_UpdatedAtMS := now\<rparr>) (tasks s)\<rparr>)))"

definition UnlockTask :: "string \<Rightarrow> string \<Rightarrow> string \<Rightarrow> (workspace, unit) call" where
  "UnlockTask workspaceID i actorID =
    (if trim_space actorID = [] then Done (Inl (Err ''actor_id is required''))
     else seq unix_milli (\<lambda>now.
       let mine = (\<lambda>x. tsk_WorkspaceID x = workspaceID \<and> tsk_ID x = i \<and> tsk_LockedBy x = actorID)
       in ws_require (Err ''task is locked by another actor'') (\<lambda>s. list_ex mine (tasks s))
         (\<lambda>s. s\<lparr>tasks := update_where mine
            (\<lambda>x. x\<lparr>tsk_LockedBy := [], tsk_UpdatedAtMS := now\<rparr>) (tasks s)\<rparr>)))"

text \<open>The comments go with their task only where foreign keys are enforced.\<close>

definition DeleteTask :: "string \<Rightarrow> string \<Rightarrow> (workspace, unit) call" where
  "DeleteTask workspaceID i = ws_statement (\<lambda>fk s.
    let gone = (\<lambda>x. tsk_WorkspaceID x = workspaceID \<and> tsk_ID x = i) in
    (Inr (), s\<lparr>tasks := delete_where gone (tasks s),
               comments := (if fk \<and> list_ex gone (tasks s)
                            then delete_where (\<lambda>c. cmt_TaskID c = i) (comments s) else comments s)\<rparr>))"

section \<open>Comments\<close>

definition CreateTaskComment :: "TaskComment \<Rightarrow> (workspace, TaskComment) call" where
  "CreateTaskComment comment0 =
    seq unix_milli (\<lambda>now.
    let comment = comment0\<lparr>cmt_CreatedAtMS :=
          (if cmt_CreatedAtMS comment0 = 0 then now else cmt_CreatedAtMS comment0)\<rparr>
    in ws_statement (\<lambda>fk s.
      if list_ex (\<lambda>x. cmt_ID x = cmt_ID comment) (comments s)
      then (Inl (unique_failed ''task_comments.id''), s)
      else if fk \<and> \<not> list_ex (\<lambda>x. tsk_ID x = cmt_TaskID comment) (tasks s)
      then (Inl (Err ''FOREIGN KEY constraint failed''), s)
      else (Inr comment, s\<lparr>comments := comments s @ [comment]\<rparr>)))"

definition UpdateTaskComment :: "string \<Rightarrow> string \<Rightarrow> (workspace, unit) call" where
  "UpdateTaskComment i body = ws_exec (\<lambda>s.
    s\<lparr>comments := update_where (\<lambda>c. cmt_ID c = i) (\<lambda>c. c\<lparr>cmt_Body := body\<rparr>) (comments s)\<rparr>)"

definition DeleteTaskComment :: "string \<Rightarrow> (workspace, unit) call" where
  "DeleteTaskComment i = ws_exec (\<lambda>s.
    s\<lparr>comments := delete_where (\<lambda>c. cmt_ID c = i) (comments s)\<rparr>)"

definition ListTaskComments :: "string \<Rightarrow> (workspace, TaskComment list) call" where
  "ListTaskComments taskID = ws_query (\<lambda>s.
    Inr (sort_key cmt_CreatedAtMS (filter (\<lambda>c. cmt_TaskID c = taskID) (comments s))))"

section \<open>Wakeups\<close>

text \<open>The insert leaves the two columns of a pause at their default.\<close>

definition SetWakeup :: "Wakeup \<Rightarrow> (workspace, unit) call" where
  "SetWakeup wakeup0 =
    seq unix_milli (\<lambda>now.
    let wakeup = wakeup0\<lparr>wak_CreatedAtMS := (if wak_CreatedAtMS wakeup0 = 0 then now else wak_CreatedAtMS wakeup0),
                         wak_PausedAtMS := 0, wak_PausedRemainingMS := 0\<rparr>
    in ws_statement (\<lambda>_ s.
      if list_ex (\<lambda>x. wak_ID x = wak_ID wakeup) (wakeups s) then (Inl (unique_failed ''wakeups.id''), s)
      else (Inr (), s\<lparr>wakeups := wakeups s @ [wakeup]\<rparr>)))"

text \<open>The query reads neither of the columns of a pause.\<close>

definition ListPendingWakeups :: "string \<Rightarrow> (workspace, Wakeup list) call" where
  "ListPendingWakeups workspaceID = ws_query (\<lambda>s.
    Inr (map (\<lambda>x. x\<lparr>wak_PausedAtMS := 0, wak_PausedRemainingMS := 0\<rparr>) (sort_key wak_DueAtMS
      (filter (\<lambda>x. wak_WorkspaceID x = workspaceID \<and> wak_FiredAtMS x = 0 \<and> wak_CancelledAtMS x = 0)
        (wakeups s)))))"

definition GetWakeup :: "string \<Rightarrow> string \<Rightarrow> (workspace, Wakeup) call" where
  "GetWakeup workspaceID i = ws_query (\<lambda>s.
    row_or_error (List.find (\<lambda>x. wak_WorkspaceID x = workspaceID \<and> wak_ID x = i) (wakeups s)))"

definition update_wakeup :: "string \<Rightarrow> string \<Rightarrow> (Wakeup \<Rightarrow> bool) \<Rightarrow> (Wakeup \<Rightarrow> Wakeup) \<Rightarrow> (workspace, unit) call" where
  "update_wakeup workspaceID i p f = ws_exec (\<lambda>s.
    s\<lparr>wakeups := update_where (\<lambda>x. wak_WorkspaceID x = workspaceID \<and> wak_ID x = i \<and> p x) f (wakeups s)\<rparr>)"

definition CancelWakeup :: "string \<Rightarrow> string \<Rightarrow> (workspace, unit) call" where
  "CancelWakeup workspaceID i =
    seq unix_milli (\<lambda>now.
    update_wakeup workspaceID i (\<lambda>x. wak_CancelledAtMS x = 0 \<and> wak_FiredAtMS x = 0)
      (\<lambda>x. x\<lparr>wak_CancelledAtMS := now\<rparr>))"

definition PauseWakeup :: "string \<Rightarrow> string \<Rightarrow> (workspace, unit) call" where
  "PauseWakeup workspaceID i =
    seq unix_milli (\<lambda>now.
    must (GetWakeup workspaceID i) (\<lambda>w.
    if wak_FiredAtMS w \<noteq> 0 \<or> wak_CancelledAtMS w \<noteq> 0 \<or> wak_PausedAtMS w \<noteq> 0
    then Done (Inl (Err ''wakeup cannot be paused in its current state''))
    else let remaining = int64 (wak_DueAtMS w - now) in
      update_wakeup workspaceID i (\<lambda>x. True)
        (\<lambda>x. x\<lparr>wak_PausedAtMS := now, wak_PausedRemainingMS := max remaining 0\<rparr>)))"

definition ResumeWakeup :: "string \<Rightarrow> string \<Rightarrow> (workspace, unit) call" where
  "ResumeWakeup workspaceID i =
    seq unix_milli (\<lambda>now.
    must (GetWakeup workspaceID i) (\<lambda>w.
    if wak_PausedAtMS w = 0 then Done (Inl (Err ''wakeup is not paused''))
    else update_wakeup workspaceID i (\<lambda>x. True)
        (\<lambda>x. x\<lparr>wak_PausedAtMS := 0, wak_PausedRemainingMS := 0,
               wak_DueAtMS := int64 (now + wak_PausedRemainingMS w)\<rparr>)))"

definition ResetWakeup :: "string \<Rightarrow> string \<Rightarrow> int \<Rightarrow> (workspace, unit) call" where
  "ResetWakeup workspaceID i dueAtMS = update_wakeup workspaceID i (\<lambda>x. True)
    (\<lambda>x. x\<lparr>wak_DueAtMS := dueAtMS, wak_FiredAtMS := 0, wak_CancelledAtMS := 0,
           wak_PausedAtMS := 0, wak_PausedRemainingMS := 0\<rparr>)"

section \<open>Leases\<close>

definition lease_key :: "Lease \<Rightarrow> string \<times> string" where
  "lease_key x = (lea_WorkspaceID x, lea_LockKey x)"

text \<open>First the expired lease is removed, whether or not that works.\<close>

definition AcquireLease :: "Lease \<Rightarrow> (workspace, bool) call" where
  "AcquireLease lease =
    seq unix_milli (\<lambda>now.
    also_do (ws_exec (\<lambda>s.
      s\<lparr>leases := delete_where (\<lambda>x. lease_key x = lease_key lease \<and> lea_ExpiresAtMS x < now) (leases s)\<rparr>))
    (ws_statement (\<lambda>_ s.
      if list_ex (\<lambda>x. lease_key x = lease_key lease) (leases s) then (Inr False, s)
      else (Inr True, s\<lparr>leases := leases s @ [lease]\<rparr>))))"

definition ReleaseLease :: "string \<Rightarrow> string \<Rightarrow> string \<Rightarrow> (workspace, unit) call" where
  "ReleaseLease workspaceID lockKey ownerID = ws_exec (\<lambda>s.
    s\<lparr>leases := delete_where (\<lambda>x. lease_key x = (workspaceID, lockKey) \<and> lea_OwnerID x = ownerID) (leases s)\<rparr>)"

text \<open>The clock is read after the row.\<close>

definition GetLease :: "string \<Rightarrow> string \<Rightarrow> (workspace, Lease option) call" where
  "GetLease workspaceID lockKey =
    must (ws_query (\<lambda>s. Inr (List.find (\<lambda>x. lease_key x = (workspaceID, lockKey)) (leases s)))) (\<lambda>row.
      case row of
        None \<Rightarrow> Done (Inr None)
      | Some lease \<Rightarrow> seq unix_milli (\<lambda>now.
          Done (Inr (if lea_ExpiresAtMS lease < now then None else Some lease))))"

definition ResetLease :: "string \<Rightarrow> string \<Rightarrow> (workspace, unit) call" where
  "ResetLease workspaceID lockKey = ws_exec (\<lambda>s.
    s\<lparr>leases := delete_where (\<lambda>x. lease_key x = (workspaceID, lockKey)) (leases s)\<rparr>)"

section \<open>Statements on their own and under an invariant\<close>

lemma keeps_ws_statement [keeps_intros]:
  assumes "\<And>s cs. I s \<Longrightarrow> I (s\<lparr>conns := cs\<rparr>)" "\<And>fk s. I s \<Longrightarrow> I (snd (f fk s))"
  shows "keeps I (ws_statement f)"
  unfolding ws_statement_def
  by (rule keeps_act) (auto intro!: assms split: list.split option.split)

lemma inert_ws_statement [inert_intros]:
  assumes "\<And>hs s cs. J hs s \<Longrightarrow> J hs (s\<lparr>conns := cs\<rparr>)" "\<And>hs fk s. J hs s \<Longrightarrow> J hs (snd (f fk s))"
  shows "inert J (ws_statement f)"
  unfolding ws_statement_def
  by (rule inert_act) (auto intro!: assms split: list.split option.split)

lemma run_ws_statement [run_simps]: "conns s = [] \<Longrightarrow> run (ws_statement f) s = f True s"
  by (simp add: ws_statement_def run_simps)

lemma run_ws_query [run_simps]: "conns s = [] \<Longrightarrow> run (ws_query f) s = (f s, s)"
  by (simp add: ws_query_def run_simps)

lemma run_ws_exec [run_simps]: "conns s = [] \<Longrightarrow> run (ws_exec f) s = (Inr (), f s)"
  by (simp add: ws_exec_def run_simps)

lemma run_ws_require [run_simps]:
  "conns s = [] \<Longrightarrow> run (ws_require err p f) s = (if p s then (Inr (), f s) else (Inl err, s))"
  by (simp add: ws_require_def run_simps)

lemma run_unix_milli [run_simps]: "run unix_milli s = (millis s, s)"
  by (simp add: unix_milli_def run_simps)

end
