(* ===== verification/WorkspaceSpec.thy ===== *)
theory WorkspaceSpec
  imports Workspace
begin

text \<open>
  What the workspace store guarantees to clients that use it at the same time: a lease has one
  holder, edits of a document take effect one after the other and none is lost; and what it does
  not guarantee: the lock of a task can be lost, the ID of a document reaches into other
  workspaces, a paused wakeup is still listed as pending.
\<close>

section \<open>The operations, table by table\<close>

definition discard :: "(workspace, 'a) proc \<Rightarrow> (workspace, unit) proc" where
  "discard p = also_do p (Done ())"

inductive memory_operation :: "(workspace, unit) proc \<Rightarrow> bool" where
  "memory_operation (discard (SetMemory entry))"
| "memory_operation (discard (GetMemory w k))"
| "memory_operation (discard (DeleteMemory w k))"
| "memory_operation (discard (ListMemory w))"

inductive document_operation :: "(workspace, unit) proc \<Rightarrow> bool" where
  "document_operation (discard (WriteDocument d))"
| "document_operation (discard (GetDocument w i))"
| "document_operation (discard (ListDocuments w))"
| "document_operation (discard (AddDocumentMetadata w i md))"
| "document_operation (discard (AppendDocument w i c))"
| "document_operation (discard (RenameDocument w i n))"
| "document_operation (discard (ArchiveDocument w i b))"
| "document_operation (discard (ClearDocument w i))"
| "document_operation (discard (DeleteDocument w i))"

inductive task_operation :: "(workspace, unit) proc \<Rightarrow> bool" where
  "task_operation (discard (CreateTask t))"
| "task_operation (discard (GetTask w i))"
| "task_operation (discard (UpdateTask t))"
| "task_operation (discard (ListTasks w))"
| "task_operation (discard (AddTaskMetadata w i md))"
| "task_operation (discard (AddTaskTag w i tag))"
| "task_operation (discard (RemoveTaskTag w i tag))"
| "task_operation (discard (SetTaskBlockers w i bs))"
| "task_operation (discard (AddTaskBlocker w i b))"
| "task_operation (discard (RemoveTaskBlocker w i b))"
| "task_operation (discard (LockTask w i a))"
| "task_operation (discard (UnlockTask w i a))"
| "task_operation (discard (DeleteTask w i))"
| "task_operation (discard (CreateTaskComment c))"
| "task_operation (discard (UpdateTaskComment j body))"
| "task_operation (discard (DeleteTaskComment j))"
| "task_operation (discard (ListTaskComments i))"

inductive wakeup_operation :: "(workspace, unit) proc \<Rightarrow> bool" where
  "wakeup_operation (discard (SetWakeup x))"
| "wakeup_operation (discard (ListPendingWakeups w))"
| "wakeup_operation (discard (GetWakeup w i))"
| "wakeup_operation (discard (CancelWakeup w i))"
| "wakeup_operation (discard (PauseWakeup w i))"
| "wakeup_operation (discard (ResumeWakeup w i))"
| "wakeup_operation (discard (ResetWakeup w i t))"

inductive lease_operation :: "(workspace, unit) proc \<Rightarrow> bool" where
  "lease_operation (discard (AcquireLease l))"
| "lease_operation (discard (ReleaseLease w k ow))"
| "lease_operation (discard (GetLease w k))"
| "lease_operation (discard (ResetLease w k))"

lemma inert_unix_milli [inert_intros]: "inert J unix_milli"
  unfolding unix_milli_def by (rule inert_act) simp

lemma inert_query [inert_intros]:
  "(\<And>hs s cs. J hs s \<Longrightarrow> J hs (s\<lparr>conns := cs\<rparr>)) \<Longrightarrow> inert J (ws_query f)"
  unfolding ws_query_def by (intro inert_intros) simp_all

lemma inert_exec [inert_intros]:
  "(\<And>hs s cs. J hs s \<Longrightarrow> J hs (s\<lparr>conns := cs\<rparr>)) \<Longrightarrow> (\<And>hs s. J hs s \<Longrightarrow> J hs (f s)) \<Longrightarrow> inert J (ws_exec f)"
  unfolding ws_exec_def by (intro inert_intros) simp_all

lemma inert_require [inert_intros]:
  "(\<And>hs s cs. J hs s \<Longrightarrow> J hs (s\<lparr>conns := cs\<rparr>)) \<Longrightarrow> (\<And>hs s. J hs s \<Longrightarrow> J hs (f s)) \<Longrightarrow>
   inert J (ws_require err p f)"
  unfolding ws_require_def by (intro inert_intros) simp_all

text \<open>What follows on a query may rely on its result.\<close>

lemma inert_query_must:
  assumes "\<And>hs s cs. J hs s \<Longrightarrow> J hs (s\<lparr>conns := cs\<rparr>)" "\<And>s a. f s = Inr a \<Longrightarrow> inert J (k a)"
  shows "inert J (must (ws_query f) k)"
  unfolding must_def ws_query_def ws_statement_def act_def seq.simps
  by (rule inert_Atom) (use assms in \<open>auto intro: inert_Done split: list.split option.split sum.split\<close>)

text \<open>Operations on one table do not touch what does not depend on that table.\<close>

lemma inert_memory_operation:
  assumes "memory_operation p" "\<And>hs s cs. J hs s \<Longrightarrow> J hs (s\<lparr>conns := cs\<rparr>)"
    "\<And>hs s x. J hs s \<Longrightarrow> J hs (s\<lparr>memory := x\<rparr>)"
  shows "inert J p"
  using assms(1) by cases (auto simp: discard_def SetMemory_def GetMemory_def DeleteMemory_def ListMemory_def
      Let_def intro!: inert_intros assms(2,3))

lemma inert_document_operation:
  assumes "document_operation p" "\<And>hs s cs. J hs s \<Longrightarrow> J hs (s\<lparr>conns := cs\<rparr>)"
    "\<And>hs s x. J hs s \<Longrightarrow> J hs (s\<lparr>documents := x\<rparr>)"
  shows "inert J p"
proof -
  have writes: "inert J (WriteDocument d)" for d
    unfolding WriteDocument_def upsert_document_def current_revision_def Let_def
    by (intro inert_intros assms(2)) (auto split: option.split intro: assms)
  then have edit: "inert J (edit_document w i f)" for w i f
    unfolding edit_document_def GetDocument_def by (intro inert_intros assms(2))
  from assms(1) show ?thesis
    by cases (auto simp: discard_def GetDocument_def ListDocuments_def AddDocumentMetadata_def AppendDocument_def
        RenameDocument_def ArchiveDocument_def ClearDocument_def DeleteDocument_def
        intro!: inert_intros writes edit assms(2,3))
qed

lemma inert_task_operation:
  assumes "task_operation p" "\<And>hs s cs. J hs s \<Longrightarrow> J hs (s\<lparr>conns := cs\<rparr>)"
    "\<And>hs s x. J hs s \<Longrightarrow> J hs (s\<lparr>tasks := x\<rparr>)" "\<And>hs s x. J hs s \<Longrightarrow> J hs (s\<lparr>comments := x\<rparr>)"
  shows "inert J p"
proof -
  have update: "inert J (UpdateTask t)" for t
    unfolding UpdateTask_def Let_def by (intro inert_intros assms)
  have edit: "inert J (edit_task w i f)" for w i f
    unfolding edit_task_def GetTask_def by (intro inert_intros update assms(2))
  from assms(1) show ?thesis
    by cases (auto simp: discard_def CreateTask_def GetTask_def ListTasks_def AddTaskMetadata_def AddTaskTag_def
        RemoveTaskTag_def SetTaskBlockers_def AddTaskBlocker_def RemoveTaskBlocker_def LockTask_def UnlockTask_def
        DeleteTask_def CreateTaskComment_def UpdateTaskComment_def DeleteTaskComment_def ListTaskComments_def Let_def
        intro!: inert_intros update edit assms(2-4))
qed

lemma inert_wakeup_operation:
  assumes "wakeup_operation p" "\<And>hs s cs. J hs s \<Longrightarrow> J hs (s\<lparr>conns := cs\<rparr>)"
    "\<And>hs s x. J hs s \<Longrightarrow> J hs (s\<lparr>wakeups := x\<rparr>)"
  shows "inert J p"
  using assms(1) by cases (auto simp: discard_def SetWakeup_def ListPendingWakeups_def GetWakeup_def CancelWakeup_def
      PauseWakeup_def ResumeWakeup_def ResetWakeup_def update_wakeup_def Let_def intro!: inert_intros assms(2,3))

lemma inert_lease_operation:
  assumes "lease_operation p" "\<And>hs s cs. J hs s \<Longrightarrow> J hs (s\<lparr>conns := cs\<rparr>)"
    "\<And>hs s x. J hs s \<Longrightarrow> J hs (s\<lparr>leases := x\<rparr>)"
  shows "inert J p"
  using assms(1) by cases (auto simp: discard_def AcquireLease_def ReleaseLease_def GetLease_def ResetLease_def Let_def
      intro!: inert_intros assms(2,3))

text \<open>The first action of a process that goes on with \<open>k\<close>.\<close>

lemma linearizes_millis:
  assumes "\<And>later s. J (hs @ later) s \<Longrightarrow> settled J eff (hs @ later) (k (millis s)) s"
  shows "linearizes J eff hs (seq unix_milli k)"
  unfolding unix_milli_def by (rule linearizes_act) (use assms in simp)

lemma linearizes_statement:
  assumes "\<And>hs s cs. J hs s \<Longrightarrow> J hs (s\<lparr>conns := cs\<rparr>)"
    "\<And>later s m. J (hs @ later) s \<Longrightarrow> settled J eff (hs @ later) (k (Inl (Err m))) s"
    "\<And>later s fk. J (hs @ later) s \<Longrightarrow> settled J eff (hs @ later) (k (fst (f fk s))) (snd (f fk s))"
  shows "linearizes J eff hs (seq (ws_statement f) k)"
  unfolding ws_statement_def
  by (rule linearizes_act) (use assms in \<open>auto split: list.split option.split\<close>)

lemma finished_statement [simp]:
  "finished eff (seq unix_milli k) = []" "finished eff (seq (ws_statement f) k1) = []"
  "finished eff (seq (ws_exec g) k2) = []" "finished eff (seq (ws_query h) k3) = []"
  by (simp_all add: unix_milli_def ws_statement_def ws_exec_def ws_query_def act_def)

section \<open>Leases\<close>

definition lease_held :: "Lease \<Rightarrow> workspace \<Rightarrow> bool" where
  "lease_held l s \<longleftrightarrow> l \<in> set (leases s) \<and> millis s \<le> lea_ExpiresAtMS l"

lemma lease_held_update [simp]:
  "lease_held l (s\<lparr>conns := cs\<rparr>) = lease_held l s"
  "lease_held l (s\<lparr>memory := ms\<rparr>) = lease_held l s"
  "lease_held l (s\<lparr>documents := ds\<rparr>) = lease_held l s"
  "lease_held l (s\<lparr>tasks := ts\<rparr>) = lease_held l s"
  "lease_held l (s\<lparr>comments := ks\<rparr>) = lease_held l s"
  "lease_held l (s\<lparr>wakeups := xs\<rparr>) = lease_held l s"
  by (simp_all add: lease_held_def)

text \<open>
  What others may do while \<open>l\<close> is held: everything but releasing it in the name of its holder,
  resetting its key, and waiting until it has expired. A process that tries to get the same lease
  returns whether it got it, the others return False.
\<close>

inductive rival :: "Lease \<Rightarrow> (workspace, bool) proc \<Rightarrow> bool" for l where
  same_lease: "rival l (seq (AcquireLease l') (\<lambda>res. Done (res = Inr True)))" if "lease_key l' = lease_key l"
| other_lease: "rival l (also_do (AcquireLease l') (Done False))" if "lease_key l' \<noteq> lease_key l"
| release: "rival l (also_do (ReleaseLease w k ow) (Done False))" if "(w, k) \<noteq> lease_key l \<or> ow \<noteq> lea_OwnerID l"
| get: "rival l (also_do (GetLease w k) (Done False))"
| reset: "rival l (also_do (ResetLease w k) (Done False))" if "(w, k) \<noteq> lease_key l"
| other: "rival l (also_do p (Done False))"
    if "memory_operation p \<or> document_operation p \<or> task_operation p \<or> wakeup_operation p"
| wait: "rival l (act (\<lambda>s. (False, s\<lparr>millis := max (millis s) t\<rparr>)))" if "t \<le> lea_ExpiresAtMS l"


abbreviation won :: "bool \<Rightarrow> unit list" where "won b \<equiv> if b then [()] else []"

definition undisputed :: "Lease \<Rightarrow> unit list \<Rightarrow> workspace \<Rightarrow> bool" where
  "undisputed l hs s \<longleftrightarrow> hs = [] \<and> lease_held l s"

lemma undisputed_conns: "undisputed l hs s \<Longrightarrow> undisputed l hs (s\<lparr>conns := cs\<rparr>)"
  by (simp add: undisputed_def)

lemma linearizes_same_lease:
  assumes key: "lease_key l' = lease_key l"
  shows "linearizes (undisputed l) won [] (seq (AcquireLease l') (\<lambda>res. Done (res = Inr True)))"
proof -
  let ?insert = "ws_statement (\<lambda>_ s.
      if list_ex (\<lambda>x. lease_key x = lease_key l') (leases s) then (Inr False, s)
      else (Inr True, s\<lparr>leases := leases s @ [l']\<rparr>))"
  let ?delete = "\<lambda>now. ws_exec (\<lambda>s. s\<lparr>leases := delete_where
      (\<lambda>x. lease_key x = lease_key l' \<and> lea_ExpiresAtMS x < now) (leases s)\<rparr>)"
  have "list_ex (\<lambda>x. lease_key x = lease_key l') (leases s)" if "lease_held l s" for s
    using that key by (auto simp: lease_held_def list_ex_iff)
  then have insert: "linearizes (undisputed l) won [] (seq ?insert (\<lambda>res. Done (res = Inr True)))"
    by (intro linearizes_statement undisputed_conns) (auto simp: undisputed_def intro!: settled_Done)
  have "lease_held l (s\<lparr>leases := delete_where (\<lambda>x. lease_key x = lease_key l' \<and> lea_ExpiresAtMS x < now) (leases s)\<rparr>)"
    if "lease_held l s" "now \<le> lea_ExpiresAtMS l" for s now
    using that by (auto simp: lease_held_def delete_where_def)
  then have delete: "linearizes (undisputed l) won [] (seq (?delete now) (\<lambda>_. seq ?insert (\<lambda>res. Done (res = Inr True))))"
    if "now \<le> lea_ExpiresAtMS l" for now
    unfolding ws_exec_def using that insert
    by (intro linearizes_statement undisputed_conns)
      (auto simp: undisputed_def settled_def intro: linearizes_later)
  show ?thesis
    unfolding AcquireLease_def also_do_def seq_assoc
    by (rule linearizes_millis) (auto simp: undisputed_def lease_held_def settled_def intro: delete)
qed

lemma linearizes_rival:
  assumes "rival l p"
  shows "linearizes (undisputed l) won [] p \<and> finished won p = []"
  using assms
proof cases
  case (same_lease l')
  then show ?thesis using linearizes_same_lease by (simp add: AcquireLease_def seq_assoc)
next
  case (wait t)
  then show ?thesis by (auto simp: act_def undisputed_def lease_held_def intro!: linearizes_Atom linearizes_Done)
next
  case (other q)
  then have "inert (undisputed l) q"
    by (auto intro: inert_memory_operation inert_document_operation inert_task_operation inert_wakeup_operation
        simp: undisputed_def)
  with other show ?thesis using linearizes_inert [of _ _ won False] by auto
qed (auto intro!: linearizes_inert inert_intros
    simp: AcquireLease_def ReleaseLease_def GetLease_def ResetLease_def undisputed_def lease_held_def delete_where_def)

text \<open>
  C6. A lease excludes others: once it has been acquired, in every interleaving of the operations of
  the store, whatever statements fail, it stays in the table and no attempt to acquire the same key
  succeeds, until its holder releases it, somebody resets the key, or it expires.
\<close>

theorem lease_exclusive:
  assumes "run (AcquireLease l) s0 = (Inr True, s1)" "millis s0 \<le> lea_ExpiresAtMS l"
    "reachable (\<lambda>_. rival l) s1 (ps, s)"
  shows "lease_held l s \<and> Done True \<notin> set ps"
proof -
  have "undisputed l [] s1"
    using assms(1,2) by (auto simp: AcquireLease_def ws_exec_def ws_statement_def run_simps undisputed_def
        lease_held_def split: list.splits option.splits if_splits)
  from reachable_linearizes [where J = "undisputed l" and eff = won, OF assms(3) this] linearizes_rival obtain hs where
    "undisputed l hs s" "mset hs = mset (concat (map (finished won) ps))" by blast
  then show ?thesis by (auto simp: undisputed_def)
qed


section \<open>Documents\<close>

text \<open>
  The edits of a document as clients see them, and what each does to the document. \<open>Overwrite\<close> is a
  \<open>WriteDocument\<close> of the client's own.
\<close>

datatype edit = Append string | Rename string | Archive bool | Clear | AddMetadata metadata | Overwrite Document

primrec change :: "edit \<Rightarrow> Document \<Rightarrow> Document" where
  "change (Append c) d = d\<lparr>doc_Content := doc_Content d @ c\<rparr>"
| "change (Rename n) d = d\<lparr>doc_Name := n\<rparr>"
| "change (Archive b) d = d\<lparr>doc_Archived := b\<rparr>"
| "change Clear d = d\<lparr>doc_Content := []\<rparr>"
| "change (AddMetadata md) d = d\<lparr>doc_Metadata := doc_Metadata d ++ md\<rparr>"
| "change (Overwrite d') d = overwrite d' d"

definition edited :: "edit \<Rightarrow> Document \<Rightarrow> Document" where
  "edited e d = (change e d)\<lparr>doc_Revision := doc_Revision d + 1, doc_UpdatedAtMS := 0\<rparr>"

primrec edit_call :: "string \<Rightarrow> string \<Rightarrow> edit \<Rightarrow> (workspace, unit) call" where
  "edit_call w i (Append c) = AppendDocument w i c"
| "edit_call w i (Rename n) = RenameDocument w i n"
| "edit_call w i (Archive b) = ArchiveDocument w i b"
| "edit_call w i Clear = ClearDocument w i"
| "edit_call w i (AddMetadata md) = AddDocumentMetadata w i md"
| "edit_call w i (Overwrite d) = must (WriteDocument (d\<lparr>doc_ID := i\<rparr>)) (\<lambda>_. Done (Inr ()))"

primrec int64_edit :: "edit \<Rightarrow> bool" where
  "int64_edit (Append c) = True"
| "int64_edit (Rename n) = True"
| "int64_edit (Archive b) = True"
| "int64_edit Clear = True"
| "int64_edit (AddMetadata md) = True"
| "int64_edit (Overwrite d) = (doc_Revision d < 2 ^ 63)"

text \<open>
  Clients of one document: each edits it, and reports the edit when the store reports success, or
  does something else with the store than to delete it.
\<close>

inductive document_client :: "string \<Rightarrow> string \<Rightarrow> (workspace, edit option) proc \<Rightarrow> bool" for w i where
  edit: "document_client w i (seq (edit_call w i e) (\<lambda>res. Done (case res of Inr _ \<Rightarrow> Some e | Inl _ \<Rightarrow> None)))"
    if "int64_edit e"
| other_document: "document_client w i (also_do (edit_call w' j e) (Done None))" if "j \<noteq> i"
| delete_other: "document_client w i (also_do (DeleteDocument w' j) (Done None))" if "j \<noteq> i"
| read: "document_client w i (also_do (GetDocument w' j) (Done None))"
| list_all: "document_client w i (also_do (ListDocuments w') (Done None))"
| other: "document_client w i (also_do p (Done None))"
    if "memory_operation p \<or> task_operation p \<or> wakeup_operation p \<or> lease_operation p"
| wait: "document_client w i (act (\<lambda>s. (None, s\<lparr>millis := max (millis s) t\<rparr>)))"

definition done_edits :: "edit option \<Rightarrow> edit list" where
  "done_edits r = (case r of Some e \<Rightarrow> [e] | None \<Rightarrow> [])"

definition unstamped :: "Document \<Rightarrow> Document" where
  "unstamped d = d\<lparr>doc_UpdatedAtMS := 0\<rparr>"

definition stored :: "string \<Rightarrow> workspace \<Rightarrow> Document option" where
  "stored i s = map_option unstamped (List.find (\<lambda>x. doc_ID x = i) (documents s))"

text \<open>The stored document is the first one with the edits \<open>es\<close> applied.\<close>

definition edits_explain :: "string \<Rightarrow> Document \<Rightarrow> edit list \<Rightarrow> workspace \<Rightarrow> bool" where
  "edits_explain i d0 es s \<longleftrightarrow> stored i s = Some (fold edited es (unstamped d0)) \<and>
    distinct (map doc_ID (documents s)) \<and> doc_Revision d0 + length es < 2 ^ 63"

lemma edited_select [simp]:
  "doc_Revision (edited e d) = doc_Revision d + 1"
  "doc_ID (edited e d) = doc_ID d" "doc_WorkspaceID (edited e d) = doc_WorkspaceID d"
  "doc_CreatedAtMS (edited e d) = doc_CreatedAtMS d"
  by (cases e; simp add: edited_def overwrite_def)+

lemma fold_edited_select [simp]:
  "doc_Revision (fold edited es d) = doc_Revision d + length es"
  "doc_ID (fold edited es d) = doc_ID d" "doc_WorkspaceID (fold edited es d) = doc_WorkspaceID d"
  by (induction es arbitrary: d) auto

lemma unstamped_select [simp]:
  "doc_Revision (unstamped d) = doc_Revision d" "doc_ID (unstamped d) = doc_ID d"
  "doc_WorkspaceID (unstamped d) = doc_WorkspaceID d"
  by (simp_all add: unstamped_def)

lemma unstamped_edited [simp]: "unstamped (edited e d) = edited e d" "edited e (unstamped d) = edited e d"
  by (cases e; simp add: edited_def unstamped_def overwrite_def)+


lemma edits_explain_update [simp]:
  "edits_explain i d0 es (s\<lparr>conns := cs\<rparr>) = edits_explain i d0 es s"
  "edits_explain i d0 es (s\<lparr>memory := ms\<rparr>) = edits_explain i d0 es s"
  "edits_explain i d0 es (s\<lparr>tasks := ts\<rparr>) = edits_explain i d0 es s"
  "edits_explain i d0 es (s\<lparr>comments := ks\<rparr>) = edits_explain i d0 es s"
  "edits_explain i d0 es (s\<lparr>wakeups := xs\<rparr>) = edits_explain i d0 es s"
  "edits_explain i d0 es (s\<lparr>leases := ls\<rparr>) = edits_explain i d0 es s"
  "edits_explain i d0 es (s\<lparr>millis := t\<rparr>) = edits_explain i d0 es s"
  by (simp_all add: edits_explain_def stored_def)

text \<open>Pushing the continuation of a process to its ends.\<close>

lemma seq_push:
  "seq (seq p f) k = seq p (\<lambda>a. seq (f a) k)"
  "seq (must p1 f1) k1 = seq p1 (\<lambda>r. case r of Inl err \<Rightarrow> k1 (Inl err) | Inr a \<Rightarrow> seq (f1 a) k1)"
  "seq (if b then q else q') k2 = (if b then seq q k2 else seq q' k2)"
  "seq (case r of Inl err \<Rightarrow> g err | Inr a \<Rightarrow> g' a) k3 = (case r of Inl err \<Rightarrow> seq (g err) k3 | Inr a \<Rightarrow> seq (g' a) k3)"
  by (auto simp: seq_assoc must_def fun_eq_iff intro!: arg_cong [where f = "seq p1"] split: sum.split)

lemma stamp_select [simp]:
  "doc_ID (stamp_document now d) = doc_ID d"
  "doc_Revision (stamp_document now d) = (if doc_Revision d = 0 then 1 else doc_Revision d)"
  by (simp_all add: stamp_document_def)

lemma linearizes_WriteDocument:
  assumes conns: "\<And>hs s cs. J hs s \<Longrightarrow> J hs (s\<lparr>conns := cs\<rparr>)"
    and failed: "\<And>later s err. J (hs @ later) s \<Longrightarrow> settled J eff (hs @ later) (k (Inl err)) s"
    and present: "\<And>later s. J (hs @ later) s \<Longrightarrow> List.find (\<lambda>x. doc_ID x = doc_ID d) (documents s) \<noteq> None"
    and written: "\<And>later s now x. J (hs @ later) s \<Longrightarrow>
      List.find (\<lambda>x. doc_ID x = doc_ID d) (documents s) = Some x \<Longrightarrow>
      doc_Revision x = doc_Revision (stamp_document now d) - 1 \<Longrightarrow>
      settled J eff (hs @ later) (k (Inr (stamp_document now d))) (s\<lparr>documents :=
        update_where (\<lambda>x. doc_ID x = doc_ID d) (overwrite (stamp_document now d)) (documents s)\<rparr>)"
  shows "linearizes J eff hs (seq (WriteDocument d) k)"
proof -
  let ?stamped = "\<lambda>now. stamp_document now d"
  let ?store = "\<lambda>now. seq (upsert_document (?stamped now))
    (\<lambda>r. case r of Inl err \<Rightarrow> k (Inl err) | Inr a \<Rightarrow> k (Inr (?stamped now)))"
  have store: "linearizes J eff hs (?store now)" for now
    unfolding upsert_document_def
    by (rule linearizes_statement [where J = J, OF conns])
      (use written failed in \<open>auto split: option.split dest: present\<close>)
  have "finished eff (?store now) = []" for now by (simp add: upsert_document_def)
  then have settled_store: "settled J eff (hs @ later) (?store now) s" if "J (hs @ later) s" for later s now
    by (rule settled_quiet [where J = J, OF that linearizes_later [OF store]])
  have "settled J eff (hs @ later) (if 1 < doc_Revision (?stamped now)
      then seq (current_revision (?stamped now)) (\<lambda>res. case res of
         Inl _ \<Rightarrow> ?store now
       | Inr currentRev \<Rightarrow> if currentRev \<noteq> doc_Revision (?stamped now) - 1 then k (Inl revision_mismatch) else ?store now)
      else ?store now) s" if "J (hs @ later) s" for later s now
  proof -
    let ?rest = "\<lambda>res :: go_error + int. case res of Inl _ \<Rightarrow> ?store now
       | Inr currentRev \<Rightarrow> if currentRev \<noteq> doc_Revision (?stamped now) - 1 then k (Inl revision_mismatch) else ?store now"
    have "linearizes J eff (hs @ later) (seq (current_revision (?stamped now)) ?rest)"
      unfolding current_revision_def ws_query_def
      by (rule linearizes_statement [where J = J, OF conns])
        (use settled_store failed in \<open>auto split: option.split simp: append_assoc\<close>)
    then have "settled J eff (hs @ later) (seq (current_revision (?stamped now)) ?rest) s"
      using that by (intro settled_quiet) (simp_all add: current_revision_def)
    then show ?thesis using settled_store that by simp
  qed
  then show ?thesis
    unfolding WriteDocument_def Let_def seq_push seq.simps sum.case
    by (intro linearizes_millis) simp
qed


lemma find_update_where:
  assumes "\<And>x. key (f x) = key x"
  shows "List.find (\<lambda>x. key x = i) (update_where (\<lambda>x. key x = j) f rows) =
    (if i = j then map_option f (List.find (\<lambda>x. key x = i) rows) else List.find (\<lambda>x. key x = i) rows)"
  using assms by (induction rows) (auto simp: update_where_def)

lemma map_update_where: "(\<And>x. key (f x) = key x) \<Longrightarrow> map key (update_where p f rows) = map key rows"
  by (auto simp: update_where_def)

lemma overwrite_select [simp]: "doc_ID (overwrite d x) = doc_ID x"
  by (simp add: overwrite_def)

text \<open>One write that follows on the state explained so far.\<close>

lemma edits_explain_write:
  assumes "edits_explain i d0 es s" "List.find (\<lambda>x. doc_ID x = i) (documents s) = Some x"
    "doc_Revision x = doc_Revision d' - 1" "doc_Revision d' < 2 ^ 63"
    "unstamped (overwrite d' x) = edited e (unstamped x)"
  shows "edits_explain i d0 (es @ [e]) (s\<lparr>documents := update_where (\<lambda>x. doc_ID x = i) (overwrite d') (documents s)\<rparr>)"
proof -
  have x: "unstamped x = fold edited es (unstamped d0)"
    using assms(1,2) by (simp add: edits_explain_def stored_def)
  have "doc_Revision (unstamped x) = doc_Revision d0 + length es" unfolding x by simp
  then have "doc_Revision x = doc_Revision d0 + length es" by simp
  with assms x show ?thesis
    by (simp add: edits_explain_def stored_def find_update_where [where key = doc_ID] map_update_where)
qed

lemma edits_explain_row:
  assumes "edits_explain i d0 es s" "List.find (\<lambda>x. doc_ID x = i) (documents s) = Some x"
  shows "unstamped x = fold edited es (unstamped d0)" "doc_Revision x = doc_Revision d0 + length es"
    "doc_Revision x < 2 ^ 63" "doc_ID x = i"
proof -
  show x: "unstamped x = fold edited es (unstamped d0)"
    using assms by (simp add: edits_explain_def stored_def)
  show "doc_Revision x = doc_Revision d0 + length es"
    using arg_cong [OF x, of doc_Revision] by (simp del: unstamped_edited)
  with assms(1) show "doc_Revision x < 2 ^ 63" by (simp add: edits_explain_def)
  show "doc_ID x = i" using assms(2) by (auto simp: find_Some_iff)
qed

lemma edits_explain_present: "edits_explain i d0 es s \<Longrightarrow> \<exists>x. List.find (\<lambda>x. doc_ID x = i) (documents s) = Some x"
  by (auto simp: edits_explain_def stored_def)

abbreviation report :: "edit \<Rightarrow> go_error + unit \<Rightarrow> (workspace, edit option) proc" where
  "report e \<equiv> \<lambda>res. Done (case res of Inr _ \<Rightarrow> Some e | Inl _ \<Rightarrow> None)"

lemma settled_report:
  "edits_explain i d0 es s \<Longrightarrow> settled (edits_explain i d0) done_edits es (Done None) s"
  "edits_explain i d0 (es @ [e]) s \<Longrightarrow> settled (edits_explain i d0) done_edits es (Done (Some e)) s"
  by (simp_all add: settled_Done done_edits_def)

lemma linearizes_Overwrite:
  assumes "doc_Revision d < 2 ^ 63"
  shows "linearizes (edits_explain i d0) done_edits [] (seq (edit_call w i (Overwrite d)) (report (Overwrite d)))"
proof -
  let ?d = "d\<lparr>doc_ID := i\<rparr>"
  have "settled (edits_explain i d0) done_edits es (Done (Some (Overwrite d)))
      (s\<lparr>documents := update_where (\<lambda>x. doc_ID x = i) (overwrite (stamp_document now ?d)) (documents s)\<rparr>)"
    if "edits_explain i d0 es s" "List.find (\<lambda>x. doc_ID x = i) (documents s) = Some x"
      "doc_Revision x = doc_Revision (stamp_document now ?d) - 1" for es s x now
    using assms that
    by (intro settled_report edits_explain_write)
      (auto simp: stamp_document_def unstamped_def edited_def overwrite_def)
  then show ?thesis
    unfolding edit_call.simps seq_push seq.simps
    by (intro linearizes_WriteDocument) (auto intro: settled_report dest: edits_explain_present)
qed


lemma edit_call_edit: "\<forall>d. e \<noteq> Overwrite d \<Longrightarrow> edit_call w i e = edit_document w i (change e)"
  by (cases e) (simp_all add: AppendDocument_def RenameDocument_def ArchiveDocument_def ClearDocument_def
      AddDocumentMetadata_def, auto intro!: arg_cong [where f = "edit_document w i"])

text \<open>
  The snapshot an edit works on is that of the edits so far; when it is written, no other edit has
  come in between, since its revision is the next one.
\<close>

lemma change_ID [simp]: "doc_ID (change e d) = doc_ID d"
  by (cases e) simp_all

lemma int64_less: "int64 n < 2 ^ 63"
  using pos_mod_bound [of "2 ^ 64" "n + 2 ^ 63"] by (simp add: int64_def)

lemma next_revision:
  assumes "1 \<le> r" "r + int n < 2 ^ 63" "r + int n + int m < 2 ^ 63"
    "r + int n + int m = (if int64 (r + int n + 1) = 0 then 1 else int64 (r + int n + 1)) - 1"
  shows "m = 0" "int64 (r + int n + 1) = r + int n + 1"
proof -
  have "r + int n + 1 \<noteq> 2 ^ 63"
  proof
    assume "r + int n + 1 = 2 ^ 63"
    then have "int64 (r + int n + 1) = - (2 ^ 63)" by (simp only:) (simp add: int64_def)
    with assms(1,4) show False by simp
  qed
  then show *: "int64 (r + int n + 1) = r + int n + 1"
    using assms(1,2) by (simp add: int64_def)
  show "m = 0" using assms(1,4) unfolding * by (simp split: if_splits)
qed

lemma linearizes_snapshot:
  assumes "1 \<le> doc_Revision d0" "\<forall>d. e \<noteq> Overwrite d" "edits_explain i d0 es s"
    "List.find (\<lambda>x. doc_ID x = i) (documents s) = Some doc"
  shows "linearizes (edits_explain i d0) done_edits es
    (seq (WriteDocument ((change e doc)\<lparr>doc_Revision := int64 (doc_Revision doc + 1)\<rparr>)) (\<lambda>r. case r of Inl err \<Rightarrow> Done None | Inr _ \<Rightarrow> Done (Some e)))"
proof (rule linearizes_WriteDocument)
  let ?d = "(change e doc)\<lparr>doc_Revision := int64 (doc_Revision doc + 1)\<rparr>"
  have ID: "doc_ID ?d = i" using edits_explain_row(4) [OF assms(3,4)] by simp
  fix later s' now x
  assume later: "edits_explain i d0 (es @ later) s'"
    and x: "List.find (\<lambda>x. doc_ID x = doc_ID ?d) (documents s') = Some x"
    and rev_x: "doc_Revision x = doc_Revision (stamp_document now ?d) - 1"
  note row = edits_explain_row [OF later x [unfolded ID]] and snapshot = edits_explain_row [OF assms(3,4)]
  have rev_d: "doc_Revision ?d = int64 (doc_Revision d0 + int (length es) + 1)"
    by (simp add: snapshot(2))
  have cond: "doc_Revision d0 + int (length es) + int (length later) =
      (if int64 (doc_Revision d0 + int (length es) + 1) = 0 then 1
       else int64 (doc_Revision d0 + int (length es) + 1)) - 1"
    using rev_x [unfolded stamp_select rev_d row(2)] by (simp only: length_append of_nat_add add.assoc)
  have "doc_Revision d0 + int (length es) + int (length later) < 2 ^ 63" using row(2,3) by simp
  from next_revision [OF assms(1) _ this cond] snapshot(2,3)
  have none: "later = []" and rev_d': "doc_Revision ?d = doc_Revision doc + 1"
    using rev_d by simp_all
  have "unstamped x = unstamped doc" using row(1) snapshot(1) none by simp
  then have x_doc: "x = doc\<lparr>doc_UpdatedAtMS := doc_UpdatedAtMS x\<rparr>"
    by (cases x, cases doc) (simp add: unstamped_def)
  have "edits_explain i d0 ((es @ later) @ [e])
    (s'\<lparr>documents := update_where (\<lambda>x. doc_ID x = i) (overwrite (stamp_document now ?d)) (documents s')\<rparr>)"
  proof (rule edits_explain_write [OF later x [unfolded ID] rev_x])
    show "doc_Revision (stamp_document now ?d) < 2 ^ 63"
      unfolding stamp_select rev_d using int64_less by simp
    show "unstamped (overwrite (stamp_document now ?d) x) = edited e (unstamped x)"
      by (subst x_doc, subst (2) x_doc, cases e)
        (use assms(2) rev_d' snapshot(2) assms(1) in
          \<open>simp_all add: edited_def overwrite_def unstamped_def stamp_document_def\<close>)
  qed
  then show "settled (edits_explain i d0) done_edits (es @ later) (case Inr (stamp_document now ?d) of Inl err \<Rightarrow> Done None | Inr _ \<Rightarrow> Done (Some e))
     (s'\<lparr>documents := update_where (\<lambda>x. doc_ID x = doc_ID ?d) (overwrite (stamp_document now ?d)) (documents s')\<rparr>)"
     unfolding ID by (simp add: settled_report)
qed (use edits_explain_row(4) [OF assms(3,4)] in \<open>auto intro: settled_report dest: edits_explain_present\<close>)


lemma find_distinct:
  "distinct (map key rows) \<Longrightarrow> r \<in> set rows \<Longrightarrow> List.find (\<lambda>x. key x = key r) rows = Some r"
  by (induction rows) (auto simp: rev_image_eqI)

lemma find_and_key:
  "distinct (map key rows) \<Longrightarrow> List.find (\<lambda>x. p x \<and> key x = i) rows =
    (case List.find (\<lambda>x. key x = i) rows of Some r \<Rightarrow> if p r then Some r else None | None \<Rightarrow> None)"
proof (induction rows)
  case (Cons r rows)
  have "List.find (\<lambda>x. p x \<and> key x = i) rows = None" if "key r = i"
    using Cons.prems that by (fastforce simp: find_None_iff image_iff)
  with Cons show ?case by auto
qed simp

lemma find_row:
  assumes "distinct (map key rows)" "List.find (\<lambda>x. p x \<and> key x = i) rows = Some r"
  shows "List.find (\<lambda>x. key x = i) rows = Some r"
proof -
  from assms(2) have "r \<in> set rows" "key r = i" by (auto simp: find_Some_iff)
  with find_distinct [OF assms(1)] show ?thesis by blast
qed

lemma linearizes_edit:
  assumes "1 \<le> doc_Revision d0" "int64_edit e"
  shows "linearizes (edits_explain i d0) done_edits [] (seq (edit_call w i e) (report e))"
proof (cases "\<exists>d. e = Overwrite d")
  case True
  then show ?thesis using assms(2) linearizes_Overwrite by auto
next
  case False
  let ?edit_row = "\<lambda>doc. seq (WriteDocument ((change e doc)\<lparr>doc_Revision := int64 (doc_Revision doc + 1)\<rparr>))
    (\<lambda>r. case r of Inl err \<Rightarrow> Done None | Inr _ \<Rightarrow> Done (Some e))"
  have "settled (edits_explain i d0) done_edits es
      (case row_or_error (List.find (\<lambda>x. doc_WorkspaceID x = w \<and> doc_ID x = i) (documents s)) of
         Inl err \<Rightarrow> Done None | Inr doc \<Rightarrow> ?edit_row doc) s" if "edits_explain i d0 es s" for es s
  proof (cases "List.find (\<lambda>x. doc_WorkspaceID x = w \<and> doc_ID x = i) (documents s)")
    case None
    then show ?thesis using that by (simp add: row_or_error_def settled_report)
  next
    case (Some doc)
    then have "List.find (\<lambda>x. doc_ID x = i) (documents s) = Some doc"
      using that find_row by (fastforce simp: edits_explain_def)
    from linearizes_snapshot [OF assms(1) _ that this] False Some that show ?thesis
      by (simp add: row_or_error_def settled_quiet WriteDocument_def seq_push)
  qed
  then have "linearizes (edits_explain i d0) done_edits [] (seq (GetDocument w i)
      (\<lambda>r. case r of Inl err \<Rightarrow> Done None | Inr doc \<Rightarrow> ?edit_row doc))"
    unfolding GetDocument_def ws_query_def
    by (intro linearizes_statement) (auto intro: settled_report)
  moreover have "seq (edit_call w i e) (report e) =
      seq (GetDocument w i) (\<lambda>r. case r of Inl err \<Rightarrow> Done None | Inr doc \<Rightarrow> ?edit_row doc)"
    using False by (simp add: edit_call_edit edit_document_def seq_push cong: sum.case_cong)
  ultimately show ?thesis by simp
qed


lemma edits_explain_elsewhere:
  assumes "edits_explain i d0 es s" "j \<noteq> i"
  shows "edits_explain i d0 es (s\<lparr>documents := update_where (\<lambda>x. doc_ID x = j) (overwrite d) (documents s)\<rparr>)"
    "List.find (\<lambda>x. doc_ID x = j) (documents s) = None \<Longrightarrow> doc_ID d = j \<Longrightarrow>
     edits_explain i d0 es (s\<lparr>documents := documents s @ [d]\<rparr>)"
    "edits_explain i d0 es (s\<lparr>documents := delete_where (\<lambda>x. doc_WorkspaceID x = w \<and> doc_ID x = j) (documents s)\<rparr>)"
proof -
  have append: "List.find p (xs @ [x]) = (case List.find p xs of None \<Rightarrow> if p x then Some x else None | Some y \<Rightarrow> Some y)"
    for p and x :: Document and xs by (induction xs) auto
  show "edits_explain i d0 es (s\<lparr>documents := update_where (\<lambda>x. doc_ID x = j) (overwrite d) (documents s)\<rparr>)"
    using assms by (simp add: edits_explain_def stored_def find_update_where [where key = doc_ID] map_update_where)
  show "edits_explain i d0 es (s\<lparr>documents := documents s @ [d]\<rparr>)"
    if "List.find (\<lambda>x. doc_ID x = j) (documents s) = None" "doc_ID d = j"
  proof -
    have "doc_ID d \<notin> doc_ID ` set (documents s)" using that by (auto simp: find_None_iff)
    then show ?thesis using assms(1) by (auto simp: edits_explain_def stored_def append)
  qed
  have "List.find (\<lambda>x. doc_ID x = i) (delete_where (\<lambda>x. doc_WorkspaceID x = w \<and> doc_ID x = j) rows) =
      List.find (\<lambda>x. doc_ID x = i) rows" for rows :: "Document list"
    using assms(2) by (induction rows) (auto simp: delete_where_def)
  then show "edits_explain i d0 es (s\<lparr>documents := delete_where (\<lambda>x. doc_WorkspaceID x = w \<and> doc_ID x = j) (documents s)\<rparr>)"
    using assms(1) by (auto simp: edits_explain_def stored_def delete_where_def distinct_map intro: inj_on_subset)
qed

lemma inert_other_document:
  assumes "j \<noteq> i"
  shows "inert (edits_explain i d0) (edit_call w j e)"
proof -
  have writes: "inert (edits_explain i d0) (WriteDocument d)" if "doc_ID d = j" for d
    unfolding WriteDocument_def upsert_document_def current_revision_def Let_def
    by (intro inert_intros)
      (use that assms in \<open>auto split: option.split intro: edits_explain_elsewhere(1) edits_explain_elsewhere(2) [where j = j]\<close>)
  show ?thesis
  proof (cases "\<exists>d. e = Overwrite d")
    case True
    then show ?thesis by (auto intro!: inert_intros writes)
  next
    case False
    then have "edit_call w j e = edit_document w j (change e)" by (intro edit_call_edit) blast
    moreover have "doc_ID doc = j" if "row_or_error (List.find (\<lambda>x. doc_WorkspaceID x = w \<and> doc_ID x = j) (documents s)) = Inr doc" for s doc
      using that by (auto simp: row_or_error_def find_Some_iff split: option.splits)
    ultimately show ?thesis
      unfolding edit_document_def GetDocument_def
      by (simp only:) (rule inert_query_must; auto intro!: inert_intros writes)
  qed
qed

lemma linearizes_document_client:
  assumes "document_client w i p" "1 \<le> doc_Revision d0"
  shows "linearizes (edits_explain i d0) done_edits [] p \<and> finished done_edits p = []"
  using assms(1)
proof cases
  case (edit e)
  then show ?thesis using linearizes_edit [OF assms(2) edit(2)]
    by (cases e) (simp_all add: edit_call_edit edit_document_def GetDocument_def WriteDocument_def seq_push del: edit_call.simps(1-5))
next
  case (other_document j w' e)
  then show ?thesis using linearizes_inert [OF inert_other_document, of j i done_edits None]
    by (simp add: done_edits_def)
next
  case (other q)
  then have "inert (edits_explain i d0) q"
    by (auto intro: inert_memory_operation inert_task_operation inert_wakeup_operation inert_lease_operation)
  with other show ?thesis using linearizes_inert [of _ _ done_edits None] by (auto simp: done_edits_def)
next
  case (wait t)
  then show ?thesis by (auto simp: act_def done_edits_def intro!: linearizes_Atom linearizes_Done)
qed (auto intro!: linearizes_inert inert_intros edits_explain_elsewhere(3)
    simp: DeleteDocument_def GetDocument_def ListDocuments_def done_edits_def)

text \<open>
  C3. No edit of a document is lost: however appending, renaming, archiving, clearing, adding
  metadata and writing the document with a revision of one's own interleave with each other and with
  the rest of the store, and whatever statements fail, the stored document is the original one with
  exactly the edits applied that were reported as successful, one after the other in some order,
  each raising the revision by one.
\<close>

theorem document_edits_linearize:
  assumes "stored i s0 = Some d0" "distinct (map doc_ID (documents s0))" "1 \<le> doc_Revision d0" "doc_Revision d0 < 2 ^ 63"
    "reachable (\<lambda>_. document_client w i) s0 (ps, s)"
  shows "\<exists>es. mset es = mset (concat (map (finished done_edits) ps)) \<and> stored i s = Some (fold edited es d0)"
proof -
  have "unstamped d0 = d0" using assms(1) by (auto simp: stored_def unstamped_def)
  then have "edits_explain i d0 [] s0" using assms(1,2,4) by (simp add: edits_explain_def)
  from reachable_linearizes [where J = "edits_explain i d0" and eff = done_edits, OF assms(5) this]
    linearizes_document_client [OF _ assms(3)]
  obtain es where "edits_explain i d0 es s" "mset es = mset (concat (map (finished done_edits) ps))" by blast
  with \<open>unstamped d0 = d0\<close> show ?thesis by (auto simp: edits_explain_def)
qed


text \<open>
  The ID of a document is global, but its users are checked by workspace: a write from another
  workspace with the next revision succeeds, replaces name, content and metadata of the document
  where it is, and its writer cannot read it back.
\<close>

theorem WriteDocument_crosses_workspaces:
  assumes "conns s = []" "distinct (map doc_ID (documents s))"
    "List.find (\<lambda>x. doc_ID x = doc_ID d) (documents s) = Some x" "doc_WorkspaceID d \<noteq> doc_WorkspaceID x"
    "doc_Revision d = doc_Revision x + 1" "doc_Revision d \<noteq> 0"
    "\<not> name_taken s (doc_ID d) (doc_WorkspaceID x) (doc_Name d)"
  shows "case run (WriteDocument d) s of (res, s') \<Rightarrow>
    (case res of Inl err \<Rightarrow> False | Inr d' \<Rightarrow> doc_Content d' = doc_Content d) \<and>
    fst (run (GetDocument (doc_WorkspaceID d) (doc_ID d)) s') = Inl err_no_rows \<and>
    (case fst (run (GetDocument (doc_WorkspaceID x) (doc_ID d)) s') of
       Inl err \<Rightarrow> False
     | Inr y \<Rightarrow> doc_Content y = doc_Content d \<and> doc_Name y = doc_Name d \<and> doc_Metadata y = doc_Metadata d)"
proof -
  let ?d = "stamp_document (millis s) d"
  let ?s = "s\<lparr>documents := update_where (\<lambda>x. doc_ID x = doc_ID d) (overwrite ?d) (documents s)\<rparr>"
  have d: "doc_Revision ?d = doc_Revision x + 1" "doc_WorkspaceID ?d = doc_WorkspaceID d"
    "doc_Name ?d = doc_Name d" "doc_Content ?d = doc_Content d" "doc_Metadata ?d = doc_Metadata d"
    using assms(5,6) by (simp_all add: stamp_document_def)
  have "run (upsert_document ?d) s = (Inr (), ?s)"
    using assms(1,3,7) d by (simp add: upsert_document_def run_simps)
  moreover have "run (current_revision ?d) s = (Inl err_no_rows, s)"
    using assms(1-4) d find_and_key [OF assms(2), of "\<lambda>x. doc_WorkspaceID x = doc_WorkspaceID d"]
    by (simp add: current_revision_def run_simps conj_commute)
  ultimately have w: "run (WriteDocument d) s = (Inr ?d, ?s)"
    using assms(1) by (simp add: WriteDocument_def Let_def run_simps del: stamp_select)
  have find: "List.find (\<lambda>y. doc_ID y = doc_ID d) (documents ?s) = Some (overwrite ?d x)"
    "distinct (map doc_ID (documents ?s))"
    using assms(2,3) by (simp_all add: find_update_where [where key = doc_ID] map_update_where)
  have "doc_WorkspaceID (overwrite ?d x) = doc_WorkspaceID x" by (simp add: overwrite_def)
  then have "fst (run (GetDocument w (doc_ID d)) ?s) =
      (if doc_WorkspaceID x = w then Inr (overwrite ?d x) else Inl err_no_rows)" for w
    using assms(1) find(1) find_and_key [OF find(2), of "\<lambda>y. doc_WorkspaceID y = w" "doc_ID d"]
    by (simp add: GetDocument_def run_simps row_or_error_def)
  then show ?thesis using assms(4) d by (simp add: w overwrite_def)
qed


section \<open>Tasks\<close>

abbreviation the_task :: "string \<Rightarrow> string \<Rightarrow> Task list \<Rightarrow> Task option" where
  "the_task w i \<equiv> List.find (\<lambda>x. tsk_WorkspaceID x = w \<and> tsk_ID x = i)"

lemma the_task_update:
  assumes "\<And>x. tsk_WorkspaceID (f x) = tsk_WorkspaceID x \<and> tsk_ID (f x) = tsk_ID x"
  shows "the_task w i (update_where (\<lambda>x. tsk_WorkspaceID x = w \<and> tsk_ID x = i \<and> c x) f rows) =
      map_option (\<lambda>x. if c x then f x else x) (the_task w i rows)"
    "the_task w i (update_where (\<lambda>x. tsk_ID x = i \<and> tsk_WorkspaceID x = w) f rows) =
      map_option f (the_task w i rows)"
  using assms by (induction rows) (auto simp: update_where_def)

lemma list_ex_task:
  "the_task w i rows = Some t \<Longrightarrow> c t \<Longrightarrow> list_ex (\<lambda>x. tsk_WorkspaceID x = w \<and> tsk_ID x = i \<and> c x) rows"
  "the_task w i rows = Some t \<Longrightarrow> list_ex (\<lambda>x. tsk_ID x = i \<and> tsk_WorkspaceID x = w) rows"
  by (auto simp: list_ex_iff find_Some_iff)

lemma run_LockTask:
  assumes "conns s = []" "the_task w i (tasks s) = Some t" "tsk_LockedBy t = []" "trim_space a \<noteq> []"
  obtains s' where "run (LockTask w i a) s = (Inr (), s')" "conns s' = []"
    "the_task w i (tasks s') = Some (t\<lparr>tsk_LockedBy := a, tsk_UpdatedAtMS := millis s\<rparr>)"
  using assms list_ex_task(1) [OF assms(2), of "\<lambda>x. tsk_LockedBy x = [] \<or> tsk_LockedBy x = a"]
  by (simp add: LockTask_def Let_def run_simps the_task_update)

lemma run_UpdateTask:
  assumes "conns s = []" "the_task (tsk_WorkspaceID t') (tsk_ID t') (tasks s) = Some t"
  obtains s' r where "run (UpdateTask t') s = (Inr r, s')" "conns s' = []"
    "map_option tsk_LockedBy (the_task (tsk_WorkspaceID t') (tsk_ID t') (tasks s')) = Some (tsk_LockedBy t')"
  using assms list_ex_task(2) [OF assms(2)]
  by (simp add: UpdateTask_def Let_def run_simps the_task_update set_task_def)

text \<open>
  C16. The lock of a task is no lock against the other operations on it: these read the row and write
  all of it back. When a task is locked between the read and the write of \<open>AddTaskTag\<close>, the lock is
  gone afterwards, all three calls succeed, and so does a second actor who locks the task.
\<close>

theorem LockTask_lost:
  assumes "conns s = []" "List.find (\<lambda>x. tsk_WorkspaceID x = w \<and> tsk_ID x = i) (tasks s) = Some t"
    "tsk_LockedBy t = []" "tag \<notin> set (tsk_Tags t)" "trim_space a \<noteq> []" "trim_space b \<noteq> []"
  shows "case first_actions 1 (AddTaskTag w i tag) s of (rest, s1) \<Rightarrow>
    case run (LockTask w i a) s1 of (locked, s2) \<Rightarrow>
    case run rest s2 of (tagged, s3) \<Rightarrow>
    case run (LockTask w i b) s3 of (locked', s4) \<Rightarrow>
      locked = Inr () \<and> tagged = Inr () \<and> locked' = Inr () \<and>
      map_option tsk_LockedBy (List.find (\<lambda>x. tsk_WorkspaceID x = w \<and> tsk_ID x = i) (tasks s2)) = Some a \<and>
      map_option tsk_LockedBy (List.find (\<lambda>x. tsk_WorkspaceID x = w \<and> tsk_ID x = i) (tasks s4)) = Some b"
proof -
  let ?t = "t\<lparr>tsk_Tags := tsk_Tags t @ [tag]\<rparr>"
  let ?rest = "must (UpdateTask ?t) (\<lambda>_. Done (Inr ()))"
  have t: "tsk_WorkspaceID t = w" "tsk_ID t = i" using assms(2) by (auto simp: find_Some_iff)
  have read: "first_actions (Suc 0) (AddTaskTag w i tag) s = (?rest, s)"
    using assms(1,2,4) by (simp add: AddTaskTag_def edit_task_def GetTask_def must_def
        ws_query_def ws_statement_def act_def row_or_error_def)
  obtain s2 where s2: "run (LockTask w i a) s = (Inr (), s2)" "conns s2 = []"
    "the_task w i (tasks s2) = Some (t\<lparr>tsk_LockedBy := a, tsk_UpdatedAtMS := millis s\<rparr>)"
    by (rule run_LockTask [OF assms(1,2,3,5)])
  have "the_task (tsk_WorkspaceID ?t) (tsk_ID ?t) (tasks s2) =
      Some (t\<lparr>tsk_LockedBy := a, tsk_UpdatedAtMS := millis s\<rparr>)"
    using s2(3) t by simp
  then obtain s3 r where s3: "run (UpdateTask ?t) s2 = (Inr r, s3)" "conns s3 = []"
    "map_option tsk_LockedBy (the_task (tsk_WorkspaceID ?t) (tsk_ID ?t) (tasks s3)) = Some (tsk_LockedBy ?t)"
    by (rule run_UpdateTask [OF s2(2)])
  then obtain t3 where t3: "the_task w i (tasks s3) = Some t3" "tsk_LockedBy t3 = []"
    using t assms(3) by auto
  obtain s4 where "run (LockTask w i b) s3 = (Inr (), s4)"
    "the_task w i (tasks s4) = Some (t3\<lparr>tsk_LockedBy := b, tsk_UpdatedAtMS := millis s3\<rparr>)"
    by (rule run_LockTask [OF s3(2) t3 assms(6)])
  then show ?thesis by (simp add: read s2 s3(1) run_simps)
qed

section \<open>Wakeups\<close>

text \<open>
  C23. Pausing a wakeup and resuming it later keeps the time that was left: it becomes due that long
  after the resumption (at once when it was overdue). While it is paused it is still listed as
  pending, at its old time and without a sign of the pause.
\<close>

theorem PauseWakeup_ResumeWakeup:
  assumes "conns s = []" "List.find (\<lambda>x. wak_WorkspaceID x = w \<and> wak_ID x = i) (wakeups s) = Some x"
    "wak_FiredAtMS x = 0" "wak_CancelledAtMS x = 0" "wak_PausedAtMS x = 0" "wak_PausedRemainingMS x = 0" "millis s \<noteq> 0"
  shows "case run (PauseWakeup w i) s of (paused, s1) \<Rightarrow>
    case run (ResumeWakeup w i) (s1\<lparr>millis := now\<rparr>) of (resumed, s2) \<Rightarrow>
      paused = Inr () \<and> resumed = Inr () \<and>
      List.find (\<lambda>x. wak_WorkspaceID x = w \<and> wak_ID x = i) (wakeups s2) =
        Some (x\<lparr>wak_DueAtMS := int64 (now + max (int64 (wak_DueAtMS x - millis s)) 0)\<rparr>) \<and>
      (case fst (run (ListPendingWakeups w) s1) of Inl err \<Rightarrow> False | Inr xs \<Rightarrow> x \<in> set xs)"
proof -
  have upd: "List.find (\<lambda>x. wak_WorkspaceID x = w \<and> wak_ID x = i)
      (update_where (\<lambda>x. wak_WorkspaceID x = w \<and> wak_ID x = i) f rows) =
    map_option f (List.find (\<lambda>x. wak_WorkspaceID x = w \<and> wak_ID x = i) rows)"
    if "\<And>x. wak_WorkspaceID (f x) = wak_WorkspaceID x \<and> wak_ID (f x) = wak_ID x" for f and rows :: "Wakeup list"
    using that by (induction rows) (auto simp: update_where_def)
  let ?paused = "\<lambda>y. y\<lparr>wak_PausedAtMS := millis s, wak_PausedRemainingMS := max (int64 (wak_DueAtMS x - millis s)) 0\<rparr>"
  have x: "x \<in> set (wakeups s)" "wak_WorkspaceID x = w" "wak_ID x = i"
    using assms(2) by (auto simp: find_Some_iff)
  have "(?paused x)\<lparr>wak_PausedAtMS := 0, wak_PausedRemainingMS := 0\<rparr> = x"
    using assms(5,6) by (cases x) simp
  moreover have "?paused x \<in> set (update_where (\<lambda>x. wak_WorkspaceID x = w \<and> wak_ID x = i) ?paused (wakeups s))"
    using x by (auto simp: update_where_def intro!: image_eqI [where x = x])
  ultimately have "x \<in> (\<lambda>x. x\<lparr>wak_PausedAtMS := 0, wak_PausedRemainingMS := 0\<rparr>) `
      {y \<in> set (update_where (\<lambda>x. wak_WorkspaceID x = w \<and> wak_ID x = i) ?paused (wakeups s)).
         wak_WorkspaceID y = w \<and> wak_FiredAtMS y = 0 \<and> wak_CancelledAtMS y = 0}"
    using assms(3,4) x(2) by (intro image_eqI [where x = "?paused x"]) simp_all
  with assms show ?thesis
    by (simp add: PauseWakeup_def ResumeWakeup_def GetWakeup_def update_wakeup_def run_simps row_or_error_def upd
        ListPendingWakeups_def Let_def)
qed

section \<open>Comments\<close>

text \<open>
  A statement on a connection without the pragma leaves the comments of a deleted task behind and
  lets comments on tasks in that do not exist.
\<close>

lemma DeleteTask_orphans:
  assumes "conns s = [c]" "con_error c = None" "\<not> con_foreign_keys c"
  shows "comments (snd (run (DeleteTask w i) s)) = comments s"
  using assms by (simp add: DeleteTask_def ws_statement_def run_act Let_def)

section \<open>Concrete runs\<close>

definition demo_workspace :: workspace where
  "demo_workspace = \<lparr>memory = [],
     documents = [\<lparr>doc_ID = ''d'', doc_WorkspaceID = ''w'', doc_Name = ''notes'', doc_Content = ''a'',
       doc_Revision = 1, doc_Tags = [], doc_Metadata = Map.empty, doc_Archived = False,
       doc_CreatedAtMS = 1, doc_UpdatedAtMS = 0\<rparr>],
     tasks = [\<lparr>tsk_ID = ''t'', tsk_WorkspaceID = ''w'', tsk_Title = ''task'', tsk_Body = [],
       tsk_Status = TaskStatusOpen, tsk_Tags = [], tsk_Metadata = Map.empty, tsk_LockedBy = [],
       tsk_BlockerIDs = [], tsk_CreatedAtMS = 1, tsk_UpdatedAtMS = 1, tsk_CompletedAtMS = 0\<rparr>],
     comments = [],
     wakeups = [\<lparr>wak_ID = ''x'', wak_WorkspaceID = ''w'', wak_OwnerID = ''o'', wak_Body = [],
       wak_Metadata = Map.empty, wak_CreatedAtMS = 1, wak_DueAtMS = 50, wak_FiredAtMS = 0,
       wak_CancelledAtMS = 0, wak_PausedAtMS = 0, wak_PausedRemainingMS = 0\<rparr>],
     leases = [], millis = 10, conns = []\<rparr>"

definition demo_lease :: "string \<Rightarrow> Lease" where
  "demo_lease owner = \<lparr>lea_WorkspaceID = ''w'', lea_LockKey = ''k'', lea_OwnerID = owner,
     lea_AcquiredAtMS = 10, lea_ExpiresAtMS = 20\<rparr>"

theorem lease_exclusive_witness:
  "lease_held (demo_lease ''a'') (snd (run (AcquireLease (demo_lease ''b''))
     (snd (run (AcquireLease (demo_lease ''a'')) demo_workspace))))"
proof -
  let ?a = "demo_lease ''a''" and ?b = "demo_lease ''b''"
  let ?p = "seq (AcquireLease ?b) (\<lambda>res. Done (res = Inr True))"
  obtain s1 where s1: "run (AcquireLease ?a) demo_workspace = (Inr True, s1)"
    by (simp add: AcquireLease_def delete_where_def demo_workspace_def run_simps)
  have "reachable (\<lambda>_. rival ?a) s1 ([Done (fst (run ?p s1))], snd (run ?p s1))"
    by (intro reachable_run rival.same_lease) (simp add: lease_key_def demo_lease_def)
  from lease_exclusive [OF s1 _ this] have "lease_held ?a (snd (run ?p s1))"
    by (simp add: demo_workspace_def demo_lease_def)
  then show ?thesis by (simp add: s1 run_simps case_prod_beta)
qed

theorem document_edits_linearize_witness:
  "stored ''d'' (snd (run (AppendDocument ''w'' ''d'' ''b'') demo_workspace)) =
     map_option (edited (Append ''b'')) (stored ''d'' demo_workspace)"
proof -
  let ?p = "seq (edit_call ''w'' ''d'' (Append ''b'')) (report (Append ''b''))"
  obtain d0 where d0: "stored ''d'' demo_workspace = Some d0" "doc_Revision d0 = 1"
    by (simp add: stored_def demo_workspace_def unstamped_def)
  have success: "fst (run ?p demo_workspace) = Some (Append ''b'')"
    by (simp add: AppendDocument_def edit_document_def GetDocument_def WriteDocument_def current_revision_def
        upsert_document_def row_or_error_def stamp_document_def name_taken_def int64_def demo_workspace_def Let_def run_simps)
  have "reachable (\<lambda>_. document_client ''w'' ''d'') demo_workspace
      ([Done (fst (run ?p demo_workspace))], snd (run ?p demo_workspace))"
    by (intro reachable_run document_client.edit) simp
  from document_edits_linearize [OF d0(1) _ _ _ this] d0
  obtain es where "mset es = mset (done_edits (fst (run ?p demo_workspace)))"
    "stored ''d'' (snd (run ?p demo_workspace)) = Some (fold edited es d0)"
    by (auto simp: demo_workspace_def)
  then have "stored ''d'' (snd (run ?p demo_workspace)) = Some (edited (Append ''b'') d0)"
    unfolding success by (simp add: done_edits_def)
  then show ?thesis using d0(1) by (simp add: run_simps case_prod_beta)
qed

theorem WriteDocument_crosses_workspaces_witness:
  "fst (run (GetDocument ''v'' ''d'') (snd (run (WriteDocument ((hd (documents demo_workspace))
      \<lparr>doc_WorkspaceID := ''v'', doc_Revision := 2\<rparr>)) demo_workspace))) = Inl err_no_rows"
proof -
  let ?d = "(hd (documents demo_workspace))\<lparr>doc_WorkspaceID := ''v'', doc_Revision := 2\<rparr>"
  from WriteDocument_crosses_workspaces [where s = demo_workspace and d = ?d and x = "hd (documents demo_workspace)"]
  have "case run (WriteDocument ?d) demo_workspace of (res, s') \<Rightarrow>
      fst (run (GetDocument ''v'' ''d'') s') = Inl err_no_rows"
    by (simp add: demo_workspace_def name_taken_def case_prod_beta)
  then show ?thesis by (simp add: case_prod_beta)
qed

theorem LockTask_lost_witness:
  "case first_actions 1 (AddTaskTag ''w'' ''t'' ''tag'') demo_workspace of (rest, s1) \<Rightarrow>
    case run (LockTask ''w'' ''t'' ''a'') s1 of (locked, s2) \<Rightarrow>
    case run rest s2 of (tagged, s3) \<Rightarrow>
      fst (run (LockTask ''w'' ''t'' ''b'') s3) = Inr ()"
proof -
  have "the_task ''w'' ''t'' (tasks demo_workspace) = Some (hd (tasks demo_workspace))"
    "conns demo_workspace = []" "tsk_LockedBy (hd (tasks demo_workspace)) = []"
    "''tag'' \<notin> set (tsk_Tags (hd (tasks demo_workspace)))"
    "trim_space ''a'' \<noteq> []" "trim_space ''b'' \<noteq> []"
    by (simp_all add: demo_workspace_def trim_eval)
  from LockTask_lost [OF this(2,1,3-6)] show ?thesis by (auto split: prod.splits)
qed

theorem PauseWakeup_ResumeWakeup_witness:
  "case run (PauseWakeup ''w'' ''x'') demo_workspace of (paused, s1) \<Rightarrow>
    case run (ResumeWakeup ''w'' ''x'') (s1\<lparr>millis := 100\<rparr>) of (resumed, s2) \<Rightarrow>
      map_option wak_DueAtMS (List.find (\<lambda>x. wak_WorkspaceID x = ''w'' \<and> wak_ID x = ''x'') (wakeups s2)) = Some 140"
proof -
  have "List.find (\<lambda>x. wak_WorkspaceID x = ''w'' \<and> wak_ID x = ''x'') (wakeups demo_workspace) =
      Some (hd (wakeups demo_workspace))" "conns demo_workspace = []" "millis demo_workspace \<noteq> 0"
    "wak_FiredAtMS (hd (wakeups demo_workspace)) = 0" "wak_CancelledAtMS (hd (wakeups demo_workspace)) = 0"
    "wak_PausedAtMS (hd (wakeups demo_workspace)) = 0" "wak_PausedRemainingMS (hd (wakeups demo_workspace)) = 0"
    by (simp_all add: demo_workspace_def)
  from PauseWakeup_ResumeWakeup [OF this(2,1,4-7,3), of 100]
  show ?thesis by (auto split: prod.splits simp: demo_workspace_def int64_def)
qed

end
