(* ===== verification/Events.thy ===== *)
theory Events
  imports JsonEncode Contract
begin

text \<open>
  Sessions, requests and events of the control plane (\<^verbatim>\<open>pkg/contract/controlplane.go\<close>,
  \<^verbatim>\<open>controlplane_helpers.go\<close> and \<^verbatim>\<open>events.go\<close>), and what the code reads out of an event:
  its texts, its mode, its token usage and its costs. The payload of an event is a map of values of
  unknown type; no code tells a nil map from an empty one. Log probabilities are left out.
\<close>

section \<open>Sessions and requests\<close>

type_synonym SessionStatus = string

abbreviation SessionIdle :: SessionStatus where "SessionIdle \<equiv> ''idle''"
abbreviation SessionRunning :: SessionStatus where "SessionRunning \<equiv> ''running''"
abbreviation SessionInterrupted :: SessionStatus where "SessionInterrupted \<equiv> ''interrupted''"
abbreviation SessionStopped :: SessionStatus where "SessionStopped \<equiv> ''stopped''"
abbreviation SessionErrored :: SessionStatus where "SessionErrored \<equiv> ''errored''"

type_synonym payload = "(string \<times> gval) list"

record SessionState =
  ss_Status :: SessionStatus
  ss_ActiveTurnID :: string
  ss_LastError :: string
  ss_CWD :: string
  ss_Model :: string
  ss_Mode :: string
  ss_Usage :: TokenUsage
  ss_CostUSD :: float64
  ss_Title :: string

record RuntimeSession =
  rs_SchemaVersion :: string
  rs_SessionID :: string
  rs_Runtime :: string
  rs_Ownership :: string
  rs_Transport :: string
  rs_Status :: SessionStatus
  rs_ProviderSessionID :: string
  rs_ActiveTurnID :: string
  rs_CWD :: string
  rs_Model :: string
  rs_Mode :: string
  rs_Usage :: TokenUsage
  rs_CostUSD :: float64
  rs_Title :: string
  rs_CreatedAtMS :: int
  rs_UpdatedAtMS :: int
  rs_LastActivityAtMS :: int
  rs_LastError :: string
  rs_Metadata :: payload

definition no_session :: RuntimeSession where
  "no_session =
    \<lparr>rs_SchemaVersion = [], rs_SessionID = [], rs_Runtime = [], rs_Ownership = [],
     rs_Transport = [], rs_Status = [], rs_ProviderSessionID = [], rs_ActiveTurnID = [],
     rs_CWD = [], rs_Model = [], rs_Mode = [], rs_Usage = no_usage, rs_CostUSD = f0,
     rs_Title = [], rs_CreatedAtMS = 0, rs_UpdatedAtMS = 0, rs_LastActivityAtMS = 0,
     rs_LastError = [], rs_Metadata = []\<rparr>"

record RequestOption =
  ro_ID :: string
  ro_Label :: string
  ro_Kind :: string
  ro_Description :: string
  ro_IsDefault :: bool

record RequestQuestion =
  rq_ID :: string
  rq_Prompt :: string
  rq_Description :: string
  rq_Required :: bool
  rq_Options :: "RequestOption list"

record RequestToolContext =
  rt_Name :: string
  rt_Title :: string
  rt_Kind :: string
  rt_Command :: string
  rt_Description :: string

abbreviation RequestStatusOpen :: string where "RequestStatusOpen \<equiv> ''open''"
abbreviation RequestStatusResponded :: string where "RequestStatusResponded \<equiv> ''responded''"
abbreviation RequestStatusResolved :: string where "RequestStatusResolved \<equiv> ''resolved''"
abbreviation RequestStatusClosed :: string where "RequestStatusClosed \<equiv> ''closed''"

record PendingRequest =
  pr_SchemaVersion :: string
  pr_RequestID :: string
  pr_SessionID :: string
  pr_Runtime :: string
  pr_Kind :: string
  pr_NativeMethod :: string
  pr_Status :: string
  pr_Summary :: string
  pr_TurnID :: string
  pr_CreatedAtMS :: int
  pr_Tool :: "RequestToolContext option"
  pr_Options :: "RequestOption list"
  pr_Questions :: "RequestQuestion list"
  pr_Extensions :: payload

section \<open>Events\<close>

abbreviation EventAssistantMessageDelta :: string where "EventAssistantMessageDelta \<equiv> ''assistant.message.delta''"
abbreviation EventTurnStarted :: string where "EventTurnStarted \<equiv> ''turn.started''"
abbreviation EventTurnCompleted :: string where "EventTurnCompleted \<equiv> ''turn.completed''"
abbreviation EventTurnErrored :: string where "EventTurnErrored \<equiv> ''turn.errored''"
abbreviation EventTurnInterrupted :: string where "EventTurnInterrupted \<equiv> ''turn.interrupted''"
abbreviation EventSessionStopped :: string where "EventSessionStopped \<equiv> ''session.stopped''"
abbreviation EventSessionErrored :: string where "EventSessionErrored \<equiv> ''session.errored''"
abbreviation EventRequestOpened :: string where "EventRequestOpened \<equiv> ''request.opened''"
abbreviation EventRequestResponded :: string where "EventRequestResponded \<equiv> ''request.responded''"
abbreviation EventRequestResolved :: string where "EventRequestResolved \<equiv> ''request.resolved''"
abbreviation EventRequestClosed :: string where "EventRequestClosed \<equiv> ''request.closed''"

record RuntimeEvent =
  ev_SchemaVersion :: string
  ev_EventID :: string
  ev_RecordedAtMS :: int
  ev_Runtime :: string
  ev_SessionID :: string
  ev_ProviderSessionID :: string
  ev_Transport :: string
  ev_Ownership :: string
  ev_EventType :: string
  ev_NativeEventName :: string
  ev_Summary :: string
  ev_TurnID :: string
  ev_RequestID :: string
  ev_SessionState :: "SessionState option"
  ev_Payload :: payload
  ev_Request :: "PendingRequest option"

text \<open>The cost of a session is not part of the state that its events carry.\<close>

definition State :: "RuntimeSession \<Rightarrow> SessionState option" where
  "State session =
    (let state = \<lparr>ss_Status = rs_Status session, ss_ActiveTurnID = rs_ActiveTurnID session,
           ss_LastError = rs_LastError session, ss_CWD = rs_CWD session,
           ss_Model = rs_Model session, ss_Mode = rs_Mode session, ss_Usage = rs_Usage session,
           ss_CostUSD = f0, ss_Title = rs_Title session\<rparr>
     in if state = \<lparr>ss_Status = [], ss_ActiveTurnID = [], ss_LastError = [], ss_CWD = [],
           ss_Model = [], ss_Mode = [], ss_Usage = no_usage, ss_CostUSD = f0, ss_Title = []\<rparr>
        then None else Some state)"

definition NewRuntimeEvent ::
    "int \<Rightarrow> int \<Rightarrow> RuntimeSession \<Rightarrow> string \<Rightarrow> string \<Rightarrow> string \<Rightarrow> string \<Rightarrow> payload \<Rightarrow> RuntimeEvent" where
  "NewRuntimeEvent nanos millis session eventType nativeEventName turnID summary payload =
    \<lparr>ev_SchemaVersion = ControlPlaneSchemaVersion, ev_EventID = ''evt-'' @ decimal nanos,
     ev_RecordedAtMS = millis, ev_Runtime = rs_Runtime session,
     ev_SessionID = rs_SessionID session, ev_ProviderSessionID = rs_ProviderSessionID session,
     ev_Transport = rs_Transport session, ev_Ownership = rs_Ownership session,
     ev_EventType = eventType, ev_NativeEventName = nativeEventName, ev_Summary = summary,
     ev_TurnID = turnID, ev_RequestID = [], ev_SessionState = State session,
     ev_Payload = payload, ev_Request = None\<rparr>"

definition IsRequestEvent :: "RuntimeEvent \<Rightarrow> bool" where
  "IsRequestEvent event \<longleftrightarrow> ev_Request event \<noteq> None \<or> trim_space (ev_RequestID event) \<noteq> []"

definition IsTurnCompletedEvent :: "RuntimeEvent \<Rightarrow> bool" where
  "IsTurnCompletedEvent event \<longleftrightarrow> ev_EventType event = EventTurnCompleted"

definition IsTurnErroredEvent :: "RuntimeEvent \<Rightarrow> bool" where
  "IsTurnErroredEvent event \<longleftrightarrow>
    ev_EventType event = EventTurnErrored \<or> ev_EventType event = EventSessionErrored"

definition IsTerminalTurnEvent :: "RuntimeEvent \<Rightarrow> bool" where
  "IsTerminalTurnEvent event \<longleftrightarrow> IsTurnCompletedEvent event \<or> IsTurnErroredEvent event"

definition RequestStatusFromEvent :: "RuntimeEvent \<Rightarrow> string" where
  "RequestStatusFromEvent event =
    (let own = (case ev_Request event of Some r \<Rightarrow> pr_Status r | None \<Rightarrow> []) in
     if own \<noteq> [] then own
     else if ev_EventType event = EventRequestOpened then RequestStatusOpen
     else if ev_EventType event = EventRequestResponded then RequestStatusResponded
     else if ev_EventType event = EventRequestResolved then RequestStatusResolved
     else if ev_EventType event = EventRequestClosed then RequestStatusClosed
     else [])"

section \<open>Texts\<close>

definition map_get :: "payload \<Rightarrow> string \<Rightarrow> gval" where
  "map_get m k = (case map_of m k of None \<Rightarrow> GNil | Some v \<Rightarrow> v)"

definition any_string :: "gval \<Rightarrow> string" where
  "any_string v =
    (case v of
       GStr s \<Rightarrow> trim_space s
     | GNumber s \<Rightarrow> trim_space s
     | GOther (Some s) _ \<Rightarrow> trim_space s
     | GNil \<Rightarrow> []
     | _ \<Rightarrow> (case marshal_any v of None \<Rightarrow> [] | Some j \<Rightarrow> trim_space j))"

definition PayloadString :: "payload \<Rightarrow> string \<Rightarrow> string" where
  "PayloadString payload key = any_string (map_get payload key)"

definition EventPayloadString :: "RuntimeEvent \<Rightarrow> string \<Rightarrow> string" where
  "EventPayloadString event key = PayloadString (ev_Payload event) key"

definition EventDeltaText :: "RuntimeEvent \<Rightarrow> string" where
  "EventDeltaText event =
    (if ev_EventType event \<noteq> EventAssistantMessageDelta then []
     else if ev_NativeEventName event = ''message.part.updated'' then []
     else (case map_get (ev_Payload event) ''delta'' of
             GStr s \<Rightarrow> s
           | GNumber s \<Rightarrow> s
           | GOther (Some s) _ \<Rightarrow> s
           | _ \<Rightarrow> PayloadString (ev_Payload event) ''delta''))"

definition EventFinalText :: "RuntimeEvent \<Rightarrow> string" where
  "EventFinalText event =
    firstNonEmpty (map (EventPayloadString event)
      [''final_structured_result'', ''final_result'', ''final_text'', ''assistant_text'',
       ''result'', ''text''])"

definition EventErrorText :: "RuntimeEvent \<Rightarrow> string" where
  "EventErrorText event =
    firstNonEmpty
      [EventPayloadString event ''last_error'', EventPayloadString event ''error'', ev_Summary event]"

definition EventMode :: "RuntimeEvent \<Rightarrow> string" where
  "EventMode event =
    (let own = (case ev_SessionState event of Some s \<Rightarrow> trim_space (ss_Mode s) | None \<Rightarrow> []) in
     if own \<noteq> [] then own
     else firstNonEmpty (map (EventPayloadString event) [''mode'', ''current_mode'', ''current_mode_id'']))"

section \<open>Numbers\<close>

text \<open>
  The value and whether it is one. The value counts even where it is none: a text that is a number
  out of range gives the nearest \<open>int64\<close>.
\<close>

definition int64Value :: "(float64 \<Rightarrow> int) \<Rightarrow> gval \<Rightarrow> int \<times> bool" where
  "int64Value oor value =
    (case value of
       GInt i \<Rightarrow> (i, True)
     | GFloat32 x \<Rightarrow> (float_to_int64 oor x, True)
     | GFloat x \<Rightarrow> (float_to_int64 oor x, True)
     | GNumber s \<Rightarrow> parse_int s
     | GStr s \<Rightarrow> parse_int (trim_space s)
     | _ \<Rightarrow> (0, False))"

definition float64Value :: "gval \<Rightarrow> float64 option" where
  "float64Value value =
    (case value of
       GFloat32 x \<Rightarrow> Some x
     | GFloat x \<Rightarrow> Some x
     | GInt i \<Rightarrow> Some (float_of_int i)
     | GNumber s \<Rightarrow> parse_float64 s
     | GStr s \<Rightarrow> parse_float64 (trim_space s)
     | _ \<Rightarrow> None)"

fun value_at :: "gval \<Rightarrow> string list \<Rightarrow> gval option" where
  "value_at current [] = Some current"
| "value_at (GMap es) (key # keys) = value_at (map_get (case_option [] id es) key) keys"
| "value_at current (key # keys) = None"

definition tokenUsageIfSet :: "TokenUsage \<Rightarrow> TokenUsage option" where
  "tokenUsageIfSet usage = (if usage \<noteq> no_usage then Some usage else None)"

text \<open>A counter under its first name, or else under the second.\<close>

definition counter :: "(float64 \<Rightarrow> int) \<Rightarrow> payload \<Rightarrow> string \<Rightarrow> string \<Rightarrow> int \<times> bool" where
  "counter oor values k1 k2 =
    (let r = int64Value oor (map_get values k1) in
     if snd r then r else int64Value oor (map_get values k2))"

definition usage_from_map :: "(float64 \<Rightarrow> int) \<Rightarrow> payload \<Rightarrow> TokenUsage option" where
  "usage_from_map oor values =
    (let input = counter oor values ''input_tokens'' ''inputTokens'';
         out = counter oor values ''output_tokens'' ''outputTokens'';
         reasoning = counter oor values ''reasoning_tokens'' ''reasoningOutputTokens'';
         cached = counter oor values ''cached_tokens'' ''cachedInputTokens'';
         total = counter oor values ''total_tokens'' ''totalTokens'';
         seen = (snd input \<or> snd out \<or> snd reasoning \<or> snd cached \<or> snd total);
         used = int64Value oor (map_get values ''used'');
         total' = (if \<not> seen \<and> snd used then fst used else fst total)
     in if \<not> seen \<and> \<not> snd used then None
        else Some \<lparr>tu_Input = fst input, tu_Output = fst out, tu_Reasoning = fst reasoning,
                   tu_Cached = fst cached,
                   tu_Total = (if total' = 0
                     then int64 (int64 (fst input + fst out) + fst reasoning) else total')\<rparr>)"

definition tokenUsageFromValue :: "(float64 \<Rightarrow> int) \<Rightarrow> gval \<Rightarrow> TokenUsage option" where
  "tokenUsageFromValue oor value =
    (case value of
       GUsage u \<Rightarrow> tokenUsageIfSet u
     | GMap es \<Rightarrow> usage_from_map oor (case_option [] id es)
     | _ \<Rightarrow> None)"

definition tokenUsageFromPath :: "(float64 \<Rightarrow> int) \<Rightarrow> payload \<Rightarrow> string list \<Rightarrow> TokenUsage option" where
  "tokenUsageFromPath oor obj keys =
    Option.bind (value_at (GMap (Some obj)) keys) (tokenUsageFromValue oor)"

definition float64ValueFromPath :: "payload \<Rightarrow> string list \<Rightarrow> float64 option" where
  "float64ValueFromPath obj keys = Option.bind (value_at (GMap (Some obj)) keys) float64Value"

text \<open>The first of some options that is not \<open>None\<close>.\<close>

fun first_some :: "'a option list \<Rightarrow> 'a option" where
  "first_some [] = None"
| "first_some (x # xs) = (case x of Some v \<Rightarrow> Some v | None \<Rightarrow> first_some xs)"

definition EventTokenUsage :: "(float64 \<Rightarrow> int) \<Rightarrow> RuntimeEvent \<Rightarrow> TokenUsage option" where
  "EventTokenUsage oor event =
    first_some
      [Option.bind (ev_SessionState event) (\<lambda>s. tokenUsageIfSet (ss_Usage s)),
       tokenUsageFromValue oor (map_get (ev_Payload event) ''usage''),
       tokenUsageFromValue oor (map_get (ev_Payload event) ''token_count''),
       tokenUsageFromPath oor (ev_Payload event) [''meta'', ''quota'', ''token_count''],
       tokenUsageFromPath oor (ev_Payload event) [''meta'', ''token_count''],
       tokenUsageFromPath oor (ev_Payload event) [''tokenUsage'', ''total''],
       tokenUsageFromPath oor (ev_Payload event) [''tokenUsage'', ''last''],
       tokenUsageFromValue oor (GMap (Some (ev_Payload event)))]"

definition EventCostUSD :: "RuntimeEvent \<Rightarrow> float64 option" where
  "EventCostUSD event =
    first_some
      [(case ev_SessionState event of
          Some s \<Rightarrow> if float_less f0 (ss_CostUSD s) then Some (ss_CostUSD s) else None
        | None \<Rightarrow> None),
       float64Value (map_get (ev_Payload event) ''cost''),
       float64Value (map_get (ev_Payload event) ''cost_usd''),
       float64ValueFromPath (ev_Payload event) [''meta'', ''quota'', ''cost''],
       float64ValueFromPath (ev_Payload event) [''meta'', ''cost'']]"

end
