(* ===== verification/ControlState.thy ===== *)
theory ControlState
  imports Events "HOL-Library.AList"
begin

text \<open>
  The state of the control plane's service: the event bus, the attention queue, the directory of
  live sessions and the ledger of every session (\<^verbatim>\<open>internal/controlplane/eventbus.go\<close>,
  \<^verbatim>\<open>attention.go\<close>, \<^verbatim>\<open>directory.go\<close>, \<^verbatim>\<open>sessionledger.go\<close>). Every operation holds the lock of its
  part from its first access to its last, so it is a function of that part's state. A Go map is an
  association list with different keys; its order is the order of an iteration.
\<close>

section \<open>The event bus\<close>

text \<open>
  A subscriber has a channel with a buffer. Receivers take from the buffer; a channel without one
  hands an event only to a receiver that waits at that moment, which no caller relies on: they all
  ask for a buffer.
\<close>

record channel =
  ch_cap :: nat
  ch_queue :: "RuntimeEvent list"

record EventBus =
  nextID :: nat
  subscribers :: "(nat \<times> channel) list"

definition NewEventBus :: EventBus where
  "NewEventBus = \<lparr>nextID = 0, subscribers = []\<rparr>"

definition offer :: "RuntimeEvent \<Rightarrow> channel \<Rightarrow> channel" where
  "offer event c =
    (if length (ch_queue c) < ch_cap c then c\<lparr>ch_queue := ch_queue c @ [event]\<rparr> else c)"

text \<open>
  \<open>Publish\<close> only holds the read lock, so that two of them may be under way at the same time and two
  subscribers may get their events in different orders. A single channel takes one event after the other: for
  one subscriber, to whom the theorems speak, the calls can be taken as steps in the order its channel takes them.
\<close>

definition Publish :: "RuntimeEvent \<Rightarrow> EventBus \<Rightarrow> EventBus" where
  "Publish event b = b\<lparr>subscribers := map (map_prod id (offer event)) (subscribers b)\<rparr>"

definition Subscribe :: "nat \<Rightarrow> EventBus \<Rightarrow> nat \<times> EventBus" where
  "Subscribe buffer b =
    (let identifier = nextID b + 1 in
     (identifier, b\<lparr>nextID := identifier,
        subscribers := AList.update identifier \<lparr>ch_cap = buffer, ch_queue = []\<rparr> (subscribers b)\<rparr>))"

text \<open>What the function does that \<open>Subscribe\<close> returns; a second call finds nothing.\<close>

definition Unsubscribe :: "nat \<Rightarrow> EventBus \<Rightarrow> EventBus" where
  "Unsubscribe identifier b = b\<lparr>subscribers := AList.delete identifier (subscribers b)\<rparr>"

text \<open>A receiver takes the next event of its channel, if there is one.\<close>

definition Receive :: "nat \<Rightarrow> EventBus \<Rightarrow> RuntimeEvent option \<times> EventBus" where
  "Receive identifier b =
    (case map_of (subscribers b) identifier of
       None \<Rightarrow> (None, b)
     | Some c \<Rightarrow>
         (case ch_queue c of
            [] \<Rightarrow> (None, b)
          | e # es \<Rightarrow>
              (Some e, b\<lparr>subscribers := AList.update identifier (c\<lparr>ch_queue := es\<rparr>) (subscribers b)\<rparr>)))"

section \<open>The attention queue\<close>

abbreviation AttentionStatusQueued :: string where "AttentionStatusQueued \<equiv> ''queued''"

record AttentionItem =
  at_SchemaVersion :: string
  at_ID :: string
  at_Status :: string
  at_Action :: string
  at_Source :: string
  at_Runtime :: string
  at_SessionID :: string
  at_TurnID :: string
  at_Priority :: int
  at_Text :: string
  at_SpeakableText :: string
  at_Target :: payload
  at_Voice :: string
  at_InterruptPolicy :: string
  at_Metadata :: payload
  at_Result :: payload
  at_Error :: string
  at_CreatedAtMS :: int
  at_UpdatedAtMS :: int

type_synonym AttentionQueue = "(string \<times> AttentionItem) list"

record AttentionListFilter =
  af_Status :: string
  af_Action :: string
  af_SessionID :: string
  af_Limit :: int

record AttentionUpdate =
  au_Status :: string
  au_Metadata :: "payload option"
  au_Result :: "payload option"
  au_Error :: string

text \<open>\<open>newIdentifier\<close>, given the nanoseconds of the clock.\<close>

definition newIdentifier :: "int \<Rightarrow> string \<Rightarrow> string" where
  "newIdentifier nanos kind = kind @ ''-'' @ decimal nanos"

definition Enqueue :: "int \<Rightarrow> int \<Rightarrow> AttentionItem \<Rightarrow> AttentionQueue \<Rightarrow> AttentionItem \<times> AttentionQueue" where
  "Enqueue nanos now item q =
    (let item = item
       \<lparr>at_ID := if at_ID item = [] then newIdentifier nanos ''attention'' else at_ID item,
        at_SchemaVersion := if at_SchemaVersion item = [] then ControlPlaneSchemaVersion
                            else at_SchemaVersion item,
        at_Status := if at_Status item = [] then AttentionStatusQueued else at_Status item,
        at_CreatedAtMS := if at_CreatedAtMS item = 0 then now else at_CreatedAtMS item,
        at_UpdatedAtMS := now\<rparr>
     in (item, AList.update (at_ID item) item q))"

definition attention_Get :: "string \<Rightarrow> AttentionQueue \<Rightarrow> AttentionItem option" where
  "attention_Get itemID q = map_of q itemID"

definition attention_match :: "AttentionListFilter \<Rightarrow> AttentionItem \<Rightarrow> bool" where
  "attention_match f item \<longleftrightarrow>
    (af_Status f = [] \<or> at_Status item = af_Status f)
    \<and> (af_Action f = [] \<or> at_Action item = af_Action f)
    \<and> (af_SessionID f = [] \<or> at_SessionID item = af_SessionID f)"

definition attention_cmp :: "AttentionItem \<Rightarrow> AttentionItem \<Rightarrow> int" where
  "attention_cmp left right =
    (if at_Priority left > at_Priority right then -1
     else if at_Priority left < at_Priority right then 1
     else if at_UpdatedAtMS left > at_UpdatedAtMS right then -1
     else if at_UpdatedAtMS left < at_UpdatedAtMS right then 1
     else string_cmp (at_ID left) (at_ID right))"

definition attention_List :: "AttentionListFilter \<Rightarrow> AttentionQueue \<Rightarrow> AttentionItem list" where
  "attention_List f q =
    (let items = sort_func attention_cmp (filter (attention_match f) (map snd q)) in
     if 0 < af_Limit f \<and> af_Limit f < int (length items) then take (nat (af_Limit f)) items
     else items)"

definition attention_Update ::
    "int \<Rightarrow> string \<Rightarrow> AttentionUpdate \<Rightarrow> AttentionQueue \<Rightarrow> AttentionItem option \<times> AttentionQueue" where
  "attention_Update now itemID update q =
    (case map_of q itemID of
       None \<Rightarrow> (None, q)
     | Some item \<Rightarrow>
         let item = item
           \<lparr>at_Status := if au_Status update = [] then at_Status item else au_Status update,
            at_Metadata := case_option (at_Metadata item) (\<lambda>m. m) (au_Metadata update),
            at_Result := case_option (at_Result item) (\<lambda>r. r) (au_Result update),
            at_Error := if au_Error update = [] then at_Error item else au_Error update,
            at_UpdatedAtMS := now\<rparr>
         in (Some item, AList.update itemID item q))"

section \<open>The directory of live sessions\<close>

type_synonym SessionDirectory = "(string \<times> RuntimeSession) list"

definition directory_Upsert :: "RuntimeSession \<Rightarrow> SessionDirectory \<Rightarrow> SessionDirectory" where
  "directory_Upsert session d = AList.update (rs_SessionID session) session d"

definition directory_Delete :: "string \<Rightarrow> SessionDirectory \<Rightarrow> SessionDirectory" where
  "directory_Delete sessionID d = AList.delete sessionID d"

definition directory_Get :: "string \<Rightarrow> SessionDirectory \<Rightarrow> RuntimeSession option" where
  "directory_Get sessionID d = map_of d sessionID"

definition session_cmp :: "RuntimeSession \<Rightarrow> RuntimeSession \<Rightarrow> int" where
  "session_cmp left right =
    (if rs_UpdatedAtMS left < rs_UpdatedAtMS right then 1
     else if rs_UpdatedAtMS left > rs_UpdatedAtMS right then -1
     else string_cmp (rs_SessionID left) (rs_SessionID right))"

definition directory_List :: "SessionDirectory \<Rightarrow> RuntimeSession list" where
  "directory_List d = sort_func session_cmp (map snd d)"

text \<open>A new text replaces an old one unless it is empty.\<close>

definition over :: "string \<Rightarrow> string \<Rightarrow> string" where
  "over new old = (if new = [] then old else new)"

text \<open>What directory and ledger both take over from the state, the payload and the head of an event.\<close>

definition event_stamps :: "RuntimeEvent \<Rightarrow> RuntimeSession \<Rightarrow> RuntimeSession" where
  "event_stamps event r = r
    \<lparr>rs_UpdatedAtMS := ev_RecordedAtMS event,
     rs_LastActivityAtMS := ev_RecordedAtMS event,
     rs_ProviderSessionID := over (ev_ProviderSessionID event) (rs_ProviderSessionID r),
     rs_ActiveTurnID := over (ev_TurnID event) (rs_ActiveTurnID r)\<rparr>"

definition state_texts :: "SessionState \<Rightarrow> RuntimeSession \<Rightarrow> RuntimeSession" where
  "state_texts st r = r
    \<lparr>rs_Status := over (ss_Status st) (rs_Status r),
     rs_ActiveTurnID := over (ss_ActiveTurnID st) (rs_ActiveTurnID r),
     rs_LastError := over (ss_LastError st) (rs_LastError r),
     rs_CWD := over (ss_CWD st) (rs_CWD r),
     rs_Model := over (ss_Model st) (rs_Model r),
     rs_Mode := over (ss_Mode st) (rs_Mode r),
     rs_Title := over (ss_Title st) (rs_Title r)\<rparr>"

definition payload_text :: "payload \<Rightarrow> string \<Rightarrow> string" where
  "payload_text p key = (case map_get p key of GStr s \<Rightarrow> s | _ \<Rightarrow> [])"

definition payload_texts :: "RuntimeEvent \<Rightarrow> RuntimeSession \<Rightarrow> RuntimeSession" where
  "payload_texts event r = r
    \<lparr>rs_Status := over (payload_text (ev_Payload event) ''status'') (rs_Status r),
     rs_LastError := over (payload_text (ev_Payload event) ''last_error'') (rs_LastError r),
     rs_Mode := over (EventMode event) (rs_Mode r)\<rparr>"

definition directory_state :: "RuntimeEvent \<Rightarrow> RuntimeSession \<Rightarrow> RuntimeSession" where
  "directory_state event r =
    (case ev_SessionState event of
       None \<Rightarrow> r
     | Some st \<Rightarrow> (state_texts st r)
         \<lparr>rs_Usage := if ss_Usage st \<noteq> no_usage then ss_Usage st else rs_Usage r,
          rs_CostUSD := if float_less f0 (ss_CostUSD st) then ss_CostUSD st else rs_CostUSD r\<rparr>)"

definition directory_event :: "(float64 \<Rightarrow> int) \<Rightarrow> RuntimeEvent \<Rightarrow> RuntimeSession \<Rightarrow> RuntimeSession" where
  "directory_event oor event r =
    (let r = payload_texts event (directory_state event (event_stamps event r)) in
     r\<lparr>rs_Usage := case_option (rs_Usage r) id (EventTokenUsage oor event),
       rs_CostUSD := case_option (rs_CostUSD r) id (EventCostUSD event)\<rparr>)"

definition directory_UpdateFromEvent ::
    "(float64 \<Rightarrow> int) \<Rightarrow> RuntimeEvent \<Rightarrow> SessionDirectory \<Rightarrow> SessionDirectory" where
  "directory_UpdateFromEvent oor event d =
    (if ev_SessionID event = [] then d
     else (case map_of d (ev_SessionID event) of
             None \<Rightarrow> d
           | Some r \<Rightarrow> AList.update (ev_SessionID event) (directory_event oor event r) d))"

section \<open>The ledger of sessions\<close>

record TokenUsageBreakdown =
  ub_Key :: string
  ub_Usage :: TokenUsage

record CostBreakdown =
  cb_Key :: string
  cb_CostUSD :: float64

record TrackedSession =
  tr_Session :: RuntimeSession
  tr_StartedAtMS :: int
  tr_EndedAtMS :: int
  tr_LastEventType :: string
  tr_UsageByModel :: "TokenUsageBreakdown list"
  tr_UsageByMode :: "TokenUsageBreakdown list"
  tr_CostByModel :: "CostBreakdown list"
  tr_CostByMode :: "CostBreakdown list"

type_synonym usages = "(string \<times> TokenUsage) list"
type_synonym costs = "(string \<times> float64) list"

record trackedSessionState =
  record_of :: TrackedSession
  lastObservedUsage :: TokenUsage
  lastObservedCost :: float64
  usageObserved :: bool
  costObserved :: bool
  usageByModel :: usages
  usageByMode :: usages
  costByModel :: costs
  costByMode :: costs

record SessionLedger =
  records :: "(string \<times> trackedSessionState) list"
  providerToID :: "(string \<times> string) list"

definition NewSessionLedger :: SessionLedger where
  "NewSessionLedger = \<lparr>records = [], providerToID = []\<rparr>"

definition usage_cmp :: "TokenUsageBreakdown \<Rightarrow> TokenUsageBreakdown \<Rightarrow> int" where
  "usage_cmp left right =
    (if tu_Total (ub_Usage left) > tu_Total (ub_Usage right) then -1
     else if tu_Total (ub_Usage left) < tu_Total (ub_Usage right) then 1
     else string_cmp (ub_Key left) (ub_Key right))"

definition tokenBreakdowns :: "usages \<Rightarrow> TokenUsageBreakdown list" where
  "tokenBreakdowns values =
    sort_func usage_cmp
      (map (\<lambda>(k, u). \<lparr>ub_Key = k, ub_Usage = u\<rparr>) (filter (\<lambda>(k, u). k \<noteq> []) values))"

definition cost_cmp :: "CostBreakdown \<Rightarrow> CostBreakdown \<Rightarrow> int" where
  "cost_cmp left right =
    (if float_less (cb_CostUSD right) (cb_CostUSD left) then -1
     else if float_less (cb_CostUSD left) (cb_CostUSD right) then 1
     else string_cmp (cb_Key left) (cb_Key right))"

definition costBreakdowns :: "costs \<Rightarrow> CostBreakdown list" where
  "costBreakdowns values =
    sort_func cost_cmp
      (map (\<lambda>(k, c). \<lparr>cb_Key = k, cb_CostUSD = c\<rparr>) (filter (\<lambda>(k, c). k \<noteq> []) values))"

definition deltaInt64 :: "int \<Rightarrow> int \<Rightarrow> int" where
  "deltaInt64 current previous = (if previous \<le> current then int64 (current - previous) else current)"

definition usageDelta :: "TokenUsage \<Rightarrow> TokenUsage \<Rightarrow> bool \<Rightarrow> TokenUsage" where
  "usageDelta current previous previousSeen =
    (if \<not> previousSeen then current
     else \<lparr>tu_Input = deltaInt64 (tu_Input current) (tu_Input previous),
           tu_Output = deltaInt64 (tu_Output current) (tu_Output previous),
           tu_Reasoning = deltaInt64 (tu_Reasoning current) (tu_Reasoning previous),
           tu_Cached = deltaInt64 (tu_Cached current) (tu_Cached previous),
           tu_Total = deltaInt64 (tu_Total current) (tu_Total previous)\<rparr>)"

definition addTokenUsage :: "TokenUsage \<Rightarrow> TokenUsage \<Rightarrow> TokenUsage" where
  "addTokenUsage left right =
    \<lparr>tu_Input = int64 (tu_Input left + tu_Input right),
     tu_Output = int64 (tu_Output left + tu_Output right),
     tu_Reasoning = int64 (tu_Reasoning left + tu_Reasoning right),
     tu_Cached = int64 (tu_Cached left + tu_Cached right),
     tu_Total = int64 (tu_Total left + tu_Total right)\<rparr>"

definition costDelta :: "float64 \<Rightarrow> float64 \<Rightarrow> bool \<Rightarrow> float64" where
  "costDelta current previous previousSeen =
    (if \<not> previousSeen then current
     else if float_le previous current then float_sub current previous
     else current)"

definition mergeRuntimeSession :: "RuntimeSession \<Rightarrow> RuntimeSession \<Rightarrow> RuntimeSession" where
  "mergeRuntimeSession current new =
    \<lparr>rs_SchemaVersion = over (rs_SchemaVersion new) (rs_SchemaVersion current),
     rs_SessionID = over (rs_SessionID new) (rs_SessionID current),
     rs_Runtime = over (rs_Runtime new) (rs_Runtime current),
     rs_Ownership = over (rs_Ownership new) (rs_Ownership current),
     rs_Transport = over (rs_Transport new) (rs_Transport current),
     rs_Status = over (rs_Status new) (rs_Status current),
     rs_ProviderSessionID = over (rs_ProviderSessionID new) (rs_ProviderSessionID current),
     rs_ActiveTurnID = over (rs_ActiveTurnID new) (rs_ActiveTurnID current),
     rs_CWD = over (rs_CWD new) (rs_CWD current),
     rs_Model = over (rs_Model new) (rs_Model current),
     rs_Mode = over (rs_Mode new) (rs_Mode current),
     rs_Usage = (if rs_Usage new \<noteq> no_usage then rs_Usage new else rs_Usage current),
     rs_CostUSD = (if float_less f0 (rs_CostUSD new) then rs_CostUSD new else rs_CostUSD current),
     rs_Title = over (rs_Title new) (rs_Title current),
     rs_CreatedAtMS = (if rs_CreatedAtMS new \<noteq> 0 then rs_CreatedAtMS new else rs_CreatedAtMS current),
     rs_UpdatedAtMS = (if rs_UpdatedAtMS new \<noteq> 0 then rs_UpdatedAtMS new else rs_UpdatedAtMS current),
     rs_LastActivityAtMS =
       (if rs_LastActivityAtMS new \<noteq> 0 then rs_LastActivityAtMS new else rs_LastActivityAtMS current),
     rs_LastError = over (rs_LastError new) (rs_LastError current),
     rs_Metadata = (if rs_Metadata new \<noteq> [] then rs_Metadata new else rs_Metadata current)\<rparr>"

definition new_tracked :: trackedSessionState where
  "new_tracked =
    \<lparr>record_of = \<lparr>tr_Session = no_session, tr_StartedAtMS = 0, tr_EndedAtMS = 0,
       tr_LastEventType = [], tr_UsageByModel = [], tr_UsageByMode = [], tr_CostByModel = [],
       tr_CostByMode = []\<rparr>,
     lastObservedUsage = no_usage, lastObservedCost = f0, usageObserved = False,
     costObserved = False, usageByModel = [], usageByMode = [], costByModel = [], costByMode = []\<rparr>"

definition getOrCreateLocked :: "SessionLedger \<Rightarrow> string \<Rightarrow> trackedSessionState" where
  "getOrCreateLocked l sessionID = case_option new_tracked id (map_of (records l) sessionID)"

text \<open>Brings the sorted breakdowns of a record up to date.\<close>

definition with_breakdowns :: "trackedSessionState \<Rightarrow> TrackedSession \<Rightarrow> TrackedSession" where
  "with_breakdowns t r = r
    \<lparr>tr_UsageByModel := tokenBreakdowns (usageByModel t),
     tr_UsageByMode := tokenBreakdowns (usageByMode t),
     tr_CostByModel := costBreakdowns (costByModel t),
     tr_CostByMode := costBreakdowns (costByMode t)\<rparr>"

definition ledger_Upsert :: "RuntimeSession \<Rightarrow> SessionLedger \<Rightarrow> SessionLedger" where
  "ledger_Upsert session l =
    (if rs_SessionID session = [] then l
     else
       let t = getOrCreateLocked l (rs_SessionID session);
           r = record_of t;
           merged = (mergeRuntimeSession (tr_Session r) session)
             \<lparr>rs_SchemaVersion := ControlPlaneSchemaVersion, rs_Runtime := rs_Runtime session,
              rs_Transport := rs_Transport session, rs_Ownership := rs_Ownership session,
              rs_SessionID := rs_SessionID session,
              rs_ProviderSessionID := rs_ProviderSessionID session\<rparr>;
           r' = with_breakdowns t (r
             \<lparr>tr_Session := merged,
              tr_StartedAtMS := if tr_StartedAtMS r = 0 then rs_CreatedAtMS session
                                else tr_StartedAtMS r\<rparr>)
       in l\<lparr>records := AList.update (rs_SessionID session) (t\<lparr>record_of := r'\<rparr>) (records l),
            providerToID := if rs_ProviderSessionID session = [] then providerToID l
              else AList.update (rs_ProviderSessionID session) (rs_SessionID session)
                     (providerToID l)\<rparr>)"

definition cloneTrackedSession :: "trackedSessionState \<Rightarrow> TrackedSession" where
  "cloneTrackedSession t = with_breakdowns t (record_of t)"

definition lookupLocked :: "SessionLedger \<Rightarrow> string \<Rightarrow> string \<Rightarrow> trackedSessionState option" where
  "lookupLocked l sessionID providerSessionID =
    (if sessionID \<noteq> [] then map_of (records l) sessionID
     else if providerSessionID = [] then None
     else Option.bind (map_of (providerToID l) providerSessionID) (map_of (records l)))"

definition ledger_Get :: "string \<Rightarrow> string \<Rightarrow> SessionLedger \<Rightarrow> TrackedSession option" where
  "ledger_Get sessionID providerSessionID l =
    map_option cloneTrackedSession (lookupLocked l sessionID providerSessionID)"

definition ledger_List :: "SessionLedger \<Rightarrow> TrackedSession list" where
  "ledger_List l =
    sort_func (\<lambda>a b. session_cmp (tr_Session a) (tr_Session b))
      (map (cloneTrackedSession \<circ> snd) (records l))"

text \<open>The parts of \<open>UpdateFromEvent\<close>, in the order of the code.\<close>

definition ledger_head :: "RuntimeEvent \<Rightarrow> RuntimeSession \<Rightarrow> RuntimeSession" where
  "ledger_head event r =
    (let r = r\<lparr>rs_SchemaVersion := ControlPlaneSchemaVersion\<rparr>;
         r = (if rs_SessionID r = []
              then r\<lparr>rs_SessionID := ev_SessionID event, rs_Runtime := ev_Runtime event,
                     rs_Transport := ev_Transport event, rs_Ownership := ev_Ownership event,
                     rs_CreatedAtMS := ev_RecordedAtMS event\<rparr>
              else r)
     in event_stamps event r)"

definition ledger_state :: "(float64 \<Rightarrow> int) \<Rightarrow> RuntimeEvent \<Rightarrow> RuntimeSession \<Rightarrow> RuntimeSession" where
  "ledger_state oor event r =
    (case ev_SessionState event of
       None \<Rightarrow> r
     | Some st \<Rightarrow> (state_texts st r)
         \<lparr>rs_Usage := case_option (rs_Usage r) id (EventTokenUsage oor event),
          rs_CostUSD := case_option (rs_CostUSD r) id (EventCostUSD event)\<rparr>)"

definition add_cost :: "string \<Rightarrow> float64 \<Rightarrow> costs \<Rightarrow> costs" where
  "add_cost key delta m =
    (if key \<noteq> [] \<and> float_less f0 delta
     then AList.update key (float_add (case_option f0 id (map_of m key)) delta) m else m)"

definition count_cost ::
    "RuntimeEvent \<Rightarrow> RuntimeSession \<times> trackedSessionState \<Rightarrow> RuntimeSession \<times> trackedSessionState" where
  "count_cost event = (\<lambda>(r, t).
    case EventCostUSD event of
      None \<Rightarrow> (r, t)
    | Some cost \<Rightarrow>
        let delta = costDelta cost (lastObservedCost t) (costObserved t) in
        (r\<lparr>rs_CostUSD := cost\<rparr>,
         t\<lparr>lastObservedCost := cost, costObserved := True,
           costByModel := add_cost (rs_Model r) delta (costByModel t),
           costByMode := add_cost (rs_Mode r) delta (costByMode t)\<rparr>))"

definition add_usage :: "string \<Rightarrow> TokenUsage \<Rightarrow> usages \<Rightarrow> usages" where
  "add_usage key delta m =
    (if key \<noteq> [] \<and> delta \<noteq> no_usage
     then AList.update key (addTokenUsage (case_option no_usage id (map_of m key)) delta) m else m)"

definition count_usage ::
    "(float64 \<Rightarrow> int) \<Rightarrow> RuntimeEvent \<Rightarrow> RuntimeSession \<times> trackedSessionState
     \<Rightarrow> RuntimeSession \<times> trackedSessionState" where
  "count_usage oor event = (\<lambda>(r, t).
    case EventTokenUsage oor event of
      None \<Rightarrow> (r, t)
    | Some usage \<Rightarrow>
        let delta = usageDelta usage (lastObservedUsage t) (usageObserved t) in
        (r\<lparr>rs_Usage := usage\<rparr>,
         t\<lparr>lastObservedUsage := usage, usageObserved := True,
           usageByModel := add_usage (rs_Model r) delta (usageByModel t),
           usageByMode := add_usage (rs_Mode r) delta (usageByMode t)\<rparr>))"

definition event_end :: "RuntimeEvent \<Rightarrow> RuntimeSession \<Rightarrow> RuntimeSession" where
  "event_end event r =
    (if ev_EventType event = EventSessionStopped then r\<lparr>rs_Status := SessionStopped\<rparr>
     else if ev_EventType event = EventSessionErrored then r\<lparr>rs_Status := SessionErrored\<rparr>
     else if ev_EventType event = EventTurnInterrupted then r\<lparr>rs_Status := SessionInterrupted\<rparr>
     else r)"

definition track_event :: "(float64 \<Rightarrow> int) \<Rightarrow> RuntimeEvent \<Rightarrow> trackedSessionState \<Rightarrow> trackedSessionState" where
  "track_event oor event t =
    (let old = record_of t;
         r = payload_texts event (ledger_state oor event (ledger_head event (tr_Session old)));
         (r, t) = count_usage oor event (count_cost event (r, t));
         record' = with_breakdowns t (old
           \<lparr>tr_Session := event_end event r,
            tr_StartedAtMS := if rs_SessionID (tr_Session old) = [] then ev_RecordedAtMS event
                              else tr_StartedAtMS old,
            tr_EndedAtMS := if ev_EventType event = EventSessionStopped
                               \<or> ev_EventType event = EventSessionErrored
                            then ev_RecordedAtMS event else tr_EndedAtMS old,
            tr_LastEventType := ev_EventType event\<rparr>)
     in t\<lparr>record_of := record'\<rparr>)"

definition ledger_UpdateFromEvent :: "(float64 \<Rightarrow> int) \<Rightarrow> RuntimeEvent \<Rightarrow> SessionLedger \<Rightarrow> SessionLedger" where
  "ledger_UpdateFromEvent oor event l =
    (if ev_SessionID event = [] then l
     else l\<lparr>records := AList.update (ev_SessionID event)
              (track_event oor event (getOrCreateLocked l (ev_SessionID event))) (records l),
            providerToID := if ev_ProviderSessionID event = [] then providerToID l
              else AList.update (ev_ProviderSessionID event) (ev_SessionID event) (providerToID l)\<rparr>)"

end
