(* ===== verification/ControlStateSpec.thy ===== *)
theory ControlStateSpec
  imports ControlState "HOL-Library.Sublist" "HOL-Library.Multiset"
begin

text \<open>
  What the state of the service promises: a subscriber of the event bus sees the published events
  in order, whatever the other subscribers do, and all of them if it does not fall behind by more
  than its buffer; the attention queue lists exactly what is asked for, the most urgent first; and
  the ledger attributes every token of a session to one of its models.
\<close>

section \<open>The event bus\<close>

datatype bus_op =
  OPublish RuntimeEvent | OReceive nat | OSubscribe nat | OUnsubscribe nat

text \<open>The operations one after the other; the result tells who received what.\<close>

fun bus_run :: "bus_op list \<Rightarrow> EventBus \<Rightarrow> (nat \<times> RuntimeEvent) list \<times> EventBus" where
  "bus_run [] b = ([], b)"
| "bus_run (OPublish e # ops) b = bus_run ops (Publish e b)"
| "bus_run (OSubscribe n # ops) b = bus_run ops (snd (Subscribe n b))"
| "bus_run (OUnsubscribe i # ops) b = bus_run ops (Unsubscribe i b)"
| "bus_run (OReceive i # ops) b =
    (case Receive i b of
       (None, b') \<Rightarrow> bus_run ops b'
     | (Some e, b') \<Rightarrow> (case bus_run ops b' of (ds, b'') \<Rightarrow> ((i, e) # ds, b'')))"

fun published :: "bus_op list \<Rightarrow> RuntimeEvent list" where
  "published [] = []"
| "published (OPublish e # ops) = e # published ops"
| "published (_ # ops) = published ops"

definition received :: "nat \<Rightarrow> (nat \<times> RuntimeEvent) list \<Rightarrow> RuntimeEvent list" where
  "received i ds = map snd (filter (\<lambda>(j, e). j = i) ds)"

definition backlog :: "nat \<Rightarrow> EventBus \<Rightarrow> RuntimeEvent list" where
  "backlog i b = (case map_of (subscribers b) i of None \<Rightarrow> [] | Some c \<Rightarrow> ch_queue c)"

definition bus_ok :: "EventBus \<Rightarrow> bool" where
  "bus_ok b \<longleftrightarrow> distinct (map fst (subscribers b)) \<and> (\<forall>i \<in> fst ` set (subscribers b). i \<le> nextID b)"

lemma received_simps [simp]:
  "received i [] = []" "received i ((j, e) # ds) = (if j = i then e # received i ds else received i ds)"
  by (simp_all add: received_def)

lemma bus_ok_new [simp]: "bus_ok NewEventBus"
  by (simp add: bus_ok_def NewEventBus_def)

lemma bus_ok_Publish: "bus_ok b \<Longrightarrow> bus_ok (Publish e b)"
  by (auto simp: bus_ok_def Publish_def image_iff)

lemma bus_ok_Subscribe: "bus_ok b \<Longrightarrow> bus_ok (snd (Subscribe n b))"
  by (fastforce simp: bus_ok_def Subscribe_def Let_def distinct_update dom_update)

lemma bus_ok_Unsubscribe:
  assumes "bus_ok b"
  shows "bus_ok (Unsubscribe i b)"
proof -
  have "distinct (map fst (AList.delete i (subscribers b)))"
    using assms by (simp add: bus_ok_def distinct_delete)
  moreover have "j \<le> nextID b" if "j \<in> fst ` set (AList.delete i (subscribers b))" for j
    using that assms dom_delete_subset [of i "subscribers b"] unfolding bus_ok_def by blast
  ultimately show ?thesis by (simp add: bus_ok_def Unsubscribe_def)
qed

text \<open>What these operations do to one channel, as if there were no other.\<close>

fun channel_run :: "nat \<Rightarrow> bus_op list \<Rightarrow> channel \<Rightarrow> RuntimeEvent list \<times> channel" where
  "channel_run i [] c = ([], c)"
| "channel_run i (OPublish e # ops) c = channel_run i ops (offer e c)"
| "channel_run i (OReceive j # ops) c =
    (if j \<noteq> i \<or> ch_queue c = [] then channel_run i ops c
     else (case channel_run i ops (c\<lparr>ch_queue := tl (ch_queue c)\<rparr>) of
             (ds, c') \<Rightarrow> (hd (ch_queue c) # ds, c')))"
| "channel_run i (_ # ops) c = channel_run i ops c"

lemma bus_run_channel:
  assumes "map_of (subscribers b) i = Some c" "bus_ok b" "OUnsubscribe i \<notin> set ops"
  shows "received i (fst (bus_run ops b)) = fst (channel_run i ops c)
    \<and> map_of (subscribers (snd (bus_run ops b))) i = Some (snd (channel_run i ops c))"
  using assms
proof (induction ops arbitrary: b c)
  case (Cons x ops)
  have le: "i \<le> nextID b"
    using Cons.prems(1,2) by (force simp: bus_ok_def dest: map_of_SomeD)
  show ?case
  proof (cases x)
    case (OPublish e)
    have "map_of (subscribers (Publish e b)) i = Some (offer e c)"
      using Cons.prems(1) by (simp add: Publish_def map_of_map map_prod_def flip: map_map)
    then show ?thesis using Cons.IH [of "Publish e b"] Cons.prems by (simp add: OPublish bus_ok_Publish)
  next
    case (OSubscribe n)
    have "map_of (subscribers (snd (Subscribe n b))) i = Some c"
      using Cons.prems(1) le by (simp add: Subscribe_def Let_def update_conv')
    then show ?thesis using Cons.IH Cons.prems by (simp add: OSubscribe bus_ok_Subscribe)
  next
    case (OUnsubscribe j)
    then have "map_of (subscribers (Unsubscribe j b)) i = Some c"
      using Cons.prems by (simp add: Unsubscribe_def delete_conv')
    then show ?thesis using Cons.IH Cons.prems by (simp add: OUnsubscribe bus_ok_Unsubscribe)
  next
    case (OReceive j)
    show ?thesis
    proof (cases "map_of (subscribers b) j")
      case None
      then have "j \<noteq> i" using Cons.prems(1) by auto
      then show ?thesis
        using None Cons.IH [of b c] Cons.prems by (simp add: OReceive Receive_def split: list.split)
    next
      case (Some d)
      let ?b = "b\<lparr>subscribers := AList.update j (d\<lparr>ch_queue := tl (ch_queue d)\<rparr>) (subscribers b)\<rparr>"
      have "bus_ok ?b" using Some Cons.prems(2)
        by (force simp: bus_ok_def distinct_update dom_update dest: map_of_SomeD)
      moreover have "map_of (subscribers ?b) i
        = Some (if j = i then c\<lparr>ch_queue := tl (ch_queue c)\<rparr> else c)"
        using Some Cons.prems(1) by (auto simp: update_conv' update_conv')
      ultimately show ?thesis
        using Some Cons.IH [of ?b] Cons.IH [of b c] Cons.prems
        by (auto simp: OReceive Receive_def split: list.split prod.split)
    qed
  qed
qed simp


lemma channel_run_subseq:
  "subseq (fst (channel_run i ops c) @ ch_queue (snd (channel_run i ops c))) (ch_queue c @ published ops)"
proof (induction i ops c rule: channel_run.induct)
  case (2 i e ops c)
  have "subseq (ch_queue (offer e c) @ published ops) (ch_queue c @ e # published ops)"
    by (auto simp: offer_def intro: list_emb_append_mono)
  with 2 show ?case by (auto intro: subseq_order.trans)
next
  case (3 i j ops c)
  then show ?case by (cases "ch_queue c") (auto split: prod.splits)
qed simp_all

text \<open>The reader of \<open>i\<close> is never more than its buffer behind.\<close>

lemma channel_run_all:
  assumes "\<And>k. length (ch_queue c @ published (take k ops))
      \<le> ch_cap c + length (fst (channel_run i (take k ops) c))"
  shows "fst (channel_run i ops c) @ ch_queue (snd (channel_run i ops c)) = ch_queue c @ published ops"
  using assms
proof (induction i ops c rule: channel_run.induct)
  case (2 i e ops c)
  have "length (ch_queue c) < ch_cap c" using "2.prems" [of 1] by simp
  then have room: "offer e c = c\<lparr>ch_queue := ch_queue c @ [e]\<rparr>" by (simp add: offer_def)
  have "length (ch_queue (offer e c) @ published (take k ops))
      \<le> ch_cap (offer e c) + length (fst (channel_run i (take k ops) (offer e c)))" for k
    using "2.prems" [of "Suc k"] by (simp add: room)
  then show ?case using "2.IH" by (simp add: room)
next
  case (3 i j ops c)
  show ?case
  proof (cases "j \<noteq> i \<or> ch_queue c = []")
    case True
    have "length (ch_queue c @ published (take k ops))
        \<le> ch_cap c + length (fst (channel_run i (take k ops) c))" for k
      using "3.prems" [of "Suc k"] True by simp
    then show ?thesis using "3.IH"(1) [OF True] True by simp
  next
    case False
    then obtain e es where q: "ch_queue c = e # es" "j = i" by (cases "ch_queue c") auto
    have "length (es @ published (take k ops))
        \<le> ch_cap c + length (fst (channel_run i (take k ops) (c\<lparr>ch_queue := es\<rparr>)))" for k
      using "3.prems" [of "Suc k"] q by (simp split: prod.splits)
    then show ?thesis using "3.IH"(2) [OF False] q by (auto split: prod.splits)
  qed
next
  case "4_1"
  then show ?case using "4_1.prems" [of "Suc k" for k] by simp
next
  case "4_2"
  then show ?case using "4_2.prems" [of "Suc k" for k] by simp
qed simp

lemma channel_run_bound:
  "length (ch_queue c) \<le> ch_cap c \<Longrightarrow> length (ch_queue (snd (channel_run i ops c))) \<le> ch_cap c"
  by (induction i ops c rule: channel_run.induct) (auto simp: offer_def split: prod.split if_splits)

lemma bus_ok_Receive:
  assumes "bus_ok b"
  shows "bus_ok (snd (Receive i b))"
proof (cases "map_of (subscribers b) i")
  case (Some c)
  then have "i \<in> fst ` set (subscribers b)" by (metis map_of_eq_None_iff option.distinct(1))
  with assms have "bus_ok (b\<lparr>subscribers := AList.update i d (subscribers b)\<rparr>)" for d
    by (auto simp: bus_ok_def distinct_update dom_update)
  with assms Some show ?thesis by (simp add: Receive_def split: list.split)
qed (use assms in \<open>simp add: Receive_def\<close>)

lemma bus_run_ok: "bus_ok b \<Longrightarrow> bus_ok (snd (bus_run ops b))"
proof (induction ops b rule: bus_run.induct)
  case (5 i ops b)
  have "bus_ok (snd (Receive i b))" using "5.prems" by (rule bus_ok_Receive)
  then show ?case using "5.IH" by (auto split: prod.split option.split)
qed (simp_all add: bus_ok_Publish bus_ok_Subscribe bus_ok_Unsubscribe)

text \<open>
  C28. A subscriber of the event bus receives published events in their order and without
  repetition, whatever other subscribers do and however slow they are; at most a buffer of them
  waits for it. While it is never more than its buffer behind, nothing that was published is missing.
\<close>

theorem bus_delivers:
  assumes "Subscribe buf (snd (bus_run before NewEventBus)) = (i, b)"
    and "OUnsubscribe i \<notin> set ops"
    and "bus_run ops b = (ds, b')"
  shows "subseq (received i ds @ backlog i b') (published ops) \<and> length (backlog i b') \<le> buf
    \<and> ((\<forall>k. length (published (take k ops)) \<le> buf + length (received i (fst (bus_run (take k ops) b))))
       \<longrightarrow> received i ds @ backlog i b' = published ops)"
proof -
  let ?c = "\<lparr>ch_cap = buf, ch_queue = []\<rparr>"
  have b: "bus_ok b" "map_of (subscribers b) i = Some ?c"
    using assms(1) bus_run_ok [OF bus_ok_new, of before]
      bus_ok_Subscribe [of "snd (bus_run before NewEventBus)" buf]
    by (auto simp: Subscribe_def Let_def update_conv')
  have run: "received i (fst (bus_run xs b)) = fst (channel_run i xs ?c)
      \<and> map_of (subscribers (snd (bus_run xs b))) i = Some (snd (channel_run i xs ?c))"
    if "set xs \<subseteq> set ops" for xs
    using bus_run_channel [OF b(2,1), of xs] assms(2) that by blast
  have "set (take k ops) \<subseteq> set ops" for k by (rule set_take_subset)
  then show ?thesis
    using run [of ops] assms(3) channel_run_subseq [of i ops ?c] channel_run_bound [of ?c i ops]
      channel_run_all [of ?c ops i] run [of "take k ops" for k]
    by (simp add: backlog_def)
qed

definition sample_event :: "string \<Rightarrow> RuntimeEvent" where
  "sample_event summary =
    NewRuntimeEvent 0 1 (no_session\<lparr>rs_SessionID := ''s''\<rparr>) EventTurnStarted [] [] summary []"

theorem bus_delivers_witness:
  "subseq ([sample_event ''a''] @ [sample_event ''b''])
     (published [OPublish (sample_event ''a''), OReceive 3, OPublish (sample_event ''b'')])"
  using bus_delivers [of 2 "[OSubscribe 5, OUnsubscribe 1, OSubscribe 1, OUnsubscribe 2]" 3
    "snd (Subscribe 2 (snd (bus_run [OSubscribe 5, OUnsubscribe 1, OSubscribe 1, OUnsubscribe 2] NewEventBus)))"
    "[OPublish (sample_event ''a''), OReceive 3, OPublish (sample_event ''b'')]"
    "[(3, sample_event ''a'')]"
    "\<lparr>nextID = 3, subscribers = [(3, \<lparr>ch_cap = 2, ch_queue = [sample_event ''b'']\<rparr>)]\<rparr>"]
  by (simp add: NewEventBus_def Subscribe_def Unsubscribe_def Publish_def Receive_def offer_def
    backlog_def Let_def)

section \<open>The attention queue\<close>

definition urgency :: "AttentionItem \<Rightarrow> int \<times> int \<times> string" where
  "urgency item = (- at_Priority item, - at_UpdatedAtMS item, at_ID item)"

interpretation attention: comparison attention_cmp urgency
  by unfold_locales (auto simp: attention_cmp_def urgency_def string_cmp_def less_prod_def)

definition attention_ok :: "AttentionQueue \<Rightarrow> bool" where
  "attention_ok q \<longleftrightarrow> distinct (map fst q) \<and> list_all (\<lambda>(k, item). at_ID item = k) q"

lemma attention_ok_Nil [simp]: "attention_ok []"
  by (simp add: attention_ok_def)

lemma list_all_update: "P (k, v) \<Longrightarrow> list_all P m \<Longrightarrow> list_all P (AList.update k v m)"
  by (induction m) auto

lemma attention_ok_update:
  "attention_ok q \<Longrightarrow> at_ID item = k \<Longrightarrow> attention_ok (AList.update k item q)"
  by (simp add: attention_ok_def distinct_update list_all_update)

lemma attention_ok_Enqueue: "attention_ok q \<Longrightarrow> attention_ok (snd (Enqueue nanos now item q))"
  by (simp add: Enqueue_def Let_def attention_ok_update)

lemma attention_ok_Update:
  assumes "attention_ok q"
  shows "attention_ok (snd (attention_Update now i u q))"
proof (cases "map_of q i")
  case (Some item)
  then have "at_ID item = i"
    using assms by (auto simp: attention_ok_def list_all_iff dest!: map_of_SomeD)
  with Some assms show ?thesis by (simp add: attention_Update_def Let_def attention_ok_update)
qed (use assms in \<open>simp add: attention_Update_def\<close>)

lemma attention_inj:
  assumes "attention_ok q"
  shows "distinct (map snd q) \<and> inj_on urgency (snd ` set q)"
proof -
  have eq: "map at_ID (map snd q) = map fst q"
    using assms by (auto simp: attention_ok_def list_all_iff)
  have "distinct (map at_ID (map snd q))"
    unfolding eq using assms by (simp add: attention_ok_def)
  then have "distinct (map snd q)" and inj: "inj_on at_ID (set (map snd q))"
    by (simp_all only: distinct_map)
  moreover have "inj_on urgency (set (map snd q))"
    by (rule inj_onI) (use inj in \<open>simp add: urgency_def inj_on_eq_iff\<close>)
  ultimately show ?thesis by simp
qed

lemma take_sorted:
  assumes "sorted (map key xs)" "x \<in> set xs" "x \<notin> set (take n xs)" "y \<in> set (take n xs)"
  shows "(key y :: 'k :: linorder) \<le> key x"
proof -
  have "x \<in> set (drop n xs)" using assms(2,3) by (metis Un_iff append_take_drop_id set_append)
  moreover have "sorted (map key (take n xs @ drop n xs))" using assms(1) by simp
  ultimately show ?thesis using assms(4) unfolding map_append sorted_append by simp
qed

text \<open>
  C29. The attention queue lists exactly the items that match the filter, each once, the most urgent
  first: by priority, then by the time of the last change, then by ID. With a limit it lists so
  many of them, and what it leaves out is less urgent than all it lists. The order in which the
  map is iterated makes no difference.
\<close>

theorem attention_lists_most_urgent:
  assumes "attention_ok q"
  shows "sorted (map urgency (attention_List f q)) \<and> distinct (attention_List f q)
    \<and> set (attention_List f q) \<subseteq> {item \<in> snd ` set q. attention_match f item}
    \<and> (\<forall>item \<in> snd ` set q. attention_match f item \<longrightarrow> item \<notin> set (attention_List f q) \<longrightarrow>
         0 < af_Limit f \<and> length (attention_List f q) = nat (af_Limit f)
         \<and> (\<forall>x \<in> set (attention_List f q). urgency x < urgency item))
    \<and> (mset q' = mset q \<longrightarrow> attention_List f q' = attention_List f q)"
proof -
  let ?xs = "filter (attention_match f) (map snd q)"
  let ?all = "sort_func attention_cmp ?xs"
  let ?ys = "attention_List f q"
  have dist: "distinct (map snd q)" and inj: "inj_on urgency (snd ` set q)"
    using attention_inj [OF assms] by auto
  have set: "set ?all = {item \<in> snd ` set q. attention_match f item}"
    by (auto simp: attention.set_sort)
  have all: "sorted (map urgency ?all)" "distinct ?all"
    using dist attention.sorted_sort mset_eq_imp_distinct_iff [OF attention.mset_sort [of ?xs]]
    by (simp_all add: distinct_filter)
  obtain n where ys: "?ys = take n ?all" "n = length ?all \<or> 0 < af_Limit f \<and> n = nat (af_Limit f) \<and> n < length ?all"
    unfolding attention_List_def Let_def
    by (cases "0 < af_Limit f \<and> af_Limit f < int (length ?all)") force+
  have less: "urgency x < urgency item"
    if "item \<in> set ?all" "item \<notin> set ?ys" "x \<in> set ?ys" for item x
  proof -
    have "urgency x \<le> urgency item" using take_sorted [OF all(1) that(1)] that(2,3) ys(1) by simp
    moreover have "x \<noteq> item" "x \<in> set ?all" using that ys(1) in_set_takeD by metis+
    ultimately show ?thesis using inj that(1) set by (auto simp: inj_on_def order_less_le)
  qed
  have "sort_func attention_cmp (filter (attention_match f) (map snd q')) = ?all"
    if same: "mset q' = mset q"
  proof (rule attention.sort_unique)
    show m: "mset (filter (attention_match f) (map snd q')) = mset ?xs" using same by simp
    show "inj_on urgency (set (filter (attention_match f) (map snd q')))"
      unfolding mset_eq_setD [OF m] using inj by (auto simp: inj_on_def)
  qed
  then have "mset q' = mset q \<longrightarrow> attention_List f q' = ?ys"
    by (simp add: attention_List_def)
  moreover have "sorted (map urgency ?ys)" "distinct ?ys"
    using all ys(1) by (simp_all add: sorted_wrt_take distinct_take flip: take_map)
  moreover have "set ?ys \<subseteq> set ?all" using ys(1) by (simp add: set_take_subset)
  moreover have "0 < af_Limit f \<and> length ?ys = nat (af_Limit f)" if "item \<in> set ?all" "item \<notin> set ?ys" for item
    using ys that by auto
  ultimately show ?thesis using less set by auto
qed

theorem attention_lists_most_urgent_witness:
  "\<exists>q. attention_ok q \<and> sorted (map urgency (attention_List
     \<lparr>af_Status = ''queued'', af_Action = [], af_SessionID = [], af_Limit = 1\<rparr> q))"
proof -
  let ?item = "\<lambda>i p. \<lparr>at_SchemaVersion = [], at_ID = i, at_Status = [], at_Action = ''ask'', at_Source = [],
    at_Runtime = [], at_SessionID = [], at_TurnID = [], at_Priority = p, at_Text = [],
    at_SpeakableText = [], at_Target = [], at_Voice = [], at_InterruptPolicy = [], at_Metadata = [],
    at_Result = [], at_Error = [], at_CreatedAtMS = 0, at_UpdatedAtMS = 0\<rparr>"
  let ?q = "snd (Enqueue 8 2 (?item ''b'' 5) (snd (Enqueue 7 1 (?item ''a'' 3) [])))"
  have "attention_ok ?q" by (intro attention_ok_Enqueue) simp
  from this attention_lists_most_urgent [OF this] show ?thesis by blast
qed

section \<open>The ledger's accounts\<close>

interpretation sessions: comparison session_cmp "\<lambda>r. (- rs_UpdatedAtMS r, rs_SessionID r)"
  by unfold_locales (auto simp: session_cmp_def string_cmp_def less_prod_def)

interpretation breakdowns: comparison usage_cmp "\<lambda>b. (- tu_Total (ub_Usage b), ub_Key b)"
  by unfold_locales (auto simp: usage_cmp_def string_cmp_def less_prod_def)

definition counters :: "(TokenUsage \<Rightarrow> int) set" where
  "counters = {tu_Input, tu_Output, tu_Reasoning, tu_Cached, tu_Total}"

definition usage_total :: "(TokenUsage \<Rightarrow> int) \<Rightarrow> usages \<Rightarrow> int" where
  "usage_total p m = sum_list (map (\<lambda>x. p (snd x)) m)"

lemma int64_id: "0 \<le> n \<Longrightarrow> n < 2 ^ 63 \<Longrightarrow> int64 n = n"
  by (simp add: int64_def)

lemma counters_no_usage: "p \<in> counters \<Longrightarrow> p no_usage = 0"
  by (auto simp: counters_def no_usage_def)

lemma counters_add: "p \<in> counters \<Longrightarrow> p (addTokenUsage a b) = int64 (p a + p b)"
  by (auto simp: counters_def addTokenUsage_def)

lemma counters_delta:
  "p \<in> counters \<Longrightarrow> p (usageDelta u v seen) = (if seen then deltaInt64 (p u) (p v) else p u)"
  by (auto simp: counters_def usageDelta_def)

lemma usage_total_update:
  "distinct (map fst m) \<Longrightarrow>
   usage_total p (AList.update k v m) = usage_total p m - (case map_of m k of None \<Rightarrow> 0 | Some u \<Rightarrow> p u) + p v"
proof (induction m)
  case (Cons x m)
  then show ?case by (cases x) (auto simp: usage_total_def)
qed (simp add: usage_total_def)

text \<open>The accounts of a session: the parts are not negative and add up to the last reading.\<close>

definition accounts :: "trackedSessionState \<Rightarrow> bool" where
  "accounts t \<longleftrightarrow>
    distinct (map fst (usageByModel t)) \<and> list_all (\<lambda>(k, u). k \<noteq> [] \<and> (\<forall>p \<in> counters. 0 \<le> p u)) (usageByModel t)
    \<and> (usageObserved t \<or> lastObservedUsage t = no_usage)
    \<and> (\<forall>p \<in> counters. usage_total p (usageByModel t) = p (lastObservedUsage t))"

definition usage_le :: "TokenUsage \<Rightarrow> TokenUsage \<Rightarrow> bool" where
  "usage_le u v \<longleftrightarrow> (\<forall>p \<in> counters. p u \<le> p v \<and> p v < 2 ^ 63)"

lemma usage_part_le:
  assumes "list_all (\<lambda>(k, u). 0 \<le> p u) m" "map_of m k = Some u"
  shows "p u \<le> usage_total p m \<and> 0 \<le> p u"
  using assms
proof (induction m)
  case (Cons x m)
  have "0 \<le> usage_total p m"
    unfolding usage_total_def by (rule sum_list_nonneg) (use Cons.prems(1) in \<open>fastforce simp: list_all_iff\<close>)
  with Cons show ?case by (cases x) (auto simp: usage_total_def split: if_splits)
qed simp

lemma usage_total_nonneg:
  "list_all (\<lambda>(k, u). k \<noteq> [] \<and> (\<forall>p \<in> counters. 0 \<le> p u)) m \<Longrightarrow> p \<in> counters \<Longrightarrow> 0 \<le> usage_total p m"
  unfolding usage_total_def by (rule sum_list_nonneg) (fastforce simp: list_all_iff)

lemma add_usage_accounts:
  assumes "distinct (map fst m)" "list_all (\<lambda>(k, u). k \<noteq> [] \<and> (\<forall>p \<in> counters. 0 \<le> p u)) m"
    and "key \<noteq> []" "\<And>p. p \<in> counters \<Longrightarrow> 0 \<le> p d \<and> usage_total p m + p d < 2 ^ 63"
  shows "distinct (map fst (add_usage key d m))
    \<and> list_all (\<lambda>(k, u). k \<noteq> [] \<and> (\<forall>p \<in> counters. 0 \<le> p u)) (add_usage key d m)
    \<and> (\<forall>p \<in> counters. usage_total p (add_usage key d m) = usage_total p m + p d)"
proof (cases "d = no_usage")
  case True
  then show ?thesis using assms by (simp add: add_usage_def counters_no_usage)
next
  case False
  let ?old = "case_option no_usage id (map_of m key)"
  have old: "0 \<le> p ?old \<and> p ?old \<le> usage_total p m \<and> p (addTokenUsage ?old d) = p ?old + p d"
    if "p \<in> counters" for p
  proof -
    have nonneg: "list_all (\<lambda>(k, u). 0 \<le> p u) m"
      using assms(2) that by (auto simp: list_all_iff)
    have "0 \<le> usage_total p m" using assms(2) that by (rule usage_total_nonneg)
    then have "0 \<le> p ?old \<and> p ?old \<le> usage_total p m"
      using usage_part_le [OF nonneg] counters_no_usage [OF that] by (cases "map_of m key") auto
    then show ?thesis using assms(4) [OF that] by (simp add: counters_add that int64_id)
  qed
  let ?new = "addTokenUsage ?old d"
  have new: "add_usage key d m = AList.update key ?new m"
    using False assms(3) by (simp add: add_usage_def)
  have nonneg: "\<forall>p \<in> counters. 0 \<le> p ?new"
  proof
    fix p :: "TokenUsage \<Rightarrow> int"
    assume p: "p \<in> counters"
    show "0 \<le> p ?new" using old [OF p] assms(4) [OF p] by linarith
  qed
  have "usage_total p (add_usage key d m) = usage_total p m + p d" if "p \<in> counters" for p
  proof -
    have "(case map_of m key of None \<Rightarrow> 0 | Some u \<Rightarrow> p u) = p ?old"
      using counters_no_usage [OF that] by (simp split: option.split)
    then show ?thesis using old [OF that] by (simp add: new usage_total_update [OF assms(1)])
  qed
  moreover have "list_all (\<lambda>(k, u). k \<noteq> [] \<and> (\<forall>p \<in> counters. 0 \<le> p u)) (AList.update key ?new m)"
    by (rule list_all_update) (use assms(2,3) nonneg in auto)
  ultimately show ?thesis using assms(1) by (simp add: new distinct_update)
qed

text \<open>Where the model of a session comes from.\<close>

definition names_model :: "RuntimeEvent \<Rightarrow> bool" where
  "names_model e \<longleftrightarrow> (case ev_SessionState e of Some st \<Rightarrow> ss_Model st \<noteq> [] | None \<Rightarrow> False)"

lemma over_nonempty [simp]: "over a b = [] \<longleftrightarrow> a = [] \<and> b = []"
  by (simp add: over_def)

lemma model_before_count:
  assumes "rs_Model r \<noteq> [] \<or> names_model e"
  shows "rs_Model (payload_texts e (ledger_state oor e (ledger_head e r))) \<noteq> []"
  using assms
  by (auto simp: payload_texts_def ledger_state_def ledger_head_def event_stamps_def state_texts_def
    names_model_def Let_def split: option.split)

lemma track_event_counts:
  fixes oor e t
  defines "r \<equiv> payload_texts e (ledger_state oor e (ledger_head e (tr_Session (record_of t))))"
  shows "rs_Model (tr_Session (record_of (track_event oor e t))) = rs_Model r"
    and "usageByModel (track_event oor e t) = (case EventTokenUsage oor e of None \<Rightarrow> usageByModel t
      | Some u \<Rightarrow> add_usage (rs_Model r) (usageDelta u (lastObservedUsage t) (usageObserved t)) (usageByModel t))"
    and "lastObservedUsage (track_event oor e t) = case_option (lastObservedUsage t) id (EventTokenUsage oor e)"
    and "usageObserved (track_event oor e t) \<longleftrightarrow> usageObserved t \<or> EventTokenUsage oor e \<noteq> None"
  by (auto simp: track_event_def count_usage_def count_cost_def with_breakdowns_def event_end_def
    r_def Let_def split: option.split)

lemma track_event_accounts:
  assumes "accounts t" "rs_Model (tr_Session (record_of t)) \<noteq> [] \<or> names_model e"
    and "\<And>u. EventTokenUsage oor e = Some u \<Longrightarrow> usage_le (lastObservedUsage t) u"
  shows "accounts (track_event oor e t) \<and> rs_Model (tr_Session (record_of (track_event oor e t))) \<noteq> []"
proof (cases "EventTokenUsage oor e")
  case None
  then show ?thesis using assms(1) model_before_count [OF assms(2)]
    by (simp add: accounts_def track_event_counts)
next
  case (Some u)
  let ?d = "usageDelta u (lastObservedUsage t) (usageObserved t)"
  let ?r = "payload_texts e (ledger_state oor e (ledger_head e (tr_Session (record_of t))))"
  have le: "usage_le (lastObservedUsage t) u" using assms(3) Some .
  have delta: "0 \<le> p ?d \<and> usage_total p (usageByModel t) + p ?d = p u \<and> p u < 2 ^ 63"
    if p: "p \<in> counters" for p
  proof -
    have "usage_total p (usageByModel t) = p (lastObservedUsage t)"
      using assms(1) p by (simp add: accounts_def)
    moreover have "0 \<le> usage_total p (usageByModel t)"
      using assms(1) p by (intro usage_total_nonneg) (simp_all add: accounts_def)
    moreover have "usageObserved t \<or> p (lastObservedUsage t) = 0"
      using assms(1) counters_no_usage [OF p] by (auto simp: accounts_def)
    ultimately show ?thesis
      using le p by (auto simp: usage_le_def counters_delta deltaInt64_def int64_id)
  qed
  have "distinct (map fst (usageByModel t))"
    and "list_all (\<lambda>(k, u). k \<noteq> [] \<and> (\<forall>p \<in> counters. 0 \<le> p u)) (usageByModel t)"
    using assms(1) by (simp_all add: accounts_def)
  from add_usage_accounts [OF this model_before_count [OF assms(2), of oor], of ?d]
  show ?thesis using delta Some model_before_count [OF assms(2), of oor]
    by (simp add: accounts_def track_event_counts)
qed

text \<open>The operations on the ledger, and what concerns one session of them.\<close>

datatype ledger_op = LUpsert RuntimeSession | LEvent RuntimeEvent

fun ledger_step :: "(float64 \<Rightarrow> int) \<Rightarrow> ledger_op \<Rightarrow> SessionLedger \<Rightarrow> SessionLedger" where
  "ledger_step oor (LUpsert r) l = ledger_Upsert r l"
| "ledger_step oor (LEvent e) l = ledger_UpdateFromEvent oor e l"

fun op_session :: "ledger_op \<Rightarrow> string" where
  "op_session (LUpsert r) = rs_SessionID r"
| "op_session (LEvent e) = ev_SessionID e"

fun op_names_model :: "ledger_op \<Rightarrow> bool" where
  "op_names_model (LUpsert r) = (rs_Model r \<noteq> [])"
| "op_names_model (LEvent e) = names_model e"

definition readings :: "(float64 \<Rightarrow> int) \<Rightarrow> string \<Rightarrow> ledger_op list \<Rightarrow> TokenUsage list" where
  "readings oor s ops =
    List.map_filter (\<lambda>x. case x of LEvent e \<Rightarrow> if ev_SessionID e = s then EventTokenUsage oor e else None
      | LUpsert r \<Rightarrow> None) ops"

definition account_ok :: "string \<Rightarrow> TokenUsage \<Rightarrow> SessionLedger \<Rightarrow> bool" where
  "account_ok s u l \<longleftrightarrow>
    (case map_of (records l) s of
       None \<Rightarrow> u = no_usage
     | Some t \<Rightarrow> accounts t \<and> rs_Model (tr_Session (record_of t)) \<noteq> [] \<and> lastObservedUsage t = u)"

lemma accounts_new: "accounts new_tracked"
  by (simp add: accounts_def new_tracked_def usage_total_def counters_no_usage)

lemma account_other:
  assumes "account_ok s u l" "op_session x \<noteq> s"
  shows "account_ok s u (ledger_step oor x l)"
  using assms by (cases x) (auto simp: account_ok_def ledger_Upsert_def ledger_UpdateFromEvent_def
    Let_def update_conv')

lemma account_Upsert:
  assumes "account_ok s u l" "rs_SessionID r = s" "s \<noteq> []"
    "map_of (records l) s \<noteq> None \<or> rs_Model r \<noteq> []"
  shows "account_ok s u (ledger_Upsert r l)"
  using assms accounts_new
  by (auto simp: account_ok_def ledger_Upsert_def getOrCreateLocked_def with_breakdowns_def
    mergeRuntimeSession_def accounts_def Let_def update_conv' new_tracked_def split: option.splits)

lemma account_Event:
  assumes "account_ok s u l" "ev_SessionID e = s" "s \<noteq> []"
    "map_of (records l) s \<noteq> None \<or> names_model e"
    "\<And>v. EventTokenUsage oor e = Some v \<Longrightarrow> usage_le u v"
  shows "account_ok s (case_option u id (EventTokenUsage oor e)) (ledger_UpdateFromEvent oor e l)"
proof -
  let ?t = "getOrCreateLocked l s"
  have t: "accounts ?t" "lastObservedUsage ?t = u"
    "rs_Model (tr_Session (record_of ?t)) \<noteq> [] \<or> names_model e"
    using assms(1,4) accounts_new
    by (auto simp: account_ok_def getOrCreateLocked_def new_tracked_def split: option.splits)
  then show ?thesis
    using assms(2,3,5) track_event_accounts [OF t(1,3), of oor]
    by (auto simp: account_ok_def ledger_UpdateFromEvent_def update_conv' track_event_counts
      split: option.split)
qed

lemma ledger_run_account:
  assumes "account_ok s u l" "s \<noteq> []"
    and "map_of (records l) s \<noteq> None \<or> (case filter (\<lambda>x. op_session x = s) ops of [] \<Rightarrow> True | x # _ \<Rightarrow> op_names_model x)"
    and "sorted_wrt usage_le (u # readings oor s ops)"
  shows "account_ok s (last (u # readings oor s ops)) (fold (ledger_step oor) ops l)"
  using assms
proof (induction ops arbitrary: u l)
  case (Cons x ops)
  show ?case
  proof (cases "op_session x = s")
    case False
    then have "readings oor s (x # ops) = readings oor s ops"
      by (auto simp: readings_def map_filter_simps split: ledger_op.split)
    moreover have "map_of (records (ledger_step oor x l)) s = map_of (records l) s"
      using False by (cases x) (auto simp: ledger_Upsert_def ledger_UpdateFromEvent_def Let_def update_conv')
    ultimately show ?thesis
      using Cons.IH [OF account_other [OF Cons.prems(1) False, of oor]] Cons.prems False by simp
  next
    case True
    show ?thesis
    proof (cases x)
      case (LUpsert r)
      have "readings oor s (x # ops) = readings oor s ops"
        by (simp add: readings_def map_filter_simps LUpsert)
      moreover have "map_of (records (ledger_Upsert r l)) s \<noteq> None"
        using True Cons.prems(2) LUpsert by (simp add: ledger_Upsert_def Let_def update_conv')
      ultimately show ?thesis
        using Cons.IH [of u "ledger_Upsert r l"] account_Upsert [OF Cons.prems(1), of r]
          Cons.prems(2-4) True LUpsert by simp
    next
      case (LEvent e)
      let ?u = "case_option u id (EventTokenUsage oor e)"
      have rs: "readings oor s (x # ops) = (case EventTokenUsage oor e of None \<Rightarrow> [] | Some v \<Rightarrow> [v]) @ readings oor s ops"
        using True by (simp add: readings_def map_filter_simps LEvent split: option.split)
      have ok: "account_ok s ?u (ledger_UpdateFromEvent oor e l)"
        using Cons.prems True LEvent rs by (intro account_Event) auto
      have "map_of (records (ledger_UpdateFromEvent oor e l)) s \<noteq> None"
        using True Cons.prems(2) LEvent by (simp add: ledger_UpdateFromEvent_def update_conv')
      moreover have "sorted_wrt usage_le (?u # readings oor s ops)"
        using Cons.prems(4) rs by (auto split: option.splits)
      ultimately have "account_ok s (last (?u # readings oor s ops))
          (fold (ledger_step oor) ops (ledger_UpdateFromEvent oor e l))"
        using Cons.IH [OF ok Cons.prems(2)] by simp
      moreover have "last (?u # readings oor s ops) = last (u # readings oor s (x # ops))"
        using rs by (simp split: option.split)
      ultimately show ?thesis using LEvent by simp
    qed
  qed
qed (simp add: readings_def map_filter_simps)

text \<open>
  C27. The ledger's accounts are complete: whatever else happens in between, when the readings of a
  session's token counters never fall and the session is known with a model from the start,
  then every counter of the breakdown by model that clients see adds up to the last reading, however
  often the session changed its model. No token is lost or counted twice.
\<close>

theorem ledger_accounts_usage:
  fixes s oor ops
  defines "us \<equiv> no_usage # readings oor s ops"
  assumes "s \<noteq> []" "sorted_wrt usage_le us"
    and "case filter (\<lambda>x. op_session x = s) ops of [] \<Rightarrow> True | x # _ \<Rightarrow> op_names_model x"
    and "ledger_Get s [] (fold (ledger_step oor) ops NewSessionLedger) = Some r"
    and "p \<in> {tu_Input, tu_Output, tu_Reasoning, tu_Cached, tu_Total}"
  shows "sum_list (map (\<lambda>b. p (ub_Usage b)) (tr_UsageByModel r)) = p (last us)"
proof -
  let ?l = "fold (ledger_step oor) ops NewSessionLedger"
  have "account_ok s (last us) ?l"
    unfolding us_def
    by (rule ledger_run_account) (use assms in \<open>simp_all add: account_ok_def NewSessionLedger_def us_def\<close>)
  moreover obtain t where t: "map_of (records ?l) s = Some t" "r = cloneTrackedSession t"
    using assms(2,5) by (auto simp: ledger_Get_def lookupLocked_def)
  ultimately have a: "accounts t" "lastObservedUsage t = last us" by (auto simp: account_ok_def)
  have keys: "filter (\<lambda>(k, u). k \<noteq> []) (usageByModel t) = usageByModel t"
    using a(1) by (auto simp: accounts_def list_all_iff intro: filter_True)
  have "mset (map (\<lambda>b. p (ub_Usage b)) (tr_UsageByModel r)) = mset (map (\<lambda>x. p (snd x)) (usageByModel t))"
    by (simp add: t(2) cloneTrackedSession_def with_breakdowns_def tokenBreakdowns_def
      breakdowns.mset_sort keys image_mset.compositionality o_def case_prod_beta)
  then have "sum_list (map (\<lambda>b. p (ub_Usage b)) (tr_UsageByModel r)) = usage_total p (usageByModel t)"
    unfolding usage_total_def by (metis sum_mset_sum_list)
  moreover have "p \<in> counters" using assms(6) unfolding counters_def .
  ultimately show ?thesis using a by (simp add: accounts_def)
qed

definition sample_reading :: "string \<Rightarrow> int \<Rightarrow> RuntimeEvent" where
  "sample_reading model n =
    NewRuntimeEvent 0 1 (no_session\<lparr>rs_SessionID := ''s'', rs_Model := model,
      rs_Usage := no_usage\<lparr>tu_Input := n, tu_Total := n\<rparr>\<rparr>) EventTurnCompleted [] [] [] []"

theorem ledger_accounts_usage_witness:
  "map_option (\<lambda>r. sum_list (map (\<lambda>b. tu_Total (ub_Usage b)) (tr_UsageByModel r)))
     (ledger_Get ''s'' [] (fold (ledger_step (\<lambda>_. 0))
       [LEvent (sample_reading ''a'' 4), LEvent (sample_reading ''b'' 9)] NewSessionLedger)) = Some 9"
proof -
  let ?ops = "[LEvent (sample_reading ''a'' 4), LEvent (sample_reading ''b'' 9)]"
  have us: "readings (\<lambda>_. 0) ''s'' ?ops =
      [no_usage\<lparr>tu_Input := 4, tu_Total := 4\<rparr>, no_usage\<lparr>tu_Input := 9, tu_Total := 9\<rparr>]"
    by (simp add: readings_def map_filter_simps sample_reading_def NewRuntimeEvent_def State_def
      EventTokenUsage_def tokenUsageIfSet_def no_usage_def no_session_def)
  have "ledger_Get ''s'' [] (fold (ledger_step (\<lambda>_. 0)) ?ops NewSessionLedger) \<noteq> None"
    by (simp add: ledger_Get_def lookupLocked_def ledger_UpdateFromEvent_def update_conv'
      sample_reading_def NewRuntimeEvent_def no_session_def)
  then obtain r where r: "ledger_Get ''s'' [] (fold (ledger_step (\<lambda>_. 0)) ?ops NewSessionLedger) = Some r"
    by blast
  have sorted: "sorted_wrt usage_le (no_usage # readings (\<lambda>_. 0) ''s'' ?ops)"
    unfolding us by (simp add: usage_le_def counters_def no_usage_def)
  have "case filter (\<lambda>x. op_session x = ''s'') ?ops of [] \<Rightarrow> True | x # _ \<Rightarrow> op_names_model x"
    by (simp add: sample_reading_def NewRuntimeEvent_def State_def no_session_def names_model_def)
  from ledger_accounts_usage [OF _ sorted this r, of tu_Total]
  have "sum_list (map (\<lambda>b. tu_Total (ub_Usage b)) (tr_UsageByModel r))
      = tu_Total (last (no_usage # readings (\<lambda>_. 0) ''s'' ?ops))"
    by simp
  then show ?thesis unfolding r us by simp
qed

end
