(* ===== verification/ProviderResults.thy ===== *)
theory ProviderResults
  imports JsonEncode
begin

text \<open>
  \<^verbatim>\<open>pkg/controlplane/provider_result.go\<close>: what a provider tells about a request beside its
  output, errors that carry it, and the aggregation of many such results. Counts under names are
  maps; an absent map and an empty one are the same to every operation.
\<close>

section \<open>Results and errors\<close>

record ProviderUsage =
  pu_PromptTokens :: int
  pu_CompletionTokens :: int
  pu_TotalTokens :: int
  pu_VectorCount :: int

record ProviderError =
  pe_Kind :: string
  pe_Message :: string
  pe_Type :: string
  pe_Param :: string
  pe_Code :: gval
  pe_StatusCode :: int
  pe_Body :: string
  pe_Retryable :: bool

record ProviderResultMetadata =
  pm_Provider :: string
  pm_Model :: string
  pm_BaseURL :: string
  pm_RequestID :: string
  pm_RequestCount :: int
  pm_StatusCode :: int
  pm_LatencyMillis :: int
  pm_LatencyNanos :: int
  pm_FinishReason :: string
  pm_OutputKind :: string
  pm_Usage :: ProviderUsage
  pm_Error :: "ProviderError option"

text \<open>
  The errors of a call: a text, a sentinel of another package, \<open>fmt.Errorf("action: %w", err)\<close>, or
  a \<open>ProviderResultError\<close> with its message, its result and the error it wraps.
\<close>

datatype call_error =
    CErr string
  | CSentinel string
  | CWrapped string call_error
  | CResult string ProviderResultMetadata "call_error option"

definition NewProviderResultError ::
    "string \<Rightarrow> ProviderResultMetadata \<Rightarrow> call_error option \<Rightarrow> call_error" where
  "NewProviderResultError message result cause = CResult (trim_space message) result cause"

definition result_error_text :: "string \<Rightarrow> ProviderResultMetadata \<Rightarrow> string" where
  "result_error_text message r =
    join_str ''; ''
      (firstNonEmpty [message, ''provider result error'']
       # (if pm_Provider r \<noteq> [] then [''provider='' @ pm_Provider r] else [])
       @ (if pm_Model r \<noteq> [] then [''model='' @ pm_Model r] else [])
       @ (if pm_BaseURL r \<noteq> [] then [''base_url='' @ pm_BaseURL r] else [])
       @ (if pm_FinishReason r \<noteq> [] then [''finish_reason='' @ pm_FinishReason r] else [])
       @ (if pm_OutputKind r \<noteq> [] then [''output_kind='' @ pm_OutputKind r] else [])
       @ (case pm_Error r of
            Some e \<Rightarrow> if pe_Message e \<noteq> [] then [''provider_error='' @ pe_Message e] else []
          | None \<Rightarrow> []))"

text \<open>\<open>errors.Is\<close> with a sentinel, and the first result that \<open>errors.As\<close> finds.\<close>

fun call_error_is :: "call_error \<Rightarrow> string \<Rightarrow> bool" where
  "call_error_is (CErr m) t = False"
| "call_error_is (CSentinel m) t = (m = t)"
| "call_error_is (CWrapped action e) t = call_error_is e t"
| "call_error_is (CResult m r None) t = False"
| "call_error_is (CResult m r (Some e)) t = call_error_is e t"

fun ProviderResultFromError :: "call_error \<Rightarrow> ProviderResultMetadata option" where
  "ProviderResultFromError (CErr m) = None"
| "ProviderResultFromError (CSentinel m) = None"
| "ProviderResultFromError (CWrapped action e) = ProviderResultFromError e"
| "ProviderResultFromError (CResult m r cause) = Some r"

section \<open>Aggregation\<close>

type_synonym counts = "string \<rightharpoonup> int"

record ResultAggregator =
  ra_Count :: int
  ra_StatusCodes :: counts
  ra_OutputKinds :: counts
  ra_FinishReasons :: counts
  ra_ErrorKinds :: counts
  ra_RequestIDs :: "string list"
  ra_Samples :: "ProviderResultMetadata list"

definition no_results :: ResultAggregator where
  "no_results =
    \<lparr>ra_Count = 0, ra_StatusCodes = Map.empty, ra_OutputKinds = Map.empty,
     ra_FinishReasons = Map.empty, ra_ErrorKinds = Map.empty, ra_RequestIDs = [], ra_Samples = []\<rparr>"

definition count_of :: "counts \<Rightarrow> string \<Rightarrow> int" where
  "count_of m k = (case m k of None \<Rightarrow> 0 | Some n \<Rightarrow> n)"

definition incrementStringCount :: "counts \<Rightarrow> string \<Rightarrow> counts" where
  "incrementStringCount m key =
    (let k = trim_space key in if k = [] then m else m(k \<mapsto> count_of m k + 1))"

definition appendUniqueString :: "string list \<Rightarrow> string \<Rightarrow> string list" where
  "appendUniqueString values v =
    (let t = trim_space v in
     if t = [] then values else if t \<in> set values then values else values @ [t])"

definition aggregate_Add :: "ProviderResultMetadata \<Rightarrow> ResultAggregator \<Rightarrow> ResultAggregator" where
  "aggregate_Add r a =
    \<lparr>ra_Count = ra_Count a + 1,
     ra_StatusCodes =
       (if pm_StatusCode r \<noteq> 0 then incrementStringCount (ra_StatusCodes a) (decimal (pm_StatusCode r))
        else ra_StatusCodes a),
     ra_OutputKinds =
       (if pm_OutputKind r \<noteq> [] then incrementStringCount (ra_OutputKinds a) (pm_OutputKind r)
        else ra_OutputKinds a),
     ra_FinishReasons =
       (if pm_FinishReason r \<noteq> [] then incrementStringCount (ra_FinishReasons a) (pm_FinishReason r)
        else ra_FinishReasons a),
     ra_ErrorKinds =
       (case pm_Error r of
          Some e \<Rightarrow> if pe_Kind e \<noteq> [] then incrementStringCount (ra_ErrorKinds a) (pe_Kind e)
                    else ra_ErrorKinds a
        | None \<Rightarrow> ra_ErrorKinds a),
     ra_RequestIDs =
       (if pm_RequestID r \<noteq> [] then appendUniqueString (ra_RequestIDs a) (pm_RequestID r)
        else ra_RequestIDs a),
     ra_Samples = ra_Samples a @ [r]\<rparr>"

definition aggregate_AddError :: "call_error \<Rightarrow> ResultAggregator \<Rightarrow> bool \<times> ResultAggregator" where
  "aggregate_AddError err a =
    (case ProviderResultFromError err of
       None \<Rightarrow> (False, a)
     | Some r \<Rightarrow> (True, aggregate_Add r a))"

text \<open>The order in which the source is iterated makes no difference: its keys are different.\<close>

definition mergeStringCounts :: "counts \<Rightarrow> counts \<Rightarrow> counts" where
  "mergeStringCounts target source =
    (\<lambda>k. if count_of source k = 0 then target k else Some (count_of target k + count_of source k))"

definition aggregate_Merge :: "ResultAggregator \<Rightarrow> ResultAggregator \<Rightarrow> ResultAggregator" where
  "aggregate_Merge a other =
    \<lparr>ra_Count = ra_Count a + ra_Count other,
     ra_StatusCodes = mergeStringCounts (ra_StatusCodes a) (ra_StatusCodes other),
     ra_OutputKinds = mergeStringCounts (ra_OutputKinds a) (ra_OutputKinds other),
     ra_FinishReasons = mergeStringCounts (ra_FinishReasons a) (ra_FinishReasons other),
     ra_ErrorKinds = mergeStringCounts (ra_ErrorKinds a) (ra_ErrorKinds other),
     ra_RequestIDs = foldl appendUniqueString (ra_RequestIDs a) (ra_RequestIDs other),
     ra_Samples = ra_Samples a @ ra_Samples other\<rparr>"

section \<open>Metadata of an output\<close>

text \<open>
  The metadata of an output as a map; the structured values under \<open>error\<close>, \<open>usage\<close> and
  \<open>provider_result\<close> are entries of their own kinds.
\<close>

datatype meta_value =
    MAny gval
  | MError ProviderError
  | MUsage ProviderUsage
  | MResult ProviderResultMetadata

type_synonym output_metadata = "string \<rightharpoonup> meta_value"

definition put_text :: "string \<Rightarrow> string \<Rightarrow> output_metadata \<Rightarrow> output_metadata" where
  "put_text k v m = (if v \<noteq> [] then m(k \<mapsto> MAny (GStr v)) else m)"

definition put_number :: "string \<Rightarrow> int \<Rightarrow> output_metadata \<Rightarrow> output_metadata" where
  "put_number k n m = (if n \<noteq> 0 then m(k \<mapsto> MAny (GInt n)) else m)"

definition mergeProviderMetadata :: "output_metadata \<Rightarrow> ProviderResultMetadata \<Rightarrow> output_metadata" where
  "mergeProviderMetadata m r =
    (let m = put_text ''provider'' (pm_Provider r) m;
         m = put_text ''model'' (pm_Model r) m;
         m = put_text ''base_url'' (pm_BaseURL r) m;
         m = put_text ''request_id'' (pm_RequestID r) m;
         m = put_number ''request_count'' (pm_RequestCount r) m;
         m = put_number ''status_code'' (pm_StatusCode r) m;
         m = put_number ''latency_millis'' (pm_LatencyMillis r) m;
         m = put_number ''latency_nanos'' (pm_LatencyNanos r) m;
         m = put_text ''finish_reason'' (pm_FinishReason r) m;
         m = put_text ''output_kind'' (pm_OutputKind r) m;
         m = (case pm_Error r of Some e \<Rightarrow> m(''error'' \<mapsto> MError e) | None \<Rightarrow> m)
     in m(''usage'' \<mapsto> MUsage (pm_Usage r), ''provider_result'' \<mapsto> MResult r))"

end
