(* ===== verification/ProviderResultsSpec.thy ===== *)
theory ProviderResultsSpec
  imports ProviderResults
begin

text \<open>
  Aggregating results in parts: the aggregates of two parts merge to the aggregate of the whole, so
  that batches can be aggregated where they run.
\<close>

definition aggregate_all :: "ProviderResultMetadata list \<Rightarrow> ResultAggregator" where
  "aggregate_all rs = fold aggregate_Add rs no_results"

section \<open>Counts\<close>

lemma count_of_empty [simp]: "count_of Map.empty k = 0"
  by (simp add: count_of_def)

lemma count_of_increment:
  "count_of (incrementStringCount m key) k
    = count_of m k + (if trim_space key \<noteq> [] \<and> k = trim_space key then 1 else 0)"
  by (simp add: incrementStringCount_def count_of_def Let_def)

definition nonneg :: "counts \<Rightarrow> bool" where
  "nonneg m \<longleftrightarrow> (\<forall>k. 0 \<le> count_of m k)"

lemma nonneg_empty [simp]: "nonneg Map.empty"
  by (simp add: nonneg_def)

lemma nonneg_increment [simp]: "nonneg m \<Longrightarrow> nonneg (incrementStringCount m key)"
  by (simp add: nonneg_def count_of_increment)

lemma merge_empty [simp]: "mergeStringCounts m Map.empty = m"
  by (simp add: mergeStringCounts_def)

lemma count_of_merge: "count_of (mergeStringCounts m n) k = count_of m k + count_of n k"
  by (simp add: mergeStringCounts_def count_of_def)

lemma merge_increment [simp]:
  assumes "nonneg n"
  shows "mergeStringCounts m (incrementStringCount n key) = incrementStringCount (mergeStringCounts m n) key"
proof
  fix k
  have "0 \<le> count_of n (trim_space key)" using assms by (simp add: nonneg_def)
  then show "mergeStringCounts m (incrementStringCount n key) k = incrementStringCount (mergeStringCounts m n) key k"
    by (auto simp: mergeStringCounts_def incrementStringCount_def count_of_def Let_def split: option.splits)
qed

section \<open>Request IDs\<close>

definition trimmed :: "string list \<Rightarrow> bool" where
  "trimmed ids \<longleftrightarrow> list_all (\<lambda>i. i \<noteq> [] \<and> trim_space i = i) ids"

lemma trimmed_append [simp]: "trimmed ids \<Longrightarrow> trimmed (appendUniqueString ids i)"
  by (simp add: trimmed_def appendUniqueString_def Let_def trim_space_idem)

lemma set_append_all: "trimmed ids \<Longrightarrow> set ids \<subseteq> set (foldl appendUniqueString a ids)"
proof (induction ids rule: rev_induct)
  case (snoc i ids)
  then show ?case by (auto simp: trimmed_def appendUniqueString_def Let_def)
qed simp

lemma append_all_append [simp]:
  assumes "trimmed ids"
  shows "foldl appendUniqueString a (appendUniqueString ids i) = appendUniqueString (foldl appendUniqueString a ids) i"
  using set_append_all [OF assms, of a]
  by (auto simp: appendUniqueString_def Let_def trim_space_idem)

section \<open>Merging aggregates\<close>

definition aggregate_ok :: "ResultAggregator \<Rightarrow> bool" where
  "aggregate_ok a \<longleftrightarrow> nonneg (ra_StatusCodes a) \<and> nonneg (ra_OutputKinds a)
    \<and> nonneg (ra_FinishReasons a) \<and> nonneg (ra_ErrorKinds a) \<and> trimmed (ra_RequestIDs a)"

lemma aggregate_ok_Add: "aggregate_ok a \<Longrightarrow> aggregate_ok (aggregate_Add r a)"
  by (simp add: aggregate_ok_def aggregate_Add_def split: option.split)

lemma merge_Add:
  "aggregate_ok b \<Longrightarrow> aggregate_Merge a (aggregate_Add r b) = aggregate_Add r (aggregate_Merge a b)"
  by (simp add: aggregate_ok_def aggregate_Merge_def aggregate_Add_def split: option.split)

lemma merge_fold:
  "aggregate_ok b \<Longrightarrow> aggregate_Merge a (fold aggregate_Add rs b) = fold aggregate_Add rs (aggregate_Merge a b)"
  by (induction rs arbitrary: b) (simp_all add: aggregate_ok_Add merge_Add)

lemma no_results_ok: "aggregate_ok no_results"
  by (simp add: aggregate_ok_def no_results_def trimmed_def)

lemma merge_no_results: "aggregate_Merge a no_results = a"
  by (simp add: aggregate_Merge_def no_results_def)

lemma count_fold:
  assumes "\<And>r a. count_of (sel (aggregate_Add r a)) k = count_of (sel a) k + (if P r then 1 else 0)"
  shows "count_of (sel (fold aggregate_Add rs a)) k = count_of (sel a) k + int (length (filter P rs))"
  by (induction rs arbitrary: a) (simp_all add: assms)

text \<open>
  Merging the aggregates of two lists of results is the aggregate of both lists together: counts,
  request IDs in the order of their first occurrence, and samples. Every name of a kind of output
  or of an error is counted as often as a result has it.
\<close>

theorem aggregate_Merge_homomorphism:
  "aggregate_Merge (aggregate_all xs) (aggregate_all ys) = aggregate_all (xs @ ys)
   \<and> ra_Count (aggregate_all xs) = int (length xs) \<and> ra_Samples (aggregate_all xs) = xs
   \<and> count_of (ra_OutputKinds (aggregate_all xs)) (c # name)
       = int (length (filter (\<lambda>r. trim_space (pm_OutputKind r) = c # name) xs))
   \<and> count_of (ra_ErrorKinds (aggregate_all xs)) (c # name)
       = int (length (filter (\<lambda>r. map_option (trim_space \<circ> pe_Kind) (pm_Error r) = Some (c # name)) xs))"
proof -
  have "ra_Count (fold aggregate_Add xs a) = ra_Count a + int (length xs)
      \<and> ra_Samples (fold aggregate_Add xs a) = ra_Samples a @ xs" for a
    by (induction xs arbitrary: a) (simp_all add: aggregate_Add_def)
  moreover have "count_of (ra_OutputKinds (fold aggregate_Add xs no_results)) (c # name)
      = count_of (ra_OutputKinds no_results) (c # name)
        + int (length (filter (\<lambda>r. trim_space (pm_OutputKind r) = c # name) xs))"
    by (rule count_fold) (auto simp: aggregate_Add_def count_of_increment)
  moreover have "count_of (ra_ErrorKinds (fold aggregate_Add xs no_results)) (c # name)
      = count_of (ra_ErrorKinds no_results) (c # name)
        + int (length (filter (\<lambda>r. map_option (trim_space \<circ> pe_Kind) (pm_Error r) = Some (c # name)) xs))"
    by (rule count_fold) (auto simp: aggregate_Add_def count_of_increment split: option.split)
  ultimately show ?thesis
    by (simp add: aggregate_all_def merge_fold no_results_ok merge_no_results)
      (simp add: no_results_def)
qed

end
