(* ===== verification/Parallel.thy ===== *)
theory Parallel
  imports Process
begin

text \<open>
  Two processes side by side within one operation (goroutines that the operation waits for), what
  every result of a process satisfies, and how much a process can use up of something. The
  scheduler is part of the state: it tells which of the two takes its next action.
\<close>

named_theorems ensures_intros \<comment> \<open>introduction rules for \<open>ensures\<close>, from the building blocks up\<close>
named_theorems costs_intros \<comment> \<open>introduction rules for \<open>costs\<close>, from the building blocks up\<close>

section \<open>Goroutines\<close>

definition rest_of :: "(('s, 'a) proc \<times> ('s, 'a) proc) set" where
  "rest_of = {(p, Atom g) | p g. \<exists>s. p = fst (g s)}"

lemma wf_rest_of: "wf (rest_of :: (('s, 'a) proc \<times> ('s, 'a) proc) set)"
proof (rule wfUNIVI)
  fix P :: "('s, 'a) proc \<Rightarrow> bool" and p
  assume step: "\<forall>x. (\<forall>y. (y, x) \<in> rest_of \<longrightarrow> P y) \<longrightarrow> P x"
  show "P p"
  proof (induction p)
    case (Done a)
    have "(y, Done a) \<notin> rest_of" for y by (simp add: rest_of_def)
    then show ?case using step by blast
  next
    case (Atom g)
    have "P y" if y: "(y, Atom g) \<in> rest_of" for y
    proof -
      obtain s where "y = fst (g s)" using y by (auto simp: rest_of_def)
      then show ?thesis by (auto intro!: Atom [of "g s"] simp: fsts.simps)
    qed
    then show ?case using step by blast
  qed
qed

function par :: "('s \<Rightarrow> bool \<times> 's) \<Rightarrow> ('s, 'a) proc \<Rightarrow> ('s, 'b) proc \<Rightarrow> ('s, 'a \<times> 'b) proc" where
  "par pick (Done a) q = seq q (\<lambda>b. Done (a, b))"
| "par pick (Atom f) (Done b) = seq (Atom f) (\<lambda>a. Done (a, b))"
| "par pick (Atom f) (Atom g) = Atom (\<lambda>s. case pick s of (left, t) \<Rightarrow>
     if left then (par pick (fst (f t)) (Atom g), snd (f t))
     else (par pick (Atom f) (fst (g t)), snd (g t)))"
  by pat_completeness auto
termination
  apply (relation "inv_image (rest_of <*lex*> rest_of) (\<lambda>(pick, p, q). (p, q))")
    apply (intro wf_inv_image wf_lex_prod wf_rest_of)
   apply (auto simp: rest_of_def)
  done

section \<open>What every result satisfies\<close>

text \<open>
  As long as the others keep \<open>I\<close>, the process keeps it and comes to a result that satisfies \<open>P\<close>.
\<close>

inductive ensures :: "('s \<Rightarrow> bool) \<Rightarrow> ('a \<Rightarrow> bool) \<Rightarrow> ('s, 'a) proc \<Rightarrow> bool" for I P where
  ensures_Done [ensures_intros]: "P a \<Longrightarrow> ensures I P (Done a)"
| ensures_Atom: "(\<And>s. I s \<Longrightarrow> I (snd (g s)) \<and> ensures I P (fst (g s))) \<Longrightarrow> ensures I P (Atom g)"

inductive_cases ensures_AtomE: "ensures I P (Atom g)"

lemma ensures_mono: "ensures I P p \<Longrightarrow> (\<And>a. P a \<Longrightarrow> Q a) \<Longrightarrow> ensures I Q p"
  by (induction rule: ensures.induct) (auto intro: ensures.intros)

lemma ensures_act [ensures_intros]:
  assumes "\<And>s. I s \<Longrightarrow> P (fst (f s)) \<and> I (snd (f s))"
  shows "ensures I P (act f)"
  unfolding act_def
proof (rule ensures_Atom)
  show "I (snd (case f s of (a, s') \<Rightarrow> (Done a, s'))) \<and> ensures I P (fst (case f s of (a, s') \<Rightarrow> (Done a, s')))"
    if "I s" for s
    using assms [OF that] by (cases "f s") (auto intro: ensures_Done)
qed

lemma ensures_seq:
  assumes "ensures I Q p" "\<And>a. Q a \<Longrightarrow> ensures I P (f a)"
  shows "ensures I P (seq p f)"
  using assms(1)
proof induction
  case (ensures_Done a)
  then show ?case using assms(2) by simp
next
  case (ensures_Atom g)
  then show ?case by (auto intro!: ensures.ensures_Atom)
qed

lemma ensures_also_do: "ensures I (\<lambda>_. True) p \<Longrightarrow> ensures I P q \<Longrightarrow> ensures I P (also_do p q)"
  unfolding also_do_def by (rule ensures_seq)

lemma ensures_par:
  assumes "\<And>s. I s \<Longrightarrow> I (snd (pick s))" "ensures I P p" "ensures I Q q"
  shows "ensures I (\<lambda>(a, b). P a \<and> Q b) (par pick p q)"
  using assms
proof (induction pick p q rule: par.induct)
  case (1 pick a q)
  from 1(2) have "P a" by cases
  then show ?case using 1(3) by (auto intro: ensures_seq ensures_Done)
next
  case (2 pick f b)
  from 2(3) have "Q b" by cases
  show ?case unfolding par.simps
    by (rule ensures_seq [OF 2(2)]) (use \<open>Q b\<close> in \<open>auto intro: ensures_Done\<close>)
next
  case (3 pick f g)
  have step: "I (snd (f t)) \<and> ensures I P (fst (f t))" "I (snd (g t)) \<and> ensures I Q (fst (g t))"
    if "I t" for t
    using that 3(4,5) by (auto elim: ensures_AtomE)
  show ?case unfolding par.simps
  proof (rule ensures_Atom)
    fix s assume I: "I s"
    obtain left t where t: "pick s = (left, t)" by fastforce
    have "I t" using 3(3) [OF I] t by simp
    note step = step [OF this]
    have "ensures I (\<lambda>(a, b). P a \<and> Q b) (par pick (fst (f t)) (Atom g))" if left
      using 3(1) [OF t [symmetric] that 3(3) _ 3(5)] step by simp
    moreover have "ensures I (\<lambda>(a, b). P a \<and> Q b) (par pick (Atom f) (fst (g t)))" if "\<not> left"
      using 3(2) [OF t [symmetric] that 3(3,4)] step by simp
    ultimately show "I (snd (case pick s of (left, t) \<Rightarrow> if left then (par pick (fst (f t)) (Atom g), snd (f t))
          else (par pick (Atom f) (fst (g t)), snd (g t))))
        \<and> ensures I (\<lambda>(a, b). P a \<and> Q b) (fst (case pick s of (left, t) \<Rightarrow>
          if left then (par pick (fst (f t)) (Atom g), snd (f t))
          else (par pick (Atom f) (fst (g t)), snd (g t))))"
      using step by (simp add: t)
  qed
qed

section \<open>How much a process uses\<close>

text \<open>\<open>c\<close> counts something in the state; whatever happens in between, the process adds at most \<open>k\<close>.\<close>

inductive costs :: "('s \<Rightarrow> nat) \<Rightarrow> nat \<Rightarrow> ('s, 'a) proc \<Rightarrow> bool" for c where
  costs_Done [costs_intros]: "costs c k (Done a)"
| costs_Atom: "(\<And>s. \<exists>d. c (snd (g s)) \<le> c s + d \<and> d \<le> k \<and> costs c (k - d) (fst (g s))) \<Longrightarrow> costs c k (Atom g)"

inductive_cases costs_AtomE: "costs c k (Atom g)"

lemma costs_mono: "costs c k p \<Longrightarrow> k \<le> l \<Longrightarrow> costs c l p"
proof (induction arbitrary: l rule: costs.induct)
  case (costs_Atom g k)
  show ?case
  proof (rule costs.costs_Atom)
    show "\<exists>d. c (snd (g s)) \<le> c s + d \<and> d \<le> l \<and> costs c (l - d) (fst (g s))" for s
      using costs_Atom(1) [of s] costs_Atom(2) by (metis diff_le_mono le_trans)
  qed
qed (rule costs_Done)

lemma costs_act [costs_intros]:
  assumes "\<And>s. c (snd (f s)) \<le> c s + k"
  shows "costs c k (act f)"
  unfolding act_def
proof (rule costs_Atom)
  show "\<exists>d. c (snd (case f s of (a, s') \<Rightarrow> (Done a, s'))) \<le> c s + d \<and> d \<le> k
    \<and> costs c (k - d) (fst (case f s of (a, s') \<Rightarrow> (Done a, s')))" for s
    using assms [of s] by (intro exI [of _ k]) (cases "f s", auto intro: costs_Done)
qed

lemma costs_seq:
  assumes "costs c k p" "\<And>a. costs c l (f a)"
  shows "costs c (k + l) (seq p f)"
  using assms(1)
proof induction
  case (costs_Done k a)
  then show ?case using costs_mono [OF assms(2)] by simp
next
  case (costs_Atom g k)
  show ?case unfolding seq.simps
  proof (rule costs.costs_Atom)
    fix s
    obtain d where "c (snd (g s)) \<le> c s + d" "d \<le> k" "costs c (k - d + l) (seq (fst (g s)) f)"
      using costs_Atom by blast
    then show "\<exists>d. c (snd ((map_prod (\<lambda>p. seq p f) id \<circ> g) s)) \<le> c s + d \<and> d \<le> k + l
      \<and> costs c (k + l - d) (fst ((map_prod (\<lambda>p. seq p f) id \<circ> g) s))"
      by (intro exI [of _ d]) simp
  qed
qed

lemma costs_also_do: "costs c k p \<Longrightarrow> costs c l q \<Longrightarrow> costs c (k + l) (also_do p q)"
  unfolding also_do_def by (rule costs_seq)

lemma costs_par:
  assumes "\<And>s. c (snd (pick s)) = c s" "costs c k p" "costs c l q"
  shows "costs c (k + l) (par pick p q)"
  using assms
proof (induction pick p q arbitrary: k l rule: par.induct)
  case (1 pick a q)
  have "costs c (l + 0) (seq q (\<lambda>b. Done (a, b)))" by (rule costs_seq [OF 1(3)]) (rule costs_Done)
  then show ?case using costs_mono [of c l _ "k + l"] by simp
next
  case (2 pick f b)
  have "costs c (k + 0) (seq (Atom f) (\<lambda>a. Done (a, b)))" by (rule costs_seq [OF 2(2)]) (rule costs_Done)
  then show ?case using costs_mono [of c k _ "k + l"] by simp
next
  case (3 pick f g)
  show ?case unfolding par.simps
  proof (rule costs_Atom)
    fix s
    obtain left t where t: "pick s = (left, t)" by fastforce
    have same: "c t = c s" using 3(3) [of s] t by simp
    obtain d where d: "c (snd (f t)) \<le> c t + d" "d \<le> k" "costs c (k - d) (fst (f t))"
      using 3(4) by (auto elim: costs_AtomE)
    obtain e where e: "c (snd (g t)) \<le> c t + e" "e \<le> l" "costs c (l - e) (fst (g t))"
      using 3(5) by (auto elim: costs_AtomE)
    have "costs c (k - d + l) (par pick (fst (f t)) (Atom g))" if left
      using 3(1) [OF t [symmetric] that 3(3) d(3) 3(5)] .
    moreover have "costs c (k + (l - e)) (par pick (Atom f) (fst (g t)))" if "\<not> left"
      using 3(2) [OF t [symmetric] that 3(3,4) e(3)] .
    ultimately show "\<exists>x. c (snd (case pick s of (left, t) \<Rightarrow> if left then (par pick (fst (f t)) (Atom g), snd (f t))
          else (par pick (Atom f) (fst (g t)), snd (g t)))) \<le> c s + x \<and> x \<le> k + l
        \<and> costs c (k + l - x) (fst (case pick s of (left, t) \<Rightarrow> if left then (par pick (fst (f t)) (Atom g), snd (f t))
          else (par pick (Atom f) (fst (g t)), snd (g t))))"
      using d e same by (intro exI [of _ "if left then d else e"]) (simp add: t)
  qed
qed

section \<open>Running\<close>

lemma ensures_run: "ensures I P p \<Longrightarrow> I s \<Longrightarrow> P (fst (run p s)) \<and> I (snd (run p s))"
proof (induction arbitrary: s rule: ensures.induct)
  case (ensures_Atom g)
  obtain q t where g: "g s = (q, t)" by fastforce
  with ensures_Atom show ?case by (fastforce simp: run_Atom)
qed simp

lemma costs_run: "costs c k p \<Longrightarrow> c (snd (run p s)) \<le> c s + k"
proof (induction arbitrary: s rule: costs.induct)
  case (costs_Atom g k)
  obtain d where d: "c (snd (g s)) \<le> c s + d" "d \<le> k"
    "\<And>t. c (snd (run (fst (g s)) t)) \<le> c t + (k - d)"
    using costs_Atom [of s] by blast
  from d(3) [of "snd (g s)"] d(1,2) show ?case by (simp add: run_Atom case_prod_beta)
qed simp

end
