(* ===== verification/ResilientEmbed.thy ===== *)
theory ResilientEmbed
  imports ProviderResults Parallel Contract
begin

text \<open>
  \<^verbatim>\<open>pkg/controlplane/embed_resilient.go\<close>: a batch of texts is embedded by a provider; when a call
  fails for a reason that may pass, the batch is halved, and a text that is left alone is split in
  two. The provider, the progress callback, waiting for a free slot (or for the end of the context)
  and the scheduler of the goroutines act on a world of their own; every access to the shared
  state is one action. SHA-256 is an argument, since only that it tells texts apart matters.
\<close>

section \<open>Data\<close>

record EmbeddingModelSelection =
  es_Provider :: string
  es_Model :: string
  es_Dimensions :: int
  es_Options :: ModelOptions
  es_Fallbacks :: "string list"

record EmbeddingInput =
  ei_ModelSelection :: EmbeddingModelSelection
  ei_Texts :: "string list"
  ei_Dimensions :: int
  ei_Metadata :: "(string \<times> gval) list"

type_synonym vector = "float64 list"

record EmbeddingOutput =
  eo_Vectors :: "vector list"
  eo_Metadata :: output_metadata
  eo_ProviderResult :: ProviderResultMetadata

record ResilientEmbedProgress =
  ep_Phase :: string
  ep_BatchIndex :: int
  ep_BatchCount :: int
  ep_ItemIndex :: int
  ep_ItemCount :: int
  ep_TokenCount :: int
  ep_SplitPart :: int
  ep_SplitTotal :: int
  ep_ProviderResult :: "ProviderResultMetadata option"

definition no_progress :: ResilientEmbedProgress where
  "no_progress =
    \<lparr>ep_Phase = [], ep_BatchIndex = 0, ep_BatchCount = 0, ep_ItemIndex = 0, ep_ItemCount = 0,
     ep_TokenCount = 0, ep_SplitPart = 0, ep_SplitTotal = 0, ep_ProviderResult = None\<rparr>"

text \<open>The configuration; without a \<open>Progress\<close> callback the code does nothing in its place.\<close>

record 'w ResilientEmbedConfig =
  ec_MaxConcurrency :: int
  ec_EnableCache :: bool
  ec_MaxRetries :: int
  ec_SplitOversized :: bool
  ec_Progress :: "(ResilientEmbedProgress \<Rightarrow> 'w \<Rightarrow> call_error option \<times> 'w) option"

record ResilientEmbedResult =
  er_Vectors :: "vector list"
  er_Reused :: "bool list"
  er_ProviderResult :: ResultAggregator

record resilientEmbedJob =
  job_text :: string
  job_indexes :: "nat list"

text \<open>
  What the code calls, and the embedder's own state beside it. \<open>wait_slot\<close> is the \<open>select\<close> between a
  free slot and the end of the context: which of the two it finds is a matter of the others, so it
  acts on the world; giving the slot back has no result and is part of the world too.
\<close>

record 'w surroundings =
  GenerateEmbeddings :: "EmbeddingInput \<Rightarrow> 'w \<Rightarrow> (call_error + EmbeddingOutput option) \<times> 'w"
  wait_slot :: "'w \<Rightarrow> call_error option \<times> 'w"
  pick_left :: "'w \<Rightarrow> bool \<times> 'w"
  sha256 :: "string \<Rightarrow> string"

record 'w resilientEmbedder =
  emb_cache :: "string \<rightharpoonup> vector"
  emb_aggregator :: ResultAggregator
  emb_world :: 'w

type_synonym ('w, 'a) embedding = "('w resilientEmbedder, call_error + 'a) proc"

definition on_world :: "('w \<Rightarrow> 'a \<times> 'w) \<Rightarrow> 'w resilientEmbedder \<Rightarrow> 'a \<times> 'w resilientEmbedder" where
  "on_world f s = (case f (emb_world s) of (a, w) \<Rightarrow> (a, s\<lparr>emb_world := w\<rparr>))"

text \<open>A call that only returns an error, with Go's early return.\<close>

definition check :: "('s, call_error option) proc \<Rightarrow> ('s, call_error + 'a) proc \<Rightarrow> ('s, call_error + 'a) proc" where
  "check p q = seq p (\<lambda>r. case r of Some e \<Rightarrow> Done (Inl e) | None \<Rightarrow> q)"

section \<open>Texts and vectors\<close>

definition tokenCount :: "string \<Rightarrow> int" where
  "tokenCount text = int (length (string_fields text))"

definition tokenCountForJobs :: "resilientEmbedJob list \<Rightarrow> int" where
  "tokenCountForJobs jobs = sum_list (map (tokenCount \<circ> job_text) jobs)"

text \<open>The characters of a text; a byte that belongs to none becomes U+FFFD.\<close>

function runes :: "string \<Rightarrow> string list" where
  "runes [] = []"
| "runes (c # cs) =
    (if utf8_len (c # cs) = 0 then replacement # runes cs
     else take (utf8_len (c # cs)) (c # cs) # runes (drop (utf8_len (c # cs) - 1) cs))"
  by pat_completeness auto
termination
  by (relation "measure length") auto

declare runes.simps(2) [simp del]

definition splitProviderRetryText :: "string \<Rightarrow> string list" where
  "splitProviderRetryText text =
    (let rs = runes text; mid = length rs div 2 in
     if length rs < 2 then [] else [concat (take mid rs), concat (drop mid rs)])"

text \<open>A row of the sum, the product rounded before it is added: a vector shorter than the first adds to its first components only.\<close>

fun add_weighted :: "float64 \<Rightarrow> vector \<Rightarrow> vector \<Rightarrow> vector" where
  "add_weighted weight (x # out) (y # ys) = float_add x (float_mul y weight) # add_weighted weight out ys"
| "add_weighted weight out ys = out"

definition weight_at :: "int list \<Rightarrow> nat \<Rightarrow> int" where
  "weight_at weights i = (if i < length weights \<and> 0 < weights ! i then weights ! i else 1)"

definition weightedAverageVector :: "vector list \<Rightarrow> int list \<Rightarrow> vector" where
  "weightedAverageVector vectors weights =
    (case vectors of
       [] \<Rightarrow> []
     | v # _ \<Rightarrow>
         let rows = zip (map (weight_at weights) [0..<length vectors]) vectors;
             out = foldl (\<lambda>out (w, y). add_weighted (float_of_int w) out y) (replicate (length v) f0) rows;
             totalWeight = sum_list (map fst rows)
         in if totalWeight = 0 then out else map (\<lambda>x. float_div x (float_of_int totalWeight)) out)"

section \<open>Errors that may pass\<close>

definition retryable_status :: "int \<Rightarrow> bool" where
  "retryable_status c \<longleftrightarrow>
    (if c \<in> {408, 409, 425, 429, 502, 503, 504} then True
     else if c \<in> {400, 401, 403, 404} then False
     else 500 \<le> c)"

definition IsRetryableProviderError :: "call_error \<Rightarrow> bool" where
  "IsRetryableProviderError err \<longleftrightarrow>
    (if call_error_is err ''context canceled'' \<or> call_error_is err ''context deadline exceeded'' then True
     else (case ProviderResultFromError err of
             None \<Rightarrow> False
           | Some r \<Rightarrow>
               if (case pm_Error r of Some e \<Rightarrow> pe_Retryable e | None \<Rightarrow> False) then True
               else retryable_status (pm_StatusCode r)))"

section \<open>The embedder\<close>

definition progress ::
    "'w ResilientEmbedConfig \<Rightarrow> ResilientEmbedProgress \<Rightarrow> ('w resilientEmbedder, call_error option) proc" where
  "progress cfg p =
    (case ec_Progress cfg of None \<Rightarrow> Done None | Some f \<Rightarrow> act (on_world (f p)))"

definition cacheKey :: "'w surroundings \<Rightarrow> EmbeddingInput \<Rightarrow> string \<Rightarrow> string" where
  "cacheKey env input text =
    es_Provider (ei_ModelSelection input) @ [CHR 0x00] @ es_Model (ei_ModelSelection input)
      @ [CHR 0x00] @ sha256 env text"

fun cached_all :: "(string \<rightharpoonup> vector) \<Rightarrow> string list \<Rightarrow> vector list option" where
  "cached_all m [] = Some []"
| "cached_all m (k # ks) =
    (case m k of
       None \<Rightarrow> None
     | Some v \<Rightarrow> map_option (\<lambda>vs. v # vs) (cached_all m ks))"

text \<open>
  Both functions work on the map without the lock, and with \<open>MaxConcurrency\<close> set the halves of a batch run
  them in two goroutines. Here each of them is one action: a run in which Go's runtime sees the accesses
  overlap, and aborts the program, is not a run of this model.
\<close>

definition cachedVectors ::
    "'w surroundings \<Rightarrow> EmbeddingInput \<Rightarrow> resilientEmbedJob list
     \<Rightarrow> 'w resilientEmbedder \<Rightarrow> vector list option \<times> 'w resilientEmbedder" where
  "cachedVectors env input jobs s = (cached_all (emb_cache s) (map (cacheKey env input \<circ> job_text) jobs), s)"

definition storeCache ::
    "'w surroundings \<Rightarrow> EmbeddingInput \<Rightarrow> resilientEmbedJob list \<Rightarrow> vector list
     \<Rightarrow> 'w resilientEmbedder \<Rightarrow> unit \<times> 'w resilientEmbedder" where
  "storeCache env input jobs vectors s =
    ((), s\<lparr>emb_cache :=
       foldl (\<lambda>m (job, v). m(cacheKey env input (job_text job) \<mapsto> v)) (emb_cache s) (zip jobs vectors)\<rparr>)"

definition addResult :: "ProviderResultMetadata \<Rightarrow> 'w resilientEmbedder \<Rightarrow> unit \<times> 'w resilientEmbedder" where
  "addResult r s = ((), s\<lparr>emb_aggregator := aggregate_Add r (emb_aggregator s)\<rparr>)"

definition addError :: "call_error \<Rightarrow> 'w resilientEmbedder \<Rightarrow> unit \<times> 'w resilientEmbedder" where
  "addError err s = ((), s\<lparr>emb_aggregator := snd (aggregate_AddError err (emb_aggregator s))\<rparr>)"

definition callProvider ::
    "'w surroundings \<Rightarrow> 'w ResilientEmbedConfig \<Rightarrow> EmbeddingInput \<Rightarrow> resilientEmbedJob list
     \<Rightarrow> ('w, EmbeddingOutput) embedding" where
  "callProvider env cfg input jobs =
    check (if 0 < ec_MaxConcurrency cfg then act (on_world (wait_slot env)) else Done None)
     (let items = int (length jobs); tokens = tokenCountForJobs jobs in
      check (progress cfg (no_progress\<lparr>ep_Phase := ''batch_start'', ep_BatchCount := 1,
               ep_ItemCount := items, ep_TokenCount := tokens\<rparr>))
       (seq (act (on_world (GenerateEmbeddings env (input\<lparr>ei_Texts := map job_text jobs\<rparr>)))) (\<lambda>r.
          case r of
            Inl err \<Rightarrow>
              check (progress cfg (no_progress\<lparr>ep_Phase := ''batch_error'', ep_ItemCount := items,
                       ep_TokenCount := tokens, ep_ProviderResult := ProviderResultFromError err\<rparr>))
                (Done (Inl err))
          | Inr None \<Rightarrow> Done (Inl (CErr ''embedding provider returned nil output''))
          | Inr (Some out) \<Rightarrow>
              check (progress cfg (no_progress\<lparr>ep_Phase := ''batch_success'', ep_ItemCount := items,
                       ep_TokenCount := tokens, ep_ProviderResult := Some (eo_ProviderResult out)\<rparr>))
                (Done (Inr out)))))"

definition embedSplitBatches ::
    "'w surroundings \<Rightarrow> 'w ResilientEmbedConfig
     \<Rightarrow> ('w, vector list) embedding \<Rightarrow> ('w, vector list) embedding \<Rightarrow> ('w, vector list) embedding" where
  "embedSplitBatches env cfg left right =
    (if ec_MaxConcurrency cfg \<le> 0 then
       must left (\<lambda>ls. must right (\<lambda>rs. Done (Inr (ls @ rs))))
     else
       seq (par (on_world (pick_left env)) left right) (\<lambda>(l, r).
         case l of
           Inl e \<Rightarrow> Done (Inl e)
         | Inr ls \<Rightarrow> (case r of Inl e \<Rightarrow> Done (Inl e) | Inr rs \<Rightarrow> Done (Inr (ls @ rs)))))"

definition split_progress :: "resilientEmbedJob \<Rightarrow> string list \<Rightarrow> nat \<Rightarrow> ResilientEmbedProgress" where
  "split_progress job parts i =
    no_progress\<lparr>ep_Phase := ''split'', ep_ItemIndex := int (hd (job_indexes job)),
      ep_SplitPart := int i + 1, ep_SplitTotal := int (length parts),
      ep_TokenCount := tokenCount (parts ! i)\<rparr>"

definition embedOversizedSingleton ::
    "'w ResilientEmbedConfig \<Rightarrow> (resilientEmbedJob list \<Rightarrow> ('w, vector list) embedding)
     \<Rightarrow> resilientEmbedJob \<Rightarrow> ('w, vector list) embedding" where
  "embedOversizedSingleton cfg again job =
    (let parts = splitProviderRetryText (job_text job) in
     if length parts < 2 then Done (Inl (CErr ''embedding text cannot be split further''))
     else
       foldr (\<lambda>i q. check (progress cfg (split_progress job parts i)) q) [0..<length parts]
         (must (again (map (\<lambda>part. job\<lparr>job_text := part\<rparr>) parts)) (\<lambda>vs.
            Done (Inr [weightedAverageVector vs (map (int \<circ> length \<circ> runes) parts)]))))"

text \<open>
  \<open>embedJobs\<close> with the retries that are left instead of the attempts that were made: \<open>retry\<close> is
  the recursive call, when there is one left.
\<close>

definition keep_result ::
    "'w surroundings \<Rightarrow> 'w ResilientEmbedConfig \<Rightarrow> EmbeddingInput \<Rightarrow> resilientEmbedJob list
     \<Rightarrow> EmbeddingOutput \<Rightarrow> ('w, vector list) embedding" where
  "keep_result env cfg input jobs out =
    (if length (eo_Vectors out) \<noteq> length jobs
     then Done (Inl (CErr (''embedding provider returned '' @ decimal (int (length (eo_Vectors out)))
            @ '' vectors for '' @ decimal (int (length jobs)) @ '' texts'')))
     else also_do (act (addResult (eo_ProviderResult out)))
       (also_do (if ec_EnableCache cfg then act (storeCache env input jobs (eo_Vectors out)) else Done ())
         (Done (Inr (eo_Vectors out)))))"

definition try_again ::
    "'w surroundings \<Rightarrow> 'w ResilientEmbedConfig
     \<Rightarrow> (resilientEmbedJob list \<Rightarrow> ('w, vector list) embedding) option
     \<Rightarrow> resilientEmbedJob list \<Rightarrow> call_error \<Rightarrow> ('w, vector list) embedding" where
  "try_again env cfg retry jobs err =
    (case retry of
       None \<Rightarrow> Done (Inl err)
     | Some again \<Rightarrow>
         if \<not> IsRetryableProviderError err then Done (Inl err)
         else if 1 < length jobs
         then embedSplitBatches env cfg (again (take (length jobs div 2) jobs))
                (again (drop (length jobs div 2) jobs))
         else if \<not> ec_SplitOversized cfg then Done (Inl err)
         else embedOversizedSingleton cfg again (hd jobs))"

definition embed_attempt ::
    "'w surroundings \<Rightarrow> 'w ResilientEmbedConfig \<Rightarrow> EmbeddingInput
     \<Rightarrow> (resilientEmbedJob list \<Rightarrow> ('w, vector list) embedding) option
     \<Rightarrow> resilientEmbedJob list \<Rightarrow> ('w, vector list) embedding" where
  "embed_attempt env cfg input retry jobs =
    (if jobs = [] then Done (Inr [])
     else
       seq (if ec_EnableCache cfg then act (cachedVectors env input jobs) else Done None) (\<lambda>cached.
         case cached of
           Some vs \<Rightarrow> Done (Inr vs)
         | None \<Rightarrow>
             seq (callProvider env cfg input jobs) (\<lambda>r.
               case r of
                 Inr out \<Rightarrow> keep_result env cfg input jobs out
               | Inl err \<Rightarrow> also_do (act (addError err)) (try_again env cfg retry jobs err))))"

primrec embedJobs ::
    "'w surroundings \<Rightarrow> 'w ResilientEmbedConfig \<Rightarrow> EmbeddingInput \<Rightarrow> nat
     \<Rightarrow> resilientEmbedJob list \<Rightarrow> ('w, vector list) embedding" where
  "embedJobs env cfg input 0 = embed_attempt env cfg input None"
| "embedJobs env cfg input (Suc n) = embed_attempt env cfg input (Some (embedJobs env cfg input n))"

definition maxRetries :: "'w ResilientEmbedConfig \<Rightarrow> nat" where
  "maxRetries cfg = nat (ec_MaxRetries cfg)"

text \<open>
  The jobs: with the cache, equal texts share one. \<open>embed_jobs\<close> also tells which texts are reused;
  what the progress callback says to a hit is ignored.
\<close>

definition add_index :: "nat \<Rightarrow> nat \<Rightarrow> resilientEmbedJob list \<Rightarrow> resilientEmbedJob list" where
  "add_index i index jobs = jobs[i := (jobs ! i)\<lparr>job_indexes := job_indexes (jobs ! i) @ [index]\<rparr>]"

fun jobs_loop ::
    "(string \<Rightarrow> string) \<Rightarrow> nat \<Rightarrow> string list \<Rightarrow> (string \<rightharpoonup> nat) \<Rightarrow> resilientEmbedJob list
     \<Rightarrow> resilientEmbedJob list \<times> bool list" where
  "jobs_loop key index [] byKey jobs = (jobs, [])"
| "jobs_loop key index (text # texts) byKey jobs =
    (case byKey (key text) of
       Some existing \<Rightarrow>
         map_prod id (\<lambda>rs. True # rs)
           (jobs_loop key (index + 1) texts byKey (add_index existing index jobs))
     | None \<Rightarrow>
         map_prod id (\<lambda>rs. False # rs)
           (jobs_loop key (index + 1) texts (byKey(key text \<mapsto> length jobs))
             (jobs @ [\<lparr>job_text = text, job_indexes = [index]\<rparr>])))"

definition embed_jobs ::
    "'w surroundings \<Rightarrow> 'w ResilientEmbedConfig \<Rightarrow> EmbeddingInput
     \<Rightarrow> resilientEmbedJob list \<times> bool list" where
  "embed_jobs env cfg input =
    (let texts = ei_Texts input in
     if \<not> ec_EnableCache cfg
     then (map (\<lambda>(i, text). \<lparr>job_text = text, job_indexes = [i]\<rparr>) (zip [0..<length texts] texts),
           replicate (length texts) False)
     else jobs_loop (cacheKey env input) 0 texts Map.empty [])"

definition cache_hit :: "nat \<Rightarrow> nat \<Rightarrow> ResilientEmbedProgress" where
  "cache_hit index items =
    no_progress\<lparr>ep_Phase := ''cache_hit'', ep_ItemIndex := int index, ep_ItemCount := int items\<rparr>"

definition report_hits ::
    "'w ResilientEmbedConfig \<Rightarrow> bool list \<Rightarrow> ('w, 'a) embedding \<Rightarrow> ('w, 'a) embedding" where
  "report_hits cfg reused q =
    foldr (\<lambda>(i, hit) q. if hit then also_do (progress cfg (cache_hit i (length reused))) q else q)
      (zip [0..<length reused] reused) q"

text \<open>Every job's vector goes to all the texts it stands for.\<close>

definition place :: "vector list \<Rightarrow> resilientEmbedJob \<times> vector \<Rightarrow> vector list" where
  "place vectors jv = foldl (\<lambda>vs i. vs[i := snd jv]) vectors (job_indexes (fst jv))"

definition ResilientEmbedBatch ::
    "'w surroundings \<Rightarrow> 'w ResilientEmbedConfig \<Rightarrow> EmbeddingInput
     \<Rightarrow> ('w, ResilientEmbedResult) embedding" where
  "ResilientEmbedBatch env cfg input =
    (case embed_jobs env cfg input of
       (jobs, reused) \<Rightarrow>
         report_hits cfg reused
           (must (embedJobs env cfg input (maxRetries cfg) jobs) (\<lambda>jobVectors.
              seq (act (\<lambda>s. (emb_aggregator s, s))) (\<lambda>summary.
                Done (Inr
                  \<lparr>er_Vectors = foldl place (replicate (length (ei_Texts input)) []) (zip jobs jobVectors),
                   er_Reused = reused, er_ProviderResult = summary\<rparr>)))))"

text \<open>A new embedder has an empty cache and no results.\<close>

definition new_embedder :: "'w \<Rightarrow> 'w resilientEmbedder" where
  "new_embedder w = \<lparr>emb_cache = Map.empty, emb_aggregator = no_results, emb_world = w\<rparr>"

end
