(* ===== verification/ResilientEmbedSpec.thy ===== *)
theory ResilientEmbedSpec
  imports ResilientEmbed
begin

text \<open>
  What embedding a batch promises: it ends after a bounded number of calls, every text gets its own
  vector whatever failed and whoever was faster, and a provider that only takes small batches is
  served with batches small enough.
\<close>

section \<open>A bounded number of calls\<close>

lemma costs_check:
  "costs c k p \<Longrightarrow> costs c l q \<Longrightarrow> costs c (k + l) (check p q)"
  unfolding check_def by (rule costs_seq) (auto split: option.split intro: costs_Done)

lemma costs_must:
  "costs c k p \<Longrightarrow> (\<And>a. costs c l (f a)) \<Longrightarrow> costs c (k + l) (must p f)"
  unfolding must_def by (rule costs_seq) (auto split: sum.split intro: costs_Done)

text \<open>\<open>calls\<close> counts the calls of the provider, and nothing else makes it grow.\<close>

definition counts_calls :: "('w \<Rightarrow> nat) \<Rightarrow> 'w surroundings \<Rightarrow> 'w ResilientEmbedConfig \<Rightarrow> bool" where
  "counts_calls calls env cfg \<longleftrightarrow>
    (\<forall>w i. calls (snd (GenerateEmbeddings env i w)) \<le> calls w + 1)
    \<and> (\<forall>w. calls (snd (wait_slot env w)) \<le> calls w)
    \<and> (\<forall>w. calls (snd (pick_left env w)) = calls w)
    \<and> (\<forall>f. ec_Progress cfg = Some f \<longrightarrow> (\<forall>p w. calls (snd (f p w)) \<le> calls w))"

abbreviation calls_of :: "('w \<Rightarrow> nat) \<Rightarrow> 'w resilientEmbedder \<Rightarrow> nat" where
  "calls_of calls s \<equiv> calls (emb_world s)"

lemma snd_on_world [simp]: "emb_world (snd (on_world f s)) = snd (f (emb_world s))"
  by (simp add: on_world_def case_prod_beta)

lemma costs_progress: "counts_calls calls env cfg \<Longrightarrow> costs (calls_of calls) 0 (progress cfg p)"
  by (auto simp: progress_def counts_calls_def split: option.split intro!: costs_intros)

lemma costs_callProvider:
  assumes "counts_calls calls env cfg"
  shows "costs (calls_of calls) 1 (callProvider env cfg input jobs)"
proof -
  note prog = costs_progress [OF assms]
  have slot: "costs (calls_of calls) 0 (if 0 < ec_MaxConcurrency cfg then act (on_world (wait_slot env)) else Done None)"
    using assms by (auto simp: counts_calls_def intro!: costs_intros)
  have gen: "costs (calls_of calls) 1 (act (on_world (GenerateEmbeddings env i)))" for i
    using assms by (auto simp: counts_calls_def intro!: costs_act)
  have tail: "costs (calls_of calls) 0 (check (progress cfg p) (Done r))" for p and r :: "call_error + EmbeddingOutput"
    using costs_check [OF prog costs_Done] by fastforce
  have "costs (calls_of calls) (0 + (0 + (1 + 0))) (callProvider env cfg input jobs)"
    unfolding callProvider_def Let_def
    by (intro costs_check slot prog costs_seq gen) (auto split: sum.split option.split intro: tail costs_Done)
  then show ?thesis by simp
qed

lemma costs_split:
  assumes "counts_calls calls env cfg" "costs (calls_of calls) k left" "costs (calls_of calls) k right"
  shows "costs (calls_of calls) (2 * k) (embedSplitBatches env cfg left right)"
proof -
  have "costs (calls_of calls) (k + (k + 0)) (must left (\<lambda>ls. must right (\<lambda>rs. Done (Inr (ls @ rs)))))"
    by (intro costs_must assms(2,3) costs_Done)
  moreover have "costs (calls_of calls) (k + k + 0) (seq (par (on_world (pick_left env)) left right) (\<lambda>(l, r).
      case l of Inl e \<Rightarrow> Done (Inl e)
      | Inr ls \<Rightarrow> (case r of Inl e \<Rightarrow> Done (Inl e) | Inr rs \<Rightarrow> Done (Inr (ls @ rs)))))"
    using assms(1)
    by (intro costs_seq costs_par assms(2,3))
      (auto simp: counts_calls_def split: prod.split sum.split intro: costs_Done)
  ultimately show ?thesis by (simp add: embedSplitBatches_def mult_2)
qed

lemma costs_oversized:
  assumes "counts_calls calls env cfg" "\<And>jobs. costs (calls_of calls) k (again jobs)"
  shows "costs (calls_of calls) k (embedOversizedSingleton cfg again job)"
proof -
  have "costs (calls_of calls) k (foldr (\<lambda>i. check (progress cfg (f i))) is q)"
    if "costs (calls_of calls) k q" for f and "is" :: "nat list" and q :: "('a, vector list) embedding"
    using that costs_check [OF costs_progress [OF assms(1)]] by (induction "is") fastforce+
  moreover have "costs (calls_of calls) (k + 0) (must (again jobs) (\<lambda>vs. Done (Inr [f vs])))"
    for f :: "vector list \<Rightarrow> vector" and jobs
    by (intro costs_must assms(2) costs_Done)
  ultimately show ?thesis
    by (auto simp: embedOversizedSingleton_def Let_def intro: costs_Done)
qed

lemma costs_keep: "costs (calls_of calls) 0 (keep_result env cfg input jobs out)"
proof -
  have "costs (calls_of calls) 0 (if ec_EnableCache cfg then act (storeCache env input jobs vs) else Done ())" for vs
    by (auto intro!: costs_intros simp: storeCache_def)
  moreover have "costs (calls_of calls) 0 (act (addResult r))" for r
    by (rule costs_act) (simp add: addResult_def)
  ultimately have "costs (calls_of calls) (0 + (0 + 0)) (also_do (act (addResult r))
      (also_do (if ec_EnableCache cfg then act (storeCache env input jobs vs) else Done ()) (Done (Inr vs))))"
    for r and vs :: "vector list"
    by (intro costs_also_do costs_Done)
  then show ?thesis by (auto simp: keep_result_def intro: costs_Done)
qed

lemma costs_try_again:
  assumes "counts_calls calls env cfg"
    and "case retry of None \<Rightarrow> True | Some again \<Rightarrow> \<forall>jobs. costs (calls_of calls) k (again jobs)"
  shows "costs (calls_of calls) (2 * k) (try_again env cfg retry jobs err)"
  using assms(2) costs_split [OF assms(1)] costs_mono [OF costs_oversized [OF assms(1)], of k _ "2 * k"]
  by (auto simp: try_again_def split: option.split intro: costs_Done)

lemma costs_attempt:
  assumes "counts_calls calls env cfg"
    and "case retry of None \<Rightarrow> True | Some again \<Rightarrow> \<forall>jobs. costs (calls_of calls) k (again jobs)"
  shows "costs (calls_of calls) (Suc (2 * k)) (embed_attempt env cfg input retry jobs)"
proof -
  have cached: "costs (calls_of calls) 0 (if ec_EnableCache cfg then act (cachedVectors env input jobs) else Done None)"
    by (auto intro!: costs_intros simp: cachedVectors_def)
  have err: "costs (calls_of calls) (0 + 2 * k) (also_do (act (addError err)) (try_again env cfg retry jobs err))" for err
    by (intro costs_also_do costs_try_again [OF assms] costs_act) (simp add: addError_def)
  have "costs (calls_of calls) (0 + (1 + 2 * k)) (seq (if ec_EnableCache cfg then act (cachedVectors env input jobs) else Done None)
      (\<lambda>cached. case cached of Some vs \<Rightarrow> Done (Inr vs) | None \<Rightarrow>
         seq (callProvider env cfg input jobs) (\<lambda>r. case r of Inr out \<Rightarrow> keep_result env cfg input jobs out
           | Inl err \<Rightarrow> also_do (act (addError err)) (try_again env cfg retry jobs err))))"
  proof (rule costs_seq [OF cached], goal_cases)
    case (1 cached)
    have "costs (calls_of calls) (2 * k) (case r of Inr out \<Rightarrow> keep_result env cfg input jobs out
           | Inl err \<Rightarrow> also_do (act (addError err)) (try_again env cfg retry jobs err))" for r
      using err by (auto split: sum.split intro: costs_mono [OF costs_keep])
    from costs_seq [OF costs_callProvider [OF assms(1)] this] show ?case
      by (auto split: option.split intro: costs_Done)
  qed
  then show ?thesis by (auto simp: embed_attempt_def intro: costs_Done)
qed

lemma costs_embedJobs:
  assumes "counts_calls calls env cfg"
  shows "costs (calls_of calls) (2 ^ (n + 1) - 1) (embedJobs env cfg input n jobs)"
proof (induction n arbitrary: jobs)
  case 0
  then show ?case using costs_attempt [OF assms, where retry = None and k = 0] by simp
next
  case (Suc n)
  have "Suc (2 * (2 ^ (n + 1) - 1)) = (2 ^ (Suc n + 1) - 1 :: nat)" by (induction n) auto
  moreover have "costs (calls_of calls) (Suc (2 * (2 ^ (n + 1) - 1))) (embedJobs env cfg input (Suc n) jobs)"
    unfolding embedJobs.simps by (rule costs_attempt [OF assms]) (simp add: Suc [simplified])
  ultimately show ?case by simp
qed

section \<open>The right vectors\<close>

text \<open>
  \<open>f\<close> is the vector of a text. \<open>right_vectors\<close> is what a provider owes that returns one vector per
  text; \<open>serves_batches m\<close> is one that takes at most \<open>m\<close> texts at a time and refuses more of them
  with an error that may pass.
\<close>

definition right_vectors :: "'w surroundings \<Rightarrow> (string \<Rightarrow> vector) \<Rightarrow> bool" where
  "right_vectors env f \<longleftrightarrow>
    (\<forall>i w out. fst (GenerateEmbeddings env i w) = Inr (Some out) \<longrightarrow>
       length (eo_Vectors out) = length (ei_Texts i) \<longrightarrow> eo_Vectors out = map f (ei_Texts i))"

definition serves_batches :: "nat \<Rightarrow> 'w surroundings \<Rightarrow> 'w ResilientEmbedConfig \<Rightarrow> (string \<Rightarrow> vector) \<Rightarrow> bool" where
  "serves_batches m env cfg f \<longleftrightarrow>
    (\<forall>i w. case fst (GenerateEmbeddings env i w) of
       Inl e \<Rightarrow> m < length (ei_Texts i) \<and> IsRetryableProviderError e
     | Inr None \<Rightarrow> False
     | Inr (Some out) \<Rightarrow> eo_Vectors out = map f (ei_Texts i))
    \<and> (\<forall>w. fst (wait_slot env w) = None)
    \<and> (\<forall>g. ec_Progress cfg = Some g \<longrightarrow> (\<forall>p w. fst (g p w) = None))"

definition cache_right ::
    "'w surroundings \<Rightarrow> EmbeddingInput \<Rightarrow> (string \<Rightarrow> vector) \<Rightarrow> string set \<Rightarrow> 'w resilientEmbedder \<Rightarrow> bool" where
  "cache_right env input f T s \<longleftrightarrow>
    (\<forall>t \<in> T. \<forall>v. emb_cache s (cacheKey env input t) = Some v \<longrightarrow> v = f t)"

text \<open>If \<open>sure\<close> an error is excluded.\<close>

definition right_result :: "bool \<Rightarrow> 'a \<Rightarrow> call_error + 'a \<Rightarrow> bool" where
  "right_result sure a r \<longleftrightarrow> (case r of Inl e \<Rightarrow> \<not> sure | Inr b \<Rightarrow> b = a)"

definition call_right :: "bool \<Rightarrow> nat \<Rightarrow> (string \<Rightarrow> vector) \<Rightarrow> string list \<Rightarrow> call_error + EmbeddingOutput \<Rightarrow> bool" where
  "call_right sure m f texts r \<longleftrightarrow>
    (case r of
       Inl e \<Rightarrow> sure \<longrightarrow> m < length texts \<and> IsRetryableProviderError e
     | Inr out \<Rightarrow> (sure \<or> length (eo_Vectors out) = length texts) \<longrightarrow> eo_Vectors out = map f texts)"

definition provider_right ::
    "bool \<Rightarrow> nat \<Rightarrow> 'w surroundings \<Rightarrow> 'w ResilientEmbedConfig \<Rightarrow> (string \<Rightarrow> vector) \<Rightarrow> bool" where
  "provider_right sure m env cfg f \<longleftrightarrow>
    (if sure then serves_batches m env cfg f else right_vectors env f)"

lemma cache_right_world [simp]: "cache_right env input f T (s\<lparr>emb_world := w\<rparr>) = cache_right env input f T s"
  by (simp add: cache_right_def)

lemma cache_right_aggregator [simp]:
  "cache_right env input f T (s\<lparr>emb_aggregator := a\<rparr>) = cache_right env input f T s"
  by (simp add: cache_right_def)

lemma cache_right_on_world [simp]: "cache_right env input f T (snd (on_world g s)) = cache_right env input f T s"
  by (simp add: on_world_def case_prod_beta)

lemma fst_on_world [simp]: "fst (on_world f s) = fst (f (emb_world s))"
  by (simp add: on_world_def case_prod_beta)

lemma cacheKey_inj: "inj_on (sha256 env) T \<Longrightarrow> inj_on (cacheKey env input) T"
  by (auto simp: inj_on_def cacheKey_def)

lemma ensures_check:
  assumes "ensures I (\<lambda>r. r \<noteq> None \<longrightarrow> \<not> sure) p" "ensures I P q" "\<And>e. \<not> sure \<Longrightarrow> P (Inl e)"
  shows "ensures I P (check p q)"
  unfolding check_def
  by (rule ensures_seq [OF assms(1)]) (use assms(2,3) in \<open>auto split: option.split intro: ensures_Done\<close>)

lemma ensures_progress:
  assumes "provider_right sure m env cfg f"
  shows "ensures (cache_right env input f T) (\<lambda>r. r \<noteq> None \<longrightarrow> \<not> sure) (progress cfg p)"
  using assms by (auto simp: progress_def provider_right_def serves_batches_def split: option.split if_splits
      intro!: ensures_intros)

lemma ensures_callProvider:
  assumes "provider_right sure m env cfg f"
  shows "ensures (cache_right env input f T) (call_right sure m f (map job_text jobs)) (callProvider env cfg input jobs)"
proof -
  let ?I = "cache_right env input f T" and ?P = "call_right sure m f (map job_text jobs)"
  note prog = ensures_progress [OF assms, of input T]
  have fails: "?P (Inl e)" if "\<not> sure" for e using that by (simp add: call_right_def)
  note check = ensures_check [where I = ?I and P = ?P and sure = sure, OF _ _ fails]
  have slot: "ensures ?I (\<lambda>r. r \<noteq> None \<longrightarrow> \<not> sure)
      (if 0 < ec_MaxConcurrency cfg then act (on_world (wait_slot env)) else Done None)"
    using assms by (auto simp: provider_right_def serves_batches_def split: if_splits intro!: ensures_intros)
  have gen: "ensures ?I (\<lambda>r. case r of Inl e \<Rightarrow> ?P (Inl e) | Inr None \<Rightarrow> \<not> sure | Inr (Some out) \<Rightarrow> ?P (Inr out))
      (act (on_world (GenerateEmbeddings env (input\<lparr>ei_Texts := map job_text jobs\<rparr>))))"
  proof (rule ensures_act)
    fix s assume I: "?I s"
    let ?r = "fst (GenerateEmbeddings env (input\<lparr>ei_Texts := map job_text jobs\<rparr>) (emb_world s))"
    have "case ?r of Inl e \<Rightarrow> ?P (Inl e) | Inr None \<Rightarrow> \<not> sure | Inr (Some out) \<Rightarrow> ?P (Inr out)"
    proof (cases sure)
      case True
      then have "serves_batches m env cfg f" using assms by (simp add: provider_right_def)
      then show ?thesis
        unfolding serves_batches_def
        by (auto simp: call_right_def split: sum.splits option.splits
            dest!: spec [of _ "input\<lparr>ei_Texts := map job_text jobs\<rparr>"] spec [of _ "emb_world s"])
    next
      case False
      then have "right_vectors env f" using assms by (simp add: provider_right_def)
      then show ?thesis using False
        by (fastforce simp: call_right_def right_vectors_def split: sum.splits option.splits)
    qed
    then show "(case fst (on_world (GenerateEmbeddings env (input\<lparr>ei_Texts := map job_text jobs\<rparr>)) s) of
          Inl e \<Rightarrow> ?P (Inl e) | Inr None \<Rightarrow> \<not> sure | Inr (Some out) \<Rightarrow> ?P (Inr out))
        \<and> ?I (snd (on_world (GenerateEmbeddings env (input\<lparr>ei_Texts := map job_text jobs\<rparr>)) s))"
      using I by simp
  qed
  show ?thesis
    unfolding callProvider_def Let_def
    by (intro check slot prog ensures_seq [OF gen])
      (auto simp: call_right_def split: sum.splits option.splits intro!: ensures_Done intro: check prog)
qed

lemma ensures_must:
  assumes "ensures I (right_result sure a) p" "ensures I (right_result sure b) (f a)"
  shows "ensures I (right_result sure b) (must p f)"
  unfolding must_def
  by (rule ensures_seq [OF assms(1)])
    (use assms(2) in \<open>auto simp: right_result_def split: sum.splits intro: ensures_Done\<close>)

lemma ensures_split:
  assumes "ensures (cache_right env input f T) (right_result sure ls) left"
    and "ensures (cache_right env input f T) (right_result sure rs) right"
  shows "ensures (cache_right env input f T) (right_result sure (ls @ rs)) (embedSplitBatches env cfg left right)"
proof -
  have "ensures (cache_right env input f T) (right_result sure (ls @ rs))
      (must left (\<lambda>ls. must right (\<lambda>rs. Done (Inr (ls @ rs)))))"
    by (intro ensures_must [OF assms(1)] ensures_must [OF assms(2)] ensures_Done) (simp add: right_result_def)
  moreover have "ensures (cache_right env input f T) (right_result sure (ls @ rs))
      (seq (par (on_world (pick_left env)) left right) (\<lambda>(l, r).
        case l of Inl e \<Rightarrow> Done (Inl e)
        | Inr ls \<Rightarrow> (case r of Inl e \<Rightarrow> Done (Inl e) | Inr rs \<Rightarrow> Done (Inr (ls @ rs)))))"
  proof (rule ensures_seq [OF ensures_par [OF _ assms]], simp)
    fix x assume "case x of (l, r) \<Rightarrow> right_result sure ls l \<and> right_result sure rs r"
    then show "ensures (cache_right env input f T) (right_result sure (ls @ rs)) (case x of (l, r) \<Rightarrow>
        case l of Inl e \<Rightarrow> Done (Inl e)
        | Inr ls \<Rightarrow> (case r of Inl e \<Rightarrow> Done (Inl e) | Inr rs \<Rightarrow> Done (Inr (ls @ rs))))"
      by (cases x; cases "fst x"; cases "snd x") (auto simp: right_result_def intro!: ensures_Done)
  qed
  ultimately show ?thesis by (simp add: embedSplitBatches_def)
qed

lemma cached_all_right:
  assumes "cache_right env input f T s" "set ts \<subseteq> T"
    and "cached_all (emb_cache s) (map (cacheKey env input) ts) = Some vs"
  shows "vs = map f ts"
  using assms(2,3) assms(1) by (induction ts arbitrary: vs) (auto simp: cache_right_def split: option.splits)

lemma storeCache_right:
  assumes "inj_on (sha256 env) T" "job_text ` set jobs \<subseteq> T" "cache_right env input f T s"
  shows "cache_right env input f T (snd (storeCache env input jobs (map (f \<circ> job_text) jobs) s))"
proof -
  have inj: "inj_on (cacheKey env input) T" using assms(1) by (rule cacheKey_inj)
  have "\<forall>t \<in> T. \<forall>v. foldl (\<lambda>m (job, v). m(cacheKey env input (job_text job) \<mapsto> v)) m
      (zip js (map (\<lambda>j. f (job_text j)) js)) (cacheKey env input t) = Some v \<longrightarrow> v = f t"
    if "\<forall>t \<in> T. \<forall>v. m (cacheKey env input t) = Some v \<longrightarrow> v = f t" "job_text ` set js \<subseteq> T" for m js
    using that
  proof (induction js arbitrary: m)
    case (Cons j js)
    have "cacheKey env input t = cacheKey env input (job_text j) \<longrightarrow> t = job_text j" if "t \<in> T" for t
      using that Cons.prems(2) inj_onD [OF inj, of t "job_text j"] by fastforce
    note same = this
    have "v = f t" if "t \<in> T" "(m(cacheKey env input (job_text j) \<mapsto> f (job_text j))) (cacheKey env input t) = Some v" for t v
      using that Cons.prems(1) same [of t]
      by (cases "cacheKey env input t = cacheKey env input (job_text j)") simp_all
    then have "\<forall>t \<in> T. \<forall>v. (m(cacheKey env input (job_text j) \<mapsto> f (job_text j))) (cacheKey env input t) = Some v \<longrightarrow> v = f t"
      by blast
    moreover have "job_text ` set js \<subseteq> T" using Cons.prems(2) by simp
    ultimately show ?case unfolding list.map zip_Cons_Cons foldl_Cons prod.case by (rule Cons.IH)
  qed simp
  then show ?thesis using assms(2,3) by (simp add: cache_right_def storeCache_def comp_def)
qed

lemma ensures_keep:
  assumes "inj_on (sha256 env) T" "job_text ` set jobs \<subseteq> T"
    and "call_right sure m f (map job_text jobs) (Inr out)"
  shows "ensures (cache_right env input f T) (right_result sure (map (f \<circ> job_text) jobs))
    (keep_result env cfg input jobs out)"
proof (cases "length (eo_Vectors out) = length jobs")
  case False
  moreover have "eo_Vectors out = map f (map job_text jobs)" if sure
    using assms(3) that by (simp add: call_right_def)
  ultimately have "\<not> sure" by auto
  then show ?thesis using False by (auto simp: keep_result_def right_result_def intro!: ensures_Done)
next
  case True
  then have vs: "eo_Vectors out = map (f \<circ> job_text) jobs" using assms(3) by (simp add: call_right_def)
  show ?thesis
    unfolding keep_result_def
    by (auto simp: vs addResult_def right_result_def
      intro!: ensures_also_do ensures_intros storeCache_right [OF assms(1,2)])
qed

lemma ensures_attempt:
  assumes "provider_right sure m env cfg f" "inj_on (sha256 env) T" "job_text ` set jobs \<subseteq> T"
    and "if sure then 1 \<le> m else \<not> ec_SplitOversized cfg"
    and "sure \<Longrightarrow> retry = None \<Longrightarrow> length jobs \<le> m"
    and "\<And>again js. retry = Some again \<Longrightarrow> set js \<subseteq> set jobs \<Longrightarrow> 2 * length js \<le> length jobs + 1 \<Longrightarrow>
      ensures (cache_right env input f T) (right_result sure (map (f \<circ> job_text) js)) (again js)"
  shows "ensures (cache_right env input f T) (right_result sure (map (f \<circ> job_text) jobs))
    (embed_attempt env cfg input retry jobs)"
proof -
  let ?I = "cache_right env input f T" and ?P = "right_result sure (map (f \<circ> job_text) jobs)"
  have again: "ensures ?I ?P (try_again env cfg retry jobs err)"
    if err: "call_right sure m f (map job_text jobs) (Inl err)" for err
  proof (cases retry)
    case None
    then show ?thesis using assms(5) err
      by (auto simp: try_again_def call_right_def right_result_def intro!: ensures_Done)
  next
    case (Some again)
    have halves: "ensures ?I (right_result sure (map (f \<circ> job_text) (take k jobs))) (again (take k jobs))"
      "ensures ?I (right_result sure (map (f \<circ> job_text) (drop k jobs))) (again (drop k jobs))"
      if "k = length jobs div 2" for k
      using assms(6) [OF Some] that by (auto intro!: assms(6) [OF Some] dest: in_set_takeD in_set_dropD)
    have "map (f \<circ> job_text) (take k jobs) @ map (f \<circ> job_text) (drop k jobs) = map (f \<circ> job_text) jobs" for k
      by (simp flip: map_append)
    then have "ensures ?I ?P (embedSplitBatches env cfg (again (take (length jobs div 2) jobs))
        (again (drop (length jobs div 2) jobs)))"
      using ensures_split [OF halves [OF refl], where cfg = cfg] by simp
    moreover have "?P (Inl err)" if "\<not> IsRetryableProviderError err \<or> length jobs \<le> 1"
      using err that assms(4) by (auto simp: call_right_def right_result_def split: if_splits)
    moreover have "\<not> ec_SplitOversized cfg" if "length jobs \<le> 1"
      using err that assms(4) by (auto simp: call_right_def split: if_splits)
    ultimately show ?thesis
      by (auto simp: try_again_def Some intro!: ensures_Done)
  qed
  have call: "ensures ?I ?P (seq (callProvider env cfg input jobs) (\<lambda>r. case r of
      Inr out \<Rightarrow> keep_result env cfg input jobs out
    | Inl err \<Rightarrow> also_do (act (addError err)) (try_again env cfg retry jobs err)))"
  proof (rule ensures_seq [OF ensures_callProvider [OF assms(1)]])
    fix r assume r: "call_right sure m f (map job_text jobs) r"
    have "ensures ?I (\<lambda>_. True) (act (addError err))" for err
      by (rule ensures_act) (simp add: addError_def)
    then show "ensures ?I ?P (case r of Inr out \<Rightarrow> keep_result env cfg input jobs out
        | Inl err \<Rightarrow> also_do (act (addError err)) (try_again env cfg retry jobs err))"
      using r ensures_keep [OF assms(2,3)] by (auto split: sum.split intro: ensures_also_do again)
  qed
  have "ensures ?I (\<lambda>c. c \<noteq> None \<longrightarrow> c = Some (map (f \<circ> job_text) jobs))
      (if ec_EnableCache cfg then act (cachedVectors env input jobs) else Done None)"
    using assms(3) cached_all_right [of env input f T _ "map job_text jobs"]
    by (auto simp: cachedVectors_def intro!: ensures_intros)
  then have "ensures ?I ?P (seq (if ec_EnableCache cfg then act (cachedVectors env input jobs) else Done None)
      (\<lambda>cached. case cached of Some vs \<Rightarrow> Done (Inr vs) | None \<Rightarrow>
         seq (callProvider env cfg input jobs) (\<lambda>r. case r of Inr out \<Rightarrow> keep_result env cfg input jobs out
           | Inl err \<Rightarrow> also_do (act (addError err)) (try_again env cfg retry jobs err))))"
  proof (rule ensures_seq)
    fix c :: "vector list option" assume c: "c \<noteq> None \<longrightarrow> c = Some (map (f \<circ> job_text) jobs)"
    have "ensures ?I ?P (Done (Inr (map (f \<circ> job_text) jobs)))"
      by (rule ensures_Done) (simp add: right_result_def)
    then show "ensures ?I ?P (case c of Some vs \<Rightarrow> Done (Inr vs) | None \<Rightarrow>
         seq (callProvider env cfg input jobs) (\<lambda>r. case r of Inr out \<Rightarrow> keep_result env cfg input jobs out
           | Inl err \<Rightarrow> also_do (act (addError err)) (try_again env cfg retry jobs err)))"
      using call c by (cases c) simp_all
  qed
  moreover have "ensures ?I ?P (Done (Inr []))" if "jobs = []"
    by (rule ensures_Done) (simp add: right_result_def that)
  ultimately show ?thesis by (simp add: embed_attempt_def)
qed

lemma ensures_embedJobs:
  assumes "provider_right sure m env cfg f" "inj_on (sha256 env) T"
    and "if sure then 1 \<le> m else \<not> ec_SplitOversized cfg"
    and "job_text ` set jobs \<subseteq> T" "sure \<Longrightarrow> length jobs \<le> m * 2 ^ n"
  shows "ensures (cache_right env input f T) (right_result sure (map (f \<circ> job_text) jobs))
    (embedJobs env cfg input n jobs)"
  using assms(4,5)
proof (induction n arbitrary: jobs)
  case 0
  show ?case unfolding embedJobs.simps
    by (rule ensures_attempt [OF assms(1,2) 0(1) assms(3)]) (use 0(2) in simp_all)
next
  case (Suc n)
  show ?case unfolding embedJobs.simps
  proof (rule ensures_attempt [OF assms(1,2) Suc.prems(1) assms(3)])
    fix again js
    assume *: "Some (embedJobs env cfg input n) = Some again" "set js \<subseteq> set jobs" "2 * length js \<le> length jobs + 1"
    have "length js \<le> m * 2 ^ n" if sure
    proof -
      have "2 * length js \<le> 2 * (m * 2 ^ n) + 1" using *(3) Suc.prems(2) [OF that] by simp
      then show ?thesis by linarith
    qed
    then show "ensures (cache_right env input f T) (right_result sure (map (f \<circ> job_text) js)) (again js)"
      using Suc.IH [of js] subset_trans [OF image_mono [OF *(2)] Suc.prems(1)] *(1)
      by (simp add: comp_def)
  qed simp
qed

section \<open>Jobs and places\<close>

text \<open>Every text has a job, and a job stands for texts equal to its own.\<close>

definition covers :: "string list \<Rightarrow> resilientEmbedJob list \<Rightarrow> bool" where
  "covers texts jobs \<longleftrightarrow>
    (\<forall>j \<in> set jobs. \<forall>i \<in> set (job_indexes j). i < length texts \<and> texts ! i = job_text j)
    \<and> (\<forall>i < length texts. \<exists>j \<in> set jobs. i \<in> set (job_indexes j))
    \<and> job_text ` set jobs \<subseteq> set texts"

definition keys_ok :: "(string \<Rightarrow> string) \<Rightarrow> string list \<Rightarrow> (string \<rightharpoonup> nat) \<Rightarrow> resilientEmbedJob list \<Rightarrow> bool" where
  "keys_ok key texts byKey jobs \<longleftrightarrow>
    (\<forall>k e. byKey k = Some e \<longrightarrow> e < length jobs \<and> key (job_text (jobs ! e)) = k)
    \<and> (\<forall>t \<in> set texts. byKey (key t) \<noteq> None)"

lemma covers_new:
  assumes "covers texts jobs"
  shows "covers (texts @ [t]) (jobs @ [\<lparr>job_text = t, job_indexes = [length texts]\<rparr>])"
  using assms by (fastforce simp: covers_def nth_append less_Suc_eq)

lemma covers_more:
  assumes "covers texts jobs" "e < length jobs" "job_text (jobs ! e) = t"
  shows "covers (texts @ [t]) (add_index e (length texts) jobs)"
proof -
  let ?j = "(jobs ! e)\<lparr>job_indexes := job_indexes (jobs ! e) @ [length texts]\<rparr>"
  have "jobs ! e \<in> set jobs" using assms(2) by simp
  then have old: "i < length texts \<and> texts ! i = t" if "i \<in> set (job_indexes (jobs ! e))" for i
    using assms(1,3) that by (auto simp: covers_def)
  have "?j \<in> set (add_index e (length texts) jobs)"
    using assms(2) by (simp add: add_index_def set_update_memI)
  moreover have "\<exists>j \<in> set (add_index e (length texts) jobs). i \<in> set (job_indexes j)" if i: "i < length texts" for i
  proof -
    obtain j where j: "j \<in> set jobs" "i \<in> set (job_indexes j)"
      using assms(1) i unfolding covers_def by blast
    from j(1) obtain k where "k < length jobs" "jobs ! k = j" by (auto simp only: in_set_conv_nth)
    with j(2) have k: "k < length jobs" "i \<in> set (job_indexes (jobs ! k))" by simp_all
    have "add_index e (length texts) jobs ! k \<in> set (add_index e (length texts) jobs)"
      using k(1) by (simp add: add_index_def)
    moreover have "i \<in> set (job_indexes (add_index e (length texts) jobs ! k))"
      using k by (cases "k = e") (simp_all add: add_index_def)
    ultimately show ?thesis by blast
  qed
  moreover have "i < length (texts @ [t]) \<and> (texts @ [t]) ! i = job_text j"
    if j: "j \<in> set (add_index e (length texts) jobs)" and i: "i \<in> set (job_indexes j)" for i j
  proof -
    consider "j = ?j" | "j \<in> set jobs"
      using j set_update_subset_insert [of jobs e ?j] unfolding add_index_def by blast
    then show ?thesis
    proof cases
      case 1
      then have "i \<in> set (job_indexes (jobs ! e)) \<or> i = length texts" "job_text j = t"
        using i assms(3) by auto
      then show ?thesis using old [of i] by (auto simp: nth_append)
    next
      case 2
      then have "i < length texts" "texts ! i = job_text j" using i assms(1) unfolding covers_def by blast+
      then show ?thesis by (simp add: nth_append)
    qed
  qed
  moreover have "job_text ` set (add_index e (length texts) jobs) \<subseteq> set (texts @ [t])"
  proof -
    have "job_text ` set (add_index e (length texts) jobs) \<subseteq> job_text ` insert ?j (set jobs)"
      unfolding add_index_def by (rule image_mono) (rule set_update_subset_insert)
    moreover have "job_text ` insert ?j (set jobs) \<subseteq> set (texts @ [t])"
      using assms(1,3) by (auto simp: covers_def)
    ultimately show ?thesis by (rule subset_trans)
  qed
  moreover have "length texts \<in> set (job_indexes ?j)" by simp
  ultimately show ?thesis unfolding covers_def by (metis length_append_singleton less_Suc_eq)
qed

lemma jobs_loop_covers:
  assumes "covers ds jobs" "keys_ok key ds byKey jobs" "inj_on key (set (ds @ ts))"
  shows "covers (ds @ ts) (fst (jobs_loop key (length ds) ts byKey jobs))
    \<and> snd (jobs_loop key (length ds) ts byKey jobs) = map (\<lambda>i. ts ! i \<in> set (ds @ take i ts)) [0..<length ts]"
  using assms
proof (induction ts arbitrary: ds byKey jobs)
  case (Cons t ts)
  have step: "map (\<lambda>i. (t # ts) ! i \<in> set (ds @ take i (t # ts))) [0..<length (t # ts)]
      = (t \<in> set ds) # map (\<lambda>i. ts ! i \<in> set ((ds @ [t]) @ take i ts)) [0..<length ts]"
    by (auto simp add: map_upt_Suc simp del: upt_Suc)
  have known: "byKey (key t) \<noteq> None \<longleftrightarrow> t \<in> set ds"
  proof
    assume "byKey (key t) \<noteq> None"
    then obtain e where e: "e < length jobs" "key (job_text (jobs ! e)) = key t"
      using Cons.prems(2) by (auto simp: keys_ok_def)
    then have "job_text (jobs ! e) \<in> set ds" using Cons.prems(1) by (auto simp: covers_def)
    then show "t \<in> set ds" using e(2) inj_onD [OF Cons.prems(3), of "job_text (jobs ! e)" t] by auto
  qed (use Cons.prems(2) in \<open>auto simp: keys_ok_def\<close>)
  show ?case
  proof (cases "byKey (key t)")
    case None
    have "keys_ok key (ds @ [t]) (byKey(key t \<mapsto> length jobs)) (jobs @ [\<lparr>job_text = t, job_indexes = [length ds]\<rparr>])"
      using Cons.prems(2) by (auto simp: keys_ok_def nth_append less_Suc_eq)
    then show ?thesis
      using Cons.IH [OF covers_new [OF Cons.prems(1), of t]] Cons.prems(3) None known step by simp
  next
    case (Some e)
    then have e: "e < length jobs" "key (job_text (jobs ! e)) = key t"
      using Cons.prems(2) by (auto simp: keys_ok_def)
    then have "job_text (jobs ! e) \<in> set ds" using Cons.prems(1) by (auto simp: covers_def)
    then have t: "job_text (jobs ! e) = t" using e(2) inj_onD [OF Cons.prems(3)] by simp
    have "keys_ok key (ds @ [t]) byKey (add_index e (length ds) jobs)"
      using Cons.prems(2) Some e by (auto simp: keys_ok_def add_index_def nth_list_update)
    then show ?thesis
      using Cons.IH [OF covers_more [OF Cons.prems(1) e(1) t]] Cons.prems(3) Some known step by simp
  qed
qed simp

lemma embed_jobs_covers:
  assumes "inj_on (sha256 env) (set (ei_Texts input))"
  shows "covers (ei_Texts input) (fst (embed_jobs env cfg input))
    \<and> snd (embed_jobs env cfg input) = map (\<lambda>i. ec_EnableCache cfg \<and> ei_Texts input ! i \<in> set (take i (ei_Texts input)))
        [0..<length (ei_Texts input)]"
proof (cases "ec_EnableCache cfg")
  case False
  have "covers ts (map (\<lambda>(i, text). \<lparr>job_text = text, job_indexes = [i]\<rparr>) (zip [0..<length ts] ts))" for ts
    by (force simp: covers_def set_zip image_iff)
  then show ?thesis using False by (simp add: embed_jobs_def Let_def map_replicate_trivial)
next
  case True
  then show ?thesis
    using jobs_loop_covers [of "[]" "[]" "cacheKey env input" Map.empty "ei_Texts input"] cacheKey_inj [OF assms]
    by (simp add: embed_jobs_def Let_def covers_def keys_ok_def)
qed

lemma update_all:
  "length (foldl (\<lambda>vs i. vs[i := v]) vs is) = length vs
   \<and> (k < length vs \<longrightarrow> foldl (\<lambda>vs i. vs[i := v]) vs is ! k = (if k \<in> set is then v else vs ! k))"
  by (induction "is" arbitrary: vs) (auto simp: nth_list_update)

lemma place_nth:
  assumes "\<And>j v i. (j, v) \<in> set jvs \<Longrightarrow> i \<in> set (job_indexes j) \<Longrightarrow> v = g i" "i < length vs"
  shows "foldl place vs jvs ! i = (if \<exists>(j, v) \<in> set jvs. i \<in> set (job_indexes j) then g i else vs ! i)
    \<and> length (foldl place vs jvs) = length vs"
  using assms
proof (induction jvs arbitrary: vs)
    case (Cons jv jvs)
    obtain j v where jv: "jv = (j, v)" by fastforce
    have len: "length (place vs jv) = length vs" by (simp add: place_def update_all)
    have "place vs jv ! i = (if i \<in> set (job_indexes j) then g i else vs ! i)"
      using update_all [of v vs "job_indexes j" i] Cons.prems jv by (auto simp: place_def)
    moreover have "foldl place (place vs jv) jvs ! i
        = (if \<exists>(j, v) \<in> set jvs. i \<in> set (job_indexes j) then g i else place vs jv ! i)
      \<and> length (foldl place (place vs jv) jvs) = length (place vs jv)"
      by (rule Cons.IH) (use Cons.prems len in auto)
    ultimately show ?case using len jv by auto
qed simp


lemma placed:
  assumes "covers texts jobs"
  shows "foldl place (replicate (length texts) []) (zip jobs (map (f \<circ> job_text) jobs)) = map f texts"
proof (rule nth_equalityI)
  have pair: "v = f (texts ! i)"
    if "(j, v) \<in> set (zip jobs (map (f \<circ> job_text) jobs))" "i \<in> set (job_indexes j)" for j v i
    using that assms by (auto simp: covers_def zip_map2 zip_same_conv_map)
  let ?jvs = "zip jobs (map (f \<circ> job_text) jobs)"
  have nth: "foldl place (replicate (length texts) []) ?jvs ! i
        = (if \<exists>(j, v) \<in> set ?jvs. i \<in> set (job_indexes j) then f (texts ! i) else replicate (length texts) [] ! i)
      \<and> length (foldl place (replicate (length texts) []) ?jvs) = length texts" if "i < length texts" for i
    using place_nth [of ?jvs "\<lambda>i. f (texts ! i)" i "replicate (length texts) []"] pair that by simp
  show len: "length (foldl place (replicate (length texts) []) (zip jobs (map (f \<circ> job_text) jobs))) = length (map f texts)"
  proof (cases "texts = []")
    case True
    then have "jobs = []" using assms by (auto simp: covers_def)
    with True show ?thesis by simp
  next
    case False
    then show ?thesis using nth [of "0 :: nat"] by auto
  qed
  fix i assume "i < length (foldl place (replicate (length texts) []) (zip jobs (map (f \<circ> job_text) jobs)))"
  then have i: "i < length texts" using len by simp
  then obtain j where j: "j \<in> set jobs" "i \<in> set (job_indexes j)" using assms unfolding covers_def by blast
  then have "(j, f (job_text j)) \<in> set (zip jobs (map (f \<circ> job_text) jobs))"
    by (auto simp: zip_map2 zip_same_conv_map)
  then show "foldl place (replicate (length texts) []) (zip jobs (map (f \<circ> job_text) jobs)) ! i = map f texts ! i"
    using nth [of i] i j(2) by fastforce
qed

section \<open>The batch\<close>

lemma costs_report_hits:
  assumes "counts_calls calls env cfg" "costs (calls_of calls) k q"
  shows "costs (calls_of calls) k (report_hits cfg reused q)"
proof -
  have "costs (calls_of calls) k
      (foldr (\<lambda>(i, hit) q. if hit then also_do (progress cfg (cache_hit i n)) q else q) hits q)" for hits n
    using assms(2) costs_also_do [OF costs_progress [OF assms(1)]] by (induction hits) fastforce+
  then show ?thesis by (simp add: report_hits_def)
qed

lemma ensures_report_hits:
  assumes "provider_right sure m env cfg f" "ensures (cache_right env input f T) P q"
  shows "ensures (cache_right env input f T) P (report_hits cfg reused q)"
proof -
  have progress: "ensures (cache_right env input f T) (\<lambda>_. True) (progress cfg p)" for p
    by (rule ensures_mono [OF ensures_progress [OF assms(1)]]) simp
  have "ensures (cache_right env input f T) P
      (foldr (\<lambda>(i, hit) q. if hit then also_do (progress cfg (cache_hit i n)) q else q) hits q)" for hits n
    using assms(2) by (induction hits) (auto intro!: ensures_also_do [OF progress])
  then show ?thesis by (simp add: report_hits_def)
qed

definition reused_texts :: "'w ResilientEmbedConfig \<Rightarrow> string list \<Rightarrow> bool list" where
  "reused_texts cfg texts = map (\<lambda>i. ec_EnableCache cfg \<and> texts ! i \<in> set (take i texts)) [0..<length texts]"

lemma ensures_batch:
  assumes "provider_right sure m env cfg f" "inj_on (sha256 env) (set (ei_Texts input))"
    and "if sure then 1 \<le> m else \<not> ec_SplitOversized cfg"
    and "sure \<Longrightarrow> length (fst (embed_jobs env cfg input)) \<le> m * 2 ^ maxRetries cfg"
  shows "ensures (cache_right env input f (set (ei_Texts input)))
    (\<lambda>r. case r of Inl e \<Rightarrow> \<not> sure
       | Inr b \<Rightarrow> er_Vectors b = map f (ei_Texts input) \<and> er_Reused b = reused_texts cfg (ei_Texts input))
    (ResilientEmbedBatch env cfg input)"
proof -
  obtain jobs reused where jobs: "embed_jobs env cfg input = (jobs, reused)" by fastforce
  have covers: "covers (ei_Texts input) jobs" and reused: "reused = reused_texts cfg (ei_Texts input)"
    using embed_jobs_covers [OF assms(2), of cfg] by (simp_all add: jobs reused_texts_def)
  have texts: "job_text ` set jobs \<subseteq> set (ei_Texts input)" using covers by (simp add: covers_def)
  have bound: "length jobs \<le> m * 2 ^ maxRetries cfg" if sure using assms(4) [OF that] by (simp add: jobs)
  note vectors = ensures_embedJobs [OF assms(1-3) texts bound]
  show ?thesis
    unfolding ResilientEmbedBatch_def jobs prod.case must_def
    by (intro ensures_report_hits [OF assms(1)] ensures_seq [OF vectors])
      (auto simp: right_result_def reused placed [OF covers] split: sum.splits
        intro!: ensures_Done ensures_seq [OF ensures_act [where P = "\<lambda>_. True"]])
qed

lemma cache_right_new: "cache_right env input f T (new_embedder w)"
  by (simp add: cache_right_def new_embedder_def)

lemma batch_succeeds:
  assumes "serves_batches m env cfg f" "1 \<le> m" "inj_on (sha256 env) (set (ei_Texts input))"
    and "length (fst (embed_jobs env cfg input)) \<le> m * 2 ^ maxRetries cfg"
  shows "\<exists>r. fst (run (ResilientEmbedBatch env cfg input) (new_embedder w)) = Inr r
    \<and> er_Vectors r = map f (ei_Texts input)"
  using ensures_run [OF ensures_batch [of True m env cfg f input] cache_right_new [where w = w]] assms
  by (auto simp: provider_right_def split: sum.splits)


text \<open>
  A cancelled context counts as an error that may pass: a batch whose context is cancelled is
  halved and called again until the retries are used up.
\<close>

lemma cancelled_is_retried: "IsRetryableProviderError (CSentinel ''context canceled'')"
  by (simp add: IsRetryableProviderError_def)

text \<open>
  A provider that takes at most \<open>m\<close> texts at a time and counts its calls; its vector of a text is
  the text's length, and the scheduler changes sides with every call.
\<close>

definition sample_vector :: "string \<Rightarrow> vector" where
  "sample_vector t = [float_of_int (int (length t))]"

definition empty_result :: ProviderResultMetadata where
  "empty_result =
    \<lparr>pm_Provider = [], pm_Model = [], pm_BaseURL = [], pm_RequestID = [], pm_RequestCount = 0,
     pm_StatusCode = 0, pm_LatencyMillis = 0, pm_LatencyNanos = 0, pm_FinishReason = [],
     pm_OutputKind = [],
     pm_Usage = \<lparr>pu_PromptTokens = 0, pu_CompletionTokens = 0, pu_TotalTokens = 0, pu_VectorCount = 0\<rparr>,
     pm_Error = None\<rparr>"

definition too_many :: call_error where
  "too_many = CResult ''batch too large'' (empty_result\<lparr>pm_StatusCode := 503\<rparr>) None"

definition sample_env :: "nat \<Rightarrow> nat surroundings" where
  "sample_env m =
    \<lparr>GenerateEmbeddings = (\<lambda>i w.
       (if m < length (ei_Texts i) then Inl too_many
        else Inr (Some \<lparr>eo_Vectors = map sample_vector (ei_Texts i), eo_Metadata = Map.empty,
                        eo_ProviderResult = empty_result\<rparr>), w + 1)),
     wait_slot = (\<lambda>w. (None, w)), pick_left = (\<lambda>w. (even w, w)), sha256 = (\<lambda>t. t)\<rparr>"

definition sample_config :: "bool \<Rightarrow> nat ResilientEmbedConfig" where
  "sample_config cache =
    \<lparr>ec_MaxConcurrency = 2, ec_EnableCache = cache, ec_MaxRetries = 2, ec_SplitOversized = False,
     ec_Progress = None\<rparr>"

definition sample_input :: "string list \<Rightarrow> EmbeddingInput" where
  "sample_input texts =
    \<lparr>ei_ModelSelection = \<lparr>es_Provider = ''p'', es_Model = ''m'', es_Dimensions = 0,
       es_Options = no_options, es_Fallbacks = []\<rparr>,
     ei_Texts = texts, ei_Dimensions = 0, ei_Metadata = []\<rparr>"

lemma sample_counts: "counts_calls (\<lambda>w. w) (sample_env m) (sample_config cache)"
  by (simp add: counts_calls_def sample_env_def sample_config_def)

lemma sample_retryable: "IsRetryableProviderError too_many"
  by (simp add: IsRetryableProviderError_def too_many_def retryable_status_def empty_result_def)

lemma sample_serves: "serves_batches m (sample_env m) (sample_config cache) sample_vector"
  by (simp add: serves_batches_def sample_env_def sample_config_def sample_retryable)

lemma sample_right: "right_vectors (sample_env m) sample_vector"
  by (simp add: right_vectors_def sample_env_def)

text \<open>
  C24. Embedding a batch ends, and it makes at most \<open>2 ^ (maxRetries + 1) - 1\<close> calls of the provider,
  whatever the provider and the callback answer and however the goroutines are scheduled: every
  failed call is repeated as two halves, and the retries that are left decrease.
\<close>

theorem ResilientEmbedBatch_bounded_calls:
  assumes "counts_calls calls env cfg"
  shows "calls (emb_world (snd (run (ResilientEmbedBatch env cfg input) s)))
    \<le> calls (emb_world s) + (2 ^ (maxRetries cfg + 1) - 1)"
proof -
  obtain jobs reused where jobs: "embed_jobs env cfg input = (jobs, reused)" by fastforce
  have "costs (calls_of calls) (2 ^ (maxRetries cfg + 1) - 1 + 0)
      (must (embedJobs env cfg input (maxRetries cfg) jobs) (\<lambda>jobVectors.
        seq (act (\<lambda>s. (emb_aggregator s, s))) (\<lambda>summary. Done (Inr (r jobVectors summary)))))"
    for r :: "vector list \<Rightarrow> ResultAggregator \<Rightarrow> ResilientEmbedResult"
    by (intro costs_must costs_embedJobs [OF assms] costs_seq [of _ 0 _ 0, simplified] costs_act costs_Done) simp
  then have "costs (calls_of calls) (2 ^ (maxRetries cfg + 1) - 1) (ResilientEmbedBatch env cfg input)"
    unfolding ResilientEmbedBatch_def jobs prod.case
    by (intro costs_report_hits [OF assms]) simp
  from costs_run [OF this] show ?thesis .
qed

theorem ResilientEmbedBatch_bounded_calls_witness:
  "emb_world (snd (run (ResilientEmbedBatch (sample_env 1) (sample_config False)
     (sample_input [''a'', ''b'', ''c'', ''d''])) (new_embedder 0))) \<le> 7"
  using ResilientEmbedBatch_bounded_calls [OF sample_counts [of 1 False],
      of "sample_input [''a'', ''b'', ''c'', ''d'']" "new_embedder 0"]
  by (simp add: new_embedder_def maxRetries_def sample_config_def)

text \<open>
  C25. Whatever calls fail and however the goroutines of the halves interleave, a batch that
  succeeds has for every text, in order, the vector the provider gives for that text, also where
  equal texts share one job and their vector comes from the cache; a text is reported as reused
  when the cache is on and an equal one comes before it. SHA-256 must tell the texts of the batch
  apart, and no text may have been split in two.
\<close>

theorem ResilientEmbedBatch_right_vectors:
  assumes "right_vectors env f" "inj_on (sha256 env) (set (ei_Texts input))" "\<not> ec_SplitOversized cfg"
    and "fst (run (ResilientEmbedBatch env cfg input) (new_embedder w)) = Inr r"
  shows "er_Vectors r = map f (ei_Texts input) \<and> er_Reused r = reused_texts cfg (ei_Texts input)"
  using ensures_run [OF ensures_batch [of False 0 env cfg f input] cache_right_new [where w = w]] assms
  by (simp add: provider_right_def)

theorem ResilientEmbedBatch_right_vectors_witness:
  "\<exists>r. fst (run (ResilientEmbedBatch (sample_env 1) (sample_config True)
      (sample_input [''a'', ''bb'', ''a''])) (new_embedder 0)) = Inr r
    \<and> er_Vectors r = map sample_vector [''a'', ''bb'', ''a''] \<and> er_Reused r = [False, False, True]"
proof -
  let ?run = "run (ResilientEmbedBatch (sample_env 1) (sample_config True)
      (sample_input [''a'', ''bb'', ''a''])) (new_embedder 0)"
  have inj: "inj_on (sha256 (sample_env 1)) X" for X by (simp add: sample_env_def)
  have whole: "\<not> ec_SplitOversized (sample_config True)" by (simp add: sample_config_def)
  have right: "er_Vectors r = map sample_vector [''a'', ''bb'', ''a'']
      \<and> er_Reused r = [False, False, True]" if "fst ?run = Inr r" for r
    using ResilientEmbedBatch_right_vectors [OF sample_right inj whole that]
    by (simp add: sample_input_def reused_texts_def sample_config_def upt_rec)
  have "length (fst (embed_jobs (sample_env 1) (sample_config True) (sample_input [''a'', ''bb'', ''a'']))) \<le> 4"
    by (simp add: embed_jobs_def sample_config_def sample_input_def sample_env_def cacheKey_def add_index_def)
  then obtain r where "fst ?run = Inr r"
    using batch_succeeds [OF sample_serves [of 1 True] _ inj, of "sample_input [''a'', ''bb'', ''a'']" 0]
    by (auto simp: maxRetries_def sample_config_def)
  then show ?thesis using right by blast
qed

text \<open>
  C26. A provider that takes at most \<open>m\<close> texts at a time and refuses larger calls with an error that
  may pass is served: with enough retries for the batch to be halved down to \<open>m\<close> texts, the batch
  succeeds and every text has its vector, in every configuration but the one that shares the unlocked cache
  between goroutines (\<open>EnableCache\<close> together with \<open>MaxConcurrency\<close>), where Go's runtime may abort.
\<close>

theorem ResilientEmbedBatch_adapts:
  assumes "serves_batches m env cfg f" "1 \<le> m" "inj_on (sha256 env) (set (ei_Texts input))"
    and "length (fst (embed_jobs env cfg input)) \<le> m * 2 ^ maxRetries cfg"
    and "\<not> (ec_EnableCache cfg \<and> 0 < ec_MaxConcurrency cfg)"
  shows "\<exists>r. fst (run (ResilientEmbedBatch env cfg input) (new_embedder w)) = Inr r
    \<and> er_Vectors r = map f (ei_Texts input)"
  by (rule batch_succeeds [OF assms(1-4)])

theorem ResilientEmbedBatch_adapts_witness:
  "\<exists>r. fst (run (ResilientEmbedBatch (sample_env 1) (sample_config False)
      (sample_input [''a'', ''bb'', ''c'', ''d''])) (new_embedder 0)) = Inr r
    \<and> er_Vectors r = map sample_vector [''a'', ''bb'', ''c'', ''d'']"
  using ResilientEmbedBatch_adapts [OF sample_serves [of 1 False],
      of "sample_input [''a'', ''bb'', ''c'', ''d'']" 0]
  by (simp add: sample_input_def sample_env_def sample_config_def maxRetries_def embed_jobs_def)

end
