(* ===== verification/ThreadTurns.thy ===== *)
theory ThreadTurns
  imports Events JsonDecode
begin

text \<open>
  Reading a thread: the turns and messages that \<open>deriveThreadTurns\<close> of
  \<^verbatim>\<open>internal/controlplane/service.go\<close> makes of the stored events of a thread, with the types of
  \<^verbatim>\<open>pkg/contract/controlplane.go\<close> and \<^verbatim>\<open>threads.go\<close>. The events come back from the database, where
  they are JSON: the slices of a payload have lost their Go types, so the cases for typed slices
  cannot occur here.
\<close>

section \<open>Messages\<close>

record ContentPart =
  cp_Type :: string
  cp_Text :: string
  cp_MIMEType :: string
  cp_Data :: string
  cp_URL :: string

record FunctionCall =
  fc_Name :: string
  fc_Arguments :: "payload option" \<comment> \<open>\<open>None\<close> is the nil map\<close>

record ToolCall =
  tl_ID :: string
  tl_Type :: string
  tl_Function :: FunctionCall

record Message =
  ms_Role :: string
  ms_Parts :: "ContentPart list"
  ms_ToolCalls :: "ToolCall list"
  ms_ToolCallID :: string
  ms_Name :: string

abbreviation MessageRoleUser :: string where "MessageRoleUser \<equiv> ''user''"
abbreviation MessageRoleAssistant :: string where "MessageRoleAssistant \<equiv> ''assistant''"
abbreviation MessageRoleTool :: string where "MessageRoleTool \<equiv> ''tool''"

abbreviation ContentPartTypeText :: string where "ContentPartTypeText \<equiv> ''text''"
abbreviation ContentPartTypeReasoning :: string where "ContentPartTypeReasoning \<equiv> ''reasoning''"

abbreviation EventAssistantThoughtDelta :: string where "EventAssistantThoughtDelta \<equiv> ''assistant.thought.delta''"
abbreviation EventToolCompleted :: string where "EventToolCompleted \<equiv> ''tool.completed''"
abbreviation EventToolErrored :: string where "EventToolErrored \<equiv> ''tool.errored''"

definition no_part :: ContentPart where
  "no_part = \<lparr>cp_Type = [], cp_Text = [], cp_MIMEType = [], cp_Data = [], cp_URL = []\<rparr>"

definition part_of :: "string \<Rightarrow> string \<Rightarrow> ContentPart" where
  "part_of partType t = no_part\<lparr>cp_Type := partType, cp_Text := t\<rparr>"

definition new_message :: "string \<Rightarrow> Message" where
  "new_message role = \<lparr>ms_Role = role, ms_Parts = [], ms_ToolCalls = [], ms_ToolCallID = [], ms_Name = []\<rparr>"

section \<open>Turns\<close>

record ThreadEvent =
  te_ID :: int
  te_ThreadID :: string
  te_RecordedAtMS :: int
  te_EventType :: string
  te_Summary :: string
  te_TurnID :: string
  te_RequestID :: string
  te_Event :: RuntimeEvent

abbreviation ThreadTurnRunning :: string where "ThreadTurnRunning \<equiv> ''running''"
abbreviation ThreadTurnCompleted :: string where "ThreadTurnCompleted \<equiv> ''completed''"
abbreviation ThreadTurnErrored :: string where "ThreadTurnErrored \<equiv> ''errored''"
abbreviation ThreadTurnInterrupted :: string where "ThreadTurnInterrupted \<equiv> ''interrupted''"

record ThreadTurn =
  tt_TurnID :: string
  tt_Status :: string
  tt_Summary :: string
  tt_AssistantText :: string
  tt_ReasoningText :: string
  tt_Messages :: "Message list"
  tt_StartedAtMS :: int
  tt_CompletedAtMS :: int
  tt_EventCount :: int
  tt_RequestIDs :: "string list"

definition new_turn :: "string \<Rightarrow> int \<Rightarrow> ThreadTurn" where
  "new_turn turnID millis =
    \<lparr>tt_TurnID = turnID, tt_Status = ThreadTurnRunning, tt_Summary = [], tt_AssistantText = [],
     tt_ReasoningText = [], tt_Messages = [], tt_StartedAtMS = millis, tt_CompletedAtMS = 0,
     tt_EventCount = 0, tt_RequestIDs = []\<rparr>"

definition firstThreadString :: "string list \<Rightarrow> string" where
  "firstThreadString values = firstNonEmpty values"

text \<open>Events without a turn ID belong to a synthetic turn of their scope, counted by \<open>seq\<close>.\<close>

definition active_turn :: "(string \<rightharpoonup> string) \<Rightarrow> string \<Rightarrow> string" where
  "active_turn active scope = case_option [] id (active scope)"

definition resolveThreadTurnID ::
    "ThreadEvent \<Rightarrow> (string \<rightharpoonup> string) \<Rightarrow> nat \<Rightarrow> (string \<times> string) \<times> (string \<rightharpoonup> string) \<times> nat" where
  "resolveThreadTurnID event active seqno =
    (let turnID = trim_space (te_TurnID event);
         scope = firstThreadString [te_ThreadID event, ev_SessionID (te_Event event),
                   ev_ProviderSessionID (te_Event event)];
         fresh = scope @ '':synthetic-turn-'' @ decimal (int seqno + 1)
     in if turnID \<noteq> [] then ((turnID, []), active, seqno)
        else if scope = [] then (([], []), active, seqno)
        else if te_EventType event = EventTurnStarted \<or> active_turn active scope = []
        then ((fresh, scope), active(scope \<mapsto> fresh), seqno + 1)
        else ((active_turn active scope, scope), active, seqno))"

definition threadDeltaText :: "RuntimeEvent \<Rightarrow> string" where
  "threadDeltaText event =
    (if ev_EventType event = EventAssistantMessageDelta then EventDeltaText event
     else if ev_EventType event = EventAssistantThoughtDelta
     then PayloadString (ev_Payload event) ''delta''
     else [])"

section \<open>Decoding payloads\<close>

definition marshal_decode :: "'a option decoder \<Rightarrow> gval \<Rightarrow> 'a option option" where
  "marshal_decode d raw = Option.bind (Option.bind (marshal_any raw) json_parse) (d None)"

definition part_fields :: "(string \<times> ContentPart decoder) list" where
  "part_fields =
    [(''type'', on_field cp_Type (\<lambda>x p. p\<lparr>cp_Type := x\<rparr>) decode_string),
     (''text'', on_field cp_Text (\<lambda>x p. p\<lparr>cp_Text := x\<rparr>) decode_string),
     (''mime_type'', on_field cp_MIMEType (\<lambda>x p. p\<lparr>cp_MIMEType := x\<rparr>) decode_string),
     (''data'', on_field cp_Data (\<lambda>x p. p\<lparr>cp_Data := x\<rparr>) decode_string),
     (''url'', on_field cp_URL (\<lambda>x p. p\<lparr>cp_URL := x\<rparr>) decode_string)]"

definition contentPartsFromPayload :: "unicode \<Rightarrow> gval \<Rightarrow> ContentPart list" where
  "contentPartsFromPayload u raw =
    (case raw of
       GNil \<Rightarrow> []
     | _ \<Rightarrow> (case marshal_decode (decode_slice (decode_struct u part_fields no_part)) raw of
               Some (Some parts) \<Rightarrow> parts
             | _ \<Rightarrow> []))"

definition function_fields :: "(string \<times> FunctionCall decoder) list" where
  "function_fields =
    [(''name'', on_field fc_Name (\<lambda>x f. f\<lparr>fc_Name := x\<rparr>) decode_string),
     (''arguments'', on_field fc_Arguments (\<lambda>x f. f\<lparr>fc_Arguments := x\<rparr>) decode_any_map)]"

definition tool_fields :: "unicode \<Rightarrow> (string \<times> ToolCall decoder) list" where
  "tool_fields u =
    [(''id'', on_field tl_ID (\<lambda>x t. t\<lparr>tl_ID := x\<rparr>) decode_string),
     (''type'', on_field tl_Type (\<lambda>x t. t\<lparr>tl_Type := x\<rparr>) decode_string),
     (''function'', on_field tl_Function (\<lambda>x t. t\<lparr>tl_Function := x\<rparr>) (decode_struct u function_fields))]"

definition no_tool :: ToolCall where
  "no_tool = \<lparr>tl_ID = [], tl_Type = [], tl_Function = \<lparr>fc_Name = [], fc_Arguments = None\<rparr>\<rparr>"

text \<open>The fields of the older form, in the struct that the new form is made of.\<close>

definition legacy_fields :: "(string \<times> ToolCall decoder) list" where
  "legacy_fields =
    [(''ID'', on_field tl_ID (\<lambda>x t. t\<lparr>tl_ID := x\<rparr>) decode_string),
     (''Name'', on_field (fc_Name \<circ> tl_Function)
        (\<lambda>x t. t\<lparr>tl_Function := (tl_Function t)\<lparr>fc_Name := x\<rparr>\<rparr>) decode_string),
     (''Arguments'', on_field (fc_Arguments \<circ> tl_Function)
        (\<lambda>x t. t\<lparr>tl_Function := (tl_Function t)\<lparr>fc_Arguments := x\<rparr>\<rparr>) decode_any_map)]"

definition named_tool :: "ToolCall option \<Rightarrow> ToolCall option" where
  "named_tool t = (case t of Some x \<Rightarrow> if fc_Name (tl_Function x) \<noteq> [] then Some x else None | None \<Rightarrow> None)"

definition threadToolCallFromAny :: "unicode \<Rightarrow> gval \<Rightarrow> ToolCall option" where
  "threadToolCallFromAny u raw =
    (case Option.bind (marshal_any raw) json_parse of
       None \<Rightarrow> None
     | Some v \<Rightarrow>
         (case named_tool (decode_struct u (tool_fields u) no_tool v) of
            Some tool \<Rightarrow> Some (if tl_Type tool = [] then tool\<lparr>tl_Type := ''function''\<rparr> else tool)
          | None \<Rightarrow>
              map_option (\<lambda>t. t\<lparr>tl_Type := ''function''\<rparr>)
                (named_tool (decode_struct u legacy_fields no_tool v))))"

definition threadToolCallsFromPayload :: "unicode \<Rightarrow> gval \<Rightarrow> ToolCall list" where
  "threadToolCallsFromPayload u raw =
    (case raw of
       GNil \<Rightarrow> []
     | GList vs \<Rightarrow> List.map_filter (threadToolCallFromAny u) (case_option [] id vs)
     | _ \<Rightarrow> (case marshal_decode (decode_slice (decode_struct u (tool_fields u) no_tool)) raw of
               Some tools \<Rightarrow> case_option [] id tools
             | None \<Rightarrow> (case threadToolCallFromAny u raw of Some t \<Rightarrow> [t] | None \<Rightarrow> [])))"

section \<open>Building the messages of a turn\<close>

definition lastRoleMessageIndex :: "Message list \<Rightarrow> string \<Rightarrow> nat option" where
  "lastRoleMessageIndex messages role =
    (case filter (\<lambda>i. ms_Role (messages ! i) = role) [0..<length messages] of
       [] \<Rightarrow> None
     | is \<Rightarrow> Some (last is))"

definition hasRoleMessage :: "Message list \<Rightarrow> string \<Rightarrow> bool" where
  "hasRoleMessage messages role \<longleftrightarrow> lastRoleMessageIndex messages role \<noteq> None"

definition hasAssistantParts :: "ThreadTurn \<Rightarrow> bool" where
  "hasAssistantParts turn \<longleftrightarrow>
    list_ex (\<lambda>m. ms_Role m = MessageRoleAssistant \<and> ms_Parts m \<noteq> []) (tt_Messages turn)"

definition add_part :: "string \<Rightarrow> string \<Rightarrow> ContentPart list \<Rightarrow> ContentPart list" where
  "add_part partType t parts =
    (if parts \<noteq> [] \<and> cp_Type (last parts) = partType
     then butlast parts @ [(last parts)\<lparr>cp_Text := cp_Text (last parts) @ t\<rparr>]
     else parts @ [part_of partType t])"

definition appendAssistantPart :: "string \<Rightarrow> string \<Rightarrow> ThreadTurn \<Rightarrow> ThreadTurn" where
  "appendAssistantPart partType t turn =
    (let t = trim_space t; messages = tt_Messages turn;
         messages = (if messages = [] \<or> ms_Role (last messages) \<noteq> MessageRoleAssistant
                     then messages @ [new_message MessageRoleAssistant] else messages)
     in if t = [] then turn
        else turn\<lparr>tt_Messages := butlast messages
               @ [(last messages)\<lparr>ms_Parts := add_part partType t (ms_Parts (last messages))\<rparr>]\<rparr>)"

definition appendAssistantToolCalls :: "ToolCall list \<Rightarrow> ThreadTurn \<Rightarrow> ThreadTurn" where
  "appendAssistantToolCalls tools turn =
    (if tools = [] then turn
     else
       let messages = tt_Messages turn in
       (case lastRoleMessageIndex messages MessageRoleAssistant of
          Some i \<Rightarrow> turn\<lparr>tt_Messages :=
            messages[i := (messages ! i)\<lparr>ms_ToolCalls := ms_ToolCalls (messages ! i) @ tools\<rparr>]\<rparr>
        | None \<Rightarrow> turn\<lparr>tt_Messages :=
            messages @ [(new_message MessageRoleAssistant)\<lparr>ms_ToolCalls := tools\<rparr>]\<rparr>))"

definition userMessageFromTurnStarted :: "unicode \<Rightarrow> ThreadEvent \<Rightarrow> Message option" where
  "userMessageFromTurnStarted u event =
    (let input = EventPayloadString (te_Event event) ''input_text'';
         parts = (if input \<noteq> [] then [part_of ContentPartTypeText input] else [])
                 @ contentPartsFromPayload u (map_get (ev_Payload (te_Event event)) ''input_parts'');
         prompt = trim_space (trim_prefix (te_Summary event) ''Started turn: '')
     in if parts \<noteq> [] then Some ((new_message MessageRoleUser)\<lparr>ms_Parts := parts\<rparr>)
        else if prompt = [] then None
        else Some ((new_message MessageRoleUser)\<lparr>ms_Parts := [part_of ContentPartTypeText prompt]\<rparr>))"

definition toolMessageFromThreadEvent :: "ThreadEvent \<Rightarrow> Message option" where
  "toolMessageFromThreadEvent event =
    (let e = te_Event event;
         t = firstThreadString (map (EventPayloadString e) [''result'', ''output'', ''stdout'', ''stderr'', ''error'']
               @ [te_Summary event])
     in if te_EventType event \<noteq> EventToolCompleted \<and> te_EventType event \<noteq> EventToolErrored then None
        else if t = [] then None
        else Some
          \<lparr>ms_Role = MessageRoleTool, ms_Parts = [part_of ContentPartTypeText t], ms_ToolCalls = [],
           ms_ToolCallID = firstThreadString [te_RequestID event, ev_RequestID e,
             EventPayloadString e ''tool_call_id'', EventPayloadString e ''id''],
           ms_Name = firstThreadString [EventPayloadString e ''name'', EventPayloadString e ''tool_name'']\<rparr>)"

section \<open>The turns of a thread\<close>

text \<open>What one event does to its turn, in the order of the code.\<close>

definition count_event :: "ThreadEvent \<Rightarrow> ThreadTurn \<Rightarrow> ThreadTurn" where
  "count_event event turn = turn
    \<lparr>tt_EventCount := tt_EventCount turn + 1,
     tt_RequestIDs := if te_RequestID event \<noteq> [] \<and> te_RequestID event \<notin> set (tt_RequestIDs turn)
       then tt_RequestIDs turn @ [te_RequestID event] else tt_RequestIDs turn\<rparr>"

definition user_event :: "unicode \<Rightarrow> ThreadEvent \<Rightarrow> ThreadTurn \<Rightarrow> ThreadTurn" where
  "user_event u event turn =
    (if te_EventType event = EventTurnStarted \<and> \<not> hasRoleMessage (tt_Messages turn) MessageRoleUser
     then (case userMessageFromTurnStarted u event of
             Some m \<Rightarrow> turn\<lparr>tt_Messages := tt_Messages turn @ [m]\<rparr>
           | None \<Rightarrow> turn)
     else turn)"

definition delta_event :: "ThreadEvent \<Rightarrow> ThreadTurn \<Rightarrow> ThreadTurn" where
  "delta_event event turn =
    (let t = threadDeltaText (te_Event event) in
     if t = [] then turn
     else if te_EventType event = EventAssistantThoughtDelta
     then appendAssistantPart ContentPartTypeReasoning t
            (turn\<lparr>tt_ReasoningText := tt_ReasoningText turn @ t\<rparr>)
     else appendAssistantPart ContentPartTypeText t
            (turn\<lparr>tt_AssistantText := tt_AssistantText turn @ t\<rparr>))"

definition final_event :: "ThreadEvent \<Rightarrow> ThreadTurn \<Rightarrow> ThreadTurn" where
  "final_event event turn =
    (let final = EventFinalText (te_Event event); turn' = turn\<lparr>tt_AssistantText := final\<rparr> in
     if final = [] then turn
     else if \<not> hasAssistantParts turn' then appendAssistantPart ContentPartTypeText final turn'
     else turn')"

definition tools_event :: "unicode \<Rightarrow> ThreadEvent \<Rightarrow> ThreadTurn \<Rightarrow> ThreadTurn" where
  "tools_event u event turn =
    (let turn = (if te_EventType event = EventTurnCompleted
           then appendAssistantToolCalls
                  (threadToolCallsFromPayload u (map_get (ev_Payload (te_Event event)) ''extracted_tools'')) turn
           else turn)
     in (case toolMessageFromThreadEvent event of
           Some m \<Rightarrow> turn\<lparr>tt_Messages := tt_Messages turn @ [m]\<rparr>
         | None \<Rightarrow> turn))"

definition status_event :: "ThreadEvent \<Rightarrow> ThreadTurn \<Rightarrow> ThreadTurn" where
  "status_event event turn =
    (if te_EventType event = EventTurnCompleted then turn
       \<lparr>tt_Status := ThreadTurnCompleted, tt_CompletedAtMS := te_RecordedAtMS event,
        tt_Summary := firstThreadString [te_Summary event, tt_Summary turn]\<rparr>
     else if te_EventType event = EventTurnErrored \<or> te_EventType event = EventSessionErrored then turn
       \<lparr>tt_Status := ThreadTurnErrored, tt_CompletedAtMS := te_RecordedAtMS event,
        tt_Summary := firstThreadString [EventErrorText (te_Event event), te_Summary event, tt_Summary turn]\<rparr>
     else if te_EventType event = EventTurnInterrupted then turn
       \<lparr>tt_Status := ThreadTurnInterrupted, tt_CompletedAtMS := te_RecordedAtMS event,
        tt_Summary := firstThreadString [te_Summary event, tt_Summary turn]\<rparr>
     else turn)"

definition turn_event :: "unicode \<Rightarrow> ThreadEvent \<Rightarrow> ThreadTurn \<Rightarrow> ThreadTurn" where
  "turn_event u event turn =
    status_event event (tools_event u event (final_event event (delta_event event
      (user_event u event (count_event event turn)))))"

text \<open>
  The loop: the turns in the order of their first event (\<open>turns\<close> and \<open>order\<close> in one association
  list), the active synthetic turns and their number.
\<close>

record turns_state =
  st_turns :: "(string \<times> ThreadTurn) list"
  st_active :: "string \<rightharpoonup> string"
  st_seq :: nat

definition ends_synthetic :: "ThreadEvent \<Rightarrow> bool" where
  "ends_synthetic event \<longleftrightarrow> IsTerminalTurnEvent (te_Event event) \<or> te_EventType event = EventTurnInterrupted"

definition turns_step :: "unicode \<Rightarrow> ThreadEvent \<Rightarrow> turns_state \<Rightarrow> turns_state" where
  "turns_step u event s =
    (case resolveThreadTurnID event (st_active s) (st_seq s) of
       ((turnID, scope), active, seqno) \<Rightarrow>
         if turnID = [] then s\<lparr>st_active := active, st_seq := seqno\<rparr>
         else
           let turn = case_option (new_turn turnID (te_RecordedAtMS event)) id (map_of (st_turns s) turnID)
           in \<lparr>st_turns = AList.update turnID (turn_event u event turn) (st_turns s),
               st_active = (if scope \<noteq> [] \<and> ends_synthetic event then active(scope := None) else active),
               st_seq = seqno\<rparr>)"

text \<open>A turn without a message of the user gets its own summary as one, and its texts as a message.\<close>

definition finish_user :: "ThreadTurn \<Rightarrow> ThreadTurn" where
  "finish_user t =
    (if \<not> hasRoleMessage (tt_Messages t) MessageRoleUser \<and> tt_Summary t \<noteq> []
     then t\<lparr>tt_Messages := (new_message MessageRoleUser)
              \<lparr>ms_Parts := [part_of ContentPartTypeText (trim_prefix (tt_Summary t) ''Started turn: '')]\<rparr>
            # tt_Messages t\<rparr>
     else t)"

definition finish_assistant :: "ThreadTurn \<Rightarrow> ThreadTurn" where
  "finish_assistant t =
    (if hasRoleMessage (tt_Messages t) MessageRoleAssistant then t
     else
       let t = (if tt_ReasoningText t \<noteq> [] then appendAssistantPart ContentPartTypeReasoning (tt_ReasoningText t) t else t)
       in if tt_AssistantText t \<noteq> [] then appendAssistantPart ContentPartTypeText (tt_AssistantText t) t else t)"

definition deriveThreadTurns :: "unicode \<Rightarrow> ThreadEvent list \<Rightarrow> ThreadTurn list" where
  "deriveThreadTurns u events =
    map (finish_assistant \<circ> finish_user \<circ> snd)
      (st_turns (fold (turns_step u) events \<lparr>st_turns = [], st_active = Map.empty, st_seq = 0\<rparr>))"

end
