(* ===== verification/ThreadTurnsSpec.thy ===== *)
theory ThreadTurnsSpec
  imports ThreadTurns
begin

text \<open>
  What reading a thread promises: every event goes to one turn, and a turn is made of its own
  events only, however the events of several turns interleave; and what its messages lose.
\<close>

section \<open>Turns are their events\<close>

text \<open>The turn every event is attributed to, empty for none.\<close>

fun attributed :: "(string \<rightharpoonup> string) \<Rightarrow> nat \<Rightarrow> ThreadEvent list \<Rightarrow> (string \<times> ThreadEvent) list" where
  "attributed active seqno [] = []"
| "attributed active seqno (e # es) =
    (case resolveThreadTurnID e active seqno of
       ((turnID, scope), active', seqno') \<Rightarrow>
         (turnID, e)
         # attributed (if scope \<noteq> [] \<and> ends_synthetic e then active'(scope := None) else active') seqno' es)"

definition turn_ids :: "(string \<times> ThreadEvent) list \<Rightarrow> string list" where
  "turn_ids tagged = rev (remdups (rev (filter (\<lambda>i. i \<noteq> []) (map fst tagged))))"

definition own_events :: "(string \<times> ThreadEvent) list \<Rightarrow> string \<Rightarrow> ThreadEvent list" where
  "own_events tagged i = map snd (filter (\<lambda>x. fst x = i) tagged)"

definition turn_of_events :: "unicode \<Rightarrow> string \<Rightarrow> ThreadEvent list \<Rightarrow> ThreadTurn" where
  "turn_of_events u i es = fold (turn_event u) es (new_turn i (te_RecordedAtMS (hd es)))"

definition group_step :: "unicode \<Rightarrow> string \<times> ThreadEvent \<Rightarrow> (string \<times> ThreadTurn) list \<Rightarrow> (string \<times> ThreadTurn) list" where
  "group_step u = (\<lambda>(i, e) ts.
    if i = [] then ts
    else AList.update i
      (turn_event u e (case_option (new_turn i (te_RecordedAtMS e)) id (map_of ts i))) ts)"

lemma no_turn_no_scope: "resolveThreadTurnID e active seqno = (([], scope), active', seqno') \<Longrightarrow> scope = []"
  by (auto simp: resolveThreadTurnID_def Let_def split: if_splits)

lemma fold_turns_step:
  "st_turns (fold (turns_step u) es s) = fold (group_step u) (attributed (st_active s) (st_seq s) es) (st_turns s)"
proof (induction es arbitrary: s)
  case (Cons e es)
  obtain turnID scope active seqno
    where r: "resolveThreadTurnID e (st_active s) (st_seq s) = ((turnID, scope), active, seqno)"
    by (metis surj_pair)
  let ?s = "turns_step u e s"
  have "st_turns ?s = group_step u (turnID, e) (st_turns s)
    \<and> st_active ?s = (if scope \<noteq> [] \<and> ends_synthetic e then active(scope := None) else active) \<and> st_seq ?s = seqno"
    using no_turn_no_scope [of e "st_active s" "st_seq s" scope active seqno] r
    by (auto simp: turns_step_def group_step_def Let_def)
  then show ?case using Cons.IH [of ?s] r by simp
qed simp

lemma map_of_keys: "map_of (map (\<lambda>i. (i, f i)) is) k = (if k \<in> set is then Some (f k) else None)"
  by (induction "is") auto

lemma sum_one: "distinct xs \<Longrightarrow> i \<in> set xs \<Longrightarrow> (\<Sum>j\<leftarrow>xs. if j = i then 1 else 0) = (1 :: nat)"
  by (induction xs) (auto simp: sum_list_0 intro!: sum_list_0 cong: map_cong)

lemma int_sum: "(\<Sum>i\<leftarrow>xs. int (f i)) = int (\<Sum>i\<leftarrow>xs. f i)"
  by (induction xs) simp_all

lemma update_map:
  "distinct is \<Longrightarrow> AList.update k v (map (\<lambda>i. (i, f i)) is)
    = (if k \<in> set is then map (\<lambda>i. (i, (f(k := v)) i)) is else map (\<lambda>i. (i, f i)) is @ [(k, v)])"
  by (induction "is") auto

lemma turn_ids_snoc:
  "turn_ids (tagged @ [(i, e)]) = (if i = [] \<or> i \<in> set (turn_ids tagged) then turn_ids tagged else turn_ids tagged @ [i])"
  by (simp add: turn_ids_def)

lemma own_events_snoc:
  "own_events (tagged @ [(i, e)]) j = (if i = j then own_events tagged j @ [e] else own_events tagged j)"
  by (simp add: own_events_def)

lemma own_events_Nil: "i \<noteq> [] \<Longrightarrow> own_events tagged i = [] \<longleftrightarrow> i \<notin> set (turn_ids tagged)"
  by (auto simp: own_events_def turn_ids_def filter_empty_conv)

lemma turn_of_events_snoc: "es \<noteq> [] \<Longrightarrow> turn_of_events u i (es @ [e]) = turn_event u e (turn_of_events u i es)"
  by (simp add: turn_of_events_def)

lemma turn_ids_nonempty: "i \<in> set (turn_ids tagged) \<Longrightarrow> i \<noteq> []"
  by (auto simp: turn_ids_def)

lemma distinct_turn_ids: "distinct (turn_ids tagged)"
  by (simp add: turn_ids_def)

lemma fold_group_step:
  "fold (group_step u) tagged [] = map (\<lambda>i. (i, turn_of_events u i (own_events tagged i))) (turn_ids tagged)"
proof (induction tagged rule: rev_induct)
  case (snoc x tagged)
  obtain i e where x: "x = (i, e)" by fastforce
  let ?f = "\<lambda>i. turn_of_events u i (own_events tagged i)"
  have own: "own_events (tagged @ [x]) j = own_events tagged j" if "j \<noteq> i" for j
    using that by (simp add: x own_events_snoc)
  show ?case
  proof (cases "i = []")
    case True
    then have "\<forall>j \<in> set (turn_ids tagged). own_events (tagged @ [x]) j = own_events tagged j"
      using own turn_ids_nonempty by blast
    then show ?thesis using snoc True by (simp add: x group_step_def turn_ids_snoc cong: map_cong)
  next
    case i: False
    have fold: "fold (group_step u) (tagged @ [x]) []
        = AList.update i (turn_event u e (case_option (new_turn i (te_RecordedAtMS e)) id
            (map_of (map (\<lambda>i. (i, ?f i)) (turn_ids tagged)) i))) (map (\<lambda>i. (i, ?f i)) (turn_ids tagged))"
      using i snoc by (simp add: x group_step_def)
    have known: "map_of (map (\<lambda>i. (i, ?f i)) (turn_ids tagged)) i
        = (if i \<in> set (turn_ids tagged) then Some (?f i) else None)"
      by (rule map_of_keys)
    have here: "own_events (tagged @ [x]) i = own_events tagged i @ [e]" by (simp add: x own_events_snoc)
    show ?thesis
    proof (cases "i \<in> set (turn_ids tagged)")
      case True
      then have "turn_of_events u i (own_events (tagged @ [x]) i) = turn_event u e (?f i)"
        using own_events_Nil [OF i] here by (simp add: turn_of_events_snoc)
      then show ?thesis
        unfolding fold known using True own
        by (auto simp: update_map distinct_turn_ids x turn_ids_snoc intro!: map_cong)
    next
      case False
      then have "own_events tagged i = []" using own_events_Nil [OF i] by blast
      then have "turn_of_events u i (own_events (tagged @ [x]) i) = turn_event u e (new_turn i (te_RecordedAtMS e))"
        using here by (simp add: turn_of_events_def)
      moreover have "\<forall>j \<in> set (turn_ids tagged). own_events (tagged @ [x]) j = own_events tagged j"
        using False own by metis
      ultimately show ?thesis
        unfolding fold known using False i
        by (simp add: update_map distinct_turn_ids x turn_ids_snoc cong: map_cong)
    qed
  qed
qed (simp add: turn_ids_def)

section \<open>Counting\<close>

lemma count_kept [simp]:
  "tt_EventCount (appendAssistantPart p t turn) = tt_EventCount turn"
  "tt_EventCount (appendAssistantToolCalls tools turn) = tt_EventCount turn"
  "tt_TurnID (appendAssistantPart p t turn) = tt_TurnID turn"
  "tt_TurnID (appendAssistantToolCalls tools turn) = tt_TurnID turn"
  by (simp_all add: appendAssistantPart_def appendAssistantToolCalls_def Let_def split: option.split)

lemma count_event_kept [simp]:
  "tt_EventCount (count_event e turn) = tt_EventCount turn + 1"
  "tt_TurnID (count_event e turn) = tt_TurnID turn"
  by (simp_all add: count_event_def Let_def split: option.split)

lemma user_event_kept [simp]:
  "tt_EventCount (user_event u e turn) = tt_EventCount turn"
  "tt_TurnID (user_event u e turn) = tt_TurnID turn"
  by (simp_all add: user_event_def Let_def split: option.split)

lemma delta_event_kept [simp]:
  "tt_EventCount (delta_event e turn) = tt_EventCount turn"
  "tt_TurnID (delta_event e turn) = tt_TurnID turn"
  by (simp_all add: delta_event_def Let_def split: option.split)

lemma final_event_kept [simp]:
  "tt_EventCount (final_event e turn) = tt_EventCount turn"
  "tt_TurnID (final_event e turn) = tt_TurnID turn"
  by (simp_all add: final_event_def Let_def split: option.split)

lemma tools_event_kept [simp]:
  "tt_EventCount (tools_event u e turn) = tt_EventCount turn"
  "tt_TurnID (tools_event u e turn) = tt_TurnID turn"
  by (simp_all add: tools_event_def Let_def split: option.split)

lemma status_event_kept [simp]:
  "tt_EventCount (status_event e turn) = tt_EventCount turn"
  "tt_TurnID (status_event e turn) = tt_TurnID turn"
  by (simp_all add: status_event_def Let_def split: option.split)

lemma turn_event_counts:
  "tt_EventCount (turn_event u e turn) = tt_EventCount turn + 1"
  "tt_TurnID (turn_event u e turn) = tt_TurnID turn"
  by (simp_all add: turn_event_def)

lemma finish_counts:
  "tt_EventCount (finish_assistant (finish_user t)) = tt_EventCount t"
  "tt_TurnID (finish_assistant (finish_user t)) = tt_TurnID t"
  by (simp_all add: finish_assistant_def finish_user_def Let_def)

lemma fold_turn_event:
  "tt_EventCount (fold (turn_event u) es t) = tt_EventCount t + int (length es)"
  "tt_TurnID (fold (turn_event u) es t) = tt_TurnID t"
  by (induction es arbitrary: t) (simp_all add: turn_event_counts)

lemma turn_of_events_counts:
  "tt_EventCount (turn_of_events u i es) = int (length es)"
  "tt_TurnID (turn_of_events u i es) = i"
  by (simp_all add: turn_of_events_def fold_turn_event new_turn_def)

lemma sum_own_events:
  "sum_list (map (\<lambda>i. length (own_events tagged i)) (turn_ids tagged)) = length (filter (\<lambda>x. fst x \<noteq> []) tagged)"
proof (induction tagged rule: rev_induct)
  case (snoc x tagged)
  obtain i e where x: "x = (i, e)" by fastforce
  show ?case
  proof (cases "i \<in> set (turn_ids tagged)")
    case True
    then have "i \<noteq> []" by (rule turn_ids_nonempty)
    have "sum_list (map (\<lambda>j. length (own_events (tagged @ [x]) j)) (turn_ids tagged))
        = sum_list (map (\<lambda>j. length (own_events tagged j) + (if j = i then 1 else 0)) (turn_ids tagged))"
      by (intro arg_cong [of _ _ sum_list] map_cong) (auto simp: x own_events_snoc)
    also have "\<dots> = sum_list (map (\<lambda>j. length (own_events tagged j)) (turn_ids tagged)) + 1"
      using sum_one [OF distinct_turn_ids True] by (simp add: sum_list_addf)
    finally show ?thesis using True \<open>i \<noteq> []\<close> snoc by (simp add: x turn_ids_snoc)
  next
    case False
    have "map (\<lambda>j. length (own_events (tagged @ [x]) j)) (turn_ids tagged)
        = map (\<lambda>j. length (own_events tagged j)) (turn_ids tagged)"
      using False by (auto simp: x own_events_snoc)
    then have sum: "(\<Sum>j\<leftarrow>turn_ids tagged. length (own_events (tagged @ [x]) j))
        = length (filter (\<lambda>x. fst x \<noteq> []) tagged)"
      using snoc by (simp only: )
    have "length (own_events (tagged @ [x]) i) = 1" if "i \<noteq> []"
      using False own_events_Nil [OF that, of tagged] by (simp add: x own_events_snoc)
    then show ?thesis
      using False sum by (cases "i = []") (simp_all add: turn_ids_snoc x)
  qed
qed (simp add: turn_ids_def)

text \<open>
  C30. A thread's turns are those its events are attributed to, in the order of their first events, and
  every turn is what its own events make of a new turn that starts with the first of them: events
  of other turns in between do not matter, no turn ID occurs twice, and every attributed event is
  counted in exactly one turn.
\<close>

theorem deriveThreadTurns_groups:
  fixes u events
  defines "tagged \<equiv> attributed Map.empty 0 events"
  shows "deriveThreadTurns u events =
      map (\<lambda>i. finish_assistant (finish_user (turn_of_events u i (own_events tagged i)))) (turn_ids tagged)
    \<and> map tt_TurnID (deriveThreadTurns u events) = turn_ids tagged \<and> distinct (turn_ids tagged)
    \<and> sum_list (map tt_EventCount (deriveThreadTurns u events)) = int (length (filter (\<lambda>x. fst x \<noteq> []) tagged))"
proof -
  have turns: "deriveThreadTurns u events =
      map (\<lambda>i. finish_assistant (finish_user (turn_of_events u i (own_events tagged i)))) (turn_ids tagged)"
    by (simp add: deriveThreadTurns_def fold_turns_step tagged_def fold_group_step)
  have "sum_list (map (\<lambda>i. int (length (own_events tagged i))) (turn_ids tagged))
      = int (length (filter (\<lambda>x. fst x \<noteq> []) tagged))"
    by (simp only: int_sum sum_own_events)
  then show ?thesis
    unfolding turns by (simp add: comp_def finish_counts turn_of_events_counts distinct_turn_ids)
qed

section \<open>What the messages lose\<close>

definition delta_of :: "string \<Rightarrow> string \<Rightarrow> ThreadEvent" where
  "delta_of i d =
    \<lparr>te_ID = 0, te_ThreadID = ''thread'', te_RecordedAtMS = 0, te_EventType = EventAssistantMessageDelta,
     te_Summary = [], te_TurnID = i, te_RequestID = [],
     te_Event = NewRuntimeEvent 0 0 no_session EventAssistantMessageDelta [] i [] [(''delta'', GStr d)]\<rparr>"

definition messages_text :: "ThreadTurn \<Rightarrow> string" where
  "messages_text t = concat (map cp_Text (concat (map ms_Parts (tt_Messages t))))"

definition plain_answer :: "ThreadTurn \<Rightarrow> bool" where
  "plain_answer t \<longleftrightarrow> (tt_Messages t = [] \<or> (\<exists>m p. tt_Messages t = [m] \<and> ms_Role m = MessageRoleAssistant
     \<and> ms_Parts m = [p] \<and> cp_Type p = ContentPartTypeText))"

lemma delta_no_final: "EventFinalText (te_Event (delta_of i d)) = []"
  by (simp add: EventFinalText_def delta_of_def NewRuntimeEvent_def EventPayloadString_def PayloadString_def
    any_string_def map_get_def trim_space_Nil)

lemma delta_of_fields:
  "te_EventType (delta_of i d) = EventAssistantMessageDelta" "te_RequestID (delta_of i d) = []"
  "threadDeltaText (te_Event (delta_of i d)) = d"
  by (simp_all add: delta_of_def threadDeltaText_def EventDeltaText_def NewRuntimeEvent_def map_get_def)

lemma turn_event_delta_of:
  "turn_event u (delta_of i d) t =
    (let t = t\<lparr>tt_EventCount := tt_EventCount t + 1\<rparr> in
     if d = [] then t
     else appendAssistantPart ContentPartTypeText d (t\<lparr>tt_AssistantText := tt_AssistantText t @ d\<rparr>))"
  unfolding turn_event_def final_event_def delta_no_final
  by (simp add: status_event_def tools_event_def user_event_def toolMessageFromThreadEvent_def
    delta_event_def count_event_def delta_of_fields Let_def)

lemma append_to_plain:
  assumes "plain_answer t"
  shows "plain_answer (appendAssistantPart ContentPartTypeText d t)
    \<and> messages_text (appendAssistantPart ContentPartTypeText d t) = messages_text t @ trim_space d"
  using assms
  by (auto simp: plain_answer_def messages_text_def appendAssistantPart_def add_part_def part_of_def
    no_part_def new_message_def Let_def)

lemma append_text: "tt_AssistantText (appendAssistantPart p d t) = tt_AssistantText t"
  by (simp add: appendAssistantPart_def Let_def)

lemma delta_event_of:
  assumes "plain_answer t"
  shows "plain_answer (turn_event u (delta_of i d) t)
    \<and> tt_AssistantText (turn_event u (delta_of i d) t) = tt_AssistantText t @ d
    \<and> messages_text (turn_event u (delta_of i d) t) = messages_text t @ trim_space d"
proof -
  have same: "plain_answer (t\<lparr>tt_EventCount := n, tt_AssistantText := a\<rparr>)"
    "messages_text (t\<lparr>tt_EventCount := n, tt_AssistantText := a\<rparr>) = messages_text t"
    "plain_answer (t\<lparr>tt_EventCount := n\<rparr>)" "messages_text (t\<lparr>tt_EventCount := n\<rparr>) = messages_text t" for n a
    using assms by (simp_all add: plain_answer_def messages_text_def)
  show ?thesis
    using append_to_plain [OF same(1)] same by (simp add: turn_event_delta_of append_text trim_space_Nil Let_def)
qed

lemma fold_deltas:
  "plain_answer t \<Longrightarrow>
    tt_AssistantText (fold (turn_event u) (map (delta_of i) ds) t) = tt_AssistantText t @ concat ds
    \<and> messages_text (fold (turn_event u) (map (delta_of i) ds) t) = messages_text t @ concat (map trim_space ds)"
  by (induction ds arbitrary: t) (simp_all add: delta_event_of)

text \<open>
  C31. Where an answer comes in pieces, the text of the turn is the pieces joined, but the text of its
  messages is the pieces trimmed and joined: every blank at the border of two pieces is lost, so
  that \<open>Hello \<close> and \<open>world\<close> become \<open>Helloworld\<close>.
\<close>

theorem message_deltas_lose_blanks:
  "tt_AssistantText (turn_of_events u i (map (delta_of i) ds)) = concat ds
   \<and> messages_text (turn_of_events u i (map (delta_of i) ds)) = concat (map trim_space ds)
   \<and> map messages_text (deriveThreadTurns u (map (delta_of ''t'') [''Hello '', ''world''])) = [''Helloworld'']"
proof -
  have new: "plain_answer (new_turn i m)" "tt_AssistantText (new_turn i m) = []" "messages_text (new_turn i m) = []"
    for i m by (simp_all add: plain_answer_def new_turn_def messages_text_def)
  have "map messages_text (deriveThreadTurns u (map (delta_of ''t'') [''Hello '', ''world''])) = [''Helloworld'']"
    by code_simp
  then show ?thesis using fold_deltas [OF new(1)] new by (simp add: turn_of_events_def)
qed

end
