(* ===== verification/ThreadStore.thy ===== *)
theory ThreadStore
  imports ThreadTurns ControlState Workspace
begin

text \<open>
  The thread store of the control plane (\<^verbatim>\<open>internal/controlplane/threadstore.go\<close> with the types of
  \<^verbatim>\<open>pkg/contract/threads.go\<close>): a table of threads and one of their events. Every operation but
  \<open>ForkThread\<close> is one SQL statement. The JSON columns hold the values themselves, after a way
  through JSON: what a payload or the metadata of a session holds loses its Go types, and a value
  that has no JSON is an error. Their texts are taken to be UTF-8.
\<close>

section \<open>Threads\<close>

record ThreadMetadata =
  tm_Kind :: string
  tm_Workflow :: string
  tm_WorkflowMode :: string
  tm_Task :: string
  tm_TargetLabel :: string
  tm_ReductionMode :: string
  tm_PromotedFromRunID :: string
  tm_PromotedFromWorkerID :: string
  tm_PromotedFromRoleID :: string
  tm_PromotedAsBase :: bool
  tm_CourtRunID :: string
  tm_CourtWorkerID :: string
  tm_CourtRoleID :: string
  tm_CourtRoleKind :: string
  tm_CourtAgent :: string
  tm_CourtBackend :: string
  tm_ForkMode :: string
  tm_ForkedFromThreadID :: string
  tm_ForkedFromProviderSessionID :: string
  tm_RollbackMode :: string
  tm_RollbackTurns :: int
  tm_RollbackFromThreadID :: string
  tm_RollbackFromProviderSessionID :: string

definition no_metadata :: ThreadMetadata where
  "no_metadata =
    \<lparr>tm_Kind = [], tm_Workflow = [], tm_WorkflowMode = [], tm_Task = [], tm_TargetLabel = [],
     tm_ReductionMode = [], tm_PromotedFromRunID = [], tm_PromotedFromWorkerID = [],
     tm_PromotedFromRoleID = [], tm_PromotedAsBase = False, tm_CourtRunID = [], tm_CourtWorkerID = [],
     tm_CourtRoleID = [], tm_CourtRoleKind = [], tm_CourtAgent = [], tm_CourtBackend = [],
     tm_ForkMode = [], tm_ForkedFromThreadID = [], tm_ForkedFromProviderSessionID = [],
     tm_RollbackMode = [], tm_RollbackTurns = 0, tm_RollbackFromThreadID = [],
     tm_RollbackFromProviderSessionID = []\<rparr>"

record TrackedThread =
  tk_ThreadID :: string
  tk_ParentThreadID :: string
  tk_Name :: string
  tk_Archived :: bool
  tk_Metadata :: ThreadMetadata
  tk_TrackedSession :: TrackedSession

text \<open>A row of \<open>threads\<close>: the columns beside the JSON are kept apart from it, as the table does.\<close>

record thread_row =
  th_ThreadID :: string
  th_ParentThreadID :: string
  th_Name :: string
  th_Archived :: bool
  th_Metadata :: ThreadMetadata
  th_Runtime :: string
  th_ProviderSessionID :: string
  th_UpdatedAtMS :: int
  th_Tracked :: TrackedSession
  th_CreatedAtMS :: int

record thread_db =
  threads :: "thread_row list"
  thread_events :: "ThreadEvent list"
  last_event :: int \<comment> \<open>the largest ID given out so far (\<open>AUTOINCREMENT\<close>)\<close>
  th_conns :: "conn list"

type_synonym 'a thread_call = "thread_db \<Rightarrow> (go_error + 'a) \<times> thread_db"

definition th_statement :: "(bool \<Rightarrow> 'a thread_call) \<Rightarrow> 'a thread_call" where
  "th_statement f s =
    (case th_conns s of
       [] \<Rightarrow> f True s
     | c # cs \<Rightarrow>
         (case con_error c of
            Some m \<Rightarrow> (Inl (Err m), s\<lparr>th_conns := cs\<rparr>)
          | None \<Rightarrow> f (con_foreign_keys c) (s\<lparr>th_conns := cs\<rparr>)))"

section \<open>The way through JSON\<close>

abbreviation no_json :: go_error where "no_json \<equiv> Err ''json: unsupported value''"

definition json_payload :: "payload \<Rightarrow> payload option" where
  "json_payload p =
    Option.bind (Option.bind (marshal_any (GMap (Some p))) json_parse) (\<lambda>v.
      map_option (case_option [] id) (decode_any_map None v))"

definition json_cost :: "float64 \<Rightarrow> float64 option" where
  "json_cost x = (case x of Fin neg m e \<Rightarrow> Some (if m = 0 then f0 else x) | _ \<Rightarrow> None)"

fun json_costs :: "CostBreakdown list \<Rightarrow> CostBreakdown list option" where
  "json_costs [] = Some []"
| "json_costs (b # bs) =
    (case (json_cost (cb_CostUSD b), json_costs bs) of
       (Some c, Some cs) \<Rightarrow> Some (b\<lparr>cb_CostUSD := c\<rparr> # cs) | _ \<Rightarrow> None)"

definition json_tracked :: "TrackedSession \<Rightarrow> TrackedSession option" where
  "json_tracked t =
    (case (json_payload (rs_Metadata (tr_Session t)), json_cost (rs_CostUSD (tr_Session t)),
           json_costs (tr_CostByModel t), json_costs (tr_CostByMode t)) of
       (Some m, Some c, Some cs, Some ds) \<Rightarrow> Some (t
         \<lparr>tr_Session := (tr_Session t)\<lparr>rs_Metadata := m, rs_CostUSD := c\<rparr>,
          tr_CostByModel := cs, tr_CostByMode := ds\<rparr>)
     | _ \<Rightarrow> None)"

definition json_state :: "SessionState option \<Rightarrow> SessionState option option" where
  "json_state st =
    (case st of
       None \<Rightarrow> Some None
     | Some x \<Rightarrow> map_option (\<lambda>c. Some (x\<lparr>ss_CostUSD := c\<rparr>)) (json_cost (ss_CostUSD x)))"

definition json_request :: "PendingRequest option \<Rightarrow> PendingRequest option option" where
  "json_request r =
    (case r of
       None \<Rightarrow> Some None
     | Some x \<Rightarrow> map_option (\<lambda>p. Some (x\<lparr>pr_Extensions := p\<rparr>)) (json_payload (pr_Extensions x)))"

definition json_event :: "RuntimeEvent \<Rightarrow> RuntimeEvent option" where
  "json_event e =
    (case (json_payload (ev_Payload e), json_state (ev_SessionState e), json_request (ev_Request e)) of
       (Some p, Some st, Some r) \<Rightarrow> Some (e\<lparr>ev_Payload := p, ev_SessionState := st, ev_Request := r\<rparr>)
     | _ \<Rightarrow> None)"

section \<open>Names and metadata from a session\<close>

definition stringValueFromMetadata :: "payload \<Rightarrow> string \<Rightarrow> string" where
  "stringValueFromMetadata values key = (case map_get values key of GStr s \<Rightarrow> trim_space s | _ \<Rightarrow> [])"

definition intValueFromMetadata :: "(float64 \<Rightarrow> int) \<Rightarrow> payload \<Rightarrow> string \<Rightarrow> int" where
  "intValueFromMetadata oor values key =
    (case map_get values key of GInt i \<Rightarrow> i | GFloat x \<Rightarrow> float_to_int64 oor x | _ \<Rightarrow> 0)"

definition threadNameFromSession :: "RuntimeSession \<Rightarrow> string" where
  "threadNameFromSession session =
    firstNonEmpty [stringValueFromMetadata (rs_Metadata session) ''thread_name'', rs_Title session]"

definition threadMetadataFromSession :: "(float64 \<Rightarrow> int) \<Rightarrow> RuntimeSession \<Rightarrow> ThreadMetadata" where
  "threadMetadataFromSession oor session =
    (let get = stringValueFromMetadata (rs_Metadata session) in
     \<lparr>tm_Kind = get ''thread_kind'', tm_Workflow = get ''workflow'',
      tm_WorkflowMode = get ''workflow_mode'', tm_Task = get ''task'',
      tm_TargetLabel = get ''target_label'', tm_ReductionMode = get ''reduction_mode'',
      tm_PromotedFromRunID = [], tm_PromotedFromWorkerID = [], tm_PromotedFromRoleID = [],
      tm_PromotedAsBase = False,
      tm_CourtRunID = get ''court_run_id'', tm_CourtWorkerID = get ''court_worker_id'',
      tm_CourtRoleID = get ''court_role_id'', tm_CourtRoleKind = get ''court_role_kind'',
      tm_CourtAgent = get ''court_agent'', tm_CourtBackend = get ''court_backend'',
      tm_ForkMode = get ''fork_mode'', tm_ForkedFromThreadID = get ''forked_from_thread_id'',
      tm_ForkedFromProviderSessionID = get ''forked_from_provider_session_id'',
      tm_RollbackMode = get ''rollback_mode'',
      tm_RollbackTurns = intValueFromMetadata oor (rs_Metadata session) ''rollback_turns'',
      tm_RollbackFromThreadID = get ''rollback_from_thread_id'',
      tm_RollbackFromProviderSessionID = get ''rollback_from_provider_session_id''\<rparr>)"

section \<open>Operations\<close>

text \<open>An upsert keeps the name, the parent, the flag and the metadata a row already has.\<close>

definition upsert_row :: "thread_row \<Rightarrow> thread_row list \<Rightarrow> thread_row list" where
  "upsert_row new rows =
    (if list_ex (\<lambda>r. th_ThreadID r = th_ThreadID new) rows
     then update_where (\<lambda>r. th_ThreadID r = th_ThreadID new)
       (\<lambda>r. r\<lparr>th_Name := if th_Name r = [] then th_Name new else th_Name r,
              th_Metadata := if th_Metadata r = no_metadata then th_Metadata new else th_Metadata r,
              th_Runtime := th_Runtime new, th_ProviderSessionID := th_ProviderSessionID new,
              th_UpdatedAtMS := th_UpdatedAtMS new, th_Tracked := th_Tracked new\<rparr>) rows
     else rows @ [new])"

definition UpsertTrackedSession :: "(float64 \<Rightarrow> int) \<Rightarrow> int \<Rightarrow> TrackedSession \<Rightarrow> unit thread_call" where
  "UpsertTrackedSession oor now tracked s =
    (case json_tracked tracked of
       None \<Rightarrow> (Inl no_json, s)
     | Some stored \<Rightarrow>
         let session = tr_Session tracked;
             new = \<lparr>th_ThreadID = rs_SessionID session, th_ParentThreadID = [],
               th_Name = threadNameFromSession session, th_Archived = False,
               th_Metadata = threadMetadataFromSession oor session, th_Runtime = rs_Runtime session,
               th_ProviderSessionID = rs_ProviderSessionID session,
               th_UpdatedAtMS = rs_UpdatedAtMS session, th_Tracked = stored,
               th_CreatedAtMS = (if tr_StartedAtMS tracked \<noteq> 0 then tr_StartedAtMS tracked
                 else if rs_CreatedAtMS session \<noteq> 0 then rs_CreatedAtMS session else now)\<rparr>
         in th_statement (\<lambda>_ s. (Inr (), s\<lparr>threads := upsert_row new (threads s)\<rparr>)) s)"

definition store_AddEvent :: "RuntimeEvent \<Rightarrow> unit thread_call" where
  "store_AddEvent event s =
    (if ev_SessionID event = [] then (Inr (), s)
     else (case json_event event of
       None \<Rightarrow> (Inl no_json, s)
     | Some stored \<Rightarrow>
         th_statement (\<lambda>fk s.
           if fk \<and> \<not> list_ex (\<lambda>r. th_ThreadID r = ev_SessionID event) (threads s)
           then (Inl (Err ''FOREIGN KEY constraint failed''), s)
           else (Inr (), s
             \<lparr>last_event := last_event s + 1,
              thread_events := thread_events s @
                [\<lparr>te_ID = last_event s + 1, te_ThreadID = ev_SessionID event,
                  te_RecordedAtMS = ev_RecordedAtMS event, te_EventType = ev_EventType event,
                  te_Summary = ev_Summary event, te_TurnID = ev_TurnID event,
                  te_RequestID = ev_RequestID event, te_Event = stored\<rparr>]\<rparr>)) s))"

definition scanTrackedThread :: "(float64 \<Rightarrow> int) \<Rightarrow> thread_row \<Rightarrow> TrackedThread" where
  "scanTrackedThread oor r =
    \<lparr>tk_ThreadID = th_ThreadID r, tk_ParentThreadID = th_ParentThreadID r,
     tk_Name = (if trim_space (th_Name r) = [] then threadNameFromSession (tr_Session (th_Tracked r))
                else th_Name r),
     tk_Archived = th_Archived r,
     tk_Metadata = (if th_Metadata r = no_metadata
                    then threadMetadataFromSession oor (tr_Session (th_Tracked r)) else th_Metadata r),
     tk_TrackedSession = th_Tracked r\<rparr>"

definition thread_order :: "thread_row list \<Rightarrow> thread_row list" where
  "thread_order rows =
    sort_func (\<lambda>l r. if th_UpdatedAtMS l > th_UpdatedAtMS r then -1
      else if th_UpdatedAtMS l < th_UpdatedAtMS r then 1
      else string_cmp (th_ThreadID l) (th_ThreadID r)) rows"

definition store_ListThreads :: "(float64 \<Rightarrow> int) \<Rightarrow> string \<Rightarrow> bool option \<Rightarrow> TrackedThread list thread_call" where
  "store_ListThreads oor runtime archived =
    th_statement (\<lambda>_ s. (Inr (map (scanTrackedThread oor) (thread_order
      (filter (\<lambda>r. (trim_space runtime = [] \<or> th_Runtime r = trim_space runtime)
                \<and> (case archived of None \<Rightarrow> True | Some a \<Rightarrow> th_Archived r = a)) (threads s)))), s))"

text \<open>More than one row may have the same provider session: the query returns any; the model the first.\<close>

definition store_GetThread :: "(float64 \<Rightarrow> int) \<Rightarrow> string \<Rightarrow> string \<Rightarrow> TrackedThread thread_call" where
  "store_GetThread oor threadID providerSessionID =
    th_statement (\<lambda>_ s. (map_sum id (scanTrackedThread oor) (row_or_error (List.find
      (\<lambda>r. if trim_space threadID \<noteq> [] then th_ThreadID r = trim_space threadID
           else th_ProviderSessionID r = trim_space providerSessionID) (threads s))), s))"

definition update_thread :: "string \<Rightarrow> (thread_row \<Rightarrow> thread_row) \<Rightarrow> unit thread_call" where
  "update_thread threadID f =
    th_statement (\<lambda>_ s. (Inr (), s\<lparr>threads := update_where (\<lambda>r. th_ThreadID r = threadID) f (threads s)\<rparr>))"

definition SetName :: "string \<Rightarrow> string \<Rightarrow> unit thread_call" where
  "SetName threadID name = update_thread threadID (\<lambda>r. r\<lparr>th_Name := trim_space name\<rparr>)"

definition SetMetadata :: "string \<Rightarrow> ThreadMetadata \<Rightarrow> unit thread_call" where
  "SetMetadata threadID metadata = update_thread threadID (\<lambda>r. r\<lparr>th_Metadata := metadata\<rparr>)"

definition SetParent :: "string \<Rightarrow> string \<Rightarrow> unit thread_call" where
  "SetParent threadID parentThreadID =
    update_thread threadID (\<lambda>r. r\<lparr>th_ParentThreadID := trim_space parentThreadID\<rparr>)"

definition SetArchived :: "string \<Rightarrow> bool \<Rightarrow> unit thread_call" where
  "SetArchived threadID archived = update_thread threadID (\<lambda>r. r\<lparr>th_Archived := archived\<rparr>)"

text \<open>The thread that \<open>ForkThread\<close> makes of another one, and its row.\<close>

definition forked_session :: "string \<Rightarrow> bool \<Rightarrow> int \<Rightarrow> TrackedSession \<Rightarrow> TrackedSession" where
  "forked_session newThreadID preserve now t = t
    \<lparr>tr_Session := (tr_Session t)
       \<lparr>rs_SessionID := newThreadID,
        rs_ProviderSessionID := (if preserve then rs_ProviderSessionID (tr_Session t) else []),
        rs_Status := SessionIdle, rs_ActiveTurnID := [], rs_CreatedAtMS := now, rs_UpdatedAtMS := now\<rparr>,
     tr_StartedAtMS := now\<rparr>"

definition forked_thread :: "string \<Rightarrow> string \<Rightarrow> bool \<Rightarrow> int \<Rightarrow> TrackedThread \<Rightarrow> TrackedThread" where
  "forked_thread sourceID newThreadID preserve now t = t
    \<lparr>tk_ParentThreadID := sourceID, tk_ThreadID := newThreadID, tk_Archived := False,
     tk_Name := (if tk_Name t \<noteq> [] then tk_Name t @ '' (fork)'' else []),
     tk_TrackedSession := forked_session newThreadID preserve now (tk_TrackedSession t)\<rparr>"

definition thread_row_of :: "int \<Rightarrow> TrackedThread \<Rightarrow> thread_row" where
  "thread_row_of now t =
    \<lparr>th_ThreadID = tk_ThreadID t, th_ParentThreadID = tk_ParentThreadID t, th_Name = tk_Name t,
     th_Archived = False, th_Metadata = tk_Metadata t,
     th_Runtime = rs_Runtime (tr_Session (tk_TrackedSession t)),
     th_ProviderSessionID = rs_ProviderSessionID (tr_Session (tk_TrackedSession t)),
     th_UpdatedAtMS = now, th_Tracked = tk_TrackedSession t, th_CreatedAtMS = now\<rparr>"

definition insert_thread :: "thread_row \<Rightarrow> unit thread_call" where
  "insert_thread row =
    th_statement (\<lambda>_ s.
      if list_ex (\<lambda>r. th_ThreadID r = th_ThreadID row) (threads s)
      then (Inl (unique_failed ''threads.thread_id''), s)
      else (Inr (), s\<lparr>threads := threads s @ [row]\<rparr>))"

text \<open>The source is read by one statement, its copy is inserted by another.\<close>

definition store_ForkThread ::
    "(float64 \<Rightarrow> int) \<Rightarrow> int \<Rightarrow> string \<Rightarrow> string \<Rightarrow> bool \<Rightarrow> (thread_db, go_error + TrackedThread) proc" where
  "store_ForkThread oor now sourceID newThreadID preserve =
    must (act (store_GetThread oor sourceID [])) (\<lambda>thread.
      let child = forked_thread sourceID newThreadID preserve now thread in
      must (act (insert_thread (thread_row_of now child))) (\<lambda>_. Done (Inr child)))"

definition store_ListThreadEvents :: "string \<Rightarrow> int \<Rightarrow> int \<Rightarrow> ThreadEvent list thread_call" where
  "store_ListThreadEvents threadID afterID limit =
    th_statement (\<lambda>_ s. (Inr (take (nat (if limit \<le> 0 then 200 else limit))
      (filter (\<lambda>e. te_ThreadID e = threadID \<and> te_ID e > afterID) (thread_events s))), s))"

end
