(* ===== verification/ContentParts.thy ===== *)
theory ContentParts
  imports ThreadTurns Requests
begin

text \<open>
  \<^verbatim>\<open>pkg/contract/content_parts.go\<close>: which parts of an input are accepted. \<open>url.Parse\<close> is an
  argument: the scheme and the host of a URL, or nothing when it does not parse.
\<close>

abbreviation ContentPartTypeImage :: string where "ContentPartTypeImage \<equiv> ''image''"
abbreviation ContentPartTypeAudio :: string where "ContentPartTypeAudio \<equiv> ''audio''"
abbreviation ContentPartTypeFile :: string where "ContentPartTypeFile \<equiv> ''file''"

type_synonym url_parser = "string \<Rightarrow> (string \<times> string) option"

record SendInputRequest =
  sir_SessionID :: string
  sir_Text :: string
  sir_Parts :: "ContentPart list"
  sir_Metadata :: payload

definition no_source :: "ContentPart \<Rightarrow> bool" where
  "no_source p \<longleftrightarrow> trim_space (cp_URL p) = [] \<and> trim_space (cp_Data p) = []"

definition part_type_error :: "unicode \<Rightarrow> ContentPart \<Rightarrow> go_error option" where
  "part_type_error u p =
    (let t = trim_space (cp_Type p);
         mime = (\<lambda>kind. cp_MIMEType p \<noteq> [] \<and> \<not> has_prefix (to_lower u (trim_space (cp_MIMEType p))) (kind @ ''/''));
         media = (\<lambda>kind. if no_source p then Some (Err (kind @ '' part requires url or data''))
                   else if mime kind
                   then Some (Err (kind @ '' part MIME type must start with '' @ kind @ ''/''))
                   else None)
     in if t = [] then Some (Err ''type is required'')
        else if t = ContentPartTypeText \<or> t = ContentPartTypeReasoning
        then (if trim_space (cp_Text p) = [] then Some (Err (t @ '' part requires text'')) else None)
        else if t = ContentPartTypeImage then media ''image''
        else if t = ContentPartTypeAudio then media ''audio''
        else if t = ContentPartTypeFile
        then (if no_source p then Some (Err ''file part requires url or data'') else None)
        else Some (Err (''unsupported type '' @ quoted u (cp_Type p))))"

definition part_url_error :: "url_parser \<Rightarrow> ContentPart \<Rightarrow> go_error option" where
  "part_url_error parse p =
    (let raw = trim_space (cp_URL p) in
     if raw = [] then None
     else (case parse raw of
             None \<Rightarrow> Some (Err ''url must be absolute'')
           | Some (scheme, host) \<Rightarrow>
               if scheme = [] then Some (Err ''url must be absolute'')
               else if scheme \<noteq> ''data'' \<and> host = [] then Some (Err ''url must include a host'')
               else None))"

definition ValidateContentPart :: "unicode \<Rightarrow> url_parser \<Rightarrow> ContentPart \<Rightarrow> go_error option" where
  "ValidateContentPart u parse p =
    (case part_type_error u p of Some e \<Rightarrow> Some e | None \<Rightarrow> part_url_error parse p)"

fun validate_parts :: "unicode \<Rightarrow> url_parser \<Rightarrow> nat \<Rightarrow> ContentPart list \<Rightarrow> go_error option" where
  "validate_parts u parse i [] = None"
| "validate_parts u parse i (p # ps) =
    (case ValidateContentPart u parse p of
       Some e \<Rightarrow> Some (Wrapped (''content part '' @ decimal (int i)) e)
     | None \<Rightarrow> validate_parts u parse (i + 1) ps)"

definition ValidateContentParts :: "unicode \<Rightarrow> url_parser \<Rightarrow> ContentPart list \<Rightarrow> go_error option" where
  "ValidateContentParts u parse parts = validate_parts u parse 0 parts"

end
