(* ===== verification/Service.thy ===== *)
theory Service
  imports ThreadStore ContentParts ToolExtract ModelRegistry
begin

text \<open>
  The service of the control plane (\<^verbatim>\<open>internal/controlplane/service.go\<close>): it starts sessions with
  their providers, keeps directory, ledger and thread store in step with the events that the
  providers publish, attaches the tool calls of a turn to its last event, and answers questions
  about sessions and threads. An action holds one lock, so operations interleave between them.
  The providers, the event log, speech and the clock belong to a world of their own; what a
  provider does under the lock of a session is one action.
\<close>

section \<open>The state\<close>

text \<open>\<open>sv_threads\<close> is absent when the database could not be opened. The texts of open turns have a key each.\<close>

record 'w service =
  sv_runtimes :: "(string \<times> string) list"
  sv_directory :: SessionDirectory
  sv_ledger :: SessionLedger
  sv_bus :: EventBus
  sv_texts :: "(string \<times> string) list"
  sv_threads :: "thread_db option"
  sv_world :: 'w

text \<open>What an action of a provider gives: an error or a value.\<close>

type_synonym ('w, 'a) world_call = "'w \<Rightarrow> (go_error + 'a) \<times> 'w"

record 'w Provider =
  prov_Describe :: "'w \<Rightarrow> RuntimeDescriptor"
  prov_StartSession :: "StartSessionRequest \<Rightarrow> ('w, RuntimeSession) world_call"
  prov_ResumeSession :: "ResumeSessionRequest \<Rightarrow> ('w, RuntimeSession) world_call"
  prov_SendInput :: "SendInputRequest \<Rightarrow> ('w, RuntimeEvent) world_call"
  prov_Interrupt :: "string \<Rightarrow> ('w, RuntimeEvent) world_call"
  prov_Respond :: "RespondRequest \<Rightarrow> ('w, RuntimeEvent) world_call"
  prov_StopSession :: "string \<Rightarrow> ('w, RuntimeEvent) world_call"
  prov_ListSessions :: "('w, RuntimeSession list) world_call"

text \<open>
  The providers under their runtime (the map never changes after \<open>NewService\<close>), the clock in
  milliseconds and nanoseconds, the event log, speech, random IDs for tool calls, and what the
  library leaves to the environment.
\<close>

record 'w service_env =
  env_providers :: "(string \<times> 'w Provider) list"
  env_millis :: "'w \<Rightarrow> int \<times> 'w"
  env_nanos :: "'w \<Rightarrow> int \<times> 'w"
  env_log :: "RuntimeEvent \<Rightarrow> 'w \<Rightarrow> 'w"
  env_speech :: "RuntimeEvent \<Rightarrow> 'w \<Rightarrow> 'w"
  env_tool_ids :: "'w \<Rightarrow> (nat \<Rightarrow> string) \<times> 'w"
  env_oor :: "float64 \<Rightarrow> int"
  env_unicode :: unicode
  env_url :: url_parser

type_synonym ('w, 'a) service_proc = "('w service, 'a) proc"
type_synonym ('w, 'a) service_call = "('w service, go_error + 'a) proc"

definition in_world :: "('w \<Rightarrow> 'a \<times> 'w) \<Rightarrow> 'w service \<Rightarrow> 'a \<times> 'w service" where
  "in_world f s = (case f (sv_world s) of (a, w) \<Rightarrow> (a, s\<lparr>sv_world := w\<rparr>))"

definition tell_world :: "('w \<Rightarrow> 'w) \<Rightarrow> ('w, unit) service_proc" where
  "tell_world f = act (\<lambda>s. ((), s\<lparr>sv_world := f (sv_world s)\<rparr>))"

definition modify :: "('w service \<Rightarrow> 'w service) \<Rightarrow> ('w, unit) service_proc" where
  "modify f = act (\<lambda>s. ((), f s))"

definition look :: "('w service \<Rightarrow> 'a) \<Rightarrow> ('w, 'a) service_proc" where
  "look f = act (\<lambda>s. (f s, s))"

definition newIdentifier_of :: "'w service_env \<Rightarrow> string \<Rightarrow> ('w, string) service_proc" where
  "newIdentifier_of env kind = act (\<lambda>s. map_prod (\<lambda>n. newIdentifier n kind) id (in_world (env_nanos env) s))"

section \<open>The thread store, if there is one\<close>

abbreviation no_store :: go_error where "no_store \<equiv> Err ''thread store unavailable''"

definition on_threads :: "'a thread_call \<Rightarrow> ('w, 'a) service_call" where
  "on_threads f = act (\<lambda>s.
    case sv_threads s of
      None \<Rightarrow> (Inl no_store, s)
    | Some db \<Rightarrow> (case f db of (r, db') \<Rightarrow> (r, s\<lparr>sv_threads := Some db'\<rparr>)))"

text \<open>An operation of the store that takes more than one statement.\<close>

primrec on_store :: "(thread_db, go_error + 'a) proc \<Rightarrow> ('w, 'a) service_call" where
  "on_store (Done r) = Done r"
| "on_store (Atom g) = Atom (\<lambda>s.
    case sv_threads s of
      None \<Rightarrow> (Done (Inl no_store), s)
    | Some db \<Rightarrow> (case (map_prod on_store id \<circ> g) db of (p, db') \<Rightarrow> (p, s\<lparr>sv_threads := Some db'\<rparr>)))"

definition has_store :: "('w, bool) service_proc" where
  "has_store = look (\<lambda>s. sv_threads s \<noteq> None)"

definition when_do :: "bool \<Rightarrow> ('s, 'a) proc \<Rightarrow> ('s, 'b) proc \<Rightarrow> ('s, 'b) proc" where
  "when_do b p q = (if b then also_do p q else q)"

text \<open>The clock is read only when the session brings no time; it is read here in any case.\<close>

definition store_tracked :: "'w service_env \<Rightarrow> string \<Rightarrow> string \<Rightarrow> ('w, unit) service_proc" where
  "store_tracked env sessionID providerSessionID =
    seq has_store (\<lambda>there.
      if \<not> there then Done ()
      else
        seq (look (\<lambda>s. ledger_Get sessionID providerSessionID (sv_ledger s))) (\<lambda>tracked.
          case tracked of
            None \<Rightarrow> Done ()
          | Some t \<Rightarrow>
              seq (act (in_world (env_millis env))) (\<lambda>now.
                also_do (on_threads (UpsertTrackedSession (env_oor env) now t)) (Done ()))))"

section \<open>The tool calls of a turn\<close>

abbreviation NUL :: char where "NUL \<equiv> CHR 0x00"

definition toolRepairBufferKey :: "RuntimeEvent \<Rightarrow> string option" where
  "toolRepairBufferKey event =
    (let sessionID = trim_space (ev_SessionID event);
         providerSessionID = trim_space (ev_ProviderSessionID event);
         turnID = trim_space (ev_TurnID event)
     in if sessionID = [] \<and> providerSessionID = [] \<and> turnID = [] then None
        else Some (join_str [NUL] [trim_space (ev_Runtime event), sessionID, providerSessionID,
               if turnID = [] then ''_active'' else turnID]))"

definition of_session :: "RuntimeEvent \<Rightarrow> string \<Rightarrow> bool" where
  "of_session event key \<longleftrightarrow>
    (let sessionID = trim_space (ev_SessionID event);
         providerSessionID = trim_space (ev_ProviderSessionID event);
         parts = split_byte NUL key
     in length parts = 4 \<and>
        (sessionID \<noteq> [] \<and> parts ! 1 = sessionID \<or> providerSessionID \<noteq> [] \<and> parts ! 2 = providerSessionID))"

definition clearToolRepairBuffersForSession :: "RuntimeEvent \<Rightarrow> (string \<times> string) list \<Rightarrow> (string \<times> string) list" where
  "clearToolRepairBuffersForSession event texts =
    (if trim_space (ev_SessionID event) = [] \<and> trim_space (ev_ProviderSessionID event) = [] then texts
     else filter (\<lambda>(key, _). \<not> of_session event key) texts)"

text \<open>The arguments of an extracted call as a value, \<open>None\<close> for the nil map.\<close>

definition tool_arguments :: "go_map option \<Rightarrow> payload option" where
  "tool_arguments args = (case args of None \<Rightarrow> None | Some es \<Rightarrow> json_members [] es)"

definition contractToolCallsFromRepair :: "(nat \<Rightarrow> string) \<Rightarrow> string \<Rightarrow> ToolCall list" where
  "contractToolCallsFromRepair newID t =
    map (\<lambda>item. \<lparr>tl_ID = tc_ID item, tl_Type = ''function'',
        tl_Function = \<lparr>fc_Name = trim_space (tc_Name item), fc_Arguments = tool_arguments (tc_Arguments item)\<rparr>\<rparr>)
      (filter (\<lambda>item. trim_space (tc_Name item) \<noteq> []) (ExtractToolCalls newID t))"

text \<open>The JSON of a slice of tool calls, which is a value of a type of its own in a payload.\<close>

definition marshal_tool :: "ToolCall \<Rightarrow> string option" where
  "marshal_tool t =
    map_option (\<lambda>args.
      ''{'' @ encode_string ''id'' @ '':'' @ encode_string (tl_ID t)
      @ '','' @ encode_string ''type'' @ '':'' @ encode_string (tl_Type t)
      @ '','' @ encode_string ''function'' @ '':{'' @ encode_string ''name'' @ '':''
      @ encode_string (fc_Name (tl_Function t)) @ '','' @ encode_string ''arguments'' @ '':'' @ args @ ''}}'')
      (marshal_any (GMap (fc_Arguments (tl_Function t))))"

fun marshal_tools :: "ToolCall list \<Rightarrow> string list option" where
  "marshal_tools [] = Some []"
| "marshal_tools (t # ts) =
    (case (marshal_tool t, marshal_tools ts) of (Some j, Some js) \<Rightarrow> Some (j # js) | _ \<Rightarrow> None)"

definition tools_value :: "ToolCall list \<Rightarrow> gval" where
  "tools_value tools =
    GOther None (map_option (\<lambda>js. ''['' @ join_str '','' js @ '']'') (marshal_tools tools))"

definition text_of :: "(string \<times> string) list \<Rightarrow> string \<Rightarrow> string" where
  "text_of texts key = case_option [] id (map_of texts key)"

text \<open>What an event does to the texts of the open turns, and the text of a turn that it completes.\<close>

definition collect_text :: "RuntimeEvent \<Rightarrow> (string \<times> string) list \<Rightarrow> (string \<times> string) list" where
  "collect_text event texts =
    (case toolRepairBufferKey event of
       None \<Rightarrow> texts
     | Some key \<Rightarrow>
         if ev_EventType event = EventAssistantMessageDelta
         then (if EventDeltaText event \<noteq> []
               then AList.update key (text_of texts key @ EventDeltaText event) texts else texts)
         else if ev_EventType event \<in> {EventTurnCompleted, EventTurnErrored, EventTurnInterrupted}
         then AList.delete key texts
         else if ev_EventType event \<in> {EventSessionErrored, EventSessionStopped}
         then clearToolRepairBuffersForSession event texts
         else texts)"

definition completed_text :: "RuntimeEvent \<Rightarrow> (string \<times> string) list \<Rightarrow> string" where
  "completed_text event texts =
    (case toolRepairBufferKey event of
       None \<Rightarrow> []
     | Some key \<Rightarrow> if ev_EventType event = EventTurnCompleted then text_of texts key else [])"

definition with_tools :: "ToolCall list \<Rightarrow> RuntimeEvent \<Rightarrow> RuntimeEvent" where
  "with_tools tools event =
    (if tools = [] then event
     else event\<lparr>ev_Payload := AList.update ''extracted_tools'' (tools_value tools) (ev_Payload event)\<rparr>)"

definition repairToolCalls :: "'w service_env \<Rightarrow> RuntimeEvent \<Rightarrow> ('w, RuntimeEvent) service_proc" where
  "repairToolCalls env event =
    seq (act (\<lambda>s. (completed_text event (sv_texts s), s\<lparr>sv_texts := collect_text event (sv_texts s)\<rparr>))) (\<lambda>t.
      if t = [] then Done event
      else seq (act (in_world (env_tool_ids env))) (\<lambda>newID.
             Done (with_tools (contractToolCallsFromRepair newID t) event)))"

section \<open>Publishing an event\<close>

definition PublishEvent :: "'w service_env \<Rightarrow> RuntimeEvent \<Rightarrow> ('w, unit) service_proc" where
  "PublishEvent env event0 =
    also_do (tell_world (env_log env event0))
    (seq (repairToolCalls env event0) (\<lambda>event.
       also_do (modify (\<lambda>s. s\<lparr>sv_directory := directory_UpdateFromEvent (env_oor env) event (sv_directory s)\<rparr>))
       (also_do (modify (\<lambda>s. s\<lparr>sv_ledger := ledger_UpdateFromEvent (env_oor env) event (sv_ledger s)\<rparr>))
       (also_do (store_tracked env (ev_SessionID event) (ev_ProviderSessionID event))
       (also_do (on_threads (store_AddEvent event))
       (when_do (ev_EventType event = EventSessionStopped \<or> ev_EventType event = EventSessionErrored)
          (modify (\<lambda>s. s\<lparr>sv_runtimes := AList.delete (ev_SessionID event) (sv_runtimes s)\<rparr>))
       (also_do (modify (\<lambda>s. s\<lparr>sv_bus := Publish event (sv_bus s)\<rparr>))
       (tell_world (env_speech env event)))))))))"

section \<open>Sessions\<close>

definition providerByRuntime :: "'w service_env \<Rightarrow> string \<Rightarrow> go_error + 'w Provider" where
  "providerByRuntime env runtime =
    (case map_of (env_providers env) runtime of
       None \<Rightarrow> Inl (Err (''unsupported runtime: '' @ runtime))
     | Some p \<Rightarrow> Inr p)"

text \<open>A call of a provider under the lock of its session.\<close>

definition withSessionLock :: "('w, 'a) world_call \<Rightarrow> ('w, 'a) service_call" where
  "withSessionLock f = act (in_world f)"

definition mergeSessionMetadata :: "payload \<Rightarrow> payload \<Rightarrow> payload" where
  "mergeSessionMetadata current new = fold (\<lambda>(k, v) m. AList.update k v m) new current"

definition rememberSession :: "'w service_env \<Rightarrow> RuntimeSession \<Rightarrow> ('w, unit) service_proc" where
  "rememberSession env session =
    also_do (modify (\<lambda>s. s\<lparr>sv_runtimes := AList.update (rs_SessionID session) (rs_Runtime session) (sv_runtimes s)\<rparr>))
    (also_do (modify (\<lambda>s. s\<lparr>sv_directory := directory_Upsert session (sv_directory s)\<rparr>))
    (also_do (modify (\<lambda>s. s\<lparr>sv_ledger := ledger_Upsert session (sv_ledger s)\<rparr>))
    (store_tracked env (rs_SessionID session) (rs_ProviderSessionID session))))"

definition session_id :: "'w service_env \<Rightarrow> string \<Rightarrow> ('w, string) service_proc" where
  "session_id env given = (if given = [] then newIdentifier_of env ''session'' else Done given)"

definition StartSession :: "'w service_env \<Rightarrow> string \<Rightarrow> StartSessionRequest \<Rightarrow> ('w, RuntimeSession) service_call" where
  "StartSession env runtime request =
    (case providerByRuntime env runtime of
       Inl e \<Rightarrow> Done (Inl e)
     | Inr provider \<Rightarrow>
         seq (session_id env (ssr_SessionID request)) (\<lambda>sessionID.
           let request = StartSessionRequest_Normalize (request\<lparr>ssr_SessionID := sessionID\<rparr>) in
           must (withSessionLock (prov_StartSession provider request)) (\<lambda>session.
             let session = session\<lparr>rs_Metadata := mergeSessionMetadata (rs_Metadata session) (ssr_Metadata request)\<rparr>
             in also_do (rememberSession env session) (Done (Inr session)))))"

definition ResumeSession :: "'w service_env \<Rightarrow> string \<Rightarrow> ResumeSessionRequest \<Rightarrow> ('w, RuntimeSession) service_call" where
  "ResumeSession env runtime request =
    (case providerByRuntime env runtime of
       Inl e \<Rightarrow> Done (Inl e)
     | Inr provider \<Rightarrow>
         seq (session_id env (rsr_SessionID request)) (\<lambda>sessionID.
           let request = ResumeSessionRequest_Normalize (request\<lparr>rsr_SessionID := sessionID\<rparr>) in
           must (withSessionLock (prov_ResumeSession provider request)) (\<lambda>session.
             let session = session\<lparr>rs_Metadata := mergeSessionMetadata (rs_Metadata session) (rsr_Metadata request)\<rparr>
             in also_do (rememberSession env session) (Done (Inr session)))))"

text \<open>\<open>refreshRuntime\<close> holds the lock of the service; directory, ledger and store have their own.\<close>

primrec refreshRuntime :: "'w service_env \<Rightarrow> string \<Rightarrow> RuntimeSession list \<Rightarrow> ('w, unit) service_proc" where
  "refreshRuntime env runtime [] = Done ()"
| "refreshRuntime env runtime (session # sessions) =
    also_do (modify (\<lambda>s. s\<lparr>sv_runtimes := AList.update (rs_SessionID session) runtime (sv_runtimes s)\<rparr>))
    (also_do (modify (\<lambda>s. s\<lparr>sv_directory := directory_Upsert session (sv_directory s)\<rparr>))
    (also_do (modify (\<lambda>s. s\<lparr>sv_ledger := ledger_Upsert session (sv_ledger s)\<rparr>))
    (also_do (store_tracked env (rs_SessionID session) (rs_ProviderSessionID session))
    (refreshRuntime env runtime sessions))))"

primrec list_all_sessions ::
    "'w service_env \<Rightarrow> (string \<times> 'w Provider) list \<Rightarrow> ('w, RuntimeSession list) service_call" where
  "list_all_sessions env [] = Done (Inr [])"
| "list_all_sessions env (p # ps) =
    must (act (in_world (prov_ListSessions (snd p)))) (\<lambda>sessions.
      also_do (refreshRuntime env (fst p) sessions)
        (must (list_all_sessions env ps) (\<lambda>more. Done (Inr (sessions @ more)))))"

definition ListSessions :: "'w service_env \<Rightarrow> string \<Rightarrow> ('w, RuntimeSession list) service_call" where
  "ListSessions env runtime =
    (if runtime \<noteq> [] then
       (case providerByRuntime env runtime of
          Inl e \<Rightarrow> Done (Inl e)
        | Inr provider \<Rightarrow> list_all_sessions env [(runtime, provider)])
     else list_all_sessions env (env_providers env))"

definition providerBySession :: "'w service_env \<Rightarrow> string \<Rightarrow> ('w, 'w Provider) service_call" where
  "providerBySession env sessionID =
    seq (look (\<lambda>s. map_of (sv_runtimes s) sessionID)) (\<lambda>known.
      case known of
        Some runtime \<Rightarrow> Done (providerByRuntime env runtime)
      | None \<Rightarrow>
          must (ListSessions env []) (\<lambda>sessions.
            case List.find (\<lambda>r. rs_SessionID r = sessionID) sessions of
              Some r \<Rightarrow> Done (providerByRuntime env (rs_Runtime r))
            | None \<Rightarrow> Done (Inl (Err ''unknown session''))))"

definition SendInput :: "'w service_env \<Rightarrow> SendInputRequest \<Rightarrow> ('w, RuntimeEvent) service_call" where
  "SendInput env request =
    (case ValidateContentParts (env_unicode env) (env_url env) (sir_Parts request) of
       Some e \<Rightarrow> Done (Inl e)
     | None \<Rightarrow> must (providerBySession env (sir_SessionID request)) (\<lambda>p.
                 withSessionLock (prov_SendInput p request)))"

definition service_Interrupt :: "'w service_env \<Rightarrow> string \<Rightarrow> ('w, RuntimeEvent) service_call" where
  "service_Interrupt env sessionID =
    must (providerBySession env sessionID) (\<lambda>p. withSessionLock (prov_Interrupt p sessionID))"

definition service_Respond :: "'w service_env \<Rightarrow> RespondRequest \<Rightarrow> ('w, RuntimeEvent) service_call" where
  "service_Respond env request0 =
    (let request = RespondRequest_Normalize (env_unicode env) request0 in
     case RespondRequest_Validate request of
       Some e \<Rightarrow> Done (Inl (Err e))
     | None \<Rightarrow> must (providerBySession env (rsp_SessionID request)) (\<lambda>p.
                 withSessionLock (prov_Respond p request)))"

definition StopSession :: "'w service_env \<Rightarrow> string \<Rightarrow> ('w, RuntimeEvent) service_call" where
  "StopSession env sessionID =
    must (providerBySession env sessionID) (\<lambda>p. withSessionLock (prov_StopSession p sessionID))"

section \<open>Tracked sessions\<close>

text \<open>The first of some calls that succeeds, or else the last error.\<close>

definition or_else :: "('w, 'a) service_call \<Rightarrow> ('w, 'a) service_call \<Rightarrow> ('w, 'a) service_call" where
  "or_else p q = seq p (\<lambda>r. case r of Inr a \<Rightarrow> Done (Inr a) | Inl e \<Rightarrow> q)"

definition ledger_session :: "string \<Rightarrow> string \<Rightarrow> ('w, TrackedSession) service_call" where
  "ledger_session sessionID providerSessionID =
    look (\<lambda>s. case ledger_Get sessionID providerSessionID (sv_ledger s) of
                Some t \<Rightarrow> Inr t | None \<Rightarrow> Inl (Err ''unknown session''))"

definition stored_session :: "'w service_env \<Rightarrow> string \<Rightarrow> string \<Rightarrow> ('w, TrackedSession) service_call" where
  "stored_session env sessionID providerSessionID =
    must (on_threads (store_GetThread (env_oor env) sessionID providerSessionID)) (\<lambda>t.
      Done (Inr (tk_TrackedSession t)))"

definition GetTrackedSession :: "'w service_env \<Rightarrow> string \<Rightarrow> string \<Rightarrow> ('w, TrackedSession) service_call" where
  "GetTrackedSession env sessionID providerSessionID =
    (let from_ledger = or_else (ledger_session sessionID providerSessionID)
           (must (ListSessions env []) (\<lambda>_. ledger_session sessionID providerSessionID))
     in seq has_store (\<lambda>there.
          if \<not> there then from_ledger
          else or_else (stored_session env sessionID providerSessionID)
            (if sessionID \<noteq> [] \<and> providerSessionID \<noteq> []
             then or_else (stored_session env [] providerSessionID) from_ledger
             else from_ledger)))"

definition ListTrackedSessions :: "'w service_env \<Rightarrow> string \<Rightarrow> ('w, TrackedSession list) service_call" where
  "ListTrackedSessions env runtime =
    must (ListSessions env runtime) (\<lambda>_.
      or_else
        (must (on_threads (store_ListThreads (env_oor env) runtime None)) (\<lambda>ts.
           Done (Inr (map tk_TrackedSession ts))))
        (look (\<lambda>s. Inr (filter (\<lambda>t. runtime = [] \<or> rs_Runtime (tr_Session t) = runtime)
           (ledger_List (sv_ledger s))))))"

section \<open>Threads\<close>

definition bare_thread :: "TrackedSession \<Rightarrow> TrackedThread" where
  "bare_thread t =
    \<lparr>tk_ThreadID = rs_SessionID (tr_Session t), tk_ParentThreadID = [], tk_Name = [],
     tk_Archived = False, tk_Metadata = no_metadata, tk_TrackedSession = t\<rparr>"

definition ListThreads :: "'w service_env \<Rightarrow> string \<Rightarrow> bool option \<Rightarrow> ('w, TrackedThread list) service_call" where
  "ListThreads env runtime archived =
    must (ListSessions env runtime) (\<lambda>_.
      seq has_store (\<lambda>there.
        if there then on_threads (store_ListThreads (env_oor env) runtime archived)
        else must (ListTrackedSessions env runtime) (\<lambda>ts. Done (Inr (map bare_thread ts)))))"

definition GetThread :: "'w service_env \<Rightarrow> string \<Rightarrow> string \<Rightarrow> ('w, TrackedThread) service_call" where
  "GetThread env threadID providerSessionID =
    seq has_store (\<lambda>there.
      if \<not> there
      then must (GetTrackedSession env threadID providerSessionID) (\<lambda>t. Done (Inr (bare_thread t)))
      else
        seq (on_threads (store_GetThread (env_oor env) threadID providerSessionID)) (\<lambda>r.
          case r of
            Inr t \<Rightarrow> Done (Inr t)
          | Inl e \<Rightarrow>
              if threadID \<noteq> [] \<and> providerSessionID \<noteq> []
              then or_else (on_threads (store_GetThread (env_oor env) [] providerSessionID)) (Done (Inl e))
              else Done (Inl e)))"

definition SetThreadArchived :: "string \<Rightarrow> bool \<Rightarrow> ('w, unit) service_call" where
  "SetThreadArchived threadID archived = on_threads (SetArchived threadID archived)"

definition ListThreadEvents :: "string \<Rightarrow> int \<Rightarrow> int \<Rightarrow> ('w, ThreadEvent list) service_call" where
  "ListThreadEvents threadID afterID limit = on_threads (store_ListThreadEvents threadID afterID limit)"

definition SetThreadName :: "string \<Rightarrow> string \<Rightarrow> ('w, unit) service_call" where
  "SetThreadName threadID name = on_threads (SetName threadID name)"

definition SetThreadMetadata :: "string \<Rightarrow> ThreadMetadata \<Rightarrow> ('w, unit) service_call" where
  "SetThreadMetadata threadID metadata = on_threads (SetMetadata threadID metadata)"

definition make_fork :: "'w service_env \<Rightarrow> string \<Rightarrow> bool \<Rightarrow> ('w, TrackedThread) service_call" where
  "make_fork env threadID preserve =
    seq (newIdentifier_of env ''thread'') (\<lambda>newID.
    seq (act (in_world (env_millis env))) (\<lambda>now.
      on_store (store_ForkThread (env_oor env) now threadID newID preserve)))"

definition rename_fork :: "string \<Rightarrow> string \<Rightarrow> TrackedThread \<Rightarrow> ('w, TrackedThread) service_proc" where
  "rename_fork name shown child =
    (if trim_space name = [] then Done child
     else also_do (on_threads (SetName (tk_ThreadID child) name)) (Done (child\<lparr>tk_Name := shown\<rparr>)))"

definition ForkThread :: "'w service_env \<Rightarrow> string \<Rightarrow> string \<Rightarrow> ThreadMetadata \<Rightarrow> ('w, TrackedThread) service_call" where
  "ForkThread env threadID name metadata0 =
    must (GetThread env threadID []) (\<lambda>thread.
      let provider = rs_ProviderSessionID (tr_Session (tk_TrackedSession thread));
          metadata = metadata0\<lparr>tm_ForkedFromThreadID := tk_ThreadID thread,
            tm_ForkedFromProviderSessionID := provider, tm_ForkMode := ''logical''\<rparr>
      in if provider = []
         then Done (Inl (Err ''thread cannot be forked because no provider session id is available''))
         else
           seq has_store (\<lambda>there.
             if \<not> there then Done (Inl no_store)
             else must (make_fork env (tk_ThreadID thread) True) (\<lambda>child.
               seq (rename_fork name (trim_space name) child) (\<lambda>child.
               also_do (on_threads (SetMetadata (tk_ThreadID child) metadata))
                 (Done (Inr (child\<lparr>tk_Metadata := metadata\<rparr>)))))))"

definition RollbackThread :: "'w service_env \<Rightarrow> string \<Rightarrow> int \<Rightarrow> ('w, TrackedThread) service_call" where
  "RollbackThread env threadID turns0 =
    (let turns = (if turns0 \<le> 0 then 1 else turns0) in
     seq has_store (\<lambda>there.
       if \<not> there then Done (Inl no_store)
       else must (GetThread env threadID []) (\<lambda>thread.
         let session = tr_Session (tk_TrackedSession thread);
             metadata = (tk_Metadata thread)
               \<lparr>tm_RollbackMode := ''logical'', tm_RollbackTurns := turns,
                tm_RollbackFromThreadID := tk_ThreadID thread,
                tm_RollbackFromProviderSessionID := rs_ProviderSessionID session\<rparr>;
             base = (if trim_space (tk_Name thread) = [] then rs_Title session else tk_Name thread);
             name = (if trim_space base = [] then []
                     else trim_space base @ '' (rollback '' @ decimal turns @ '')'')
         in must (make_fork env (tk_ThreadID thread) False) (\<lambda>child.
              seq (rename_fork name name child) (\<lambda>child.
              also_do (on_threads (SetMetadata (tk_ThreadID child) metadata))
                (Done (Inr (child\<lparr>tk_Metadata := metadata\<rparr>))))))))"

record ThreadRead =
  rd_Thread :: TrackedThread
  rd_Turns :: "ThreadTurn list"
  rd_EventCount :: nat

definition ReadThread :: "'w service_env \<Rightarrow> string \<Rightarrow> ('w, ThreadRead) service_call" where
  "ReadThread env threadID =
    must (GetThread env threadID []) (\<lambda>thread.
    must (ListThreadEvents threadID 0 1000) (\<lambda>events.
      Done (Inr \<lparr>rd_Thread = thread, rd_Turns = deriveThreadTurns (env_unicode env) events,
                 rd_EventCount = length events\<rparr>)))"

section \<open>What the service describes\<close>

definition describe_runtimes :: "'w service_env \<Rightarrow> 'w \<Rightarrow> RuntimeDescriptor list" where
  "describe_runtimes env w =
    sort_func (\<lambda>l r. string_cmp (Runtime l) (Runtime r)) (map (\<lambda>p. prov_Describe (snd p) w) (env_providers env))"

definition service_ModelRegistry :: "'w service_env \<Rightarrow> 'w \<Rightarrow> ModelRegistry option" where
  "service_ModelRegistry env w = BuildModelRegistry (env_unicode env) (describe_runtimes env w)"

end
