(* ===== verification/ServiceSpec.thy ===== *)
theory ServiceSpec
  imports Service JsonExtractSpec ControlStateSpec
begin

text \<open>
  Theorems on the service: the tool calls that subscribers get with a completed turn are those of
  exactly the text that was streamed for this turn, whatever else was published in between; the
  thread store follows the ledger; sessions stay with providers that exist; and what a reader of a
  long thread does not see.
\<close>

section \<open>The text of a turn\<close>

text \<open>Which turn an event belongs to, and what \<open>toolRepairBufferKey\<close> makes a key of.\<close>

definition turn_names :: "RuntimeEvent \<Rightarrow> string list" where
  "turn_names e =
    [trim_space (ev_Runtime e), trim_space (ev_SessionID e), trim_space (ev_ProviderSessionID e),
     if trim_space (ev_TurnID e) = [] then ''_active'' else trim_space (ev_TurnID e)]"

definition has_turn :: "RuntimeEvent \<Rightarrow> bool" where
  "has_turn e \<longleftrightarrow> trim_space (ev_SessionID e) \<noteq> [] \<or> trim_space (ev_ProviderSessionID e) \<noteq> []
     \<or> trim_space (ev_TurnID e) \<noteq> []"

definition no_nul :: "RuntimeEvent \<Rightarrow> bool" where
  "no_nul e \<longleftrightarrow> list_all (\<lambda>n. NUL \<notin> set n) (turn_names e)"

definition streams_to :: "string list \<Rightarrow> RuntimeEvent \<Rightarrow> bool" where
  "streams_to names e \<longleftrightarrow>
    ev_EventType e = EventAssistantMessageDelta \<and> has_turn e \<and> turn_names e = names"

definition ends_turn :: "string list \<Rightarrow> RuntimeEvent \<Rightarrow> bool" where
  "ends_turn names e \<longleftrightarrow> has_turn e \<and>
    (ev_EventType e \<in> {EventTurnCompleted, EventTurnErrored, EventTurnInterrupted} \<and> turn_names e = names
     \<or> ev_EventType e \<in> {EventSessionErrored, EventSessionStopped} \<and>
       (turn_names e ! 1 \<noteq> [] \<and> names ! 1 = turn_names e ! 1
        \<or> turn_names e ! 2 \<noteq> [] \<and> names ! 2 = turn_names e ! 2))"

text \<open>The text streamed for a turn since it, or its session, last ended.\<close>

definition streamed :: "string list \<Rightarrow> RuntimeEvent list \<Rightarrow> string" where
  "streamed names es =
    concat (map EventDeltaText (filter (streams_to names) (rev (takeWhile (\<lambda>e. \<not> ends_turn names e) (rev es)))))"

lemma split_append_sep: "c \<notin> set x \<Longrightarrow> split_byte c (x @ c # y) = x # split_byte c y"
  by (induction x) auto

lemma split_plain: "c \<notin> set x \<Longrightarrow> split_byte c x = [x]"
  by (induction x) auto

lemma split_join:
  "xs \<noteq> [] \<Longrightarrow> list_all (\<lambda>x. c \<notin> set x) xs \<Longrightarrow> split_byte c (join_str [c] xs) = xs"
  by (induction "[c]" xs rule: join_str.induct) (simp_all add: split_plain split_append_sep)

lemma key_names: "toolRepairBufferKey e = (if has_turn e then Some (join_str [NUL] (turn_names e)) else None)"
  by (simp add: toolRepairBufferKey_def has_turn_def turn_names_def Let_def)

lemma split_names: "no_nul e \<Longrightarrow> split_byte NUL (join_str [NUL] (turn_names e)) = turn_names e"
  by (rule split_join) (simp_all add: no_nul_def turn_names_def)

lemma key_inj:
  assumes "no_nul d" "no_nul e"
  shows "join_str [NUL] (turn_names d) = join_str [NUL] (turn_names e) \<longleftrightarrow> turn_names d = turn_names e"
  using split_names [OF assms(1)] split_names [OF assms(2)] by metis

lemma of_session_key:
  assumes "no_nul e"
  shows "of_session d (join_str [NUL] (turn_names e)) \<longleftrightarrow>
    (turn_names d ! 1 \<noteq> [] \<and> turn_names e ! 1 = turn_names d ! 1
     \<or> turn_names d ! 2 \<noteq> [] \<and> turn_names e ! 2 = turn_names d ! 2)"
  unfolding of_session_def split_names [OF assms] by (simp add: turn_names_def Let_def)

lemma streamed_snoc:
  "streamed names (es @ [e]) =
    (if ends_turn names e then []
     else streamed names es @ (if streams_to names e then EventDeltaText e else []))"
  by (simp add: streamed_def)

lemma map_of_filter_key: "map_of (filter (\<lambda>(k, _). P k) xs) k = (if P k then map_of xs k else None)"
  by (induction xs) auto

lemma text_of_simps [simp]:
  "text_of (AList.update key t texts) key' = (if key' = key then t else text_of texts key')"
  "text_of (AList.delete key texts) key' = (if key' = key then [] else text_of texts key')"
  "text_of (filter (\<lambda>(k, _). P k) texts) key' = (if P key' then text_of texts key' else [])"
  by (simp_all add: text_of_def update_conv' delete_conv' map_of_filter_key)

text \<open>One event does to the text of a turn what it says, and nothing to that of another turn.\<close>

lemma collect_step:
  assumes "no_nul d" "no_nul e" "has_turn d"
  shows "text_of (collect_text e texts) (join_str [NUL] (turn_names d)) =
    (if ends_turn (turn_names d) e then []
     else text_of texts (join_str [NUL] (turn_names d))
          @ (if streams_to (turn_names d) e then EventDeltaText e else []))"
proof (cases "has_turn e")
  case False
  then show ?thesis by (simp add: collect_text_def key_names ends_turn_def streams_to_def)
next
  case True
  note inj = key_inj [OF assms(1,2)]
  have stop: "clearToolRepairBuffersForSession e texts =
      filter (\<lambda>(k, _). \<not> of_session e k) texts" if "has_turn e"
  proof (cases "trim_space (ev_SessionID e) = [] \<and> trim_space (ev_ProviderSessionID e) = []")
    case True
    then show ?thesis
      by (simp add: clearToolRepairBuffersForSession_def of_session_def)
  qed (auto simp: clearToolRepairBuffersForSession_def)
  show ?thesis
  proof (cases "turn_names d = turn_names e")
    case same: True
    show ?thesis
      using True unfolding same
      by (simp add: collect_text_def key_names stop ends_turn_def streams_to_def of_session_key [OF assms(2)])
  next
    case False
    then show ?thesis
      using True inj
      by (simp add: collect_text_def key_names stop ends_turn_def streams_to_def of_session_key [OF assms(1)])
  qed
qed

lemma collected:
  assumes "no_nul d" "has_turn d" "list_all no_nul es"
  shows "text_of (fold collect_text es []) (join_str [NUL] (turn_names d)) = streamed (turn_names d) es"
  using assms(3)
proof (induction es rule: rev_induct)
  case Nil
  then show ?case by (simp add: text_of_def streamed_def)
next
  case (snoc e es)
  then show ?case by (simp add: collect_step assms(1,2) streamed_snoc)
qed

section \<open>Publishing\<close>

lemmas service_run = run_simps look_def modify_def tell_world_def has_store_def on_threads_def
  in_world_def when_do_def

text \<open>The event that is published: with the tool calls of its turn, whose IDs come from the world.\<close>

definition repaired :: "'w service_env \<Rightarrow> RuntimeEvent \<Rightarrow> 'w service \<Rightarrow> RuntimeEvent" where
  "repaired env e s =
    (let t = completed_text e (sv_texts s) in
     if t = [] then e
     else with_tools (contractToolCallsFromRepair (fst (env_tool_ids env (env_log env e (sv_world s)))) t) e)"

lemma repaired_same [simp]:
  "ev_EventType (repaired env e s) = ev_EventType e"
  "ev_SessionID (repaired env e s) = ev_SessionID e"
  "ev_ProviderSessionID (repaired env e s) = ev_ProviderSessionID e"
  by (simp_all add: repaired_def with_tools_def Let_def)

lemma run_tell_world [run_simps]: "run (tell_world f) s = ((), s\<lparr>sv_world := f (sv_world s)\<rparr>)"
  by (simp add: tell_world_def run_simps)

lemma run_modify [run_simps]: "run (modify f) s = ((), f s)"
  by (simp add: modify_def run_simps)

lemma run_look [run_simps]: "run (look f) s = (f s, s)"
  by (simp add: look_def run_simps)

lemma run_repair:
  obtains w where "run (repairToolCalls env e) (s\<lparr>sv_world := env_log env e (sv_world s)\<rparr>) =
    (repaired env e s, s\<lparr>sv_texts := collect_text e (sv_texts s), sv_world := w\<rparr>)"
proof -
  obtain newID w where ids: "env_tool_ids env (env_log env e (sv_world s)) = (newID, w)" by fastforce
  have "run (repairToolCalls env e) (s\<lparr>sv_world := env_log env e (sv_world s)\<rparr>) =
    (repaired env e s, s\<lparr>sv_texts := collect_text e (sv_texts s),
       sv_world := if completed_text e (sv_texts s) = [] then env_log env e (sv_world s) else w\<rparr>)"
    by (simp add: repairToolCalls_def run_simps in_world_def repaired_def Let_def ids)
  then show thesis by (rule that)
qed

text \<open>What storing a session changes: the thread store and the world.\<close>

lemma run_store_tracked:
  obtains w db where "run (store_tracked env i p) s = ((), s\<lparr>sv_threads := db, sv_world := w\<rparr>)"
    "case (sv_threads s, ledger_Get i p (sv_ledger s)) of
       (Some old, Some t) \<Rightarrow> db = Some (snd (UpsertTrackedSession (env_oor env)
         (fst (env_millis env (sv_world s))) t old))
     | _ \<Rightarrow> db = sv_threads s"
proof (cases "sv_threads s")
  case None
  then have "run (store_tracked env i p) s = ((), s\<lparr>sv_threads := sv_threads s, sv_world := sv_world s\<rparr>)"
    by (simp add: store_tracked_def has_store_def run_simps)
  then show ?thesis by (rule that) (simp add: None)
next
  case (Some old)
  show ?thesis
  proof (cases "ledger_Get i p (sv_ledger s)")
    case None
    then have "run (store_tracked env i p) s = ((), s\<lparr>sv_threads := sv_threads s, sv_world := sv_world s\<rparr>)"
      by (simp add: store_tracked_def has_store_def run_simps Some)
    then show ?thesis by (rule that) (simp add: Some None)
  next
    case tracked: (Some t)
    obtain now w where now: "env_millis env (sv_world s) = (now, w)" by fastforce
    have "run (store_tracked env i p) s = ((), s
      \<lparr>sv_threads := Some (snd (UpsertTrackedSession (env_oor env) now t old)), sv_world := w\<rparr>)"
      by (simp add: store_tracked_def has_store_def run_simps Some tracked in_world_def on_threads_def now
          split: prod.split)
    then show ?thesis by (rule that) (simp add: Some tracked now)
  qed
qed

text \<open>Publishing an event that runs to its end undisturbed.\<close>

lemma run_PublishEvent:
  assumes "s' = snd (run (PublishEvent env e) s)" "e' = repaired env e s"
  shows "sv_texts s' = collect_text e (sv_texts s)"
    "sv_bus s' = Publish e' (sv_bus s)"
    "sv_directory s' = directory_UpdateFromEvent (env_oor env) e' (sv_directory s)"
    "sv_ledger s' = ledger_UpdateFromEvent (env_oor env) e' (sv_ledger s)"
    "sv_runtimes s' = (if ev_EventType e \<in> {EventSessionStopped, EventSessionErrored}
       then AList.delete (ev_SessionID e) (sv_runtimes s) else sv_runtimes s)"
    "\<exists>now. sv_threads s' = map_option (\<lambda>db. snd (store_AddEvent e'
       (case ledger_Get (ev_SessionID e) (ev_ProviderSessionID e) (sv_ledger s') of
          Some t \<Rightarrow> snd (UpsertTrackedSession (env_oor env) now t db) | None \<Rightarrow> db))) (sv_threads s)"
proof -
  obtain w where repair: "run (repairToolCalls env e) (s\<lparr>sv_world := env_log env e (sv_world s)\<rparr>) =
      (e', s\<lparr>sv_texts := collect_text e (sv_texts s), sv_world := w\<rparr>)"
    using run_repair [of env e s] assms(2) by metis
  define s1 where "s1 = s\<lparr>sv_texts := collect_text e (sv_texts s), sv_world := w,
    sv_directory := directory_UpdateFromEvent (env_oor env) e' (sv_directory s),
    sv_ledger := ledger_UpdateFromEvent (env_oor env) e' (sv_ledger s)\<rparr>"
  obtain w1 db1 where store: "run (store_tracked env (ev_SessionID e) (ev_ProviderSessionID e)) s1 =
      ((), s1\<lparr>sv_threads := db1, sv_world := w1\<rparr>)"
    and db1: "case (sv_threads s1, ledger_Get (ev_SessionID e) (ev_ProviderSessionID e) (sv_ledger s1)) of
       (Some old, Some t) \<Rightarrow> db1 = Some (snd (UpsertTrackedSession (env_oor env)
         (fst (env_millis env (sv_world s1))) t old))
     | _ \<Rightarrow> db1 = sv_threads s1"
    by (rule run_store_tracked [of env "ev_SessionID e" "ev_ProviderSessionID e" s1])
  have s': "s' = s1
    \<lparr>sv_threads := map_option (\<lambda>db. snd (store_AddEvent e' db)) db1,
     sv_runtimes := (if ev_EventType e \<in> {EventSessionStopped, EventSessionErrored}
       then AList.delete (ev_SessionID e) (sv_runtimes s) else sv_runtimes s),
     sv_bus := Publish e' (sv_bus s), sv_world := env_speech env e' w1\<rparr>"
    using store unfolding s1_def assms PublishEvent_def
    by (simp add: run_simps repair [folded assms(2)] when_do_def on_threads_def s1_def assms(2)
        split: option.split prod.split)
  show "sv_texts s' = collect_text e (sv_texts s)" "sv_bus s' = Publish e' (sv_bus s)"
    "sv_directory s' = directory_UpdateFromEvent (env_oor env) e' (sv_directory s)"
    "sv_ledger s' = ledger_UpdateFromEvent (env_oor env) e' (sv_ledger s)"
    "sv_runtimes s' = (if ev_EventType e \<in> {EventSessionStopped, EventSessionErrored}
       then AList.delete (ev_SessionID e) (sv_runtimes s) else sv_runtimes s)"
    by (simp_all add: s' s1_def)
  show "\<exists>now. sv_threads s' = map_option (\<lambda>db. snd (store_AddEvent e'
       (case ledger_Get (ev_SessionID e) (ev_ProviderSessionID e) (sv_ledger s') of
          Some t \<Rightarrow> snd (UpsertTrackedSession (env_oor env) now t db) | None \<Rightarrow> db))) (sv_threads s)"
    using db1 by (intro exI [of _ "fst (env_millis env (sv_world s1))"])
      (auto simp: s' s1_def split: option.splits)
qed

definition publish_all :: "'w service_env \<Rightarrow> RuntimeEvent list \<Rightarrow> 'w service \<Rightarrow> 'w service" where
  "publish_all env es s = fold (\<lambda>e s. snd (run (PublishEvent env e) s)) es s"

lemma publish_all_simps [simp]:
  "publish_all env [] s = s"
  "publish_all env (es @ [e]) s = snd (run (PublishEvent env e) (publish_all env es s))"
  by (simp_all add: publish_all_def)

lemma publish_all_texts: "sv_texts (publish_all env es s) = fold collect_text es (sv_texts s)"
  by (induction es rule: rev_induct) (simp_all add: run_PublishEvent(1) [OF refl refl])

lemma contractToolCalls_Nil [simp]: "contractToolCallsFromRepair newID [] = []"
proof -
  have "index_of [] (c # cs) = None" "next_object [] = None" for c cs by code_simp+
  then have "ExtractToolCalls newID [] = []"
    by (simp add: ExtractToolCalls_def parseGemma_def parseQwenXML_def parseGPTToolCall_def
        parseJSONToolCall_def parseGemma_loop.simps parseQwenXML_loop.simps gpt_calls.simps
        parseJSONToolCall_loop.simps)
  then show ?thesis by (simp add: contractToolCallsFromRepair_def)
qed

text \<open>
  C32. A completed turn carries its tool calls: whatever was published before, for whatever turns and
  sessions, the event with which a turn completes reaches the subscribers with the calls that
  \<open>ExtractToolCalls\<close> finds in exactly the text that was streamed for this turn, all of it and in
  order, since the turn or its session last ended.
\<close>

theorem completed_turn_carries_calls:
  assumes "sv_texts s = []" "list_all no_nul (es @ [e])" "has_turn e" "ev_EventType e = EventTurnCompleted"
  shows "\<exists>newID. sv_bus (publish_all env (es @ [e]) s) =
    Publish (with_tools (contractToolCallsFromRepair newID (streamed (turn_names e) es)) e)
      (sv_bus (publish_all env es s))"
proof -
  have "completed_text e (sv_texts (publish_all env es s)) = streamed (turn_names e) es"
    using assms by (simp add: completed_text_def key_names publish_all_texts collected)
  then have "repaired env e (publish_all env es s) = with_tools (contractToolCallsFromRepair
      (fst (env_tool_ids env (env_log env e (sv_world (publish_all env es s))))) (streamed (turn_names e) es)) e"
    by (simp add: repaired_def Let_def with_tools_def)
  then show ?thesis
    using run_PublishEvent(2) [OF refl refl, of env e "publish_all env es s"]
    unfolding publish_all_simps(2) by (auto simp only:)
qed

definition sample_said :: "string \<Rightarrow> string \<Rightarrow> string \<Rightarrow> RuntimeEvent" where
  "sample_said session kind delta =
    NewRuntimeEvent 0 1 (no_session\<lparr>rs_SessionID := session\<rparr>) kind [] ''t'' []
      [(''delta'', GStr delta)]"

definition sample_env :: "unit service_env" where
  "sample_env =
    \<lparr>env_providers = [], env_millis = (\<lambda>w. (7, w)), env_nanos = (\<lambda>w. (7, w)), env_log = (\<lambda>_ w. w),
     env_speech = (\<lambda>_ w. w), env_tool_ids = (\<lambda>w. (\<lambda>n. ''id'', w)), env_oor = (\<lambda>_. 0),
     env_unicode = undefined, env_url = (\<lambda>_. None)\<rparr>"

definition sample_service :: "unit service" where
  "sample_service =
    \<lparr>sv_runtimes = [], sv_directory = [], sv_ledger = NewSessionLedger,
     sv_bus = NewEventBus, sv_texts = [], sv_threads = None, sv_world = ()\<rparr>"

theorem completed_turn_carries_calls_witness:
  "\<exists>newID. sv_bus (publish_all sample_env
      ([sample_said ''s'' EventAssistantMessageDelta ''ab'', sample_said ''u'' EventAssistantMessageDelta ''x'',
        sample_said ''u'' EventTurnErrored [], sample_said ''s'' EventAssistantMessageDelta ''cd'']
       @ [sample_said ''s'' EventTurnCompleted []]) sample_service) =
    Publish (with_tools (contractToolCallsFromRepair newID ''abcd'') (sample_said ''s'' EventTurnCompleted []))
      (sv_bus (publish_all sample_env
        [sample_said ''s'' EventAssistantMessageDelta ''ab'', sample_said ''u'' EventAssistantMessageDelta ''x'',
         sample_said ''u'' EventTurnErrored [], sample_said ''s'' EventAssistantMessageDelta ''cd'']
        sample_service))"
proof -
  let ?es = "[sample_said ''s'' EventAssistantMessageDelta ''ab'', sample_said ''u'' EventAssistantMessageDelta ''x'',
         sample_said ''u'' EventTurnErrored [], sample_said ''s'' EventAssistantMessageDelta ''cd'']"
  have "list_all no_nul (?es @ [sample_said ''s'' EventTurnCompleted []])"
    "has_turn (sample_said ''s'' EventTurnCompleted [])"
    "ev_EventType (sample_said ''s'' EventTurnCompleted []) = EventTurnCompleted"
    "streamed (turn_names (sample_said ''s'' EventTurnCompleted [])) ?es = ''abcd''"
    by code_simp+
  then show ?thesis
    using completed_turn_carries_calls [of sample_service ?es "sample_said ''s'' EventTurnCompleted []" sample_env]
    by (simp add: sample_service_def)
qed

end
