(* ===== verification/ServiceThreads.thy ===== *)
theory ServiceThreads
  imports ServiceSpec
begin

text \<open>
  The thread store beside the ledger: operations that run one after the other keep them in step, an
  interleaving may lose that; and what a reader of a long thread sees.
\<close>

section \<open>The operations of the service\<close>

definition quiet :: "('w, 'a) service_call \<Rightarrow> ('w, unit) service_proc" where
  "quiet p = seq p (\<lambda>_. Done ())"

inductive operation :: "'w service_env \<Rightarrow> ('w, unit) service_proc \<Rightarrow> bool" for env where
  op_publish: "operation env (PublishEvent env e)"
| op_start: "operation env (quiet (StartSession env runtime start))"
| op_resume: "operation env (quiet (ResumeSession env runtime resume))"
| op_send: "operation env (quiet (SendInput env input))"
| op_interrupt: "operation env (quiet (service_Interrupt env session))"
| op_respond: "operation env (quiet (service_Respond env response))"
| op_stop: "operation env (quiet (StopSession env session))"
| op_sessions: "operation env (quiet (ListSessions env runtime))"
| op_tracked: "operation env (quiet (GetTrackedSession env session provider))"
| op_all_tracked: "operation env (quiet (ListTrackedSessions env runtime))"
| op_threads: "operation env (quiet (ListThreads env runtime archived))"
| op_thread: "operation env (quiet (GetThread env thread provider))"
| op_read: "operation env (quiet (ReadThread env thread))"
| op_archive: "operation env (quiet (SetThreadArchived thread archive))"
| op_name: "operation env (quiet (SetThreadName thread name))"
| op_metadata: "operation env (quiet (SetThreadMetadata thread metadata))"
| op_events: "operation env (quiet (ListThreadEvents thread after limit))"
| op_fork: "operation env (quiet (ForkThread env thread name metadata))"
| op_rollback: "operation env (quiet (RollbackThread env thread turns))"

section \<open>What a process keeps when it runs alone\<close>

named_theorems stays_intros \<comment> \<open>introduction rules for \<open>stays\<close>, from the building blocks up\<close>

definition stays :: "('s \<Rightarrow> bool) \<Rightarrow> ('s, 'a) proc \<Rightarrow> bool" where
  "stays I p \<longleftrightarrow> (\<forall>s. I s \<longrightarrow> I (snd (run p s)))"

lemma staysD: "stays I p \<Longrightarrow> I s \<Longrightarrow> I (snd (run p s))"
  by (simp add: stays_def)

lemma keeps_stays: "keeps I p \<Longrightarrow> stays I p"
  by (simp add: stays_def keeps_run)

lemma stays_act [stays_intros]: "(\<And>s. I s \<Longrightarrow> I (snd (f s))) \<Longrightarrow> stays I (act f)"
  by (simp add: stays_def run_simps)

lemma stays_seq [stays_intros]: "stays I p \<Longrightarrow> (\<And>a. stays I (f a)) \<Longrightarrow> stays I (seq p f)"
  by (auto simp: stays_def run_simps split: prod.split)

lemma stays_Done [stays_intros]: "stays I (Done a)"
  by (simp add: stays_def run_simps)

lemma stays_must [stays_intros]: "stays I p \<Longrightarrow> (\<And>a. stays I (f a)) \<Longrightarrow> stays I (must p f)"
  unfolding must_def by (rule stays_seq) (auto intro: stays_Done split: sum.split)

lemma stays_also_do [stays_intros]: "stays I p \<Longrightarrow> stays I q \<Longrightarrow> stays I (also_do p q)"
  unfolding also_do_def by (rule stays_seq)

lemma stays_if [stays_intros]:
  "(b \<Longrightarrow> stays I p) \<Longrightarrow> (\<not> b \<Longrightarrow> stays I q) \<Longrightarrow> stays I (if b then p else q)"
  by simp

lemma stays_option [stays_intros]:
  "(x = None \<Longrightarrow> stays I p) \<Longrightarrow> (\<And>y. x = Some y \<Longrightarrow> stays I (f y)) \<Longrightarrow>
   stays I (case x of None \<Rightarrow> p | Some y \<Rightarrow> f y)"
  by (simp split: option.split)

lemma stays_sum [stays_intros]:
  "(\<And>e. x = Inl e \<Longrightarrow> stays I (p e)) \<Longrightarrow> (\<And>y. x = Inr y \<Longrightarrow> stays I (f y)) \<Longrightarrow>
   stays I (case x of Inl e \<Rightarrow> p e | Inr y \<Rightarrow> f y)"
  by (simp split: sum.split)

section \<open>In step\<close>

text \<open>The ledger keeps a session under its own ID.\<close>

definition ledger_keys :: "SessionLedger \<Rightarrow> bool" where
  "ledger_keys l \<longleftrightarrow> (\<forall>k t. map_of (records l) k = Some t \<longrightarrow> rs_SessionID (tr_Session (record_of t)) = k)"

text \<open>The row of every session of the ledger that JSON can hold is that session, apart from \<open>K\<close>.\<close>

definition rows_match :: "string set \<Rightarrow> SessionLedger \<Rightarrow> thread_row list \<Rightarrow> bool" where
  "rows_match K l rows \<longleftrightarrow>
    (\<forall>k t x. map_of (records l) k = Some t \<and> json_tracked (cloneTrackedSession t) = Some x \<and> k \<notin> K \<longrightarrow>
       k \<in> th_ThreadID ` set rows \<and> (\<forall>r\<in>set rows. th_ThreadID r = k \<longrightarrow> th_Tracked r = x))"

definition in_step_but :: "string set \<Rightarrow> 'w service \<Rightarrow> bool" where
  "in_step_but K s \<longleftrightarrow> ledger_keys (sv_ledger s) \<and>
    (case sv_threads s of
       None \<Rightarrow> True
     | Some db \<Rightarrow> th_conns db = [] \<and> rows_match K (sv_ledger s) (threads db))"

definition in_step :: "'w service \<Rightarrow> bool" where
  "in_step = in_step_but {}"

lemma track_event_id:
  "rs_SessionID (tr_Session (record_of (track_event oor e t))) =
    (if rs_SessionID (tr_Session (record_of t)) = [] then ev_SessionID e
     else rs_SessionID (tr_Session (record_of t)))"
  by (simp add: track_event_def Let_def count_usage_def count_cost_def with_breakdowns_def event_end_def
      payload_texts_def ledger_state_def ledger_head_def event_stamps_def state_texts_def
      split: option.split prod.split)

lemma ledger_keys_update:
  assumes "ledger_keys l" "rs_SessionID (tr_Session (record_of t)) = k" "records l' = AList.update k t (records l)"
  shows "ledger_keys l'"
  using assms by (simp add: ledger_keys_def update_conv')

lemma ledger_keys_event: "ledger_keys l \<Longrightarrow> ledger_keys (ledger_UpdateFromEvent oor e l)"
  by (cases "ev_SessionID e = []"; cases "map_of (records l) (ev_SessionID e)")
    (auto simp: ledger_UpdateFromEvent_def ledger_keys_def update_conv' track_event_id getOrCreateLocked_def
      new_tracked_def no_session_def)

lemma ledger_keys_Upsert: "ledger_keys l \<Longrightarrow> ledger_keys (ledger_Upsert session l)"
  by (simp add: ledger_Upsert_def Let_def ledger_keys_def update_conv' with_breakdowns_def)

lemma event_others: "k \<noteq> ev_SessionID e \<Longrightarrow> map_of (records (ledger_UpdateFromEvent oor e l)) k = map_of (records l) k"
  by (simp add: ledger_UpdateFromEvent_def update_conv')

lemma Upsert_others: "k \<noteq> rs_SessionID session \<Longrightarrow> map_of (records (ledger_Upsert session l)) k = map_of (records l) k"
  by (simp add: ledger_Upsert_def Let_def update_conv')

lemma rows_match_change:
  "rows_match {} l rows \<Longrightarrow> (\<And>k'. k' \<noteq> k \<Longrightarrow> map_of (records l') k' = map_of (records l) k') \<Longrightarrow> rows_match {k} l' rows"
  by (auto simp: rows_match_def)

lemma lookup_key:
  assumes "ledger_keys l" "lookupLocked l i p = Some t"
  shows "map_of (records l) (rs_SessionID (tr_Session (record_of t))) = Some t"
  using assms by (auto simp: lookupLocked_def ledger_keys_def bind_eq_Some_conv split: if_splits)

text \<open>Storing a session brings its row in step.\<close>

lemma set_upsert_row:
  "r \<in> set (upsert_row new rows) \<Longrightarrow>
    (th_ThreadID r = th_ThreadID new \<and> th_Tracked r = th_Tracked new) \<or> r \<in> set rows \<and> th_ThreadID r \<noteq> th_ThreadID new"
  by (auto simp: upsert_row_def update_where_def list_ex_iff split: if_splits)

lemma upsert_row_ids: "th_ThreadID ` set (upsert_row new rows) = insert (th_ThreadID new) (th_ThreadID ` set rows)"
proof (cases "list_ex (\<lambda>r. th_ThreadID r = th_ThreadID new) rows")
  case True
  have "th_ThreadID ` set (update_where P f rows) = th_ThreadID ` set rows"
    if "\<And>r. th_ThreadID (f r) = th_ThreadID r" for P f
    unfolding update_where_def set_map image_image by (rule image_cong) (simp_all add: that)
  then show ?thesis using True by (auto simp: upsert_row_def list_ex_iff intro: rev_image_eqI)
qed (simp add: upsert_row_def)

lemma upsert_in_step:
  assumes "ledger_keys l" "lookupLocked l i p = Some t" "rows_match K l (threads db)" "th_conns db = []"
    and "K \<subseteq> {rs_SessionID (tr_Session (record_of t))}"
    and "db' = snd (UpsertTrackedSession oor now (cloneTrackedSession t) db)"
  shows "rows_match {} l (threads db')" "th_conns db' = []"
proof -
  let ?k = "rs_SessionID (tr_Session (record_of t))"
  have id: "rs_SessionID (tr_Session (cloneTrackedSession t)) = ?k"
    by (simp add: cloneTrackedSession_def with_breakdowns_def)
  have t: "map_of (records l) ?k = Some t" by (rule lookup_key [OF assms(1,2)])
  show "th_conns db' = []"
    using assms(4,6) by (simp add: UpsertTrackedSession_def th_statement_def Let_def split: option.split)
  show "rows_match {} l (threads db')"
  proof (cases "json_tracked (cloneTrackedSession t)")
    case None
    have "k \<notin> K" if "map_of (records l) k = Some t'" "json_tracked (cloneTrackedSession t') = Some x" for k t' x
      using that None t assms(5) by auto
    then have "rows_match {} l (threads db)"
      using assms(3) unfolding rows_match_def by blast
    then show ?thesis
      using assms(6) None by (simp add: UpsertTrackedSession_def)
  next
    case (Some x)
    have others: "k \<notin> K" if "k \<noteq> ?k" for k
      using that assms(5) by blast
    from Some obtain new where new: "threads db' = upsert_row new (threads db)" "th_ThreadID new = ?k" "th_Tracked new = x"
      using assms(4,6) by (simp add: UpsertTrackedSession_def th_statement_def Let_def id)
    show ?thesis
      unfolding rows_match_def new(1) upsert_row_ids
    proof (intro allI impI conjI ballI)
      fix k t' x' r
      assume a: "map_of (records l) k = Some t' \<and> json_tracked (cloneTrackedSession t') = Some x' \<and> k \<notin> {}"
      show "k \<in> insert (th_ThreadID new) (th_ThreadID ` set (threads db))"
        using a assms(3) [unfolded rows_match_def, rule_format, of k t' x'] new(2) others [of k]
        by (cases "k = ?k") simp_all
      assume r: "r \<in> set (upsert_row new (threads db))" "th_ThreadID r = k"
      show "th_Tracked r = x'"
      proof (cases "k = ?k")
        case True
        then show ?thesis using a new t Some set_upsert_row [OF r(1)] r(2) by auto
      next
        case False
        then have "r \<in> set (threads db)" using set_upsert_row [OF r(1)] r(2) new(2) by auto
        then show ?thesis
          using a assms(3) [unfolded rows_match_def, rule_format, of k t' x'] others [OF False] r(2) by simp
      qed
    qed
  qed
qed

lemma AddEvent_rows:
  "threads (snd (store_AddEvent e db)) = threads db"
  "th_conns db = [] \<Longrightarrow> th_conns (snd (store_AddEvent e db)) = []"
  by (auto simp: store_AddEvent_def th_statement_def split: list.split option.split)

lemma stored_in_step:
  assumes "ledger_keys l" "rows_match K l (threads db)" "th_conns db = []"
    and "\<And>t. lookupLocked l i p = Some t \<Longrightarrow> K \<subseteq> {rs_SessionID (tr_Session (record_of t))}"
    and "lookupLocked l i p = None \<Longrightarrow> K = {}"
    and "db' = (case ledger_Get i p l of
       Some t \<Rightarrow> snd (UpsertTrackedSession oor now t db) | None \<Rightarrow> db)"
  shows "rows_match {} l (threads db')" "th_conns db' = []"
proof -
  show "rows_match {} l (threads db')"
  proof (cases "lookupLocked l i p")
    case (Some t)
    then show ?thesis
      using upsert_in_step(1) [OF assms(1) Some assms(2,3) assms(4) [OF Some] refl] assms(6)
      by (simp add: ledger_Get_def)
  qed (use assms in \<open>simp add: ledger_Get_def\<close>)
  show "th_conns db' = []"
    using assms(3,6) by (simp add: UpsertTrackedSession_def th_statement_def Let_def split: option.splits)
qed

lemma lookup_some:
  assumes "ledger_keys l" "k \<noteq> []" "map_of (records l) k = Some t"
  shows "\<exists>t. lookupLocked l k p = Some t \<and> rs_SessionID (tr_Session (record_of t)) = k"
  using assms by (simp add: lookupLocked_def ledger_keys_def)

lemma lookup_event:
  assumes "ev_SessionID e \<noteq> []" "ledger_keys l"
  shows "\<exists>t. lookupLocked (ledger_UpdateFromEvent oor e l) (ev_SessionID e) p = Some t
    \<and> rs_SessionID (tr_Session (record_of t)) = ev_SessionID e"
  by (rule lookup_some [OF ledger_keys_event [OF assms(2)] assms(1)])
    (simp add: ledger_UpdateFromEvent_def assms(1) update_conv')

lemma lookup_Upsert:
  assumes "rs_SessionID session \<noteq> []" "ledger_keys l"
  shows "\<exists>t. lookupLocked (ledger_Upsert session l) (rs_SessionID session) p = Some t
    \<and> rs_SessionID (tr_Session (record_of t)) = rs_SessionID session"
  by (rule lookup_some [OF ledger_keys_Upsert [OF assms(2)] assms(1)])
    (simp add: ledger_Upsert_def Let_def assms(1) update_conv')

lemma publish_in_step: "stays in_step (PublishEvent env e)"
  unfolding stays_def
proof (intro allI impI)
  fix s :: "'a service" assume s: "in_step s"
  define s' e' where d: "s' = snd (run (PublishEvent env e) s)" "e' = repaired env e s"
  let ?l = "sv_ledger s"
  let ?K = "if ev_SessionID e = [] then {} else {ev_SessionID e}"
  have keys: "ledger_keys ?l" using s by (simp add: in_step_def in_step_but_def)
  have l: "sv_ledger s' = ledger_UpdateFromEvent (env_oor env) e' ?l" by (rule run_PublishEvent(4) [OF d])
  have id: "ev_SessionID e' = ev_SessionID e" by (simp add: d(2))
  obtain now where threads: "sv_threads s' = map_option (\<lambda>db. snd (store_AddEvent e'
      (case ledger_Get (ev_SessionID e) (ev_ProviderSessionID e) (sv_ledger s') of
         Some t \<Rightarrow> snd (UpsertTrackedSession (env_oor env) now t db) | None \<Rightarrow> db))) (sv_threads s)"
    using run_PublishEvent(6) [OF d] by blast
  have keys': "ledger_keys (sv_ledger s')" unfolding l by (rule ledger_keys_event [OF keys])
  have "th_conns db' = [] \<and> rows_match {} (sv_ledger s') (threads db')"
    if "sv_threads s = Some db" "sv_threads s' = Some db'" for db db'
  proof -
    have old: "rows_match {} ?l (threads db)" and m2: "th_conns db = []"
      using s that(1) by (simp_all add: in_step_def in_step_but_def)
    have m1: "rows_match ?K (sv_ledger s') (threads db)"
    proof (cases "ev_SessionID e = []")
      case True
      then show ?thesis using old by (simp add: l ledger_UpdateFromEvent_def id)
    next
      case False
      then show ?thesis
        unfolding l using rows_match_change [OF old event_others [of _ e']] by (simp add: id)
    qed
    define db1 where db1: "db1 = (case ledger_Get (ev_SessionID e) (ev_ProviderSessionID e) (sv_ledger s') of
       Some t \<Rightarrow> snd (UpsertTrackedSession (env_oor env) now t db) | None \<Rightarrow> db)"
    have look: "?K \<subseteq> {rs_SessionID (tr_Session (record_of t))}"
      if "lookupLocked (sv_ledger s') (ev_SessionID e) (ev_ProviderSessionID e) = Some t" for t
      using lookup_event [of e', OF _ keys] that unfolding l id
      by (cases "ev_SessionID e = []") (simp, metis if_False option.inject subset_refl)
    have none: "?K = {}" if "lookupLocked (sv_ledger s') (ev_SessionID e) (ev_ProviderSessionID e) = None"
      using lookup_event [of e', OF _ keys] that unfolding l id by (metis option.distinct(1))
    have "db' = snd (store_AddEvent e' db1)" using threads that unfolding db1 by simp
    then show ?thesis
      using stored_in_step [OF keys' m1 m2 look none db1] by (simp only: AddEvent_rows)
  qed
  note rows = this
  show "in_step (snd (run (PublishEvent env e) s))"
  proof (cases "sv_threads s'")
    case None
    then show ?thesis using keys' by (simp add: d(1) in_step_def in_step_but_def)
  next
    case (Some db')
    then obtain db where "sv_threads s = Some db" using threads by (cases "sv_threads s") simp_all
    from rows [OF this Some] Some keys' show ?thesis by (simp add: d(1) in_step_def in_step_but_def)
  qed
qed

lemma remembered_in_step:
  assumes "in_step s"
  shows "in_step (snd (run (store_tracked env (rs_SessionID r) (rs_ProviderSessionID r))
    (s\<lparr>sv_runtimes := rt, sv_directory := d, sv_ledger := ledger_Upsert r (sv_ledger s)\<rparr>)))"
    (is "in_step (snd (run _ ?s))")
proof -
  let ?l = "sv_ledger s"
  let ?K = "if rs_SessionID r = [] then {} else {rs_SessionID r}"
  have keys: "ledger_keys ?l" using assms by (simp add: in_step_def in_step_but_def)
  then have keys': "ledger_keys (ledger_Upsert r ?l)" by (rule ledger_keys_Upsert)
  obtain w db' where run: "run (store_tracked env (rs_SessionID r) (rs_ProviderSessionID r)) ?s =
      ((), ?s\<lparr>sv_threads := db', sv_world := w\<rparr>)"
    and db': "case (sv_threads ?s, ledger_Get (rs_SessionID r) (rs_ProviderSessionID r) (sv_ledger ?s)) of
       (Some old, Some t) \<Rightarrow> db' = Some (snd (UpsertTrackedSession (env_oor env)
         (fst (env_millis env (sv_world ?s))) t old))
     | _ \<Rightarrow> db' = sv_threads ?s"
    by (rule run_store_tracked)
  have "th_conns x = [] \<and> rows_match {} (ledger_Upsert r ?l) (threads x)"
    if "sv_threads s = Some db" "db' = Some x" for db x
  proof -
    have old: "rows_match {} ?l (threads db)" and conns: "th_conns db = []"
      using assms that(1) by (simp_all add: in_step_def in_step_but_def)
    have m: "rows_match ?K (ledger_Upsert r ?l) (threads db)"
      using old rows_match_change [OF old Upsert_others [of _ r]]
      by (cases "rs_SessionID r = []") (simp_all add: ledger_Upsert_def)
    have look: "?K \<subseteq> {rs_SessionID (tr_Session (record_of t))}"
      if "lookupLocked (ledger_Upsert r ?l) (rs_SessionID r) (rs_ProviderSessionID r) = Some t" for t
      using lookup_Upsert [of r, OF _ keys] that
      by (cases "rs_SessionID r = []") (simp, metis if_False option.inject subset_refl)
    have none: "?K = {}" if "lookupLocked (ledger_Upsert r ?l) (rs_SessionID r) (rs_ProviderSessionID r) = None"
      using lookup_Upsert [of r, OF _ keys] that by (metis option.distinct(1))
    have "x = (case ledger_Get (rs_SessionID r) (rs_ProviderSessionID r) (ledger_Upsert r ?l) of
        Some t \<Rightarrow> snd (UpsertTrackedSession (env_oor env) (fst (env_millis env (sv_world ?s))) t db)
      | None \<Rightarrow> db)"
      using db' that by (auto split: option.splits)
    note stored = stored_in_step [OF keys' m conns look none this]
    show ?thesis using stored(2,1) by (rule conjI)
  qed
  note rows = this
  show ?thesis
  proof (cases db')
    case None
    then show ?thesis using keys' by (simp add: run in_step_def in_step_but_def)
  next
    case (Some x)
    then obtain db where "sv_threads s = Some db"
      using db' by (cases "sv_threads s") simp_all
    from rows [OF this Some] Some keys' show ?thesis by (simp add: run in_step_def in_step_but_def)
  qed
qed

lemma in_step_world [simp]: "in_step (s\<lparr>sv_world := w\<rparr>) = in_step s"
  by (simp add: in_step_def in_step_but_def split: option.split)

lemma stays_world [stays_intros]: "stays in_step (act (in_world f))"
  by (rule stays_act) (simp add: in_world_def split: prod.split)

lemma stays_look [stays_intros]: "stays in_step (look f)"
  unfolding look_def by (rule stays_act) simp

lemma stays_has_store [stays_intros]: "stays in_step has_store"
  unfolding has_store_def by (rule stays_look)

lemma stays_lock [stays_intros]: "stays in_step (withSessionLock f)"
  unfolding withSessionLock_def by (rule stays_world)

lemma stays_identifier [stays_intros]: "stays in_step (newIdentifier_of env kind)"
  unfolding newIdentifier_of_def
  by (rule stays_act) (simp add: in_world_def split: prod.split)

lemma stays_session_id [stays_intros]: "stays in_step (session_id env given)"
  unfolding session_id_def by (intro stays_intros)

lemma stays_remember [stays_intros]: "stays in_step (rememberSession env r)"
  using remembered_in_step [of _ env r]
  by (simp add: stays_def rememberSession_def run_simps)

text \<open>Operations of the store that leave the rows of the sessions as they are.\<close>

definition keeps_rows :: "'a thread_call \<Rightarrow> bool" where
  "keeps_rows f \<longleftrightarrow> (\<forall>db l. th_conns db = [] \<and> rows_match {} l (threads db) \<longrightarrow>
     th_conns (snd (f db)) = [] \<and> rows_match {} l (threads (snd (f db))))"

named_theorems row_keepers

lemma stays_on_threads [stays_intros]: "keeps_rows f \<Longrightarrow> stays in_step (on_threads f)"
  unfolding on_threads_def
  by (rule stays_act)
    (auto simp: keeps_rows_def in_step_def in_step_but_def split: option.splits prod.split
       dest!: spec)

lemma keeps_rows_statement:
  assumes "\<And>db l. th_conns db = [] \<Longrightarrow> rows_match {} l (threads db) \<Longrightarrow>
     th_conns (snd (f True db)) = [] \<and> rows_match {} l (threads (snd (f True db)))"
  shows "keeps_rows (th_statement f)"
  unfolding keeps_rows_def
proof (intro allI impI)
  fix db :: thread_db and l assume "th_conns db = [] \<and> rows_match {} l (threads db)"
  then show "th_conns (snd (th_statement f db)) = [] \<and> rows_match {} l (threads (snd (th_statement f db)))"
    using assms [of db l] by (simp add: th_statement_def)
qed

lemma keeps_rows_read [row_keepers]:
  "keeps_rows (store_GetThread oor threadID providerSessionID)"
  "keeps_rows (store_ListThreads oor runtime archived)"
  "keeps_rows (store_ListThreadEvents threadID after limit)"
  unfolding store_GetThread_def store_ListThreads_def store_ListThreadEvents_def
  by (rule keeps_rows_statement, simp)+

lemma rows_match_map:
  assumes "rows_match {} l rows"
    "\<And>r. r \<in> set rows \<Longrightarrow> th_ThreadID (f r) = th_ThreadID r \<and> th_Tracked (f r) = th_Tracked r"
  shows "rows_match {} l (map f rows)"
proof -
  have "th_ThreadID ` set (map f rows) = th_ThreadID ` set rows"
    unfolding set_map image_image by (rule image_cong) (simp_all add: assms(2))
  then show ?thesis using assms unfolding rows_match_def by (simp only: set_map ball_simps) metis
qed

lemma keeps_rows_update:
  "(\<And>r. th_ThreadID (f r) = th_ThreadID r \<and> th_Tracked (f r) = th_Tracked r) \<Longrightarrow> keeps_rows (update_thread threadID f)"
  unfolding update_thread_def
  by (rule keeps_rows_statement) (simp add: update_where_def rows_match_map)

lemma keeps_rows_set [row_keepers]:
  "keeps_rows (SetName threadID name)" "keeps_rows (SetMetadata threadID metadata)"
  "keeps_rows (SetArchived threadID archived)"
  unfolding SetName_def SetMetadata_def SetArchived_def by (rule keeps_rows_update, simp)+

text \<open>A fork has an ID that no row has yet, so no session that JSON can hold has it.\<close>

lemma keeps_rows_insert [row_keepers]: "keeps_rows (insert_thread row)"
  unfolding insert_thread_def
proof (rule keeps_rows_statement)
  fix db l assume a: "th_conns db = []" "rows_match {} l (threads db)"
  have "rows_match {} l (threads db @ [row])" if "\<not> list_ex (\<lambda>r. th_ThreadID r = th_ThreadID row) (threads db)"
    unfolding rows_match_def
  proof (intro allI impI conjI ballI)
    fix k t x r
    assume k: "map_of (records l) k = Some t \<and> json_tracked (cloneTrackedSession t) = Some x \<and> k \<notin> {}"
    note m = a(2) [unfolded rows_match_def, rule_format, OF k]
    show "k \<in> th_ThreadID ` set (threads db @ [row])" using m by simp
    assume "r \<in> set (threads db @ [row])" "th_ThreadID r = k"
    then show "th_Tracked r = x" using m that by (auto simp: list_ex_iff)
  qed
  then show "th_conns (snd (if list_ex (\<lambda>r. th_ThreadID r = th_ThreadID row) (threads db)
      then (Inl (unique_failed ''threads.thread_id''), db)
      else (Inr (), db\<lparr>threads := threads db @ [row]\<rparr>))) = [] \<and>
    rows_match {} l (threads (snd (if list_ex (\<lambda>r. th_ThreadID r = th_ThreadID row) (threads db)
      then (Inl (unique_failed ''threads.thread_id''), db)
      else (Inr (), db\<lparr>threads := threads db @ [row]\<rparr>))))"
    using a by simp
qed

lemma on_store_must: "on_store (must (act f) g) = must (on_threads f) (\<lambda>a. on_store (g a))"
  by (auto simp: must_def act_def on_threads_def fun_eq_iff split: option.split prod.split sum.split)

lemma stays_fork [stays_intros]: "stays in_step (make_fork env threadID preserve)"
  unfolding make_fork_def store_ForkThread_def on_store_must Let_def on_store.simps
  by (intro stays_intros row_keepers)

lemma stays_refresh [stays_intros]: "stays in_step (refreshRuntime env runtime sessions)"
proof (induction sessions)
  case (Cons r sessions)
  have "stays in_step (also_do (modify (\<lambda>s. s\<lparr>sv_runtimes := AList.update (rs_SessionID r) runtime (sv_runtimes s)\<rparr>))
    (also_do (modify (\<lambda>s. s\<lparr>sv_directory := directory_Upsert r (sv_directory s)\<rparr>))
    (also_do (modify (\<lambda>s. s\<lparr>sv_ledger := ledger_Upsert r (sv_ledger s)\<rparr>))
    (store_tracked env (rs_SessionID r) (rs_ProviderSessionID r)))))"
    using remembered_in_step [of _ env r] by (simp add: stays_def run_simps)
  from stays_also_do [OF this Cons] show ?case by (simp add: also_do_def seq_assoc)
qed (simp add: stays_Done)

lemma stays_list_all [stays_intros]: "stays in_step (list_all_sessions env ps)"
  by (induction ps) (auto intro!: stays_intros)

lemma stays_or_else [stays_intros]: "stays I p \<Longrightarrow> stays I q \<Longrightarrow> stays I (or_else p q)"
  unfolding or_else_def by (intro stays_intros)

lemma stays_ListSessions [stays_intros]: "stays in_step (ListSessions env runtime)"
  unfolding ListSessions_def by (intro stays_intros)

lemma stays_providerBySession [stays_intros]: "stays in_step (providerBySession env sessionID)"
  unfolding providerBySession_def by (intro stays_intros)

lemma stays_tracked [stays_intros]:
  "stays in_step (GetTrackedSession env sessionID providerSessionID)"
  "stays in_step (ListTrackedSessions env runtime)"
  unfolding GetTrackedSession_def ListTrackedSessions_def ledger_session_def stored_session_def Let_def
  by (intro stays_intros row_keepers)+

lemma stays_GetThread [stays_intros]: "stays in_step (GetThread env threadID providerSessionID)"
  unfolding GetThread_def by (intro stays_intros row_keepers)

lemma stays_rename [stays_intros]: "stays in_step (rename_fork name shown child)"
  unfolding rename_fork_def by (intro stays_intros row_keepers)

lemma operations_stay: "operation env p \<Longrightarrow> stays in_step p"
  by (induction rule: operation.induct)
    (unfold quiet_def StartSession_def ResumeSession_def SendInput_def service_Interrupt_def service_Respond_def
       StopSession_def ListThreads_def ReadThread_def SetThreadArchived_def SetThreadName_def
       SetThreadMetadata_def ListThreadEvents_def ForkThread_def RollbackThread_def Let_def,
     (rule publish_in_step | intro stays_intros row_keepers)+)

definition run_all :: "('w, unit) service_proc list \<Rightarrow> 'w service \<Rightarrow> 'w service" where
  "run_all ps s = fold (\<lambda>p s. snd (run p s)) ps s"

lemma run_all_in_step: "list_all (operation env) ps \<Longrightarrow> in_step s \<Longrightarrow> in_step (run_all ps s)"
  unfolding run_all_def
  by (induction ps arbitrary: s) (auto intro: staysD operations_stay)

text \<open>
  C33. When operations of the service run one after the other and the database works, the thread store
  is in step with the ledger after each of them: every session that the ledger knows, with all its
  usage and costs, has a row, and the row holds just that session, whichever operations led there.
  Only a session that JSON cannot hold (a cost that is not a number) keeps an old row or none.
\<close>

theorem thread_store_in_step:
  assumes "list_all (operation env) ps" "sv_ledger s = NewSessionLedger"
    and "sv_threads s = Some db" "th_conns db = []"
    and "ledger_Get k [] (sv_ledger (run_all ps s)) = Some t" "json_tracked t = Some x"
    and "sv_threads (run_all ps s) = Some db'"
  shows "k \<in> th_ThreadID ` set (threads db') \<and> (\<forall>r\<in>set (threads db'). th_ThreadID r = k \<longrightarrow> th_Tracked r = x)"
proof -
  have "in_step s"
    using assms(2-4)
    by (simp add: in_step_def in_step_but_def ledger_keys_def rows_match_def NewSessionLedger_def)
  then have "in_step (run_all ps s)" by (rule run_all_in_step [OF assms(1)])
  then have m: "rows_match {} (sv_ledger (run_all ps s)) (threads db')"
    using assms(7) by (simp add: in_step_def in_step_but_def)
  obtain t' where "map_of (records (sv_ledger (run_all ps s))) k = Some t'" "t = cloneTrackedSession t'"
    using assms(5) by (auto simp: ledger_Get_def lookupLocked_def split: if_splits)
  with m assms(6) show ?thesis by (simp add: rows_match_def)
qed

definition sample_db :: thread_db where
  "sample_db = \<lparr>threads = [], thread_events = [], last_event = 0, th_conns = []\<rparr>"

definition sample_stored :: "unit service" where
  "sample_stored = sample_service\<lparr>sv_threads := Some sample_db\<rparr>"

definition sample_ops :: "(unit, unit) service_proc list" where
  "sample_ops = [quiet (SetThreadName ''s'' ''name''), PublishEvent sample_env (sample_said ''s'' EventTurnStarted [])]"

lemma sample_ops_run:
  "sv_ledger (run_all sample_ops sample_stored) =
    ledger_UpdateFromEvent (\<lambda>_. 0) (sample_said ''s'' EventTurnStarted []) NewSessionLedger"
  "sv_threads (run_all sample_ops sample_stored) \<noteq> None"
proof -
  let ?e = "sample_said ''s'' EventTurnStarted []"
  define s1 where "s1 = snd (run (quiet (SetThreadName ''s'' ''name'')) sample_stored)"
  have s1: "sv_ledger s1 = NewSessionLedger" "sv_threads s1 \<noteq> None" "sv_texts s1 = []"
    by (simp_all add: s1_def quiet_def SetThreadName_def on_threads_def run_simps sample_stored_def
        sample_service_def SetName_def update_thread_def th_statement_def sample_db_def)
  have s: "run_all sample_ops sample_stored = snd (run (PublishEvent sample_env ?e) s1)"
    by (simp add: run_all_def sample_ops_def s1_def)
  have e: "repaired sample_env ?e s1 = ?e"
    by (simp add: repaired_def completed_text_def sample_said_def NewRuntimeEvent_def Let_def split: option.split)
  show "sv_ledger (run_all sample_ops sample_stored) = ledger_UpdateFromEvent (\<lambda>_. 0) ?e NewSessionLedger"
    using run_PublishEvent(4) [OF refl refl, of sample_env ?e s1] unfolding e
    by (simp add: s s1) (simp add: sample_env_def)
  show "sv_threads (run_all sample_ops sample_stored) \<noteq> None"
    using run_PublishEvent(6) [OF refl refl, of sample_env ?e s1] s1(2) by (auto simp: s)
qed

theorem thread_store_in_step_witness:
  "''s'' \<in> th_ThreadID ` set (threads (the (sv_threads (run_all sample_ops sample_stored))))"
proof -
  let ?s = "run_all sample_ops sample_stored"
  have ops: "list_all (operation sample_env) sample_ops"
    by (simp add: sample_ops_def operation.intros)
  have "sv_ledger sample_stored = NewSessionLedger" "sv_threads sample_stored = Some sample_db"
    "th_conns sample_db = []"
    by (simp_all add: sample_stored_def sample_service_def sample_db_def)
  moreover have "ledger_Get ''s'' [] (sv_ledger ?s) \<noteq> None"
    "json_tracked (the (ledger_Get ''s'' [] (sv_ledger ?s))) \<noteq> None"
    unfolding sample_ops_run(1) by code_simp+
  then obtain db t x where "ledger_Get ''s'' [] (sv_ledger ?s) = Some t" "json_tracked t = Some x"
    "sv_threads ?s = Some db"
    using sample_ops_run(2) by auto
  ultimately show ?thesis
    using thread_store_in_step [OF ops, of sample_stored sample_db "''s''" t x db] by simp
qed

section \<open>A row that is overtaken\<close>

lemma first_actions_act [simp]:
  "first_actions (Suc n) (seq (act g) f) s = (case g s of (a, s') \<Rightarrow> first_actions n (f a) s')"
  by (simp add: act_def split: prod.split)

lemma first_actions_parts [simp]:
  "first_actions (Suc n) (seq (look g) f) s = first_actions n (f (g s)) s"
  "first_actions (Suc n) (seq (modify h) f') s = first_actions n (f' ()) (h s)"
  "first_actions (Suc n) (seq (tell_world k) f') s = first_actions n (f' ()) (s\<lparr>sv_world := k (sv_world s)\<rparr>)"
  "first_actions 0 p s = (p, s)"
  by (simp_all add: look_def modify_def tell_world_def)

lemma no_completed_text [simp]: "ev_EventType e \<noteq> EventTurnCompleted \<Longrightarrow> completed_text e texts = []"
  by (simp add: completed_text_def split: option.split)

lemma started_collects_nothing: "ev_EventType e = EventTurnStarted \<Longrightarrow> collect_text e texts = texts"
  by (simp add: collect_text_def split: option.split)

lemma first_half:
  assumes "sv_threads s = Some db" "ev_EventType e = EventTurnStarted"
    and "ledger_Get (ev_SessionID e) (ev_ProviderSessionID e)
      (ledger_UpdateFromEvent (env_oor env) e (sv_ledger s)) = Some t"
  obtains rest s1 where "first_actions 6 (PublishEvent env e) s = (rest, s1)"
    "sv_threads s1 = sv_threads s" "sv_texts s1 = sv_texts s"
    "sv_ledger s1 = ledger_UpdateFromEvent (env_oor env) e (sv_ledger s)"
    "\<And>s2 db2. sv_threads s2 = Some db2 \<Longrightarrow> \<exists>now. sv_ledger (snd (run rest s2)) = sv_ledger s2 \<and>
       sv_threads (snd (run rest s2)) =
         Some (snd (store_AddEvent e (snd (UpsertTrackedSession (env_oor env) now t db2))))"
proof -
  let ?s1 = "s\<lparr>sv_world := env_log env e (sv_world s),
    sv_directory := directory_UpdateFromEvent (env_oor env) e (sv_directory s),
    sv_ledger := ledger_UpdateFromEvent (env_oor env) e (sv_ledger s)\<rparr>"
  let ?rest = "seq (act (in_world (env_millis env))) (\<lambda>now.
    seq (on_threads (UpsertTrackedSession (env_oor env) now t)) (\<lambda>_.
    seq (on_threads (store_AddEvent e)) (\<lambda>_.
    seq (modify (\<lambda>s. s\<lparr>sv_bus := Publish e (sv_bus s)\<rparr>)) (\<lambda>_. tell_world (env_speech env e)))))"
  have first: "first_actions 6 (PublishEvent env e) s = (?rest, ?s1)"
    using assms
    by (simp add: PublishEvent_def also_do_def seq_assoc repairToolCalls_def started_collects_nothing
        eval_nat_numeral store_tracked_def has_store_def when_do_def)
  have second: "\<exists>now. sv_ledger (snd (run ?rest s2)) = sv_ledger s2 \<and> sv_threads (snd (run ?rest s2)) =
      Some (snd (store_AddEvent e (snd (UpsertTrackedSession (env_oor env) now t db2))))"
    if "sv_threads s2 = Some db2" for s2 db2
    by (intro exI [of _ "fst (env_millis env (sv_world s2))"])
      (simp add: run_simps in_world_def on_threads_def that split: prod.split)
  show thesis by (rule that [OF first _ _ _ second]) simp_all
qed

lemma Upsert_rows:
  assumes "th_conns db = []" "json_tracked t = Some x" "rs_SessionID (tr_Session t) = k"
  shows "th_Tracked ` {r \<in> set (threads (snd (UpsertTrackedSession oor now t db))). th_ThreadID r = k} = {x}"
proof -
  obtain new where new: "threads (snd (UpsertTrackedSession oor now t db)) = upsert_row new (threads db)"
    "th_ThreadID new = k" "th_Tracked new = x"
    using assms by (simp add: UpsertTrackedSession_def th_statement_def Let_def)
  have "\<exists>r. r \<in> set (upsert_row new (threads db)) \<and> th_ThreadID r = k"
    using upsert_row_ids [of new "threads db"] new(2) by (metis image_iff insertI1)
  moreover have "th_Tracked r = x" if "r \<in> set (upsert_row new (threads db))" "th_ThreadID r = k" for r
    using set_upsert_row [OF that(1)] that(2) new by auto
  ultimately show ?thesis unfolding new(1) by (auto intro: rev_image_eqI)
qed

lemma json_tracked_last: "json_tracked t = Some x \<Longrightarrow> tr_LastEventType x = tr_LastEventType t"
  by (auto simp: json_tracked_def split: option.splits)

lemma ledger_Get_event:
  assumes "ev_SessionID e \<noteq> []"
  shows "ledger_Get (ev_SessionID e) p (ledger_UpdateFromEvent oor e l) =
    Some (cloneTrackedSession (track_event oor e (getOrCreateLocked l (ev_SessionID e))))"
  using assms by (simp add: ledger_Get_def lookupLocked_def ledger_UpdateFromEvent_def update_conv')

lemma track_event_last: "tr_LastEventType (cloneTrackedSession (track_event oor e t)) = ev_EventType e"
  by (simp add: track_event_def cloneTrackedSession_def with_breakdowns_def Let_def split: prod.split)

text \<open>
  C34. Two events of one session that two goroutines publish at the same time: the ledger has both, but
  the one that came first writes what it read of the ledger last, and the stored session is the old
  one, in the middle of a turn. Nothing repairs it before the session has another event.
\<close>

theorem thread_row_overtaken:
  assumes "sv_threads s = Some db" "th_conns db = []" "ledger_keys (sv_ledger s)" "sv_texts s = []"
    and "ev_SessionID e1 = k" "ev_SessionID e2 = k" "k \<noteq> []"
    and "ev_EventType e1 = EventTurnStarted" "ev_EventType e2 = EventTurnCompleted"
    and "ledger_Get k [] (ledger_UpdateFromEvent (env_oor env) e1 (sv_ledger s)) = Some t" "json_tracked t = Some x"
  shows "case first_actions 6 (PublishEvent env e1) s of (rest, s1) \<Rightarrow>
    case run (PublishEvent env e2) s1 of (_, s2) \<Rightarrow>
    case run rest s2 of (_, s3) \<Rightarrow>
      map_option tr_LastEventType (ledger_Get k [] (sv_ledger s3)) = Some EventTurnCompleted \<and>
      (\<exists>db3. sv_threads s3 = Some db3 \<and>
        tr_LastEventType ` th_Tracked ` {r \<in> set (threads db3). th_ThreadID r = k} = {EventTurnStarted})"
proof -
  have key: "ev_SessionID e1 \<noteq> []" using assms(5,7) by simp
  have t: "ledger_Get (ev_SessionID e1) (ev_ProviderSessionID e1)
      (ledger_UpdateFromEvent (env_oor env) e1 (sv_ledger s)) = Some t"
    using assms(5,10) ledger_Get_event [OF key] by simp
  obtain rest s1 where first: "first_actions 6 (PublishEvent env e1) s = (rest, s1)"
    and s1: "sv_threads s1 = Some db" "sv_texts s1 = []"
      "sv_ledger s1 = ledger_UpdateFromEvent (env_oor env) e1 (sv_ledger s)"
    and rest: "\<And>s2 db2. sv_threads s2 = Some db2 \<Longrightarrow> \<exists>now. sv_ledger (snd (run rest s2)) = sv_ledger s2 \<and>
       sv_threads (snd (run rest s2)) =
         Some (snd (store_AddEvent e1 (snd (UpsertTrackedSession (env_oor env) now t db2))))"
    by (rule first_half [OF assms(1,8) t]) (simp add: assms(1,4))
  define s2 where "s2 = snd (run (PublishEvent env e2) s1)"
  have e2: "repaired env e2 s1 = e2"
    using s1(2) by (simp add: repaired_def completed_text_def text_of_def split: option.split)
  have ledger: "sv_ledger s2 = ledger_UpdateFromEvent (env_oor env) e2 (sv_ledger s1)"
    using run_PublishEvent(4) [OF s2_def refl] unfolding e2 .
  obtain now2 where threads: "sv_threads s2 = Some (snd (store_AddEvent e2
      (case ledger_Get (ev_SessionID e2) (ev_ProviderSessionID e2) (sv_ledger s2) of
         Some t \<Rightarrow> snd (UpsertTrackedSession (env_oor env) now2 t db) | None \<Rightarrow> db)))"
    using run_PublishEvent(6) [OF s2_def refl] s1(1) unfolding e2 by auto
  then obtain db2 where db2: "sv_threads s2 = Some db2" "th_conns db2 = []"
    using assms(2) by (auto simp: AddEvent_rows UpsertTrackedSession_def th_statement_def Let_def split: option.splits)
  obtain now where s3: "sv_ledger (snd (run rest s2)) = sv_ledger s2" "sv_threads (snd (run rest s2)) =
         Some (snd (store_AddEvent e1 (snd (UpsertTrackedSession (env_oor env) now t db2))))"
    using rest [OF db2(1)] by blast
  have id: "rs_SessionID (tr_Session t) = k"
  proof -
    obtain t' where "lookupLocked (ledger_UpdateFromEvent (env_oor env) e1 (sv_ledger s))
        (ev_SessionID e1) (ev_ProviderSessionID e1) = Some t'" "rs_SessionID (tr_Session (record_of t')) = k"
      using lookup_event [OF key assms(3)] assms(5) by blast
    then have "t = cloneTrackedSession t'" "rs_SessionID (tr_Session (record_of t')) = k"
      using t by (simp_all add: ledger_Get_def)
    then show ?thesis by (simp add: cloneTrackedSession_def with_breakdowns_def)
  qed
  have last: "tr_LastEventType x = EventTurnStarted"
    using t assms(8) json_tracked_last [OF assms(11)] ledger_Get_event [OF key] track_event_last by auto
  have "map_option tr_LastEventType (ledger_Get k [] (sv_ledger (snd (run rest s2)))) = Some EventTurnCompleted"
    using assms(6,7,9) ledger_Get_event [of e2] by (simp add: s3(1) ledger track_event_last)
  moreover have "tr_LastEventType ` th_Tracked `
      {r \<in> set (threads (snd (store_AddEvent e1 (snd (UpsertTrackedSession (env_oor env) now t db2))))). th_ThreadID r = k}
      = {EventTurnStarted}"
    by (simp add: AddEvent_rows Upsert_rows [OF db2(2) assms(11) id] last)
  ultimately show ?thesis
    using s3(2) first s2_def by (simp add: split_beta)
qed

theorem thread_row_overtaken_witness:
  "case first_actions 6 (PublishEvent sample_env (sample_said ''s'' EventTurnStarted [])) sample_stored of
    (rest, s1) \<Rightarrow>
    case run (PublishEvent sample_env (sample_said ''s'' EventTurnCompleted [])) s1 of (_, s2) \<Rightarrow>
    case run rest s2 of (_, s3) \<Rightarrow>
      map_option tr_LastEventType (ledger_Get ''s'' [] (sv_ledger s3)) = Some EventTurnCompleted \<and>
      (\<exists>db3. sv_threads s3 = Some db3 \<and>
        tr_LastEventType ` th_Tracked ` {r \<in> set (threads db3). th_ThreadID r = ''s''} = {EventTurnStarted})"
proof -
  let ?e1 = "sample_said ''s'' EventTurnStarted []" and ?e2 = "sample_said ''s'' EventTurnCompleted []"
  have start: "sv_threads sample_stored = Some sample_db" "th_conns sample_db = []"
    "ledger_keys (sv_ledger sample_stored)" "sv_texts sample_stored = []"
    by (simp_all add: sample_stored_def sample_service_def sample_db_def ledger_keys_def NewSessionLedger_def)
  have events: "ev_SessionID ?e1 = ''s''" "ev_SessionID ?e2 = ''s''"
    "ev_EventType ?e1 = EventTurnStarted" "ev_EventType ?e2 = EventTurnCompleted"
    by (simp_all add: sample_said_def NewRuntimeEvent_def)
  let ?l = "ledger_UpdateFromEvent (\<lambda>_. 0) ?e1 NewSessionLedger"
  have "ledger_Get ''s'' [] ?l \<noteq> None" "json_tracked (the (ledger_Get ''s'' [] ?l)) \<noteq> None" by code_simp+
  then obtain t x where "ledger_Get ''s'' [] ?l = Some t" "json_tracked t = Some x" by auto
  moreover have "env_oor sample_env = (\<lambda>_. 0)" "sv_ledger sample_stored = NewSessionLedger"
    by (simp_all add: sample_env_def sample_stored_def sample_service_def)
  ultimately show ?thesis
    using thread_row_overtaken [OF start events(1,2) _ events(3,4), of sample_env t x] by simp
qed

section \<open>Reading a long thread\<close>

definition events_of :: "string \<Rightarrow> thread_db \<Rightarrow> ThreadEvent list" where
  "events_of threadID db = filter (\<lambda>e. te_ThreadID e = threadID \<and> te_ID e > 0) (thread_events db)"

lemma AddEvent_appends:
  "th_conns db = [] \<Longrightarrow> \<exists>es. thread_events (snd (store_AddEvent e db)) = thread_events db @ es"
  by (simp add: store_AddEvent_def th_statement_def split: option.split)

lemma Upsert_keeps_events:
  "th_conns db = [] \<Longrightarrow> thread_events (snd (UpsertTrackedSession oor now t db)) = thread_events db"
  "th_conns db = [] \<Longrightarrow> th_conns (snd (UpsertTrackedSession oor now t db)) = []"
  "th_conns db = [] \<Longrightarrow> th_ThreadID ` set (threads db)
     \<subseteq> th_ThreadID ` set (threads (snd (UpsertTrackedSession oor now t db)))"
  by (auto simp: UpsertTrackedSession_def th_statement_def Let_def upsert_row_ids split: option.split)

lemma publish_appends:
  assumes "sv_threads s = Some db" "th_conns db = []"
  shows "\<exists>db' es'. sv_threads (publish_all env es s) = Some db' \<and> th_conns db' = [] \<and>
    thread_events db' = thread_events db @ es' \<and> th_ThreadID ` set (threads db) \<subseteq> th_ThreadID ` set (threads db')"
proof (induction es rule: rev_induct)
  case Nil
  then show ?case using assms by (intro exI [of _ db] exI [of _ "[]"]) simp
next
  case (snoc e es)
  let ?s = "publish_all env es s"
  from snoc obtain db1 es1 where db1: "sv_threads ?s = Some db1" "th_conns db1 = []"
    "thread_events db1 = thread_events db @ es1" "th_ThreadID ` set (threads db) \<subseteq> th_ThreadID ` set (threads db1)"
    by blast
  let ?l = "sv_ledger (snd (run (PublishEvent env e) ?s))"
  obtain now where now: "sv_threads (snd (run (PublishEvent env e) ?s)) =
      Some (snd (store_AddEvent (repaired env e ?s) (case ledger_Get (ev_SessionID e) (ev_ProviderSessionID e) ?l of
        Some t \<Rightarrow> snd (UpsertTrackedSession (env_oor env) now t db1) | None \<Rightarrow> db1)))"
    using run_PublishEvent(6) [OF refl refl, of env e ?s] db1(1) by auto
  define db2 where "db2 = (case ledger_Get (ev_SessionID e) (ev_ProviderSessionID e) ?l of
      Some t \<Rightarrow> snd (UpsertTrackedSession (env_oor env) now t db1) | None \<Rightarrow> db1)"
  have db2: "thread_events db2 = thread_events db1" "th_conns db2 = []"
    "th_ThreadID ` set (threads db1) \<subseteq> th_ThreadID ` set (threads db2)"
    using db1(2) Upsert_keeps_events unfolding db2_def by (auto split: option.split)
  obtain es2 where "thread_events (snd (store_AddEvent (repaired env e ?s) db2)) = thread_events db2 @ es2"
    using AddEvent_appends [OF db2(2)] by blast
  then show ?case
    using db1 db2 now unfolding publish_all_simps db2_def [symmetric]
    by (intro exI [of _ "snd (store_AddEvent (repaired env e ?s) db2)"] exI [of _ "es1 @ es2"])
      (simp add: AddEvent_rows)
qed

lemma run_ReadThread:
  assumes "sv_threads s = Some db" "th_conns db = []" "trim_space threadID = threadID" "threadID \<noteq> []"
    and "threadID \<in> th_ThreadID ` set (threads db)"
  shows "\<exists>rd. fst (run (ReadThread env threadID) s) = Inr rd \<and>
    rd_Turns rd = deriveThreadTurns (env_unicode env) (take 1000 (events_of threadID db)) \<and>
    rd_EventCount rd = min 1000 (length (events_of threadID db))"
proof -
  obtain r where r: "List.find (\<lambda>r. th_ThreadID r = threadID) (threads db) = Some r"
    using assms(5) by (cases "List.find (\<lambda>r. th_ThreadID r = threadID) (threads db)") (auto simp: find_None_iff)
  show ?thesis
    using assms(1-4) r
    by (simp add: ReadThread_def GetThread_def ListThreadEvents_def has_store_def on_threads_def run_simps
        store_GetThread_def store_ListThreadEvents_def th_statement_def row_or_error_def events_of_def Let_def)
qed


definition long_db :: thread_db where
  "long_db = sample_db
    \<lparr>threads := [\<lparr>th_ThreadID = ''s'', th_ParentThreadID = [], th_Name = [], th_Archived = False,
       th_Metadata = no_metadata, th_Runtime = [], th_ProviderSessionID = [], th_UpdatedAtMS = 1,
       th_Tracked = record_of new_tracked, th_CreatedAtMS = 1\<rparr>],
     thread_events := replicate 1000 \<lparr>te_ID = 1, te_ThreadID = ''s'', te_RecordedAtMS = 1,
       te_EventType = EventTurnStarted, te_Summary = [], te_TurnID = ''t'', te_RequestID = [],
       te_Event = sample_said ''s'' EventTurnStarted []\<rparr>\<rparr>"


end
