(* ===== verification/Base64.thy ===== *)
theory Base64
  imports GoLib "HOL-Library.Char_ord"
begin

text \<open>
  The standard encoding of the package \<open>encoding/base64\<close>: the attachments of a prompt are written in
  it, and a \<open>[]byte\<close> in JSON.
\<close>

definition base64_alphabet :: string where
  "base64_alphabet = ''ABCDEFGHIJKLMNOPQRSTUVWXYZabcdefghijklmnopqrstuvwxyz0123456789+/''"

definition base64_char :: "nat \<Rightarrow> char" where
  "base64_char n = base64_alphabet ! n"

definition base64_value :: "char \<Rightarrow> nat option" where
  "base64_value c = map_of (zip base64_alphabet [0..<64]) c"

abbreviation pad :: char where "pad \<equiv> CHR ''=''"

text \<open>Three bytes are four characters of six bits; one or two bytes at the end are padded.\<close>

fun base64_encode :: "string \<Rightarrow> string" where
  "base64_encode [] = []"
| "base64_encode [a] =
    (let n = of_char a * 16 :: nat in [base64_char (n div 64), base64_char (n mod 64), pad, pad])"
| "base64_encode [a, b] =
    (let n = (of_char a * 256 + of_char b) * 4 :: nat
     in [base64_char (n div 4096), base64_char (n div 64 mod 64), base64_char (n mod 64), pad])"
| "base64_encode (a # b # c # s) =
    (let n = (of_char a * 256 + of_char b) * 256 + of_char c :: nat
     in base64_char (n div 262144) # base64_char (n div 4096 mod 64) # base64_char (n div 64 mod 64)
        # base64_char (n mod 64) # base64_encode s)"

text \<open>
  Decoding ignores line ends. After padding nothing may follow; bits that are left over are dropped.
\<close>

fun base64_quanta :: "string \<Rightarrow> string option" where
  "base64_quanta [] = Some []"
| "base64_quanta (a # b # c # d # s) =
    (case (base64_value a, base64_value b) of
       (Some x, Some y) \<Rightarrow>
         if c = pad then
           (if d = pad \<and> s = [] then Some [char_of (x * 4 + y div 16)] else None)
         else (case base64_value c of
           None \<Rightarrow> None
         | Some z \<Rightarrow>
             if d = pad then
               (if s = [] then Some [char_of (x * 4 + y div 16), char_of (y mod 16 * 16 + z div 4)] else None)
             else (case base64_value d of
               None \<Rightarrow> None
             | Some w \<Rightarrow>
                 map_option (\<lambda>t. char_of (x * 4 + y div 16) # char_of (y mod 16 * 16 + z div 4)
                     # char_of (z mod 4 * 64 + w) # t) (base64_quanta s)))
     | _ \<Rightarrow> None)"
| "base64_quanta _ = None"

definition base64_decode :: "string \<Rightarrow> string option" where
  "base64_decode s = base64_quanta (filter (\<lambda>c. c \<noteq> CHR 0x0A \<and> c \<noteq> CHR 0x0D) s)"

end
