(* ===== verification/TurnAccumulator.thy ===== *)
theory TurnAccumulator
  imports Base64 ThreadStore
begin

text \<open>
  What a turn has said so far: \<^verbatim>\<open>pkg/controlplane/turn.go\<close>, with the log probabilities of
  \<^verbatim>\<open>pkg/contract/events.go\<close>. The lines of JSON are kept as the events that they encode.
\<close>

section \<open>Log probabilities\<close>

datatype TokenLogprob = TokenLogprob
  (tok_Token: string) (tok_Logprob: float64) (tok_Bytes: "string option")
  (tok_TopLogprobs: "TokenLogprob list option")

definition no_token :: TokenLogprob where
  "no_token = TokenLogprob [] f0 None None"

fun decode_float :: "float64 decoder" where
  "decode_float old JNull = Some old"
| "decode_float old (JNum lit) = parse_float64 lit"
| "decode_float old _ = None"

text \<open>A \<open>[]byte\<close> is Base64 text, or a list of numbers.\<close>

fun decode_byte :: "json \<Rightarrow> char option" where
  "decode_byte JNull = Some (CHR 0x00)"
| "decode_byte (JNum lit) =
    (case int_literal lit of
       Some n \<Rightarrow> if 0 \<le> n \<and> n < 256 then Some (char_of (nat n)) else None
     | None \<Rightarrow> None)"
| "decode_byte _ = None"

fun decode_bytes :: "string option decoder" where
  "decode_bytes old JNull = Some None"
| "decode_bytes old (JStr s) = map_option Some (base64_decode s)"
| "decode_bytes old v = decode_slice decode_byte old v"

definition token_fields :: "TokenLogprob decoder \<Rightarrow> (string \<times> TokenLogprob decoder) list" where
  "token_fields inner =
    [(''token'', on_field tok_Token (\<lambda>x t. TokenLogprob x (tok_Logprob t) (tok_Bytes t) (tok_TopLogprobs t)) decode_string),
     (''logprob'', on_field tok_Logprob (\<lambda>x t. TokenLogprob (tok_Token t) x (tok_Bytes t) (tok_TopLogprobs t)) decode_float),
     (''bytes'', on_field tok_Bytes (\<lambda>x t. TokenLogprob (tok_Token t) (tok_Logprob t) x (tok_TopLogprobs t)) decode_bytes),
     (''top_logprobs'', on_field tok_TopLogprobs (\<lambda>x t. TokenLogprob (tok_Token t) (tok_Logprob t) (tok_Bytes t) x)
        (decode_slice (inner no_token)))]"

text \<open>The nesting of a value bounds that of the tokens in it.\<close>

primrec decode_token :: "unicode \<Rightarrow> nat \<Rightarrow> TokenLogprob decoder" where
  "decode_token u 0 = (\<lambda>_ _. None)"
| "decode_token u (Suc depth) = decode_struct u (token_fields (decode_token u depth))"

definition EventLogprobs :: "unicode \<Rightarrow> RuntimeEvent \<Rightarrow> TokenLogprob list option option" where
  "EventLogprobs u event =
    (case map_of (ev_Payload event) ''logprobs'' of
       None \<Rightarrow> None
     | Some raw \<Rightarrow> Option.bind (Option.bind (marshal_any raw) json_parse) (\<lambda>v.
         decode_slice (decode_token u (size v) no_token) None v))"

section \<open>The accumulator\<close>

record TurnAccumulator =
  EventLines :: "RuntimeEvent list"
  JoinedText :: string
  LatestDelta :: string
  FinalText :: string
  TurnLogprobs :: "TokenLogprob list option"

definition no_turn :: TurnAccumulator where
  "no_turn = \<lparr>EventLines = [], JoinedText = [], LatestDelta = [], FinalText = [], TurnLogprobs = None\<rparr>"

definition turn_Add :: "unicode \<Rightarrow> RuntimeEvent \<Rightarrow> TurnAccumulator \<Rightarrow> TurnAccumulator" where
  "turn_Add u event t =
    (let delta = EventDeltaText event; final = EventFinalText event in
     t\<lparr>EventLines := (if json_event event = None then EventLines t else EventLines t @ [event]),
       LatestDelta := (if delta = [] then LatestDelta t else delta),
       JoinedText := JoinedText t @ delta,
       FinalText := (if final = [] then FinalText t else final),
       TurnLogprobs := case_option (TurnLogprobs t) id (EventLogprobs u event)\<rparr>)"

definition JoinedDelta :: "TurnAccumulator \<Rightarrow> string" where
  "JoinedDelta t = trim_space (JoinedText t)"

definition HasEvents :: "TurnAccumulator \<Rightarrow> bool" where
  "HasEvents t \<longleftrightarrow> EventLines t \<noteq> []"

end
