(* ===== verification/StructuredSession.thy ===== *)
theory StructuredSession
  imports TurnAccumulator ContentParts ModelRegistry
begin

text \<open>
  \<^verbatim>\<open>pkg/controlplane/structured_session.go\<close>: a session whose turns have to end with a JSON result
  that an extractor accepts and a schema validates; a turn without one is followed by a repair turn.
  What the controller does and what the callbacks do happens in a world; what the \<open>select\<close> of the
  waiting loop receives is a list of signals, and a loop that has taken all of them waits on
  (\<open>None\<close>). A callback that is nil does nothing.
\<close>

type_synonym ('w, 'a) hook_call = "'w \<Rightarrow> (go_error + 'a) \<times> 'w"

record 'w Controller =
  ctl_Describe :: "'w \<Rightarrow> RuntimeDescriptor list"
  ctl_StartSession :: "string \<Rightarrow> StartSessionRequest \<Rightarrow> ('w, RuntimeSession) hook_call"
  ctl_SendInput :: "SendInputRequest \<Rightarrow> ('w, RuntimeEvent) hook_call"
  ctl_StopSession :: "string \<Rightarrow> ('w, RuntimeEvent) hook_call"
  ctl_GetTrackedSession :: "string \<Rightarrow> string \<Rightarrow> ('w, TrackedSession) hook_call"

text \<open>
  The end of the context with its error, a tick, an event of the subscription, and its end.
\<close>

datatype signal = CtxDone go_error | Tick | Received RuntimeEvent | Closed

text \<open>
  The schema validator is a library outside of the repository: it compiles the text of a schema, and
  the compiled schema says what is wrong with a value.
\<close>

type_synonym schema_compiler = "string \<Rightarrow> (gval \<Rightarrow> string option) option"

record 'w StructuredSessionOptions =
  so_RepairPrompt :: string
  so_RepairMetadata :: payload
  so_MaxRepairTurns :: int
  so_OnSessionStarted :: "RuntimeSession \<Rightarrow> ('w, unit) hook_call"
  so_OnTick :: "string \<Rightarrow> ('w, unit) hook_call"
  so_OnEvent :: "RuntimeEvent \<Rightarrow> ('w, unit) hook_call"
  so_OnTurnEvents :: "RuntimeEvent list \<Rightarrow> ('w, unit) hook_call"
  so_OnMissingStructuredResult :: "('w, unit) hook_call"

record StructuredSessionResult =
  sr_Session :: "RuntimeSession option"
  sr_Text :: string
  sr_JSON :: string
  sr_Repaired :: bool
  sr_RepairAttempt :: int
  sr_Logprobs :: "TokenLogprob list option"

definition no_structured_result :: StructuredSessionResult where
  "no_structured_result =
    \<lparr>sr_Session = None, sr_Text = [], sr_JSON = [], sr_Repaired = False, sr_RepairAttempt = 0, sr_Logprobs = None\<rparr>"

record structuredTurnResult =
  st_Text :: string
  st_JSON :: string
  st_Logprobs :: "TokenLogprob list option"

definition turn_text :: "string \<Rightarrow> structuredTurnResult" where
  "turn_text t = \<lparr>st_Text = t, st_JSON = [], st_Logprobs = None\<rparr>"

abbreviation missing_text :: string where "missing_text \<equiv> ''structured result not found''"
definition ErrMissingStructuredResult :: go_error where "ErrMissingStructuredResult = Sentinel missing_text"

text \<open>\<open>fmt.Errorf("%w: %v", ErrMissingStructuredResult, err)\<close>: the sentinel comes first in the text.\<close>

definition missing_because :: "go_error \<Rightarrow> go_error" where
  "missing_because e = Because ErrMissingStructuredResult (error_text e)"

section \<open>Indented JSON\<close>

text \<open>\<open>json.MarshalIndent(v, "", "  ")\<close>: the encoder's text with line ends and indentation.\<close>

definition indent_line :: "nat \<Rightarrow> string" where
  "indent_line depth = nl # replicate (2 * depth) (CHR '' '')"

fun indent_loop :: "bool \<Rightarrow> bool \<Rightarrow> nat \<Rightarrow> bool \<Rightarrow> string \<Rightarrow> string" where
  "indent_loop inString escaped depth fresh [] = []"
| "indent_loop inString escaped depth fresh (c # cs) =
    (if inString then
       c # indent_loop (c \<noteq> dq \<or> escaped) (c = bsl \<and> \<not> escaped) depth False cs
     else
       let closing = (c = CHR ''}'' \<or> c = CHR '']'');
           start = (if fresh \<and> \<not> closing then indent_line (depth + 1) else []);
           depth = (if fresh \<and> \<not> closing then depth + 1 else depth)
       in start @
         (if c = CHR ''{'' \<or> c = CHR ''['' then c # indent_loop False False depth True cs
          else if c = CHR '','' then c # indent_line depth @ indent_loop False False depth False cs
          else if c = CHR '':'' then c # CHR '' '' # indent_loop False False depth False cs
          else if closing then
            (if fresh then c # indent_loop False False depth False cs
             else indent_line (depth - 1) @ c # indent_loop False False (depth - 1) False cs)
          else c # indent_loop (c = dq) False depth False cs))"

definition marshal_indent :: "gval \<Rightarrow> string option" where
  "marshal_indent v = map_option (indent_loop False False 0 False) (marshal_any v)"

section \<open>One turn\<close>

text \<open>What the schema says against a result; a schema that does not compile says nothing.\<close>

definition schema_issue :: "schema_compiler \<Rightarrow> payload option \<Rightarrow> string \<Rightarrow> string option" where
  "schema_issue compile schema resultJSON =
    (case schema of
       None \<Rightarrow> None
     | Some s \<Rightarrow>
         Option.bind (compile (case_option [] id (marshal_any (GMap (Some s))))) (\<lambda>validate.
         Option.bind (Option.bind (json_parse resultJSON) json_any) validate))"

type_synonym 'w extractor = "string list \<Rightarrow> 'w \<Rightarrow> (string \<times> string \<times> go_error option) \<times> 'w"

definition judged :: "schema_compiler \<Rightarrow> payload option \<Rightarrow> string \<times> go_error option \<Rightarrow> string \<times> go_error option" where
  "judged compile schema = (\<lambda>(resultJSON, e).
    if resultJSON \<noteq> [] \<and> e = None then
      (case schema_issue compile schema resultJSON of
         Some m \<Rightarrow> ([], Some (Err (''JSON does not match required schema: '' @ m)))
       | None \<Rightarrow> (resultJSON, e))
    else (resultJSON, e))"

definition completed_turn ::
    "schema_compiler \<Rightarrow> 'w extractor \<Rightarrow> payload option \<Rightarrow> TurnAccumulator \<Rightarrow> RuntimeEvent \<Rightarrow> 'w
     \<Rightarrow> (structuredTurnResult \<times> go_error option) \<times> 'w" where
  "completed_turn compile extract schema turn event w =
    (case extract [FinalText turn, LatestDelta turn, JoinedDelta turn, ev_Summary event] w of
       ((rendered, found, e), w) \<Rightarrow>
         (case judged compile schema (found, e) of
            (_, Some e) \<Rightarrow>
              ((turn_text (''control plane completed without the required structured result or the structured ''
                  @ ''result was invalid. Schema Validation failed.''), Some (missing_because e)), w)
          | (resultJSON, None) \<Rightarrow>
              if resultJSON = [] then
                ((turn_text (''control plane completed without the required structured result. ''
                    @ ''Runtime events are stored as artifacts.''), Some ErrMissingStructuredResult), w)
              else ((\<lparr>st_Text = rendered, st_JSON = resultJSON, st_Logprobs = TurnLogprobs turn\<rparr>, None), w)))"

definition turn_events :: "'w StructuredSessionOptions \<Rightarrow> TurnAccumulator \<Rightarrow> ('w, unit) hook_call" where
  "turn_events options turn =
    (if HasEvents turn then so_OnTurnEvents options (EventLines turn) else Pair (Inr ()))"

text \<open>
  The loop of \<open>waitForStructuredTurn\<close>: the result with its error, the signals that are left, and the
  world.
\<close>

fun wait_loop ::
    "unicode \<Rightarrow> schema_compiler \<Rightarrow> 'w extractor \<Rightarrow> 'w StructuredSessionOptions \<Rightarrow> payload option \<Rightarrow> string
     \<Rightarrow> TurnAccumulator \<Rightarrow> signal list \<Rightarrow> 'w
     \<Rightarrow> ((structuredTurnResult \<times> go_error option) \<times> signal list \<times> 'w) option" where
  "wait_loop u compile extract options schema sessionID turn [] w = None"
| "wait_loop u compile extract options schema sessionID turn (CtxDone e # later) w =
    Some ((turn_text (JoinedDelta turn), Some e), later, w)"
| "wait_loop u compile extract options schema sessionID turn (Closed # later) w =
    Some ((turn_text (JoinedDelta turn), Some (Err ''control plane event stream closed'')), later, w)"
| "wait_loop u compile extract options schema sessionID turn (Tick # later) w =
    (case so_OnTick options sessionID w of
       (Inl e, w) \<Rightarrow> Some ((turn_text (JoinedDelta turn), Some e), later, w)
     | (Inr _, w) \<Rightarrow> wait_loop u compile extract options schema sessionID turn later w)"
| "wait_loop u compile extract options schema sessionID turn (Received event # later) w =
    (if ev_SessionID event \<noteq> sessionID
     then wait_loop u compile extract options schema sessionID turn later w
     else (case so_OnEvent options event w of
       (Inl e, w) \<Rightarrow> Some ((turn_text (JoinedDelta turn), Some e), later, w)
     | (Inr _, w) \<Rightarrow>
         let turn = turn_Add u event turn in
         if IsTurnCompletedEvent event then
           (case turn_events options turn w of
              (Inl e, w) \<Rightarrow> Some ((turn_text (JoinedDelta turn), Some e), later, w)
            | (Inr _, w) \<Rightarrow>
                (case completed_turn compile extract schema turn event w of (r, w) \<Rightarrow> Some (r, later, w)))
         else if IsTurnErroredEvent event then
           (case turn_events options turn w of
              (Inl e, w) \<Rightarrow> Some ((turn_text (JoinedDelta turn), Some e), later, w)
            | (Inr _, w) \<Rightarrow>
                Some ((turn_text (JoinedDelta turn),
                  Some (Err (''control plane session failed: '' @ EventErrorText event))), later, w))
         else wait_loop u compile extract options schema sessionID turn later w))"

definition waitForStructuredTurn where
  "waitForStructuredTurn u compile extract options schema sessionID =
    wait_loop u compile extract options schema sessionID no_turn"

section \<open>The session\<close>

definition repair_text :: "string \<Rightarrow> go_error \<Rightarrow> payload option \<Rightarrow> string" where
  "repair_text prompt e schema =
    (let p = (if trim_space (error_text e) = [] then prompt
              else prompt @ [nl, nl] @ ''Last validation error:'' @ [nl] @ trim_space (error_text e))
     in case Option.bind schema (\<lambda>s. marshal_indent (GMap (Some s))) of
          None \<Rightarrow> p
        | Some t \<Rightarrow> p @ [nl, nl] @ ''Target Schema:'' @ [nl] @ [bt, bt, bt] @ ''json'' @ [nl] @ t @ [nl, bt, bt, bt])"

definition turn_result :: "structuredTurnResult \<Rightarrow> int \<Rightarrow> StructuredSessionResult \<Rightarrow> StructuredSessionResult" where
  "turn_result turn attempt result = result
    \<lparr>sr_Text := st_Text turn, sr_JSON := st_JSON turn, sr_Logprobs := st_Logprobs turn, sr_RepairAttempt := attempt\<rparr>"

function attempts ::
    "unicode \<Rightarrow> schema_compiler \<Rightarrow> 'w Controller \<Rightarrow> 'w extractor \<Rightarrow> 'w StructuredSessionOptions \<Rightarrow> payload option
     \<Rightarrow> string \<Rightarrow> StructuredSessionResult \<Rightarrow> int \<Rightarrow> signal list \<Rightarrow> 'w
     \<Rightarrow> ((StructuredSessionResult \<times> go_error option) \<times> signal list \<times> 'w) option" where
  "attempts u compile controller extract options schema sessionID result attempt signals w =
    (case waitForStructuredTurn u compile extract options schema sessionID signals w of
       None \<Rightarrow> None
     | Some ((turn, e), later, w) \<Rightarrow>
         let result = turn_result turn attempt result in
         (case e of
            None \<Rightarrow> Some ((result\<lparr>sr_Repaired := attempt > 0\<rparr>, None), later, w)
          | Some e \<Rightarrow>
              if \<not> errors_is e missing_text then Some ((result, Some e), later, w)
              else if attempt \<ge> so_MaxRepairTurns options \<or> so_RepairPrompt options = []
              then Some ((result, Some e), later, w)
              else (case so_OnMissingStructuredResult options w of
                (Inl e, w) \<Rightarrow> Some ((result, Some e), later, w)
              | (Inr _, w) \<Rightarrow>
                  (case ctl_SendInput controller
                      \<lparr>sir_SessionID = sessionID, sir_Text = repair_text (so_RepairPrompt options) e schema,
                       sir_Parts = [], sir_Metadata = so_RepairMetadata options\<rparr> w of
                     (Inl e, w) \<Rightarrow> Some ((result, Some (Wrapped ''structured result repair turn'' e)), later, w)
                   | (Inr _, w) \<Rightarrow>
                       attempts u compile controller extract options schema sessionID result (attempt + 1) later w))))"
  by pat_completeness auto
termination
  by (relation "measure (\<lambda>(u, compile, controller, extract, options, schema, sessionID, result, attempt, signals, w).
    nat (so_MaxRepairTurns options - attempt))") auto

declare attempts.simps [simp del]

definition RunStructuredSession ::
    "unicode \<Rightarrow> schema_compiler \<Rightarrow> 'w Controller \<Rightarrow> string \<Rightarrow> StartSessionRequest \<Rightarrow> 'w extractor option
     \<Rightarrow> 'w StructuredSessionOptions \<Rightarrow> signal list \<Rightarrow> 'w
     \<Rightarrow> ((StructuredSessionResult \<times> go_error option) \<times> signal list \<times> 'w) option" where
  "RunStructuredSession u compile controller runtime request0 extract options signals w =
    (case extract of
       None \<Rightarrow> Some ((no_structured_result, Some (Err ''structured result extractor is required'')), signals, w)
     | Some extract \<Rightarrow>
         let request = StartSessionRequest_Normalize request0 in
         (case ctl_StartSession controller runtime request w of
            (Inl e, w) \<Rightarrow> Some ((no_structured_result, Some e), signals, w)
          | (Inr session, w) \<Rightarrow>
              let result = no_structured_result\<lparr>sr_Session := Some session\<rparr> in
              (case so_OnSessionStarted options session w of
                 (Inl e, w) \<Rightarrow> Some ((result, Some e), signals, w)
               | (Inr _, w) \<Rightarrow>
                   attempts u compile controller extract options (ssr_ResponseSchema request)
                     (rs_SessionID session) result 0 signals w)))"

end
