(* ===== verification/Fanout.thy ===== *)
theory Fanout
  imports StructuredSession ModelSelect
begin

text \<open>
  \<^verbatim>\<open>internal/orchestration/fanout.go\<close>: one prompt for several targets, each in a session of its own.
  The events of all sessions arrive on one subscription, whose signals are a list as in
  \<open>StructuredSession\<close>; random session IDs come from the world.
\<close>

section \<open>Targets\<close>

record FanoutTarget =
  ft_Backend :: string
  ft_Model :: string
  ft_Label :: string
  ft_Options :: ModelOptions
  ft_Selection :: "ModelSelection option"

record FanoutTargetResult =
  fr_Target :: FanoutTarget
  fr_Session :: "TrackedSession option"
  fr_Text :: string
  fr_Error :: string
  fr_Stopped :: bool
  fr_StopError :: string
  fr_EventCount :: nat
  fr_RecordedUsage :: TokenUsage
  fr_RecordedCostUSD :: float64
  fr_Logprobs :: "TokenLogprob list option"

record FanoutResult =
  fo_Prompt :: string
  fo_Targets :: "FanoutTargetResult list"
  fo_TotalUsage :: TokenUsage
  fo_TotalCostUSD :: float64
  fo_TargetCount :: nat

record FanoutOptions =
  fop_Targets :: "FanoutTarget list"
  fop_Prompt :: string
  fop_Repeat :: int
  fop_ModelOptions :: ModelOptions
  fop_KeepSessions :: bool
  fop_Metadata :: payload

record fanoutTargetState =
  fs_result :: FanoutTargetResult
  fs_sessionID :: string
  fs_done :: bool
  fs_accumulator :: TurnAccumulator

definition target_result :: "FanoutTarget \<Rightarrow> FanoutTargetResult" where
  "target_result target =
    \<lparr>fr_Target = target, fr_Session = None, fr_Text = [], fr_Error = [], fr_Stopped = False,
     fr_StopError = [], fr_EventCount = 0, fr_RecordedUsage = no_usage, fr_RecordedCostUSD = f0,
     fr_Logprobs = None\<rparr>"

definition fanout_target :: "string \<Rightarrow> string \<Rightarrow> FanoutTarget" where
  "fanout_target backend model =
    \<lparr>ft_Backend = backend, ft_Model = model, ft_Label = [], ft_Options = no_options, ft_Selection = None\<rparr>"

text \<open>The model of a runtime that is marked as default, or else the first that is not custom.\<close>

definition defaultRuntimeModel :: "RuntimeDescriptor \<Rightarrow> string" where
  "defaultRuntimeModel runtime =
    (case Probe runtime of
       None \<Rightarrow> []
     | Some p \<Rightarrow>
         (case List.find Default (prb_Models p) of
            Some m \<Rightarrow> ID m
          | None \<Rightarrow> (case List.find (\<lambda>m. \<not> Custom m) (prb_Models p) of Some m \<Rightarrow> ID m | None \<Rightarrow> [])))"

definition available :: "RuntimeDescriptor \<Rightarrow> bool" where
  "available runtime \<longleftrightarrow>
    cap_StartSession (dsc_Capabilities runtime) \<and> cap_StreamEvents (dsc_Capabilities runtime)
    \<and> (case Probe runtime of None \<Rightarrow> True | Some p \<Rightarrow> prb_Installed p)"

definition defaultFanoutTargets :: "RuntimeDescriptor list \<Rightarrow> FanoutTarget list" where
  "defaultFanoutTargets descriptors =
    map (\<lambda>r. fanout_target (Runtime r) (defaultRuntimeModel r)) (filter available descriptors)"

definition resolve_target :: "unicode \<Rightarrow> ModelRegistry \<Rightarrow> FanoutTarget \<Rightarrow> go_error + FanoutTarget" where
  "resolve_target u registry target =
    (let explicitModel = trim_space (case ft_Selection target of Some s \<Rightarrow> sel_Model s | None \<Rightarrow> ft_Model target);
         normalized = map_option (NormalizeModelSelection u registry) (ft_Selection target);
         validation = ValidateSessionTargetWithRegistry u registry
           (case normalized of
              Some s \<Rightarrow> RuntimeTargetFromSelection s
            | None \<Rightarrow> \<lparr>tgt_Backend = ft_Backend target, tgt_Provider = [], tgt_Model = ft_Model target,
                       tgt_Options = ft_Options target\<rparr>);
         invalid = Inl (Err (''target '' @ quoted u (ft_Backend target) @ '' is invalid: ''
           @ Message (hd (res_Issues validation))))
     in if HasErrors validation then invalid
        else if explicitModel \<noteq> [] \<and> HasIssueCode validation ''model_unlisted'' then invalid
        else Inr \<lparr>ft_Backend = tgt_Backend (Target validation), ft_Model = tgt_Model (Target validation),
                  ft_Label = [], ft_Options = tgt_Options (Target validation), ft_Selection = normalized\<rparr>)"

fun resolve_targets :: "unicode \<Rightarrow> ModelRegistry \<Rightarrow> FanoutTarget list \<Rightarrow> go_error + FanoutTarget list" where
  "resolve_targets u registry [] = Inr []"
| "resolve_targets u registry (t # ts) =
    (case resolve_target u registry t of
       Inl e \<Rightarrow> Inl e
     | Inr r \<Rightarrow> (case resolve_targets u registry ts of Inl e \<Rightarrow> Inl e | Inr rs \<Rightarrow> Inr (r # rs)))"

text \<open>\<open>None\<close> is the panic of \<open>BuildModelRegistry\<close> on an empty name.\<close>

definition ResolveFanoutTargets ::
    "unicode \<Rightarrow> RuntimeDescriptor list \<Rightarrow> FanoutTarget list \<Rightarrow> (go_error + FanoutTarget list) option" where
  "ResolveFanoutTargets u descriptors requested0 =
    (let requested = (if requested0 = [] then defaultFanoutTargets descriptors else requested0) in
     if requested = [] then Some (Inl (Err ''no available session-capable runtimes were discovered''))
     else map_option (\<lambda>registry. resolve_targets u registry requested) (BuildModelRegistry u descriptors))"

definition repeatFanoutTargets :: "int \<Rightarrow> FanoutTarget list \<Rightarrow> FanoutTarget list" where
  "repeatFanoutTargets n targets =
    (if n \<le> 1 then targets else concat (map (replicate (nat n)) targets))"

definition fanoutLabelBase :: "FanoutTarget \<Rightarrow> string" where
  "fanoutLabelBase target =
    (if trim_space (ft_Label target) \<noteq> [] then trim_space (ft_Label target)
     else if trim_space (ft_Model target) \<noteq> [] then ft_Backend target @ ''='' @ ft_Model target
     else ft_Backend target)"

text \<open>Labels that occur more than once are numbered; \<open>seen\<close> are the bases of the targets before.\<close>

fun label_loop :: "string list \<Rightarrow> string list \<Rightarrow> FanoutTarget list \<Rightarrow> FanoutTarget list" where
  "label_loop bases seen [] = []"
| "label_loop bases seen (t # ts) =
    (let base = fanoutLabelBase t in
     t\<lparr>ft_Label := (if count_list bases base > 1
         then base @ ''#'' @ decimal (int (count_list seen base) + 1) else base)\<rparr>
     # label_loop bases (base # seen) ts)"

definition assignFanoutLabels :: "FanoutTarget list \<Rightarrow> FanoutTarget list" where
  "assignFanoutLabels targets = label_loop (map fanoutLabelBase targets) [] targets"

definition mergeFanoutMetadata :: "payload \<Rightarrow> payload \<Rightarrow> payload" where
  "mergeFanoutMetadata base extra = fold (\<lambda>(k, v) m. AList.update k v m) extra base"

definition fanout_metadata :: "payload \<Rightarrow> string \<Rightarrow> FanoutTarget \<Rightarrow> payload" where
  "fanout_metadata base prompt target = mergeFanoutMetadata base
    [(''thread_name'', GStr (fanoutLabelBase target)), (''thread_kind'', GStr ''orchestration_target''),
     (''workflow'', GStr ''fanout''), (''workflow_mode'', GStr ''fanout''),
     (''target_label'', GStr (fanoutLabelBase target)), (''task'', GStr prompt)]"

definition fanout_usage :: "TokenUsage \<Rightarrow> TokenUsage \<Rightarrow> TokenUsage" where
  "fanout_usage l r =
    \<lparr>tu_Input = int64 (tu_Input l + tu_Input r), tu_Output = int64 (tu_Output l + tu_Output r),
     tu_Reasoning = int64 (tu_Reasoning l + tu_Reasoning r), tu_Cached = int64 (tu_Cached l + tu_Cached r),
     tu_Total = int64 (tu_Total l + tu_Total r)\<rparr>"

section \<open>The run\<close>

text \<open>Starting the sessions, in the order of the targets: a map of states and the results of those that failed.\<close>

fun start_targets ::
    "'w Controller \<Rightarrow> ('w \<Rightarrow> string \<times> 'w) \<Rightarrow> FanoutOptions \<Rightarrow> FanoutTarget list
     \<Rightarrow> (string \<times> fanoutTargetState) list \<Rightarrow> FanoutTargetResult list \<Rightarrow> 'w
     \<Rightarrow> (string \<times> fanoutTargetState) list \<times> FanoutTargetResult list \<times> 'w" where
  "start_targets controller randomID options [] states results w = (states, results, w)"
| "start_targets controller randomID options (target # targets) states results w =
    (case randomID w of (i, w) \<Rightarrow>
     case ctl_StartSession controller (ft_Backend target)
       \<lparr>ssr_SessionID = ''fanout-'' @ i, ssr_CWD = [], ssr_Model = ft_Model target,
        ssr_ModelOptions = ft_Options target, ssr_Prompt = fop_Prompt options,
        ssr_Metadata = fanout_metadata (fop_Metadata options) (fop_Prompt options) target,
        ssr_ResponseSchema = None\<rparr> w of
       (Inl e, w) \<Rightarrow>
         start_targets controller randomID options targets states
           (results @ [(target_result target)\<lparr>fr_Error := error_text e\<rparr>]) w
     | (Inr session, w) \<Rightarrow>
         start_targets controller randomID options targets
           (AList.update (rs_SessionID session)
             \<lparr>fs_result = target_result target, fs_sessionID = rs_SessionID session, fs_done = False,
              fs_accumulator = no_turn\<rparr> states) results w)"

definition record_session :: "TrackedSession \<Rightarrow> FanoutTargetResult \<Rightarrow> FanoutTargetResult" where
  "record_session tracked r = r
    \<lparr>fr_Session := Some tracked, fr_RecordedUsage := rs_Usage (tr_Session tracked),
     fr_RecordedCostUSD := rs_CostUSD (tr_Session tracked)\<rparr>"

definition track_result :: "'w Controller \<Rightarrow> string \<Rightarrow> FanoutTargetResult \<Rightarrow> 'w \<Rightarrow> FanoutTargetResult \<times> 'w" where
  "track_result controller sessionID r w =
    (case ctl_GetTrackedSession controller sessionID [] w of
       (Inl e, w) \<Rightarrow> (r, w) | (Inr tracked, w) \<Rightarrow> (record_session tracked r, w))"

definition finishFanoutTarget ::
    "'w Controller \<Rightarrow> bool \<Rightarrow> string \<Rightarrow> FanoutTargetResult \<Rightarrow> 'w \<Rightarrow> FanoutTargetResult \<times> 'w" where
  "finishFanoutTarget controller keepSessions sessionID r0 w0 =
    (case track_result controller sessionID r0 w0 of (r, w) \<Rightarrow>
       if keepSessions then (r, w)
       else (case ctl_StopSession controller sessionID w of
         (Inl e, w) \<Rightarrow> (r\<lparr>fr_StopError := error_text e\<rparr>, w)
       | (Inr _, w) \<Rightarrow> track_result controller sessionID (r\<lparr>fr_Stopped := True\<rparr>) w))"

text \<open>What an event makes of the state of its target, and whether it ends the target's turn.\<close>

definition ended_result :: "unicode \<Rightarrow> RuntimeEvent \<Rightarrow> TurnAccumulator \<Rightarrow> FanoutTargetResult \<Rightarrow> FanoutTargetResult option" where
  "ended_result u event turn r =
    (if IsTurnCompletedEvent event then Some (r
       \<lparr>fr_Text := firstNonEmpty [FinalText turn, JoinedDelta turn, ev_Summary event],
        fr_Logprobs := case_option (fr_Logprobs r) id (EventLogprobs u event),
        fr_EventCount := length (EventLines turn)\<rparr>)
     else if IsTurnErroredEvent event then Some (r
       \<lparr>fr_Text := JoinedDelta turn, fr_Error := EventErrorText event, fr_EventCount := length (EventLines turn)\<rparr>)
     else None)"

fun fanout_loop ::
    "unicode \<Rightarrow> 'w Controller \<Rightarrow> bool \<Rightarrow> nat \<Rightarrow> (string \<times> fanoutTargetState) list \<Rightarrow> FanoutTargetResult list
     \<Rightarrow> signal list \<Rightarrow> 'w \<Rightarrow> ((go_error + FanoutTargetResult list) \<times> signal list \<times> 'w) option" where
  "fanout_loop u controller keepSessions 0 states results signals w = Some (Inr results, signals, w)"
| "fanout_loop u controller keepSessions (Suc remaining) states results [] w = None"
| "fanout_loop u controller keepSessions (Suc remaining) states results (CtxDone e # later) w =
    Some (Inl e, later, w)"
| "fanout_loop u controller keepSessions (Suc remaining) states results (Closed # later) w =
    Some (Inl (Err ''control plane event stream closed''), later, w)"
| "fanout_loop u controller keepSessions (Suc remaining) states results (Tick # later) w =
    fanout_loop u controller keepSessions (Suc remaining) states results later w"
| "fanout_loop u controller keepSessions (Suc remaining) states results (Received event # later) w =
    (case map_of states (ev_SessionID event) of
       None \<Rightarrow> fanout_loop u controller keepSessions (Suc remaining) states results later w
     | Some st \<Rightarrow>
         if fs_done st then fanout_loop u controller keepSessions (Suc remaining) states results later w
         else
           let st = st\<lparr>fs_accumulator := turn_Add u event (fs_accumulator st)\<rparr> in
           (case ended_result u event (fs_accumulator st) (fs_result st) of
              None \<Rightarrow>
                fanout_loop u controller keepSessions (Suc remaining)
                  (AList.update (ev_SessionID event) st states) results later w
            | Some r \<Rightarrow>
                (case finishFanoutTarget controller keepSessions (fs_sessionID st) r w of (r, w) \<Rightarrow>
                   fanout_loop u controller keepSessions remaining
                     (AList.update (ev_SessionID event) (st\<lparr>fs_done := True, fs_result := r\<rparr>) states)
                     (results @ [r]) later w)))"

definition fanout_output :: "string \<Rightarrow> FanoutTargetResult list \<Rightarrow> FanoutResult" where
  "fanout_output prompt results =
    \<lparr>fo_Prompt = prompt, fo_Targets = results,
     fo_TotalUsage = fold (\<lambda>r t. fanout_usage t (fr_RecordedUsage r)) results no_usage,
     fo_TotalCostUSD = fold (\<lambda>r t. float_add t (fr_RecordedCostUSD r)) results f0,
     fo_TargetCount = length results\<rparr>"

definition fanout_targets :: "FanoutOptions \<Rightarrow> FanoutTarget list \<Rightarrow> FanoutTarget list" where
  "fanout_targets options targets =
    map (\<lambda>t. t\<lparr>ft_Options := MergeModelOptions [fop_ModelOptions options, ft_Options t]\<rparr>)
      (assignFanoutLabels (repeatFanoutTargets (fop_Repeat options) targets))"

text \<open>\<open>None\<close>: the run waits on, or \<open>BuildModelRegistry\<close> panics.\<close>

definition RunFanout ::
    "unicode \<Rightarrow> 'w Controller \<Rightarrow> ('w \<Rightarrow> string \<times> 'w) \<Rightarrow> FanoutOptions \<Rightarrow> signal list \<Rightarrow> 'w
     \<Rightarrow> ((go_error + FanoutResult) \<times> signal list \<times> 'w) option" where
  "RunFanout u controller randomID options signals w =
    (if trim_space (fop_Prompt options) = [] then Some (Inl (Err ''prompt is required''), signals, w)
     else (case ResolveFanoutTargets u (ctl_Describe controller w) (fop_Targets options) of
       None \<Rightarrow> None
     | Some (Inl e) \<Rightarrow> Some (Inl e, signals, w)
     | Some (Inr targets) \<Rightarrow>
         (case start_targets controller randomID options (fanout_targets options targets) [] [] w of
            (states, results, w) \<Rightarrow>
              map_option (\<lambda>(r, later, w). (map_sum id (fanout_output (fop_Prompt options)) r, later, w))
                (fanout_loop u controller (fop_KeepSessions options) (length states) states results signals w))))"

end
