(* ===== verification/Reduction.thy ===== *)
theory Reduction
  imports Fanout JsonExtract
begin

text \<open>
  \<^verbatim>\<open>internal/orchestration/reduction.go\<close>: the results of a fan-out are reduced to one by another session,
  whose result is JSON. The judge of the mode \<open>evaluate\<close> and the score of \<open>g_eval\<close> come from a library
  outside of the repository, as does the schema validator; the text of the candidates in the prompt is
  an argument.
\<close>

abbreviation ReductionModeCompare :: string where "ReductionModeCompare \<equiv> ''compare''"
abbreviation ReductionModeSummarize :: string where "ReductionModeSummarize \<equiv> ''summarize''"
abbreviation ReductionModeBestOfN :: string where "ReductionModeBestOfN \<equiv> ''best_of_n''"
abbreviation ReductionModeEvaluate :: string where "ReductionModeEvaluate \<equiv> ''evaluate''"
abbreviation ReductionModeGEval :: string where "ReductionModeGEval \<equiv> ''g_eval''"

section \<open>Metadata\<close>

definition DefaultNoToolTurnTools :: "string list" where
  "DefaultNoToolTurnTools =
    [''bash'', ''edit'', ''glob'', ''grep'', ''list'', ''patch'', ''read'', ''todowrite'', ''webfetch'', ''write'']"

definition MetadataWithDisabledTools :: "payload \<Rightarrow> string list \<Rightarrow> payload" where
  "MetadataWithDisabledTools metadata tools =
    AList.update ''tools''
      (GMap (Some (fold (\<lambda>t m. if t = [] then m else AList.update t (GBool False) m) tools []))) metadata"

definition MetadataForNoToolTurn :: "payload \<Rightarrow> payload" where
  "MetadataForNoToolTurn metadata = MetadataWithDisabledTools metadata DefaultNoToolTurnTools"

section \<open>Rendering a result\<close>

definition stringValue :: "gval \<Rightarrow> string" where
  "stringValue v = (case v of GStr s \<Rightarrow> s | _ \<Rightarrow> case_option [] id (marshal_any v))"

definition heading :: "string \<Rightarrow> string" where
  "heading t = [nl, nl] @ ''## '' @ t @ [nl, nl]"

definition renderCompareResult :: "payload \<Rightarrow> string" where
  "renderCompareResult values =
    (let get = (\<lambda>k. stringValue (map_get values k));
         recommendation = trim_space (get ''recommendation'')
     in trim_space (''# Comparison'' @ [nl, nl] @ get ''summary'' @ heading ''Comparison'' @ get ''comparison''
          @ (if recommendation = [] then [] else heading ''Recommendation'' @ recommendation)))"

definition highlight_line :: "gval \<Rightarrow> string" where
  "highlight_line v =
    (let t = trim_space (stringValue v) in if t = [] then [] else ''- '' @ t @ [nl])"

definition renderSummarizeResult :: "payload \<Rightarrow> string" where
  "renderSummarizeResult values =
    (let get = (\<lambda>k. stringValue (map_get values k)) in
     trim_space (''# Summary'' @ [nl, nl] @ get ''summary'' @ heading ''Synthesis'' @ get ''synthesis''
       @ (case map_get values ''highlights'' of
            GList (Some (h # hs)) \<Rightarrow> [nl, nl] @ ''## Highlights'' @ [nl] @ concat (map highlight_line (h # hs))
          | _ \<Rightarrow> [])))"

definition renderBestOfNResult :: "payload \<Rightarrow> string" where
  "renderBestOfNResult values =
    (let get = (\<lambda>k. stringValue (map_get values k));
         summary = trim_space (get ''summary''); step = trim_space (get ''recommended_next_step'')
     in trim_space (''# Best Of N'' @ [nl, nl] @ (if summary = [] then [] else summary @ [nl, nl])
          @ ''## Winner'' @ [nl, nl] @ get ''winner_label'' @ heading ''Rationale'' @ get ''rationale''
          @ (if step = [] then [] else heading ''Recommended Next Step'' @ step)))"

text \<open>
  What the library's \<open>ParseJSONJudgeResult\<close> returns: score and verdict as \<open>%v\<close> shows them, the reason and the JSON.
\<close>

record JudgeResult =
  jr_Score :: string
  jr_Passed :: string
  jr_Rationale :: string
  jr_JSON :: string

definition renderEvaluateResult :: "JudgeResult \<Rightarrow> string" where
  "renderEvaluateResult r =
    trim_space (''# Evaluation Result'' @ [nl, nl] @ ''**Score:** '' @ jr_Score r @ [nl] @ ''**Passed:** ''
      @ jr_Passed r @ [nl, nl] @ ''## Rationale'' @ [nl, nl] @ jr_Rationale r)"

definition normaliseJSON :: "payload \<Rightarrow> string" where
  "normaliseJSON values = case_option [] id (marshal_any (GMap (Some values)))"

section \<open>Parsing a result\<close>

text \<open>
  What the libraries do: the judge, the score of log probabilities, what \<open>encoding/json\<close> says about a
  text it does not decode, and the indented JSON of the candidates.
\<close>

record evals =
  ev_judge :: "string \<Rightarrow> go_error + JudgeResult"
  ev_geval :: "TokenLogprob list \<Rightarrow> float64 option"
  ev_json_error :: "string \<Rightarrow> string"
  ev_candidates :: "FanoutTargetResult list \<Rightarrow> string"

definition blank_field :: "payload \<Rightarrow> string \<Rightarrow> bool" where
  "blank_field raw key \<longleftrightarrow> trim_space (stringValue (map_get raw key)) = []"

text \<open>\<open>null\<close> decodes to a nil map, in which everything is missing and whose JSON is \<open>null\<close>.\<close>

definition decode_result :: "string \<Rightarrow> payload option option" where
  "decode_result candidate = Option.bind (json_parse candidate) (decode_any_map None)"

definition parseReductionResult :: "evals \<Rightarrow> string \<Rightarrow> go_error json_parser" where
  "parseReductionResult lib mode candidate =
    (case decode_result candidate of
       None \<Rightarrow> Inl (Wrapped ''invalid json'' (Err (ev_json_error lib candidate)))
     | Some m \<Rightarrow>
         let raw = case_option [] id m;
             json = case_option [] id (marshal_any (GMap m))
         in
         if mode = ReductionModeCompare then
           (if blank_field raw ''summary'' \<or> blank_field raw ''comparison''
            then Inl (Err ''missing summary or comparison'')
            else Inr (renderCompareResult raw, json))
         else if mode = ReductionModeSummarize then
           (if blank_field raw ''summary'' \<or> blank_field raw ''synthesis''
            then Inl (Err ''missing summary or synthesis'')
            else Inr (renderSummarizeResult raw, json))
         else if mode = ReductionModeBestOfN then
           (if blank_field raw ''winner_label'' \<or> blank_field raw ''rationale''
            then Inl (Err ''missing winner_label or rationale'')
            else Inr (renderBestOfNResult raw, json))
         else if mode = ReductionModeEvaluate then
           (case ev_judge lib candidate of
              Inl e \<Rightarrow> Inl e
            | Inr r \<Rightarrow> Inr (renderEvaluateResult r, jr_JSON r))
         else Inl (Err ''unknown reduction mode''))"

definition reductionExtractor :: "evals \<Rightarrow> string \<Rightarrow> 'w extractor" where
  "reductionExtractor lib mode vs w =
    (if mode = ReductionModeGEval then
       (let t = trim_space (firstNonEmpty vs) in
        if t = [] then (([], [], Some (Err ''no output for g-eval'')), w) else ((t, t, None), w))
     else (ExtractStructuredJSON (parseReductionResult lib mode) (join_str [nl] vs), w))"

section \<open>The reduction\<close>

definition text_type :: gval where "text_type = GMap (Some [(''type'', GStr ''string'')])"
definition texts_type :: gval where
  "texts_type = GMap (Some [(''type'', GStr ''array''), (''items'', text_type)])"

definition object_schema :: "(string \<times> gval) list \<Rightarrow> payload" where
  "object_schema properties =
    [(''type'', GStr ''object''), (''properties'', GMap (Some properties)),
     (''required'', GList (Some (map (GStr \<circ> fst) properties))), (''additionalProperties'', GBool False)]"

definition reduction_schema :: "string \<Rightarrow> payload option" where
  "reduction_schema mode =
    (if mode = ReductionModeCompare then Some (object_schema
       [(''summary'', text_type), (''comparison'', text_type), (''recommendation'', text_type),
        (''ranked_labels'', texts_type)])
     else if mode = ReductionModeSummarize then Some (object_schema
       [(''summary'', text_type), (''synthesis'', text_type), (''highlights'', texts_type)])
     else if mode = ReductionModeBestOfN then Some (object_schema
       [(''summary'', text_type), (''winner_label'', text_type), (''rationale'', text_type),
        (''recommended_next_step'', text_type)])
     else if mode = ReductionModeEvaluate then Some (object_schema
       [(''score'', GMap (Some [(''type'', GStr ''number'')])), (''rationale'', text_type),
        (''passed'', GMap (Some [(''type'', GStr ''boolean'')]))])
     else None)"

definition quoted_key :: "string \<Rightarrow> string" where
  "quoted_key k = dq # k @ [dq, CHR '':'']"

definition dotted :: string where "dotted = dq # ''...'' @ [dq]"

definition reduction_shape :: "string \<Rightarrow> string" where
  "reduction_shape mode =
    (let shape = ''Return this shape:'' @ [nl];
         candidate = (\<lambda>n. dq # ''candidate-'' @ n @ [dq])
     in if mode = ReductionModeCompare then
          shape @ ''{'' @ quoted_key ''summary'' @ dotted @ '','' @ quoted_key ''comparison'' @ dotted @ '',''
          @ quoted_key ''recommendation'' @ dotted @ '','' @ quoted_key ''ranked_labels'' @ ''[''
          @ candidate ''1'' @ '','' @ candidate ''2'' @ '']}''
        else if mode = ReductionModeSummarize then
          shape @ ''{'' @ quoted_key ''summary'' @ dotted @ '','' @ quoted_key ''synthesis'' @ dotted @ '',''
          @ quoted_key ''highlights'' @ ''['' @ dotted @ '']}''
        else if mode = ReductionModeBestOfN then
          shape @ ''{'' @ quoted_key ''summary'' @ dotted @ '','' @ quoted_key ''winner_label'' @ candidate ''1''
          @ '','' @ quoted_key ''rationale'' @ dotted @ '','' @ quoted_key ''recommended_next_step'' @ dotted @ ''}''
        else if mode = ReductionModeEvaluate then
          ''Evaluate the target output against the expected ground truth or rubric.'' @ [nl]
          @ shape @ ''{'' @ quoted_key ''score'' @ '' 1.0, '' @ quoted_key ''rationale'' @ dotted @ '',''
          @ quoted_key ''passed'' @ ''true}''
        else if mode = ReductionModeGEval then
          ''Evaluate the target output against the expected ground truth or rubric.'' @ [nl]
          @ ''Output ONLY a single integer score between 1 and 5. Do not output anything else. ''
          @ ''No explanation, no JSON, just the number.''
        else [])"

definition reductionPrompt :: "evals \<Rightarrow> string \<Rightarrow> FanoutResult \<Rightarrow> string" where
  "reductionPrompt lib mode fanout =
    ''You are synthesizing multiple candidate outputs for the same task.'' @ [nl]
    @ ''Return exactly one JSON object and no surrounding prose.'' @ [nl, nl]
    @ ''Task:'' @ [nl] @ fo_Prompt fanout @ [nl, nl] @ ''Candidates as JSON:'' @ [nl]
    @ ev_candidates lib (fo_Targets fanout) @ [nl, nl] @ reduction_shape mode"

definition reductionRepairPrompt :: string where
  "reductionRepairPrompt =
    ''Your previous turn did not return the required JSON object. Reply again with exactly one valid ''
    @ ''JSON object matching the requested shape and no extra prose.''"

definition resolveReductionTarget ::
    "unicode \<Rightarrow> RuntimeDescriptor list \<Rightarrow> FanoutTarget \<Rightarrow> (go_error + FanoutTarget) option" where
  "resolveReductionTarget u descriptors requested =
    (let free = (if trim_space (ft_Backend requested) = []
           then List.find (\<lambda>r. Runtime r = ''opencode'' \<and> available r) descriptors else None)
     in case free of
          Some r \<Rightarrow> Some (Inr \<lparr>ft_Backend = Runtime r, ft_Model = defaultRuntimeModel r, ft_Label = ''reducer'',
            ft_Options = ft_Options requested, ft_Selection = None\<rparr>)
        | None \<Rightarrow> map_option (map_sum id (\<lambda>ts. let t = hd ts in if ft_Label t = [] then t\<lparr>ft_Label := ''reducer''\<rparr> else t))
            (ResolveFanoutTargets u descriptors [requested]))"

record ReductionResult =
  rr_Mode :: string
  rr_Target :: FanoutTarget
  rr_Session :: "TrackedSession option"
  rr_Text :: string
  rr_JSON :: string
  rr_Error :: string
  rr_Stopped :: bool
  rr_StopError :: string
  rr_RecordedUsage :: TokenUsage
  rr_RecordedCostUSD :: float64
  rr_Logprobs :: "TokenLogprob list option"

definition no_reduction :: "string \<Rightarrow> FanoutTarget \<Rightarrow> ReductionResult" where
  "no_reduction mode target =
    \<lparr>rr_Mode = mode, rr_Target = target, rr_Session = None, rr_Text = [], rr_JSON = [], rr_Error = [],
     rr_Stopped = False, rr_StopError = [], rr_RecordedUsage = no_usage, rr_RecordedCostUSD = f0, rr_Logprobs = None\<rparr>"

definition reduction_request :: "evals \<Rightarrow> string \<Rightarrow> string \<Rightarrow> FanoutTarget \<Rightarrow> FanoutResult \<Rightarrow> StartSessionRequest" where
  "reduction_request lib i mode target fanout =
    \<lparr>ssr_SessionID = ''reduce-'' @ i, ssr_CWD = [], ssr_Model = ft_Model target, ssr_ModelOptions = ft_Options target,
     ssr_Prompt = reductionPrompt lib mode fanout,
     ssr_Metadata = [(''thread_name'', GStr ''reducer''), (''thread_kind'', GStr ''orchestration_reducer''),
       (''workflow'', GStr ''fanout_reduce''), (''workflow_mode'', GStr mode), (''reduction_mode'', GStr mode)],
     ssr_ResponseSchema = reduction_schema mode\<rparr>"

definition reduction_options :: "string \<Rightarrow> 'w StructuredSessionOptions" where
  "reduction_options mode =
    \<lparr>so_RepairPrompt = reductionRepairPrompt,
     so_RepairMetadata = MetadataForNoToolTurn [(''workflow'', GStr ''fanout_reduce''), (''reduction_mode'', GStr mode)],
     so_MaxRepairTurns = 1, so_OnSessionStarted = (\<lambda>_. Pair (Inr ())), so_OnTick = (\<lambda>_. Pair (Inr ())),
     so_OnEvent = (\<lambda>_. Pair (Inr ())), so_OnTurnEvents = (\<lambda>_. Pair (Inr ())),
     so_OnMissingStructuredResult = Pair (Inr ())\<rparr>"

text \<open>The score that \<open>g_eval\<close> puts in place of the result.\<close>

definition geval_result :: "evals \<Rightarrow> string \<Rightarrow> ReductionResult \<Rightarrow> ReductionResult" where
  "geval_result lib mode r =
    (if mode \<noteq> ReductionModeGEval then r
     else (case ev_geval lib (case_option [] id (rr_Logprobs r)) of
       None \<Rightarrow> r\<lparr>rr_Error := ''g-eval requires provider logprobs for score tokens 1-5'', rr_JSON := []\<rparr>
     | Some score \<Rightarrow> r\<lparr>rr_JSON := case_option [] id (marshal_any (GMap (Some
         [(''score'', GFloat score), (''rationale'', GStr ''G-Eval logarithmic probability evaluation''),
          (''passed'', GBool (float_le (float_of_int 3) score))])))\<rparr>))"

definition track_reduction :: "'w Controller \<Rightarrow> RuntimeSession \<Rightarrow> ReductionResult \<Rightarrow> 'w \<Rightarrow> ReductionResult \<times> 'w" where
  "track_reduction controller session r w =
    (case ctl_GetTrackedSession controller (rs_SessionID session) (rs_ProviderSessionID session) w of
       (Inl e, w) \<Rightarrow> (r, w)
     | (Inr t, w) \<Rightarrow> (r\<lparr>rr_Session := Some t, rr_RecordedUsage := rs_Usage (tr_Session t),
         rr_RecordedCostUSD := rs_CostUSD (tr_Session t)\<rparr>, w))"

definition finish_reduction ::
    "evals \<Rightarrow> 'w Controller \<Rightarrow> bool \<Rightarrow> RuntimeSession \<Rightarrow> ReductionResult \<Rightarrow> 'w \<Rightarrow> ReductionResult \<times> 'w" where
  "finish_reduction lib controller keepSession session r0 w0 =
    (case track_reduction controller session r0 w0 of (r, w) \<Rightarrow>
     let r = geval_result lib (rr_Mode r) r in
     if keepSession then (r, w)
     else (case ctl_StopSession controller (rs_SessionID session) w of
       (Inl e, w) \<Rightarrow> (r\<lparr>rr_StopError := error_text e\<rparr>, w)
     | (Inr _, w) \<Rightarrow> track_reduction controller session (r\<lparr>rr_Stopped := True\<rparr>) w))"

definition RunReduction ::
    "unicode \<Rightarrow> schema_compiler \<Rightarrow> evals \<Rightarrow> 'w Controller \<Rightarrow> ('w \<Rightarrow> string \<times> 'w) \<Rightarrow> string \<Rightarrow> FanoutResult
     \<Rightarrow> FanoutTarget \<Rightarrow> bool \<Rightarrow> signal list \<Rightarrow> 'w
     \<Rightarrow> ((go_error + ReductionResult) \<times> signal list \<times> 'w) option" where
  "RunReduction u compile lib controller randomID mode fanout target keepSession signals w =
    (if mode = [] then Some (Inl (Err ''reduction mode is required''), signals, w)
     else (case resolveReductionTarget u (ctl_Describe controller w) target of
       None \<Rightarrow> None
     | Some (Inl e) \<Rightarrow> Some (Inl e, signals, w)
     | Some (Inr resolved0) \<Rightarrow>
         let resolved = (if mode = ReductionModeGEval
               then resolved0\<lparr>ft_Options := (ft_Options resolved0)\<lparr>Logprobs := True, TopLogprobs := 5\<rparr>\<rparr>
               else resolved0);
             output = no_reduction mode resolved
         in (case randomID w of (i, w) \<Rightarrow>
             (case RunStructuredSession u compile controller (ft_Backend resolved)
                 (reduction_request lib i mode resolved fanout) (Some (reductionExtractor lib mode))
                 (reduction_options mode) signals w of
                None \<Rightarrow> None
              | Some ((result, Some e), later, w) \<Rightarrow> Some (Inr (output\<lparr>rr_Error := error_text e\<rparr>), later, w)
              | Some ((result, None), later, w) \<Rightarrow>
                  let output = output\<lparr>rr_Text := sr_Text result, rr_JSON := sr_JSON result, rr_Logprobs := sr_Logprobs result\<rparr>
                  in (case finish_reduction lib controller keepSession (the (sr_Session result)) output w of
                        (r, w) \<Rightarrow> Some (Inr r, later, w))))))"

record ReviewedFanoutResult =
  rf_Fanout :: FanoutResult
  rf_Reduction :: ReductionResult
  rf_TotalUsage :: TokenUsage
  rf_TotalCostUSD :: float64

definition RunReviewedFanout ::
    "unicode \<Rightarrow> schema_compiler \<Rightarrow> evals \<Rightarrow> 'w Controller \<Rightarrow> ('w \<Rightarrow> string \<times> 'w) \<Rightarrow> FanoutOptions \<Rightarrow> string
     \<Rightarrow> FanoutTarget \<Rightarrow> signal list \<Rightarrow> signal list \<Rightarrow> 'w
     \<Rightarrow> ((go_error + ReviewedFanoutResult) \<times> signal list \<times> 'w) option" where
  "RunReviewedFanout u compile lib controller randomID options mode target fanout_signals signals w =
    (case RunFanout u controller randomID options fanout_signals w of
       None \<Rightarrow> None
     | Some (Inl e, later, w) \<Rightarrow> Some (Inl e, later, w)
     | Some (Inr fanout, _, w) \<Rightarrow>
         (case RunReduction u compile lib controller randomID mode fanout target (fop_KeepSessions options) signals w of
            None \<Rightarrow> None
          | Some (Inl e, later, w) \<Rightarrow> Some (Inl e, later, w)
          | Some (Inr reduction, later, w) \<Rightarrow> Some (Inr
              \<lparr>rf_Fanout = fanout, rf_Reduction = reduction,
               rf_TotalUsage = fanout_usage (fo_TotalUsage fanout) (rr_RecordedUsage reduction),
               rf_TotalCostUSD = float_add (fo_TotalCostUSD fanout) (rr_RecordedCostUSD reduction)\<rparr>, later, w)))"

end
