(* ===== verification/FanoutSpec.thy ===== *)
theory FanoutSpec
  imports Reduction
begin

text \<open>
  Theorems on structured sessions, fan-outs and reductions: how often a session is asked to repair its
  result, what a result that is returned satisfies, that every target of a fan-out is accounted for with
  the text of its own session, and which results a reduction accepts that it should not.
\<close>

section \<open>Structured sessions\<close>

text \<open>
  The reference: the events of a session fall into turns, each of them ending with its first event that
  completes a turn, and what is judged of a turn are its four texts.
\<close>

definition whole_turn :: "RuntimeEvent list \<Rightarrow> bool" where
  "whole_turn es \<longleftrightarrow> es \<noteq> [] \<and> IsTurnCompletedEvent (last es) \<and>
    (\<forall>e\<in>set (butlast es). \<not> IsTurnCompletedEvent e \<and> \<not> IsTurnErroredEvent e)"

definition turn_of :: "unicode \<Rightarrow> RuntimeEvent list \<Rightarrow> TurnAccumulator" where
  "turn_of u es = fold (turn_Add u) es no_turn"

definition texts_of :: "unicode \<Rightarrow> RuntimeEvent list \<Rightarrow> string list" where
  "texts_of u es =
    [FinalText (turn_of u es), LatestDelta (turn_of u es), JoinedDelta (turn_of u es), ev_Summary (last es)]"

fun events_of :: "string \<Rightarrow> signal list \<Rightarrow> RuntimeEvent list" where
  "events_of k [] = []"
| "events_of k (Received e # later) = (if ev_SessionID e = k then e # events_of k later else events_of k later)"
| "events_of k (_ # later) = events_of k later"

lemma events_of_append: "events_of k (xs @ ys) = events_of k xs @ events_of k ys"
  by (induction k xs rule: events_of.induct) auto

lemma judged_found: "judged compile schema (found, e) = (j, None) \<Longrightarrow> j \<noteq> [] \<Longrightarrow>
    j = found \<and> e = None \<and> schema_issue compile schema j = None"
  by (auto simp: judged_def split: if_splits option.splits)

lemma judged_refused: "judged compile schema (found, e) = (j, f) \<Longrightarrow> f \<noteq> None \<or> j = [] \<Longrightarrow>
    \<not> (found \<noteq> [] \<and> e = None \<and> schema_issue compile schema found = None)"
  by (auto simp: judged_def split: if_splits option.splits)

text \<open>A result that is good enough: it is there, without an error, and the schema has nothing against it.\<close>

definition good_result :: "schema_compiler \<Rightarrow> payload option \<Rightarrow> string \<times> string \<times> go_error option \<Rightarrow> bool" where
  "good_result compile schema = (\<lambda>(t, j, e). j \<noteq> [] \<and> e = None \<and> schema_issue compile schema j = None)"

lemma completed_turn_good:
  assumes "completed_turn compile extract schema turn event w = ((r, None), w')"
  shows "extract [FinalText turn, LatestDelta turn, JoinedDelta turn, ev_Summary event] w = ((st_Text r, st_JSON r, None), w') \<and>
    good_result compile schema (st_Text r, st_JSON r, None) \<and> st_Logprobs r = TurnLogprobs turn"
proof -
  obtain rendered found e w1 where
    ex: "extract [FinalText turn, LatestDelta turn, JoinedDelta turn, ev_Summary event] w = ((rendered, found, e), w1)"
    by (metis prod_cases3 surj_pair)
  obtain j f where j: "judged compile schema (found, e) = (j, f)" by fastforce
  from assms j judged_found [of compile schema found e j] show ?thesis
    by (auto simp: completed_turn_def ex good_result_def split: option.splits if_splits)
qed

lemma completed_turn_refused:
  assumes "completed_turn compile extract schema turn event w = ((r, Some g), w')"
  shows "\<exists>v. extract [FinalText turn, LatestDelta turn, JoinedDelta turn, ev_Summary event] w = (v, w') \<and>
    \<not> good_result compile schema v"
proof -
  obtain rendered found e w1 where
    ex: "extract [FinalText turn, LatestDelta turn, JoinedDelta turn, ev_Summary event] w = ((rendered, found, e), w1)"
    by (metis prod_cases3 surj_pair)
  obtain j f where j: "judged compile schema (found, e) = (j, f)" by fastforce
  from assms j judged_refused [OF j] show ?thesis
    by (auto simp: completed_turn_def ex good_result_def split: option.splits if_splits)
qed

text \<open>
  The loop reads the signals up to the end of the first turn. The error of a missing result is raised by it
  alone: no callback and no context may raise it.
\<close>

definition sentinel_free :: "'w StructuredSessionOptions \<Rightarrow> signal list \<Rightarrow> bool" where
  "sentinel_free options signals \<longleftrightarrow>
    (\<forall>e. CtxDone e \<in> set signals \<longrightarrow> \<not> errors_is e missing_text) \<and>
    (\<forall>i w e w'. so_OnTick options i w = (Inl e, w') \<longrightarrow> \<not> errors_is e missing_text) \<and>
    (\<forall>x w e w'. so_OnEvent options x w = (Inl e, w') \<longrightarrow> \<not> errors_is e missing_text) \<and>
    (\<forall>xs w e w'. so_OnTurnEvents options xs w = (Inl e, w') \<longrightarrow> \<not> errors_is e missing_text)"

text \<open>
  What the loop read, if it ended with a result or without the one that was wanted: \<open>good\<close> says which.
\<close>

definition turn_read ::
    "unicode \<Rightarrow> schema_compiler \<Rightarrow> 'w extractor \<Rightarrow> payload option \<Rightarrow> RuntimeEvent list \<Rightarrow> structuredTurnResult \<Rightarrow> bool \<Rightarrow> bool" where
  "turn_read u compile extract schema es r good \<longleftrightarrow> whole_turn es \<and>
    (\<exists>v w w'. extract (texts_of u es) w = (v, w') \<and> good_result compile schema v = good \<and>
      (good \<longrightarrow> v = (st_Text r, st_JSON r, None) \<and> st_Logprobs r = TurnLogprobs (turn_of u es)))"

lemma turn_of_snoc: "turn_of u (pre @ [e]) = turn_Add u e (turn_of u pre)"
  by (simp add: turn_of_def)

lemma completed_turn_read:
  assumes "completed_turn compile extract schema (turn_of u (pre @ [e])) e w = ((r, f), w')" "IsTurnCompletedEvent e"
    "\<forall>x\<in>set pre. \<not> IsTurnCompletedEvent x \<and> \<not> IsTurnErroredEvent x"
  shows "turn_read u compile extract schema (pre @ [e]) r (f = None)"
proof (cases f)
  case None
  then show ?thesis
    using completed_turn_good [of compile "extract" schema "turn_of u (pre @ [e])" e w r w'] assms
    by (auto simp: turn_read_def whole_turn_def texts_of_def)
next
  case (Some g)
  then obtain v where "extract [FinalText (turn_of u (pre @ [e])), LatestDelta (turn_of u (pre @ [e])),
      JoinedDelta (turn_of u (pre @ [e])), ev_Summary e] w = (v, w')" "\<not> good_result compile schema v"
    using completed_turn_refused [of compile "extract" schema "turn_of u (pre @ [e])" e w r g w'] assms(1) by blast
  then show ?thesis
    using Some assms(2,3) unfolding turn_read_def whole_turn_def texts_of_def
    by (intro conjI exI [where x = v] exI [where x = w] exI [where x = w']) auto
qed

lemma sentinel_facts:
  assumes "sentinel_free options signals"
  shows "CtxDone e \<in> set signals \<Longrightarrow> \<not> errors_is e missing_text"
    "so_OnTick options i w = (Inl e, w') \<Longrightarrow> \<not> errors_is e missing_text"
    "so_OnEvent options x w = (Inl e, w') \<Longrightarrow> \<not> errors_is e missing_text"
    "so_OnTurnEvents options xs w = (Inl e, w') \<Longrightarrow> \<not> errors_is e missing_text"
  using assms unfolding sentinel_free_def by blast+

lemma sentinel_free_later: "sentinel_free options (x # later) \<Longrightarrow> sentinel_free options later"
  by (simp add: sentinel_free_def)

lemma sentinel_free_append: "sentinel_free options (xs @ later) \<Longrightarrow> sentinel_free options later"
  by (simp add: sentinel_free_def)

lemma turn_events_sentinel:
  "sentinel_free options signals \<Longrightarrow> turn_events options turn w = (Inl e, w') \<Longrightarrow> \<not> errors_is e missing_text"
  by (auto simp: turn_events_def split: if_splits dest: sentinel_facts(4))

definition asked :: "go_error option \<Rightarrow> bool" where
  "asked f \<longleftrightarrow> (\<forall>g. f = Some g \<longrightarrow> errors_is g missing_text)"

lemma asked_simps [simp]: "asked None" "asked (Some g) \<longleftrightarrow> errors_is g missing_text"
  by (simp_all add: asked_def)

text \<open>One more signal in front of those that were read.\<close>

lemma read_more:
  assumes "\<exists>used. later0 = used @ later \<and> P (pre @ events_of k [x] @ events_of k used)"
  shows "\<exists>used. x # later0 = used @ later \<and> P (pre @ events_of k used)"
  using assms events_of_append [of k "[x]"] by (metis append_Cons append_Nil)

lemma wait_loop_read:
  "wait_loop u compile extract options schema k turn signals w = Some ((r, f), later, w') \<Longrightarrow>
    sentinel_free options signals \<Longrightarrow> turn = turn_of u pre \<Longrightarrow>
    \<forall>x\<in>set pre. \<not> IsTurnCompletedEvent x \<and> \<not> IsTurnErroredEvent x \<Longrightarrow> asked f \<Longrightarrow>
    \<exists>used. signals = used @ later \<and> turn_read u compile extract schema (pre @ events_of k used) r (f = None)"
proof (induction u compile "extract" options schema k turn signals w arbitrary: pre rule: wait_loop.induct)
  case (2 u compile "extract" options schema k turn e rest w)
  then show ?case by (auto simp: sentinel_free_def)
next
  case (4 u compile "extract" options schema k turn rest w)
  obtain a w1 where t: "so_OnTick options k w = (a, w1)" by fastforce
  show ?case
  proof (cases a)
    case (Inl e)
    then have "\<not> errors_is e missing_text" using sentinel_facts(2) [OF 4(3)] t by blast
    then show ?thesis using 4(2,6) t Inl by auto
  next
    case (Inr x)
    then have "wait_loop u compile extract options schema k turn rest w1 = Some ((r, f), later, w')"
      using 4(2) t by simp
    from 4(1) [OF t [symmetric] Inr this sentinel_free_later [OF 4(3)] 4(4-6)] show ?thesis
      by (intro read_more) simp
  qed
next
  case (5 u compile "extract" options schema k turn event rest w)
  note later_free = sentinel_free_later [OF 5(4)]
  show ?case
  proof (cases "ev_SessionID event = k")
    case False
    then have "wait_loop u compile extract options schema k turn rest w = Some ((r, f), later, w')"
      using 5(3) by simp
    from 5(1) [OF False this later_free 5(5-7)] show ?thesis
      using False by (intro read_more) simp
  next
    case own: True
    obtain a w1 where t: "so_OnEvent options event w = (a, w1)" by fastforce
    let ?pre = "pre @ [event]"
    have turn: "turn_Add u event turn = turn_of u ?pre" by (simp add: turn_of_snoc 5(5))
    obtain b w2 where e: "turn_events options (turn_of u ?pre) w1 = (b, w2)" by fastforce
    have quiet: "a = Inl x \<Longrightarrow> \<not> errors_is x missing_text" "b = Inl x \<Longrightarrow> \<not> errors_is x missing_text" for x
      using t e sentinel_facts(3) [OF 5(4)] turn_events_sentinel [OF 5(4)] by blast+
    show ?thesis
    proof (cases a)
      case (Inl x)
      then show ?thesis using 5(3,7) own t quiet by auto
    next
      case a: (Inr x)
      show ?thesis
      proof (cases "IsTurnCompletedEvent event")
        case True
        obtain d w3 where c: "completed_turn compile extract schema (turn_of u ?pre) event w2 = (d, w3)" by fastforce
        show ?thesis
        proof (cases b)
          case (Inl y)
          then show ?thesis using 5(3,7) own t a True e quiet by (auto simp: turn)
        next
          case (Inr y)
          then have "d = (r, f)" "rest = later" using 5(3) own t a True e c by (simp_all add: turn)
          then show ?thesis
            using completed_turn_read [OF c [unfolded \<open>d = (r, f)\<close>] True 5(6)] own
            by (intro exI [where x = "[Received event]"]) simp
        qed
      next
        case False
        show ?thesis
        proof (cases "IsTurnErroredEvent event")
          case True
          then show ?thesis using 5(3,7) own t a False e quiet by (cases b) (auto simp: turn)
        next
          case errored: False
          then have "wait_loop u compile extract options schema k (turn_Add u event turn) rest w1 = Some ((r, f), later, w')"
            using 5(3) own t a False by simp
          from 5(2) [OF _ t [symmetric] a refl False errored this later_free turn _ 5(7)] 5(6) own False errored
          show ?thesis by (intro read_more) simp
        qed
      qed
    qed
  qed
qed auto

text \<open>A turn without a good result, and the turn a result of a session comes from.\<close>

definition refused_turn ::
    "unicode \<Rightarrow> schema_compiler \<Rightarrow> 'w extractor \<Rightarrow> payload option \<Rightarrow> RuntimeEvent list \<Rightarrow> bool" where
  "refused_turn u compile extract schema es \<longleftrightarrow> whole_turn es \<and>
    (\<exists>v w w'. extract (texts_of u es) w = (v, w') \<and> \<not> good_result compile schema v)"

definition accepted_turn ::
    "unicode \<Rightarrow> schema_compiler \<Rightarrow> 'w extractor \<Rightarrow> payload option \<Rightarrow> RuntimeEvent list \<Rightarrow> StructuredSessionResult \<Rightarrow> bool" where
  "accepted_turn u compile extract schema es r \<longleftrightarrow> whole_turn es \<and> sr_JSON r \<noteq> [] \<and>
    schema_issue compile schema (sr_JSON r) = None \<and>
    (\<exists>w w'. extract (texts_of u es) w = ((sr_Text r, sr_JSON r, None), w')) \<and>
    sr_Logprobs r = TurnLogprobs (turn_of u es)"

lemma turn_read_refused: "turn_read u compile extract schema es r False \<Longrightarrow> refused_turn u compile extract schema es"
  by (auto simp: turn_read_def refused_turn_def)

lemma turn_read_accepted:
  "turn_read u compile extract schema es turn True \<Longrightarrow>
    accepted_turn u compile extract schema es ((turn_result turn attempt result)\<lparr>sr_Repaired := b\<rparr>)"
  by (auto simp: turn_read_def accepted_turn_def good_result_def turn_result_def)

lemma attempts_read:
  "attempts u compile c extract options schema k result attempt signals w = Some ((r, None), later, w') \<Longrightarrow>
    sentinel_free options signals \<Longrightarrow>
    \<exists>used turns es. signals = used @ later \<and> events_of k used = concat turns @ es \<and>
      (\<forall>t\<in>set turns. refused_turn u compile extract schema t) \<and> accepted_turn u compile extract schema es r \<and>
      sr_RepairAttempt r = attempt + int (length turns) \<and> sr_Repaired r = (sr_RepairAttempt r > 0) \<and>
      sr_Session r = sr_Session result"
proof (induction u compile c "extract" options schema k result attempt signals w rule: attempts.induct)
  case (1 u compile c "extract" options schema k result attempt signals w)
  obtain turn f rest w1 where wait:
    "waitForStructuredTurn u compile extract options schema k signals w = Some ((turn, f), rest, w1)"
    using 1(2) by (subst (asm) attempts.simps) (auto split: option.splits prod.splits)
  have read: "asked f \<Longrightarrow> \<exists>used. signals = used @ rest \<and>
      turn_read u compile extract schema (events_of k used) turn (f = None)"
    using wait_loop_read [of u compile "extract" options schema k no_turn signals w turn f rest w1 "[]"] wait 1(3)
    by (simp add: waitForStructuredTurn_def turn_of_def)
  show ?case
  proof (cases f)
    case None
    with read obtain used where used: "signals = used @ rest" "turn_read u compile extract schema (events_of k used) turn True"
      by auto
    have r: "r = (turn_result turn attempt result)\<lparr>sr_Repaired := attempt > 0\<rparr>" "rest = later"
      using 1(2) None by (subst (asm) attempts.simps, simp add: wait Let_def)+
    show ?thesis
      using used turn_read_accepted [OF used(2), where attempt = attempt and result = result and b = "attempt > 0"] r
      by (intro exI [where x = used] exI [where x = "[]"] exI [where x = "events_of k used"]) (simp add: turn_result_def)
  next
    case (Some g)
    then have g: "errors_is g missing_text" "\<not> (so_MaxRepairTurns options \<le> attempt \<or> so_RepairPrompt options = [])"
      using 1(2) by (subst (asm) attempts.simps, simp add: wait Let_def split: if_splits)+
    obtain a w2 where miss: "so_OnMissingStructuredResult options w1 = (Inr a, w2)"
      using 1(2) g Some by (subst (asm) attempts.simps) (auto simp: wait Let_def split: sum.splits prod.splits)
    let ?request = "\<lparr>sir_SessionID = k, sir_Text = repair_text (so_RepairPrompt options) g schema,
      sir_Parts = [], sir_Metadata = so_RepairMetadata options\<rparr>"
    obtain b w3 where send: "ctl_SendInput c ?request w2 = (Inr b, w3)"
      using 1(2) g Some miss by (subst (asm) attempts.simps) (auto simp: wait Let_def split: sum.splits prod.splits)
    have again: "attempts u compile c extract options schema k (turn_result turn attempt result) (attempt + 1) rest w3 =
        Some ((r, None), later, w')"
      using 1(2) g Some miss send by (subst (asm) attempts.simps) (simp add: wait Let_def)
    obtain used where used: "signals = used @ rest" "refused_turn u compile extract schema (events_of k used)"
      using read Some g(1) turn_read_refused by fastforce
    have "sentinel_free options rest" using 1(3) used(1) sentinel_free_append by blast
    from 1(1) [OF wait refl refl refl refl Some _ _ miss [symmetric] refl send [symmetric] refl again this] g
    obtain used' turns es where more: "rest = used' @ later" "events_of k used' = concat turns @ es"
      "\<forall>t\<in>set turns. refused_turn u compile extract schema t" "accepted_turn u compile extract schema es r"
      "sr_RepairAttempt r = attempt + 1 + int (length turns)" "sr_Repaired r = (sr_RepairAttempt r > 0)"
      "sr_Session r = sr_Session result"
      by (auto simp: turn_result_def)
    show ?thesis
      using more used
      by (intro exI [where x = "used @ used'"] exI [where x = "events_of k used # turns"] exI [where x = es])
        (simp add: events_of_append)
  qed
qed

text \<open>
  The calls that count as sending, by any measure \<open>sends\<close> of the world: the callbacks send nothing, the
  controller sends once a call.
\<close>

definition sends_at_most :: "nat \<Rightarrow> ('w \<Rightarrow> nat) \<Rightarrow> ('w \<Rightarrow> 'a \<times> 'w) \<Rightarrow> bool" where
  "sends_at_most n sends f \<longleftrightarrow> (\<forall>w. sends (snd (f w)) \<le> sends w + n)"

definition sends_by_input_only ::
    "('w \<Rightarrow> nat) \<Rightarrow> 'w Controller \<Rightarrow> 'w extractor \<Rightarrow> 'w StructuredSessionOptions \<Rightarrow> bool" where
  "sends_by_input_only sends controller extract options \<longleftrightarrow>
    (\<forall>r. sends_at_most 1 sends (ctl_SendInput controller r)) \<and>
    (\<forall>rt r. sends_at_most 0 sends (ctl_StartSession controller rt r)) \<and>
    (\<forall>vs. sends_at_most 0 sends (extract vs)) \<and>
    (\<forall>s. sends_at_most 0 sends (so_OnSessionStarted options s)) \<and>
    (\<forall>s. sends_at_most 0 sends (so_OnTick options s)) \<and>
    (\<forall>e. sends_at_most 0 sends (so_OnEvent options e)) \<and>
    (\<forall>es. sends_at_most 0 sends (so_OnTurnEvents options es)) \<and>
    sends_at_most 0 sends (so_OnMissingStructuredResult options)"

lemma sends_facts:
  assumes "sends_by_input_only sends c extract options"
  shows "sends (snd (ctl_SendInput c r w)) \<le> sends w + 1" "sends (snd (ctl_StartSession c rt r' w)) \<le> sends w"
    "sends (snd (extract vs w)) \<le> sends w" "sends (snd (so_OnSessionStarted options s w)) \<le> sends w"
    "sends (snd (so_OnTick options i w)) \<le> sends w" "sends (snd (so_OnEvent options e w)) \<le> sends w"
    "sends (snd (so_OnTurnEvents options es w)) \<le> sends w" "sends (snd (so_OnMissingStructuredResult options w)) \<le> sends w"
  using assms by (simp_all add: sends_by_input_only_def sends_at_most_def)

lemma completed_turn_sends:
  assumes "sends_by_input_only sends c extract options" "completed_turn compile extract schema turn event w = (r, w')"
  shows "sends w' \<le> sends w"
proof -
  obtain a w1 where x: "extract [FinalText turn, LatestDelta turn, JoinedDelta turn, ev_Summary event] w = (a, w1)"
    by fastforce
  then have "sends w1 \<le> sends w"
    using sends_facts(3) [OF assms(1)] by (metis snd_conv)
  with assms(2) x show ?thesis
    by (auto simp: completed_turn_def split: prod.splits option.splits if_splits)
qed

lemma turn_events_sends:
  assumes "sends_by_input_only sends c extract options" "turn_events options turn w = (r, w')"
  shows "sends w' \<le> sends w"
  using assms(2) sends_facts(7) [OF assms(1), of "EventLines turn" w]
  by (auto simp: turn_events_def split: if_splits)

lemma wait_loop_sends:
  assumes "sends_by_input_only sends c extract options"
    "wait_loop u compile extract options schema sessionID turn signals w = Some (r, later, w')"
  shows "sends w' \<le> sends w"
  using assms
proof (induction u compile "extract" options schema sessionID turn signals w rule: wait_loop.induct)
  case (4 u compile "extract" options schema sessionID turn later w)
  obtain a w1 where t: "so_OnTick options sessionID w = (a, w1)" by fastforce
  then have "sends w1 \<le> sends w"
    using sends_facts(5) [OF 4(2)] by (metis snd_conv)
  with 4 t show ?case by (cases a) fastforce+
next
  case (5 u compile "extract" options schema sessionID turn event later w)
  obtain a w1 where t: "so_OnEvent options event w = (a, w1)" by fastforce
  then have w1: "sends w1 \<le> sends w"
    using sends_facts(6) [OF 5(3)] by (metis snd_conv)
  let ?turn = "turn_Add u event turn"
  obtain b w2 where e: "turn_events options ?turn w1 = (b, w2)" by fastforce
  have w2: "sends w2 \<le> sends w1" using turn_events_sends [OF 5(3) e] .
  obtain d w3 where f: "completed_turn compile extract schema ?turn event w2 = (d, w3)" by fastforce
  have w3: "sends w3 \<le> sends w2" using completed_turn_sends [OF 5(3) f] .
  show ?case
    using 5 t e f w1 w2 w3
    by (cases a; cases b) (auto simp: Let_def split: if_splits, (metis order_trans)+)
qed auto

lemma attempts_bounded:
  assumes "sends_by_input_only sends c extract options"
    "attempts u compile c extract options schema sessionID result attempt signals w = Some ((r, e), later, w')"
  shows "sends w' \<le> sends w + nat (so_MaxRepairTurns options - attempt) \<and>
    attempt \<le> sr_RepairAttempt r \<and> sr_RepairAttempt r \<le> max attempt (so_MaxRepairTurns options)"
  using assms
proof (induction u compile c "extract" options schema sessionID result attempt signals w rule: attempts.induct)
  case (1 u compile c "extract" options schema sessionID result attempt signals w)
  obtain turn f later1 w1 where wait:
    "waitForStructuredTurn u compile extract options schema sessionID signals w = Some ((turn, f), later1, w1)"
    using 1(3) by (subst (asm) attempts.simps) (auto split: option.splits prod.splits)
  have w1: "sends w1 \<le> sends w"
    using wait_loop_sends [OF 1(2)] wait unfolding waitForStructuredTurn_def by blast
  show ?case
  proof (cases "\<exists>g. f = Some g \<and> errors_is g missing_text \<and> attempt < so_MaxRepairTurns options
      \<and> so_RepairPrompt options \<noteq> []")
    case False
    then show ?thesis
      using 1(3) w1 by (subst (asm) attempts.simps)
        (auto simp: wait Let_def turn_result_def split: option.splits if_splits)
  next
    case True
    then obtain g where g: "f = Some g" "errors_is g missing_text" "attempt < so_MaxRepairTurns options"
      "so_RepairPrompt options \<noteq> []" by blast
    obtain a w2 where miss: "so_OnMissingStructuredResult options w1 = (a, w2)" by fastforce
    have w2: "sends w2 \<le> sends w1"
      using sends_facts(8) [OF 1(2), of w1] miss by simp
    let ?request = "\<lparr>sir_SessionID = sessionID, sir_Text = repair_text (so_RepairPrompt options) g schema,
      sir_Parts = [], sir_Metadata = so_RepairMetadata options\<rparr>"
    obtain b w3 where send: "ctl_SendInput c ?request w2 = (b, w3)" by fastforce
    have w3: "sends w3 \<le> sends w2 + 1"
      using sends_facts(1) [OF 1(2), of ?request w2] send by simp
    have left: "nat (so_MaxRepairTurns options - attempt) = nat (so_MaxRepairTurns options - (attempt + 1)) + 1"
      using g(3) by linarith
    show ?thesis
    proof (cases a)
      case (Inl x)
      then show ?thesis
        using 1(3) g w1 w2 miss by (subst (asm) attempts.simps) (auto simp: wait Let_def turn_result_def)
    next
      case a: (Inr x)
      show ?thesis
      proof (cases b)
        case (Inl y)
        then show ?thesis
          using 1(3) g w1 w2 w3 miss send a left
          by (subst (asm) attempts.simps) (auto simp: wait Let_def turn_result_def)
      next
        case (Inr y)
        have "attempts u compile c extract options schema sessionID (turn_result turn attempt result)
            (attempt + 1) later1 w3 = Some ((r, e), later, w')"
          using 1(3) g miss send a Inr by (subst (asm) attempts.simps) (simp add: wait Let_def)
        from 1(1) [OF wait refl refl refl refl g(1) _ _ miss [symmetric] a send [symmetric] Inr 1(2) this] g
        have "sends w' \<le> sends w3 + nat (so_MaxRepairTurns options - (attempt + 1)) \<and>
            attempt + 1 \<le> sr_RepairAttempt r \<and>
            sr_RepairAttempt r \<le> max (attempt + 1) (so_MaxRepairTurns options)"
          by simp
        then show ?thesis using w1 w2 w3 left g(3) by linarith
      qed
    qed
  qed
qed

text \<open>The loop ends with the context at the latest.\<close>

lemma wait_loop_ends:
  "CtxDone x \<in> set signals \<Longrightarrow>
    \<exists>r f later w'. wait_loop u compile extract options schema sessionID turn signals w = Some ((r, f), later, w') \<and>
      (f = Some x \<or> CtxDone x \<in> set later)"
proof (induction u compile "extract" options schema sessionID turn signals w rule: wait_loop.induct)
  case (4 u compile "extract" options schema sessionID turn later w)
  then show ?case by (cases "so_OnTick options sessionID w"; cases "fst (so_OnTick options sessionID w)") auto
next
  case (5 u compile "extract" options schema sessionID turn event later w)
  obtain a w1 where t: "so_OnEvent options event w = (a, w1)" by fastforce
  obtain b w2 where e: "turn_events options (turn_Add u event turn) w1 = (b, w2)" by fastforce
  obtain d g w3 where f: "completed_turn compile extract schema (turn_Add u event turn) event w2 = ((d, g), w3)"
    by (metis surj_pair)
  show ?case
    using 5 t e f by (cases a; cases b) (auto simp: Let_def)
qed auto

lemma attempts_end:
  "CtxDone x \<in> set signals \<Longrightarrow> \<not> errors_is x missing_text \<Longrightarrow>
    attempts u compile c extract options schema sessionID result attempt signals w \<noteq> None"
proof (induction u compile c "extract" options schema sessionID result attempt signals w rule: attempts.induct)
  case (1 u compile c "extract" options schema sessionID result attempt signals w)
  obtain turn f later1 w1 where wait:
    "waitForStructuredTurn u compile extract options schema sessionID signals w = Some ((turn, f), later1, w1)"
    and later: "f = Some x \<or> CtxDone x \<in> set later1"
    using wait_loop_ends [OF 1(2)] unfolding waitForStructuredTurn_def by metis
  show ?case
  proof (cases "f = Some x")
    case True
    then show ?thesis using 1(3) by (subst attempts.simps) (simp add: wait Let_def)
  next
    case False
    with later have later: "CtxDone x \<in> set later1" by simp
    note step = 1(1) [OF wait refl refl refl refl _ _ _ _ _ _ _ later 1(3)]
    show ?thesis
      using step by (subst attempts.simps) (auto simp: wait Let_def split: option.split sum.split prod.split)
  qed
qed

text \<open>
  C36. A structured session ends, at the latest with its context, and it does not go on asking: whatever the
  backend answers and whatever the callbacks do, at most \<open>MaxRepairTurns\<close> further inputs are sent to it.
\<close>

theorem RunStructuredSession_bounded:
  assumes "sends_by_input_only sends c extract options" "CtxDone x \<in> set signals" "\<not> errors_is x missing_text"
  shows "\<exists>r e later w'. RunStructuredSession u compile c runtime request (Some extract) options signals w =
      Some ((r, e), later, w') \<and> sends w' \<le> sends w + nat (so_MaxRepairTurns options) \<and>
      sr_RepairAttempt r \<le> max 0 (so_MaxRepairTurns options)"
proof -
  let ?request = "StartSessionRequest_Normalize request"
  obtain a w1 where start: "ctl_StartSession c runtime ?request w = (a, w1)" by fastforce
  have w1: "sends w1 \<le> sends w" using sends_facts(2) [OF assms(1), of runtime ?request w] start by simp
  show ?thesis
  proof (cases a)
    case (Inl e)
    then show ?thesis
      using w1 start by (simp add: RunStructuredSession_def Let_def no_structured_result_def)
  next
    case session: (Inr session)
    obtain b w2 where hook: "so_OnSessionStarted options session w1 = (b, w2)" by fastforce
    have w2: "sends w2 \<le> sends w1" using sends_facts(4) [OF assms(1), of session w1] hook by simp
    show ?thesis
    proof (cases b)
      case (Inl e)
      then show ?thesis
        using w1 w2 start session hook by (simp add: RunStructuredSession_def Let_def no_structured_result_def)
    next
      case (Inr y)
      let ?run = "attempts u compile c extract options (ssr_ResponseSchema ?request) (rs_SessionID session)
        (no_structured_result\<lparr>sr_Session := Some session\<rparr>) 0 signals w2"
      obtain r e later w' where run: "?run = Some ((r, e), later, w')"
        using attempts_end [OF assms(2,3)] by (metis not_None_eq surj_pair)
      then show ?thesis
        using attempts_bounded [OF assms(1) run] w1 w2 start session hook Inr
        by (simp add: RunStructuredSession_def Let_def)
    qed
  qed
qed

lemma RunStructuredSession_sound_turns:
  assumes "RunStructuredSession u compile c runtime request (Some extract) options signals w =
      Some ((r, None), later, w')" "sentinel_free options signals"
  shows "\<exists>session used turns es.
    fst (ctl_StartSession c runtime (StartSessionRequest_Normalize request) w) = Inr session \<and>
    sr_Session r = Some session \<and> signals = used @ later \<and>
    events_of (rs_SessionID session) used = concat turns @ es \<and>
    (\<forall>t\<in>set turns. refused_turn u compile extract (ssr_ResponseSchema (StartSessionRequest_Normalize request)) t) \<and>
    accepted_turn u compile extract (ssr_ResponseSchema (StartSessionRequest_Normalize request)) es r \<and>
    sr_RepairAttempt r = int (length turns) \<and> sr_Repaired r = (turns \<noteq> [])"
proof -
  let ?request = "StartSessionRequest_Normalize request"
  obtain session w1 where start: "ctl_StartSession c runtime ?request w = (Inr session, w1)"
    using assms(1) by (auto simp: RunStructuredSession_def Let_def split: prod.splits sum.splits)
  obtain a w2 where "so_OnSessionStarted options session w1 = (Inr a, w2)"
    using assms(1) start by (auto simp: RunStructuredSession_def Let_def split: prod.splits sum.splits)
  then have "attempts u compile c extract options (ssr_ResponseSchema ?request) (rs_SessionID session)
      (no_structured_result\<lparr>sr_Session := Some session\<rparr>) 0 signals w2 = Some ((r, None), later, w')"
    using assms(1) start by (simp add: RunStructuredSession_def Let_def)
  from attempts_read [OF this assms(2)] obtain used turns es where
    "signals = used @ later" "events_of (rs_SessionID session) used = concat turns @ es"
    "\<forall>t\<in>set turns. refused_turn u compile extract (ssr_ResponseSchema ?request) t"
    "accepted_turn u compile extract (ssr_ResponseSchema ?request) es r" "sr_RepairAttempt r = int (length turns)"
    "sr_Repaired r = (turns \<noteq> [])" "sr_Session r = Some session"
    by auto
  then show ?thesis
    using start by (intro exI [where x = session] exI [where x = used] exI [where x = turns] exI [where x = es]) simp
qed

lemma RunStructuredSession_attempts:
  assumes "RunStructuredSession u compile c runtime request (Some extract) options signals w = Some ((r, e), later, w')"
  shows "sr_RepairAttempt r \<le> max 0 (so_MaxRepairTurns options)"
proof -
  have "sends_by_input_only (\<lambda>_. 0) c extract options" by (simp add: sends_by_input_only_def sends_at_most_def)
  from attempts_bounded [OF this] show ?thesis
    using assms by (auto simp: RunStructuredSession_def Let_def no_structured_result_def split: prod.splits sum.splits)
qed

text \<open>
  C37. A structured session that returns without an error has been started with the normalized request, and
  its result is that of one of the session's own turns, whatever else arrives in between: the events of this
  session that were read are those of the turns before, none of which had a good result, and of the turn of
  the result; what is returned is what the extractor made of the four texts of that turn, it is not empty,
  and the schema of the request has nothing against it. The number of the attempt is the number of the turns
  before. (The error of a missing result is the session's own: no callback and no context may raise it.)
\<close>

theorem RunStructuredSession_sound:
  assumes "RunStructuredSession u compile c runtime request (Some extract) options signals w =
      Some ((r, None), later, w')" "sentinel_free options signals"
  shows "\<exists>session used turns es.
    fst (ctl_StartSession c runtime (StartSessionRequest_Normalize request) w) = Inr session \<and>
    sr_Session r = Some session \<and> signals = used @ later \<and>
    events_of (rs_SessionID session) used = concat turns @ es \<and>
    (\<forall>t\<in>set turns. refused_turn u compile extract (ssr_ResponseSchema (StartSessionRequest_Normalize request)) t) \<and>
    accepted_turn u compile extract (ssr_ResponseSchema (StartSessionRequest_Normalize request)) es r \<and>
    sr_RepairAttempt r = int (length turns) \<and> sr_Repaired r = (turns \<noteq> [])"
  by (rule RunStructuredSession_sound_turns [OF assms])

definition any_unicode :: unicode where
  "any_unicode = \<lparr>uc_lower = id, uc_quote = id, uc_equal_fold = (=)\<rparr>"

definition sample_controller :: "nat Controller" where
  "sample_controller =
    \<lparr>ctl_Describe = (\<lambda>_. []), ctl_StartSession = (\<lambda>_ r. Pair (Inr (no_session\<lparr>rs_SessionID := ssr_SessionID r\<rparr>))),
     ctl_SendInput = (\<lambda>_ n. (Inl (Err ''busy''), n + 1)), ctl_StopSession = (\<lambda>_. Pair (Inl (Err ''busy''))),
     ctl_GetTrackedSession = (\<lambda>_ _. Pair (Inl (Err ''unknown'')))\<rparr>"

definition sample_extract :: "nat extractor" where
  "sample_extract vs n = ((''text'', hd vs, if hd vs = [] then Some (Err ''empty'') else None), n)"

definition sample_options :: "nat StructuredSessionOptions" where
  "sample_options =
    \<lparr>so_RepairPrompt = ''again'', so_RepairMetadata = [], so_MaxRepairTurns = 2,
     so_OnSessionStarted = (\<lambda>_. Pair (Inr ())), so_OnTick = (\<lambda>_. Pair (Inr ())), so_OnEvent = (\<lambda>_. Pair (Inr ())),
     so_OnTurnEvents = (\<lambda>_. Pair (Inr ())), so_OnMissingStructuredResult = Pair (Inr ())\<rparr>"

definition sample_start :: StartSessionRequest where
  "sample_start = \<lparr>ssr_SessionID = ''s'', ssr_CWD = [], ssr_Model = [], ssr_ModelOptions = no_options,
     ssr_Prompt = ''go'', ssr_Metadata = [], ssr_ResponseSchema = None\<rparr>"

definition sample_completed :: "string \<Rightarrow> RuntimeEvent" where
  "sample_completed t = NewRuntimeEvent 0 1 (no_session\<lparr>rs_SessionID := ''s''\<rparr>) EventTurnCompleted [] ''t'' []
     [(''final_text'', GStr t)]"

theorem RunStructuredSession_bounded_witness:
  "\<exists>r e later w'. RunStructuredSession any_unicode (\<lambda>_. None) sample_controller ''pi'' sample_start (Some sample_extract)
      sample_options [Received (sample_completed []), CtxDone (Err ''timeout'')] 0 = Some ((r, e), later, w') \<and>
      id w' \<le> id (0::nat) + nat (so_MaxRepairTurns sample_options) \<and>
      sr_RepairAttempt r \<le> max 0 (so_MaxRepairTurns sample_options)"
  by (rule RunStructuredSession_bounded [where x = "Err ''timeout''"])
    (simp_all add: sends_by_input_only_def sends_at_most_def sample_controller_def sample_extract_def sample_options_def)

text \<open>
  The witness: a schema that wants the object to have a member. The first turn of the session
  ends with the empty object, then
  another session ends a turn, and the repair turn of the session ends with a member.
\<close>

definition strict :: schema_compiler where
  "strict _ = Some (\<lambda>v. case v of GMap (Some (x # xs)) \<Rightarrow> None | _ \<Rightarrow> Some ''empty'')"

definition one_member :: "string \<Rightarrow> string" where
  "one_member key = ''{'' @ quoted_key key @ dotted @ ''}''"

definition asking_controller :: "nat Controller" where
  "asking_controller = sample_controller\<lparr>ctl_SendInput := (\<lambda>_ n. (Inr (sample_completed []), n + 1))\<rparr>"

definition schema_start :: StartSessionRequest where
  "schema_start = sample_start\<lparr>ssr_ResponseSchema := Some [(''type'', GStr ''object'')]\<rparr>"

definition other_completed :: RuntimeEvent where
  "other_completed = NewRuntimeEvent 0 1 (no_session\<lparr>rs_SessionID := ''t''\<rparr>) EventTurnCompleted [] ''t'' []
     [(''final_text'', GStr (one_member ''b''))]"

definition repaired_run :: "((StructuredSessionResult \<times> go_error option) \<times> signal list \<times> nat) option" where
  "repaired_run = RunStructuredSession any_unicode strict asking_controller ''pi'' schema_start (Some sample_extract)
     sample_options [Received (sample_completed ''{}''), Received other_completed, Tick,
       Received (sample_completed (one_member ''a''))] 0"

lemma repaired_run_result:
  "case repaired_run of Some ((r, None), _) \<Rightarrow> sr_JSON r = one_member ''a'' \<and> sr_RepairAttempt r = 1 | _ \<Rightarrow> False"
  by code_simp

theorem RunStructuredSession_sound_witness:
  "\<exists>(r :: StructuredSessionResult) es session. sr_Session r = Some session \<and> sr_JSON r = one_member ''a'' \<and> sr_Repaired r \<and>
    accepted_turn any_unicode strict sample_extract (Some [(''type'', GStr ''object'')]) es r"
proof -
  obtain r later w' where "repaired_run = Some ((r, None), later, w')" and
    r: "sr_JSON r = one_member ''a''" "sr_RepairAttempt r = 1"
    using repaired_run_result by (auto split: option.splits prod.splits)
  note run = this(1) [unfolded repaired_run_def]
  have "sentinel_free sample_options [Received (sample_completed ''{}''), Received other_completed, Tick,
       Received (sample_completed (one_member ''a''))]"
    by (simp add: sentinel_free_def sample_options_def)
  moreover have "ssr_ResponseSchema (StartSessionRequest_Normalize schema_start) = Some [(''type'', GStr ''object'')]"
    by (simp add: StartSessionRequest_Normalize_def schema_start_def)
  ultimately show ?thesis using RunStructuredSession_sound [OF run] r by fastforce
qed

section \<open>Fan-outs\<close>

text \<open>
  What one session alone makes of its events: its turn up to the first event that ends it.
\<close>

fun session_outcome :: "unicode \<Rightarrow> RuntimeEvent list \<Rightarrow> TurnAccumulator \<Rightarrow> FanoutTargetResult \<Rightarrow> FanoutTargetResult option" where
  "session_outcome u [] turn r = None"
| "session_outcome u (e # es) turn r =
    (case ended_result u e (turn_Add u e turn) r of
       Some r' \<Rightarrow> Some r' | None \<Rightarrow> session_outcome u es (turn_Add u e turn) r)"

text \<open>A result without what the controller says of the session at the end.\<close>

definition own_part :: "FanoutTargetResult \<Rightarrow> FanoutTargetResult" where
  "own_part r = r\<lparr>fr_Session := None, fr_Stopped := False, fr_StopError := [], fr_RecordedUsage := no_usage,
    fr_RecordedCostUSD := f0\<rparr>"

definition state_outcome :: "unicode \<Rightarrow> signal list \<Rightarrow> string \<times> fanoutTargetState \<Rightarrow> FanoutTargetResult option" where
  "state_outcome u signals s =
    map_option own_part (session_outcome u (events_of (fst s) signals) (fs_accumulator (snd s)) (fs_result (snd s)))"

definition outcomes :: "unicode \<Rightarrow> signal list \<Rightarrow> (string \<times> fanoutTargetState) list \<Rightarrow> FanoutTargetResult option multiset" where
  "outcomes u signals states = mset (map (state_outcome u signals) (filter (\<lambda>s. \<not> fs_done (snd s)) states))"

lemma track_result_own: "track_result c i r w = (r', w') \<Longrightarrow> own_part r' = own_part r"
  by (auto simp: track_result_def record_session_def own_part_def split: prod.splits sum.splits)

lemma finishFanoutTarget_own:
  assumes "finishFanoutTarget c keep i r w = (r', w')"
  shows "own_part r' = own_part r"
proof -
  obtain r1 w1 where t: "track_result c i r w = (r1, w1)" by fastforce
  have stopped: "own_part (x\<lparr>fr_Stopped := b\<rparr>) = own_part x" "own_part (x\<lparr>fr_StopError := e\<rparr>) = own_part x" for x b e
    by (simp_all add: own_part_def)
  show ?thesis
    using assms track_result_own [OF t]
    by (auto simp: finishFanoutTarget_def t stopped split: if_splits prod.splits sum.splits dest: track_result_own)
qed

lemma update_at: "k \<notin> fst ` set xs \<Longrightarrow> AList.update k v (xs @ (k, v0) # ys) = xs @ (k, v) # ys"
  by (induction xs) auto

lemma outcomes_cong:
  "(\<And>s. s \<in> set states \<Longrightarrow> \<not> fs_done (snd s) \<Longrightarrow> events_of (fst s) signals = events_of (fst s) signals') \<Longrightarrow>
    outcomes u signals states = outcomes u signals' states"
  unfolding outcomes_def state_outcome_def by (rule arg_cong [where f = mset]) (rule map_cong, auto)

lemma outcomes_skip: "outcomes u (Tick # later) states = outcomes u later states"
  by (rule outcomes_cong) simp

lemma outcomes_other:
  "(\<And>s. s \<in> set states \<Longrightarrow> \<not> fs_done (snd s) \<Longrightarrow> fst s \<noteq> ev_SessionID e) \<Longrightarrow>
    outcomes u (Received e # later) states = outcomes u later states"
  by (rule outcomes_cong) fastforce

lemma outcomes_append: "outcomes u signals (xs @ ys) = outcomes u signals xs + outcomes u signals ys"
  by (simp add: outcomes_def)

lemma outcomes_cons:
  "outcomes u signals (s # ys) =
    (if fs_done (snd s) then {#} else {# state_outcome u signals s #}) + outcomes u signals ys"
  by (simp add: outcomes_def)

lemma outcomes_event:
  assumes "distinct (map fst states)" "map_of states (ev_SessionID e) = Some st" "\<not> fs_done st"
    "ended_result u e (turn_Add u e (fs_accumulator st)) (fs_result st) = None"
  shows "outcomes u (Received e # later) states =
    outcomes u later (AList.update (ev_SessionID e) (st\<lparr>fs_accumulator := turn_Add u e (fs_accumulator st)\<rparr>) states)"
proof -
  obtain xs ys where split: "states = xs @ (ev_SessionID e, st) # ys"
    using assms(2) map_of_SomeD split_list by fast
  with assms(1) have other: "ev_SessionID e \<notin> fst ` set xs" "ev_SessionID e \<notin> fst ` set ys" by auto
  have "outcomes u (Received e # later) xs = outcomes u later xs" "outcomes u (Received e # later) ys = outcomes u later ys"
    using other by (auto intro!: outcomes_other simp: rev_image_eqI)
  then show ?thesis
    using assms(3,4) other by (simp add: split update_at outcomes_append outcomes_cons state_outcome_def)
qed

lemma outcomes_ended:
  assumes "distinct (map fst states)" "map_of states (ev_SessionID e) = Some st" "\<not> fs_done st"
    "ended_result u e (turn_Add u e (fs_accumulator st)) (fs_result st) = Some r"
    "own_part r' = own_part r" "fs_done st'"
  shows "outcomes u (Received e # later) states =
    {# Some (own_part r') #} + outcomes u later (AList.update (ev_SessionID e) st' states)"
proof -
  obtain xs ys where split: "states = xs @ (ev_SessionID e, st) # ys"
    using assms(2) map_of_SomeD split_list by fast
  with assms(1) have other: "ev_SessionID e \<notin> fst ` set xs" "ev_SessionID e \<notin> fst ` set ys" by auto
  have "outcomes u (Received e # later) xs = outcomes u later xs" "outcomes u (Received e # later) ys = outcomes u later ys"
    using other by (auto intro!: outcomes_other simp: rev_image_eqI)
  then show ?thesis
    using assms(3-6) other by (simp add: split update_at outcomes_append outcomes_cons state_outcome_def)
qed

lemma undone_update:
  assumes "distinct (map fst states)" "map_of states k = Some st" "\<not> fs_done st"
  shows "length (filter (\<lambda>s. \<not> fs_done (snd s)) (AList.update k st' states)) =
    length (filter (\<lambda>s. \<not> fs_done (snd s)) states) - (if fs_done st' then 1 else 0)"
proof -
  obtain xs ys where split: "states = xs @ (k, st) # ys"
    using assms(2) map_of_SomeD split_list by fast
  with assms(1) have "k \<notin> fst ` set xs" by auto
  then show ?thesis using assms(3) by (simp add: split update_at)
qed

text \<open>The results of the loop are those before it and what every session makes of its own events.\<close>

lemma fanout_loop_outcomes:
  assumes "fanout_loop u c keep n states results signals w = Some (Inr out, later, w')" "distinct (map fst states)"
    "length (filter (\<lambda>s. \<not> fs_done (snd s)) states) = n"
  shows "mset (map (Some \<circ> own_part) out) = mset (map (Some \<circ> own_part) results) + outcomes u signals states"
  using assms
proof (induction u c keep n states results signals w rule: fanout_loop.induct)
  case (1 u c keep states results signals w)
  then have "filter (\<lambda>s. \<not> fs_done (snd s)) states = []" by simp
  with 1(1) show ?case by (simp only: outcomes_def fanout_loop.simps) simp
next
  case (5 u c keep n states results later w)
  then have "mset (map (Some \<circ> own_part) out) = mset (map (Some \<circ> own_part) results) + outcomes u later states"
    by (metis fanout_loop.simps(5))
  then show ?case by (simp only: outcomes_skip)
next
  case (6 u c keep n states results event later w)
  note run = 6(5) and keys = 6(6) and undone = 6(7)
  show ?case
  proof (cases "map_of states (ev_SessionID event)")
    case None
    then have "\<And>s. s \<in> set states \<Longrightarrow> fst s \<noteq> ev_SessionID event"
      by (metis map_of_eq_None_iff image_eqI)
    then have "outcomes u (Received event # later) states = outcomes u later states"
      by (blast intro: outcomes_other)
    with 6(1) [OF None _ keys undone] run None show ?thesis by simp
  next
    case (Some st)
    let ?turn = "turn_Add u event (fs_accumulator st)"
    show ?thesis
    proof (cases "fs_done st")
      case True
      then have "s \<in> set states \<Longrightarrow> \<not> fs_done (snd s) \<Longrightarrow> fst s \<noteq> ev_SessionID event" for s
        by (metis Some keys map_of_is_SomeI option.inject prod.collapse)
      then have "outcomes u (Received event # later) states = outcomes u later states"
        by (blast intro: outcomes_other)
      with 6(2) [OF Some True _ keys undone] run Some True show ?thesis by simp
    next
      case False
      show ?thesis
      proof (cases "ended_result u event ?turn (fs_result st)")
        case None
        let ?states = "AList.update (ev_SessionID event) (st\<lparr>fs_accumulator := ?turn\<rparr>) states"
        have "fanout_loop u c keep (Suc n) ?states results later w = fanout_loop u c keep (Suc n) states results
            (Received event # later) w"
          using Some False None by (simp add: Let_def)
        note step = trans [OF this run]
        have "length (filter (\<lambda>s. \<not> fs_done (snd s)) ?states) = Suc n"
          using undone_update [OF keys Some False] undone False by simp
        then have "mset (map (Some \<circ> own_part) out) = mset (map (Some \<circ> own_part) results) + outcomes u later ?states"
          using 6(3) [OF Some False refl _ step distinct_update [OF keys]] None by (simp add: comp_def)
        then show ?thesis by (simp only: outcomes_event [OF keys Some False None])
      next
        case ended: (Some r)
        obtain r1 w1 where f: "finishFanoutTarget c keep (fs_sessionID st) r w = (r1, w1)" by fastforce
        let ?st = "st\<lparr>fs_accumulator := ?turn, fs_done := True, fs_result := r1\<rparr>"
        let ?states = "AList.update (ev_SessionID event) ?st states"
        have "fanout_loop u c keep n ?states (results @ [r1]) later w1 = fanout_loop u c keep (Suc n) states results
            (Received event # later) w"
          using Some False ended f by (simp add: Let_def)
        note step = trans [OF this run]
        have "length (filter (\<lambda>s. \<not> fs_done (snd s)) ?states) = n"
          using undone_update [OF keys Some False] undone by simp
        moreover have "ended_result u event (fs_accumulator (st\<lparr>fs_accumulator := ?turn\<rparr>))
            (fs_result (st\<lparr>fs_accumulator := ?turn\<rparr>)) = Some r"
          "(r1, w1) = finishFanoutTarget c keep (fs_sessionID (st\<lparr>fs_accumulator := ?turn\<rparr>)) r w"
          using ended f by simp_all
        ultimately have "mset (map (Some \<circ> own_part) out) =
            mset (map (Some \<circ> own_part) (results @ [r1])) + outcomes u later ?states"
          using 6(4) [OF Some False refl _ _ step distinct_update [OF keys]] by blast
        then show ?thesis
          by (subst outcomes_ended [OF keys Some False ended finishFanoutTarget_own [OF f], of ?st]) (simp_all add: comp_def)
      qed
    qed
  qed
qed auto

text \<open>
  The reference of a start: what the controller answers to the request of each target, an error or the ID of
  a session, and what is to be reported of a target for its answer.
\<close>

definition fanout_request :: "FanoutOptions \<Rightarrow> string \<Rightarrow> FanoutTarget \<Rightarrow> StartSessionRequest" where
  "fanout_request options i target =
    \<lparr>ssr_SessionID = ''fanout-'' @ i, ssr_CWD = [], ssr_Model = ft_Model target,
     ssr_ModelOptions = ft_Options target, ssr_Prompt = fop_Prompt options,
     ssr_Metadata = fanout_metadata (fop_Metadata options) (fop_Prompt options) target, ssr_ResponseSchema = None\<rparr>"

fun start_answers ::
    "'w Controller \<Rightarrow> ('w \<Rightarrow> string \<times> 'w) \<Rightarrow> FanoutOptions \<Rightarrow> FanoutTarget list \<Rightarrow> 'w
     \<Rightarrow> (FanoutTarget \<times> (go_error + string)) list \<times> 'w" where
  "start_answers c randomID options [] w = ([], w)"
| "start_answers c randomID options (t # ts) w =
    (let (i, w1) = randomID w;
         (a, w2) = ctl_StartSession c (ft_Backend t) (fanout_request options i t) w1;
         (answers, w3) = start_answers c randomID options ts w2
     in ((t, map_sum id rs_SessionID a) # answers, w3))"

definition started :: "(FanoutTarget \<times> (go_error + string)) list \<Rightarrow> string list" where
  "started answers = concat (map (\<lambda>(t, a). case a of Inl _ \<Rightarrow> [] | Inr k \<Rightarrow> [k]) answers)"

definition expected ::
    "unicode \<Rightarrow> signal list \<Rightarrow> FanoutTarget \<times> (go_error + string) \<Rightarrow> FanoutTargetResult option" where
  "expected u signals = (\<lambda>(t, a). map_option own_part (case a of
     Inl e \<Rightarrow> Some ((target_result t)\<lparr>fr_Error := error_text e\<rparr>)
   | Inr k \<Rightarrow> session_outcome u (events_of k signals) no_turn (target_result t)))"

lemma started_simps [simp]:
  "started [] = []" "started ((t, Inl e) # xs) = started xs" "started ((t, Inr k) # xs) = k # started xs"
  by (simp_all add: started_def)

lemma update_new: "k \<notin> fst ` set xs \<Longrightarrow> AList.update k v xs = xs @ [(k, v)]"
  by (induction xs) auto

definition fresh_state :: "FanoutTarget \<Rightarrow> string \<Rightarrow> fanoutTargetState" where
  "fresh_state t k = \<lparr>fs_result = target_result t, fs_sessionID = k, fs_done = False, fs_accumulator = no_turn\<rparr>"

lemma state_outcome_fresh: "state_outcome u signals (k, fresh_state t k) = expected u signals (t, Inr k)"
  by (simp add: state_outcome_def expected_def fresh_state_def)

lemma start_targets_cons:
  assumes "randomID w = (i, w1)" "ctl_StartSession c (ft_Backend t) (fanout_request options i t) w1 = (a, w2)"
  shows "start_targets c randomID options (t # ts) states results w =
    (case a of
       Inl e \<Rightarrow> start_targets c randomID options ts states (results @ [(target_result t)\<lparr>fr_Error := error_text e\<rparr>]) w2
     | Inr s \<Rightarrow> start_targets c randomID options ts
         (AList.update (rs_SessionID s) (fresh_state t (rs_SessionID s)) states) results w2)"
  using assms by (simp add: fanout_request_def fresh_state_def split: sum.split)

text \<open>Every target is a failed result or a session with its first state, as the controller answered.\<close>

lemma start_targets_answers:
  "start_targets c randomID options targets states failed w = (states', failed', w') \<Longrightarrow>
    start_answers c randomID options targets w = (answers, v) \<Longrightarrow>
    distinct (map fst states @ started answers) \<Longrightarrow> \<forall>s\<in>set states. \<not> fs_done (snd s) \<Longrightarrow>
    w' = v \<and> distinct (map fst states') \<and> (\<forall>s\<in>set states'. \<not> fs_done (snd s)) \<and>
    mset (map (Some \<circ> own_part) failed') + mset (map (state_outcome u signals) states') =
      mset (map (Some \<circ> own_part) failed) + mset (map (state_outcome u signals) states) +
      mset (map (expected u signals) answers)"
proof (induction targets arbitrary: states failed w answers)
  case (Cons t ts)
  obtain i w1 where i: "randomID w = (i, w1)" by fastforce
  obtain a w2 where a: "ctl_StartSession c (ft_Backend t) (fanout_request options i t) w1 = (a, w2)" by fastforce
  obtain rest v' where rest: "start_answers c randomID options ts w2 = (rest, v')" by fastforce
  have answers: "answers = (t, map_sum id rs_SessionID a) # rest" "v' = v"
    using Cons.prems(2) i a rest by (simp_all add: Let_def)
  note rest = rest [unfolded answers(2)]
  note step = Cons.prems(1) [unfolded start_targets_cons [of randomID w i w1 c t options a w2, OF i a]]
  show ?case
  proof (cases a)
    case (Inl e)
    note run = step [unfolded Inl sum.case]
    have "distinct (map fst states @ started rest)" using Cons.prems(3) answers Inl by simp
    from Cons.IH [OF run rest this Cons.prems(4)] show ?thesis
      using answers Inl by (simp add: expected_def)
  next
    case (Inr s)
    note run = step [unfolded Inr sum.case]
    let ?k = "rs_SessionID s"
    have new: "?k \<notin> fst ` set states" using Cons.prems(3) answers Inr by auto
    note states' = update_new [OF new, of "fresh_state t ?k"]
    have "distinct (map fst (AList.update ?k (fresh_state t ?k) states) @ started rest)"
      using Cons.prems(3) answers Inr by (auto simp: states')
    note new_keys = this
    have "\<forall>s\<in>set (AList.update ?k (fresh_state t ?k) states). \<not> fs_done (snd s)"
      using Cons.prems(4) unfolding states' by (auto simp: fresh_state_def)
    from Cons.IH [OF run rest new_keys this] show ?thesis
      using answers Inr unfolding states' by (simp add: state_outcome_fresh)
  qed
qed simp

text \<open>
  C38. The sessions of a fan-out run at the same time and their events arrive mixed, but the results do not
  depend on how. A run that returns has exactly one result for every target, as the controller answered to
  its request: for a target that did not start, the result with the error of the start; for a target whose
  session started, the text, the error, the number of events and the log probabilities that its session's own
  events make, up to the first that ends its turn. (The sessions that started have different IDs; what the
  controller reports of a session at its end is left out of the comparison.)
\<close>

theorem fanout_results_by_session:
  assumes "RunFanout u c randomID options signals w = Some (Inr result, later, w')"
    "ResolveFanoutTargets u (ctl_Describe c w) (fop_Targets options) = Some (Inr resolved)"
    "start_answers c randomID options (fanout_targets options resolved) w = (answers, w1)" "distinct (started answers)"
  shows "map fst answers = fanout_targets options resolved \<and>
    mset (map (Some \<circ> own_part) (fo_Targets result)) = mset (map (expected u signals) answers)"
proof -
  obtain states failed w2 where
    start: "start_targets c randomID options (fanout_targets options resolved) [] [] w = (states, failed, w2)"
    by (metis prod_cases3)
  have prompt: "trim_space (fop_Prompt options) \<noteq> []"
    using assms(1) by (auto simp: RunFanout_def)
  have run: "map_option (\<lambda>(r, later, w). (map_sum id (fanout_output (fop_Prompt options)) r, later, w))
      (fanout_loop u c (fop_KeepSessions options) (length states) states failed signals w2) = Some (Inr result, later, w')"
    using assms(1) by (simp add: RunFanout_def prompt assms(2) start)
  obtain a later' v where loop0: "fanout_loop u c (fop_KeepSessions options) (length states) states failed signals w2 =
      Some (a, later', v)"
    using run by (auto split: prod.splits)
  obtain out where a: "a = Inr out" "fo_Targets result = out"
    using run loop0 by (cases a) (auto simp: fanout_output_def)
  note loop = loop0 [unfolded a] and out = a(2)
  have fresh: "distinct (map fst states)" "\<forall>s\<in>set states. \<not> fs_done (snd s)"
    "mset (map (Some \<circ> own_part) failed) + mset (map (state_outcome u signals) states) = mset (map (expected u signals) answers)"
    using start_targets_answers [OF start assms(3), of u signals] assms(4) by simp_all
  then have all: "filter (\<lambda>s. \<not> fs_done (snd s)) states = states" by simp
  have "map fst answers = ts" if "start_answers c randomID options ts v = (answers, v')" for ts v answers v'
    using that by (induction ts arbitrary: v answers) (auto split: prod.splits)
  with fanout_loop_outcomes [OF loop fresh(1)] fresh(3) all out assms(3) show ?thesis by (simp add: outcomes_def)
qed

text \<open>Random IDs that are the number of IDs so far.\<close>

definition sample_id :: "nat \<Rightarrow> string \<times> nat" where
  "sample_id n = (replicate n (CHR ''x''), n + 1)"

definition sample_done :: "string \<Rightarrow> string \<Rightarrow> RuntimeEvent" where
  "sample_done i t = NewRuntimeEvent 0 1 (no_session\<lparr>rs_SessionID := i\<rparr>) EventTurnCompleted [] ''t'' []
     [(''final_text'', GStr t)]"

text \<open>
  The witness: one free runtime, three targets of which the second does not start, and two sessions whose
  events arrive mixed.
\<close>

definition free_runtime :: RuntimeDescriptor where
  "free_runtime =
    \<lparr>dsc_SchemaVersion = [], Runtime = ''opencode'', dsc_Ownership = [], dsc_Transport = [],
     dsc_Capabilities = \<lparr>cap_StartSession = True, cap_ResumeSession = True, cap_SendInput = True,
       cap_Interrupt = True, cap_Respond = True, cap_StopSession = True, cap_ListSessions = True,
       cap_StreamEvents = True, cap_ApprovalRequests = False, cap_UserInputRequests = False,
       cap_ImmediateProviderSession = False, cap_ResumeByProviderID = False,
       cap_AdoptExternalSessions = False, cap_TextGeneration = True, cap_Embeddings = False\<rparr>, Probe = None\<rparr>"

definition mixed_controller :: "nat Controller" where
  "mixed_controller = sample_controller\<lparr>ctl_Describe := (\<lambda>_. [free_runtime]),
     ctl_StartSession := (\<lambda>_ r n. (if n = 2 then Inl (Err ''busy'')
       else Inr (no_session\<lparr>rs_SessionID := ssr_SessionID r\<rparr>), n))\<rparr>"

definition mixed_options :: FanoutOptions where
  "mixed_options = \<lparr>fop_Targets = [], fop_Prompt = ''go'', fop_Repeat = 3, fop_ModelOptions = no_options,
     fop_KeepSessions = True, fop_Metadata = []\<rparr>"

definition sample_started :: "string \<Rightarrow> RuntimeEvent" where
  "sample_started i = NewRuntimeEvent 0 1 (no_session\<lparr>rs_SessionID := i\<rparr>) EventTurnStarted [] ''t'' [] []"

definition mixed_signals :: "signal list" where
  "mixed_signals = [Received (sample_started ''fanout-''), Received (sample_started ''fanout-xx''),
     Received (sample_done ''fanout-xx'' ''three''), Tick, Received (sample_done ''fanout-'' ''one'')]"

definition mixed_run :: "((go_error + FanoutResult) \<times> signal list \<times> nat) option" where
  "mixed_run = RunFanout any_unicode mixed_controller sample_id mixed_options mixed_signals 0"

definition mixed_targets :: "FanoutTarget list" where
  "mixed_targets = [fanout_target ''opencode'' []]"

definition mixed_answers :: "(FanoutTarget \<times> (go_error + string)) list" where
  "mixed_answers = fst (start_answers mixed_controller sample_id mixed_options (fanout_targets mixed_options mixed_targets) 0)"

lemma mixed_run_result:
  "case mixed_run of
     Some (Inr r, _) \<Rightarrow> map (\<lambda>t. (fr_Text t, fr_Error t)) (fo_Targets r) = [([], ''busy''), (''three'', []), (''one'', [])]
   | _ \<Rightarrow> False"
  by code_simp

lemma mixed_answers_result: "map snd mixed_answers = [Inr ''fanout-'', Inl (Err ''busy''), Inr ''fanout-xx'']"
  by code_simp

lemma mixed_resolved: "ResolveFanoutTargets any_unicode [free_runtime] [] = Some (Inr mixed_targets)"
  by code_simp

theorem fanout_results_by_session_witness:
  "\<exists>result :: FanoutResult. map (\<lambda>t. (fr_Text t, fr_Error t)) (fo_Targets result) = [([], ''busy''), (''three'', []), (''one'', [])] \<and>
    map snd mixed_answers = [Inr ''fanout-'', Inl (Err ''busy''), Inr ''fanout-xx''] \<and>
    mset (map (Some \<circ> own_part) (fo_Targets result)) = mset (map (expected any_unicode mixed_signals) mixed_answers)"
proof -
  obtain result later w' where "mixed_run = Some (Inr result, later, w')" and
    texts: "map (\<lambda>t. (fr_Text t, fr_Error t)) (fo_Targets result) = [([], ''busy''), (''three'', []), (''one'', [])]"
    using mixed_run_result by (auto split: option.splits sum.splits prod.splits)
  note run = this(1) [unfolded mixed_run_def]
  have resolved: "ResolveFanoutTargets any_unicode (ctl_Describe mixed_controller 0) (fop_Targets mixed_options) =
      Some (Inr mixed_targets)"
    using mixed_resolved by (simp add: mixed_controller_def mixed_options_def)
  have answers: "start_answers mixed_controller sample_id mixed_options (fanout_targets mixed_options mixed_targets) 0 =
      (mixed_answers, snd (start_answers mixed_controller sample_id mixed_options (fanout_targets mixed_options mixed_targets) 0))"
    by (simp add: mixed_answers_def)
  have "started mixed_answers = concat (map (\<lambda>a. case a of Inl _ \<Rightarrow> [] | Inr k \<Rightarrow> [k]) (map snd mixed_answers))"
    by (simp add: started_def comp_def case_prod_unfold)
  then have "distinct (started mixed_answers)" by (simp add: mixed_answers_result)
  from fanout_results_by_session [OF run resolved answers this] texts mixed_answers_result show ?thesis
    by (intro exI [where x = result]) simp
qed

section \<open>Reductions\<close>

lemma missing_is_null: "map_of raw key = None \<Longrightarrow> trim_space (stringValue (map_get raw key)) \<noteq> []"
  by (simp add: map_get_def stringValue_def) code_simp

lemma finish_reduction_result:
  assumes "finish_reduction lib c keep session r w = (r', w')" "rr_Mode r \<noteq> ReductionModeGEval"
  shows "rr_JSON r' = rr_JSON r \<and> rr_Text r' = rr_Text r"
proof -
  have track: "track_reduction c session x v = (y, v') \<Longrightarrow>
      rr_JSON y = rr_JSON x \<and> rr_Text y = rr_Text x \<and> rr_Mode y = rr_Mode x" for x y v v'
    by (auto simp: track_reduction_def split: prod.splits sum.splits)
  from assms show ?thesis
    by (auto simp: finish_reduction_def geval_result_def Let_def split: prod.splits sum.splits if_splits dest!: track)
qed

lemma request_schema: "reduction_schema mode = Some s \<Longrightarrow>
    ssr_ResponseSchema (StartSessionRequest_Normalize (reduction_request lib i mode target fanout)) = Some s"
  by (simp add: StartSessionRequest_Normalize_def reduction_request_def)

text \<open>
  C39. The result of a reduction in any mode but \<open>g_eval\<close> (which puts a score of its own in place of it): a
  session has been started for the resolved target with the request of the mode, and the JSON is what the
  parser of the mode made of the four texts of one turn of that session, the first or the one after the
  repair; the schema of the mode has nothing against it.
\<close>

theorem RunReduction_sound:
  fixes c :: "'w Controller"
  assumes "RunReduction u compile lib c randomID mode fanout target keep signals w = Some (Inr r, later, w')"
    "rr_JSON r \<noteq> []" "mode \<noteq> ReductionModeGEval" "\<And>e. CtxDone e \<in> set signals \<Longrightarrow> \<not> errors_is e missing_text"
  shows "\<exists>resolved i w1 session used turns es.
    resolveReductionTarget u (ctl_Describe c w) target = Some (Inr resolved) \<and> randomID w = (i, w1) \<and>
    fst (ctl_StartSession c (ft_Backend resolved)
      (StartSessionRequest_Normalize (reduction_request lib i mode resolved fanout)) w1) = Inr session \<and>
    signals = used @ later \<and> events_of (rs_SessionID session) used = concat turns @ es \<and>
    length turns \<le> 1 \<and> (\<forall>t\<in>set (turns @ [es]). whole_turn t) \<and>
    ExtractStructuredJSON (parseReductionResult lib mode) (join_str [nl] (texts_of u es)) = (rr_Text r, rr_JSON r, None) \<and>
    schema_issue compile (reduction_schema mode) (rr_JSON r) = None"
proof -
  have mode: "mode \<noteq> []" using assms(1) by (auto simp: RunReduction_def)
  obtain resolved where resolved: "resolveReductionTarget u (ctl_Describe c w) target = Some (Inr resolved)"
    using assms(1) mode by (auto simp: RunReduction_def split: option.splits sum.splits)
  obtain i w1 where i: "randomID w = (i, w1)" by fastforce
  let ?request = "reduction_request lib i mode resolved fanout"
  let ?run = "RunStructuredSession u compile c (ft_Backend resolved) ?request (Some (reductionExtractor lib mode))
    (reduction_options mode) signals w1"
  note all = assms(1) [unfolded RunReduction_def Let_def, simplified mode resolved i assms(3) if_False option.case sum.case prod.case]
  obtain result f rest w2 where run0: "?run = Some ((result, f), rest, w2)"
    using all by (cases ?run) auto
  have f: "f = None" using all assms(2) run0 by (cases f) (auto simp: no_reduction_def)
  note run = run0 [unfolded f]
  have same: "rest = later" "rr_JSON r = sr_JSON result" "rr_Text r = sr_Text result"
    using all assms(3) run by (auto simp: no_reduction_def split: prod.splits dest!: finish_reduction_result)
  have free: "sentinel_free (reduction_options mode) signals"
    using assms(4) by (simp add: sentinel_free_def reduction_options_def)
  have schema: "ssr_ResponseSchema (StartSessionRequest_Normalize ?request) = reduction_schema mode" if "reduction_schema mode \<noteq> None"
    using that request_schema [of mode] by fastforce
  obtain session used turns es where
    start: "fst (ctl_StartSession c (ft_Backend resolved) (StartSessionRequest_Normalize ?request) w1) = Inr session"
    and used: "signals = used @ rest" "events_of (rs_SessionID session) used = concat turns @ es"
    and turns: "\<forall>t\<in>set turns. refused_turn u compile (reductionExtractor lib mode :: 'w extractor)
      (ssr_ResponseSchema (StartSessionRequest_Normalize ?request)) t"
    and es: "accepted_turn u compile (reductionExtractor lib mode :: 'w extractor)
      (ssr_ResponseSchema (StartSessionRequest_Normalize ?request)) es result"
    and attempt: "sr_RepairAttempt result = int (length turns)"
    using RunStructuredSession_sound_turns [OF run free] by blast
  have "sr_RepairAttempt result \<le> 1"
    using RunStructuredSession_attempts [OF run] by (simp add: reduction_options_def)
  then have "length turns \<le> 1" using attempt by simp
  moreover have "\<forall>t\<in>set (turns @ [es]). whole_turn t"
    using turns es by (auto simp: refused_turn_def accepted_turn_def)
  moreover have "schema_issue compile (reduction_schema mode) (rr_JSON r) = None"
    using es schema same by (cases "reduction_schema mode") (auto simp: accepted_turn_def schema_issue_def)
  moreover have "ExtractStructuredJSON (parseReductionResult lib mode) (join_str [nl] (texts_of u es)) = (rr_Text r, rr_JSON r, None)"
    using es same assms(3) by (auto simp: accepted_turn_def reductionExtractor_def)
  ultimately show ?thesis using resolved i start used same by blast
qed

text \<open>
  C40. The parser of a result asks whether the required fields are blank, but the text of a missing field is
  that of \<open>nil\<close>, \<open>null\<close>: an object without any of the required fields is a result, and only the schema of
  the session stands against it.
\<close>

theorem parseReductionResult_missing_fields:
  assumes "mode \<in> {ReductionModeCompare, ReductionModeSummarize, ReductionModeBestOfN}"
    "decode_result candidate = Some m"
    "\<And>key. key \<in> {''summary'', ''comparison'', ''synthesis'', ''winner_label'', ''rationale''} \<Longrightarrow>
      map_of (case_option [] id m) key = None"
  shows "\<exists>text. parseReductionResult lib mode candidate = Inr (text, case_option [] id (marshal_any (GMap m)))"
  using assms(1,2) assms(3) [of "''summary''"] assms(3) [of "''comparison''"] assms(3) [of "''synthesis''"]
    assms(3) [of "''winner_label''"] assms(3) [of "''rationale''"]
  by (auto simp: parseReductionResult_def blank_field_def missing_is_null Let_def)

definition free_controller :: "nat Controller" where
  "free_controller = sample_controller\<lparr>ctl_Describe := (\<lambda>_. [free_runtime])\<rparr>"

definition no_evals :: evals where
  "no_evals = \<lparr>ev_judge = (\<lambda>_. Inl (Err ''none'')), ev_geval = (\<lambda>_. None), ev_json_error = (\<lambda>_. []), ev_candidates = (\<lambda>_. [])\<rparr>"

definition sample_reduction :: "((go_error + ReductionResult) \<times> signal list \<times> nat) option" where
  "sample_reduction = RunReduction any_unicode (\<lambda>_. None) no_evals free_controller sample_id ReductionModeCompare
     (fanout_output ''go'' []) (fanout_target [] []) True
     [Received (sample_done ''reduce-'' (''{'' @ quoted_key ''summary'' @ dotted @ '','' @ quoted_key ''comparison''
        @ dotted @ ''}''))] 0"

lemma sample_reduction_result:
  "case sample_reduction of Some (Inr r, _) \<Rightarrow> rr_JSON r \<noteq> [] | _ \<Rightarrow> False"
  by code_simp

theorem RunReduction_sound_witness:
  "\<exists>(r :: ReductionResult) es. rr_JSON r \<noteq> [] \<and> whole_turn es \<and>
    ExtractStructuredJSON (parseReductionResult no_evals ReductionModeCompare) (join_str [nl] (texts_of any_unicode es)) =
      (rr_Text r, rr_JSON r, None)"
proof -
  obtain r later w where "sample_reduction = Some (Inr r, later, w)" and found: "rr_JSON r \<noteq> []"
    using sample_reduction_result by (auto split: option.splits sum.splits prod.splits)
  note run = this(1) [unfolded sample_reduction_def]
  have "ReductionModeCompare \<noteq> ReductionModeGEval" by simp
  from RunReduction_sound [OF run found this] found show ?thesis by fastforce
qed

theorem parseReductionResult_missing_fields_witness:
  "\<exists>text. parseReductionResult no_evals ReductionModeBestOfN ''{}'' = Inr (text, ''{}'')"
proof -
  have "decode_result ''{}'' = Some (Some [])" by code_simp
  moreover have "marshal_any (GMap (Some [])) = Some ''{}''" by code_simp
  ultimately show ?thesis
    using parseReductionResult_missing_fields [of ReductionModeBestOfN "''{}''" "Some []" no_evals] by simp
qed

end
