(* ===== verification/Spec2Isabelle.thy ===== *)
theory Spec2Isabelle
  imports RepairSpec ToolExtractSpec ModelSpec JsonExtractSpec Requests CourtWorkflowSpec
    CourtRaces CourtConsistency WorkspaceSpec ControlStateSpec ProviderResultsSpec
    ResilientEmbedSpec ThreadTurnsSpec ServiceThreads FanoutSpec
begin

text \<open>
  A model of the core of \<^emph>\<open>agentic-control\<close>, a control plane for coding agents written in Go: it
  runs sessions of several agent runtimes (Codex, Claude, Gemini, OpenCode, Pi, OpenAI-compatible
  servers) behind one contract, repairs and extracts what models write, and orchestrates them, up
  to a court of workers (a clerk, jurors, judges) whose runs are kept in a database.

  \<^bold>\<open>The parts and where they are.\<close> A theory reads like the file it models: a struct is a record, an
  operation has the name of the Go function, and a method of a type whose name clashes has the
  type in front of it. The file \<^verbatim>\<open>PROJECT.json\<close> maps every definition to its lines.

  \<^item> \<^bold>\<open>The language and its library.\<close> \<^verbatim>\<open>Prelude\<close> (strings are byte lists, the package \<open>strings\<close>),
    \<^verbatim>\<open>GoLib\<close> (sorting with a comparison, quoting, \<open>int64\<close>, errors), \<^verbatim>\<open>Json\<close> (the scanner and the
    values of \<open>encoding/json\<close>), \<^verbatim>\<open>JsonEncode\<close> (its encoder and values of unknown type), \<^verbatim>\<open>JsonDecode\<close> (decoding into
    structs), \<^verbatim>\<open>Base64\<close>, \<^verbatim>\<open>GoFloat\<close>
    (\<open>float64\<close> with rounding, \<open>strconv\<close>), \<^verbatim>\<open>Process\<close> and \<^verbatim>\<open>Parallel\<close> (programs that share a state,
    goroutines).
  \<^item> \<^bold>\<open>Repairing and extracting what a model wrote\<close> (\<^verbatim>\<open>pkg/toolrepair\<close>): \<^verbatim>\<open>RepairScan\<close>, \<^verbatim>\<open>LazyBuf\<close>,
    \<^verbatim>\<open>RepairPasses\<close>, \<^verbatim>\<open>JsonRepair\<close> model \<^verbatim>\<open>jsonrepair.go\<close> and \<^verbatim>\<open>RepairValid\<close>, \<^verbatim>\<open>RepairText\<close>,
    \<^verbatim>\<open>RepairRecover\<close>, \<^verbatim>\<open>RepairSpec\<close> prove what it promises; \<^verbatim>\<open>ToolExtract\<close> and \<^verbatim>\<open>ToolExtractSpec\<close>
    are \<^verbatim>\<open>extract.go\<close>; \<^verbatim>\<open>JsonExtract\<close> and its \<^verbatim>\<open>Spec\<close> are \<^verbatim>\<open>pkg/controlplane/json_extract.go\<close>.
  \<^item> \<^bold>\<open>Models and runtimes\<close> (\<^verbatim>\<open>pkg/contract\<close>, \<^verbatim>\<open>pkg/controlplane\<close>): \<^verbatim>\<open>Contract\<close> (data), \<^verbatim>\<open>ModelCatalog\<close>,
    \<^verbatim>\<open>RuntimeTarget\<close>, \<^verbatim>\<open>ModelRegistry\<close>, \<^verbatim>\<open>ModelSelect\<close>, \<^verbatim>\<open>Requests\<close>; theorems in \<^verbatim>\<open>ModelSpec\<close>.
  \<^item> \<^bold>\<open>Orchestration and the court\<close> (\<^verbatim>\<open>internal/orchestration\<close>, \<^verbatim>\<open>internal/court\<close>): \<^verbatim>\<open>Orchestration\<close> is
    the kernel that runs a worker through hooks; \<^verbatim>\<open>CourtTypes\<close>, \<^verbatim>\<open>CourtWorkflow\<close>, \<^verbatim>\<open>CourtResult\<close>,
    \<^verbatim>\<open>CourtDelegation\<close>, \<^verbatim>\<open>CourtStore\<close>, \<^verbatim>\<open>CourtEngine\<close>, \<^verbatim>\<open>CourtLifecycle\<close> are the engine over its
    database. \<^verbatim>\<open>CourtWorkflowSpec\<close>, \<^verbatim>\<open>CourtSafety\<close>, \<^verbatim>\<open>CourtProgress\<close>, \<^verbatim>\<open>CourtConsistency\<close>,
    \<^verbatim>\<open>CourtRaces\<close> hold the theorems, \<^verbatim>\<open>CourtSample\<close> the court of their witnesses.
  \<^item> \<^bold>\<open>The service\<close> (\<^verbatim>\<open>internal/controlplane\<close>): \<^verbatim>\<open>Workspace\<close> (memory, documents, tasks, wakeups, leases),
    \<^verbatim>\<open>Events\<close> (sessions and events), \<^verbatim>\<open>ControlState\<close> (event bus, attention queue, directory and ledger
    of sessions); theorems in \<^verbatim>\<open>WorkspaceSpec\<close> and \<^verbatim>\<open>ControlStateSpec\<close>.
  \<^item> \<^bold>\<open>Calls of a provider\<close> (\<^verbatim>\<open>pkg/controlplane\<close>): \<^verbatim>\<open>ProviderResults\<close> (results, errors, aggregation) and
    \<^verbatim>\<open>ResilientEmbed\<close> (embedding with retries in halves), with a \<^verbatim>\<open>Spec\<close> each.
  \<^item> \<^bold>\<open>Threads\<close> (\<^verbatim>\<open>internal/controlplane\<close>): \<^verbatim>\<open>ThreadStore\<close> (the tables of threads and their events),
    \<^verbatim>\<open>ThreadTurns\<close> (the turns that a history is shown as), \<^verbatim>\<open>ContentParts\<close> (which inputs are accepted) and
    \<^verbatim>\<open>Service\<close>, the operations of \<^verbatim>\<open>service.go\<close> over providers, directory, ledger, store and bus;
    theorems in \<^verbatim>\<open>ThreadTurnsSpec\<close>, \<^verbatim>\<open>ServiceSpec\<close> and \<^verbatim>\<open>ServiceThreads\<close>.
  \<^item> \<^bold>\<open>Sessions with a result\<close>: \<^verbatim>\<open>TurnAccumulator\<close> and \<^verbatim>\<open>StructuredSession\<close> (\<^verbatim>\<open>pkg/controlplane\<close>: a turn
    that has to end with JSON, and its repair turns), \<^verbatim>\<open>Fanout\<close> (one prompt for several targets) and
    \<^verbatim>\<open>Reduction\<close> (\<^verbatim>\<open>internal/orchestration\<close>: their results reduced to one by another session), which
    rests on all of them and on \<^verbatim>\<open>JsonExtract\<close>; theorems in \<^verbatim>\<open>FanoutSpec\<close>.

  \<^bold>\<open>State and effects.\<close> An operation under a lock is a function of the state it guards. An operation
  of several SQL statements is a process: each statement is one atomic action on a record of
  tables (lists of rows in the order of insertion), and others may act between two of them;
  \<open>run\<close> is the process alone, an interleaving is a list of who acts next. The database may fail:
  the court's record has a list \<open>faults\<close> of what the next statements meet, the workspace a list of
  connections. The goroutines of one operation are \<open>par\<close>, whose scheduler is part of the state, so
  a theorem about every state holds for every schedule. A loop over a \<open>select\<close> takes a list of the
  signals that it receives and waits on (\<open>None\<close>) when it has taken them all. An error is the left side of a sum, with
  Go's early return as \<open>must\<close>; what the code ignores is ignored by \<open>also_do\<close>.

  \<^bold>\<open>What is an argument.\<close> Code outside of the repository and the outside world: random identifiers
  and clocks, the sessions in which a backend works, providers and callbacks (they act on a world
  of any type), Unicode tables (the record \<open>unicode\<close>), SHA-256, the conversion of a float out of
  range to \<open>int64\<close> (left open by Go), the schema validator, the judge and the score of evaluations,
  \<open>url.Parse\<close>, the speech bridge. Their documented behaviour is a named hypothesis where a
  theorem needs it, and a witness shows that it can hold.

  \<^bold>\<open>What the lemmas show.\<close> Repair: valid JSON is kept, the result is valid or the input comes back
  with an error, prose with raw quotes is recovered. Extraction: calls come back in order, reported
  texts are disjoint pieces, the brace counter agrees with the JSON scanner. Registry and targets:
  what a registry names is in it, a validated target names something that is there. Court: every
  interleaving of operations keeps the tables consistent, reconciling only does what the workers
  call for, a started run completes within as many turns as its preset has roles; and two races
  that lose a cancellation or an interrupt. Workspace: leases exclude each other, edits of a
  document linearize; and what is not guaranteed. Service: the bus delivers in order, the ledger
  accounts for every token. Threads: the turns are the events grouped by their identifiers, a completed
  turn carries the calls and the text of its own events, the table follows the ledger when operations
  do not overlap; and where it is overtaken, where words run together and where a history ends.
  Structured sessions: they end with their context, ask a bounded number of times and return only
  what the extractor and the schema accept; the results of a fan-out do not depend on how the events
  of its sessions are interleaved; a reduction satisfies the schema of its mode. Embedding: a bounded number of calls, the right vector for every text
  under every schedule, success with a provider that takes small batches only.

  \<^bold>\<open>Bounds.\<close> Every definition is total. The JSON scanner refuses more than \<open>max_nesting = 10000\<close>
  levels as Go does. The decoder of nested log probabilities recurses on the size of the JSON value.
  The repair turns of a structured session are bounded by \<open>MaxRepairTurns\<close>. \<open>embedJobs\<close> recurses on the retries that are left; the court's progress
  theorem bounds its turns by the roles of the preset. Integers are unbounded where the code only
  counts what is in memory and wrap at 64 bits (\<open>int64\<close>) where clients supply them.

  \<^bold>\<open>Abstractions.\<close> A Go map is a map or an association list with different keys; where the code
  iterates over one, its order is the list's order, and theorems say that the result does not
  depend on it. A nil map or slice is told from an empty one only where the code does. Times are
  the texts or milliseconds the code stores. JSON columns of the workspace and artifacts of the
  court hold values instead of their texts, and so do those of the thread store; the lines of JSON of a
  turn are kept as the events they encode. A call of a provider under the lock of its session is one
  action. \<open>NormalizeModelSelection\<close> works in place in Go, on
  pointers that no caller shares. The JSON forms of model options are not modelled.

  \<^bold>\<open>Not modelled.\<close> The adapters of the providers (\<^verbatim>\<open>pkg/providers\<close>: child processes, HTTP and JSON-RPC
  with foreign programs whose protocol is not in the repository), the sockets and HTTP servers
  (\<^verbatim>\<open>server.go\<close>, \<^verbatim>\<open>internal/apphost\<close>), the command line (\<^verbatim>\<open>cmd\<close>), the hook harness (\<^verbatim>\<open>internal/harness\<close>),
  speech and the accessibility bridge, configuration files and catalogs read from the file system,
  the evaluation of datasets, which is a library outside of the repository, and the indented JSON of
  the candidates in the prompt of a reduction. They move data in
  and out of the parts modelled here; \<^verbatim>\<open>PROJECT.json\<close> lists them with the reason.
\<close>

end
